(* ===== verification/Prelude.thy ===== *)
theory Prelude
  imports Main "HOL-Library.Char_ord" "HOL-Library.List_Lexorder" "HOL-Library.Option_ord"
    "HOL-Library.Product_Lexorder"
begin

text \<open>
  Shared vocabulary of the development.

  \<^item> Strings. A Rust \<open>str\<close> is a byte string in UTF-8, so \<open>string\<close> (a list of bytes) is taken
    literally: \<open>length\<close> is \<open>str::len\<close>. \<open>utf8_chars\<close> splits a byte string into its encoded
    characters (a lead byte and its continuation bytes), and the functions the sources use
    (\<open>trim\<close>, \<open>chars().take(n)\<close>, \<open>contains\<close>, \<open>lines\<close>, \<open>split\<close>, \<open>to_ascii_lowercase\<close>,
    \<open>is_control\<close>, \<open>is_whitespace\<close>) are defined over it.
  \<^item> SQL tables. A table is the list of its rows in insertion order. \<open>update_where\<close>,
    \<open>delete_where\<close> and \<open>find_row\<close> are \<open>UPDATE .. WHERE\<close>, \<open>DELETE .. WHERE\<close> and a
    \<open>SELECT .. WHERE\<close> that fetches the first row; text is ordered byte by byte and NULL sorts
    first, as SQLite does.
  \<^item> Results. A fallible function returns \<open>error + 'a\<close>; a chain of validations followed by
    \<open>?\<close> is \<open>first_error\<close> of the list of their outcomes.
\<close>

named_theorems table_simps \<open>lookup after insert, update and delete on tables\<close>
named_theorems str_simps \<open>evaluation of the string functions\<close>

section \<open>Bytes and characters\<close>

definition byte :: "char \<Rightarrow> int" where
  "byte c = of_char c"

definition is_cont :: "char \<Rightarrow> bool" where
  "is_cont c \<longleftrightarrow> 128 \<le> byte c \<and> byte c < 192"

function utf8_chars :: "string \<Rightarrow> string list" where
  "utf8_chars [] = []"
| "utf8_chars (b # bs) = (b # takeWhile is_cont bs) # utf8_chars (dropWhile is_cont bs)"
  by pat_completeness auto
termination
  by (relation "measure length") (auto simp: le_imp_less_Suc length_dropWhile_le)

lemma concat_utf8_chars [simp]: "concat (utf8_chars s) = s"
  by (induction s rule: utf8_chars.induct) simp_all

lemma utf8_chars_eq_Nil [simp]: "utf8_chars s = [] \<longleftrightarrow> s = []"
  by (cases s) simp_all

text \<open>The Unicode scalar value that one encoded character stands for.\<close>

fun code_point :: "string \<Rightarrow> int" where
  "code_point [a] = byte a"
| "code_point [a, b] = (byte a - 192) * 64 + (byte b - 128)"
| "code_point [a, b, c] = ((byte a - 224) * 64 + (byte b - 128)) * 64 + (byte c - 128)"
| "code_point [a, b, c, d] =
     (((byte a - 240) * 64 + (byte b - 128)) * 64 + (byte c - 128)) * 64 + (byte d - 128)"
| "code_point _ = 0"

definition is_whitespace :: "string \<Rightarrow> bool" where
  "is_whitespace c \<longleftrightarrow>
     (let n = code_point c in
      (9 \<le> n \<and> n \<le> 13) \<or> n = 32 \<or> n = 133 \<or> n = 160 \<or> n = 5760 \<or> (8192 \<le> n \<and> n \<le> 8202)
      \<or> n = 8232 \<or> n = 8233 \<or> n = 8239 \<or> n = 8287 \<or> n = 12288)"

definition is_control :: "string \<Rightarrow> bool" where
  "is_control c \<longleftrightarrow> (let n = code_point c in n < 32 \<or> (127 \<le> n \<and> n < 160))"

definition is_ascii_alphanumeric :: "string \<Rightarrow> bool" where
  "is_ascii_alphanumeric c \<longleftrightarrow>
     (let n = code_point c in
      (48 \<le> n \<and> n \<le> 57) \<or> (65 \<le> n \<and> n \<le> 90) \<or> (97 \<le> n \<and> n \<le> 122))"

definition is_ascii_lower :: "string \<Rightarrow> bool" where
  "is_ascii_lower c \<longleftrightarrow> 97 \<le> code_point c \<and> code_point c \<le> 122"

definition is_ascii_upper :: "string \<Rightarrow> bool" where
  "is_ascii_upper c \<longleftrightarrow> 65 \<le> code_point c \<and> code_point c \<le> 90"

definition is_ascii_digit :: "string \<Rightarrow> bool" where
  "is_ascii_digit c \<longleftrightarrow> 48 \<le> code_point c \<and> code_point c \<le> 57"

section \<open>String functions of the standard library\<close>

definition trim_start :: "string \<Rightarrow> string" where
  "trim_start s = concat (dropWhile is_whitespace (utf8_chars s))"

definition trim :: "string \<Rightarrow> string" where
  "trim s = concat (rev (dropWhile is_whitespace
              (rev (dropWhile is_whitespace (utf8_chars s)))))"

text \<open>\<open>s.trim().is_empty()\<close>, the test most validations make.\<close>

definition blank :: "string \<Rightarrow> bool" where
  "blank s \<longleftrightarrow> trim s = []"

fun take_int :: "int \<Rightarrow> 'a list \<Rightarrow> 'a list" where
  "take_int n [] = []"
| "take_int n (x # xs) = (if n \<le> 0 then [] else x # take_int (n - 1) xs)"

definition chars_take :: "int \<Rightarrow> string \<Rightarrow> string" where
  "chars_take n s = concat (take_int n (utf8_chars s))"

definition any_char :: "(string \<Rightarrow> bool) \<Rightarrow> string \<Rightarrow> bool" where
  "any_char p s \<longleftrightarrow> (\<exists>c \<in> set (utf8_chars s). p c)"

definition all_chars :: "(string \<Rightarrow> bool) \<Rightarrow> string \<Rightarrow> bool" where
  "all_chars p s \<longleftrightarrow> (\<forall>c \<in> set (utf8_chars s). p c)"

fun starts_with :: "string \<Rightarrow> string \<Rightarrow> bool" where
  "starts_with s [] = True"
| "starts_with [] (_ # _) = False"
| "starts_with (a # s) (b # p) = (a = b \<and> starts_with s p)"

fun contains :: "string \<Rightarrow> string \<Rightarrow> bool" where
  "contains [] p = (p = [])"
| "contains (a # s) p = (starts_with (a # s) p \<or> contains s p)"

definition ends_with :: "string \<Rightarrow> string \<Rightarrow> bool" where
  "ends_with s p = starts_with (rev s) (rev p)"

definition lower_byte :: "char \<Rightarrow> char" where
  "lower_byte c = (if 65 \<le> byte c \<and> byte c \<le> 90 then char_of (byte c + 32) else c)"

definition to_ascii_lowercase :: "string \<Rightarrow> string" where
  "to_ascii_lowercase s = map lower_byte s"

text \<open>\<open>split(c)\<close>: the pieces between separators; one piece when there is none.\<close>

fun split_on :: "char \<Rightarrow> string \<Rightarrow> string list" where
  "split_on c [] = [[]]"
| "split_on c (x # xs) =
     (if x = c then [] # split_on c xs
      else (case split_on c xs of [] \<Rightarrow> [[x]] | p # ps \<Rightarrow> (x # p) # ps))"

definition strip_cr :: "string \<Rightarrow> string" where
  "strip_cr l = (if l \<noteq> [] \<and> last l = CHR 0x0D then butlast l else l)"

text \<open>
  \<open>str::lines\<close>: split at line feeds, a final empty piece is no line. A carriage return is
  removed only in front of a line feed, so a last line without one keeps it.
\<close>

definition lines :: "string \<Rightarrow> string list" where
  "lines s =
     (let ps = split_on (CHR 0x0A) s
      in map strip_cr (butlast ps) @ (if last ps = [] then [] else [last ps]))"

definition trim_end_matches :: "char list \<Rightarrow> string \<Rightarrow> string" where
  "trim_end_matches cs s = rev (dropWhile (\<lambda>c. c \<in> set cs) (rev s))"

fun join :: "string \<Rightarrow> string list \<Rightarrow> string" where
  "join sep [] = []"
| "join sep [x] = x"
| "join sep (x # y # ys) = x @ sep @ join sep (y # ys)"

function digits :: "int \<Rightarrow> string" where
  "digits n = (if n < 10 then [char_of (48 + n)] else digits (n div 10) @ [char_of (48 + n mod 10)])"
  by pat_completeness auto
termination
  by (relation "measure nat") auto

declare digits.simps [simp del]

definition int_str :: "int \<Rightarrow> string" where
  "int_str i = (if i < 0 then ''-'' @ digits (- i) else digits i)"

lemma split_on_not_Nil [simp]: "split_on c s \<noteq> []"
  by (induction s) (auto split: list.splits)

lemma split_on_prefix: "split_on c s = p # ps \<Longrightarrow> \<exists>r. s = p @ r"
proof (induction s arbitrary: p ps)
  case Nil
  then show ?case by simp
next
  case (Cons x s)
  obtain q qs where q: "split_on c s = q # qs" by (cases "split_on c s") simp_all
  with Cons.IH obtain r where "s = q @ r" by blast
  with Cons.prems q show ?case by (auto split: if_splits)
qed

lemma starts_with_prefix: "starts_with s p \<longleftrightarrow> (\<exists>r. s = p @ r)"
  by (induction s p rule: starts_with.induct) auto

lemma contains_sublist: "contains s p \<longleftrightarrow> (\<exists>a b. s = a @ p @ b)"
proof (induction s)
  case Nil
  then show ?case by auto
next
  case (Cons x s)
  have "(\<exists>a b. x # s = a @ p @ b) \<longleftrightarrow> (\<exists>b. x # s = p @ b) \<or> (\<exists>a b. s = a @ p @ b)"
    by (metis append_Cons append_Nil list.exhaust list.inject)
  then show ?case using Cons by (simp add: starts_with_prefix)
qed

lemma take_int_eq: "take_int n xs = take (nat n) xs"
proof (induction n xs rule: take_int.induct)
  case (2 n x xs)
  then show ?case by (cases "n \<le> 0") (simp_all add: take_Cons' nat_diff_distrib)
qed simp

lemma chars_take_length: "int (length (utf8_chars s)) \<le> n \<Longrightarrow> chars_take n s = s"
  by (simp add: chars_take_def take_int_eq)

section \<open>Options and results\<close>

text \<open>SQL's \<open>COALESCE(new, old)\<close> and Rust's \<open>a.or(b)\<close>.\<close>

definition coalesce :: "'a option \<Rightarrow> 'a option \<Rightarrow> 'a option" where
  "coalesce a b = (case a of Some x \<Rightarrow> Some x | None \<Rightarrow> b)"

definition unwrap_or :: "'a option \<Rightarrow> 'a \<Rightarrow> 'a" where
  "unwrap_or a b = (case a of Some x \<Rightarrow> x | None \<Rightarrow> b)"

lemma coalesce_simps [simp]: "coalesce None b = b" "coalesce (Some x) b = Some x"
  by (simp_all add: coalesce_def)

lemma unwrap_or_simps [simp]: "unwrap_or None b = b" "unwrap_or (Some x) b = x"
  by (simp_all add: unwrap_or_def)

fun first_error :: "'e option list \<Rightarrow> 'e option" where
  "first_error [] = None"
| "first_error (None # xs) = first_error xs"
| "first_error (Some e # xs) = Some e"

lemma first_error_None: "first_error xs = None \<longleftrightarrow> (\<forall>x \<in> set xs. x = None)"
  by (induction xs rule: first_error.induct) auto

lemma first_error_append [simp]:
  "first_error (xs @ ys) = (case first_error xs of None \<Rightarrow> first_error ys | Some e \<Rightarrow> Some e)"
  by (induction xs rule: first_error.induct) auto

lemma first_error_Cons:
  "first_error (x # xs) = (case x of None \<Rightarrow> first_error xs | Some e \<Rightarrow> Some e)"
  by (cases x) auto

section \<open>SQL tables\<close>

definition update_where :: "('r \<Rightarrow> bool) \<Rightarrow> ('r \<Rightarrow> 'r) \<Rightarrow> 'r list \<Rightarrow> 'r list" where
  "update_where p f rows = map (\<lambda>r. if p r then f r else r) rows"

definition delete_where :: "('r \<Rightarrow> bool) \<Rightarrow> 'r list \<Rightarrow> 'r list" where
  "delete_where p rows = filter (\<lambda>r. \<not> p r) rows"

definition rows_affected :: "('r \<Rightarrow> bool) \<Rightarrow> 'r list \<Rightarrow> nat" where
  "rows_affected p rows = length (filter p rows)"

abbreviation find_row :: "('r \<Rightarrow> bool) \<Rightarrow> 'r list \<Rightarrow> 'r option" where
  "find_row p rows \<equiv> find p rows"

lemma update_where_Nil [simp]: "update_where p f [] = []"
  by (simp add: update_where_def)

lemma update_where_Cons [simp]:
  "update_where p f (r # rs) = (if p r then f r else r) # update_where p f rs"
  by (simp add: update_where_def)

lemma update_where_append [simp]:
  "update_where p f (xs @ ys) = update_where p f xs @ update_where p f ys"
  by (simp add: update_where_def)

lemma length_update_where [simp]: "length (update_where p f rs) = length rs"
  by (simp add: update_where_def)

lemma map_update_where: "(\<And>r. p r \<Longrightarrow> g (f r) = g r) \<Longrightarrow> map g (update_where p f rs) = map g rs"
  by (induction rs) auto

lemma set_update_where: "set (update_where p f rs) = f ` {r \<in> set rs. p r} \<union> {r \<in> set rs. \<not> p r}"
  by (auto simp: update_where_def image_iff split: if_splits)

lemma update_whereE:
  assumes "q \<in> set (update_where p f rs)"
  obtains r where "r \<in> set rs" and "q = (if p r then f r else r)"
  using assms unfolding update_where_def by auto

lemma update_where_id: "(\<And>r. r \<in> set rs \<Longrightarrow> \<not> p r) \<Longrightarrow> update_where p f rs = rs"
  by (induction rs) auto

lemma update_where_twice:
  "(\<And>r. p r \<Longrightarrow> p (f r)) \<Longrightarrow> update_where p g (update_where p f rs) = update_where p (g \<circ> f) rs"
  by (induction rs) auto

lemma find_update_where [table_simps]:
  "(\<And>r. p r \<Longrightarrow> q (f r) = q r) \<Longrightarrow>
   find q (update_where p f rs) = map_option (\<lambda>r. if p r then f r else r) (find q rs)"
  by (induction rs) auto

lemma find_append [table_simps]:
  "find p (xs @ ys) = (case find p xs of Some r \<Rightarrow> Some r | None \<Rightarrow> find p ys)"
  by (induction xs) auto

lemma find_Some_D: "find p rs = Some r \<Longrightarrow> r \<in> set rs \<and> p r"
  by (metis find_Some_iff nth_mem)

lemma find_None_D: "find p rs = None \<Longrightarrow> r \<in> set rs \<Longrightarrow> \<not> p r"
  by (simp add: find_None_iff)

lemma find_delete_where [table_simps]:
  "find q (delete_where p rs) = find (\<lambda>r. q r \<and> \<not> p r) rs"
  by (induction rs) (auto simp: delete_where_def)

lemma find_conj: "find p rs = Some r \<Longrightarrow> q r \<Longrightarrow> find (\<lambda>x. p x \<and> q x) rs = Some r"
  by (induction rs) (auto split: if_splits)

lemma rows_affected_0: "rows_affected p rs = 0 \<longleftrightarrow> (\<forall>r \<in> set rs. \<not> p r)"
  by (simp add: rows_affected_def filter_empty_conv)

lemma find_key_unique:
  "distinct (map key rs) \<Longrightarrow> r \<in> set rs \<Longrightarrow> find (\<lambda>x. key x = key r) rs = Some r"
  by (induction rs) (force simp: image_iff)+

lemma distinct_key_eq:
  assumes "distinct (map key rs)" and "r \<in> set rs" and "q \<in> set rs" and "key q = key r"
  shows "q = r"
  using find_key_unique [OF assms(1,2)] find_key_unique [OF assms(1,3)] assms(4) by simp

text \<open>A new name given to the one row with a key, when no other row has it, stays unique.\<close>

lemma distinct_rename:
  assumes "distinct (map j rows)" and "distinct (map k rows)" and "\<forall>g \<in> set rows. j g \<noteq> i \<longrightarrow> k g \<noteq> n"
    and "\<And>g. k (f g) = n"
  shows "distinct (map k (update_where (\<lambda>g. j g = i) f rows))"
  using assms(1-3)
proof (induction rows)
  case (Cons r rows)
  have ne: "k q \<noteq> k (if j r = i then f r else r)"
    if q: "q \<in> set (update_where (\<lambda>g. j g = i) f rows)" for q
  proof -
    from q obtain g where g: "g \<in> set rows" "q = (if j g = i then f g else g)" by (rule update_whereE)
    have "j g \<noteq> j r" "k g \<noteq> k r" using Cons.prems(1,2) g(1) by (auto simp: image_iff)
    with g Cons.prems(3) assms(4) show ?thesis by (auto split: if_splits)
  qed
  have "k (if j r = i then f r else r) \<notin> k ` set (update_where (\<lambda>g. j g = i) f rows)"
  proof
    assume "k (if j r = i then f r else r) \<in> k ` set (update_where (\<lambda>g. j g = i) f rows)"
    then obtain q where "q \<in> set (update_where (\<lambda>g. j g = i) f rows)"
      "k (if j r = i then f r else r) = k q" by (rule imageE)
    with ne [of q] show False by simp
  qed
  with Cons.IH Cons.prems show ?case by simp
qed simp

text \<open>Rows that agree on some columns are found under the same condition on those columns.\<close>

lemma find_same_columns:
  assumes "map c xs = map c ys" and "\<And>r. p r = q (c r)"
  shows "map_option c (find p xs) = map_option c (find p ys)"
  using assms(1)
proof (induction xs arbitrary: ys)
  case (Cons x xs)
  then obtain y ys' where ys: "ys = y # ys'" "c x = c y" "map c xs = map c ys'" by auto
  moreover have "p x = p y" using assms(2) [of x] assms(2) [of y] ys(2) by simp
  ultimately show ?case using Cons.IH [OF ys(3)] by simp
qed simp

text \<open>\<open>SELECT .. WHERE p ORDER BY k LIMIT 1\<close>.\<close>

lemma first_by_key_Some:
  assumes "(case sort_key k (filter p xs) of [] \<Rightarrow> None | t # _ \<Rightarrow> Some t) = Some t"
  shows "t \<in> set xs \<and> p t \<and> (\<forall>y \<in> set xs. p y \<longrightarrow> k t \<le> k y)"
proof (cases "sort_key k (filter p xs)")
  case Nil
  with assms show ?thesis by simp
next
  case (Cons s ts)
  with assms have sk: "sort_key k (filter p xs) = t # ts" by simp
  have "set (t # ts) = set (filter p xs)" by (metis sk set_sort)
  moreover have "sorted (map k (t # ts))" by (metis sk sorted_sort_key)
  ultimately show ?thesis by fastforce
qed

lemma first_by_key_None:
  "(case sort_key k (filter p xs) of [] \<Rightarrow> None | t # _ \<Rightarrow> Some t) = None
     \<longleftrightarrow> (\<forall>x \<in> set xs. \<not> p x)"
proof (cases "sort_key k (filter p xs)")
  case Nil
  then have "set (filter p xs) = {}" by (metis set_empty set_sort)
  with Nil show ?thesis by auto
next
  case (Cons s ts)
  then have "s \<in> set (filter p xs)" by (metis list.set_intros(1) set_sort)
  with Cons show ?thesis by auto
qed

end
