(* ===== verification/Json.thy ===== *)
theory Json
  imports Prelude "HOL-Library.Word"
begin

text \<open>
  JSON values (\<open>serde_json::Value\<close>) and the external functions of the server.

  \<open>serde_json\<close> itself is not part of the repository: the value type and its accessors
  (\<open>get\<close>, \<open>as_str\<close>, \<open>as_i64\<close>, \<open>as_u64\<close>, \<open>as_array\<close>) follow its documented behaviour, and
  the text parser and printer are fields of the record \<open>ext\<close>, which collects every function
  that the sources call and do not define (JSON text, URL parsing, hashing). A floating point
  number is carried as its 64-bit pattern: the server only stores and forwards them.
\<close>

type_synonym f64 = "64 word"

datatype json =
    JNull
  | JBool bool
  | JInt int
  | JFloat f64
  | JStr string
  | JArr "json list"
  | JObj "(string \<times> json) list"

fun jget :: "json \<Rightarrow> string \<Rightarrow> json option" where
  "jget (JObj kvs) k = map_of kvs k"
| "jget _ k = None"

fun as_str :: "json \<Rightarrow> string option" where
  "as_str (JStr s) = Some s"
| "as_str _ = None"

fun as_i64 :: "json \<Rightarrow> int option" where
  "as_i64 (JInt i) = (if - (2 ^ 63) \<le> i \<and> i < 2 ^ 63 then Some i else None)"
| "as_i64 _ = None"

fun as_u64 :: "json \<Rightarrow> int option" where
  "as_u64 (JInt i) = (if 0 \<le> i \<and> i < 2 ^ 64 then Some i else None)"
| "as_u64 _ = None"

fun as_array :: "json \<Rightarrow> json list option" where
  "as_array (JArr xs) = Some xs"
| "as_array _ = None"

fun is_object :: "json \<Rightarrow> bool" where
  "is_object (JObj _) = True"
| "is_object _ = False"

text \<open>\<open>v.get(k).and_then(|x| x.as_str())\<close> and its numeric counterparts.\<close>

definition get_str :: "json \<Rightarrow> string \<Rightarrow> string option" where
  "get_str v k = Option.bind (jget v k) as_str"

definition get_i64 :: "json \<Rightarrow> string \<Rightarrow> int option" where
  "get_i64 v k = Option.bind (jget v k) as_i64"

definition get_u64 :: "json \<Rightarrow> string \<Rightarrow> int option" where
  "get_u64 v k = Option.bind (jget v k) as_u64"

text \<open>\<open>payload[k] = v\<close>: replace the member, or add it. An \<open>Option\<close> prints as null when \<open>None\<close>.\<close>

fun jset :: "json \<Rightarrow> string \<Rightarrow> json \<Rightarrow> json" where
  "jset (JObj kvs) k v = JObj ((k, v) # filter (\<lambda>(k', _). k' \<noteq> k) kvs)"
| "jset j k v = j"

definition jopt :: "string option \<Rightarrow> json" where
  "jopt s = (case s of None \<Rightarrow> JNull | Some x \<Rightarrow> JStr x)"

lemma jget_jset [simp]: "jget (jset (JObj kvs) k v) k = Some v"
  by simp

lemma map_of_filter_other: "k \<noteq> k' \<Longrightarrow> map_of (filter (\<lambda>(x, _). x \<noteq> k') kvs) k = map_of kvs k"
  by (induction kvs) auto

lemma jget_jset_other [simp]: "k \<noteq> k' \<Longrightarrow> jget (jset (JObj kvs) k' v) k = jget (JObj kvs) k"
  by (simp add: map_of_filter_other)

section \<open>Functions the sources call and do not define\<close>

text \<open>What the server and the agent read of a parsed URL; the port is absent when it is the default one.\<close>

record url =
  url_scheme :: string
  url_host :: "string option"
  url_path :: string
  url_query :: "string option"
  url_port :: "int option"

text \<open>
  \<open>ext_jparse\<close> and \<open>ext_jprint\<close> are \<open>serde_json::from_str\<close> and \<open>to_string\<close>,
  \<open>ext_url\<close> is \<open>reqwest::Url::parse\<close>, \<open>ext_hash_token\<close> is the hex SHA-256 of \<open>hash_token\<close>,
  \<open>ext_hash_password\<close> the Argon2 hash with its random salt as an argument, and
  \<open>ext_verify_password\<close> its verification.
\<close>

record ext =
  ext_jparse :: "string \<Rightarrow> json option"
  ext_jprint :: "json \<Rightarrow> string"
  ext_url :: "string \<Rightarrow> url option"
  ext_hash_token :: "string \<Rightarrow> string"
  ext_hash_password :: "string \<Rightarrow> string \<Rightarrow> string"
  ext_verify_password :: "string \<Rightarrow> string \<Rightarrow> bool"

text \<open>
  What the code relies on: parsing what was printed gives the value back. Printing is used for
  the payloads the server queues, parsing when a task is polled, reported or timed out.
\<close>

definition json_roundtrip :: "ext \<Rightarrow> bool" where
  "json_roundtrip x \<longleftrightarrow> (\<forall>v. ext_jparse x (ext_jprint x v) = Some v)"

text \<open>\<open>serde_json::from_str(s).ok()\<close> and then a string member, as the task handlers read ids.\<close>

definition parse_member :: "ext \<Rightarrow> string \<Rightarrow> string \<Rightarrow> string option" where
  "parse_member x text k = Option.bind (ext_jparse x text) (\<lambda>v. get_str v k)"

lemma parse_member_Some:
  "ext_jparse x text = Some v \<Longrightarrow> parse_member x text k = get_str v k"
  by (simp add: parse_member_def)

text \<open>Bounds of the numeric accessors: what they return fits the Rust type.\<close>

lemma as_i64_bounds: "as_i64 v = Some i \<Longrightarrow> - (2 ^ 63) \<le> i \<and> i < 2 ^ 63"
  by (cases v) (auto split: if_splits)

lemma as_u64_bounds: "as_u64 v = Some i \<Longrightarrow> 0 \<le> i \<and> i < 2 ^ 64"
  by (cases v) (auto split: if_splits)

lemma get_u64_bounds: "get_u64 v k = Some i \<Longrightarrow> 0 \<le> i \<and> i < 2 ^ 64"
  by (auto simp: get_u64_def bind_eq_Some_conv dest: as_u64_bounds)

section \<open>A concrete text format for the witnesses\<close>

text \<open>
  Witnesses need functions for the fields of \<open>ext\<close>. \<open>demo_print\<close> writes a value in prefix
  notation with unary lengths, \<open>demo_parse\<close> reads it back; \<open>demo_roundtrip\<close> shows that the
  hypothesis \<open>json_roundtrip\<close> can be met.
\<close>

definition unary :: "nat \<Rightarrow> string" where
  "unary n = replicate n (CHR ''1'') @ ''.''"

definition int_code :: "int \<Rightarrow> nat" where
  "int_code i = (if i < 0 then 2 * nat (- i) - 1 else 2 * nat i)"

definition code_int :: "nat \<Rightarrow> int" where
  "code_int n = (if even n then int (n div 2) else - int ((n + 1) div 2))"

lemma code_int_code [simp]: "code_int (int_code i) = i"
proof (cases "i < 0")
  case True
  then obtain k where "i = - int (Suc k)" by (metis zless_iff_Suc_zadd add.left_neutral minus_minus neg_0_less_iff_less of_nat_Suc zero_less_imp_eq_int not0_implies_Suc of_nat_0 less_numeral_extra(3))
  then show ?thesis by (simp add: int_code_def code_int_def nat_add_distrib)
next
  case False
  then show ?thesis by (simp add: int_code_def code_int_def)
qed

fun demo_print :: "json \<Rightarrow> string"
  and demo_print_arr :: "json list \<Rightarrow> string"
  and demo_print_obj :: "(string \<times> json) list \<Rightarrow> string" where
  "demo_print JNull = ''n''"
| "demo_print (JBool b) = (if b then ''t'' else ''f'')"
| "demo_print (JInt i) = ''i'' @ unary (int_code i)"
| "demo_print (JFloat w) = ''d'' @ unary (unat w)"
| "demo_print (JStr s) = ''s'' @ unary (length s) @ s"
| "demo_print (JArr xs) = ''a'' @ unary (length xs) @ demo_print_arr xs"
| "demo_print (JObj kvs) = ''o'' @ unary (length kvs) @ demo_print_obj kvs"
| "demo_print_arr [] = []"
| "demo_print_arr (x # xs) = demo_print x @ demo_print_arr xs"
| "demo_print_obj [] = []"
| "demo_print_obj ((k, v) # kvs) = unary (length k) @ k @ demo_print v @ demo_print_obj kvs"

fun read_unary :: "string \<Rightarrow> nat \<times> string" where
  "read_unary [] = (0, [])"
| "read_unary (c # s) =
     (if c = CHR ''1'' then (case read_unary s of (n, r) \<Rightarrow> (Suc n, r)) else (0, s))"

lemma read_unary_unary [simp]: "read_unary (unary n @ r) = (n, r)"
  by (induction n) (simp_all add: unary_def)

fun demo_read :: "nat \<Rightarrow> string \<Rightarrow> (json \<times> string) option"
  and demo_read_arr :: "nat \<Rightarrow> nat \<Rightarrow> string \<Rightarrow> (json list \<times> string) option"
  and demo_read_obj :: "nat \<Rightarrow> nat \<Rightarrow> string \<Rightarrow> ((string \<times> json) list \<times> string) option" where
  "demo_read 0 s = None"
| "demo_read (Suc fuel) [] = None"
| "demo_read (Suc fuel) (c # s) =
     (if c = CHR ''n'' then Some (JNull, s)
      else if c = CHR ''t'' then Some (JBool True, s)
      else if c = CHR ''f'' then Some (JBool False, s)
      else (case read_unary s of (n, r) \<Rightarrow>
        if c = CHR ''i'' then Some (JInt (code_int n), r)
        else if c = CHR ''d'' then Some (JFloat (of_nat n), r)
        else if c = CHR ''s'' then Some (JStr (take n r), drop n r)
        else if c = CHR ''a'' then map_option (\<lambda>(xs, q). (JArr xs, q)) (demo_read_arr fuel n r)
        else if c = CHR ''o'' then map_option (\<lambda>(xs, q). (JObj xs, q)) (demo_read_obj fuel n r)
        else None))"
| "demo_read_arr 0 n s = None"
| "demo_read_arr (Suc fuel) 0 s = Some ([], s)"
| "demo_read_arr (Suc fuel) (Suc n) s =
     (case demo_read fuel s of None \<Rightarrow> None
      | Some (x, r) \<Rightarrow> map_option (\<lambda>(xs, q). (x # xs, q)) (demo_read_arr fuel n r))"
| "demo_read_obj 0 n s = None"
| "demo_read_obj (Suc fuel) 0 s = Some ([], s)"
| "demo_read_obj (Suc fuel) (Suc n) s =
     (case read_unary s of (m, r) \<Rightarrow>
       (case demo_read fuel (drop m r) of None \<Rightarrow> None
        | Some (x, q) \<Rightarrow> map_option (\<lambda>(xs, p). ((take m r, x) # xs, p)) (demo_read_obj fuel n q)))"

lemma unary_length [simp]: "length (unary n) = Suc n"
  by (simp add: unary_def)

lemma demo_print_pos: "0 < length (demo_print v)"
  by (cases v) simp_all

lemma demo_read_print:
  "2 * length (demo_print v) \<le> fuel \<Longrightarrow> demo_read fuel (demo_print v @ r) = Some (v, r)"
  "2 * length (demo_print_arr xs) < fuel \<Longrightarrow>
     demo_read_arr fuel (length xs) (demo_print_arr xs @ r) = Some (xs, r)"
  "2 * length (demo_print_obj kvs) < fuel \<Longrightarrow>
     demo_read_obj fuel (length kvs) (demo_print_obj kvs @ r) = Some (kvs, r)"
proof (induction v and xs and kvs arbitrary: fuel r and fuel r and fuel r
    rule: demo_print_demo_print_arr_demo_print_obj.induct)
  case (9 x xs)
  then obtain f where f: "fuel = Suc f" by (cases fuel) auto
  from 9(3) f have "2 * length (demo_print x) + 2 * length (demo_print_arr xs) < Suc f" by simp
  with demo_print_pos [of x]
  have "2 * length (demo_print x) \<le> f" "2 * length (demo_print_arr xs) < f" by linarith+
  with 9(1,2) f show ?case by simp
next
  case (11 k v kvs)
  then obtain f where f: "fuel = Suc f" by (cases fuel) auto
  from 11(3) f have "2 * length (demo_print v) + 2 * length (demo_print_obj kvs) < Suc f" by simp
  with demo_print_pos [of v]
  have "2 * length (demo_print v) \<le> f" "2 * length (demo_print_obj kvs) < f" by linarith+
  with 11(1,2) f show ?case by simp
qed (case_tac fuel; auto split: if_splits)+

definition demo_parse :: "string \<Rightarrow> json option" where
  "demo_parse s = map_option fst (demo_read (2 * length s) s)"

lemma demo_roundtrip_print [simp]: "demo_parse (demo_print v) = Some v"
  using demo_read_print(1) [of v "2 * length (demo_print v)" "[]"] by (simp add: demo_parse_def)

definition demo_ext :: ext where
  "demo_ext =
     \<lparr>ext_jparse = demo_parse, ext_jprint = demo_print,
      ext_url = (\<lambda>s. if starts_with s ''http://127.0.0.1''
                    then Some \<lparr>url_scheme = ''http'', url_host = Some ''127.0.0.1'',
                               url_path = ''/health'', url_query = None, url_port = None\<rparr> else None),
      ext_hash_token = (\<lambda>t. ''h:'' @ t),
      ext_hash_password = (\<lambda>salt p. salt @ '':'' @ p),
      ext_verify_password = (\<lambda>p h. ends_with h ('':'' @ p))\<rparr>"

lemma demo_ext_roundtrip [simp]: "json_roundtrip demo_ext"
  by (simp add: json_roundtrip_def demo_ext_def)

lemma demo_ext_simps [simp]:
  "ext_jparse demo_ext (demo_print v) = Some v" "ext_jprint demo_ext = demo_print"
  by (simp_all add: demo_ext_def)

end
