(* ===== verification/Store.thy ===== *)
theory Store
  imports Json
begin

text \<open>
  The database of the server: one row record per table of \<^verbatim>\<open>migrations/*.sql\<close> (columns in the
  order of the schema, NULL columns as options, the INTEGER flags \<open>enabled\<close> and
  \<open>must_change_password\<close> as booleans), and the record \<open>db\<close> of all tables, each the list of its
  rows in insertion order. \<open>insert_row\<close> is \<open>INSERT\<close> with the primary key, UNIQUE and
  REFERENCES constraints checked (\<^verbatim>\<open>server/src/db.rs\<close> switches foreign keys on and adds the
  unique indices on node names and hostnames).

  The locale \<open>sql_table\<close> is the interface of one table inside the database; it is interpreted
  for every table, and its facts say what a lookup by key returns after each statement.
\<close>

section \<open>Rows\<close>

record node_row =
  n_id :: string
  n_name :: string
  n_hostname :: string
  n_agent_version :: "string option"
  n_os :: "string option"
  n_arch :: "string option"
  n_token_hash :: string
  n_token_prefix :: string
  n_registered_at :: int
  n_updated_at :: int
  n_last_heartbeat_at :: "int option"

record node_status_row =
  ns_node_id :: string
  ns_cpu_usage_percent :: "f64 option"
  ns_memory_total_bytes :: "int option"
  ns_memory_used_bytes :: "int option"
  ns_disk_total_bytes :: "int option"
  ns_disk_used_bytes :: "int option"
  ns_collector_errors_json :: "string option"
  ns_agent_config_version :: "int option"
  ns_heartbeat_interval_secs :: "int option"
  ns_metrics_sample_interval_secs :: "int option"
  ns_task_poll_interval_secs :: "int option"
  ns_config_refresh_interval_secs :: "int option"
  ns_command_timeout_secs :: "int option"
  ns_environment_check_timeout_secs :: "int option"
  ns_allowed_model_dirs_json :: "string option"
  ns_collector_timeout_secs :: "int option"
  ns_collector_max_output_bytes :: "int option"
  ns_collector_status :: "string option"
  ns_last_config_updated_at :: "int option"
  ns_updated_at :: int

record gpu_status_row =
  g_node_id :: string
  g_gpu_key :: string
  g_gpu_index :: "int option"
  g_vendor :: string
  g_name :: string
  g_uuid :: "string option"
  g_driver_version :: "string option"
  g_memory_total_bytes :: "int option"
  g_memory_used_bytes :: "int option"
  g_utilization_percent :: "f64 option"
  g_temperature_celsius :: "f64 option"
  g_power_watts :: "f64 option"
  g_collector :: string
  g_raw_json :: "string option"
  g_status :: "string option"
  g_last_error :: "string option"
  g_updated_at :: int

record node_sample_row =
  nms_node_id :: string
  nms_sampled_at :: int
  nms_cpu_usage_percent :: "f64 option"
  nms_memory_total_bytes :: "int option"
  nms_memory_used_bytes :: "int option"
  nms_disk_total_bytes :: "int option"
  nms_disk_used_bytes :: "int option"

record gpu_sample_row =
  gms_node_id :: string
  gms_gpu_key :: string
  gms_sampled_at :: int
  gms_vendor :: string
  gms_memory_total_bytes :: "int option"
  gms_memory_used_bytes :: "int option"
  gms_utilization_percent :: "f64 option"
  gms_temperature_celsius :: "f64 option"
  gms_power_watts :: "f64 option"

record runtime_row =
  re_id :: string
  re_node_id :: "string option"
  re_name :: string
  re_backend :: string
  re_deploy_type :: string
  re_version :: "string option"
  re_base_url :: "string option"
  re_health_url :: "string option"
  re_endpoint_url :: "string option"
  re_binary_path :: "string option"
  re_docker_image :: "string option"
  re_working_dir :: "string option"
  re_log_dir :: "string option"
  re_allowed_model_dirs_json :: "string option"
  re_params_json :: "string option"
  re_enabled :: bool
  re_last_checked_at :: "int option"
  re_check_status :: "string option"
  re_check_message :: "string option"
  re_created_at :: int
  re_updated_at :: int

record model_row =
  m_id :: string
  m_name :: string
  m_display_name :: "string option"
  m_model_type :: string
  m_model_path :: "string option"
  m_description :: "string option"
  m_default_backend :: "string option"
  m_params_json :: "string option"
  m_created_at :: int
  m_updated_at :: int
  m_deleted_at :: "int option"

record instance_row =
  mi_id :: string
  mi_model_id :: "string option"
  mi_model_file_id :: "string option"
  mi_node_id :: "string option"
  mi_runtime_environment_id :: "string option"
  mi_name :: string
  mi_backend :: string
  mi_deploy_type :: string
  mi_status :: string
  mi_base_url :: "string option"
  mi_endpoint_url :: "string option"
  mi_health_url :: "string option"
  mi_runtime_version :: "string option"
  mi_model_name :: "string option"
  mi_description :: "string option"
  mi_params_json :: "string option"
  mi_process_id :: "int option"
  mi_process_ref :: "string option"
  mi_log_tail :: "string option"
  mi_command :: "string option"
  mi_last_checked_at :: "int option"
  mi_last_error :: "string option"
  mi_created_at :: int
  mi_updated_at :: int

record file_row =
  mf_id :: string
  mf_model_id :: string
  mf_node_id :: string
  mf_path :: string
  mf_path_type :: "string option"
  mf_status :: string
  mf_size_bytes :: "int option"
  mf_last_verified_at :: "int option"
  mf_last_error :: "string option"
  mf_verify_task_id :: "string option"
  mf_deleted_at :: "int option"
  mf_created_at :: int
  mf_updated_at :: int

record task_row =
  t_id :: string
  t_node_id :: string
  t_kind :: string
  t_status :: string
  t_payload_json :: string
  t_result_json :: "string option"
  t_error_message :: "string option"
  t_lease_until :: "int option"
  t_attempt_count :: int
  t_created_at :: int
  t_started_at :: "int option"
  t_completed_at :: "int option"
  t_updated_at :: int

record trash_row =
  tr_id :: string
  tr_model_file_id :: "string option"
  tr_model_id :: "string option"
  tr_node_id :: "string option"
  tr_path :: string
  tr_reason :: "string option"
  tr_status :: string
  tr_file_deleted_at :: "int option"
  tr_cleanup_task_id :: "string option"
  tr_last_error :: "string option"
  tr_note :: "string option"
  tr_created_at :: int
  tr_updated_at :: int

record policy_row =
  ap_scope :: string
  ap_node_id :: string
  ap_policy_json :: string
  ap_version :: int
  ap_updated_at :: int

record audit_row =
  ae_id :: string
  ae_occurred_at :: int
  ae_actor_type :: string
  ae_actor_id :: "string option"
  ae_actor_group_id :: "string option"
  ae_operation_type :: string
  ae_target_type :: string
  ae_target_id :: "string option"
  ae_node_id :: "string option"
  ae_instance_id :: "string option"
  ae_result :: string
  ae_error_message :: "string option"
  ae_source :: string
  ae_detail_json :: "string option"

record user_row =
  u_id :: string
  u_username :: string
  u_password_hash :: string
  u_role :: string
  u_enabled :: bool
  u_password_changed_at :: int
  u_must_change_password :: bool
  u_created_at :: int
  u_updated_at :: int

record session_row =
  us_id :: string
  us_user_id :: string
  us_token_hash :: string
  us_created_at :: int
  us_last_seen_at :: int
  us_expires_at :: int
  us_revoked_at :: "int option"

record group_row =
  ug_id :: string
  ug_name :: string
  ug_role :: string
  ug_enabled :: bool
  ug_created_at :: int
  ug_updated_at :: int

record member_row =
  gm_group_id :: string
  gm_user_id :: string
  gm_created_at :: int

record setting_row =
  ps_key :: string
  ps_value_json :: string
  ps_updated_at :: int

record collector_row =
  cr_id :: string
  cr_version :: string
  cr_vendor :: string
  cr_name :: string
  cr_description :: string
  cr_discover_sha256 :: string
  cr_metrics_sha256 :: string
  cr_enabled :: bool
  cr_created_at :: int
  cr_updated_at :: int

record db =
  nodes :: "node_row list"
  node_status :: "node_status_row list"
  gpu_status :: "gpu_status_row list"
  node_metric_samples :: "node_sample_row list"
  gpu_metric_samples :: "gpu_sample_row list"
  runtime_environments :: "runtime_row list"
  models :: "model_row list"
  model_instances :: "instance_row list"
  model_files :: "file_row list"
  agent_tasks :: "task_row list"
  model_file_trash :: "trash_row list"
  agent_config_policies :: "policy_row list"
  audit_events :: "audit_row list"
  users :: "user_row list"
  user_sessions :: "session_row list"
  user_groups :: "group_row list"
  user_group_members :: "member_row list"
  platform_settings :: "setting_row list"
  collector_registry :: "collector_row list"

definition empty_db :: db where
  "empty_db =
     \<lparr>nodes = [], node_status = [], gpu_status = [], node_metric_samples = [],
      gpu_metric_samples = [], runtime_environments = [], models = [], model_instances = [],
      model_files = [], agent_tasks = [], model_file_trash = [], agent_config_policies = [],
      audit_events = [], users = [], user_sessions = [], user_groups = [],
      user_group_members = [], platform_settings = [], collector_registry = []\<rparr>"

section \<open>Constraint-checked insertion\<close>

datatype sql_error = UniqueFailed | ForeignKeyFailed

fun sql_message :: "sql_error \<Rightarrow> string" where
  "sql_message UniqueFailed = ''UNIQUE constraint failed''"
| "sql_message ForeignKeyFailed = ''FOREIGN KEY constraint failed''"

text \<open>
  \<open>clash\<close> says that two rows violate a key or unique index, \<open>refs_ok\<close> that the row's
  references exist.
\<close>

definition insert_row :: "('r \<Rightarrow> 'r \<Rightarrow> bool) \<Rightarrow> bool \<Rightarrow> 'r \<Rightarrow> 'r list \<Rightarrow> sql_error + 'r list" where
  "insert_row clash refs_ok r rows =
     (if \<exists>q \<in> set rows. clash r q then Inl UniqueFailed
      else if \<not> refs_ok then Inl ForeignKeyFailed
      else Inr (rows @ [r]))"

lemma insert_row_Inr:
  "insert_row clash ok r rows = Inr rows' \<longleftrightarrow>
     rows' = rows @ [r] \<and> ok \<and> (\<forall>q \<in> set rows. \<not> clash r q)"
  by (auto simp: insert_row_def)

text \<open>Rows no two of which clash: what a key or unique index guarantees.\<close>

fun no_clash :: "('r \<Rightarrow> 'r \<Rightarrow> bool) \<Rightarrow> 'r list \<Rightarrow> bool" where
  "no_clash clash [] = True"
| "no_clash clash (r # rs) = ((\<forall>q \<in> set rs. \<not> clash r q) \<and> no_clash clash rs)"

lemma no_clash_append:
  "no_clash clash (xs @ ys) \<longleftrightarrow> no_clash clash xs \<and> no_clash clash ys
     \<and> (\<forall>a \<in> set xs. \<forall>b \<in> set ys. \<not> clash a b)"
  by (induction xs) auto

lemma no_clash_insert:
  assumes "\<And>a b. clash a b = clash b a" and "insert_row clash ok r rows = Inr rows'"
    and "no_clash clash rows"
  shows "no_clash clash rows'"
  using assms(2,3) by (auto simp: insert_row_Inr no_clash_append assms(1) [of _ r])

lemma no_clash_two_keys:
  "no_clash (\<lambda>a b. j a = j b \<or> k a = k b) rows \<longleftrightarrow> distinct (map j rows) \<and> distinct (map k rows)"
  by (induction rows) auto

definition same_key :: "('r \<Rightarrow> 'k) \<Rightarrow> 'r \<Rightarrow> 'r \<Rightarrow> bool" where
  "same_key key r q \<longleftrightarrow> key r = key q"

text \<open>\<open>INSERT .. ON CONFLICT(key) DO UPDATE\<close>: the row with the key is updated, or the row added.\<close>

definition upsert_row :: "('r \<Rightarrow> bool) \<Rightarrow> ('r \<Rightarrow> 'r) \<Rightarrow> 'r \<Rightarrow> 'r list \<Rightarrow> 'r list" where
  "upsert_row same f r rows =
     (if \<exists>q \<in> set rows. same q then update_where same f rows else rows @ [r])"

lemma find_upsert_same:
  assumes "same r" and "\<And>q. same q \<Longrightarrow> same (f q)"
  shows "find same (upsert_row same f r rows) =
    Some (case find same rows of Some q \<Rightarrow> f q | None \<Rightarrow> r)"
proof (cases "find same rows")
  case None
  then have "\<not> (\<exists>q \<in> set rows. same q)" by (auto simp: find_None_iff)
  with None assms(1) show ?thesis by (simp add: upsert_row_def find_append)
next
  case (Some q)
  then have "\<exists>q \<in> set rows. same q" using find_Some_D by fastforce
  moreover have "find same (update_where same f rows) = Some (f q)"
    using Some assms(2) find_Some_D [OF Some] by (subst find_update_where) auto
  ultimately show ?thesis using Some by (simp add: upsert_row_def)
qed

lemma find_upsert_other:
  assumes "\<And>q. same q \<Longrightarrow> other (f q) = other q" and "\<not> other r" and "\<And>q. same q \<Longrightarrow> \<not> other q"
  shows "find other (upsert_row same f r rows) = find other rows"
proof -
  have "find other (update_where same f rows) = find other rows" using assms(1,3)
    by (induction rows) auto
  with assms(2) show ?thesis by (simp add: upsert_row_def find_append split: option.split)
qed

lemma distinct_upsert:
  assumes "distinct (map key rows)" and "\<And>q. same q \<longleftrightarrow> key q = key r" and "\<And>q. key (f q) = key q"
  shows "distinct (map key (upsert_row same f r rows))"
  using assms by (auto simp: upsert_row_def map_update_where)

text \<open>A nullable reference is satisfied by NULL.\<close>

definition ref_ok :: "('r \<Rightarrow> string) \<Rightarrow> 'r list \<Rightarrow> string option \<Rightarrow> bool" where
  "ref_ok key rows k = (case k of None \<Rightarrow> True | Some i \<Rightarrow> i \<in> key ` set rows)"

section \<open>The interface of a table\<close>

locale sql_table =
  fixes rows :: "'d \<Rightarrow> 'r list"
    and put :: "'r list \<Rightarrow> 'd \<Rightarrow> 'd"
    and key :: "'r \<Rightarrow> 'k"
  assumes rows_put: "rows (put rs d) = rs"
    and put_put: "put rs (put rs' d) = put rs d"
    and put_rows: "put (rows d) d = d"
begin

lemma lookup_update:
  assumes "\<And>r. p r \<Longrightarrow> key (f r) = key r"
  shows "find (\<lambda>r. key r = k) (rows (put (update_where p f (rows d)) d)) =
    map_option (\<lambda>r. if p r then f r else r) (find (\<lambda>r. key r = k) (rows d))"
proof -
  have "find (\<lambda>r. key r = k) (update_where p f (rows d)) =
      map_option (\<lambda>r. if p r then f r else r) (find (\<lambda>r. key r = k) (rows d))"
    by (rule find_update_where) (simp add: assms)
  then show ?thesis by (simp add: rows_put)
qed

lemma lookup_insert:
  assumes "insert_row clash ok r (rows d) = Inr rs" and "\<And>a b. key a = key b \<Longrightarrow> clash a b"
  shows "find (\<lambda>q. key q = k) (rows (put rs d)) =
    (if k = key r then Some r else find (\<lambda>q. key q = k) (rows d))"
proof -
  from assms(1) have rs: "rs = rows d @ [r]" and fresh: "\<forall>q \<in> set (rows d). \<not> clash r q"
    by (auto simp: insert_row_Inr)
  have "find (\<lambda>q. key q = key r) (rows d) = None"
    using fresh assms(2) by (fastforce simp: find_None_iff)
  then show ?thesis by (auto simp: rs rows_put find_append split: option.splits)
qed

lemma lookup_delete_other:
  "(\<And>r. key r = k \<Longrightarrow> \<not> p r) \<Longrightarrow>
   find (\<lambda>r. key r = k) (rows (put (delete_where p (rows d)) d)) = find (\<lambda>r. key r = k) (rows d)"
proof -
  assume "\<And>r. key r = k \<Longrightarrow> \<not> p r"
  then have "(\<lambda>r. key r = k \<and> \<not> p r) = (\<lambda>r. key r = k)" by auto
  then show ?thesis by (simp add: rows_put find_delete_where)
qed

lemma lookup_delete: "find (\<lambda>r. key r = k) (rows (put (delete_where (\<lambda>r. key r = k) (rows d)) d)) = None"
  by (simp add: rows_put find_delete_where find_None_iff)

lemma keys_update:
  "(\<And>r. p r \<Longrightarrow> key (f r) = key r) \<Longrightarrow>
   map key (rows (put (update_where p f (rows d)) d)) = map key (rows d)"
  by (simp add: rows_put map_update_where)

lemma distinct_insert:
  "\<lbrakk>insert_row clash ok r (rows d) = Inr rs; \<And>a b. key a = key b \<Longrightarrow> clash a b;
    distinct (map key (rows d))\<rbrakk> \<Longrightarrow> distinct (map key (rows (put rs d)))"
  by (auto simp: insert_row_Inr rows_put)

lemma distinct_delete:
  "distinct (map key (rows d)) \<Longrightarrow> distinct (map key (rows (put (delete_where p (rows d)) d)))"
  by (auto simp: rows_put delete_where_def distinct_map inj_on_def)

end

section \<open>Every table provides the interface\<close>

interpretation nodes_tbl: sql_table nodes "\<lambda>rs d. d\<lparr>nodes := rs\<rparr>" n_id
  by unfold_locales simp_all

interpretation node_status_tbl: sql_table node_status "\<lambda>rs d. d\<lparr>node_status := rs\<rparr>" ns_node_id
  by unfold_locales simp_all

interpretation gpu_tbl: sql_table gpu_status "\<lambda>rs d. d\<lparr>gpu_status := rs\<rparr>" "\<lambda>r. (g_node_id r, g_gpu_key r)"
  by unfold_locales simp_all

interpretation runtimes_tbl: sql_table runtime_environments "\<lambda>rs d. d\<lparr>runtime_environments := rs\<rparr>" re_id
  by unfold_locales simp_all

interpretation models_tbl: sql_table models "\<lambda>rs d. d\<lparr>models := rs\<rparr>" m_id
  by unfold_locales simp_all

interpretation instances_tbl: sql_table model_instances "\<lambda>rs d. d\<lparr>model_instances := rs\<rparr>" mi_id
  by unfold_locales simp_all

interpretation files_tbl: sql_table model_files "\<lambda>rs d. d\<lparr>model_files := rs\<rparr>" mf_id
  by unfold_locales simp_all

interpretation tasks_tbl: sql_table agent_tasks "\<lambda>rs d. d\<lparr>agent_tasks := rs\<rparr>" t_id
  by unfold_locales simp_all

interpretation trash_tbl: sql_table model_file_trash "\<lambda>rs d. d\<lparr>model_file_trash := rs\<rparr>" tr_id
  by unfold_locales simp_all

interpretation policies_tbl: sql_table agent_config_policies "\<lambda>rs d. d\<lparr>agent_config_policies := rs\<rparr>" "\<lambda>r. (ap_scope r, ap_node_id r)"
  by unfold_locales simp_all

interpretation audit_tbl: sql_table audit_events "\<lambda>rs d. d\<lparr>audit_events := rs\<rparr>" ae_id
  by unfold_locales simp_all

interpretation users_tbl: sql_table users "\<lambda>rs d. d\<lparr>users := rs\<rparr>" u_id
  by unfold_locales simp_all

interpretation sessions_tbl: sql_table user_sessions "\<lambda>rs d. d\<lparr>user_sessions := rs\<rparr>" us_id
  by unfold_locales simp_all

interpretation groups_tbl: sql_table user_groups "\<lambda>rs d. d\<lparr>user_groups := rs\<rparr>" ug_id
  by unfold_locales simp_all

interpretation members_tbl: sql_table user_group_members "\<lambda>rs d. d\<lparr>user_group_members := rs\<rparr>" "\<lambda>r. (gm_group_id r, gm_user_id r)"
  by unfold_locales simp_all

interpretation settings_tbl: sql_table platform_settings "\<lambda>rs d. d\<lparr>platform_settings := rs\<rparr>" ps_key
  by unfold_locales simp_all

interpretation registry_tbl: sql_table collector_registry "\<lambda>rs d. d\<lparr>collector_registry := rs\<rparr>" "\<lambda>r. (cr_id r, cr_version r)"
  by unfold_locales simp_all

end
