(* ===== verification/Support.thy ===== *)
theory Support
  imports Store
begin

text \<open>
  \<^verbatim>\<open>server/src/domain/support.rs\<close>: the error type of the domain layer, the field
  validations (an \<open>Err\<close> is \<open>Some\<close> of the error, \<open>Ok(())\<close> is \<open>None\<close>) and the existence and
  liveness checks. The clock is an argument \<open>now\<close> (\<open>now_unix_secs\<close>), one value per call of an
  operation.
\<close>

section \<open>Errors\<close>

datatype domain_error =
    BadRequest string
  | NotFound string
  | Conflict string
  | Internal string

text \<open>\<open>From<sqlx::Error>\<close>: a database error becomes \<open>Internal\<close> with its message.\<close>

definition of_sql :: "sql_error \<Rightarrow> domain_error" where
  "of_sql e = Internal (sql_message e)"

definition map_sqlx_conflict :: "sql_error \<Rightarrow> domain_error" where
  "map_sqlx_conflict e =
     (case e of
        UniqueFailed \<Rightarrow> Conflict ''model name already exists; use a different name''
      | ForeignKeyFailed \<Rightarrow> Internal (sql_message e))"

definition VERIFY_TIMEOUT :: nat where "VERIFY_TIMEOUT = 5"
definition CLEANUP_TIMEOUT :: nat where "CLEANUP_TIMEOUT = 10"
definition RUNTIME_CHECK_TIMEOUT :: nat where "RUNTIME_CHECK_TIMEOUT = 5"
definition INSTANCE_TASK_TIMEOUT :: nat where "INSTANCE_TASK_TIMEOUT = 30"
definition ONLINE_THRESHOLD :: int where "ONLINE_THRESHOLD = 60"

section \<open>Field validations\<close>

definition validate_non_empty :: "string \<Rightarrow> string \<Rightarrow> domain_error option" where
  "validate_non_empty field v =
     (if blank v then Some (BadRequest (field @ '' is required'')) else None)"

definition validate_one_of :: "string \<Rightarrow> string \<Rightarrow> string list \<Rightarrow> domain_error option" where
  "validate_one_of field v allowed =
     (if v \<in> set allowed then None else Some (BadRequest (field @ '' is invalid'')))"

definition backends :: "string list" where
  "backends = [''vllm'', ''ollama'', ''lmdeploy'', ''mindie'', ''llama_cpp'', ''triton'', ''custom'']"

definition validate_backend :: "string \<Rightarrow> domain_error option" where
  "validate_backend v = validate_one_of ''backend'' v backends"

definition deploy_types :: "string list" where
  "deploy_types = [''docker'', ''script'', ''binary'']"

definition validate_deploy_type :: "string \<Rightarrow> domain_error option" where
  "validate_deploy_type v = validate_one_of ''deploy_type'' v deploy_types"

definition validate_model_type :: "string \<Rightarrow> domain_error option" where
  "validate_model_type v =
     validate_one_of ''model_type'' v
       [''llm'', ''embedding'', ''rerank'', ''vlm'', ''asr'', ''tts'', ''other'']"

definition validate_path :: "string \<Rightarrow> string \<Rightarrow> domain_error option" where
  "validate_path field v =
     (if blank v \<or> contains v ''..'' then Some (BadRequest (field @ '' is invalid'')) else None)"

definition validate_no_whitespace :: "string \<Rightarrow> string \<Rightarrow> domain_error option" where
  "validate_no_whitespace field v =
     (if blank v \<or> any_char is_whitespace v then Some (BadRequest (field @ '' is invalid''))
      else None)"

definition validate_json_field :: "ext \<Rightarrow> string \<Rightarrow> string option \<Rightarrow> domain_error option" where
  "validate_json_field x field v =
     (case v of
        None \<Rightarrow> None
      | Some text \<Rightarrow>
          (case ext_jparse x text of
             None \<Rightarrow> Some (BadRequest (field @ '' must be valid JSON when provided''))
           | Some _ \<Rightarrow> None))"

record runtime_request =
  rr_name :: string
  rr_backend :: string
  rr_deploy_type :: string
  rr_version :: "string option"
  rr_base_url :: "string option"
  rr_health_url :: "string option"
  rr_endpoint_url :: "string option"
  rr_binary_path :: "string option"
  rr_docker_image :: "string option"
  rr_working_dir :: "string option"
  rr_log_dir :: "string option"
  rr_allowed_model_dirs_json :: "string option"
  rr_params_json :: "string option"
  rr_enabled :: "bool option"

definition some_not_blank :: "string option \<Rightarrow> bool" where
  "some_not_blank v = (case v of None \<Rightarrow> False | Some s \<Rightarrow> \<not> blank s)"

definition none_or_empty :: "string option \<Rightarrow> bool" where
  "none_or_empty v = (case v of None \<Rightarrow> True | Some s \<Rightarrow> s = [])"

definition opt_check :: "('a \<Rightarrow> domain_error option) \<Rightarrow> 'a option \<Rightarrow> domain_error option" where
  "opt_check f v = (case v of None \<Rightarrow> None | Some y \<Rightarrow> f y)"

definition validate_runtime_entrypoints :: "runtime_request \<Rightarrow> domain_error option" where
  "validate_runtime_entrypoints r = first_error [
     if some_not_blank (rr_base_url r) \<or> some_not_blank (rr_health_url r)
        \<or> some_not_blank (rr_endpoint_url r)
     then Some (BadRequest ''Runtime no longer accepts External URL; connect external services via Instance'')
     else None,
     opt_check (validate_path ''binary_path'') (rr_binary_path r),
     opt_check (validate_path ''working_dir'') (rr_working_dir r),
     opt_check (validate_path ''log_dir'') (rr_log_dir r),
     opt_check (validate_no_whitespace ''docker_image'') (rr_docker_image r),
     if rr_deploy_type r = ''docker'' then
       (if none_or_empty (rr_docker_image r)
        then Some (BadRequest ''Docker runtime must specify an image'') else None)
     else if rr_deploy_type r = ''script'' \<or> rr_deploy_type r = ''binary'' then
       (if rr_backend r \<noteq> ''ollama'' \<and> none_or_empty (rr_binary_path r)
        then Some (BadRequest ''Runtime must specify a controlled entry path'') else None)
     else None]"

section \<open>Existence and liveness\<close>

definition node_exists :: "db \<Rightarrow> string \<Rightarrow> bool" where
  "node_exists d nid \<longleftrightarrow> (\<exists>n \<in> set (nodes d). n_id n = nid)"

definition ensure_node_exists :: "db \<Rightarrow> string \<Rightarrow> domain_error option" where
  "ensure_node_exists d nid =
     (if node_exists d nid then None else Some (NotFound ''node not found''))"

definition model_exists :: "db \<Rightarrow> string \<Rightarrow> bool" where
  "model_exists d mid \<longleftrightarrow> (\<exists>m \<in> set (models d). m_id m = mid \<and> m_deleted_at m = None)"

definition ensure_model_exists :: "db \<Rightarrow> string \<Rightarrow> domain_error option" where
  "ensure_model_exists d mid =
     (if model_exists d mid then None else Some (NotFound ''model not found''))"

definition node_online :: "db \<Rightarrow> int \<Rightarrow> string \<Rightarrow> bool" where
  "node_online d now nid =
     (case find_row (\<lambda>n. n_id n = nid) (nodes d) of
        None \<Rightarrow> False
      | Some n \<Rightarrow>
          (case n_last_heartbeat_at n of
             None \<Rightarrow> False
           | Some seen \<Rightarrow> now - seen \<le> ONLINE_THRESHOLD))"

definition ensure_node_online :: "db \<Rightarrow> int \<Rightarrow> string \<Rightarrow> domain_error option" where
  "ensure_node_online d now nid =
     (if node_online d now nid then None
      else Some (Conflict ''Agent is offline; runtime environment cannot be confirmed''))"

section \<open>Facts about the validations\<close>

lemma validate_path_None:
  "validate_path field v = None \<longleftrightarrow> \<not> blank v \<and> \<not> (\<exists>a b. v = a @ ''..'' @ b)"
  unfolding validate_path_def contains_sublist by simp

lemma validate_one_of_None [simp]: "validate_one_of field v allowed = None \<longleftrightarrow> v \<in> set allowed"
  by (simp add: validate_one_of_def)

lemma validate_non_empty_None [simp]: "validate_non_empty field v = None \<longleftrightarrow> \<not> blank v"
  by (simp add: validate_non_empty_def)

lemma opt_check_None: "opt_check f v = None \<longleftrightarrow> (\<forall>y. v = Some y \<longrightarrow> f y = None)"
  by (auto simp: opt_check_def split: option.splits)

lemma validate_json_field_None:
  "validate_json_field x field v = None \<longleftrightarrow> (\<forall>t. v = Some t \<longrightarrow> ext_jparse x t \<noteq> None)"
  by (auto simp: validate_json_field_def split: option.splits)

lemma node_online_exists: "node_online d now nid \<Longrightarrow> node_exists d nid"
  by (auto simp: node_online_def node_exists_def split: option.splits dest!: find_Some_D)

text \<open>A controlled path names no parent directory in any position.\<close>

lemma path_has_no_parent:
  assumes "validate_path field v = None"
  shows "''..'' \<notin> set (split_on (CHR ''/'') v)"
proof
  assume "''..'' \<in> set (split_on (CHR ''/'') v)"
  then have "\<exists>a b. v = a @ ''..'' @ b"
  proof (induction v)
    case Nil
    then show ?case by simp
  next
    case (Cons x v)
    show ?case
    proof (cases "''..'' \<in> set (split_on (CHR ''/'') v)")
      case True
      with Cons.IH show ?thesis by (metis append_Cons)
    next
      case False
      obtain p ps where sp: "split_on (CHR ''/'') v = p # ps"
        by (cases "split_on (CHR ''/'') v") simp_all
      with Cons.prems False have xp: "x # p = ''..''"
        by (auto split: if_splits)
      obtain r where "v = p @ r" using split_on_prefix [OF sp] by blast
      with xp have "x # v = [] @ ''..'' @ r" by simp
      then show ?thesis by blast
    qed
  qed
  with assms show False by (simp add: validate_path_None)
qed

end
