(* ===== verification/Views.thy ===== *)
theory Views
  imports Support
begin

text \<open>
  The read side that task processing shares with the instance and trash components: the
  instance view with its joins (\<open>model_instance\<close>, \<open>model_instance_from_row\<close> of
  \<^verbatim>\<open>server/src/domain/instances.rs\<close>), \<open>update_instance_check\<close>, and the trash view and
  \<open>update_trash_failure\<close> of \<^verbatim>\<open>server/src/domain/model_trash.rs\<close>. A LEFT JOIN on a primary key
  is a lookup that yields NULL when there is no match.
\<close>

section \<open>Lookups by key\<close>

definition task_of :: "db \<Rightarrow> string \<Rightarrow> task_row option" where
  "task_of d i = find_row (\<lambda>t. t_id t = i) (agent_tasks d)"

definition instance_of :: "db \<Rightarrow> string \<Rightarrow> instance_row option" where
  "instance_of d i = find_row (\<lambda>r. mi_id r = i) (model_instances d)"

definition file_of :: "db \<Rightarrow> string \<Rightarrow> file_row option" where
  "file_of d i = find_row (\<lambda>r. mf_id r = i) (model_files d)"

definition trash_of :: "db \<Rightarrow> string \<Rightarrow> trash_row option" where
  "trash_of d i = find_row (\<lambda>r. tr_id r = i) (model_file_trash d)"

definition runtime_of :: "db \<Rightarrow> string \<Rightarrow> runtime_row option" where
  "runtime_of d i = find_row (\<lambda>r. re_id r = i) (runtime_environments d)"

definition node_of :: "db \<Rightarrow> string \<Rightarrow> node_row option" where
  "node_of d i = find_row (\<lambda>r. n_id r = i) (nodes d)"

definition model_of :: "db \<Rightarrow> string \<Rightarrow> model_row option" where
  "model_of d i = find_row (\<lambda>r. m_id r = i) (models d)"

text \<open>The account tables, which the node side of the server never writes.\<close>

definition accounts :: "db \<Rightarrow> user_row list \<times> session_row list \<times> group_row list \<times> member_row list" where
  "accounts d = (users d, user_sessions d, user_groups d, user_group_members d)"

lemmas lookup_defs = task_of_def instance_of_def file_of_def trash_of_def runtime_of_def
  node_of_def model_of_def

text \<open>\<open>LEFT JOIN t ON t.id = ref\<close>.\<close>

definition joined :: "(string \<Rightarrow> 'r option) \<Rightarrow> string option \<Rightarrow> 'r option" where
  "joined look r = Option.bind r look"

section \<open>The instance view\<close>

record instance_view =
  iv_row :: instance_row
  iv_model_definition_name :: "string option"
  iv_model_file_path :: "string option"
  iv_node_name :: "string option"
  iv_node_online :: bool
  iv_last_heartbeat_at :: "int option"
  iv_runtime_environment_name :: "string option"

definition model_instance_from_row :: "int \<Rightarrow> db \<Rightarrow> instance_row \<Rightarrow> instance_view" where
  "model_instance_from_row now d r =
     (let beat = Option.bind (joined (node_of d) (mi_node_id r)) n_last_heartbeat_at in
      \<lparr>iv_row = r,
       iv_model_definition_name = map_option m_name (joined (model_of d) (mi_model_id r)),
       iv_model_file_path = map_option mf_path (joined (file_of d) (mi_model_file_id r)),
       iv_node_name = map_option n_name (joined (node_of d) (mi_node_id r)),
       iv_node_online = (case beat of Some seen \<Rightarrow> now - seen \<le> ONLINE_THRESHOLD | None \<Rightarrow> False),
       iv_last_heartbeat_at = beat,
       iv_runtime_environment_name =
         map_option re_name (joined (runtime_of d) (mi_runtime_environment_id r))\<rparr>)"

definition model_instance :: "int \<Rightarrow> db \<Rightarrow> string \<Rightarrow> domain_error + instance_view" where
  "model_instance now d i =
     (case instance_of d i of
        None \<Rightarrow> Inl (NotFound ''model instance not found'')
      | Some r \<Rightarrow> Inr (model_instance_from_row now d r))"

text \<open>\<open>ORDER BY created_at DESC\<close> over all instances.\<close>

definition list_model_instances :: "int \<Rightarrow> db \<Rightarrow> instance_view list" where
  "list_model_instances now d =
     map (model_instance_from_row now d) (sort_key (\<lambda>r. - mi_created_at r) (model_instances d))"

definition set_instance :: "string \<Rightarrow> (instance_row \<Rightarrow> instance_row) \<Rightarrow> db \<Rightarrow> db" where
  "set_instance i f d =
     d\<lparr>model_instances := update_where (\<lambda>r. mi_id r = i) f (model_instances d)\<rparr>"

definition update_instance_check ::
  "int \<Rightarrow> string \<Rightarrow> string \<Rightarrow> string option \<Rightarrow> db \<Rightarrow> (domain_error + instance_view) \<times> db" where
  "update_instance_check now i status error d =
     (let d1 = set_instance i (\<lambda>r. r\<lparr>mi_status := status, mi_last_checked_at := Some now,
                 mi_last_error := error, mi_updated_at := now\<rparr>) d
      in (model_instance now d1 i, d1))"

section \<open>The trash view\<close>

definition set_trash :: "string \<Rightarrow> (trash_row \<Rightarrow> trash_row) \<Rightarrow> db \<Rightarrow> db" where
  "set_trash i f d =
     d\<lparr>model_file_trash := update_where (\<lambda>r. tr_id r = i) f (model_file_trash d)\<rparr>"

definition update_trash_failure :: "int \<Rightarrow> string \<Rightarrow> string \<Rightarrow> string \<Rightarrow> db \<Rightarrow> db" where
  "update_trash_failure now i status message d =
     set_trash i (\<lambda>r. r\<lparr>tr_status := status, tr_last_error := Some message,
                        tr_updated_at := now\<rparr>) d"

record trash_view =
  tv_row :: trash_row
  tv_model_name :: "string option"
  tv_node_name :: "string option"

text \<open>
  The name of a deleted model without its deletion marker: the text before the first
  \<open>__deleted__\<close>, when the model is deleted and the marker occurs.
\<close>

fun before :: "string \<Rightarrow> string \<Rightarrow> string" where
  "before [] m = []"
| "before (c # s) m = (if starts_with (c # s) m then [] else c # before s m)"

definition trash_model_name :: "model_row \<Rightarrow> string" where
  "trash_model_name m =
     (if m_deleted_at m \<noteq> None \<and> contains (m_name m) ''__deleted__''
      then before (m_name m) ''__deleted__'' else m_name m)"

definition trash_view_of :: "db \<Rightarrow> trash_row \<Rightarrow> trash_view" where
  "trash_view_of d r =
     \<lparr>tv_row = r,
      tv_model_name = map_option trash_model_name (joined (model_of d) (tr_model_id r)),
      tv_node_name = map_option n_name (joined (node_of d) (tr_node_id r))\<rparr>"

definition model_file_trash_item :: "db \<Rightarrow> string \<Rightarrow> domain_error + trash_view" where
  "model_file_trash_item d i =
     (case trash_of d i of
        None \<Rightarrow> Inl (NotFound ''trash item not found'')
      | Some r \<Rightarrow> Inr (trash_view_of d r))"

definition list_model_file_trash :: "db \<Rightarrow> trash_view list" where
  "list_model_file_trash d =
     map (trash_view_of d) (sort_key (\<lambda>r. - tr_created_at r) (model_file_trash d))"

section \<open>Facts\<close>

lemma model_instance_Inr:
  "model_instance now d i = Inr v \<longleftrightarrow>
     (\<exists>r. instance_of d i = Some r \<and> v = model_instance_from_row now d r)"
  by (auto simp: model_instance_def split: option.splits)

lemma iv_row_from_row [simp]: "iv_row (model_instance_from_row now d r) = r"
  by (simp add: model_instance_from_row_def Let_def)

lemma set_instance_other_tables [simp]:
  "agent_tasks (set_instance i f d) = agent_tasks d" "nodes (set_instance i f d) = nodes d"
  "model_files (set_instance i f d) = model_files d"
  "model_file_trash (set_instance i f d) = model_file_trash d"
  "runtime_environments (set_instance i f d) = runtime_environments d"
  "models (set_instance i f d) = models d" "users (set_instance i f d) = users d"
  "agent_config_policies (set_instance i f d) = agent_config_policies d"
  "accounts (set_instance i f d) = accounts d"
  by (simp_all add: set_instance_def accounts_def)

lemma set_trash_other_tables [simp]:
  "agent_tasks (set_trash i f d) = agent_tasks d" "nodes (set_trash i f d) = nodes d"
  "model_files (set_trash i f d) = model_files d"
  "model_instances (set_trash i f d) = model_instances d"
  "runtime_environments (set_trash i f d) = runtime_environments d"
  "models (set_trash i f d) = models d" "users (set_trash i f d) = users d"
  "agent_config_policies (set_trash i f d) = agent_config_policies d"
  "accounts (set_trash i f d) = accounts d"
  by (simp_all add: set_trash_def accounts_def)

lemma instance_of_set_instance:
  assumes "\<And>r. mi_id (f r) = mi_id r"
  shows "instance_of (set_instance i f d) k =
    (if k = i then map_option f (instance_of d i) else instance_of d k)"
proof -
  have "instance_of (set_instance i f d) k =
      map_option (\<lambda>r. if mi_id r = i then f r else r) (instance_of d k)"
    unfolding instance_of_def set_instance_def by (rule instances_tbl.lookup_update) (rule assms)
  then show ?thesis
    by (cases "instance_of d k") (auto simp: instance_of_def dest: find_Some_D)
qed

lemma trash_of_set_trash:
  assumes "\<And>r. tr_id (f r) = tr_id r"
  shows "trash_of (set_trash i f d) k =
    (if k = i then map_option f (trash_of d i) else trash_of d k)"
proof -
  have "trash_of (set_trash i f d) k =
      map_option (\<lambda>r. if tr_id r = i then f r else r) (trash_of d k)"
    unfolding trash_of_def set_trash_def by (rule trash_tbl.lookup_update) (rule assms)
  then show ?thesis
    by (cases "trash_of d k") (auto simp: trash_of_def dest: find_Some_D)
qed

lemma before_append: "\<not> contains s m \<Longrightarrow> m \<noteq> [] \<Longrightarrow> before s m = s"
  by (induction s) auto

end
