(* ===== verification/Policy.thy ===== *)
theory Policy
  imports Support
begin

text \<open>
  Agent configuration policies: the record types of \<^verbatim>\<open>server/src/models.rs\<close>, the log policy of
  \<^verbatim>\<open>server/src/platform_log.rs\<close> and the policy functions of \<^verbatim>\<open>server/src/repository.rs\<close>. A
  node's effective configuration is the default overlaid by the global policy and then by the
  node's own; saving a policy validates it and stamps it with a version above every stored one.

  The stored text is JSON. \<open>policy_to_json\<close> and \<open>policy_of_json\<close> are the members that the
  derived \<open>Serialize\<close> and \<open>Deserialize\<close> write and read: an absent or null member is \<open>None\<close>, a
  member of another type is an error. (The positional array form that derived deserializers
  also accept is never written by the server; the model rejects it.)
\<close>

section \<open>Records\<close>

record log_policy =
  lp_log_dir :: string
  lp_log_level :: string
  lp_log_max_file_bytes :: int
  lp_log_retention_files :: int
  lp_log_retention_days :: int

definition default_log_policy :: log_policy where
  "default_log_policy =
     \<lparr>lp_log_dir = ''logs'', lp_log_level = ''info'', lp_log_max_file_bytes = 10 * 1024 * 1024,
      lp_log_retention_files = 5, lp_log_retention_days = 7\<rparr>"

record agent_config =
  ac_config_version :: int
  ac_heartbeat_interval_secs :: int
  ac_metrics_sample_interval_secs :: int
  ac_task_poll_interval_secs :: int
  ac_config_refresh_interval_secs :: int
  ac_command_timeout_secs :: int
  ac_environment_check_timeout_secs :: int
  ac_allowed_model_dirs :: "string list"
  ac_collector_timeout_secs :: int
  ac_collector_max_output_bytes :: int
  ac_log_policy :: log_policy
  ac_last_config_updated_at :: "int option"

record agent_config_policy =
  cp_heartbeat_interval_secs :: "int option"
  cp_metrics_sample_interval_secs :: "int option"
  cp_command_timeout_secs :: "int option"
  cp_environment_check_timeout_secs :: "int option"
  cp_allowed_model_dirs :: "string list option"
  cp_collector_timeout_secs :: "int option"
  cp_collector_max_output_bytes :: "int option"
  cp_log_dir :: "string option"
  cp_log_level :: "string option"
  cp_log_max_file_bytes :: "int option"
  cp_log_retention_files :: "int option"
  cp_log_retention_days :: "int option"

definition empty_policy :: agent_config_policy where
  "empty_policy =
     \<lparr>cp_heartbeat_interval_secs = None, cp_metrics_sample_interval_secs = None,
      cp_command_timeout_secs = None, cp_environment_check_timeout_secs = None,
      cp_allowed_model_dirs = None, cp_collector_timeout_secs = None,
      cp_collector_max_output_bytes = None, cp_log_dir = None, cp_log_level = None,
      cp_log_max_file_bytes = None, cp_log_retention_files = None,
      cp_log_retention_days = None\<rparr>"

definition AGENT_CONFIG_VERSION :: int where "AGENT_CONFIG_VERSION = 1"
definition HEARTBEAT_INTERVAL :: int where "HEARTBEAT_INTERVAL = 15"

text \<open>\<open>AgentConfig::default()\<close> and \<open>default_agent_config\<close>.\<close>

definition agent_config_default :: agent_config where
  "agent_config_default =
     \<lparr>ac_config_version = 0, ac_heartbeat_interval_secs = 15, ac_metrics_sample_interval_secs = 15,
      ac_task_poll_interval_secs = 15, ac_config_refresh_interval_secs = 60,
      ac_command_timeout_secs = 5, ac_environment_check_timeout_secs = 5,
      ac_allowed_model_dirs = [], ac_collector_timeout_secs = 5,
      ac_collector_max_output_bytes = 1024 * 1024, ac_log_policy = default_log_policy,
      ac_last_config_updated_at = None\<rparr>"

definition default_agent_config :: "int \<Rightarrow> agent_config" where
  "default_agent_config updated_at = agent_config_default
     \<lparr>ac_config_version := AGENT_CONFIG_VERSION,
      ac_heartbeat_interval_secs := HEARTBEAT_INTERVAL,
      ac_metrics_sample_interval_secs := HEARTBEAT_INTERVAL,
      ac_command_timeout_secs := 5,
      ac_environment_check_timeout_secs := 5,
      ac_last_config_updated_at := Some updated_at\<rparr>"

section \<open>Validation\<close>

definition validate_log_dir :: "string \<Rightarrow> string option" where
  "validate_log_dir v =
     (let t = trim v in
      if t = [] \<or> contains t ''..'' \<or> contains t [CHR 0x00] then Some ''log_dir is invalid''
      else if t = ''/'' then Some ''log_dir is dangerous''
      else None)"

definition validate_log_policy :: "log_policy \<Rightarrow> string option" where
  "validate_log_policy p = first_error [
     validate_log_dir (lp_log_dir p),
     if lp_log_level p \<in> {''error'', ''warn'', ''info'', ''debug'', ''trace''} then None
     else Some ''log_level is invalid'',
     if lp_log_max_file_bytes p = 0 \<or> lp_log_max_file_bytes p > 1024 * 1024 * 1024
     then Some ''log_max_file_bytes must be between 1 and 1073741824'' else None,
     if lp_log_retention_files p = 0 \<or> lp_log_retention_files p > 100
     then Some ''log_retention_files must be between 1 and 100'' else None,
     if lp_log_retention_days p > 3650
     then Some ''log_retention_days must be between 0 and 3650'' else None]"

definition overlay_log_policy :: "agent_config_policy \<Rightarrow> log_policy \<Rightarrow> log_policy" where
  "overlay_log_policy p l =
     \<lparr>lp_log_dir = unwrap_or (cp_log_dir p) (lp_log_dir l),
      lp_log_level = unwrap_or (cp_log_level p) (lp_log_level l),
      lp_log_max_file_bytes = unwrap_or (cp_log_max_file_bytes p) (lp_log_max_file_bytes l),
      lp_log_retention_files = unwrap_or (cp_log_retention_files p) (lp_log_retention_files l),
      lp_log_retention_days = unwrap_or (cp_log_retention_days p) (lp_log_retention_days l)\<rparr>"

definition check_secs :: "string \<Rightarrow> int option \<Rightarrow> string option" where
  "check_secs name v =
     (case v of
        None \<Rightarrow> None
      | Some n \<Rightarrow> if n = 0 \<or> n > 86400 then Some (name @ '' must be between 1 and 86400'') else None)"

definition bad_model_dir :: "string \<Rightarrow> bool" where
  "bad_model_dir dir \<longleftrightarrow> blank dir \<or> contains dir ''..''"

definition validate_policy :: "agent_config_policy \<Rightarrow> string option" where
  "validate_policy p = first_error [
     check_secs ''heartbeat_interval_secs'' (cp_heartbeat_interval_secs p),
     check_secs ''metrics_sample_interval_secs'' (cp_metrics_sample_interval_secs p),
     check_secs ''command_timeout_secs'' (cp_command_timeout_secs p),
     check_secs ''environment_check_timeout_secs'' (cp_environment_check_timeout_secs p),
     check_secs ''collector_timeout_secs'' (cp_collector_timeout_secs p),
     case cp_collector_max_output_bytes p of
       None \<Rightarrow> None
     | Some n \<Rightarrow> if n = 0 \<or> n > 16 * 1024 * 1024
               then Some ''collector_max_output_bytes must be between 1 and 16777216'' else None,
     case cp_allowed_model_dirs p of
       None \<Rightarrow> None
     | Some dirs \<Rightarrow> if \<exists>x \<in> set dirs. bad_model_dir x
                  then Some ''allowed_model_dirs contains invalid path'' else None,
     validate_log_policy (overlay_log_policy p default_log_policy)]"

section \<open>Overlaying policies\<close>

definition apply_policy_layer :: "agent_config \<Rightarrow> agent_config_policy \<Rightarrow> agent_config" where
  "apply_policy_layer c p = c
     \<lparr>ac_heartbeat_interval_secs :=
        unwrap_or (cp_heartbeat_interval_secs p) (ac_heartbeat_interval_secs c),
      ac_metrics_sample_interval_secs :=
        unwrap_or (cp_metrics_sample_interval_secs p) (ac_metrics_sample_interval_secs c),
      ac_command_timeout_secs :=
        unwrap_or (cp_command_timeout_secs p) (ac_command_timeout_secs c),
      ac_environment_check_timeout_secs :=
        unwrap_or (cp_environment_check_timeout_secs p) (ac_environment_check_timeout_secs c),
      ac_allowed_model_dirs :=
        unwrap_or (cp_allowed_model_dirs p) (ac_allowed_model_dirs c),
      ac_collector_timeout_secs :=
        unwrap_or (cp_collector_timeout_secs p) (ac_collector_timeout_secs c),
      ac_collector_max_output_bytes :=
        unwrap_or (cp_collector_max_output_bytes p) (ac_collector_max_output_bytes c),
      ac_log_policy := overlay_log_policy p (ac_log_policy c)\<rparr>"

definition apply_policy ::
  "agent_config \<Rightarrow> agent_config_policy \<Rightarrow> agent_config_policy \<Rightarrow> int \<Rightarrow> int \<Rightarrow> agent_config" where
  "apply_policy c global node version updated_at =
     (apply_policy_layer (apply_policy_layer c global) node)
       \<lparr>ac_config_version := version, ac_last_config_updated_at := Some updated_at\<rparr>"

section \<open>Stored text\<close>

definition jopt_int :: "int option \<Rightarrow> json" where
  "jopt_int v = (case v of None \<Rightarrow> JNull | Some n \<Rightarrow> JInt n)"

definition jopt_strs :: "string list option \<Rightarrow> json" where
  "jopt_strs v = (case v of None \<Rightarrow> JNull | Some xs \<Rightarrow> JArr (map JStr xs))"

definition policy_to_json :: "agent_config_policy \<Rightarrow> json" where
  "policy_to_json p = JObj
     [(''heartbeat_interval_secs'', jopt_int (cp_heartbeat_interval_secs p)),
      (''metrics_sample_interval_secs'', jopt_int (cp_metrics_sample_interval_secs p)),
      (''command_timeout_secs'', jopt_int (cp_command_timeout_secs p)),
      (''environment_check_timeout_secs'', jopt_int (cp_environment_check_timeout_secs p)),
      (''allowed_model_dirs'', jopt_strs (cp_allowed_model_dirs p)),
      (''collector_timeout_secs'', jopt_int (cp_collector_timeout_secs p)),
      (''collector_max_output_bytes'', jopt_int (cp_collector_max_output_bytes p)),
      (''log_dir'', jopt (cp_log_dir p)),
      (''log_level'', jopt (cp_log_level p)),
      (''log_max_file_bytes'', jopt_int (cp_log_max_file_bytes p)),
      (''log_retention_files'', jopt_int (cp_log_retention_files p)),
      (''log_retention_days'', jopt_int (cp_log_retention_days p))]"

text \<open>A member of type \<open>Option<T>\<close>: the outer \<open>None\<close> is the deserialization error.\<close>

definition read_opt :: "(json \<Rightarrow> 'a option) \<Rightarrow> json \<Rightarrow> string \<Rightarrow> 'a option option" where
  "read_opt rd v k =
     (case jget v k of
        None \<Rightarrow> Some None
      | Some JNull \<Rightarrow> Some None
      | Some j \<Rightarrow> map_option Some (rd j))"

fun all_some :: "'a option list \<Rightarrow> 'a list option" where
  "all_some [] = Some []"
| "all_some (None # xs) = None"
| "all_some (Some x # xs) = map_option ((#) x) (all_some xs)"

definition read_strs :: "json \<Rightarrow> string list option" where
  "read_strs j = Option.bind (as_array j) (\<lambda>xs. all_some (map as_str xs))"

definition policy_of_json :: "json \<Rightarrow> agent_config_policy option" where
  "policy_of_json v =
     (if \<not> is_object v then None else
      Option.bind (read_opt as_u64 v ''heartbeat_interval_secs'') (\<lambda>hb.
      Option.bind (read_opt as_u64 v ''metrics_sample_interval_secs'') (\<lambda>ms.
      Option.bind (read_opt as_u64 v ''command_timeout_secs'') (\<lambda>ct.
      Option.bind (read_opt as_u64 v ''environment_check_timeout_secs'') (\<lambda>et.
      Option.bind (read_opt read_strs v ''allowed_model_dirs'') (\<lambda>dirs.
      Option.bind (read_opt as_u64 v ''collector_timeout_secs'') (\<lambda>colt.
      Option.bind (read_opt as_u64 v ''collector_max_output_bytes'') (\<lambda>colb.
      Option.bind (read_opt as_str v ''log_dir'') (\<lambda>ld.
      Option.bind (read_opt as_str v ''log_level'') (\<lambda>ll.
      Option.bind (read_opt as_u64 v ''log_max_file_bytes'') (\<lambda>lb.
      Option.bind (read_opt as_u64 v ''log_retention_files'') (\<lambda>lf.
      Option.bind (read_opt as_u64 v ''log_retention_days'') (\<lambda>lr.
      Some \<lparr>cp_heartbeat_interval_secs = hb, cp_metrics_sample_interval_secs = ms,
            cp_command_timeout_secs = ct, cp_environment_check_timeout_secs = et,
            cp_allowed_model_dirs = dirs, cp_collector_timeout_secs = colt,
            cp_collector_max_output_bytes = colb, cp_log_dir = ld, cp_log_level = ll,
            cp_log_max_file_bytes = lb, cp_log_retention_files = lf,
            cp_log_retention_days = lr\<rparr>)))))))))))))"

section \<open>Operations\<close>

definition policy_row_of :: "db \<Rightarrow> string \<Rightarrow> string \<Rightarrow> policy_row option" where
  "policy_row_of d scope nid =
     find_row (\<lambda>r. ap_scope r = scope \<and> ap_node_id r = nid) (agent_config_policies d)"

text \<open>The outer sum is the error of a stored text that does not parse.\<close>

definition read_policy :: "ext \<Rightarrow> db \<Rightarrow> string \<Rightarrow> string \<Rightarrow> string + agent_config_policy option" where
  "read_policy x d scope nid =
     (case policy_row_of d scope nid of
        None \<Rightarrow> Inr None
      | Some r \<Rightarrow>
          (case Option.bind (ext_jparse x (ap_policy_json r)) policy_of_json of
             None \<Rightarrow> Inl ''invalid policy''
           | Some p \<Rightarrow> Inr (Some p)))"

definition policy_version :: "db \<Rightarrow> string \<Rightarrow> string \<Rightarrow> int option" where
  "policy_version d scope nid = map_option ap_version (policy_row_of d scope nid)"

definition policy_updated_at :: "db \<Rightarrow> string \<Rightarrow> string \<Rightarrow> int option" where
  "policy_updated_at d scope nid = map_option ap_updated_at (policy_row_of d scope nid)"

text \<open>\<open>SELECT MAX(version)\<close>, NULL on an empty table.\<close>

definition max_version :: "db \<Rightarrow> int option" where
  "max_version d =
     (case map ap_version (agent_config_policies d) of
        [] \<Rightarrow> None
      | v # vs \<Rightarrow> Some (fold max vs v))"

definition next_policy_version :: "db \<Rightarrow> int" where
  "next_policy_version d = unwrap_or (max_version d) AGENT_CONFIG_VERSION + 1"

definition save_agent_config_policy ::
  "ext \<Rightarrow> int \<Rightarrow> string \<Rightarrow> string \<Rightarrow> agent_config_policy \<Rightarrow> db \<Rightarrow> (string + unit) \<times> db" where
  "save_agent_config_policy x now scope nid p d =
     (case validate_policy p of
        Some e \<Rightarrow> (Inl e, d)
      | None \<Rightarrow>
          (let r = \<lparr>ap_scope = scope, ap_node_id = nid,
                    ap_policy_json = ext_jprint x (policy_to_json p),
                    ap_version = next_policy_version d, ap_updated_at = now\<rparr>
           in (Inr (), d\<lparr>agent_config_policies :=
                upsert_row (\<lambda>q. ap_scope q = scope \<and> ap_node_id q = nid)
                  (\<lambda>q. q\<lparr>ap_policy_json := ap_policy_json r, ap_version := ap_version r,
                         ap_updated_at := ap_updated_at r\<rparr>)
                  r (agent_config_policies d)\<rparr>)))"

definition effective_agent_config ::
  "ext \<Rightarrow> int \<Rightarrow> db \<Rightarrow> string \<Rightarrow> string + agent_config" where
  "effective_agent_config x now d nid =
     (case read_policy x d ''global'' [] of
        Inl e \<Rightarrow> Inl e
      | Inr g \<Rightarrow>
          (case read_policy x d ''node'' nid of
             Inl e \<Rightarrow> Inl e
           | Inr n \<Rightarrow>
               Inr (apply_policy (default_agent_config now)
                      (unwrap_or g empty_policy) (unwrap_or n empty_policy)
                      (max (max (unwrap_or (policy_version d ''global'' []) AGENT_CONFIG_VERSION)
                                (unwrap_or (policy_version d ''node'' nid) 0))
                           AGENT_CONFIG_VERSION)
                      now)))"

record policy_view =
  pv_scope :: string
  pv_node_id :: "string option"
  pv_version :: int
  pv_updated_at :: int
  pv_policy :: agent_config_policy
  pv_effective_config :: agent_config

definition agent_config_policy_view ::
  "ext \<Rightarrow> int \<Rightarrow> db \<Rightarrow> string \<Rightarrow> string option \<Rightarrow> string + policy_view" where
  "agent_config_policy_view x now d scope nid =
     (let key = unwrap_or nid [] in
      case read_policy x d scope key of
        Inl e \<Rightarrow> Inl e
      | Inr p \<Rightarrow>
          (let policy = unwrap_or p empty_policy;
               version = unwrap_or (policy_version d scope key) AGENT_CONFIG_VERSION;
               updated = unwrap_or (policy_updated_at d scope key) now
           in case (case nid of
                 Some n \<Rightarrow> effective_agent_config x now d n
               | None \<Rightarrow> Inr (apply_policy (default_agent_config updated) policy empty_policy
                               version updated)) of
             Inl e \<Rightarrow> Inl e
           | Inr c \<Rightarrow> Inr \<lparr>pv_scope = scope, pv_node_id = nid, pv_version = version,
                            pv_updated_at = updated, pv_policy = policy,
                            pv_effective_config = c\<rparr>))"

definition update_global_agent_config_policy ::
  "ext \<Rightarrow> int \<Rightarrow> agent_config_policy \<Rightarrow> db \<Rightarrow> (string + policy_view) \<times> db" where
  "update_global_agent_config_policy x now p d =
     (case save_agent_config_policy x now ''global'' [] p d of
        (Inl e, d1) \<Rightarrow> (Inl e, d1)
      | (Inr _, d1) \<Rightarrow> (agent_config_policy_view x now d1 ''global'' None, d1))"

definition update_node_agent_config_policy ::
  "ext \<Rightarrow> int \<Rightarrow> string \<Rightarrow> agent_config_policy \<Rightarrow> db \<Rightarrow> (string + policy_view) \<times> db" where
  "update_node_agent_config_policy x now nid p d =
     (case save_agent_config_policy x now ''node'' nid p d of
        (Inl e, d1) \<Rightarrow> (Inl e, d1)
      | (Inr _, d1) \<Rightarrow> (agent_config_policy_view x now d1 ''node'' (Some nid), d1))"

section \<open>Facts\<close>

text \<open>Values that fit the Rust types: \<open>u64\<close>, and \<open>usize\<close> on a 64-bit target.\<close>

definition u64_opt :: "int option \<Rightarrow> bool" where
  "u64_opt v = (case v of None \<Rightarrow> True | Some n \<Rightarrow> 0 \<le> n \<and> n < 2 ^ 64)"

definition policy_typed :: "agent_config_policy \<Rightarrow> bool" where
  "policy_typed p \<longleftrightarrow>
     u64_opt (cp_heartbeat_interval_secs p) \<and> u64_opt (cp_metrics_sample_interval_secs p)
     \<and> u64_opt (cp_command_timeout_secs p) \<and> u64_opt (cp_environment_check_timeout_secs p)
     \<and> u64_opt (cp_collector_timeout_secs p) \<and> u64_opt (cp_collector_max_output_bytes p)
     \<and> u64_opt (cp_log_max_file_bytes p) \<and> u64_opt (cp_log_retention_files p)
     \<and> u64_opt (cp_log_retention_days p)"

lemma all_some_map_JStr [simp]: "all_some (map (as_str \<circ> JStr) xs) = Some xs"
  by (induction xs) simp_all

lemma read_opt_int:
  "jget v k = Some (jopt_int n) \<Longrightarrow> u64_opt n \<Longrightarrow> read_opt as_u64 v k = Some n"
  by (cases n) (auto simp: read_opt_def jopt_int_def u64_opt_def)

lemma read_opt_str: "jget v k = Some (jopt s) \<Longrightarrow> read_opt as_str v k = Some s"
  by (cases s) (auto simp: read_opt_def jopt_def)

lemma read_opt_strs: "jget v k = Some (jopt_strs s) \<Longrightarrow> read_opt read_strs v k = Some s"
  by (cases s) (auto simp: read_opt_def jopt_strs_def read_strs_def)

lemma policy_of_to_json:
  assumes "policy_typed p"
  shows "policy_of_json (policy_to_json p) = Some p"
proof -
  let ?j = "policy_to_json p"
  have ints:
    "read_opt as_u64 ?j ''heartbeat_interval_secs'' = Some (cp_heartbeat_interval_secs p)"
    "read_opt as_u64 ?j ''metrics_sample_interval_secs'' = Some (cp_metrics_sample_interval_secs p)"
    "read_opt as_u64 ?j ''command_timeout_secs'' = Some (cp_command_timeout_secs p)"
    "read_opt as_u64 ?j ''environment_check_timeout_secs'' = Some (cp_environment_check_timeout_secs p)"
    "read_opt as_u64 ?j ''collector_timeout_secs'' = Some (cp_collector_timeout_secs p)"
    "read_opt as_u64 ?j ''collector_max_output_bytes'' = Some (cp_collector_max_output_bytes p)"
    "read_opt as_u64 ?j ''log_max_file_bytes'' = Some (cp_log_max_file_bytes p)"
    "read_opt as_u64 ?j ''log_retention_files'' = Some (cp_log_retention_files p)"
    "read_opt as_u64 ?j ''log_retention_days'' = Some (cp_log_retention_days p)"
    using assms by (auto simp: policy_typed_def policy_to_json_def intro!: read_opt_int)
  have strs:
    "read_opt read_strs ?j ''allowed_model_dirs'' = Some (cp_allowed_model_dirs p)"
    "read_opt as_str ?j ''log_dir'' = Some (cp_log_dir p)"
    "read_opt as_str ?j ''log_level'' = Some (cp_log_level p)"
    by (auto simp: policy_to_json_def intro!: read_opt_str read_opt_strs)
  have obj: "is_object ?j" by (simp add: policy_to_json_def)
  show ?thesis unfolding policy_of_json_def by (simp add: ints strs obj)
qed

lemma fold_max_ge: "v \<in> set (a # vs) \<Longrightarrow> v \<le> fold max vs (a :: int)"
  by (metis List.finite_set Max.set_eq_fold Max_ge)

lemma next_policy_version_greater:
  "r \<in> set (agent_config_policies d) \<Longrightarrow> ap_version r < next_policy_version d"
  using fold_max_ge [of "ap_version r"]
  by (cases "agent_config_policies d")
    (fastforce simp: next_policy_version_def max_version_def)+

lemma policy_row_after_save:
  assumes "save_agent_config_policy x now scope nid p d = (Inr u, d1)"
  shows "policy_row_of d1 scope nid = Some
    \<lparr>ap_scope = scope, ap_node_id = nid, ap_policy_json = ext_jprint x (policy_to_json p),
     ap_version = next_policy_version d, ap_updated_at = now\<rparr>"
proof -
  let ?same = "\<lambda>q. ap_scope q = scope \<and> ap_node_id q = nid"
  let ?r = "\<lparr>ap_scope = scope, ap_node_id = nid,
    ap_policy_json = ext_jprint x (policy_to_json p),
    ap_version = next_policy_version d, ap_updated_at = now\<rparr>"
  let ?f = "\<lambda>q. q\<lparr>ap_policy_json := ap_policy_json ?r, ap_version := ap_version ?r,
    ap_updated_at := ap_updated_at ?r\<rparr>"
  from assms have rows: "agent_config_policies d1 = upsert_row ?same ?f ?r (agent_config_policies d)"
    by (auto simp: save_agent_config_policy_def Let_def split: option.splits)
  have "find ?same (agent_config_policies d1) =
      Some (case find ?same (agent_config_policies d) of Some q \<Rightarrow> ?f q | None \<Rightarrow> ?r)"
    unfolding rows by (rule find_upsert_same) simp_all
  moreover have "?f q = ?r" if "?same q" for q using that by (cases q) simp
  ultimately show ?thesis
    by (auto simp: policy_row_of_def split: option.splits dest!: find_Some_D)
qed

lemma policy_row_other_after_save:
  assumes "save_agent_config_policy x now scope nid p d = (res, d1)"
    and "(scope', nid') \<noteq> (scope, nid)"
  shows "policy_row_of d1 scope' nid' = policy_row_of d scope' nid'"
proof (cases "validate_policy p")
  case None
  with assms(1) show ?thesis
    by (auto simp: save_agent_config_policy_def Let_def policy_row_of_def
        intro!: find_upsert_other, use assms(2) in auto)
next
  case (Some e)
  with assms(1) show ?thesis by (simp add: save_agent_config_policy_def)
qed

lemma read_policy_after_save:
  assumes "json_roundtrip x" and "policy_typed p"
    and "save_agent_config_policy x now scope nid p d = (Inr u, d1)"
  shows "read_policy x d1 scope nid = Inr (Some p)"
  using assms(1) by (simp add: read_policy_def policy_row_after_save [OF assms(3)]
      json_roundtrip_def policy_of_to_json [OF assms(2)])

end
