(* ===== verification/Tasks.thy ===== *)
theory Tasks
  imports Views Policy
begin

text \<open>
  \<^verbatim>\<open>server/src/agent_tasks.rs\<close>: the queue of tasks the server hands to the agents. A task is
  queued by a domain operation, claimed by the agent's poll (\<open>poll_agent_task\<close>), reported
  (\<open>record_agent_task_result\<close>) or timed out (\<open>mark_timed_out_tasks\<close>, run at the start of every
  poll and of every model-file query). Each function returns its result and the database after
  it; a transaction that fails returns the database it started from.
\<close>

definition AGENT_TASK_LEASE :: int where "AGENT_TASK_LEASE = 30"
definition AGENT_TASK_QUEUE_TIMEOUT :: int where "AGENT_TASK_QUEUE_TIMEOUT = 300"

definition instance_kinds :: "string list" where
  "instance_kinds = [''start_model_instance'', ''stop_model_instance'', ''check_model_instance'',
                     ''test_model_instance'']"

definition set_task :: "string \<Rightarrow> (task_row \<Rightarrow> task_row) \<Rightarrow> db \<Rightarrow> db" where
  "set_task i f d = d\<lparr>agent_tasks := update_where (\<lambda>t. t_id t = i) f (agent_tasks d)\<rparr>"

definition set_file :: "string \<Rightarrow> (file_row \<Rightarrow> file_row) \<Rightarrow> db \<Rightarrow> db" where
  "set_file i f d = d\<lparr>model_files := update_where (\<lambda>r. mf_id r = i) f (model_files d)\<rparr>"

section \<open>Timing out\<close>

definition task_open :: "task_row \<Rightarrow> bool" where
  "task_open t \<longleftrightarrow> t_status t = ''queued'' \<or> t_status t = ''running''"

definition mark_task_timed_out :: "int \<Rightarrow> string \<Rightarrow> db \<Rightarrow> db" where
  "mark_task_timed_out now i d =
     d\<lparr>agent_tasks := update_where (\<lambda>t. t_id t = i \<and> task_open t)
         (\<lambda>t. t\<lparr>t_status := ''timed_out'', t_error_message := Some ''task execution timed out'',
                t_updated_at := now\<rparr>) (agent_tasks d)\<rparr>"

definition task_overdue :: "int \<Rightarrow> task_row \<Rightarrow> bool" where
  "task_overdue now t \<longleftrightarrow>
     (t_status t = ''running'' \<and> (case t_lease_until t of None \<Rightarrow> False | Some l \<Rightarrow> l < now))
     \<or> (t_status t = ''queued'' \<and> t_created_at t < now - AGENT_TASK_QUEUE_TIMEOUT)"

text \<open>The consequence of one overdue task for the row it was about.\<close>

definition time_out_target :: "ext \<Rightarrow> int \<Rightarrow> task_row \<Rightarrow> db \<Rightarrow> (domain_error + unit) \<times> db" where
  "time_out_target x now t d =
     (if t_kind t = ''verify_model_file'' then
        (case parse_member x (t_payload_json t) ''model_file_id'' of
           None \<Rightarrow> (Inr (), d)
         | Some fid \<Rightarrow>
             (Inr (), set_file fid (\<lambda>r. r\<lparr>mf_status := ''verify_timeout'',
                mf_last_error := Some ''verification timed out'', mf_updated_at := now\<rparr>) d))
      else if t_kind t = ''cleanup_model_file'' then
        (case parse_member x (t_payload_json t) ''trash_id'' of
           None \<Rightarrow> (Inr (), d)
         | Some tid \<Rightarrow>
             (Inr (), update_trash_failure now tid ''cleanup_timeout'' ''file cleanup timed out'' d))
      else if t_kind t \<in> set instance_kinds then
        (case parse_member x (t_payload_json t) ''instance_id'' of
           None \<Rightarrow> (Inr (), d)
         | Some iid \<Rightarrow>
             (case update_instance_check now iid ''failed''
                     (Some ''Local instance task timed out'') d of
                (Inl e, d1) \<Rightarrow> (Inl e, d1)
              | (Inr _, d1) \<Rightarrow> (Inr (), d1)))
      else (Inr (), d))"

text \<open>The loop over the selected rows; an error leaves through \<open>?\<close> with the rest untouched.\<close>

fun time_out_all :: "ext \<Rightarrow> int \<Rightarrow> task_row list \<Rightarrow> db \<Rightarrow> (domain_error + unit) \<times> db" where
  "time_out_all x now [] d = (Inr (), d)"
| "time_out_all x now (t # ts) d =
     (case time_out_target x now t (mark_task_timed_out now (t_id t) d) of
        (Inl e, d1) \<Rightarrow> (Inl e, d1)
      | (Inr _, d1) \<Rightarrow> time_out_all x now ts d1)"

definition mark_timed_out_tasks :: "ext \<Rightarrow> int \<Rightarrow> db \<Rightarrow> (domain_error + unit) \<times> db" where
  "mark_timed_out_tasks x now d =
     time_out_all x now (filter (task_overdue now) (agent_tasks d)) d"

section \<open>Polling\<close>

definition next_queued_agent_task :: "db \<Rightarrow> string \<Rightarrow> task_row option" where
  "next_queued_agent_task d nid =
     (case sort_key t_created_at
             (filter (\<lambda>t. t_node_id t = nid \<and> t_status t = ''queued'') (agent_tasks d)) of
        [] \<Rightarrow> None
      | t # _ \<Rightarrow> Some t)"

definition claim_task :: "ext \<Rightarrow> int \<Rightarrow> task_row \<Rightarrow> db \<Rightarrow> db" where
  "claim_task x now t d =
     (let d1 = set_task (t_id t) (\<lambda>q. q\<lparr>t_status := ''running'',
                 t_started_at := coalesce (t_started_at q) (Some now),
                 t_lease_until := Some (now + AGENT_TASK_LEASE),
                 t_attempt_count := t_attempt_count q + 1, t_updated_at := now\<rparr>) d
      in if t_kind t = ''verify_model_file'' then
           (case parse_member x (t_payload_json t) ''model_file_id'' of
              None \<Rightarrow> d1
            | Some fid \<Rightarrow> set_file fid (\<lambda>r. r\<lparr>mf_status := ''verifying'', mf_updated_at := now\<rparr>) d1)
         else if t_kind t = ''cleanup_model_file'' then
           (case parse_member x (t_payload_json t) ''trash_id'' of
              None \<Rightarrow> d1
            | Some tid \<Rightarrow> set_trash tid (\<lambda>r. r\<lparr>tr_status := ''cleanup_running'', tr_updated_at := now\<rparr>) d1)
         else d1)"

record task_view =
  av_row :: task_row
  av_payload :: json

definition agent_task_from_row :: "ext \<Rightarrow> task_row \<Rightarrow> domain_error + task_view" where
  "agent_task_from_row x t =
     (case ext_jparse x (t_payload_json t) of
        None \<Rightarrow> Inl (Internal ''invalid JSON'')
      | Some p \<Rightarrow> Inr \<lparr>av_row = t, av_payload = p\<rparr>)"

record poll_response =
  po_task :: "task_view option"
  po_agent_config :: agent_config

definition config_for :: "ext \<Rightarrow> int \<Rightarrow> db \<Rightarrow> string \<Rightarrow> domain_error + agent_config" where
  "config_for x now d nid =
     (case effective_agent_config x now d nid of Inl e \<Rightarrow> Inl (Internal e) | Inr c \<Rightarrow> Inr c)"

text \<open>The end of a poll that found a task: claim it, read it back, answer with the configuration.\<close>

definition answer_task ::
  "ext \<Rightarrow> int \<Rightarrow> string \<Rightarrow> task_row \<Rightarrow> db \<Rightarrow> (domain_error + poll_response) \<times> db" where
  "answer_task x now nid t d =
     (let d1 = claim_task x now t d in
      case task_of d1 (t_id t) of
        None \<Rightarrow> (Inl (Internal ''no rows returned''), d1)
      | Some q \<Rightarrow>
          (case agent_task_from_row x q of
             Inl e \<Rightarrow> (Inl e, d1)
           | Inr v \<Rightarrow>
               (case config_for x now d1 nid of
                  Inl e \<Rightarrow> (Inl e, d1)
                | Inr c \<Rightarrow> (Inr \<lparr>po_task = Some v, po_agent_config = c\<rparr>, d1))))"

definition answer_idle ::
  "ext \<Rightarrow> int \<Rightarrow> string \<Rightarrow> db \<Rightarrow> (domain_error + poll_response) \<times> db" where
  "answer_idle x now nid d =
     (case config_for x now d nid of
        Inl e \<Rightarrow> (Inl e, d)
      | Inr c \<Rightarrow> (Inr \<lparr>po_task = None, po_agent_config = c\<rparr>, d))"

text \<open>
  One wait of the long poll: whether \<open>task_notify\<close> fired before the deadline, what the rest of
  the server did to the database meanwhile, and the clock afterwards. When the list of waits is
  used up the deadline has passed.
\<close>

record wake =
  wk_notified :: bool
  wk_env :: "db \<Rightarrow> db"
  wk_now :: int

fun poll_agent_task ::
  "ext \<Rightarrow> string \<Rightarrow> int option \<Rightarrow> wake list \<Rightarrow> int \<Rightarrow> db \<Rightarrow> (domain_error + poll_response) \<times> db" where
  "poll_agent_task x nid version ws now d =
     (case mark_timed_out_tasks x now d of
        (Inl e, d1) \<Rightarrow> (Inl e, d1)
      | (Inr _, d1) \<Rightarrow>
          (case next_queued_agent_task d1 nid of
             Some t \<Rightarrow> answer_task x now nid t d1
           | None \<Rightarrow>
               (case ws of
                  [] \<Rightarrow> answer_idle x now nid d1
                | w # ws' \<Rightarrow>
                    (let d2 = wk_env w d1 in
                     if \<not> wk_notified w then poll_agent_task x nid version ws' (wk_now w) d2
                     else (case config_for x (wk_now w) d2 nid of
                        Inl e \<Rightarrow> (Inl e, d2)
                      | Inr c \<Rightarrow>
                          if next_queued_agent_task d2 nid = None
                             \<and> version \<noteq> None \<and> version \<noteq> Some (ac_config_version c)
                          then (Inr \<lparr>po_task = None, po_agent_config = c\<rparr>, d2)
                          else poll_agent_task x nid version ws' (wk_now w) d2)))))"

declare poll_agent_task.simps [simp del]

section \<open>Results\<close>

record task_result_request =
  tq_node_id :: string
  tq_status :: string
  tq_result :: json

definition succeeded :: "task_result_request \<Rightarrow> bool" where
  "succeeded q \<longleftrightarrow> tq_status q = ''succeeded''"

definition result_message :: "task_result_request \<Rightarrow> string option" where
  "result_message q = get_str (tq_result q) ''message''"

definition record_task_row :: "ext \<Rightarrow> int \<Rightarrow> string \<Rightarrow> task_result_request \<Rightarrow> db \<Rightarrow> db" where
  "record_task_row x now i q d =
     set_task i (\<lambda>t. t\<lparr>t_status := tq_status q,
        t_result_json := Some (ext_jprint x (tq_result q)),
        t_error_message := (if tq_status q = ''failed'' then result_message q else None),
        t_completed_at := Some now, t_updated_at := now\<rparr>) d"

definition verify_file_status :: "task_result_request \<Rightarrow> string" where
  "verify_file_status q =
     unwrap_or (get_str (tq_result q) ''file_status'')
       (if succeeded q then ''verified'' else ''failed'')"

definition file_after_result :: "int \<Rightarrow> task_result_request \<Rightarrow> file_row \<Rightarrow> file_row" where
  "file_after_result now q r =
     r\<lparr>mf_status := verify_file_status q,
       mf_size_bytes := get_i64 (tq_result q) ''size_bytes'',
       mf_path_type := Some (unwrap_or (get_str (tq_result q) ''path_type'') ''file''),
       mf_last_verified_at := Some now,
       mf_last_error :=
         (if verify_file_status q = ''verified'' then None
          else coalesce (result_message q) (Some ''File verification failed'')),
       mf_updated_at := now\<rparr>"

definition record_verify_result ::
  "ext \<Rightarrow> int \<Rightarrow> task_row \<Rightarrow> task_result_request \<Rightarrow> db \<Rightarrow> (domain_error + unit) \<times> db" where
  "record_verify_result x now t q d =
     (case ext_jparse x (t_payload_json t) of
        None \<Rightarrow> (Inl (Internal ''invalid JSON''), d)
      | Some payload \<Rightarrow>
          (case get_str payload ''model_file_id'' of
             None \<Rightarrow> (Inr (), d)
           | Some fid \<Rightarrow> (Inr (), set_file fid (file_after_result now q) d)))"

definition trash_after_result :: "int \<Rightarrow> task_result_request \<Rightarrow> trash_row \<Rightarrow> trash_row" where
  "trash_after_result now q r =
     (if succeeded q then
        r\<lparr>tr_status := ''cleaned'', tr_file_deleted_at := Some now, tr_last_error := None,
          tr_updated_at := now\<rparr>
      else
        r\<lparr>tr_status := ''cleanup_failed'',
          tr_last_error := Some (unwrap_or (result_message q) ''File cleanup failed''),
          tr_updated_at := now\<rparr>)"

definition record_cleanup_result ::
  "ext \<Rightarrow> int \<Rightarrow> task_row \<Rightarrow> task_result_request \<Rightarrow> db \<Rightarrow> (domain_error + unit) \<times> db" where
  "record_cleanup_result x now t q d =
     (case ext_jparse x (t_payload_json t) of
        None \<Rightarrow> (Inl (Internal ''invalid JSON''), d)
      | Some payload \<Rightarrow>
          (case get_str payload ''trash_id'' of
             None \<Rightarrow> (Inl (BadRequest ''task payload is invalid''), d)
           | Some tid \<Rightarrow> (Inr (), set_trash tid (trash_after_result now q) d)))"

definition instance_next_status :: "string \<Rightarrow> task_result_request \<Rightarrow> string" where
  "instance_next_status kind q =
     unwrap_or (get_str (tq_result q) ''instance_status'')
       (if succeeded q
        then (if kind = ''stop_model_instance'' then ''stopped'' else ''running'')
        else ''failed'')"

text \<open>The full-width colon between the test message and the response summary.\<close>

definition wide_colon :: string where
  "wide_colon = [CHR 0xEF, CHR 0xBC, CHR 0x9A]"

definition instance_last_error :: "string \<Rightarrow> task_result_request \<Rightarrow> string option" where
  "instance_last_error kind q =
     (if \<not> succeeded q then
        coalesce (result_message q) (Some ''Instance task execution failed'')
      else if kind = ''test_model_instance'' then
        (let message = unwrap_or (result_message q) ''Test succeeded'';
             summary = unwrap_or (get_str (tq_result q) ''response_summary'') []
         in Some (if blank summary then message else message @ wide_colon @ summary))
      else result_message q)"

definition instance_after_result ::
  "int \<Rightarrow> string \<Rightarrow> task_result_request \<Rightarrow> instance_row \<Rightarrow> instance_row" where
  "instance_after_result now kind q r =
     (let res = tq_result q; stop = (kind = ''stop_model_instance'') in
      r\<lparr>mi_status := instance_next_status kind q,
        mi_base_url := coalesce (get_str res ''base_url'') (mi_base_url r),
        mi_endpoint_url := coalesce (get_str res ''endpoint_url'') (mi_endpoint_url r),
        mi_process_id :=
          (if stop then None else coalesce (get_i64 res ''process_id'') (mi_process_id r)),
        mi_process_ref :=
          (if stop then None else coalesce (get_str res ''process_ref'') (mi_process_ref r)),
        mi_log_tail :=
          coalesce (map_option (chars_take 8192) (get_str res ''log_tail'')) (mi_log_tail r),
        mi_command :=
          coalesce (map_option (chars_take 2048) (get_str res ''command'')) (mi_command r),
        mi_last_checked_at := Some now,
        mi_last_error := instance_last_error kind q,
        mi_updated_at := now\<rparr>)"

definition record_instance_result ::
  "ext \<Rightarrow> int \<Rightarrow> task_row \<Rightarrow> task_result_request \<Rightarrow> db \<Rightarrow> (domain_error + unit) \<times> db" where
  "record_instance_result x now t q d =
     (case ext_jparse x (t_payload_json t) of
        None \<Rightarrow> (Inl (Internal ''invalid JSON''), d)
      | Some payload \<Rightarrow>
          (case get_str payload ''instance_id'' of
             None \<Rightarrow> (Inl (BadRequest ''task payload is invalid''), d)
           | Some iid \<Rightarrow>
               (Inr (), set_instance iid (instance_after_result now (t_kind t) q) d)))"

definition record_agent_task_result ::
  "ext \<Rightarrow> int \<Rightarrow> string \<Rightarrow> task_result_request \<Rightarrow> db \<Rightarrow> (domain_error + unit) \<times> db" where
  "record_agent_task_result x now i q d =
     (case find_row (\<lambda>t. t_id t = i \<and> t_node_id t = tq_node_id q) (agent_tasks d) of
        None \<Rightarrow> (Inl (NotFound ''agent task not found''), d)
      | Some t \<Rightarrow>
          if tq_status q \<notin> {''succeeded'', ''failed''}
          then (Inl (BadRequest ''status is invalid''), d)
          else
            (let d1 = record_task_row x now i q d;
                 res = (if t_kind t = ''verify_model_file'' then record_verify_result x now t q d1
                        else if t_kind t = ''cleanup_model_file'' then record_cleanup_result x now t q d1
                        else if t_kind t = ''read_instance_log'' then (Inr (), d1)
                        else if t_kind t \<in> set instance_kinds then record_instance_result x now t q d1
                        else (Inr (), d1))
             in case res of (Inl e, _) \<Rightarrow> (Inl e, d) | (Inr _, d2) \<Rightarrow> (Inr (), d2)))"

section \<open>Frame facts\<close>

lemma set_task_other_tables [simp]:
  "model_instances (set_task i f d) = model_instances d" "nodes (set_task i f d) = nodes d"
  "model_files (set_task i f d) = model_files d"
  "model_file_trash (set_task i f d) = model_file_trash d"
  "runtime_environments (set_task i f d) = runtime_environments d"
  "models (set_task i f d) = models d" "users (set_task i f d) = users d"
  "agent_config_policies (set_task i f d) = agent_config_policies d"
  "accounts (set_task i f d) = accounts d"
  by (simp_all add: set_task_def accounts_def)

lemma set_file_other_tables [simp]:
  "model_instances (set_file i f d) = model_instances d" "nodes (set_file i f d) = nodes d"
  "agent_tasks (set_file i f d) = agent_tasks d"
  "model_file_trash (set_file i f d) = model_file_trash d"
  "runtime_environments (set_file i f d) = runtime_environments d"
  "models (set_file i f d) = models d" "users (set_file i f d) = users d"
  "agent_config_policies (set_file i f d) = agent_config_policies d"
  "accounts (set_file i f d) = accounts d"
  by (simp_all add: set_file_def accounts_def)

lemma mark_task_timed_out_other_tables [simp]:
  "model_instances (mark_task_timed_out now i d) = model_instances d"
  "nodes (mark_task_timed_out now i d) = nodes d"
  "model_files (mark_task_timed_out now i d) = model_files d"
  "model_file_trash (mark_task_timed_out now i d) = model_file_trash d"
  "runtime_environments (mark_task_timed_out now i d) = runtime_environments d"
  "models (mark_task_timed_out now i d) = models d"
  "agent_config_policies (mark_task_timed_out now i d) = agent_config_policies d"
  "accounts (mark_task_timed_out now i d) = accounts d"
  by (simp_all add: mark_task_timed_out_def accounts_def)

lemma task_of_set_task:
  assumes "\<And>t. t_id (f t) = t_id t"
  shows "task_of (set_task i f d) k = (if k = i then map_option f (task_of d i) else task_of d k)"
proof -
  have "task_of (set_task i f d) k =
      map_option (\<lambda>t. if t_id t = i then f t else t) (task_of d k)"
    unfolding task_of_def set_task_def by (rule tasks_tbl.lookup_update) (rule assms)
  then show ?thesis by (cases "task_of d k") (auto simp: task_of_def dest: find_Some_D)
qed

lemma file_of_set_file:
  assumes "\<And>r. mf_id (f r) = mf_id r"
  shows "file_of (set_file i f d) k = (if k = i then map_option f (file_of d i) else file_of d k)"
proof -
  have "file_of (set_file i f d) k =
      map_option (\<lambda>r. if mf_id r = i then f r else r) (file_of d k)"
    unfolding file_of_def set_file_def by (rule files_tbl.lookup_update) (rule assms)
  then show ?thesis by (cases "file_of d k") (auto simp: file_of_def dest: find_Some_D)
qed

lemma task_of_mark_timed_out:
  "task_of (mark_task_timed_out now i d) k =
     map_option (\<lambda>t. if t_id t = i \<and> task_open t
       then t\<lparr>t_status := ''timed_out'', t_error_message := Some ''task execution timed out'',
              t_updated_at := now\<rparr> else t) (task_of d k)"
  unfolding task_of_def mark_task_timed_out_def by (rule tasks_tbl.lookup_update) simp

lemma task_of_cong: "agent_tasks d = agent_tasks d' \<Longrightarrow> task_of d i = task_of d' i"
  by (simp add: task_of_def)

lemma agent_tasks_time_out_target [simp]:
  "agent_tasks (snd (time_out_target x now t d)) = agent_tasks d"
  by (auto simp: time_out_target_def update_instance_check_def update_trash_failure_def Let_def
      split: option.splits prod.splits sum.splits)

lemma agent_tasks_claim_task:
  "agent_tasks (claim_task x now t d) =
   agent_tasks (set_task (t_id t) (\<lambda>q. q\<lparr>t_status := ''running'',
                 t_started_at := coalesce (t_started_at q) (Some now),
                 t_lease_until := Some (now + AGENT_TASK_LEASE),
                 t_attempt_count := t_attempt_count q + 1, t_updated_at := now\<rparr>) d)"
  by (simp add: claim_task_def Let_def split: option.split)

lemma agent_tasks_record_result_branch:
  "agent_tasks (snd (record_verify_result x now t q d)) = agent_tasks d"
  "agent_tasks (snd (record_cleanup_result x now t q d)) = agent_tasks d"
  "agent_tasks (snd (record_instance_result x now t q d)) = agent_tasks d"
  by (auto simp: record_verify_result_def record_cleanup_result_def record_instance_result_def
      Let_def split: option.splits)

section \<open>The life of a task\<close>

text \<open>
  The contract of every operation on the queue. \<open>task_ok\<close> is the invariant of one row,
  \<open>task_move\<close> the moves of the status, \<open>task_step\<close> says that an operation keeps every task with
  its identity (node, kind, payload, creation time) and moves its status along \<open>task_move\<close>.
\<close>

definition task_statuses :: "string list" where
  "task_statuses = [''queued'', ''running'', ''succeeded'', ''failed'', ''timed_out'']"

definition task_ok :: "task_row \<Rightarrow> bool" where
  "task_ok t \<longleftrightarrow>
     t_status t \<in> set task_statuses \<and> 0 \<le> t_attempt_count t
     \<and> (t_status t = ''queued'' \<longrightarrow>
          t_lease_until t = None \<and> t_attempt_count t = 0 \<and> t_started_at t = None)
     \<and> (t_status t = ''running'' \<longrightarrow>
          t_lease_until t \<noteq> None \<and> 0 < t_attempt_count t \<and> t_started_at t \<noteq> None)
     \<and> (t_status t \<in> {''succeeded'', ''failed''} \<longrightarrow>
          t_result_json t \<noteq> None \<and> t_completed_at t \<noteq> None)"

definition tasks_wf :: "db \<Rightarrow> bool" where
  "tasks_wf d \<longleftrightarrow> distinct (map t_id (agent_tasks d)) \<and> (\<forall>t \<in> set (agent_tasks d). task_ok t)"

definition task_move :: "string \<Rightarrow> string \<Rightarrow> bool" where
  "task_move a b \<longleftrightarrow>
     a = b \<or> (a = ''queued'' \<and> b = ''running'')
     \<or> (a \<in> {''queued'', ''running''} \<and> b = ''timed_out'')
     \<or> b \<in> {''succeeded'', ''failed''}"

definition same_task :: "task_row \<Rightarrow> task_row \<Rightarrow> bool" where
  "same_task t t' \<longleftrightarrow> t_id t' = t_id t \<and> t_node_id t' = t_node_id t \<and> t_kind t' = t_kind t
     \<and> t_payload_json t' = t_payload_json t \<and> t_created_at t' = t_created_at t"

inductive task_moves :: "string \<Rightarrow> string \<Rightarrow> bool" where
  moves_refl: "task_moves a a"
| moves_step: "task_moves a b \<Longrightarrow> task_move b c \<Longrightarrow> task_moves a c"

inductive_cases task_movesE: "task_moves a b"

definition task_step :: "db \<Rightarrow> db \<Rightarrow> bool" where
  "task_step d d' \<longleftrightarrow>
     (\<forall>i t. task_of d i = Some t \<longrightarrow>
        (\<exists>t'. task_of d' i = Some t' \<and> same_task t t' \<and> task_moves (t_status t) (t_status t')))"

lemma task_moves_trans: "task_moves b c \<Longrightarrow> task_moves a b \<Longrightarrow> task_moves a c"
  by (induction rule: task_moves.induct) (auto intro: task_moves.intros)

lemma task_move_moves: "task_move a b \<Longrightarrow> task_moves a b"
  by (rule moves_step [OF moves_refl])

lemma closed_move: "task_move a b \<Longrightarrow> a \<notin> {''queued'', ''running''} \<Longrightarrow> b \<notin> {''queued'', ''running''}"
  by (auto simp: task_move_def)

lemma closed_moves:
  "task_moves a b \<Longrightarrow> a \<notin> {''queued'', ''running''} \<Longrightarrow> b \<notin> {''queued'', ''running''}"
  by (induction rule: task_moves.induct) (blast dest: closed_move)+

lemma same_task_refl [simp]: "same_task t t"
  by (simp add: same_task_def)

lemma same_task_trans: "same_task a b \<Longrightarrow> same_task b c \<Longrightarrow> same_task a c"
  by (simp add: same_task_def)

lemma task_step_refl [intro, simp]: "task_step d d"
  by (auto simp: task_step_def intro: moves_refl)

lemma task_step_trans: "task_step a b \<Longrightarrow> task_step b c \<Longrightarrow> task_step a c"
  unfolding task_step_def by (meson same_task_trans task_moves_trans)

lemma task_step_same_tasks: "agent_tasks d' = agent_tasks d \<Longrightarrow> task_step d d'"
  by (auto simp: task_step_def task_of_def intro: moves_refl)

lemma tasks_wf_same_tasks: "agent_tasks d' = agent_tasks d \<Longrightarrow> tasks_wf d' = tasks_wf d"
  by (simp add: tasks_wf_def)

lemma tasks_wf_set_task:
  assumes "tasks_wf d" and "\<And>t. t_id (f t) = t_id t"
    and "\<And>t. t \<in> set (agent_tasks d) \<Longrightarrow> t_id t = i \<Longrightarrow> task_ok t \<Longrightarrow> task_ok (f t)"
  shows "tasks_wf (set_task i f d)"
  using assms unfolding tasks_wf_def set_task_def
  by (auto simp: map_update_where set_update_where)

lemma task_step_set_task:
  assumes "\<And>t. same_task t (f t)"
    and "\<And>t. task_of d i = Some t \<Longrightarrow> task_move (t_status t) (t_status (f t))"
  shows "task_step d (set_task i f d)"
proof -
  have "\<And>t. t_id (f t) = t_id t" using assms(1) by (simp add: same_task_def)
  then show ?thesis
    using assms by (auto simp: task_step_def task_of_set_task intro: moves_refl task_move_moves)
qed

lemma task_ok_timed_out: "task_ok t \<Longrightarrow> task_ok (t\<lparr>t_status := ''timed_out'',
    t_error_message := e, t_updated_at := u\<rparr>)"
  by (simp add: task_ok_def task_statuses_def)

lemma tasks_wf_mark_timed_out: "tasks_wf d \<Longrightarrow> tasks_wf (mark_task_timed_out now i d)"
  unfolding tasks_wf_def mark_task_timed_out_def
  by (auto simp: map_update_where set_update_where intro: task_ok_timed_out)

lemma task_step_mark_timed_out: "task_step d (mark_task_timed_out now i d)"
  by (auto simp: task_step_def task_of_mark_timed_out same_task_def task_open_def
      intro!: task_move_moves simp: task_move_def)

end
