(* ===== verification/TaskLaws.thy ===== *)
theory TaskLaws
  imports Tasks
begin

text \<open>
  What the task queue promises. The locale \<open>task_op\<close> is the contract every operation of the
  server keeps with the queue (rows stay well formed, every task keeps its identity and moves
  only along \<open>task_move\<close>); the facts proved inside it are those a waiting request relies on.
  It is interpreted here for timing out, claiming, reporting and polling, and in the later
  theories for the operations that queue tasks.
\<close>

section \<open>The contract\<close>

locale task_op =
  fixes run :: "db \<Rightarrow> db"
  assumes keeps_wf: "tasks_wf d \<Longrightarrow> tasks_wf (run d)"
    and moves: "tasks_wf d \<Longrightarrow> task_step d (run d)"
begin

lemma task_survives:
  assumes "tasks_wf d" and "task_of d i = Some t"
  obtains t' where "task_of (run d) i = Some t'" and "same_task t t'"
    and "task_moves (t_status t) (t_status t')"
  using moves [OF assms(1)] assms(2) by (auto simp: task_step_def)

lemma closed_stays_closed:
  assumes "tasks_wf d" and "task_of d i = Some t" and "\<not> task_open t"
  shows "\<exists>t'. task_of (run d) i = Some t' \<and> \<not> task_open t'"
proof -
  obtain t' where t': "task_of (run d) i = Some t'" "task_moves (t_status t) (t_status t')"
    using task_survives [OF assms(1,2)] by blast
  from closed_moves [OF t'(2)] assms(3) have "\<not> task_open t'" by (simp add: task_open_def)
  with t'(1) show ?thesis by blast
qed

lemma funpow_wf: "tasks_wf d \<Longrightarrow> tasks_wf ((run ^^ n) d)"
  by (induction n) (simp_all add: keeps_wf)

lemma funpow_step: "tasks_wf d \<Longrightarrow> task_step d ((run ^^ n) d)"
  by (induction n) (auto intro: task_step_trans moves funpow_wf)

end

section \<open>Timing out\<close>

lemma tasks_wf_time_out_all: "tasks_wf d \<Longrightarrow> tasks_wf (snd (time_out_all x now ts d))"
proof (induction ts arbitrary: d)
  case (Cons t ts)
  let ?r = "time_out_target x now t (mark_task_timed_out now (t_id t) d)"
  have "tasks_wf (snd ?r)"
    using tasks_wf_mark_timed_out [OF Cons.prems] by (simp add: tasks_wf_def)
  with Cons.IH [of "snd ?r"] show ?case by (auto split: prod.splits sum.splits)
qed simp

lemma task_step_time_out_all: "task_step d (snd (time_out_all x now ts d))"
proof (induction ts arbitrary: d)
  case (Cons t ts)
  let ?r = "time_out_target x now t (mark_task_timed_out now (t_id t) d)"
  have "task_step (mark_task_timed_out now (t_id t) d) (snd ?r)"
    by (rule task_step_same_tasks) simp
  then have "task_step d (snd ?r)"
    by (rule task_step_trans [OF task_step_mark_timed_out])
  with Cons.IH [of "snd ?r"] show ?case
    by (auto split: prod.splits sum.splits intro: task_step_trans)
qed simp

interpretation time_out: task_op "\<lambda>d. snd (mark_timed_out_tasks x now d)" for x now
  by unfold_locales
    (simp_all add: mark_timed_out_tasks_def tasks_wf_time_out_all task_step_time_out_all)

interpretation time_out_one: task_op "mark_task_timed_out now i" for now i
  by unfold_locales (simp_all add: tasks_wf_mark_timed_out task_step_mark_timed_out)

text \<open>Marking an id leaves no open row with it, and no call reopens one.\<close>

lemma not_open_timed_out [simp]:
  "\<not> task_open (t\<lparr>t_status := ''timed_out'', t_error_message := e, t_updated_at := u\<rparr>)"
  by (simp add: task_open_def)

lemma mark_set_cases:
  assumes "t \<in> set (agent_tasks (mark_task_timed_out now i d))"
  shows "\<not> task_open t \<or> (t \<in> set (agent_tasks d) \<and> t_id t \<noteq> i)"
proof -
  from assms obtain r where "r \<in> set (agent_tasks d)"
    and "t = (if t_id r = i \<and> task_open r
      then r\<lparr>t_status := ''timed_out'', t_error_message := Some ''task execution timed out'',
             t_updated_at := now\<rparr> else r)"
    unfolding mark_task_timed_out_def update_where_def by fastforce
  then show ?thesis by (cases "t_id r = i \<and> task_open r") auto
qed

lemma mark_closes:
  "t \<in> set (agent_tasks (mark_task_timed_out now i d)) \<Longrightarrow> t_id t = i \<Longrightarrow> \<not> task_open t"
  by (blast dest: mark_set_cases)

lemma mark_set:
  "t \<in> set (agent_tasks (mark_task_timed_out now i d)) \<Longrightarrow> task_open t \<Longrightarrow> t \<in> set (agent_tasks d)"
  by (blast dest: mark_set_cases)

lemma time_out_all_open:
  assumes "time_out_all x now ts d = (Inr u, d1)" and "t \<in> set (agent_tasks d1)" and "task_open t"
  shows "t \<in> set (agent_tasks d) \<and> t_id t \<notin> t_id ` set ts"
  using assms
proof (induction ts arbitrary: d)
  case Nil
  then show ?case by simp
next
  case (Cons s ts)
  let ?m = "mark_task_timed_out now (t_id s) d"
  let ?r = "time_out_target x now s ?m"
  from Cons.prems(1) have rest: "time_out_all x now ts (snd ?r) = (Inr u, d1)"
    by (auto split: prod.splits sum.splits)
  with Cons.IH Cons.prems have "t \<in> set (agent_tasks (snd ?r))" "t_id t \<notin> t_id ` set ts" by blast+
  then have "t \<in> set (agent_tasks ?m)" "t_id t \<notin> t_id ` set ts" by simp_all
  with mark_closes [of t now "t_id s" d] mark_set [of t now "t_id s" d] Cons.prems(3)
  show ?case by auto
qed

lemma overdue_open: "task_overdue now t \<Longrightarrow> task_open t"
  by (auto simp: task_overdue_def task_open_def)

lemma no_overdue_left:
  assumes "mark_timed_out_tasks x now d = (Inr u, d1)" and "t \<in> set (agent_tasks d1)"
  shows "\<not> task_overdue now t"
proof
  assume over: "task_overdue now t"
  with assms time_out_all_open have "t \<in> set (agent_tasks d)"
    "t_id t \<notin> t_id ` set (filter (task_overdue now) (agent_tasks d))"
    unfolding mark_timed_out_tasks_def using overdue_open by blast+
  with over show False by auto
qed

section \<open>Claiming\<close>

lemma next_queued_Some:
  assumes "next_queued_agent_task d nid = Some t"
  shows "t \<in> set (agent_tasks d) \<and> (t_node_id t = nid \<and> t_status t = ''queued'')
    \<and> (\<forall>y \<in> set (agent_tasks d). t_node_id y = nid \<and> t_status y = ''queued''
          \<longrightarrow> t_created_at t \<le> t_created_at y)"
  by (rule first_by_key_Some [OF assms [unfolded next_queued_agent_task_def]])

lemma next_queued_None:
  "next_queued_agent_task d nid = None \<longleftrightarrow>
     (\<forall>t \<in> set (agent_tasks d). \<not> (t_node_id t = nid \<and> t_status t = ''queued''))"
  unfolding next_queued_agent_task_def by (rule first_by_key_None)

lemma task_of_member: "tasks_wf d \<Longrightarrow> t \<in> set (agent_tasks d) \<Longrightarrow> task_of d (t_id t) = Some t"
  unfolding task_of_def tasks_wf_def by (blast intro: find_key_unique)

lemma tasks_wf_claim: "tasks_wf d \<Longrightarrow> tasks_wf (claim_task x now t d)"
  by (subst tasks_wf_same_tasks [OF agent_tasks_claim_task])
    (auto intro!: tasks_wf_set_task simp: task_ok_def task_statuses_def coalesce_def
      split: option.splits)

lemma task_step_claim:
  assumes "tasks_wf d" and "t \<in> set (agent_tasks d)" and "t_status t = ''queued''"
  shows "task_step d (claim_task x now t d)"
proof (rule task_step_trans)
  let ?f = "\<lambda>q. q\<lparr>t_status := ''running'', t_started_at := coalesce (t_started_at q) (Some now),
                 t_lease_until := Some (now + AGENT_TASK_LEASE),
                 t_attempt_count := t_attempt_count q + 1, t_updated_at := now\<rparr>"
  show "task_step d (set_task (t_id t) ?f d)"
    by (rule task_step_set_task)
      (auto simp: same_task_def task_of_member [OF assms(1,2)] assms(3) task_move_def)
  show "task_step (set_task (t_id t) ?f d) (claim_task x now t d)"
    by (rule task_step_same_tasks) (simp add: agent_tasks_claim_task)
qed

lemma task_of_claim:
  "task_of (claim_task x now t d) k =
     (if k = t_id t then map_option (\<lambda>q. q\<lparr>t_status := ''running'',
                 t_started_at := coalesce (t_started_at q) (Some now),
                 t_lease_until := Some (now + AGENT_TASK_LEASE),
                 t_attempt_count := t_attempt_count q + 1, t_updated_at := now\<rparr>) (task_of d k)
      else task_of d k)"
  by (subst task_of_cong [OF agent_tasks_claim_task]) (simp add: task_of_set_task)

section \<open>Polling\<close>

lemma snd_answer_task: "snd (answer_task x now nid t d) = claim_task x now t d"
  by (auto simp: answer_task_def Let_def split: option.splits sum.splits)

lemma snd_answer_idle: "snd (answer_idle x now nid d) = d"
  by (auto simp: answer_idle_def split: sum.splits)

definition env_ok :: "wake list \<Rightarrow> bool" where
  "env_ok ws \<longleftrightarrow> (\<forall>w \<in> set ws. \<forall>d. tasks_wf d \<longrightarrow> tasks_wf (wk_env w d) \<and> task_step d (wk_env w d))"

lemma poll_wf_step:
  assumes "env_ok ws" and "tasks_wf d"
  shows "tasks_wf (snd (poll_agent_task x nid v ws now d))
    \<and> task_step d (snd (poll_agent_task x nid v ws now d))"
  using assms
proof (induction ws arbitrary: now d)
  case Nil
  let ?d1 = "snd (mark_timed_out_tasks x now d)"
  have d1: "tasks_wf ?d1" "task_step d ?d1"
    using time_out.keeps_wf time_out.moves Nil by blast+
  show ?case
  proof (cases "next_queued_agent_task ?d1 nid")
    case None
    with d1 show ?thesis
      by (subst poll_agent_task.simps, subst (2) poll_agent_task.simps)
        (auto simp: snd_answer_idle split: prod.splits sum.splits)
  next
    case (Some t)
    note t = next_queued_Some [OF Some]
    have "tasks_wf (claim_task x now t ?d1)" "task_step ?d1 (claim_task x now t ?d1)"
      using tasks_wf_claim d1(1) task_step_claim t by blast+
    with d1 Some show ?thesis
      by (subst poll_agent_task.simps, subst (2) poll_agent_task.simps)
        (auto simp: snd_answer_task split: prod.splits sum.splits intro: task_step_trans)
  qed
next
  case (Cons w ws)
  let ?d1 = "snd (mark_timed_out_tasks x now d)"
  have d1: "tasks_wf ?d1" "task_step d ?d1"
    using time_out.keeps_wf time_out.moves Cons.prems by blast+
  show ?case
  proof (cases "next_queued_agent_task ?d1 nid")
    case (Some t)
    note t = next_queued_Some [OF Some]
    have "tasks_wf (claim_task x now t ?d1)" "task_step ?d1 (claim_task x now t ?d1)"
      using tasks_wf_claim d1(1) task_step_claim t by blast+
    with d1 Some show ?thesis
      by (subst poll_agent_task.simps, subst (2) poll_agent_task.simps)
        (auto simp: snd_answer_task split: prod.splits sum.splits intro: task_step_trans)
  next
    case None
    let ?d2 = "wk_env w ?d1"
    from Cons.prems(1) d1(1) have d2: "tasks_wf ?d2" "task_step ?d1 ?d2" and ok: "env_ok ws"
      by (simp_all add: env_ok_def)
    from d1(2) d2(2) have step: "task_step d ?d2" by (rule task_step_trans)
    note IH = Cons.IH [OF ok d2(1), of "wk_now w"]
    from IH step have rec: "task_step d (snd (poll_agent_task x nid v ws (wk_now w) ?d2))"
      by (blast intro: task_step_trans)
    from None d1 d2 step rec IH show ?thesis
      by (subst poll_agent_task.simps, subst (2) poll_agent_task.simps)
        (auto simp: Let_def split: prod.splits sum.splits)
  qed
qed

interpretation poll: task_op "\<lambda>d. snd (poll_agent_task x nid v [] now d)" for x nid v now
  using poll_wf_step [of "[]"] by unfold_locales (simp_all add: env_ok_def)

lemma answer_task_Inr:
  assumes "answer_task x now nid t d = (Inr r, d1)"
  obtains q v where "task_of d1 (t_id t) = Some q" and "po_task r = Some v" and "av_row v = q"
    and "ext_jparse x (t_payload_json q) = Some (av_payload v)" and "d1 = claim_task x now t d"
  using assms
  by (auto simp: answer_task_def Let_def agent_task_from_row_def split: option.splits sum.splits)

definition handed_out :: "ext \<Rightarrow> string \<Rightarrow> task_view \<Rightarrow> db \<Rightarrow> bool" where
  "handed_out x nid av d \<longleftrightarrow>
     task_of d (t_id (av_row av)) = Some (av_row av)
     \<and> t_node_id (av_row av) = nid \<and> t_status (av_row av) = ''running''
     \<and> ext_jparse x (t_payload_json (av_row av)) = Some (av_payload av)"

lemma answer_hands_out:
  assumes "tasks_wf d" and "next_queued_agent_task d nid = Some t"
    and "answer_task x now nid t d = (Inr r, d1)" and "po_task r = Some av"
  shows "handed_out x nid av d1"
proof -
  note t = next_queued_Some [OF assms(2)]
  then have look: "task_of d (t_id t) = Some t" using task_of_member [OF assms(1)] by blast
  obtain q where q: "task_of d1 (t_id t) = Some q" "av_row av = q"
    "ext_jparse x (t_payload_json q) = Some (av_payload av)" "d1 = claim_task x now t d"
    using answer_task_Inr [OF assms(3)] assms(4) by (metis option.inject)
  from q(1,4) look have qt: "t_id q = t_id t" "t_node_id q = t_node_id t" "t_status q = ''running''"
    by (auto simp: task_of_claim)
  with q t show ?thesis by (simp add: handed_out_def)
qed

text \<open>What a poll that hands out a task hands out, whatever happened while it waited.\<close>

lemma poll_hands_out:
  assumes "env_ok ws" and "tasks_wf d"
    and "poll_agent_task x nid v ws now d = (Inr r, d1)" and "po_task r = Some av"
  shows "handed_out x nid av d1"
  using assms(1-3)
proof (induction ws arbitrary: now d)
  case Nil
  obtain s d0 where m: "mark_timed_out_tasks x now d = (s, d0)" by fastforce
  with time_out.keeps_wf [OF Nil(2), of x now] have wf: "tasks_wf d0" by simp
  note unfold = Nil(3) [unfolded poll_agent_task.simps [of x nid v "[]"] m prod.case list.case]
  show ?case
  proof (cases "next_queued_agent_task d0 nid")
    case None
    with unfold assms(4) show ?thesis by (auto simp: answer_idle_def split: sum.splits)
  next
    case (Some t)
    with unfold have "answer_task x now nid t d0 = (Inr r, d1)" by (auto split: sum.splits)
    then show ?thesis by (rule answer_hands_out [OF wf Some _ assms(4)])
  qed
next
  case (Cons w ws)
  obtain s d0 where m: "mark_timed_out_tasks x now d = (s, d0)" by fastforce
  with time_out.keeps_wf [OF Cons.prems(2), of x now] have wf: "tasks_wf d0" by simp
  from Cons.prems(1) wf have ok: "env_ok ws" "tasks_wf (wk_env w d0)" by (simp_all add: env_ok_def)
  note unfold = Cons.prems(3) [unfolded poll_agent_task.simps [of x nid v "w # ws"] m prod.case
      list.case Let_def]
  show ?case
  proof (cases "next_queued_agent_task d0 nid")
    case (Some t)
    with unfold have "answer_task x now nid t d0 = (Inr r, d1)" by (auto split: sum.splits)
    then show ?thesis by (rule answer_hands_out [OF wf Some _ assms(4)])
  next
    case None
    with unfold assms(4) have "poll_agent_task x nid v ws (wk_now w) (wk_env w d0) = (Inr r, d1)"
      by (auto split: sum.splits if_splits)
    then show ?thesis by (rule Cons.IH [OF ok])
  qed
qed

section \<open>Reporting\<close>

lemma record_result_branch_tasks:
  fixes x now t q d
  defines "res \<equiv> (if t_kind t = ''verify_model_file'' then record_verify_result x now t q d
                  else if t_kind t = ''cleanup_model_file'' then record_cleanup_result x now t q d
                  else if t_kind t = ''read_instance_log'' then (Inr (), d)
                  else if t_kind t \<in> set instance_kinds then record_instance_result x now t q d
                  else (Inr (), d))"
  shows "agent_tasks (snd res) = agent_tasks d"
  unfolding res_def by (simp add: agent_tasks_record_result_branch)

lemma record_result_tasks:
  assumes "record_agent_task_result x now i q d = (r, d1)"
  shows "(\<exists>e. r = Inl e \<and> d1 = d) \<or>
    (r = Inr () \<and> (\<exists>t. find (\<lambda>t. t_id t = i \<and> t_node_id t = tq_node_id q) (agent_tasks d) = Some t)
     \<and> (tq_status q = ''succeeded'' \<or> tq_status q = ''failed'')
     \<and> agent_tasks d1 = agent_tasks (record_task_row x now i q d))"
proof -
  note def = assms [unfolded record_agent_task_result_def Let_def]
  show ?thesis
  proof (cases "find (\<lambda>t. t_id t = i \<and> t_node_id t = tq_node_id q) (agent_tasks d)")
    case None
    with def show ?thesis by auto
  next
    case (Some t)
    let ?d = "record_task_row x now i q d"
    let ?res = "if t_kind t = ''verify_model_file'' then record_verify_result x now t q ?d
                  else if t_kind t = ''cleanup_model_file'' then record_cleanup_result x now t q ?d
                  else if t_kind t = ''read_instance_log'' then (Inr (), ?d)
                  else if t_kind t \<in> set instance_kinds then record_instance_result x now t q ?d
                  else (Inr (), ?d)"
    have branch: "agent_tasks (snd ?res) = agent_tasks ?d" by (rule record_result_branch_tasks)
    show ?thesis
    proof (cases "tq_status q = ''succeeded'' \<or> tq_status q = ''failed''")
      case False
      with def Some show ?thesis by auto
    next
      case True
      with def Some have "(case ?res of (Inl e, _) \<Rightarrow> (Inl e, d) | (Inr _, d2) \<Rightarrow> (Inr (), d2)) = (r, d1)"
        by simp
      with branch True Some show ?thesis
        by (cases ?res) (simp split: sum.splits, blast)
    qed
  qed
qed

lemma record_task_row_wf: "tasks_wf d \<Longrightarrow> tq_status q \<in> {''succeeded'', ''failed''} \<Longrightarrow>
    tasks_wf (record_task_row x now i q d)"
  unfolding record_task_row_def by (rule tasks_wf_set_task) (auto simp: task_ok_def task_statuses_def)

lemma record_task_row_step: "tq_status q \<in> {''succeeded'', ''failed''} \<Longrightarrow>
    task_step d (record_task_row x now i q d)"
  unfolding record_task_row_def by (rule task_step_set_task) (auto simp: same_task_def task_move_def)

interpretation report: task_op "\<lambda>d. snd (record_agent_task_result x now i q d)" for x now i q
proof unfold_locales
  fix d
  assume wf: "tasks_wf d"
  obtain r d1 where res: "record_agent_task_result x now i q d = (r, d1)" by fastforce
  from record_result_tasks [OF res]
  consider "d1 = d" | "tq_status q \<in> {''succeeded'', ''failed''}"
    "agent_tasks d1 = agent_tasks (record_task_row x now i q d)" by blast
  then have "tasks_wf d1 \<and> task_step d d1"
  proof cases
    case 1
    with wf show ?thesis by simp
  next
    case 2
    have "tasks_wf d1"
      using record_task_row_wf [OF wf 2(1)] tasks_wf_same_tasks [OF 2(2)] by blast
    moreover have "task_step d d1"
      by (rule task_step_trans [OF record_task_row_step [OF 2(1)] task_step_same_tasks [OF 2(2)]])
    ultimately show ?thesis ..
  qed
  with res show "tasks_wf (snd (record_agent_task_result x now i q d))"
    and "task_step d (snd (record_agent_task_result x now i q d))" by simp_all
qed

section \<open>Abstract queue\<close>

text \<open>
  The specification behind the rows: a map from task ids to a status of a datatype. Each
  operation on the database is the corresponding map update.
\<close>

datatype queue_status = Queued | Running | Succeeded | Failed | TimedOut

definition status_of_text :: "string \<Rightarrow> queue_status option" where
  "status_of_text s =
     (if s = ''queued'' then Some Queued else if s = ''running'' then Some Running
      else if s = ''succeeded'' then Some Succeeded else if s = ''failed'' then Some Failed
      else if s = ''timed_out'' then Some TimedOut else None)"

definition abs_queue :: "db \<Rightarrow> string \<Rightarrow> queue_status option" where
  "abs_queue d i = Option.bind (task_of d i) (\<lambda>t. status_of_text (t_status t))"

definition spec_time_out :: "string \<Rightarrow> (string \<Rightarrow> queue_status option) \<Rightarrow> string \<Rightarrow> queue_status option" where
  "spec_time_out i m =
     (if m i = Some Queued \<or> m i = Some Running then m(i \<mapsto> TimedOut) else m)"

lemma abs_queue_claim:
  assumes "task_of d (t_id t) = Some t"
  shows "abs_queue (claim_task x now t d) = (abs_queue d)(t_id t \<mapsto> Running)"
  using assms by (auto simp: abs_queue_def task_of_claim status_of_text_def fun_eq_iff)

lemma status_of_text_open:
  "task_open t \<longleftrightarrow> status_of_text (t_status t) = Some Queued \<or> status_of_text (t_status t) = Some Running"
  by (simp add: task_open_def status_of_text_def)

lemma abs_queue_time_out: "abs_queue (mark_task_timed_out now i d) = spec_time_out i (abs_queue d)"
proof
  fix k
  show "abs_queue (mark_task_timed_out now i d) k = spec_time_out i (abs_queue d) k"
  proof (cases "task_of d k")
    case None
    then show ?thesis by (auto simp: abs_queue_def task_of_mark_timed_out spec_time_out_def)
  next
    case (Some t)
    then have "t_id t = k" by (auto simp: task_of_def dest: find_Some_D)
    with Some show ?thesis
      by (auto simp: abs_queue_def task_of_mark_timed_out spec_time_out_def status_of_text_open)
        (simp_all add: status_of_text_def)
  qed
qed

end
