(* ===== verification/Waiting.thy ===== *)
theory Waiting
  imports TaskLaws
begin

text \<open>
  What the domain operations share when they use an agent: queueing a task
  (\<^verbatim>\<open>INSERT INTO agent_tasks\<close>) and the loop that reads the task every 100 ms until it is closed or
  the deadline has passed. Between two reads the rest of the server runs: the loop takes the list
  of those database changes, and the list is used up when the deadline is reached. \<open>agent_event\<close>
  names the changes the agent protocol makes (poll, report, sweep of overdue tasks); the locale
  \<open>wait_env\<close> states what the loop needs of them.
\<close>

section \<open>Queueing\<close>

definition new_task :: "int \<Rightarrow> string \<Rightarrow> string \<Rightarrow> string \<Rightarrow> string \<Rightarrow> task_row" where
  "new_task now i nid kind payload =
     \<lparr>t_id = i, t_node_id = nid, t_kind = kind, t_status = ''queued'', t_payload_json = payload,
      t_result_json = None, t_error_message = None, t_lease_until = None, t_attempt_count = 0,
      t_created_at = now, t_started_at = None, t_completed_at = None, t_updated_at = now\<rparr>"

definition queue_task ::
  "ext \<Rightarrow> int \<Rightarrow> string \<Rightarrow> string \<Rightarrow> string \<Rightarrow> json \<Rightarrow> db \<Rightarrow> sql_error + db" where
  "queue_task x now i nid kind payload d =
     map_sum id (\<lambda>ts. d\<lparr>agent_tasks := ts\<rparr>)
       (insert_row (same_key t_id) (node_exists d nid)
          (new_task now i nid kind (ext_jprint x payload)) (agent_tasks d))"

section \<open>Waiting\<close>

datatype wait_end = Ended task_row | DeadlinePassed | RowMissing

definition closed_status :: "string \<Rightarrow> bool" where
  "closed_status s \<longleftrightarrow> s = ''succeeded'' \<or> s = ''failed'' \<or> s = ''timed_out''"

fun wait_task :: "string \<Rightarrow> (db \<Rightarrow> db) list \<Rightarrow> db \<Rightarrow> wait_end \<times> db" where
  "wait_task i es d =
     (case task_of d i of
        None \<Rightarrow> (RowMissing, d)
      | Some t \<Rightarrow>
          if closed_status (t_status t) then (Ended t, d)
          else (case es of
                  [] \<Rightarrow> (DeadlinePassed, d)
                | e # es' \<Rightarrow> wait_task i es' (e d)))"

declare wait_task.simps [simp del]

text \<open>\<open>result_json\<close> parsed, or nothing.\<close>

definition task_result :: "ext \<Rightarrow> task_row \<Rightarrow> json option" where
  "task_result x t = Option.bind (t_result_json t) (ext_jparse x)"

section \<open>The agent protocol as events\<close>

datatype agent_event =
    AgentPolls int string
  | AgentReports int string task_result_request
  | SweepOverdue int

fun agent_run :: "ext \<Rightarrow> agent_event \<Rightarrow> db \<Rightarrow> db" where
  "agent_run x (AgentPolls now nid) d = snd (poll_agent_task x nid None [] now d)"
| "agent_run x (AgentReports now i q) d = snd (record_agent_task_result x now i q d)"
| "agent_run x (SweepOverdue now) d = snd (mark_timed_out_tasks x now d)"

section \<open>Facts about queueing\<close>

lemma task_ok_new [simp]: "task_ok (new_task now i nid kind p)"
  by (simp add: task_ok_def new_task_def task_statuses_def)

lemma new_task_simps [simp]:
  "t_id (new_task now i nid kind p) = i" "t_node_id (new_task now i nid kind p) = nid"
  "t_kind (new_task now i nid kind p) = kind" "t_status (new_task now i nid kind p) = ''queued''"
  "t_payload_json (new_task now i nid kind p) = p"
  by (simp_all add: new_task_def)

lemma queue_task_Inr:
  "queue_task x now i nid kind payload d = Inr d1 \<longleftrightarrow>
     node_exists d nid \<and> (\<forall>t \<in> set (agent_tasks d). t_id t \<noteq> i)
     \<and> d1 = d\<lparr>agent_tasks := agent_tasks d @ [new_task now i nid kind (ext_jprint x payload)]\<rparr>"
proof -
  have "queue_task x now i nid kind payload d = Inr d1 \<longleftrightarrow>
      (\<exists>ts. insert_row (same_key t_id) (node_exists d nid)
          (new_task now i nid kind (ext_jprint x payload)) (agent_tasks d) = Inr ts
          \<and> d1 = d\<lparr>agent_tasks := ts\<rparr>)"
    by (auto simp: queue_task_def map_sum_def split: sum.splits)
  also have "\<dots> \<longleftrightarrow> node_exists d nid \<and> (\<forall>t \<in> set (agent_tasks d). t_id t \<noteq> i)
     \<and> d1 = d\<lparr>agent_tasks := agent_tasks d @ [new_task now i nid kind (ext_jprint x payload)]\<rparr>"
    unfolding insert_row_Inr same_key_def by (auto simp: eq_commute)
  finally show ?thesis .
qed

lemma task_of_queue:
  assumes "queue_task x now i nid kind payload d = Inr d1"
  shows "task_of d1 k = (if k = i then Some (new_task now i nid kind (ext_jprint x payload))
                         else task_of d k)"
proof -
  from assms obtain ts where ins: "insert_row (same_key t_id) (node_exists d nid)
      (new_task now i nid kind (ext_jprint x payload)) (agent_tasks d) = Inr ts"
    and d1: "d1 = d\<lparr>agent_tasks := ts\<rparr>"
    by (auto simp: queue_task_def map_sum_def split: sum.splits)
  show ?thesis
    using tasks_tbl.lookup_insert [OF ins, of k] unfolding task_of_def d1 same_key_def by simp
qed

lemma queue_wf: "tasks_wf d \<Longrightarrow> queue_task x now i nid kind payload d = Inr d1 \<Longrightarrow> tasks_wf d1"
  unfolding queue_task_Inr by (auto simp: tasks_wf_def)

lemma queue_step: "queue_task x now i nid kind payload d = Inr d1 \<Longrightarrow> task_step d d1"
proof -
  assume q: "queue_task x now i nid kind payload d = Inr d1"
  then have "task_of d i = None"
    unfolding queue_task_Inr task_of_def by (auto simp: find_None_iff)
  with task_of_queue [OF q] show ?thesis by (auto simp: task_step_def intro: moves_refl)
qed

lemma queue_other_tables [simp]:
  assumes "queue_task x now i nid kind payload d = Inr d1"
  shows "model_instances d1 = model_instances d" "nodes d1 = nodes d"
    "model_files d1 = model_files d" "model_file_trash d1 = model_file_trash d"
    "runtime_environments d1 = runtime_environments d" "models d1 = models d"
  using assms unfolding queue_task_Inr by auto

section \<open>The waiting loop under the contract\<close>

locale wait_env =
  fixes env :: "'e \<Rightarrow> db \<Rightarrow> db"
  assumes env_wf: "tasks_wf d \<Longrightarrow> tasks_wf (env e d)"
    and env_moves: "tasks_wf d \<Longrightarrow> task_step d (env e d)"
begin

lemma wait_keeps:
  assumes "tasks_wf d"
  shows "tasks_wf (snd (wait_task i (map env es) d)) \<and> task_step d (snd (wait_task i (map env es) d))"
  using assms
proof (induction es arbitrary: d)
  case Nil
  then show ?case
    by (subst wait_task.simps, subst (2) wait_task.simps) (auto split: option.splits)
next
  case (Cons e es)
  have "task_step d (snd (wait_task i (map env es) (env e d)))"
    using Cons.IH [OF env_wf [OF Cons.prems]] env_moves [OF Cons.prems] by (blast intro: task_step_trans)
  with Cons.prems Cons.IH [OF env_wf [OF Cons.prems]] show ?case
    by (subst wait_task.simps, subst (2) wait_task.simps) (auto split: option.splits)
qed

text \<open>A task the loop was started on is always found, and what it ends with is the task closed.\<close>

lemma wait_outcome:
  assumes "tasks_wf d" and "task_of d i = Some t" and "wait_task i (map env es) d = (w, d1)"
  shows "(\<exists>t'. w = Ended t' \<and> task_of d1 i = Some t' \<and> same_task t t' \<and> closed_status (t_status t'))
    \<or> (w = DeadlinePassed \<and> (\<exists>t'. task_of d1 i = Some t' \<and> same_task t t' \<and> \<not> closed_status (t_status t')))"
  using assms
proof (induction es arbitrary: d t)
  case Nil
  then show ?case by (auto simp: wait_task.simps [of i "[]"] split: if_splits)
next
  case (Cons e es)
  obtain t' where t': "task_of (env e d) i = Some t'" "same_task t t'"
    using env_moves [OF Cons.prems(1), of e] Cons.prems(2) by (auto simp: task_step_def)
  show ?case
  proof (cases "closed_status (t_status t)")
    case True
    with Cons.prems show ?thesis by (simp add: wait_task.simps [of i "env e # map env es"])
  next
    case False
    with Cons.prems have "wait_task i (map env es) (env e d) = (w, d1)"
      by (simp add: wait_task.simps [of i "env e # map env es"])
    from Cons.IH [OF env_wf [OF Cons.prems(1)] t'(1) this] t'(2) show ?thesis
      by (blast intro: same_task_trans)
  qed
qed

end

interpretation agent: wait_env "agent_run x" for x
proof unfold_locales
  fix d e
  assume wf: "tasks_wf d"
  show "tasks_wf (agent_run x e d)"
    using poll.keeps_wf [OF wf] report.keeps_wf [OF wf] time_out.keeps_wf [OF wf] by (cases e) simp_all
  show "task_step d (agent_run x e d)"
    using poll.moves [OF wf] report.moves [OF wf] time_out.moves [OF wf] by (cases e) simp_all
qed

text \<open>The loop goes on where it stopped.\<close>

lemma wait_append:
  "wait_task i (es @ es') d =
     (case wait_task i es d of (DeadlinePassed, d1) \<Rightarrow> wait_task i es' d1 | r \<Rightarrow> r)"
proof (induction es arbitrary: d)
  case Nil
  show ?case
    by (subst wait_task.simps, subst (2) wait_task.simps, subst (3) wait_task.simps)
      (auto split: option.split)
next
  case (Cons e es)
  then show ?case
    by (subst wait_task.simps, subst (2) wait_task.simps) (auto split: option.split)
qed

lemma wait_ended: "wait_task i es d = (Ended t, d1) \<Longrightarrow> task_of d1 i = Some t \<and> closed_status (t_status t)"
  by (induction es arbitrary: d) (subst (asm) wait_task.simps, auto split: option.splits if_splits)+

text \<open>Closing a task that ran out of time: whatever closed it before, it is not open after.\<close>

lemma marked_not_open:
  "task_of (mark_task_timed_out now i d) i = Some t \<Longrightarrow> \<not> task_open t"
  unfolding task_of_def by (blast dest: find_Some_D mark_closes)

lemma closed_status_open: "task_ok t \<Longrightarrow> closed_status (t_status t) \<longleftrightarrow> \<not> task_open t"
  by (auto simp: task_ok_def closed_status_def task_open_def task_statuses_def)

section \<open>What the agent protocol leaves alone\<close>

text \<open>
  Polls, reports and sweeps change task rows, and the state columns of file, trash and instance
  rows that already exist: the tables they do not write, and the columns that say what a row is
  about, stay as they are.
\<close>

definition file_core :: "file_row \<Rightarrow> string \<times> string \<times> string \<times> string \<times> int option \<times> int" where
  "file_core r = (mf_id r, mf_model_id r, mf_node_id r, mf_path r, mf_deleted_at r, mf_created_at r)"

definition trash_core ::
  "trash_row \<Rightarrow> string \<times> string option \<times> string option \<times> string option \<times> string \<times> int" where
  "trash_core r =
     (tr_id r, tr_model_file_id r, tr_model_id r, tr_node_id r, tr_path r, tr_created_at r)"

definition instance_core ::
  "instance_row \<Rightarrow> string \<times> string option \<times> string option \<times> string option \<times> string option \<times> string
     \<times> string \<times> string" where
  "instance_core r =
     (mi_id r, mi_model_id r, mi_model_file_id r, mi_node_id r, mi_runtime_environment_id r,
      mi_name r, mi_backend r, mi_deploy_type r)"

definition same_config :: "db \<Rightarrow> db \<Rightarrow> bool" where
  "same_config d d' \<longleftrightarrow>
     nodes d' = nodes d \<and> runtime_environments d' = runtime_environments d \<and> models d' = models d
     \<and> agent_config_policies d' = agent_config_policies d \<and> accounts d' = accounts d
     \<and> map instance_core (model_instances d') = map instance_core (model_instances d)
     \<and> map file_core (model_files d') = map file_core (model_files d)
     \<and> map trash_core (model_file_trash d') = map trash_core (model_file_trash d)"

lemma same_config_refl [simp, intro]: "same_config d d"
  by (simp add: same_config_def)

lemma same_config_trans: "same_config a b \<Longrightarrow> same_config b c \<Longrightarrow> same_config a c"
  by (simp add: same_config_def)

lemma same_config_sets:
  "(\<And>r. file_core (f r) = file_core r) \<Longrightarrow> same_config d (set_file i f d)"
  "(\<And>r. trash_core (g r) = trash_core r) \<Longrightarrow> same_config d (set_trash i g d)"
  "(\<And>r. instance_core (h r) = instance_core r) \<Longrightarrow> same_config d (set_instance i h d)"
  "same_config d (set_task i k d)" "same_config d (mark_task_timed_out now i d)"
  by (simp_all add: same_config_def)
    (simp_all add: set_file_def set_trash_def set_instance_def map_update_where)

lemma same_file:
  "same_config d d' \<Longrightarrow> map_option file_core (file_of d' i) = map_option file_core (file_of d i)"
  unfolding file_of_def same_config_def
  by (rule find_same_columns [where q = "\<lambda>c. fst c = i"]) (auto simp: file_core_def)

lemma same_trash:
  "same_config d d' \<Longrightarrow> map_option trash_core (trash_of d' i) = map_option trash_core (trash_of d i)"
  unfolding trash_of_def same_config_def
  by (rule find_same_columns [where q = "\<lambda>c. fst c = i"]) (auto simp: trash_core_def)

lemma same_instance:
  "same_config d d' \<Longrightarrow>
     map_option instance_core (instance_of d' i) = map_option instance_core (instance_of d i)"
  unfolding instance_of_def same_config_def
  by (rule find_same_columns [where q = "\<lambda>c. fst c = i"]) (auto simp: instance_core_def)

lemmas core_defs = file_core_def trash_core_def instance_core_def

lemma same_config_time_out_target: "same_config d (snd (time_out_target x now t d))"
  by (auto simp: time_out_target_def update_instance_check_def update_trash_failure_def Let_def
      core_defs intro!: same_config_sets split: option.split prod.split sum.split)

lemma same_config_time_out_all: "same_config d (snd (time_out_all x now ts d))"
proof (induction ts arbitrary: d)
  case (Cons t ts)
  let ?r = "time_out_target x now t (mark_task_timed_out now (t_id t) d)"
  have "same_config d (snd ?r)"
    using same_config_sets(5) same_config_time_out_target by (rule same_config_trans)
  with Cons.IH [of "snd ?r"] show ?case
    by (auto split: prod.splits sum.splits intro: same_config_trans)
qed simp

lemma same_config_claim: "same_config d (claim_task x now t d)"
  unfolding claim_task_def Let_def
  by (auto simp: core_defs split: option.split
      intro: same_config_sets same_config_trans [OF same_config_sets(4) same_config_sets(1)]
        same_config_trans [OF same_config_sets(4) same_config_sets(2)])

lemma same_config_poll: "same_config d (snd (poll_agent_task x nid v [] now d))"
proof -
  have "same_config d (snd (mark_timed_out_tasks x now d))"
    unfolding mark_timed_out_tasks_def by (rule same_config_time_out_all)
  then show ?thesis
    by (subst poll_agent_task.simps)
      (auto simp: snd_answer_task snd_answer_idle split: prod.splits sum.splits option.splits
        intro: same_config_trans same_config_claim)
qed

lemma same_config_record: "same_config d (snd (record_agent_task_result x now i q d))"
proof -
  have row: "same_config d (record_task_row x now i q d)"
    unfolding record_task_row_def by (rule same_config_sets)
  have "same_config d0 (snd (record_verify_result x now t q d0))"
    "same_config d0 (snd (record_cleanup_result x now t q d0))"
    "same_config d0 (snd (record_instance_result x now t q d0))" for t d0
    by (auto simp: record_verify_result_def record_cleanup_result_def core_defs file_after_result_def
        trash_after_result_def instance_after_result_def record_instance_result_def Let_def
        split: option.split intro!: same_config_sets)
  then have branches: "same_config d (snd (record_verify_result x now t q (record_task_row x now i q d)))"
    "same_config d (snd (record_cleanup_result x now t q (record_task_row x now i q d)))"
    "same_config d (snd (record_instance_result x now t q (record_task_row x now i q d)))" for t
    using row same_config_trans by blast+
  show ?thesis
    using row branches
    by (auto simp: record_agent_task_result_def Let_def split: option.split prod.split sum.split)
      (metis snd_conv)+
qed

lemma same_config_agent: "same_config d (agent_run x e d)"
  by (cases e) (simp_all add: same_config_poll same_config_record mark_timed_out_tasks_def
      same_config_time_out_all)

lemma same_config_wait: "same_config d (snd (wait_task i (map (agent_run x) es) d))"
proof (induction es arbitrary: d)
  case Nil
  show ?case by (subst wait_task.simps) (auto split: option.split)
next
  case (Cons e es)
  have "same_config d (snd (wait_task i (map (agent_run x) es) (agent_run x e d)))"
    using same_config_agent Cons.IH by (rule same_config_trans)
  then show ?case by (subst wait_task.simps) (auto split: option.split)
qed

section \<open>Composing operations that keep the contract\<close>

text \<open>
  \<open>queue_kept\<close> is the contract of \<open>task_op\<close> for one run. It composes, so an operation keeps the
  contract when its parts do; the facts are collected for the later theories.
\<close>

definition queue_kept :: "db \<Rightarrow> db \<Rightarrow> bool" where
  "queue_kept d d' \<longleftrightarrow> (tasks_wf d \<longrightarrow> tasks_wf d' \<and> task_step d d')"

lemma kept_refl [simp, intro]: "queue_kept d d"
  by (simp add: queue_kept_def)

lemma kept_trans: "queue_kept a b \<Longrightarrow> queue_kept b c \<Longrightarrow> queue_kept a c"
  unfolding queue_kept_def by (auto elim: task_step_trans)

lemma kept_same: "agent_tasks d' = agent_tasks d \<Longrightarrow> queue_kept d d'"
  unfolding queue_kept_def using tasks_wf_same_tasks [of d' d] task_step_same_tasks [of d' d] by simp

lemma kept_then_same: "queue_kept d m \<Longrightarrow> agent_tasks d' = agent_tasks m \<Longrightarrow> queue_kept d d'"
  by (rule kept_trans [OF _ kept_same])

lemma kept_queue: "queue_task x now i nid kind payload d = Inr d1 \<Longrightarrow> queue_kept d d1"
  by (simp add: queue_kept_def queue_wf queue_step)

lemma kept_wait: "queue_kept d (snd (wait_task i (map (agent_run x) es) d))"
  by (simp add: queue_kept_def agent.wait_keeps)

lemma kept_mark: "queue_kept d (mark_task_timed_out now i d)"
  by (simp add: queue_kept_def tasks_wf_mark_timed_out task_step_mark_timed_out)

lemma kept_sweep: "queue_kept d (snd (mark_timed_out_tasks x now d))"
  by (simp add: queue_kept_def time_out.keeps_wf time_out.moves)

lemma task_op_kept: "(\<And>d. queue_kept d (f d)) \<Longrightarrow> task_op f"
  unfolding queue_kept_def by unfold_locales blast+

end
