(* ===== verification/ModelFiles.thy ===== *)
theory ModelFiles
  imports Waiting
begin

text \<open>
  \<^verbatim>\<open>server/src/domain/model_files.rs\<close>: the paths on the nodes at which a model is stored. A path
  is saved only after the node's agent has looked at it (\<open>verify_model_file\<close> task, waited for); a
  saved file can be verified again in the background. Reading files sweeps the overdue tasks
  first, so reading can fail and changes the database. \<open>delete_model_file\<close> is in the theory Trash.
\<close>

section \<open>Reading\<close>

record file_view =
  fv_row :: file_row
  fv_model_name :: "string option"
  fv_node_name :: "string option"
  fv_node_status :: string
  fv_verify_task_status :: "string option"

definition verify_task_status :: "db \<Rightarrow> file_row \<Rightarrow> string option" where
  "verify_task_status d r = map_option t_status (joined (task_of d) (mf_verify_task_id r))"

definition model_file_from_row :: "int \<Rightarrow> db \<Rightarrow> file_row \<Rightarrow> file_view" where
  "model_file_from_row now d r =
     \<lparr>fv_row = r,
      fv_model_name = map_option m_name (model_of d (mf_model_id r)),
      fv_node_name = map_option n_name (node_of d (mf_node_id r)),
      fv_node_status =
        (case Option.bind (node_of d (mf_node_id r)) n_last_heartbeat_at of
           Some seen \<Rightarrow> if now - seen \<le> ONLINE_THRESHOLD then ''online'' else ''offline''
         | None \<Rightarrow> ''registered''),
      fv_verify_task_status = verify_task_status d r\<rparr>"

definition verify_stale :: "db \<Rightarrow> file_row \<Rightarrow> bool" where
  "verify_stale d r \<longleftrightarrow>
     mf_status r = ''verifying'' \<and> verify_task_status d r = Some ''timed_out''"

definition mark_verify_timeout :: "int \<Rightarrow> string \<Rightarrow> db \<Rightarrow> db" where
  "mark_verify_timeout now i = set_file i (\<lambda>q. q\<lparr>mf_status := ''verify_timeout'',
     mf_last_error := Some ''verification timed out'', mf_updated_at := now\<rparr>)"

text \<open>
  The rows are returned as they were read: a file found stale is updated in the database, and
  its row still says \<open>verifying\<close>.
\<close>

definition model_file_rows ::
  "ext \<Rightarrow> int \<Rightarrow> string option \<Rightarrow> string option \<Rightarrow> db \<Rightarrow> (domain_error + file_view list) \<times> db" where
  "model_file_rows x now mid fid d =
     (case mark_timed_out_tasks x now d of
        (Inl e, d1) \<Rightarrow> (Inl e, d1)
      | (Inr _, d1) \<Rightarrow>
          (let rows = sort_key (\<lambda>r. (map_option n_name (node_of d1 (mf_node_id r)), mf_path r))
                 (filter (\<lambda>r. (mid = None \<or> mid = Some (mf_model_id r))
                            \<and> (fid = None \<or> fid = Some (mf_id r)) \<and> mf_deleted_at r = None)
                    (model_files d1));
               stale = filter (verify_stale d1) rows
           in (Inr (map (model_file_from_row now d1) rows),
               fold (mark_verify_timeout now) (map mf_id stale) d1)))"

definition model_file :: "ext \<Rightarrow> int \<Rightarrow> string \<Rightarrow> db \<Rightarrow> (domain_error + file_view) \<times> db" where
  "model_file x now i d =
     (case model_file_rows x now None (Some i) d of
        (Inl e, d1) \<Rightarrow> (Inl e, d1)
      | (Inr [], d1) \<Rightarrow> (Inl (NotFound ''model file not found''), d1)
      | (Inr (v # _), d1) \<Rightarrow> (Inr v, d1))"

definition list_model_files ::
  "ext \<Rightarrow> int \<Rightarrow> string \<Rightarrow> db \<Rightarrow> (domain_error + file_view list) \<times> db" where
  "list_model_files x now mid d =
     (case ensure_model_exists d mid of
        Some e \<Rightarrow> (Inl e, d)
      | None \<Rightarrow> model_file_rows x now (Some mid) None d)"

section \<open>Verification by the agent\<close>

record verified_file =
  vf_size_bytes :: "int option"
  vf_path_type :: "string option"
  vf_verified_at :: int

definition verification_error_message :: "json \<Rightarrow> string" where
  "verification_error_message v =
     (case get_str v ''message'' of
        None \<Rightarrow> ''Model file verification failed''
      | Some m \<Rightarrow> if blank m then ''Model file verification failed'' else m)"

definition verification_timed_out :: domain_error where
  "verification_timed_out =
     Conflict ''Model file verification timed out; confirm Agent is online and retry''"

definition verification_outcome :: "ext \<Rightarrow> int \<Rightarrow> task_row \<Rightarrow> domain_error + verified_file" where
  "verification_outcome x later t =
     (if t_status t = ''succeeded'' then
        (let result = unwrap_or (task_result x t) (JObj []) in
         if unwrap_or (get_str result ''file_status'') ''verified'' \<noteq> ''verified''
         then Inl (BadRequest (verification_error_message result))
         else Inr \<lparr>vf_size_bytes = get_i64 result ''size_bytes'',
                   vf_path_type = coalesce (get_str result ''path_type'') (Some ''file''),
                   vf_verified_at = later\<rparr>)
      else if t_status t = ''failed'' then
        Inl (BadRequest (unwrap_or
          (coalesce (map_option verification_error_message (task_result x t)) (t_error_message t))
          ''Model file verification failed''))
      else Inl verification_timed_out)"

definition wait_for_model_file_verification ::
  "ext \<Rightarrow> int \<Rightarrow> string \<Rightarrow> (db \<Rightarrow> db) list \<Rightarrow> db \<Rightarrow> (domain_error + verified_file) \<times> db" where
  "wait_for_model_file_verification x later tid es d =
     (case wait_task tid es d of
        (Ended t, d1) \<Rightarrow> (verification_outcome x later t, d1)
      | (DeadlinePassed, d1) \<Rightarrow> (Inl verification_timed_out, mark_task_timed_out later tid d1)
      | (RowMissing, d1) \<Rightarrow> (Inl (Internal ''no rows returned''), d1))"

definition verify_model_file_before_save ::
  "ext \<Rightarrow> int \<Rightarrow> int \<Rightarrow> string \<Rightarrow> (db \<Rightarrow> db) list \<Rightarrow> string \<Rightarrow> string \<Rightarrow> db
   \<Rightarrow> (domain_error + verified_file) \<times> db" where
  "verify_model_file_before_save x now later tid es nid path d =
     (if \<not> node_online d now nid then
        (Inl (Conflict ''Node Agent offline, cannot verify model file''), d)
      else (case queue_task x now tid nid ''verify_model_file'' (JObj [(''path'', JStr path)]) d of
              Inl e \<Rightarrow> (Inl (of_sql e), d)
            | Inr d1 \<Rightarrow> wait_for_model_file_verification x later tid es d1))"

section \<open>Creating and updating\<close>

record file_request =
  fr_node_id :: string
  fr_path :: string

definition new_file :: "int \<Rightarrow> string \<Rightarrow> string \<Rightarrow> file_request \<Rightarrow> verified_file \<Rightarrow> file_row" where
  "new_file now i mid r v =
     \<lparr>mf_id = i, mf_model_id = mid, mf_node_id = fr_node_id r, mf_path = fr_path r,
      mf_path_type = vf_path_type v, mf_status = ''verified'', mf_size_bytes = vf_size_bytes v,
      mf_last_verified_at = Some (vf_verified_at v), mf_last_error = None,
      mf_verify_task_id = None, mf_deleted_at = None, mf_created_at = now, mf_updated_at = now\<rparr>"

definition insert_file :: "file_row \<Rightarrow> db \<Rightarrow> sql_error + db" where
  "insert_file r d =
     map_sum id (\<lambda>rs. d\<lparr>model_files := rs\<rparr>)
       (insert_row (same_key mf_id) (mf_model_id r \<in> m_id ` set (models d) \<and> node_exists d (mf_node_id r))
          r (model_files d))"

definition create_model_file ::
  "ext \<Rightarrow> int \<Rightarrow> int \<Rightarrow> string \<Rightarrow> string \<Rightarrow> (db \<Rightarrow> db) list \<Rightarrow> string \<Rightarrow> file_request \<Rightarrow> db
   \<Rightarrow> (domain_error + file_view) \<times> db" where
  "create_model_file x now later tid fid es mid r d =
     (case first_error [validate_non_empty ''path'' (fr_path r), validate_path ''path'' (fr_path r),
             ensure_model_exists d mid, ensure_node_exists d (fr_node_id r)] of
        Some e \<Rightarrow> (Inl e, d)
      | None \<Rightarrow>
          (case verify_model_file_before_save x now later tid es (fr_node_id r) (fr_path r) d of
             (Inl e, d1) \<Rightarrow> (Inl e, d1)
           | (Inr v, d1) \<Rightarrow>
               (case insert_file (new_file later fid mid r v) d1 of
                  Inl e \<Rightarrow> (Inl (of_sql e), d1)
                | Inr d2 \<Rightarrow> model_file x later fid d2)))"

definition update_model_file ::
  "ext \<Rightarrow> int \<Rightarrow> int \<Rightarrow> string \<Rightarrow> (db \<Rightarrow> db) list \<Rightarrow> string \<Rightarrow> file_request \<Rightarrow> db
   \<Rightarrow> (domain_error + file_view) \<times> db" where
  "update_model_file x now later tid es i r d =
     (case first_error [validate_non_empty ''path'' (fr_path r), validate_path ''path'' (fr_path r),
             ensure_node_exists d (fr_node_id r)] of
        Some e \<Rightarrow> (Inl e, d)
      | None \<Rightarrow>
          (case verify_model_file_before_save x now later tid es (fr_node_id r) (fr_path r) d of
             (Inl e, d1) \<Rightarrow> (Inl e, d1)
           | (Inr v, d1) \<Rightarrow>
               if rows_affected (\<lambda>q. mf_id q = i) (model_files d1) = 0 then
                 (Inl (NotFound ''model file not found''), d1)
               else if \<not> node_exists d1 (fr_node_id r) then (Inl (of_sql ForeignKeyFailed), d1)
               else model_file x later i
                 (set_file i (\<lambda>q. q\<lparr>mf_node_id := fr_node_id r, mf_path := fr_path r,
                    mf_status := ''verified'', mf_size_bytes := vf_size_bytes v,
                    mf_last_verified_at := Some (vf_verified_at v), mf_path_type := vf_path_type v,
                    mf_last_error := None, mf_verify_task_id := None,
                    mf_updated_at := later\<rparr>) d1)))"

text \<open>
  Background verification: the task and the file's pending state are written in one
  transaction.
\<close>

definition queue_model_file_verification ::
  "ext \<Rightarrow> int \<Rightarrow> string \<Rightarrow> string \<Rightarrow> db \<Rightarrow> (domain_error + file_view) \<times> db" where
  "queue_model_file_verification x now tid i d =
     (case model_file x now i d of
        (Inl e, d1) \<Rightarrow> (Inl e, d1)
      | (Inr v, d1) \<Rightarrow>
          (let f = fv_row v;
               message = (if node_online d1 now (mf_node_id f)
                          then ''Waiting for node Agent to verify''
                          else ''Waiting for node Agent to come online for verification'')
           in case queue_task x now tid (mf_node_id f) ''verify_model_file''
                     (JObj [(''model_file_id'', JStr (mf_id f)), (''path'', JStr (mf_path f))]) d1 of
                Inl e \<Rightarrow> (Inl (of_sql e), d1)
              | Inr d2 \<Rightarrow>
                  model_file x now i
                    (set_file i (\<lambda>q. q\<lparr>mf_status := ''verify_pending'',
                       mf_verify_task_id := Some tid, mf_last_error := Some message,
                       mf_updated_at := now\<rparr>) d2)))"

section \<open>The summary of a model's files\<close>

record file_summary =
  fs_file_status :: string
  fs_total_file_count :: nat
  fs_verified_file_count :: nat
  fs_available_node_count :: nat
  fs_last_file_verified_at :: "int option"

definition pending_status :: "string \<Rightarrow> bool" where
  "pending_status s \<longleftrightarrow> s = ''unverified'' \<or> s = ''verify_pending'' \<or> s = ''verifying''"

definition later_verified :: "file_row \<Rightarrow> int option \<Rightarrow> int option" where
  "later_verified r acc =
     (case mf_last_verified_at r of
        None \<Rightarrow> acc
      | Some v \<Rightarrow> Some (case acc of None \<Rightarrow> v | Some c \<Rightarrow> max c v))"

definition summarize_files :: "file_row list \<Rightarrow> file_summary" where
  "summarize_files rows =
     (let verified = filter (\<lambda>r. mf_status r = ''verified'') rows;
          total = length rows;
          has_pending = (\<exists>r \<in> set rows. pending_status (mf_status r));
          has_failed = (\<exists>r \<in> set rows. mf_status r \<noteq> ''verified'' \<and> \<not> pending_status (mf_status r))
      in \<lparr>fs_file_status =
            (if total = 0 then ''no_files''
             else if length verified = total then ''all_files_verified''
             else if 0 < length verified then ''partially_verified''
             else if has_pending \<and> \<not> has_failed then ''pending_verification''
             else ''verification_failed''),
          fs_total_file_count = total,
          fs_verified_file_count = length verified,
          fs_available_node_count = length (remdups (map mf_node_id verified)),
          fs_last_file_verified_at = fold later_verified rows None\<rparr>)"

definition model_file_summary ::
  "ext \<Rightarrow> int \<Rightarrow> string \<Rightarrow> db \<Rightarrow> (domain_error + file_summary) \<times> db" where
  "model_file_summary x now mid d =
     (case mark_timed_out_tasks x now d of
        (Inl e, d1) \<Rightarrow> (Inl e, d1)
      | (Inr _, d1) \<Rightarrow>
          (Inr (summarize_files
             (filter (\<lambda>r. mf_model_id r = mid \<and> mf_deleted_at r = None) (model_files d1))), d1))"

section \<open>Facts\<close>

lemma set_file_tables [simp]:
  "agent_tasks (mark_verify_timeout now i d) = agent_tasks d"
  by (simp add: mark_verify_timeout_def)

lemma same_config_sweep: "same_config d (snd (mark_timed_out_tasks x now d))"
  by (simp add: mark_timed_out_tasks_def same_config_time_out_all)

lemma fold_mark_verify:
  "agent_tasks (fold (mark_verify_timeout now) is d) = agent_tasks d
   \<and> same_config d (fold (mark_verify_timeout now) is d)"
proof (induction "is" arbitrary: d)
  case (Cons i "is")
  have "same_config d (mark_verify_timeout now i d)"
    unfolding mark_verify_timeout_def by (rule same_config_sets(1)) (simp add: file_core_def)
  with Cons [of "mark_verify_timeout now i d"] show ?case
    by (auto intro: same_config_trans)
qed simp

lemma model_file_rows_frame:
  "queue_kept d (snd (model_file_rows x now mid fid d))"
  "same_config d (snd (model_file_rows x now mid fid d))"
  using kept_sweep [of d x now] same_config_sweep [of d x now]
  by (auto simp: model_file_rows_def Let_def fold_mark_verify split: prod.split sum.split
      intro: kept_then_same same_config_trans)

lemma model_file_frame:
  "queue_kept d (snd (model_file x now i d))" "same_config d (snd (model_file x now i d))"
  using model_file_rows_frame [of d x now None "Some i"]
  by (auto simp: model_file_def split: prod.splits sum.splits list.splits)

text \<open>What a row that was read is: a live row of the database after the sweep.\<close>

lemma model_file_rows_Inr:
  assumes "model_file_rows x now mid fid d = (Inr vs, d')" and "v \<in> set vs"
  obtains d1 where "mark_timed_out_tasks x now d = (Inr (), d1)" and "fv_row v \<in> set (model_files d1)"
    and "mf_deleted_at (fv_row v) = None" and "fid = None \<or> fid = Some (mf_id (fv_row v))"
    and "mid = None \<or> mid = Some (mf_model_id (fv_row v))"
  using assms by (auto simp: model_file_rows_def Let_def model_file_from_row_def
      split: prod.splits sum.splits)

lemma model_file_Inr:
  assumes "model_file x now i d = (Inr v, d')"
  shows "mf_id (fv_row v) = i \<and> mf_deleted_at (fv_row v) = None
    \<and> (\<exists>r \<in> set (model_files d). file_core r = file_core (fv_row v))"
proof -
  from assms obtain vs where "model_file_rows x now None (Some i) d = (Inr (v # vs), d')"
    by (auto simp: model_file_def split: prod.splits sum.splits list.splits)
  then obtain d1 where d1: "mark_timed_out_tasks x now d = (Inr (), d1)"
    and mem: "fv_row v \<in> set (model_files d1)"
    and rest: "mf_deleted_at (fv_row v) = None" "mf_id (fv_row v) = i"
    using model_file_rows_Inr [of x now None "Some i" d "v # vs" d' v] by auto
  have "map file_core (model_files d1) = map file_core (model_files d)"
    using same_config_sweep [of d x now] d1 by (simp add: same_config_def)
  from arg_cong [where f = set, OF this] mem
  have "file_core (fv_row v) \<in> file_core ` set (model_files d)" by (metis image_eqI list.set_map)
  with rest show ?thesis by auto
qed

section \<open>Saving needs a verification\<close>

lemma verification_outcome_Inr:
  "verification_outcome x later t = Inr v \<Longrightarrow>
     t_status t = ''succeeded''
     \<and> unwrap_or (get_str (unwrap_or (task_result x t) (JObj [])) ''file_status'') ''verified'' = ''verified''
     \<and> vf_verified_at v = later"
  by (auto simp: verification_outcome_def Let_def split: if_splits)

text \<open>
  \<open>verified_by_agent\<close>: during the request the agent closed a task to look at this path on this
  node, and reported the file verified.
\<close>

definition verified_by_agent ::
  "ext \<Rightarrow> int \<Rightarrow> string \<Rightarrow> (db \<Rightarrow> db) list \<Rightarrow> string \<Rightarrow> string \<Rightarrow> db \<Rightarrow> db \<Rightarrow> bool" where
  "verified_by_agent x now tid es nid path d d2 \<longleftrightarrow>
     node_online d now nid
     \<and> (\<exists>d1 t. queue_task x now tid nid ''verify_model_file'' (JObj [(''path'', JStr path)]) d = Inr d1
          \<and> wait_task tid es d1 = (Ended t, d2) \<and> t_status t = ''succeeded''
          \<and> unwrap_or (get_str (unwrap_or (task_result x t) (JObj [])) ''file_status'') ''verified'' = ''verified'')"

lemma verify_before_save_Inr:
  assumes "verify_model_file_before_save x now later tid es nid path d = (Inr v, d2)"
  shows "verified_by_agent x now tid es nid path d d2 \<and> vf_verified_at v = later"
proof -
  from assms obtain d1 where on: "node_online d now nid"
    and q: "queue_task x now tid nid ''verify_model_file'' (JObj [(''path'', JStr path)]) d = Inr d1"
    and w: "wait_for_model_file_verification x later tid es d1 = (Inr v, d2)"
    by (auto simp: verify_model_file_before_save_def split: if_splits sum.splits)
  from w obtain t where t: "wait_task tid es d1 = (Ended t, d2)"
    "verification_outcome x later t = Inr v"
    by (auto simp: wait_for_model_file_verification_def split: prod.splits wait_end.splits)
  from on q t(1) verification_outcome_Inr [OF t(2)] show ?thesis
    unfolding verified_by_agent_def by blast
qed

lemma verify_before_save_kept:
  "queue_kept d (snd (verify_model_file_before_save x now later tid (map (agent_run x) es) nid path d))"
proof (cases "queue_task x now tid nid ''verify_model_file'' (JObj [(''path'', JStr path)]) d")
  case (Inr d1)
  have "queue_kept d (snd (wait_task tid (map (agent_run x) es) d1))"
    using kept_queue [OF Inr] kept_wait by (rule kept_trans)
  then show ?thesis
    using Inr by (auto simp: verify_model_file_before_save_def wait_for_model_file_verification_def
        intro: kept_trans [OF _ kept_mark] split: prod.split wait_end.split)
qed (simp add: verify_model_file_before_save_def)

lemma file_of_insert:
  assumes "insert_file r d = Inr d1"
  shows "file_of d1 k = (if k = mf_id r then Some r else file_of d k)"
proof -
  from assms obtain rs where ins: "insert_row (same_key mf_id)
      (mf_model_id r \<in> m_id ` set (models d) \<and> node_exists d (mf_node_id r)) r (model_files d) = Inr rs"
    and d1: "d1 = d\<lparr>model_files := rs\<rparr>"
    by (auto simp: insert_file_def map_sum_def split: sum.splits)
  show ?thesis unfolding file_of_def d1 by (rule files_tbl.lookup_insert [OF ins]) (simp add: same_key_def)
qed

lemma insert_file_Inr:
  "insert_file r d = Inr d1 \<longleftrightarrow>
     (\<forall>q \<in> set (model_files d). mf_id q \<noteq> mf_id r) \<and> mf_model_id r \<in> m_id ` set (models d)
     \<and> node_exists d (mf_node_id r) \<and> d1 = d\<lparr>model_files := model_files d @ [r]\<rparr>"
proof -
  have "insert_file r d = Inr d1 \<longleftrightarrow>
      (\<exists>rs. insert_row (same_key mf_id) (mf_model_id r \<in> m_id ` set (models d)
          \<and> node_exists d (mf_node_id r)) r (model_files d) = Inr rs \<and> d1 = d\<lparr>model_files := rs\<rparr>)"
    by (auto simp: insert_file_def map_sum_def split: sum.splits)
  then show ?thesis 
    unfolding insert_row_Inr same_key_def by (auto simp: eq_commute [of "mf_id r"])
qed

lemma insert_file_tables:
  "insert_file r d = Inr d1 \<Longrightarrow> agent_tasks d1 = agent_tasks d \<and> nodes d1 = nodes d \<and> models d1 = models d"
  by (auto simp: insert_file_def map_sum_def split: sum.splits)

lemma create_model_file_Inr:
  assumes "create_model_file x now later tid fid es mid r d = (Inr v, d')"
  shows "\<exists>d1. verified_by_agent x now tid es (fr_node_id r) (fr_path r) d d1"
    and "\<not> blank (fr_path r) \<and> ''..'' \<notin> set (split_on (CHR ''/'') (fr_path r))"
    and "model_exists d mid"
    and "\<exists>q. file_of d' fid = Some q \<and> mf_model_id q = mid \<and> mf_node_id q = fr_node_id r
           \<and> mf_path q = fr_path r \<and> mf_deleted_at q = None"
proof -
  from assms have v: "validate_path ''path'' (fr_path r) = None" "\<not> blank (fr_path r)" "model_exists d mid"
    by (auto simp: create_model_file_def first_error_Cons ensure_model_exists_def
        split: option.splits if_splits)
  from v show "\<not> blank (fr_path r) \<and> ''..'' \<notin> set (split_on (CHR ''/'') (fr_path r))" "model_exists d mid"
    by (simp_all add: path_has_no_parent)
  from assms obtain vf d1 d2 where
    vf: "verify_model_file_before_save x now later tid es (fr_node_id r) (fr_path r) d = (Inr vf, d1)"
    and ins: "insert_file (new_file later fid mid r vf) d1 = Inr d2"
    and mf: "model_file x later fid d2 = (Inr v, d')"
    by (auto simp: create_model_file_def split: option.splits prod.splits sum.splits)
  from verify_before_save_Inr [OF vf] show "\<exists>d1. verified_by_agent x now tid es (fr_node_id r) (fr_path r) d d1"
    by blast
  have "map_option file_core (file_of d' fid) = map_option file_core (file_of d2 fid)"
    using same_file [OF model_file_frame(2) [of d2 x later fid], of fid] mf by simp
  moreover have "file_of d2 fid = Some (new_file later fid mid r vf)"
    using file_of_insert [OF ins, of fid] by (simp add: new_file_def)
  ultimately show "\<exists>q. file_of d' fid = Some q \<and> mf_model_id q = mid \<and> mf_node_id q = fr_node_id r
      \<and> mf_path q = fr_path r \<and> mf_deleted_at q = None"
    by (cases "file_of d' fid") (auto simp: file_core_def new_file_def)
qed

lemma create_model_file_kept:
  "queue_kept d (snd (create_model_file x now later tid fid (map (agent_run x) es) mid r d))"
proof -
  have ver: "queue_kept d d1"
    if "verify_model_file_before_save x now later tid (map (agent_run x) es) nid p d = (res, d1)"
    for nid p res d1
    using verify_before_save_kept [of d x now later tid es nid p] that by simp
  have ins: "queue_kept d1 (snd (model_file x later fid d2))" if "insert_file f d1 = Inr d2" for f d1 d2
    using insert_file_tables [OF that] model_file_frame(1) by (blast intro: kept_same kept_trans)
  show ?thesis
    by (auto simp: create_model_file_def split: option.split prod.split sum.split
        intro: ver kept_trans [OF ver ins])
qed

section \<open>The summary\<close>

lemma length_remdups_filter_le: "length (remdups (map g (filter p xs))) \<le> length (filter p xs)"
  by (metis length_map length_remdups_leq)

lemma summary_bounds:
  "fs_available_node_count (summarize_files rows) \<le> fs_verified_file_count (summarize_files rows)"
  "fs_verified_file_count (summarize_files rows) \<le> fs_total_file_count (summarize_files rows)"
  by (simp_all add: summarize_files_def Let_def length_remdups_filter_le)

lemma length_filter_all: "length (filter p xs) = length xs \<longleftrightarrow> (\<forall>x \<in> set xs. p x)"
proof (induction xs)
  case (Cons a xs)
  have "length (filter p xs) \<noteq> Suc (length xs)" using length_filter_le [of p xs] by linarith
  with Cons show ?case by auto
qed simp

text \<open>The counted cases of the code, as statements about the files themselves.\<close>

lemma summary_status:
  "fs_file_status (summarize_files rows) =
     (if rows = [] then ''no_files''
      else if \<forall>r \<in> set rows. mf_status r = ''verified'' then ''all_files_verified''
      else if \<exists>r \<in> set rows. mf_status r = ''verified'' then ''partially_verified''
      else if \<forall>r \<in> set rows. pending_status (mf_status r) then ''pending_verification''
      else ''verification_failed'')"
proof -
  let ?p = "\<lambda>r. mf_status r = ''verified''"
  have none: "0 < length (filter ?p rows) \<longleftrightarrow> (\<exists>r \<in> set rows. ?p r)" by (simp add: filter_empty_conv)
  have not: "\<not> pending_status ''verified''" by (simp add: pending_status_def)
  show ?thesis
    unfolding summarize_files_def Let_def file_summary.select_convs length_filter_all none
    using not by (cases rows) auto
qed

end
