(* ===== verification/Trash.thy ===== *)
theory Trash
  imports ModelFiles
begin

text \<open>
  \<^verbatim>\<open>server/src/domain/model_trash.rs\<close> and \<open>delete_model_file\<close> of
  \<^verbatim>\<open>server/src/domain/model_files.rs\<close>: a file removed from a model is remembered in the trash
  until its copy on the node has been deleted by the agent (\<open>cleanup_model_file\<close> task, waited
  for). The view, the list and \<open>update_trash_failure\<close> are in the theory Views.
\<close>

record trash_request =
  trq_reason :: "string option"
  trq_note :: "string option"

text \<open>\<open>SELECT id .. ORDER BY created_at DESC LIMIT 1\<close>.\<close>

definition existing_trash :: "db \<Rightarrow> string \<Rightarrow> string option" where
  "existing_trash d fid =
     (case sort_key (\<lambda>r. - tr_created_at r)
             (filter (\<lambda>r. tr_model_file_id r = Some fid) (model_file_trash d)) of
        [] \<Rightarrow> None
      | r # _ \<Rightarrow> Some (tr_id r))"

definition new_trash ::
  "int \<Rightarrow> string \<Rightarrow> file_row \<Rightarrow> string option \<Rightarrow> string option \<Rightarrow> trash_row" where
  "new_trash now i f reason note =
     \<lparr>tr_id = i, tr_model_file_id = Some (mf_id f), tr_model_id = Some (mf_model_id f),
      tr_node_id = Some (mf_node_id f), tr_path = mf_path f, tr_reason = reason,
      tr_status = ''pending'', tr_file_deleted_at = None, tr_cleanup_task_id = None,
      tr_last_error = None, tr_note = note, tr_created_at = now, tr_updated_at = now\<rparr>"

definition trash_refs_ok :: "db \<Rightarrow> trash_row \<Rightarrow> bool" where
  "trash_refs_ok d r \<longleftrightarrow> ref_ok mf_id (model_files d) (tr_model_file_id r)
     \<and> ref_ok m_id (models d) (tr_model_id r) \<and> ref_ok n_id (nodes d) (tr_node_id r)"

definition ensure_model_file_trash ::
  "ext \<Rightarrow> int \<Rightarrow> string \<Rightarrow> string \<Rightarrow> string option \<Rightarrow> string option \<Rightarrow> db
   \<Rightarrow> (domain_error + trash_view) \<times> db" where
  "ensure_model_file_trash x now trid fid reason note d =
     (case existing_trash d fid of
        Some i \<Rightarrow> (model_file_trash_item d i, d)
      | None \<Rightarrow>
          (case model_file x now fid d of
             (Inl e, d1) \<Rightarrow> (Inl e, d1)
           | (Inr v, d1) \<Rightarrow>
               (let r = (new_trash now trid (fv_row v) reason note)\<lparr>tr_model_file_id := Some fid\<rparr> in
                case insert_row (same_key tr_id) (trash_refs_ok d1 r) r (model_file_trash d1) of
                  Inl e \<Rightarrow> (Inl (of_sql e), d1)
                | Inr rows \<Rightarrow>
                    (let d2 = d1\<lparr>model_file_trash := rows\<rparr>
                     in (model_file_trash_item d2 trid, d2)))))"

definition create_model_file_trash ::
  "ext \<Rightarrow> int \<Rightarrow> string \<Rightarrow> string \<Rightarrow> trash_request \<Rightarrow> db \<Rightarrow> (domain_error + trash_view) \<times> db" where
  "create_model_file_trash x now trid fid r d =
     ensure_model_file_trash x now trid fid (trq_reason r) (trq_note r) d"

definition delete_model_file ::
  "ext \<Rightarrow> int \<Rightarrow> string \<Rightarrow> string \<Rightarrow> db \<Rightarrow> (domain_error + unit) \<times> db" where
  "delete_model_file x now trid i d =
     (case ensure_model_file_trash x now trid i (Some ''Remove node file path from model'')
             (Some ''Only removes the model-file association; actual files are not deleted.'') d of
        (Inl e, d1) \<Rightarrow> (Inl e, d1)
      | (Inr _, d1) \<Rightarrow>
          if rows_affected (\<lambda>q. mf_id q = i) (model_files d1) = 0
          then (Inl (NotFound ''model file not found''), d1)
          else (Inr (), set_file i (\<lambda>q. q\<lparr>mf_deleted_at := Some now, mf_updated_at := now\<rparr>) d1))"

section \<open>Cleaning up\<close>

definition cleanup_timed_out :: domain_error where
  "cleanup_timed_out = Conflict ''file cleanup timed out; confirm Agent is online and retry''"

definition cleanup_failure :: "ext \<Rightarrow> task_row \<Rightarrow> string" where
  "cleanup_failure x t =
     unwrap_or (coalesce (Option.bind (task_result x t) (\<lambda>v. get_str v ''message''))
                  (t_error_message t)) ''File cleanup failed''"

definition wait_for_model_file_cleanup ::
  "ext \<Rightarrow> int \<Rightarrow> string \<Rightarrow> string \<Rightarrow> (db \<Rightarrow> db) list \<Rightarrow> db \<Rightarrow> (domain_error + trash_view) \<times> db" where
  "wait_for_model_file_cleanup x later i tid es d =
     (case wait_task tid es d of
        (Ended t, d1) \<Rightarrow>
          ((if t_status t = ''succeeded'' then model_file_trash_item d1 i
            else if t_status t = ''failed'' then Inl (Conflict (cleanup_failure x t))
            else Inl cleanup_timed_out), d1)
      | (DeadlinePassed, d1) \<Rightarrow>
          (Inl cleanup_timed_out,
           update_trash_failure later i ''cleanup_timeout'' ''file cleanup timed out''
             (mark_task_timed_out later tid d1))
      | (RowMissing, d1) \<Rightarrow> (Inl (Internal ''no rows returned''), d1))"

definition offline_cleanup_message :: string where
  "offline_cleanup_message = ''Node Agent offline, cannot clean up file''"

definition cleanup_model_file_trash ::
  "ext \<Rightarrow> int \<Rightarrow> int \<Rightarrow> string \<Rightarrow> (db \<Rightarrow> db) list \<Rightarrow> string \<Rightarrow> db
   \<Rightarrow> (domain_error + trash_view) \<times> db" where
  "cleanup_model_file_trash x now later tid es i d =
     (case model_file_trash_item d i of
        Inl e \<Rightarrow> (Inl e, d)
      | Inr item \<Rightarrow>
          (case tr_node_id (tv_row item) of
             None \<Rightarrow> (Inl (BadRequest ''trash item has no node''), d)
           | Some nid \<Rightarrow>
               if tr_file_deleted_at (tv_row item) \<noteq> None then (Inr item, d)
               else if \<not> node_online d now nid then
                 (Inl (Conflict offline_cleanup_message),
                  update_trash_failure now i ''cleanup_failed'' offline_cleanup_message d)
               else
                 (case queue_task x now tid nid ''cleanup_model_file''
                         (JObj [(''trash_id'', JStr i), (''path'', JStr (tr_path (tv_row item)))]) d of
                    Inl e \<Rightarrow> (Inl (of_sql e), d)
                  | Inr d1 \<Rightarrow>
                      wait_for_model_file_cleanup x later i tid es
                        (set_trash i (\<lambda>r. r\<lparr>tr_status := ''cleanup_pending'',
                           tr_cleanup_task_id := Some tid, tr_last_error := None,
                           tr_updated_at := now\<rparr>) d1))))"

definition delete_model_file_trash :: "string \<Rightarrow> db \<Rightarrow> (domain_error + unit) \<times> db" where
  "delete_model_file_trash i d =
     (if rows_affected (\<lambda>r. tr_id r = i) (model_file_trash d) = 0
      then (Inl (NotFound ''trash item not found''), d)
      else (Inr (), d\<lparr>model_file_trash :=
              delete_where (\<lambda>r. tr_id r = i) (model_file_trash d)\<rparr>))"

section \<open>Facts\<close>

lemma existing_trash_Some:
  "existing_trash d fid = Some i \<Longrightarrow> \<exists>r \<in> set (model_file_trash d). tr_id r = i \<and> tr_model_file_id r = Some fid"
  unfolding existing_trash_def
  by (metis (mono_tags, lifting) first_by_key_Some list.case_eq_if option.distinct(1) option.inject)

lemma trash_of_mem: "r \<in> set (model_file_trash d) \<Longrightarrow> trash_of d (tr_id r) \<noteq> None"
  by (auto simp: trash_of_def find_None_iff)

lemma trash_item_Inr:
  "model_file_trash_item d i = Inr v \<longleftrightarrow> (\<exists>r. trash_of d i = Some r \<and> v = trash_view_of d r)"
  by (auto simp: model_file_trash_item_def split: option.splits)

lemma ensure_trash_frame:
  "queue_kept d (snd (ensure_model_file_trash x now trid fid reason note d))"
  "map file_core (model_files (snd (ensure_model_file_trash x now trid fid reason note d)))
     = map file_core (model_files d)"
  "models (snd (ensure_model_file_trash x now trid fid reason note d)) = models d"
  "nodes (snd (ensure_model_file_trash x now trid fid reason note d)) = nodes d"
  using model_file_frame [of d x now fid]
  by (auto simp: ensure_model_file_trash_def Let_def same_config_def split: option.split prod.splits sum.split
      intro: kept_then_same)

text \<open>After it there is a trash item for the file, whatever was there before.\<close>

lemma ensure_trash_Inr:
  assumes "ensure_model_file_trash x now trid fid reason note d = (Inr v, d')"
  shows "\<exists>r \<in> set (model_file_trash d'). tr_model_file_id r = Some fid"
proof (cases "existing_trash d fid")
  case (Some i)
  with assms have "d' = d" by (simp add: ensure_model_file_trash_def)
  with existing_trash_Some [OF Some] show ?thesis by auto
next
  case None
  with assms show ?thesis
    by (auto simp: ensure_model_file_trash_def Let_def insert_row_Inr split: prod.splits sum.splits)
qed

lemma ensure_trash_mono:
  "trash_core ` set (model_file_trash d)
     \<subseteq> trash_core ` set (model_file_trash (snd (ensure_model_file_trash x now trid fid reason note d)))"
proof -
  have "set (map trash_core (model_file_trash (snd (model_file x now fid d))))
      = set (map trash_core (model_file_trash d))"
    using model_file_frame(2) [of d x now fid] by (simp add: same_config_def)
  then have "trash_core ` set (model_file_trash d)
      = trash_core ` set (model_file_trash (snd (model_file x now fid d)))" by simp
  then show ?thesis
    by (auto simp: ensure_model_file_trash_def Let_def insert_row_Inr split: option.split prod.splits sum.splits)
qed

lemma trash_core_file: "trash_core r = trash_core q \<Longrightarrow> tr_model_file_id r = tr_model_file_id q"
  by (simp add: trash_core_def)

lemma delete_model_file_Inr:
  assumes "delete_model_file x now trid i d = (Inr u, d')"
  shows "(\<exists>q. file_of d' i = Some q \<and> mf_deleted_at q = Some now)
    \<and> (\<exists>r \<in> set (model_file_trash d'). tr_model_file_id r = Some i)"
proof -
  from assms obtain v d1 where
    e: "ensure_model_file_trash x now trid i (Some ''Remove node file path from model'')
       (Some ''Only removes the model-file association; actual files are not deleted.'') d = (Inr v, d1)"
    and some: "rows_affected (\<lambda>q. mf_id q = i) (model_files d1) \<noteq> 0"
    and d': "d' = set_file i (\<lambda>q. q\<lparr>mf_deleted_at := Some now, mf_updated_at := now\<rparr>) d1"
    by (auto simp: delete_model_file_def split: prod.splits sum.splits if_splits)
  from some have "file_of d1 i \<noteq> None" by (auto simp: file_of_def rows_affected_0 find_None_iff)
  then have "\<exists>q. file_of d' i = Some q \<and> mf_deleted_at q = Some now"
    by (auto simp: d' file_of_set_file)
  with ensure_trash_Inr [OF e] d' show ?thesis by simp
qed

text \<open>A cleanup that succeeds ended a task of the agent, or the file was gone already.\<close>

lemma cleanup_Inr:
  assumes "cleanup_model_file_trash x now later tid es i d = (Inr v, d')"
  shows "(d' = d \<and> tr_file_deleted_at (tv_row v) \<noteq> None)
    \<or> (\<exists>t. task_of d' tid = Some t \<and> t_status t = ''succeeded'')"
proof (rule disjCI)
  assume "\<not> (\<exists>t. task_of d' tid = Some t \<and> t_status t = ''succeeded'')"
  moreover note ended = wait_ended
  ultimately show "d' = d \<and> tr_file_deleted_at (tv_row v) \<noteq> None"
    using assms
    by (auto simp: cleanup_model_file_trash_def wait_for_model_file_cleanup_def
        split: sum.splits option.splits if_splits prod.splits wait_end.splits)
qed

lemma cleanup_offline:
  assumes "trash_of d i = Some r" and "tr_node_id r = Some nid" and "tr_file_deleted_at r = None"
    and "\<not> node_online d now nid"
  shows "\<exists>r'. fst (cleanup_model_file_trash x now later tid es i d) = Inl (Conflict offline_cleanup_message)
    \<and> trash_of (snd (cleanup_model_file_trash x now later tid es i d)) i = Some r'
    \<and> tr_status r' = ''cleanup_failed'' \<and> tr_path r' = tr_path r
    \<and> agent_tasks (snd (cleanup_model_file_trash x now later tid es i d)) = agent_tasks d"
  using assms by (simp add: cleanup_model_file_trash_def model_file_trash_item_def trash_view_of_def
      update_trash_failure_def trash_of_set_trash)

lemma delete_trash_Inr:
  assumes "delete_model_file_trash i d = (Inr u, d')"
  shows "trash_of d i \<noteq> None \<and> trash_of d' i = None
    \<and> (\<forall>k. k \<noteq> i \<longrightarrow> trash_of d' k = trash_of d k)"
proof -
  from assms have d': "d' = d\<lparr>model_file_trash := delete_where (\<lambda>r. tr_id r = i) (model_file_trash d)\<rparr>"
    and "rows_affected (\<lambda>r. tr_id r = i) (model_file_trash d) \<noteq> 0"
    by (auto simp: delete_model_file_trash_def split: if_splits)
  then have "trash_of d i \<noteq> None" by (auto simp: trash_of_def rows_affected_0 find_None_iff)
  moreover have "trash_of d' i = None" unfolding trash_of_def d' by (rule trash_tbl.lookup_delete)
  moreover have "trash_of d' k = trash_of d k" if "k \<noteq> i" for k
    unfolding trash_of_def d' using that by (intro trash_tbl.lookup_delete_other) auto
  ultimately show ?thesis by blast
qed

lemma cleanup_kept:
  "queue_kept d (snd (cleanup_model_file_trash x now later tid (map (agent_run x) es) i d))"
proof -
  have wait: "queue_kept d0 (snd (wait_for_model_file_cleanup x later i tid (map (agent_run x) es) d0))" for d0
    using kept_wait [of d0 tid x es]
    by (auto simp: wait_for_model_file_cleanup_def update_trash_failure_def
        intro: kept_then_same kept_trans [OF _ kept_mark] kept_trans [OF kept_trans [OF _ kept_mark] kept_same]
        split: prod.split wait_end.split)
  have "queue_kept d (snd (wait_for_model_file_cleanup x later i tid (map (agent_run x) es) (set_trash i f d1)))"
    if "queue_task x now tid nid k p d = Inr d1" for nid k p d1 f
    using kept_then_same [OF kept_queue [OF that], of "set_trash i f d1"] wait by (auto intro: kept_trans)
  then show ?thesis
    by (auto simp: cleanup_model_file_trash_def update_trash_failure_def
        split: sum.split option.split intro: kept_same)
qed

interpretation trash_cleanup: task_op
  "\<lambda>d. snd (cleanup_model_file_trash x now later tid (map (agent_run x) es) i d)"
  for x now later tid es i
  by (rule task_op_kept) (rule cleanup_kept)

interpretation file_create: task_op
  "\<lambda>d. snd (create_model_file x now later tid fid (map (agent_run x) es) mid r d)"
  for x now later tid fid es mid r
  by (rule task_op_kept) (rule create_model_file_kept)

end
