(* ===== verification/Catalog.thy ===== *)
theory Catalog
  imports Trash
begin

text \<open>
  \<^verbatim>\<open>server/src/domain/model_catalog.rs\<close>: the catalog of models. Deleting a model puts its
  files in the trash, marks the row deleted and frees its name by a suffix; creating one verifies
  the first file on its node before anything is written.
\<close>

section \<open>Reading\<close>

record model_view =
  mv_row :: model_row
  mv_summary :: file_summary

definition model_from_row :: "ext \<Rightarrow> int \<Rightarrow> model_row \<Rightarrow> db \<Rightarrow> (domain_error + model_view) \<times> db" where
  "model_from_row x now r d =
     (case model_file_summary x now (m_id r) d of
        (Inl e, d1) \<Rightarrow> (Inl e, d1)
      | (Inr s, d1) \<Rightarrow> (Inr \<lparr>mv_row = r, mv_summary = s\<rparr>, d1))"

definition model :: "ext \<Rightarrow> int \<Rightarrow> string \<Rightarrow> db \<Rightarrow> (domain_error + model_view) \<times> db" where
  "model x now i d =
     (case model_of d i of
        None \<Rightarrow> (Inl (NotFound ''model not found''), d)
      | Some r \<Rightarrow> model_from_row x now r d)"

fun models_from_rows ::
  "ext \<Rightarrow> int \<Rightarrow> model_row list \<Rightarrow> db \<Rightarrow> (domain_error + model_view list) \<times> db" where
  "models_from_rows x now [] d = (Inr [], d)"
| "models_from_rows x now (r # rs) d =
     (case model_from_row x now r d of
        (Inl e, d1) \<Rightarrow> (Inl e, d1)
      | (Inr v, d1) \<Rightarrow>
          (case models_from_rows x now rs d1 of
             (Inl e, d2) \<Rightarrow> (Inl e, d2)
           | (Inr vs, d2) \<Rightarrow> (Inr (v # vs), d2)))"

definition list_models :: "ext \<Rightarrow> int \<Rightarrow> db \<Rightarrow> (domain_error + model_view list) \<times> db" where
  "list_models x now d =
     models_from_rows x now (sort_key m_name (filter (\<lambda>r. m_deleted_at r = None) (models d))) d"

section \<open>Creating\<close>

record model_request =
  mr_name :: string
  mr_display_name :: "string option"
  mr_model_type :: string
  mr_model_path :: "string option"
  mr_description :: "string option"
  mr_default_backend :: "string option"
  mr_params_json :: "string option"
  mr_initial_file :: "file_request option"

definition validate_model_request :: "ext \<Rightarrow> model_request \<Rightarrow> domain_error option" where
  "validate_model_request x r = first_error [
     validate_non_empty ''name'' (mr_name r),
     validate_model_type (mr_model_type r),
     opt_check validate_backend (mr_default_backend r),
     opt_check (validate_path ''model_path'') (mr_model_path r),
     validate_json_field x ''params_json'' (mr_params_json r)]"

definition deleted_name :: "model_row \<Rightarrow> string" where
  "deleted_name m = m_name m @ ''__deleted__'' @ chars_take 8 (m_id m)"

text \<open>\<open>models.id\<close> is the primary key and \<open>models.name\<close> is UNIQUE, deleted rows included.\<close>

definition model_clash :: "model_row \<Rightarrow> model_row \<Rightarrow> bool" where
  "model_clash a b \<longleftrightarrow> m_id a = m_id b \<or> m_name a = m_name b"

text \<open>
  \<open>UPDATE\<close> of columns under a UNIQUE index: the rows are written one after the other, each
  checked against all the others as they are at that moment.
\<close>

fun update_checked ::
  "('r \<Rightarrow> 'r \<Rightarrow> bool) \<Rightarrow> ('r \<Rightarrow> bool) \<Rightarrow> ('r \<Rightarrow> 'r) \<Rightarrow> 'r list \<Rightarrow> 'r list \<Rightarrow> sql_error + 'r list" where
  "update_checked clash p f done [] = Inr done"
| "update_checked clash p f done (r # rs) =
     (if p r then
        (if \<exists>q \<in> set (done @ rs). clash (f r) q then Inl UniqueFailed
         else update_checked clash p f (done @ [f r]) rs)
      else update_checked clash p f (done @ [r]) rs)"

definition free_deleted_name :: "int \<Rightarrow> string \<Rightarrow> model_row list \<Rightarrow> sql_error + model_row list" where
  "free_deleted_name now name rows =
     update_checked model_clash (\<lambda>m. m_name m = name \<and> m_deleted_at m \<noteq> None)
       (\<lambda>m. m\<lparr>m_name := deleted_name m, m_updated_at := now\<rparr>) [] rows"

definition new_model :: "int \<Rightarrow> string \<Rightarrow> model_request \<Rightarrow> model_row" where
  "new_model now i r =
     \<lparr>m_id = i, m_name = mr_name r, m_display_name = mr_display_name r,
      m_model_type = mr_model_type r, m_model_path = mr_model_path r,
      m_description = mr_description r, m_default_backend = mr_default_backend r,
      m_params_json = mr_params_json r, m_created_at = now, m_updated_at = now,
      m_deleted_at = None\<rparr>"

text \<open>The transaction: free the name, insert the model, insert its file.\<close>

definition insert_model ::
  "int \<Rightarrow> string \<Rightarrow> string \<Rightarrow> model_request \<Rightarrow> file_request \<Rightarrow> verified_file \<Rightarrow> db \<Rightarrow> domain_error + db" where
  "insert_model now i fid r f v d =
     (case free_deleted_name now (mr_name r) (models d) of
        Inl e \<Rightarrow> Inl (of_sql e)
      | Inr ms \<Rightarrow>
          (case insert_row model_clash True (new_model now i r) ms of
             Inl e \<Rightarrow> Inl (map_sqlx_conflict e)
           | Inr ms' \<Rightarrow>
               (case insert_file (new_file now fid i f v) (d\<lparr>models := ms'\<rparr>) of
                  Inl e \<Rightarrow> Inl (of_sql e)
                | Inr d1 \<Rightarrow> Inr d1)))"

definition create_model ::
  "ext \<Rightarrow> int \<Rightarrow> int \<Rightarrow> string \<Rightarrow> string \<Rightarrow> string \<Rightarrow> (db \<Rightarrow> db) list \<Rightarrow> model_request \<Rightarrow> db
   \<Rightarrow> (domain_error + model_view) \<times> db" where
  "create_model x now later tid i fid es r d =
     (case validate_model_request x r of
        Some e \<Rightarrow> (Inl e, d)
      | None \<Rightarrow>
          (case mr_initial_file r of
             None \<Rightarrow> (Inl (BadRequest ''initial_file is required''), d)
           | Some f \<Rightarrow>
               (case first_error [validate_non_empty ''initial_file.path'' (fr_path f),
                       validate_path ''initial_file.path'' (fr_path f),
                       ensure_node_exists d (fr_node_id f)] of
                  Some e \<Rightarrow> (Inl e, d)
                | None \<Rightarrow>
                    (case verify_model_file_before_save x now later tid es (fr_node_id f) (fr_path f) d of
                       (Inl e, d1) \<Rightarrow> (Inl e, d1)
                     | (Inr v, d1) \<Rightarrow>
                         (case insert_model later i fid r f v d1 of
                            Inl e \<Rightarrow> (Inl e, d1)
                          | Inr d2 \<Rightarrow> model x later i d2)))))"

section \<open>Updating and deleting\<close>

definition users_of_model :: "(string \<Rightarrow> bool) \<Rightarrow> db \<Rightarrow> string \<Rightarrow> string list" where
  "users_of_model status d i =
     map mi_name (filter (\<lambda>r. mi_model_id r = Some i \<and> status (mi_status r)) (model_instances d))"

definition update_model ::
  "ext \<Rightarrow> int \<Rightarrow> string \<Rightarrow> model_request \<Rightarrow> db \<Rightarrow> (domain_error + model_view) \<times> db" where
  "update_model x now i r d =
     (case validate_model_request x r of
        Some e \<Rightarrow> (Inl e, d)
      | None \<Rightarrow>
          (let busy = users_of_model (\<lambda>s. s = ''running'' \<or> s = ''starting'' \<or> s = ''stopping'') d i in
           if busy \<noteq> [] then
             (Inl (Conflict (''Model in use by running instance '' @ join '', '' busy
                @ ''. Cannot modify. Stop the instance first.'')), d)
           else
             (case update_checked model_clash (\<lambda>m. m_id m = i \<and> m_deleted_at m = None)
                     (\<lambda>m. m\<lparr>m_name := mr_name r, m_display_name := mr_display_name r,
                        m_model_type := mr_model_type r, m_model_path := mr_model_path r,
                        m_description := mr_description r,
                        m_default_backend := mr_default_backend r,
                        m_params_json := mr_params_json r, m_updated_at := now\<rparr>) [] (models d) of
                Inl e \<Rightarrow> (Inl (map_sqlx_conflict e), d)
              | Inr ms \<Rightarrow>
                  if \<not> model_exists d i then (Inl (NotFound ''model not found''), d)
                  else model x now i (d\<lparr>models := ms\<rparr>))))"

definition delete_reason :: string where
  "delete_reason = ''Delete model configuration''"

definition delete_note :: string where
  "delete_note =
     ''Model config removed; actual files not deleted. Process individually in Trash.''"

text \<open>The loop over the model's files; an error leaves through \<open>?\<close>.\<close>

fun trash_files ::
  "ext \<Rightarrow> int \<Rightarrow> (string \<times> string) list \<Rightarrow> db \<Rightarrow> (domain_error + unit) \<times> db" where
  "trash_files x now [] d = (Inr (), d)"
| "trash_files x now ((fid, trid) # fs) d =
     (case ensure_model_file_trash x now trid fid (Some delete_reason) (Some delete_note) d of
        (Inl e, d1) \<Rightarrow> (Inl e, d1)
      | (Inr _, d1) \<Rightarrow> trash_files x now fs d1)"

definition live_files :: "db \<Rightarrow> string \<Rightarrow> string list" where
  "live_files d i = map mf_id (sort_key mf_created_at
     (filter (\<lambda>r. mf_model_id r = i \<and> mf_deleted_at r = None) (model_files d)))"

text \<open>\<open>trids\<close> are the fresh ids of the trash items, as many as there are files.\<close>

definition delete_model ::
  "ext \<Rightarrow> int \<Rightarrow> string list \<Rightarrow> string \<Rightarrow> db \<Rightarrow> (domain_error + unit) \<times> db" where
  "delete_model x now trids i d =
     (if users_of_model (\<lambda>s. s = ''starting'' \<or> s = ''running'') d i \<noteq> [] then
        (Inl (Conflict ''model has starting or running instances''), d)
      else if \<not> model_exists d i then (Inl (NotFound ''model not found''), d)
      else (case trash_files x now (zip (live_files d i) trids) d of
         (Inl e, d1) \<Rightarrow> (Inl e, d1)
       | (Inr _, d1) \<Rightarrow>
           (case update_checked model_clash (\<lambda>m. m_id m = i \<and> m_deleted_at m = None)
                   (\<lambda>m. m\<lparr>m_name := deleted_name m, m_deleted_at := Some now,
                          m_updated_at := now\<rparr>) [] (models d1) of
              Inl e \<Rightarrow> (Inl (of_sql e), d1)
            | Inr ms \<Rightarrow>
                if \<not> model_exists d1 i then (Inl (NotFound ''model not found''), d1)
                else (Inr (), d1\<lparr>models := ms\<rparr>))))"

section \<open>Facts\<close>

lemma update_checked_Inr:
  "update_checked clash p f done rs = Inr out \<Longrightarrow> out = done @ update_where p f rs"
  by (induction clash p f "done" rs rule: update_checked.induct) (auto split: if_splits)

text \<open>A checked update keeps the rows free of clashes, so names and ids stay unique.\<close>

lemma update_checked_no_clash:
  assumes sym: "\<And>a b. clash a b = clash b a"
    and "update_checked clash p f done rs = Inr out" and "no_clash clash (done @ rs)"
  shows "no_clash clash out"
  using assms(2,3)
proof (induction rs arbitrary: "done")
  case Nil
  then show ?case by simp
next
  case (Cons r rs)
  from Cons.prems(1) have rest: "update_checked clash p f (done @ [if p r then f r else r]) rs = Inr out"
    and fresh: "p r \<Longrightarrow> \<forall>q \<in> set (done @ rs). \<not> clash (f r) q"
    by (auto split: if_splits)
  have "no_clash clash ((done @ [if p r then f r else r]) @ rs)"
    using Cons.prems(2) fresh sym by (cases "p r") (auto simp: no_clash_append)
  with Cons.IH [OF rest] show ?case by blast
qed

definition model_names_ok :: "db \<Rightarrow> bool" where
  "model_names_ok d \<longleftrightarrow> no_clash model_clash (models d)"

lemma model_clash_sym: "model_clash a b = model_clash b a"
  by (auto simp: model_clash_def)

lemma names_ok_updated:
  "model_names_ok d \<Longrightarrow> update_checked model_clash p f [] (models d) = Inr ms \<Longrightarrow>
     no_clash model_clash ms"
  unfolding model_names_ok_def
  by (rule update_checked_no_clash [of _ _ _ "[]", OF model_clash_sym]) auto

lemma model_frame:
  "queue_kept d (snd (model x now i d))" "same_config d (snd (model x now i d))"
  using kept_sweep [of d x now] same_config_sweep [of d x now]
  by (auto simp: model_def model_from_row_def model_file_summary_def
      split: option.split prod.splits sum.splits)

lemma insert_model_Inr:
  assumes "insert_model now i fid r f v d = Inr d1"
  obtains ms where "free_deleted_name now (mr_name r) (models d) = Inr ms"
    and "models d1 = ms @ [new_model now i r]" and "\<forall>q \<in> set ms. \<not> model_clash (new_model now i r) q"
    and "model_files d1 = model_files d @ [new_file now fid i f v]"
    and "\<forall>q \<in> set (model_files d). mf_id q \<noteq> fid" and "agent_tasks d1 = agent_tasks d"
proof -
  from assms obtain ms where ms: "free_deleted_name now (mr_name r) (models d) = Inr ms"
    "\<forall>q \<in> set ms. \<not> model_clash (new_model now i r) q"
    and ins: "insert_file (new_file now fid i f v) (d\<lparr>models := ms @ [new_model now i r]\<rparr>) = Inr d1"
    by (auto simp: insert_model_def insert_row_Inr split: sum.splits)
  from ins have "models d1 = ms @ [new_model now i r]"
    "model_files d1 = model_files d @ [new_file now fid i f v]"
    "\<forall>q \<in> set (model_files d). mf_id q \<noteq> fid" "agent_tasks d1 = agent_tasks d"
    unfolding insert_file_Inr by (simp_all add: new_file_def)
  with that ms show ?thesis by blast
qed

lemma model_of_unique:
  "no_clash model_clash ms \<Longrightarrow> m \<in> set ms \<Longrightarrow> find_row (\<lambda>q. m_id q = m_id m) ms = Some m"
  by (induction ms) (auto simp: model_clash_def)

lemma create_model_Inr:
  assumes "create_model x now later tid i fid es r d = (Inr v, d')"
  shows "\<exists>f d1. mr_initial_file r = Some f \<and> verified_by_agent x now tid es (fr_node_id f) (fr_path f) d d1
      \<and> model_exists d' i
      \<and> (\<exists>q. file_of d' fid = Some q \<and> mf_model_id q = i \<and> mf_node_id q = fr_node_id f
            \<and> mf_path q = fr_path f \<and> mf_deleted_at q = None)
      \<and> (\<forall>m \<in> set (models d'). m_name m = mr_name r \<longrightarrow> m_id m = i)"
proof -
  from assms obtain f vf d1 d2 where f: "mr_initial_file r = Some f"
    and ver: "verify_model_file_before_save x now later tid es (fr_node_id f) (fr_path f) d = (Inr vf, d1)"
    and ins: "insert_model later i fid r f vf d1 = Inr d2" and m: "model x later i d2 = (Inr v, d')"
    by (auto simp: create_model_def split: option.splits prod.splits sum.splits)
  have cfg: "same_config d2 d'" using model_frame(2) [of d2 x later i] m by simp
  from ins obtain ms where ms: "models d2 = ms @ [new_model later i r]"
    "\<forall>q \<in> set ms. \<not> model_clash (new_model later i r) q"
    "model_files d2 = model_files d1 @ [new_file later fid i f vf]"
    "\<forall>q \<in> set (model_files d1). mf_id q \<noteq> fid"
    by (rule insert_model_Inr)
  have models': "models d' = models d2" using cfg by (simp add: same_config_def)
  have "file_of d2 fid = Some (new_file later fid i f vf)"
    using ms(3,4) by (auto simp: file_of_def find_append new_file_def find_None_iff split: option.split
        dest: find_Some_D)
  with same_file [OF cfg, of fid] have
    "\<exists>q. file_of d' fid = Some q \<and> mf_model_id q = i \<and> mf_node_id q = fr_node_id f
            \<and> mf_path q = fr_path f \<and> mf_deleted_at q = None"
    by (cases "file_of d' fid") (auto simp: file_core_def new_file_def)
  moreover have "\<forall>m \<in> set (models d'). m_name m = mr_name r \<longrightarrow> m_id m = i"
  proof (intro ballI impI)
    fix m assume m: "m \<in> set (models d')" "m_name m = mr_name r"
    show "m_id m = i"
    proof (cases "m = new_model later i r")
      case False
      with m(1) have "m \<in> set ms" unfolding models' ms(1) by simp
      with ms(2) have "\<not> model_clash (new_model later i r) m" by blast
      with m(2) show ?thesis by (simp add: model_clash_def new_model_def)
    qed (simp add: new_model_def)
  qed
  moreover have "model_exists d' i" using ms(1) by (simp add: model_exists_def models' new_model_def)
  ultimately show ?thesis
    using f verify_before_save_Inr [OF ver] by (intro exI [of _ f] exI [of _ d1] conjI) simp_all
qed

lemma names_ok_insert_model:
  assumes "model_names_ok d" and "insert_model now i fid r f v d = Inr d1"
  shows "model_names_ok d1"
proof -
  from assms(2) obtain ms where ms: "free_deleted_name now (mr_name r) (models d) = Inr ms"
    "models d1 = ms @ [new_model now i r]" "\<forall>q \<in> set ms. \<not> model_clash (new_model now i r) q"
    by (rule insert_model_Inr)
  have "no_clash model_clash ms"
    using names_ok_updated [OF assms(1)] ms(1) unfolding free_deleted_name_def by blast
  moreover have "\<forall>q \<in> set ms. \<not> model_clash q (new_model now i r)"
    using ms(3) by (simp add: model_clash_sym [of _ "new_model now i r"])
  ultimately show ?thesis by (simp add: model_names_ok_def ms(2) no_clash_append)
qed

lemma names_ok_same: "models d' = models d \<Longrightarrow> model_names_ok d' = model_names_ok d"
  by (simp add: model_names_ok_def)

lemma names_ok_set_models:
  "model_names_ok d \<Longrightarrow> update_checked model_clash p f [] (models d) = Inr ms \<Longrightarrow>
     model_names_ok (d\<lparr>models := ms\<rparr>)"
  using names_ok_updated by (simp add: model_names_ok_def)

lemma names_ok_model: "model_names_ok d \<Longrightarrow> model_names_ok (snd (model x now i d))"
  using model_frame(2) [of d x now i] by (simp add: same_config_def model_names_ok_def)

lemma names_ok_update_model:
  assumes "model_names_ok d" shows "model_names_ok (snd (update_model x now i r d))"
  using assms names_ok_model names_ok_set_models [OF assms]
  by (auto simp: update_model_def Let_def split: option.split sum.split)

section \<open>Deleting\<close>

text \<open>What every single step keeps, the loop keeps.\<close>

lemma trash_files_rel:
  assumes refl: "\<And>d. P d d" and trans: "\<And>a b c. P a b \<Longrightarrow> P b c \<Longrightarrow> P a c"
    and step: "\<And>d trid fid reason note. P d (snd (ensure_model_file_trash x now trid fid reason note d))"
  shows "P d (snd (trash_files x now fs d))"
proof (induction fs arbitrary: d)
  case Nil
  show ?case by (simp add: refl)
next
  case (Cons f fs)
  obtain fid trid where f: "f = (fid, trid)" by (cases f)
  obtain res d1 where r: "ensure_model_file_trash x now trid fid (Some delete_reason) (Some delete_note) d = (res, d1)"
    by (cases "ensure_model_file_trash x now trid fid (Some delete_reason) (Some delete_note) d")
  with step [of d trid fid "Some delete_reason" "Some delete_note"] have one: "P d d1" by simp
  show ?case
  proof (cases res)
    case (Inl e)
    with one r f show ?thesis by simp
  next
    case (Inr v)
    with trans [OF one Cons.IH] r f show ?thesis by simp
  qed
qed

lemma trash_files_kept: "queue_kept d (snd (trash_files x now fs d))"
  by (rule trash_files_rel [where P = queue_kept]) (blast intro: kept_trans ensure_trash_frame(1))+

lemma trash_files_models: "models (snd (trash_files x now fs d)) = models d"
  by (rule trash_files_rel [where P = "\<lambda>d d'. models d' = models d"]) (simp_all add: ensure_trash_frame(3))

lemma trash_files_mono:
  "trash_core ` set (model_file_trash d) \<subseteq> trash_core ` set (model_file_trash (snd (trash_files x now fs d)))"
  by (rule trash_files_rel [where P = "\<lambda>d d'. trash_core ` set (model_file_trash d)
        \<subseteq> trash_core ` set (model_file_trash d')"]) (blast intro: ensure_trash_mono [THEN subsetD])+

lemma trash_files_Inr:
  assumes "trash_files x now fs d = (Inr u, d')" and "(fid, trid) \<in> set fs"
  shows "\<exists>r \<in> set (model_file_trash d'). tr_model_file_id r = Some fid"
  using assms
proof (induction fs arbitrary: d)
  case (Cons f fs)
  obtain fid' trid' where f: "f = (fid', trid')" by (cases f)
  from Cons.prems(1) f obtain v d1 where
    e: "ensure_model_file_trash x now trid' fid' (Some delete_reason) (Some delete_note) d = (Inr v, d1)"
    and rest: "trash_files x now fs d1 = (Inr u, d')"
    by (auto split: prod.splits sum.splits)
  show ?case
  proof (cases "(fid, trid) \<in> set fs")
    case True
    with Cons.IH [OF rest] show ?thesis by blast
  next
    case False
    with Cons.prems(2) f have "fid = fid'" by simp
    with ensure_trash_Inr [OF e] obtain r where "r \<in> set (model_file_trash d1)" "tr_model_file_id r = Some fid"
      by blast
    moreover from trash_files_mono [of d1 x now fs] rest
    have "trash_core ` set (model_file_trash d1) \<subseteq> trash_core ` set (model_file_trash d')" by simp
    ultimately obtain q where "q \<in> set (model_file_trash d')" "trash_core r = trash_core q" by blast
    with trash_core_file [of r q] \<open>tr_model_file_id r = Some fid\<close> show ?thesis by auto
  qed
qed simp

text \<open>
  After a deletion no instance was using the model, its row is marked deleted under its freed
  name, and each of its files has a trash item.
\<close>

lemma delete_model_Inr:
  assumes "delete_model x now trids i d = (Inr u, d')" and "length trids = length (live_files d i)"
  shows "\<forall>r \<in> set (model_instances d). mi_model_id r = Some i \<longrightarrow> mi_status r \<notin> {''starting'', ''running''}"
    and "\<not> model_exists d' i"
    and "\<forall>fid \<in> set (live_files d i). \<exists>r \<in> set (model_file_trash d'). tr_model_file_id r = Some fid"
proof -
  from assms(1) obtain v d1 ms where
    free: "users_of_model (\<lambda>s. s = ''starting'' \<or> s = ''running'') d i = []"
    and t: "trash_files x now (zip (live_files d i) trids) d = (Inr v, d1)"
    and ms: "update_checked model_clash (\<lambda>m. m_id m = i \<and> m_deleted_at m = None)
       (\<lambda>m. m\<lparr>m_name := deleted_name m, m_deleted_at := Some now, m_updated_at := now\<rparr>) [] (models d1) = Inr ms"
    and d': "d' = d1\<lparr>models := ms\<rparr>"
    by (auto simp: delete_model_def split: if_splits prod.splits sum.splits)
  from free show "\<forall>r \<in> set (model_instances d). mi_model_id r = Some i \<longrightarrow> mi_status r \<notin> {''starting'', ''running''}"
    by (auto simp: users_of_model_def filter_empty_conv)
  show "\<not> model_exists d' i"
  proof
    assume "model_exists d' i"
    then obtain m where m: "m \<in> set ms" "m_id m = i" "m_deleted_at m = None"
      unfolding model_exists_def d' by auto
    from m(1) have "m \<in> set (update_where (\<lambda>m. m_id m = i \<and> m_deleted_at m = None)
        (\<lambda>m. m\<lparr>m_name := deleted_name m, m_deleted_at := Some now, m_updated_at := now\<rparr>) (models d1))"
      unfolding update_checked_Inr [OF ms] by simp
    then obtain r where
      "m = (if m_id r = i \<and> m_deleted_at r = None
            then r\<lparr>m_name := deleted_name r, m_deleted_at := Some now, m_updated_at := now\<rparr> else r)"
      by (rule update_whereE)
    with m(2,3) show False by (cases "m_id r = i"; cases "m_deleted_at r") simp_all
  qed
  show "\<forall>fid \<in> set (live_files d i). \<exists>r \<in> set (model_file_trash d'). tr_model_file_id r = Some fid"
  proof
    fix fid assume "fid \<in> set (live_files d i)"
    then obtain k where k: "k < length (live_files d i)" "live_files d i ! k = fid" by (auto simp: in_set_conv_nth)
    then have "(fid, trids ! k) \<in> set (zip (live_files d i) trids)"
      using assms(2) by (auto simp: set_zip)
    from trash_files_Inr [OF t this] show "\<exists>r \<in> set (model_file_trash d'). tr_model_file_id r = Some fid"
      by (simp add: d')
  qed
qed

lemma names_ok_delete_model:
  assumes "model_names_ok d" shows "model_names_ok (snd (delete_model x now trids i d))"
proof (cases "trash_files x now (zip (live_files d i) trids) d")
  case (Pair res d1)
  with trash_files_models [of x now "zip (live_files d i) trids" d] assms
  have k: "model_names_ok d1" by (simp add: model_names_ok_def)
  with assms Pair show ?thesis
    by (auto simp: delete_model_def split: sum.split intro: names_ok_set_models [OF k])
qed

end
