(* ===== verification/Runtimes.thy ===== *)
theory Runtimes
  imports Waiting
begin

text \<open>
  \<^verbatim>\<open>server/src/domain/runtimes.rs\<close>: runtime environments of the nodes. A runtime other than
  Ollama is saved only after the node's agent has checked it (\<open>check_runtime_environment\<close> task,
  waited for); changing one that running instances use is refused. Fresh ids are arguments,
  \<open>now\<close> is the clock at the start and \<open>later\<close> the clock after the wait, \<open>es\<close> what the rest of
  the server does during the wait.
\<close>

section \<open>Reading\<close>

text \<open>The view of a runtime has the columns of its row (\<open>runtime_environment_from_row\<close>).\<close>

definition runtime_environment :: "db \<Rightarrow> string \<Rightarrow> domain_error + runtime_row" where
  "runtime_environment d i =
     (case runtime_of d i of
        None \<Rightarrow> Inl (NotFound ''runtime environment not found'')
      | Some r \<Rightarrow> Inr r)"

definition list_runtime_environments :: "db \<Rightarrow> string option \<Rightarrow> runtime_row list" where
  "list_runtime_environments d nid =
     (case nid of
        Some n \<Rightarrow> sort_key re_name (filter (\<lambda>r. re_node_id r = Some n) (runtime_environments d))
      | None \<Rightarrow> sort_key (\<lambda>r. (re_node_id r, re_name r)) (runtime_environments d))"

definition runtime_environment_usable :: "string option \<Rightarrow> bool" where
  "runtime_environment_usable s \<longleftrightarrow> s = Some ''available'' \<or> s = Some ''version_unavailable''"

section \<open>Checking with the agent\<close>

record checked_runtime =
  ck_check_status :: string
  ck_version :: "string option"
  ck_message :: string
  ck_checked_at :: int

definition ollama_runtime_config_check :: "int \<Rightarrow> checked_runtime" where
  "ollama_runtime_config_check now =
     \<lparr>ck_check_status = ''available'', ck_version = None,
      ck_message = ''Ollama runtime config saved; daemon availability is checked when listing models or starting instances'',
      ck_checked_at = now\<rparr>"

definition non_blank_message :: "string \<Rightarrow> json \<Rightarrow> string" where
  "non_blank_message def v =
     (case get_str v ''message'' of
        None \<Rightarrow> def
      | Some m \<Rightarrow> if blank m then def else m)"

definition runtime_check_message :: "json \<Rightarrow> string" where
  "runtime_check_message v = non_blank_message ''Runtime check failed'' v"

definition runtime_check_payload :: "runtime_request \<Rightarrow> json" where
  "runtime_check_payload r = JObj
     [(''name'', JStr (rr_name r)), (''backend'', JStr (rr_backend r)),
      (''deploy_type'', JStr (rr_deploy_type r)), (''version'', jopt (rr_version r)),
      (''binary_path'', jopt (rr_binary_path r)), (''docker_image'', jopt (rr_docker_image r)),
      (''working_dir'', jopt (rr_working_dir r)), (''params_json'', jopt (rr_params_json r))]"

definition runtime_check_timed_out :: domain_error where
  "runtime_check_timed_out = Conflict ''Runtime check timed out; confirm Agent is online and retry''"

text \<open>The outcome of a closed check task.\<close>

definition runtime_check_outcome :: "ext \<Rightarrow> int \<Rightarrow> task_row \<Rightarrow> domain_error + checked_runtime" where
  "runtime_check_outcome x later t =
     (let result = unwrap_or (task_result x t) (JObj []) in
      if t_status t = ''succeeded'' then
        (let status = unwrap_or (get_str result ''check_status'') ''available'' in
         if status \<notin> {''available'', ''version_unavailable''}
         then Inl (BadRequest (runtime_check_message result))
         else Inr \<lparr>ck_check_status = status, ck_version = get_str result ''version'',
                   ck_message = runtime_check_message result, ck_checked_at = later\<rparr>)
      else if t_status t = ''failed'' then Inl (BadRequest (runtime_check_message result))
      else Inl runtime_check_timed_out)"

definition check_runtime_environment_before_save ::
  "ext \<Rightarrow> int \<Rightarrow> int \<Rightarrow> string \<Rightarrow> (db \<Rightarrow> db) list \<Rightarrow> string \<Rightarrow> runtime_request \<Rightarrow> db
   \<Rightarrow> (domain_error + checked_runtime) \<times> db" where
  "check_runtime_environment_before_save x now later tid es nid r d =
     (case queue_task x now tid nid ''check_runtime_environment'' (runtime_check_payload r) d of
        Inl e \<Rightarrow> (Inl (of_sql e), d)
      | Inr d1 \<Rightarrow>
          (case wait_task tid es d1 of
             (Ended t, d2) \<Rightarrow> (runtime_check_outcome x later t, d2)
           | (DeadlinePassed, d2) \<Rightarrow>
               (Inl runtime_check_timed_out, mark_task_timed_out later tid d2)
           | (RowMissing, d2) \<Rightarrow> (Inl (Internal ''no rows returned''), d2)))"

section \<open>Creating and updating\<close>

definition validate_runtime_request :: "ext \<Rightarrow> runtime_request \<Rightarrow> domain_error option" where
  "validate_runtime_request x r = first_error [
     validate_non_empty ''name'' (rr_name r),
     validate_backend (rr_backend r),
     validate_deploy_type (rr_deploy_type r),
     validate_runtime_entrypoints r,
     validate_json_field x ''allowed_model_dirs_json'' (rr_allowed_model_dirs_json r),
     validate_json_field x ''params_json'' (rr_params_json r)]"

definition insert_runtime ::
  "int \<Rightarrow> string \<Rightarrow> string \<Rightarrow> runtime_request \<Rightarrow> checked_runtime \<Rightarrow> db
   \<Rightarrow> (domain_error + runtime_row) \<times> db" where
  "insert_runtime later rid nid r ck d =
     (case insert_row (same_key re_id) (node_exists d nid)
             \<lparr>re_id = rid, re_node_id = Some nid, re_name = rr_name r, re_backend = rr_backend r,
              re_deploy_type = rr_deploy_type r,
              re_version = coalesce (ck_version ck) (rr_version r), re_base_url = None,
              re_health_url = None, re_endpoint_url = None, re_binary_path = rr_binary_path r,
              re_docker_image = rr_docker_image r, re_working_dir = rr_working_dir r,
              re_log_dir = rr_log_dir r,
              re_allowed_model_dirs_json = rr_allowed_model_dirs_json r,
              re_params_json = rr_params_json r, re_enabled = unwrap_or (rr_enabled r) True,
              re_last_checked_at = Some (ck_checked_at ck),
              re_check_status = Some (ck_check_status ck),
              re_check_message = Some (ck_message ck), re_created_at = later,
              re_updated_at = later\<rparr> (runtime_environments d) of
        Inl e \<Rightarrow> (Inl (of_sql e), d)
      | Inr rows \<Rightarrow>
          (let d1 = d\<lparr>runtime_environments := rows\<rparr> in (runtime_environment d1 rid, d1)))"

definition create_runtime_environment ::
  "ext \<Rightarrow> int \<Rightarrow> int \<Rightarrow> string \<Rightarrow> string \<Rightarrow> (db \<Rightarrow> db) list \<Rightarrow> string \<Rightarrow> runtime_request \<Rightarrow> db
   \<Rightarrow> (domain_error + runtime_row) \<times> db" where
  "create_runtime_environment x now later tid rid es nid r d =
     (case validate_runtime_request x r of
        Some e \<Rightarrow> (Inl e, d)
      | None \<Rightarrow>
          if rr_backend r = ''ollama''
          then insert_runtime later rid nid r (ollama_runtime_config_check now) d
          else (case ensure_node_online d now nid of
             Some e \<Rightarrow> (Inl e, d)
           | None \<Rightarrow>
               (case check_runtime_environment_before_save x now later tid es nid r d of
                  (Inl e, d1) \<Rightarrow> (Inl e, d1)
                | (Inr ck, d1) \<Rightarrow> insert_runtime later rid nid r ck d1)))"

definition active_status :: "string \<Rightarrow> bool" where
  "active_status s \<longleftrightarrow> s = ''running'' \<or> s = ''starting'' \<or> s = ''stopping''"

definition set_runtime :: "string \<Rightarrow> (runtime_row \<Rightarrow> runtime_row) \<Rightarrow> db \<Rightarrow> db" where
  "set_runtime i f d =
     d\<lparr>runtime_environments := update_where (\<lambda>r. re_id r = i) f (runtime_environments d)\<rparr>"

definition update_runtime_environment_check ::
  "int \<Rightarrow> string \<Rightarrow> string \<Rightarrow> string \<Rightarrow> db \<Rightarrow> (domain_error + runtime_row) \<times> db" where
  "update_runtime_environment_check now i status message d =
     (let d1 = set_runtime i (\<lambda>r. r\<lparr>re_last_checked_at := Some now,
                 re_check_status := Some status, re_check_message := Some message,
                 re_updated_at := now\<rparr>) d
      in (runtime_environment d1 i, d1))"

definition users_of_runtime :: "db \<Rightarrow> string \<Rightarrow> string list" where
  "users_of_runtime d i =
     map mi_name (filter (\<lambda>r. mi_runtime_environment_id r = Some i \<and> active_status (mi_status r))
       (model_instances d))"

definition update_runtime_environment ::
  "ext \<Rightarrow> int \<Rightarrow> string \<Rightarrow> runtime_request \<Rightarrow> db \<Rightarrow> (domain_error + runtime_row) \<times> db" where
  "update_runtime_environment x now i r d =
     (case validate_runtime_request x r of
        Some e \<Rightarrow> (Inl e, d)
      | None \<Rightarrow>
          if users_of_runtime d i \<noteq> [] then
            (Inl (Conflict (''Runtime in use by running instance '' @ join '', '' (users_of_runtime d i)
               @ ''. Cannot modify. Stop the instance first.'')), d)
          else if rows_affected (\<lambda>q. re_id q = i) (runtime_environments d) = 0 then
            (Inl (NotFound ''runtime environment not found''), d)
          else
            (let d1 = set_runtime i (\<lambda>q. q\<lparr>re_name := rr_name r, re_backend := rr_backend r,
                   re_deploy_type := rr_deploy_type r, re_version := rr_version r,
                   re_base_url := None, re_health_url := None, re_endpoint_url := None,
                   re_binary_path := rr_binary_path r, re_docker_image := rr_docker_image r,
                   re_working_dir := rr_working_dir r, re_log_dir := rr_log_dir r,
                   re_allowed_model_dirs_json := rr_allowed_model_dirs_json r,
                   re_params_json := rr_params_json r,
                   re_enabled := unwrap_or (rr_enabled r) True, re_updated_at := now\<rparr>) d
             in if rr_backend r = ''ollama'' then
                  (let ck = ollama_runtime_config_check now in
                   case update_runtime_environment_check now i (ck_check_status ck) (ck_message ck) d1 of
                     (Inl e, d2) \<Rightarrow> (Inl e, d2)
                   | (Inr _, d2) \<Rightarrow> (runtime_environment d2 i, d2))
                else (runtime_environment d1 i, d1)))"

definition delete_runtime_environment :: "string \<Rightarrow> db \<Rightarrow> (domain_error + unit) \<times> db" where
  "delete_runtime_environment i d =
     (if \<exists>r \<in> set (model_instances d). mi_runtime_environment_id r = Some i then
        (Inl (Conflict ''runtime environment is used by model instances''), d)
      else if rows_affected (\<lambda>q. re_id q = i) (runtime_environments d) = 0 then
        (Inl (NotFound ''runtime environment not found''), d)
      else (Inr (), d\<lparr>runtime_environments :=
              delete_where (\<lambda>q. re_id q = i) (runtime_environments d)\<rparr>))"

definition request_of_runtime :: "runtime_row \<Rightarrow> runtime_request" where
  "request_of_runtime e =
     \<lparr>rr_name = re_name e, rr_backend = re_backend e, rr_deploy_type = re_deploy_type e,
      rr_version = re_version e, rr_base_url = None, rr_health_url = None,
      rr_endpoint_url = None, rr_binary_path = re_binary_path e,
      rr_docker_image = re_docker_image e, rr_working_dir = re_working_dir e,
      rr_log_dir = re_log_dir e, rr_allowed_model_dirs_json = re_allowed_model_dirs_json e,
      rr_params_json = re_params_json e, rr_enabled = Some (re_enabled e)\<rparr>"

definition offline_check_message :: string where
  "offline_check_message = ''Node Agent offline, cannot check runtime environment''"

definition check_runtime_environment ::
  "ext \<Rightarrow> int \<Rightarrow> int \<Rightarrow> string \<Rightarrow> (db \<Rightarrow> db) list \<Rightarrow> string \<Rightarrow> db
   \<Rightarrow> (domain_error + runtime_row) \<times> db" where
  "check_runtime_environment x now later tid es i d =
     (case runtime_environment d i of
        Inl e \<Rightarrow> (Inl e, d)
      | Inr env \<Rightarrow>
          if re_backend env = ''ollama'' then
            (let ck = ollama_runtime_config_check now in
             case update_runtime_environment_check now i (ck_check_status ck) (ck_message ck) d of
               (Inl e, d1) \<Rightarrow> (Inl e, d1)
             | (Inr _, d1) \<Rightarrow> (runtime_environment d1 i, d1))
          else (case re_node_id env of
             None \<Rightarrow> (Inl (BadRequest ''Runtime must be bound to a node''), d)
           | Some nid \<Rightarrow>
               if \<not> node_online d now nid then
                 (case update_runtime_environment_check now i ''agent_offline'' offline_check_message d of
                    (Inl e, d1) \<Rightarrow> (Inl e, d1)
                  | (Inr _, d1) \<Rightarrow> (Inl (Conflict offline_check_message), d1))
               else
                 (case check_runtime_environment_before_save x now later tid es nid
                         (request_of_runtime env) d of
                    (Inl e, d1) \<Rightarrow> (Inl e, d1)
                  | (Inr ck, d1) \<Rightarrow>
                      (let d2 = set_runtime i (\<lambda>q. q\<lparr>
                             re_version := coalesce (ck_version ck) (re_version q),
                             re_last_checked_at := Some (ck_checked_at ck),
                             re_check_status := Some (ck_check_status ck),
                             re_check_message := Some (ck_message ck), re_updated_at := later\<rparr>) d1
                       in (runtime_environment d2 i, d2)))))"

section \<open>Facts\<close>

lemma runtime_environment_Inr: "runtime_environment d i = Inr r \<longleftrightarrow> runtime_of d i = Some r"
  by (auto simp: runtime_environment_def split: option.splits)

lemma runtime_of_set_runtime:
  assumes "\<And>r. re_id (f r) = re_id r"
  shows "runtime_of (set_runtime i f d) k =
    (if k = i then map_option f (runtime_of d i) else runtime_of d k)"
proof -
  have "runtime_of (set_runtime i f d) k =
      map_option (\<lambda>r. if re_id r = i then f r else r) (runtime_of d k)"
    unfolding runtime_of_def set_runtime_def by (rule runtimes_tbl.lookup_update) (rule assms)
  then show ?thesis by (cases "runtime_of d k") (auto simp: runtime_of_def dest: find_Some_D)
qed

lemma agent_tasks_set_runtime [simp]: "agent_tasks (set_runtime i f d) = agent_tasks d"
  by (simp add: set_runtime_def)

lemma agent_tasks_update_runtime_check [simp]:
  "agent_tasks (snd (update_runtime_environment_check now i s m d)) = agent_tasks d"
  by (simp add: update_runtime_environment_check_def Let_def)

lemma agent_tasks_insert_runtime [simp]:
  "agent_tasks (snd (insert_runtime later rid nid r ck d)) = agent_tasks d"
  by (simp add: insert_runtime_def Let_def split: sum.split)

text \<open>A check that succeeds reports a status under which the runtime may be used.\<close>

lemma runtime_check_outcome_usable:
  "runtime_check_outcome x later t = Inr ck \<Longrightarrow>
     t_status t = ''succeeded'' \<and> runtime_environment_usable (Some (ck_check_status ck))"
  by (auto simp: runtime_check_outcome_def Let_def runtime_environment_usable_def split: if_splits)

lemma check_before_save_Inr:
  assumes "check_runtime_environment_before_save x now later tid es nid r d = (Inr ck, d2)"
  obtains d1 t where "queue_task x now tid nid ''check_runtime_environment'' (runtime_check_payload r) d = Inr d1"
    and "wait_task tid es d1 = (Ended t, d2)" and "t_status t = ''succeeded''"
    and "runtime_environment_usable (Some (ck_check_status ck))"
  using assms runtime_check_outcome_usable
  by (auto simp: check_runtime_environment_before_save_def split: sum.splits prod.splits wait_end.splits)

lemma insert_runtime_Inr:
  assumes "insert_runtime later rid nid r ck d = (Inr row, d1)"
  shows "runtime_of d1 rid = Some row \<and> re_node_id row = Some nid \<and> re_backend row = rr_backend r
    \<and> re_deploy_type row = rr_deploy_type r \<and> re_check_status row = Some (ck_check_status ck)
    \<and> re_name row = rr_name r \<and> node_exists d nid
    \<and> (\<forall>k. k \<noteq> rid \<longrightarrow> runtime_of d1 k = runtime_of d k)"
proof -
  from assms obtain new rows where ins: "insert_row (same_key re_id) (node_exists d nid) new
      (runtime_environments d) = Inr rows" and d1: "d1 = d\<lparr>runtime_environments := rows\<rparr>"
    and row: "runtime_of d1 rid = Some row"
    and new: "re_id new = rid" "re_node_id new = Some nid" "re_backend new = rr_backend r"
      "re_deploy_type new = rr_deploy_type r" "re_check_status new = Some (ck_check_status ck)"
      "re_name new = rr_name r"
    by (fastforce simp: insert_runtime_def Let_def runtime_environment_Inr split: sum.splits)
  have look: "runtime_of d1 k = (if k = re_id new then Some new else runtime_of d k)" for k
    unfolding runtime_of_def d1 by (rule runtimes_tbl.lookup_insert [OF ins]) (simp add: same_key_def)
  from look [of rid] row new(1) have "row = new" by simp
  moreover have "node_exists d nid" using ins by (simp add: insert_row_Inr)
  ultimately show ?thesis using row new look by simp
qed

lemma create_runtime_Inr:
  assumes "create_runtime_environment x now later tid rid es nid r d = (Inr row, d')"
  shows "runtime_of d' rid = Some row \<and> runtime_environment_usable (re_check_status row)
    \<and> re_node_id row = Some nid \<and> re_backend row \<in> set backends
    \<and> re_deploy_type row \<in> set deploy_types \<and> \<not> blank (re_name row)"
proof -
  from assms have v: "validate_runtime_request x r = None"
    by (auto simp: create_runtime_environment_def split: option.splits)
  then have fields: "\<not> blank (rr_name r)" "rr_backend r \<in> set backends"
    "rr_deploy_type r \<in> set deploy_types"
    by (auto simp: validate_runtime_request_def first_error_Cons validate_backend_def
        validate_deploy_type_def split: option.splits)
  obtain ck d1 where ck: "insert_runtime later rid nid r ck d1 = (Inr row, d')"
    "runtime_environment_usable (Some (ck_check_status ck))"
  proof (cases "rr_backend r = ''ollama''")
    case True
    with assms v that show ?thesis
      by (auto simp: create_runtime_environment_def ollama_runtime_config_check_def
          runtime_environment_usable_def)
  next
    case False
    with assms v obtain ck d1 where
      "check_runtime_environment_before_save x now later tid es nid r d = (Inr ck, d1)"
      "insert_runtime later rid nid r ck d1 = (Inr row, d')"
      by (auto simp: create_runtime_environment_def split: option.splits prod.splits sum.splits)
    with that show ?thesis by (blast elim: check_before_save_Inr)
  qed
  show ?thesis using insert_runtime_Inr [OF ck(1)] ck(2) fields by simp
qed

text \<open>A runtime other than Ollama is saved only when its check task succeeded.\<close>

lemma create_runtime_needs_check:
  assumes "create_runtime_environment x now later tid rid es nid r d = (Inr row, d')"
    and "rr_backend r \<noteq> ''ollama''"
  shows "node_online d now nid \<and> (\<exists>d1 d2 t.
    queue_task x now tid nid ''check_runtime_environment'' (runtime_check_payload r) d = Inr d1
    \<and> wait_task tid es d1 = (Ended t, d2) \<and> t_status t = ''succeeded'')"
proof -
  from assms obtain ck d1 where "node_online d now nid"
    "check_runtime_environment_before_save x now later tid es nid r d = (Inr ck, d1)"
    by (auto simp: create_runtime_environment_def ensure_node_online_def
        split: option.splits prod.splits sum.splits if_splits)
  then show ?thesis by (blast elim: check_before_save_Inr)
qed

text \<open>Runtimes in use are protected.\<close>

lemma update_runtime_in_use:
  assumes "users_of_runtime d i \<noteq> []"
  shows "\<exists>e. update_runtime_environment x now i r d = (Inl e, d)"
  using assms by (auto simp: update_runtime_environment_def split: option.split)

lemma delete_runtime_in_use:
  assumes "q \<in> set (model_instances d)" and "mi_runtime_environment_id q = Some i"
  shows "\<exists>e. delete_runtime_environment i d = (Inl e, d)"
  using assms by (auto simp: delete_runtime_environment_def)

lemma delete_runtime_Inr:
  assumes "delete_runtime_environment i d = (Inr u, d')"
  shows "runtime_of d' i = None \<and> runtime_of d i \<noteq> None
    \<and> (\<forall>k. k \<noteq> i \<longrightarrow> runtime_of d' k = runtime_of d k)"
proof -
  from assms have d': "d' = d\<lparr>runtime_environments := delete_where (\<lambda>q. re_id q = i) (runtime_environments d)\<rparr>"
    and "rows_affected (\<lambda>q. re_id q = i) (runtime_environments d) \<noteq> 0"
    by (auto simp: delete_runtime_environment_def split: if_splits)
  then have "runtime_of d i \<noteq> None" by (auto simp: runtime_of_def rows_affected_0 find_None_iff)
  moreover have "runtime_of d' i = None" unfolding runtime_of_def d' by (rule runtimes_tbl.lookup_delete)
  moreover have "runtime_of d' k = runtime_of d k" if "k \<noteq> i" for k
    unfolding runtime_of_def d' using that by (intro runtimes_tbl.lookup_delete_other) auto
  ultimately show ?thesis by blast
qed

section \<open>The queue contract\<close>

lemma check_before_save_kept:
  "queue_kept d (snd (check_runtime_environment_before_save x now later tid
     (map (agent_run x) es) nid r d))"
proof (cases "queue_task x now tid nid ''check_runtime_environment'' (runtime_check_payload r) d")
  case (Inr d1)
  have "queue_kept d (snd (wait_task tid (map (agent_run x) es) d1))"
    using kept_queue [OF Inr] kept_wait by (rule kept_trans)
  then show ?thesis
    using Inr by (auto simp: check_runtime_environment_before_save_def
        intro: kept_trans [OF _ kept_mark] split: prod.split wait_end.split)
qed (simp add: check_runtime_environment_before_save_def)

lemma create_runtime_kept:
  "queue_kept d (snd (create_runtime_environment x now later tid rid (map (agent_run x) es) nid r d))"
  using check_before_save_kept [of d x now later tid es nid r]
  by (auto simp: create_runtime_environment_def split: option.split prod.split sum.split
      intro: kept_same kept_then_same)

lemma check_runtime_kept:
  "queue_kept d (snd (check_runtime_environment x now later tid (map (agent_run x) es) i d))"
proof -
  have upd: "agent_tasks d1 = agent_tasks d0"
    if "update_runtime_environment_check n k s m d0 = (res, d1)" for n k s m d0 res d1
    using agent_tasks_update_runtime_check [of n k s m d0] that by simp
  have chk: "queue_kept d d1"
    if "check_runtime_environment_before_save x now later tid (map (agent_run x) es) nid r d = (res, d1)"
    for nid r res d1
    using check_before_save_kept [of d x now later tid es nid r] that by simp
  show ?thesis
    by (auto simp: check_runtime_environment_def Let_def split: option.split prod.split sum.split
        dest!: upd chk intro: kept_same kept_then_same)
qed

interpretation runtime_create: task_op
  "\<lambda>d. snd (create_runtime_environment x now later tid rid (map (agent_run x) es) nid r d)"
  for x now later tid rid es nid r
  by (rule task_op_kept) (rule create_runtime_kept)

interpretation runtime_check: task_op
  "\<lambda>d. snd (check_runtime_environment x now later tid (map (agent_run x) es) i d)"
  for x now later tid es i
  by (rule task_op_kept) (rule check_runtime_kept)

end
