(* ===== verification/Instances.thy ===== *)
theory Instances
  imports Catalog Runtimes
begin

text \<open>
  \<^verbatim>\<open>server/src/domain/instances.rs\<close> and \<^verbatim>\<open>server/src/http_check.rs\<close>: model instances. An
  external instance is a URL the platform knows; a local one is started, stopped, checked and
  tested by the agent of its node, through a task the request waits for. The view and
  \<open>update_instance_check\<close> are in the theory Views.
\<close>

section \<open>Validations\<close>

definition validate_optional_non_empty :: "string \<Rightarrow> string option \<Rightarrow> domain_error option" where
  "validate_optional_non_empty field v =
     (if some_not_blank v then None else Some (BadRequest (field @ '' is required'')))"

definition validate_instance_deploy_type :: "string \<Rightarrow> domain_error option" where
  "validate_instance_deploy_type v = validate_one_of ''deploy_type'' v [''external'', ''local'']"

definition instance_statuses :: "string list" where
  "instance_statuses = [''pending'', ''starting'', ''running'', ''stopping'', ''stopped'', ''failed'',
                        ''unknown'']"

definition validate_instance_status :: "string \<Rightarrow> domain_error option" where
  "validate_instance_status v = validate_one_of ''status'' v instance_statuses"

definition validate_http_url :: "ext \<Rightarrow> string \<Rightarrow> string \<Rightarrow> domain_error option" where
  "validate_http_url x field v =
     (case ext_url x v of
        None \<Rightarrow> Some (BadRequest (field @ '' must be a valid http:// or https:// URL''))
      | Some u \<Rightarrow>
          if url_scheme u = ''http'' \<or> url_scheme u = ''https'' then None
          else Some (BadRequest (field @ '' must use http:// or https://'')))"

definition validate_instance_urls ::
  "ext \<Rightarrow> string option \<Rightarrow> string option \<Rightarrow> string option \<Rightarrow> domain_error option" where
  "validate_instance_urls x base endpoint health = first_error [
     opt_check (validate_http_url x ''base_url'') base,
     opt_check (validate_http_url x ''endpoint_url'') endpoint,
     opt_check (validate_http_url x ''health_url'') health]"

definition validate_base_url_required :: "string option \<Rightarrow> domain_error option" where
  "validate_base_url_required v =
     (if some_not_blank v then None else Some (BadRequest ''base_url is required''))"

definition bad_text :: "nat \<Rightarrow> string \<Rightarrow> bool" where
  "bad_text limit s \<longleftrightarrow> blank s \<or> limit < length s \<or> any_char is_control s"

fun check_extra_args :: "json list \<Rightarrow> domain_error option" where
  "check_extra_args [] = None"
| "check_extra_args (a # as) =
     (case as_str a of
        None \<Rightarrow> Some (BadRequest ''extra args must be one string per line'')
      | Some s \<Rightarrow> if bad_text 256 s then Some (BadRequest ''invalid extra args'')
                  else check_extra_args as)"

definition check_instance_params :: "json \<Rightarrow> domain_error option" where
  "check_instance_params v = first_error [
     if is_object v then None else Some (BadRequest ''runtime params must be a JSON object''),
     (case get_str v ''host'' of
        None \<Rightarrow> None
      | Some h \<Rightarrow> if bad_text 128 h then Some (BadRequest ''invalid listen address'') else None),
     (case get_u64 v ''port'' of
        None \<Rightarrow> None
      | Some p \<Rightarrow> if p = 0 \<or> 65535 < p then Some (BadRequest ''invalid listen port'') else None),
     (case Option.bind (jget v ''extra_args'') as_array of
        None \<Rightarrow> None
      | Some as \<Rightarrow> check_extra_args as)]"

definition parse_instance_params :: "ext \<Rightarrow> string option \<Rightarrow> domain_error + json" where
  "parse_instance_params x v =
     (case v of
        None \<Rightarrow> Inr (JObj [])
      | Some s \<Rightarrow>
          if blank s then Inr (JObj [])
          else (case ext_jparse x (trim s) of
             None \<Rightarrow> Inl (BadRequest ''params_json must be valid JSON'')
           | Some p \<Rightarrow> (case check_instance_params p of Some e \<Rightarrow> Inl e | None \<Rightarrow> Inr p)))"

definition verified_model_file_for_instance :: "db \<Rightarrow> string \<Rightarrow> domain_error + file_row" where
  "verified_model_file_for_instance d fid =
     (case find_row (\<lambda>r. mf_id r = fid \<and> mf_deleted_at r = None) (model_files d) of
        None \<Rightarrow> Inl (BadRequest ''model file does not exist'')
      | Some r \<Rightarrow>
          if mf_status r \<noteq> ''verified''
          then Inl (BadRequest ''local instance requires a verified model file'') else Inr r)"

section \<open>Creating\<close>

record instance_request =
  ir_model_id :: "string option"
  ir_model_file_id :: "string option"
  ir_node_id :: "string option"
  ir_runtime_environment_id :: "string option"
  ir_name :: string
  ir_deploy_type :: "string option"
  ir_backend :: "string option"
  ir_base_url :: "string option"
  ir_endpoint_url :: "string option"
  ir_health_url :: "string option"
  ir_runtime_version :: "string option"
  ir_model_name :: "string option"
  ir_description :: "string option"
  ir_status :: "string option"
  ir_params_json :: "string option"

definition instance_refs_ok :: "db \<Rightarrow> instance_row \<Rightarrow> bool" where
  "instance_refs_ok d r \<longleftrightarrow> ref_ok m_id (models d) (mi_model_id r)
     \<and> ref_ok mf_id (model_files d) (mi_model_file_id r) \<and> ref_ok n_id (nodes d) (mi_node_id r)
     \<and> ref_ok re_id (runtime_environments d) (mi_runtime_environment_id r)"

definition insert_instance ::
  "int \<Rightarrow> instance_row \<Rightarrow> db \<Rightarrow> (domain_error + instance_view) \<times> db" where
  "insert_instance now r d =
     (case insert_row (same_key mi_id) (instance_refs_ok d r) r (model_instances d) of
        Inl e \<Rightarrow> (Inl (of_sql e), d)
      | Inr rows \<Rightarrow>
          (let d1 = d\<lparr>model_instances := rows\<rparr> in (model_instance now d1 (mi_id r), d1)))"

text \<open>The columns no \<open>INSERT\<close> names are NULL.\<close>

definition blank_instance :: "int \<Rightarrow> string \<Rightarrow> instance_request \<Rightarrow> instance_row" where
  "blank_instance now i r =
     \<lparr>mi_id = i, mi_model_id = None, mi_model_file_id = None, mi_node_id = ir_node_id r,
      mi_runtime_environment_id = ir_runtime_environment_id r, mi_name = ir_name r,
      mi_backend = [], mi_deploy_type = [], mi_status = [], mi_base_url = None,
      mi_endpoint_url = None, mi_health_url = None, mi_runtime_version = None,
      mi_model_name = ir_model_name r, mi_description = ir_description r,
      mi_params_json = ir_params_json r, mi_process_id = None, mi_process_ref = None,
      mi_log_tail = None, mi_command = None, mi_last_checked_at = None, mi_last_error = None,
      mi_created_at = now, mi_updated_at = now\<rparr>"

definition effective_backend :: "instance_request \<Rightarrow> string" where
  "effective_backend r =
     (case ir_backend r of
        None \<Rightarrow> ''custom''
      | Some b \<Rightarrow> if blank b then ''custom'' else trim b)"

definition ollama_model_name :: "json \<Rightarrow> domain_error + string" where
  "ollama_model_name params =
     (case get_str params ''ollama_model'' of
        None \<Rightarrow> Inl (BadRequest ''ollama_model is required for Ollama backend instances'')
      | Some s \<Rightarrow>
          if blank s then Inl (BadRequest ''ollama_model is required for Ollama backend instances'')
          else if 256 < length s \<or> any_char is_control s
          then Inl (BadRequest ''ollama_model contains invalid characters'') else Inr s)"

text \<open>The model and file a local instance serves; an Ollama instance has neither.\<close>

definition local_model ::
  "db \<Rightarrow> runtime_row \<Rightarrow> json \<Rightarrow> string \<Rightarrow> string option \<Rightarrow> domain_error + (string option \<times> string option)" where
  "local_model d env params nid mfid =
     (if re_backend env = ''ollama'' then
        (case ollama_model_name params of Inl e \<Rightarrow> Inl e | Inr _ \<Rightarrow> Inr (None, None))
      else (case mfid of
         None \<Rightarrow> Inl (BadRequest ''Local instance requires a verified model file'')
       | Some fid \<Rightarrow>
           (case verified_model_file_for_instance d fid of
              Inl e \<Rightarrow> Inl e
            | Inr f \<Rightarrow>
                if mf_node_id f \<noteq> nid
                then Inl (BadRequest ''Model file does not belong to the selected node'')
                else Inr (Some (mf_model_id f), Some fid))))"

definition create_local_model_instance ::
  "ext \<Rightarrow> int \<Rightarrow> string \<Rightarrow> instance_request \<Rightarrow> db \<Rightarrow> (domain_error + instance_view) \<times> db" where
  "create_local_model_instance x now i r d =
     (case validate_json_field x ''params_json'' (ir_params_json r) of
        Some e \<Rightarrow> (Inl e, d)
      | None \<Rightarrow>
     (case parse_instance_params x (ir_params_json r) of
        Inl e \<Rightarrow> (Inl e, d)
      | Inr params \<Rightarrow>
     (case ir_node_id r of
        None \<Rightarrow> (Inl (BadRequest ''Local instance requires a node''), d)
      | Some nid \<Rightarrow>
     (case ir_runtime_environment_id r of
        None \<Rightarrow> (Inl (BadRequest ''Local instance requires a runtime environment''), d)
      | Some rid \<Rightarrow>
     (case runtime_environment d rid of
        Inl e \<Rightarrow> (Inl e, d)
      | Inr env \<Rightarrow>
          if re_node_id env \<noteq> Some nid then
            (Inl (BadRequest ''Runtime environment does not belong to the selected node''), d)
          else if \<not> runtime_environment_usable (re_check_status env) then
            (Inl (BadRequest ''Runtime environment has not passed Agent check''), d)
          else (case local_model d env params nid (ir_model_file_id r) of
             Inl e \<Rightarrow> (Inl e, d)
           | Inr (mid, fid) \<Rightarrow>
               insert_instance now ((blank_instance now i r)\<lparr>mi_model_id := mid,
                 mi_model_file_id := fid, mi_backend := re_backend env,
                 mi_deploy_type := ''local'', mi_status := ''stopped'',
                 mi_runtime_version := re_version env\<rparr>) d))))))"

definition create_model_instance ::
  "ext \<Rightarrow> int \<Rightarrow> string \<Rightarrow> instance_request \<Rightarrow> db \<Rightarrow> (domain_error + instance_view) \<times> db" where
  "create_model_instance x now i r d =
     (let deploy = unwrap_or (ir_deploy_type r) ''external'';
          status = unwrap_or (ir_status r) ''unknown'';
          backend = effective_backend r
      in case first_error [validate_non_empty ''name'' (ir_name r), validate_instance_status status,
                validate_instance_deploy_type deploy] of
           Some e \<Rightarrow> (Inl e, d)
         | None \<Rightarrow>
             if deploy = ''local'' then create_local_model_instance x now i r d
             else (case first_error [validate_backend backend,
                     validate_base_url_required (ir_base_url r),
                     validate_optional_non_empty ''model_name'' (ir_model_name r),
                     validate_instance_urls x (ir_base_url r) (ir_endpoint_url r) (ir_health_url r),
                     validate_json_field x ''params_json'' (ir_params_json r),
                     opt_check (\<lambda>m. if model_exists d m then None
                                    else Some (BadRequest ''model not found'')) (ir_model_id r)] of
                Some e \<Rightarrow> (Inl e, d)
              | None \<Rightarrow>
                  insert_instance now ((blank_instance now i r)\<lparr>mi_model_id := ir_model_id r,
                    mi_backend := backend, mi_deploy_type := deploy, mi_status := status,
                    mi_base_url := ir_base_url r, mi_endpoint_url := ir_endpoint_url r,
                    mi_health_url := ir_health_url r,
                    mi_runtime_version := ir_runtime_version r\<rparr>) d))"

section \<open>Updating and deleting\<close>

record instance_update =
  iu_name :: "string option"
  iu_backend :: "string option"
  iu_base_url :: "string option"
  iu_endpoint_url :: "string option"
  iu_health_url :: "string option"
  iu_runtime_version :: "string option"
  iu_model_name :: "string option"
  iu_description :: "string option"
  iu_status :: "string option"
  iu_params_json :: "string option"

definition is_config_change :: "instance_update \<Rightarrow> bool" where
  "is_config_change r \<longleftrightarrow>
     (\<exists>v \<in> set [iu_name r, iu_params_json r, iu_backend r, iu_base_url r, iu_endpoint_url r,
                iu_health_url r, iu_runtime_version r, iu_model_name r]. v \<noteq> None)"

definition update_local_instance ::
  "ext \<Rightarrow> int \<Rightarrow> string \<Rightarrow> instance_update \<Rightarrow> instance_row \<Rightarrow> db \<Rightarrow> (domain_error + instance_view) \<times> db" where
  "update_local_instance x now i r cur d =
     (let name = unwrap_or (iu_name r) (mi_name cur);
          params = coalesce (iu_params_json r) (mi_params_json cur)
      in case first_error [validate_non_empty ''name'' name,
                validate_json_field x ''params_json'' params] of
           Some e \<Rightarrow> (Inl e, d)
         | None \<Rightarrow>
             (let d1 = set_instance i (\<lambda>q. q\<lparr>mi_name := name,
                    mi_description := coalesce (iu_description r) (mi_description cur),
                    mi_params_json := params, mi_updated_at := now\<rparr>) d
              in (model_instance now d1 i, d1)))"

definition update_external_instance ::
  "ext \<Rightarrow> int \<Rightarrow> string \<Rightarrow> instance_update \<Rightarrow> instance_row \<Rightarrow> db \<Rightarrow> (domain_error + instance_view) \<times> db" where
  "update_external_instance x now i r cur d =
     (let name = unwrap_or (iu_name r) (mi_name cur);
          status = unwrap_or (iu_status r) (mi_status cur);
          params = coalesce (iu_params_json r) (mi_params_json cur);
          backend = (if some_not_blank (iu_backend r) then the (iu_backend r) else mi_backend cur)
      in case first_error [validate_non_empty ''name'' name, validate_instance_status status,
                if some_not_blank (iu_backend r) then validate_backend backend else None,
                validate_base_url_required (coalesce (iu_base_url r) (mi_base_url cur)),
                validate_optional_non_empty ''model_name''
                  (coalesce (iu_model_name r) (mi_model_name cur)),
                validate_instance_urls x (iu_base_url r) (iu_endpoint_url r) (iu_health_url r),
                validate_json_field x ''params_json'' params] of
           Some e \<Rightarrow> (Inl e, d)
         | None \<Rightarrow>
             (let d1 = set_instance i (\<lambda>q. q\<lparr>mi_name := name, mi_backend := backend,
                    mi_status := status,
                    mi_base_url := coalesce (iu_base_url r) (mi_base_url cur),
                    mi_endpoint_url := coalesce (iu_endpoint_url r) (mi_endpoint_url cur),
                    mi_health_url := coalesce (iu_health_url r) (mi_health_url cur),
                    mi_runtime_version := coalesce (iu_runtime_version r) (mi_runtime_version cur),
                    mi_model_name := coalesce (iu_model_name r) (mi_model_name cur),
                    mi_description := coalesce (iu_description r) (mi_description cur),
                    mi_params_json := params, mi_updated_at := now\<rparr>) d
              in (model_instance now d1 i, d1)))"

definition update_model_instance ::
  "ext \<Rightarrow> int \<Rightarrow> string \<Rightarrow> instance_update \<Rightarrow> db \<Rightarrow> (domain_error + instance_view) \<times> db" where
  "update_model_instance x now i r d =
     (case model_instance now d i of
        Inl e \<Rightarrow> (Inl e, d)
      | Inr v \<Rightarrow>
          if active_status (mi_status (iv_row v)) \<and> is_config_change r then
            (Inl (Conflict ''Cannot modify a running instance. Stop it first.''), d)
          else if mi_deploy_type (iv_row v) = ''local''
          then update_local_instance x now i r (iv_row v) d
          else update_external_instance x now i r (iv_row v) d)"

definition delete_model_instance :: "int \<Rightarrow> string \<Rightarrow> db \<Rightarrow> (domain_error + unit) \<times> db" where
  "delete_model_instance now i d =
     (case model_instance now d i of
        Inl e \<Rightarrow> (Inl e, d)
      | Inr v \<Rightarrow>
          if active_status (mi_status (iv_row v)) then
            (Inl (Conflict ''Cannot delete a running instance. Stop it first.''), d)
          else if rows_affected (\<lambda>r. mi_id r = i) (model_instances d) = 0 then
            (Inl (NotFound ''model instance not found''), d)
          else (Inr (), d\<lparr>model_instances := delete_where (\<lambda>r. mi_id r = i) (model_instances d)\<rparr>))"

section \<open>Tasks of a local instance\<close>

text \<open>The payload of a start, stop, check or test task.\<close>

definition ollama_payload :: "ext \<Rightarrow> instance_row \<Rightarrow> runtime_row \<Rightarrow> json \<Rightarrow> json" where
  "ollama_payload x r env params = JObj
     [(''instance_id'', JStr (mi_id r)), (''runtime_environment_id'', JStr (re_id env)),
      (''backend'', JStr (re_backend env)), (''deploy_type'', JStr (re_deploy_type env)),
      (''binary_path'', jopt (re_binary_path env)), (''working_dir'', jopt (re_working_dir env)),
      (''log_dir'', jopt (re_log_dir env)), (''base_url'', jopt (mi_base_url r)),
      (''endpoint_url'', jopt (mi_endpoint_url r)),
      (''params_json'', JStr (ext_jprint x params))]"

definition local_payload :: "ext \<Rightarrow> instance_row \<Rightarrow> runtime_row \<Rightarrow> file_row \<Rightarrow> json \<Rightarrow> json" where
  "local_payload x r env f params = JObj
     [(''instance_id'', JStr (mi_id r)), (''runtime_environment_id'', JStr (re_id env)),
      (''backend'', JStr (re_backend env)), (''deploy_type'', JStr (re_deploy_type env)),
      (''binary_path'', jopt (re_binary_path env)), (''docker_image'', jopt (re_docker_image env)),
      (''working_dir'', jopt (re_working_dir env)), (''log_dir'', jopt (re_log_dir env)),
      (''model_file_id'', JStr (mf_id f)), (''model_path'', JStr (mf_path f)),
      (''model_path_type'', jopt (mf_path_type f)), (''base_url'', jopt (mi_base_url r)),
      (''endpoint_url'', jopt (mi_endpoint_url r)),
      (''params_json'', JStr (ext_jprint x params))]"

definition instance_payload ::
  "ext \<Rightarrow> db \<Rightarrow> instance_row \<Rightarrow> runtime_row \<Rightarrow> json \<Rightarrow> domain_error + json" where
  "instance_payload x d r env params =
     (if re_backend env = ''ollama'' then Inr (ollama_payload x r env params)
      else (case mi_model_file_id r of
         None \<Rightarrow> Inl (BadRequest ''Local instance missing model file'')
       | Some fid \<Rightarrow>
           (case verified_model_file_for_instance d fid of
              Inl e \<Rightarrow> Inl e
            | Inr f \<Rightarrow> Inr (local_payload x r env f params))))"

definition add_member :: "string \<Rightarrow> json option \<Rightarrow> json \<Rightarrow> json" where
  "add_member k v p = (case v of None \<Rightarrow> p | Some w \<Rightarrow> jset p k w)"

text \<open>Everything \<open>run_local_instance_task\<close> checks and builds before it writes.\<close>

definition prepare_instance_task ::
  "ext \<Rightarrow> int \<Rightarrow> string \<Rightarrow> db \<Rightarrow> domain_error + (string \<times> json)" where
  "prepare_instance_task x now i d =
     (case model_instance now d i of
        Inl e \<Rightarrow> Inl e
      | Inr v \<Rightarrow>
     (let r = iv_row v in
      if mi_deploy_type r \<noteq> ''local'' then
        Inl (BadRequest ''External instances are not started or stopped by the platform'')
      else (case mi_node_id r of
        None \<Rightarrow> Inl (BadRequest ''Local instance missing node'')
      | Some nid \<Rightarrow>
      if \<not> node_online d now nid then
        Inl (Conflict ''Node Agent offline, cannot execute local instance task'')
      else (case mi_runtime_environment_id r of
        None \<Rightarrow> Inl (BadRequest ''Local instance missing runtime environment'')
      | Some rid \<Rightarrow>
     (case runtime_environment d rid of
        Inl e \<Rightarrow> Inl e
      | Inr env \<Rightarrow>
      if \<not> runtime_environment_usable (re_check_status env) then
        Inl (BadRequest ''Runtime environment has not passed Agent check'')
      else (case parse_instance_params x (mi_params_json r) of
        Inl e \<Rightarrow> Inl e
      | Inr params \<Rightarrow>
     (case instance_payload x d r env params of
        Inl e \<Rightarrow> Inl e
      | Inr p \<Rightarrow>
          Inr (nid, add_member ''model_name'' (map_option JStr (iv_model_definition_name v))
                      (add_member ''runtime_params'' (Option.bind (re_params_json env) (ext_jparse x))
                         p)))))))))"

definition instance_task_timed_out :: domain_error where
  "instance_task_timed_out =
     Conflict ''Local instance task timed out; confirm Agent is online and retry''"

definition instance_task_failure :: "ext \<Rightarrow> task_row \<Rightarrow> string" where
  "instance_task_failure x t =
     unwrap_or (coalesce (Option.bind (task_result x t) (\<lambda>v. get_str v ''message''))
                  (t_error_message t)) ''Local instance task failed''"

definition wait_for_model_instance_task ::
  "ext \<Rightarrow> int \<Rightarrow> string \<Rightarrow> string \<Rightarrow> (db \<Rightarrow> db) list \<Rightarrow> db \<Rightarrow> (domain_error + instance_view) \<times> db" where
  "wait_for_model_instance_task x later i tid es d =
     (case wait_task tid es d of
        (Ended t, d1) \<Rightarrow>
          ((if t_status t = ''succeeded'' then model_instance later d1 i
            else if t_status t = ''failed'' then Inl (Conflict (instance_task_failure x t))
            else Inl instance_task_timed_out), d1)
      | (DeadlinePassed, d1) \<Rightarrow>
          (case update_instance_check later i ''failed'' (Some ''local instance task timed out'')
                  (mark_task_timed_out later tid d1) of
             (Inl e, d2) \<Rightarrow> (Inl e, d2)
           | (Inr _, d2) \<Rightarrow> (Inl instance_task_timed_out, d2))
      | (RowMissing, d1) \<Rightarrow> (Inl (Internal ''no rows returned''), d1))"

definition mark_pending :: "int \<Rightarrow> string \<Rightarrow> string \<Rightarrow> db \<Rightarrow> db" where
  "mark_pending now i pending =
     set_instance i (\<lambda>r. r\<lparr>mi_status := pending, mi_last_error := None, mi_updated_at := now\<rparr>)"

definition run_local_instance_task ::
  "ext \<Rightarrow> int \<Rightarrow> int \<Rightarrow> string \<Rightarrow> (db \<Rightarrow> db) list \<Rightarrow> string \<Rightarrow> string \<Rightarrow> string \<Rightarrow> db
   \<Rightarrow> (domain_error + instance_view) \<times> db" where
  "run_local_instance_task x now later tid es i kind pending d =
     (case prepare_instance_task x now i d of
        Inl e \<Rightarrow> (Inl e, d)
      | Inr (nid, payload) \<Rightarrow>
          (case queue_task x now tid nid kind payload d of
             Inl e \<Rightarrow> (Inl (of_sql e), d)
           | Inr d1 \<Rightarrow> wait_for_model_instance_task x later i tid es (mark_pending now i pending d1)))"

definition start_model_instance ::
  "ext \<Rightarrow> int \<Rightarrow> int \<Rightarrow> string \<Rightarrow> (db \<Rightarrow> db) list \<Rightarrow> string \<Rightarrow> db
   \<Rightarrow> (domain_error + instance_view) \<times> db" where
  "start_model_instance x now later tid es i =
     run_local_instance_task x now later tid es i ''start_model_instance'' ''starting''"

definition stop_model_instance ::
  "ext \<Rightarrow> int \<Rightarrow> int \<Rightarrow> string \<Rightarrow> (db \<Rightarrow> db) list \<Rightarrow> string \<Rightarrow> db
   \<Rightarrow> (domain_error + instance_view) \<times> db" where
  "stop_model_instance x now later tid es i =
     run_local_instance_task x now later tid es i ''stop_model_instance'' ''stopping''"

section \<open>Checking and testing\<close>

text \<open>The answer to a GET request: no client, no answer, or a status code and its display text.\<close>

datatype http_reply = BuildFailed string | SendFailed string | Replied nat string

record check_result =
  cu_status :: string
  cu_message :: string

definition check_url :: "http_reply \<Rightarrow> check_result" where
  "check_url reply =
     (case reply of
        BuildFailed e \<Rightarrow> \<lparr>cu_status = ''failed'', cu_message = e\<rparr>
      | SendFailed e \<Rightarrow> \<lparr>cu_status = ''failed'', cu_message = e\<rparr>
      | Replied code text \<Rightarrow>
          \<lparr>cu_status = (if 200 \<le> code \<and> code < 400 then ''running'' else ''failed''),
           cu_message = ''HTTP '' @ text\<rparr>)"

definition check_external_instance ::
  "(string \<Rightarrow> http_reply) \<Rightarrow> int \<Rightarrow> instance_row \<Rightarrow> db \<Rightarrow> (domain_error + instance_view) \<times> db" where
  "check_external_instance http later r d =
     (case coalesce (mi_health_url r) (coalesce (mi_endpoint_url r) (mi_base_url r)) of
        None \<Rightarrow> update_instance_check later (mi_id r) ''unknown'' (Some ''no check URL configured'') d
      | Some url \<Rightarrow>
          (let res = check_url (http url) in
           update_instance_check later (mi_id r) (cu_status res)
             (if cu_status res = ''running'' then None else Some (cu_message res)) d))"

definition check_model_instance ::
  "ext \<Rightarrow> (string \<Rightarrow> http_reply) \<Rightarrow> int \<Rightarrow> int \<Rightarrow> string \<Rightarrow> (db \<Rightarrow> db) list \<Rightarrow> string \<Rightarrow> db
   \<Rightarrow> (domain_error + instance_view) \<times> db" where
  "check_model_instance x http now later tid es i d =
     (case model_instance now d i of
        Inl e \<Rightarrow> (Inl e, d)
      | Inr v \<Rightarrow>
     (let r = iv_row v in
      if mi_deploy_type r \<noteq> ''external'' then
        (if mi_status r \<noteq> ''running'' \<and> mi_backend r \<noteq> ''ollama'' then (Inr v, d)
         else (case mi_node_id r of
            None \<Rightarrow> (Inl (BadRequest ''Local instance missing node''), d)
          | Some nid \<Rightarrow>
              if \<not> node_online d now nid then
                update_instance_check now i (mi_status r)
                  (Some ''Agent offline, cannot check instance status'') d
              else run_local_instance_task x now later tid es i ''check_model_instance'' ''running'' d))
      else check_external_instance http later r d))"

definition test_model_instance ::
  "ext \<Rightarrow> (string \<Rightarrow> http_reply) \<Rightarrow> int \<Rightarrow> int \<Rightarrow> string \<Rightarrow> (db \<Rightarrow> db) list \<Rightarrow> string \<Rightarrow> db
   \<Rightarrow> (domain_error + instance_view) \<times> db" where
  "test_model_instance x http now later tid es i d =
     (case model_instance now d i of
        Inl e \<Rightarrow> (Inl e, d)
      | Inr v \<Rightarrow>
     (let r = iv_row v in
      if mi_deploy_type r = ''external'' then check_model_instance x http now later tid es i d
      else if mi_status r \<noteq> ''running'' \<and> mi_backend r \<noteq> ''ollama'' then
        (Inl (BadRequest ''Local instance is not running, cannot test''), d)
      else run_local_instance_task x now later tid es i ''test_model_instance'' ''running'' d))"

section \<open>Facts about preparing\<close>

lemma verified_file_Inr:
  "verified_model_file_for_instance d fid = Inr f \<longleftrightarrow>
     find_row (\<lambda>r. mf_id r = fid \<and> mf_deleted_at r = None) (model_files d) = Some f
     \<and> mf_status f = ''verified''"
  by (auto simp: verified_model_file_for_instance_def split: option.splits)

text \<open>
  \<open>instance_ready\<close>: what holds of the database when a task for the instance is queued.
\<close>

definition instance_ready :: "int \<Rightarrow> string \<Rightarrow> string \<Rightarrow> db \<Rightarrow> bool" where
  "instance_ready now i nid d \<longleftrightarrow>
     (\<exists>r rid env. instance_of d i = Some r \<and> mi_deploy_type r = ''local'' \<and> mi_node_id r = Some nid
        \<and> node_online d now nid \<and> mi_runtime_environment_id r = Some rid
        \<and> runtime_of d rid = Some env \<and> runtime_environment_usable (re_check_status env)
        \<and> (re_backend env = ''ollama''
           \<or> (\<exists>fid f. mi_model_file_id r = Some fid \<and> f \<in> set (model_files d) \<and> mf_id f = fid
                \<and> mf_deleted_at f = None \<and> mf_status f = ''verified'')))"

lemma instance_payload_Inr:
  "instance_payload x d r env params = Inr p \<Longrightarrow>
     re_backend env = ''ollama''
     \<or> (\<exists>fid f. mi_model_file_id r = Some fid \<and> f \<in> set (model_files d) \<and> mf_id f = fid
          \<and> mf_deleted_at f = None \<and> mf_status f = ''verified'')"
  by (auto simp: instance_payload_def verified_file_Inr split: if_splits option.splits sum.splits
      dest: find_Some_D)

lemma jget_add_member [simp]:
  "k \<noteq> k' \<Longrightarrow> is_object p \<Longrightarrow> jget (add_member k' v p) k = jget p k"
  by (cases p) (auto simp: add_member_def map_of_filter_other split: option.split)

lemma is_object_add_member [simp]: "is_object (add_member k v p) = is_object p"
  by (cases p) (auto simp: add_member_def split: option.split)

lemma instance_payload_id:
  "instance_payload x d r env params = Inr p \<Longrightarrow> is_object p \<and> get_str p ''instance_id'' = Some (mi_id r)"
  by (auto simp: instance_payload_def ollama_payload_def local_payload_def get_str_def
      split: if_splits option.splits sum.splits)

lemma prepare_Inr:
  assumes "prepare_instance_task x now i d = Inr (nid, p)"
  shows "instance_ready now i nid d" and "get_str p ''instance_id'' = Some i" and "is_object p"
proof -
  from assms obtain r rid env params p0 where
    r: "instance_of d i = Some r" "mi_deploy_type r = ''local''" "mi_node_id r = Some nid"
    "node_online d now nid" "mi_runtime_environment_id r = Some rid"
    "runtime_environment d rid = Inr env" "runtime_environment_usable (re_check_status env)"
    and p0: "instance_payload x d r env params = Inr p0"
    and p: "p = add_member ''model_name'' (map_option JStr (iv_model_definition_name (model_instance_from_row now d r)))
      (add_member ''runtime_params'' (Option.bind (re_params_json env) (ext_jparse x)) p0)"
    by (auto simp: prepare_instance_task_def Let_def model_instance_Inr
        split: sum.splits option.splits if_splits)
  from r instance_payload_Inr [OF p0] show "instance_ready now i nid d"
    unfolding instance_ready_def runtime_environment_Inr by blast
  have "mi_id r = i" using r(1) by (auto simp: instance_of_def dest: find_Some_D)
  with instance_payload_id [OF p0] show "get_str p ''instance_id'' = Some i" "is_object p"
    by (auto simp: p get_str_def)
qed

section \<open>Facts about creating, updating and deleting\<close>

lemma insert_instance_Inr:
  assumes "insert_instance now r d = (Inr v, d1)"
  shows "instance_of d1 k = (if k = mi_id r then Some r else instance_of d k)" and "iv_row v = r"
    and "instance_refs_ok d r"
proof -
  from assms obtain rows where ins: "insert_row (same_key mi_id) (instance_refs_ok d r) r (model_instances d) = Inr rows"
    and d1: "d1 = d\<lparr>model_instances := rows\<rparr>" and v: "model_instance now d1 (mi_id r) = Inr v"
    by (auto simp: insert_instance_def Let_def split: sum.splits)
  have look: "instance_of d1 k = (if k = mi_id r then Some r else instance_of d k)" for k
    unfolding instance_of_def d1 by (rule instances_tbl.lookup_insert [OF ins]) (simp add: same_key_def)
  then show "instance_of d1 k = (if k = mi_id r then Some r else instance_of d k)" .
  from v look [of "mi_id r"] show "iv_row v = r" by (auto simp: model_instance_Inr)
  from ins show "instance_refs_ok d r" by (simp add: insert_row_Inr)
qed

lemma insert_instance_tables:
  "agent_tasks (snd (insert_instance now r d)) = agent_tasks d"
  "model_files (snd (insert_instance now r d)) = model_files d"
  "runtime_environments (snd (insert_instance now r d)) = runtime_environments d"
  by (simp_all add: insert_instance_def Let_def split: sum.split)

lemma local_model_Inr:
  assumes "local_model d env params nid mfid = Inr (mid, fid)"
  shows "(re_backend env = ''ollama'' \<and> mid = None \<and> fid = None)
    \<or> (\<exists>f \<in> set (model_files d). fid = Some (mf_id f) \<and> mid = Some (mf_model_id f) \<and> mf_node_id f = nid
          \<and> mf_status f = ''verified'' \<and> mf_deleted_at f = None)"
  using assms
  by (auto simp: local_model_def verified_file_Inr split: if_splits option.splits sum.splits
      dest!: find_Some_D)

lemma create_local_Inr:
  assumes "create_local_model_instance x now i r d = (Inr v, d')"
  shows "\<exists>q env nid. instance_of d' i = Some q \<and> mi_deploy_type q = ''local'' \<and> mi_status q = ''stopped''
    \<and> mi_node_id q = Some nid \<and> mi_runtime_environment_id q = Some (re_id env)
    \<and> env \<in> set (runtime_environments d) \<and> re_node_id env = Some nid
    \<and> runtime_environment_usable (re_check_status env) \<and> mi_backend q = re_backend env
    \<and> (re_backend env = ''ollama''
       \<or> (\<exists>f \<in> set (model_files d). mi_model_file_id q = Some (mf_id f) \<and> mi_model_id q = Some (mf_model_id f)
            \<and> mf_node_id f = nid \<and> mf_status f = ''verified'' \<and> mf_deleted_at f = None))"
proof -
  from assms obtain params nid rid env mid fid where
    n: "ir_node_id r = Some nid" "ir_runtime_environment_id r = Some rid"
    "runtime_environment d rid = Inr env" "re_node_id env = Some nid"
    "runtime_environment_usable (re_check_status env)"
    and lm: "local_model d env params nid (ir_model_file_id r) = Inr (mid, fid)"
    and ins: "insert_instance now ((blank_instance now i r)\<lparr>mi_model_id := mid,
                 mi_model_file_id := fid, mi_backend := re_backend env,
                 mi_deploy_type := ''local'', mi_status := ''stopped'',
                 mi_runtime_version := re_version env\<rparr>) d = (Inr v, d')"
    by (auto simp: create_local_model_instance_def split: option.splits sum.splits if_splits)
  have env: "env \<in> set (runtime_environments d)" "re_id env = rid"
    using n(3) by (auto simp: runtime_environment_Inr runtime_of_def dest: find_Some_D)
  show ?thesis
    using insert_instance_Inr(1) [OF ins, of i] n env local_model_Inr [OF lm]
    by (auto simp: blank_instance_def)
qed

lemma update_instance_running:
  assumes "instance_of d i = Some r" and "active_status (mi_status r)" and "is_config_change q"
  shows "update_model_instance x now i q d =
    (Inl (Conflict ''Cannot modify a running instance. Stop it first.''), d)"
  using assms by (simp add: update_model_instance_def model_instance_def)

lemma delete_instance_Inr:
  assumes "delete_model_instance now i d = (Inr u, d')"
  shows "(\<exists>r. instance_of d i = Some r \<and> \<not> active_status (mi_status r)) \<and> instance_of d' i = None
    \<and> (\<forall>k. k \<noteq> i \<longrightarrow> instance_of d' k = instance_of d k)"
proof -
  from assms obtain r where r: "instance_of d i = Some r" "\<not> active_status (mi_status r)"
    and d': "d' = d\<lparr>model_instances := delete_where (\<lambda>r. mi_id r = i) (model_instances d)\<rparr>"
    by (auto simp: delete_model_instance_def model_instance_Inr split: sum.splits if_splits)
  have "instance_of d' i = None" unfolding instance_of_def d' by (rule instances_tbl.lookup_delete)
  moreover have "instance_of d' k = instance_of d k" if "k \<noteq> i" for k
    unfolding instance_of_def d' using that by (intro instances_tbl.lookup_delete_other) auto
  ultimately show ?thesis using r by blast
qed

section \<open>Facts about tasks\<close>

lemma mark_pending_simps [simp]:
  "agent_tasks (mark_pending now i s d) = agent_tasks d" "model_files (mark_pending now i s d) = model_files d"
  by (simp_all add: mark_pending_def)

lemma update_check_tasks:
  "update_instance_check now i s e d = (res, d1) \<Longrightarrow> agent_tasks d1 = agent_tasks d"
  by (auto simp: update_instance_check_def Let_def)

lemma run_task_kept:
  "queue_kept d (snd (run_local_instance_task x now later tid (map (agent_run x) es) i kind pending d))"
proof -
  have wait: "queue_kept d0 (snd (wait_for_model_instance_task x later i tid (map (agent_run x) es) d0))" for d0
  proof -
    obtain w d1 where w: "wait_task tid (map (agent_run x) es) d0 = (w, d1)" by fastforce
    have k: "queue_kept d0 d1" using kept_wait [of d0 tid x es] w by simp
    obtain res d2 where u: "update_instance_check later i ''failed''
        (Some ''local instance task timed out'') (mark_task_timed_out later tid d1) = (res, d2)" by fastforce
    from kept_trans [OF k kept_mark] update_check_tasks [OF u] have "queue_kept d0 d2" by (rule kept_then_same)
    with w k u show ?thesis
      by (cases w) (auto simp: wait_for_model_instance_task_def split: sum.split)
  qed
  have "queue_kept d (snd (wait_for_model_instance_task x later i tid (map (agent_run x) es) (mark_pending now i s d1)))"
    if "queue_task x now tid nid k p d = Inr d1" for nid k p d1 s
    using kept_then_same [OF kept_queue [OF that], of "mark_pending now i s d1"] wait
    by (auto intro: kept_trans)
  then show ?thesis by (auto simp: run_local_instance_task_def split: sum.split)
qed

interpretation instance_task: task_op
  "\<lambda>d. snd (run_local_instance_task x now later tid (map (agent_run x) es) i kind pending d)"
  for x now later tid es i kind pending
  by (rule task_op_kept) (rule run_task_kept)

text \<open>A task operation that returns a view ended with the agent's success.\<close>

lemma run_task_Inr:
  assumes "run_local_instance_task x now later tid es i kind pending d = (Inr v, d')"
  shows "(\<exists>nid. instance_ready now i nid d) \<and> instance_of d' i = Some (iv_row v)
    \<and> (\<exists>t. task_of d' tid = Some t \<and> t_status t = ''succeeded'')"
proof -
  from assms obtain nid p d1 where p: "prepare_instance_task x now i d = Inr (nid, p)"
    and q: "queue_task x now tid nid kind p d = Inr d1"
    and w: "wait_for_model_instance_task x later i tid es (mark_pending now i pending d1) = (Inr v, d')"
    by (auto simp: run_local_instance_task_def split: sum.splits)
  from w obtain t where t: "wait_task tid es (mark_pending now i pending d1) = (Ended t, d')"
    "t_status t = ''succeeded''" "model_instance later d' i = Inr v"
    by (auto simp: wait_for_model_instance_task_def split: prod.splits wait_end.splits if_splits sum.splits)
  from prepare_Inr(1) [OF p] wait_ended [OF t(1)] t(2,3) show ?thesis
    by (auto simp: model_instance_Inr)
qed

text \<open>When the deadline passes the task is closed and the instance has failed.\<close>

lemma run_task_deadline:
  assumes "prepare_instance_task x now i d = Inr (nid, p)" and "queue_task x now tid nid kind p d = Inr d1"
    and "wait_task tid es (mark_pending now i pending d1) = (DeadlinePassed, d2)"
    and "instance_of d2 i = Some r"
  shows "\<exists>d' r'. run_local_instance_task x now later tid es i kind pending d = (Inl instance_task_timed_out, d')
    \<and> instance_of d' i = Some r' \<and> mi_status r' = ''failed''
    \<and> (\<forall>t. task_of d' tid = Some t \<longrightarrow> \<not> task_open t)"
proof -
  let ?m = "mark_task_timed_out later tid d2"
  let ?d = "set_instance i (\<lambda>r. r\<lparr>mi_status := ''failed'', mi_last_checked_at := Some later,
              mi_last_error := Some ''local instance task timed out'', mi_updated_at := later\<rparr>) ?m"
  have m: "instance_of ?m i = Some r" using assms(4) by (simp add: instance_of_def)
  then have i: "instance_of ?d i = Some (r\<lparr>mi_status := ''failed'', mi_last_checked_at := Some later,
              mi_last_error := Some ''local instance task timed out'', mi_updated_at := later\<rparr>)"
    by (simp add: instance_of_set_instance)
  then have run: "run_local_instance_task x now later tid es i kind pending d = (Inl instance_task_timed_out, ?d)"
    using assms(1-3) by (simp add: run_local_instance_task_def wait_for_model_instance_task_def
        update_instance_check_def model_instance_def Let_def)
  have "task_of ?d tid = task_of ?m tid" by (rule task_of_cong) simp
  with run i marked_not_open show ?thesis by (intro exI conjI) auto
qed

section \<open>What a report does to an instance\<close>

lemma report_instance:
  assumes "task_of d tid = Some t" and "t_node_id t = tq_node_id q" and "t_kind t \<in> set instance_kinds"
    and "tq_status q \<in> {''succeeded'', ''failed''}" and "ext_jparse x (t_payload_json t) = Some p"
    and "get_str p ''instance_id'' = Some i"
  shows "record_agent_task_result x now tid q d =
    (Inr (), set_instance i (instance_after_result now (t_kind t) q) (record_task_row x now tid q d))"
proof -
  have "find_row (\<lambda>t. t_id t = tid \<and> t_node_id t = tq_node_id q) (agent_tasks d) = Some t"
  proof -
    from assms(1) have "find_row (\<lambda>t. t_id t = tid) (agent_tasks d) = Some t" by (simp add: task_of_def)
    from find_conj [OF this, of "\<lambda>t. t_node_id t = tq_node_id q"] assms(2) show ?thesis by simp
  qed
  with assms(3-6) show ?thesis
    by (auto simp: record_agent_task_result_def Let_def record_instance_result_def instance_kinds_def)
qed

lemma task_of_record_row:
  "task_of (record_task_row x now i q d) i = map_option (\<lambda>t. t\<lparr>t_status := tq_status q,
        t_result_json := Some (ext_jprint x (tq_result q)),
        t_error_message := (if tq_status q = ''failed'' then result_message q else None),
        t_completed_at := Some now, t_updated_at := now\<rparr>) (task_of d i)"
  unfolding record_task_row_def by (subst task_of_set_task) simp_all

text \<open>
  The request and the agent together: whatever the protocol did before, a success reported while
  the request still waits ends it with the instance as the report leaves it.
\<close>

lemma run_task_reported:
  assumes wf: "tasks_wf d" and rt: "json_roundtrip x" and kind: "kind \<in> set instance_kinds"
    and prep: "prepare_instance_task x now i d = Inr (nid, p)"
    and queue: "queue_task x now tid nid kind p d = Inr d1"
    and wait: "wait_task tid (map (agent_run x) es) (mark_pending now i pending d1) = (DeadlinePassed, d2)"
    and inst: "instance_of d2 i = Some r"
    and q: "tq_node_id q = nid" "tq_status q = ''succeeded''"
  shows "\<exists>v d'. run_local_instance_task x now later tid (map (agent_run x) (es @ [AgentReports n tid q])) i kind pending d
      = (Inr v, d') \<and> iv_row v = instance_after_result n kind q r"
proof -
  let ?m = "mark_pending now i pending d1"
  have wf1: "tasks_wf ?m" using queue_wf [OF wf queue] by (simp add: tasks_wf_def)
  have "task_of ?m tid = Some (new_task now tid nid kind (ext_jprint x p))"
    using task_of_queue [OF queue, of tid] task_of_cong [of ?m d1 tid] by simp
  from agent.wait_outcome [OF wf1 this wait] obtain t where t: "task_of d2 tid = Some t"
    "same_task (new_task now tid nid kind (ext_jprint x p)) t" "\<not> closed_status (t_status t)"
    by auto
  let ?d3 = "set_instance i (instance_after_result n kind q) (record_task_row x n tid q d2)"
  have pay: "ext_jparse x (t_payload_json t) = Some p"
    using t(2) rt by (simp add: same_task_def json_roundtrip_def)
  have rec: "record_agent_task_result x n tid q d2 = (Inr (), ?d3)"
    using report_instance [OF t(1) _ _ _ pay prepare_Inr(2) [OF prep], of q n] t(2) q kind
    by (simp add: same_task_def)
  have "task_of ?d3 tid = task_of (record_task_row x n tid q d2) tid" by (rule task_of_cong) simp
  with t(1) q(2) obtain t' where t': "task_of ?d3 tid = Some t'" "t_status t' = ''succeeded''"
    by (simp add: task_of_record_row)
  have "instance_of ?d3 i = Some (instance_after_result n kind q r)"
    using inst by (simp add: instance_of_set_instance instance_after_result_def Let_def)
      (simp add: instance_of_def record_task_row_def)
  moreover have "wait_task tid (map (agent_run x) (es @ [AgentReports n tid q])) ?m = (Ended t', ?d3)"
    using wait t t' rec
    by (simp add: wait_append wait_task.simps [of tid "[_]"] wait_task.simps [of tid "[]"] closed_status_def)
  ultimately show ?thesis
    using prep queue t'(2)
    by (simp add: run_local_instance_task_def wait_for_model_instance_task_def model_instance_def)
qed

end
