(* ===== verification/Users.thy ===== *)
theory Users
  imports Views
begin

text \<open>
  The accounts part of \<^verbatim>\<open>server/src/repository.rs\<close>: users, sessions and groups. Passwords and
  tokens go through the hash functions of \<open>ext\<close>; a fresh token and a fresh salt are arguments.
  The functions of this part fail with a message (\<open>anyhow::Error\<close>), so results are
  \<open>string + 'a\<close>.
\<close>

section \<open>Policies and views\<close>

record password_policy =
  pp_min_length :: nat
  pp_complexity_required :: bool
  pp_expires_days :: "int option"
  pp_force_change_after_reset :: bool

definition default_password_policy :: password_policy where
  "default_password_policy =
     \<lparr>pp_min_length = 12, pp_complexity_required = False, pp_expires_days = None,
      pp_force_change_after_reset = True\<rparr>"

record session_policy =
  sp_ttl_secs :: int
  sp_idle_timeout_secs :: "int option"
  sp_secure_cookie :: bool

definition SESSION_TTL :: int where "SESSION_TTL = 12 * 60 * 60"

definition default_session_policy :: session_policy where
  "default_session_policy =
     \<lparr>sp_ttl_secs = SESSION_TTL, sp_idle_timeout_secs = Some (2 * 60 * 60), sp_secure_cookie = True\<rparr>"

record auth_user =
  au_id :: string
  au_username :: string
  au_role :: string
  au_effective_role :: string
  au_enabled :: bool
  au_must_change_password :: bool

section \<open>Validations\<close>

definition name_char :: "string \<Rightarrow> bool" where
  "name_char c \<longleftrightarrow> is_ascii_alphanumeric c \<or> c = ''-'' \<or> c = ''_'' \<or> c = ''.''"

definition validate_username :: "string \<Rightarrow> string option" where
  "validate_username s =
     (if length (trim s) < 3 \<or> 64 < length (trim s) then Some ''username must be 3-64 characters''
      else if \<not> all_chars name_char (trim s)
      then Some (''username may only contain letters, numbers, '.', '-' and '_'' @ [CHR 0x27])
      else None)"

definition validate_group_name :: "string \<Rightarrow> string option" where
  "validate_group_name s =
     (if length (trim s) < 2 \<or> 80 < length (trim s) then Some ''group name must be 2-80 characters''
      else if any_char is_control (trim s)
      then Some ''group name must not contain control characters''
      else None)"

definition weak_password :: string where
  "weak_password = ''password does not meet the configured password policy''"

definition validate_password :: "string \<Rightarrow> password_policy \<Rightarrow> string option" where
  "validate_password p policy =
     (if length p < pp_min_length policy then Some weak_password
      else if pp_complexity_required policy
        \<and> \<not> (any_char is_ascii_lower p \<and> any_char is_ascii_upper p \<and> any_char is_ascii_digit p)
      then Some weak_password
      else None)"

definition roles :: "string list" where
  "roles = [''admin'', ''operator'', ''viewer'']"

definition validate_role :: "string \<Rightarrow> string option" where
  "validate_role r = (if r \<in> set roles then None else Some ''role must be admin, operator or viewer'')"

definition role_rank :: "string \<Rightarrow> nat" where
  "role_rank r =
     (if r = ''admin'' then 3 else if r = ''operator'' then 2 else if r = ''viewer'' then 1 else 0)"

section \<open>Reading\<close>

definition user_from_row :: "user_row \<Rightarrow> auth_user" where
  "user_from_row r =
     \<lparr>au_id = u_id r, au_username = u_username r, au_role = u_role r,
      au_effective_role = u_role r, au_enabled = u_enabled r,
      au_must_change_password = u_must_change_password r\<rparr>"

definition user_of :: "db \<Rightarrow> string \<Rightarrow> user_row option" where
  "user_of d i = find_row (\<lambda>r. u_id r = i) (users d)"

definition group_of :: "db \<Rightarrow> string \<Rightarrow> group_row option" where
  "group_of d i = find_row (\<lambda>r. ug_id r = i) (user_groups d)"

text \<open>The roles of the enabled groups a user is a member of.\<close>

definition group_roles :: "db \<Rightarrow> string \<Rightarrow> string list" where
  "group_roles d uid =
     concat (map (\<lambda>m. case group_of d (gm_group_id m) of
                    None \<Rightarrow> []
                  | Some g \<Rightarrow> if ug_enabled g then [ug_role g] else [])
       (filter (\<lambda>m. gm_user_id m = uid) (user_group_members d)))"

definition higher_role :: "string \<Rightarrow> string \<Rightarrow> string" where
  "higher_role r eff = (if role_rank eff < role_rank r then r else eff)"

definition enrich_effective_role :: "db \<Rightarrow> auth_user \<Rightarrow> auth_user" where
  "enrich_effective_role d u =
     u\<lparr>au_effective_role := fold higher_role (group_roles d (au_id u)) (au_role u)\<rparr>"

definition user_by_id :: "db \<Rightarrow> string \<Rightarrow> auth_user option" where
  "user_by_id d i = map_option (\<lambda>r. enrich_effective_role d (user_from_row r)) (user_of d i)"

definition user_count :: "db \<Rightarrow> nat" where
  "user_count d = length (users d)"

definition list_users :: "db \<Rightarrow> auth_user list" where
  "list_users d =
     map (\<lambda>r. enrich_effective_role d (user_from_row r)) (sort_key u_username (users d))"

text \<open>\<open>ok_or_else\<close> with a message.\<close>

definition or_fail :: "string \<Rightarrow> 'a option \<Rightarrow> string + 'a" where
  "or_fail m v = (case v of None \<Rightarrow> Inl m | Some y \<Rightarrow> Inr y)"

section \<open>Creating users\<close>

definition user_clash :: "user_row \<Rightarrow> user_row \<Rightarrow> bool" where
  "user_clash a b \<longleftrightarrow> u_id a = u_id b \<or> u_username a = u_username b"

definition new_user :: "ext \<Rightarrow> int \<Rightarrow> string \<Rightarrow> string \<Rightarrow> string \<Rightarrow> string \<Rightarrow> string \<Rightarrow> user_row" where
  "new_user x now i salt name password role =
     \<lparr>u_id = i, u_username = trim name, u_password_hash = ext_hash_password x salt password,
      u_role = role, u_enabled = True, u_password_changed_at = now,
      u_must_change_password = False, u_created_at = now, u_updated_at = now\<rparr>"

definition insert_user :: "user_row \<Rightarrow> db \<Rightarrow> (string + auth_user) \<times> db" where
  "insert_user r d =
     (case insert_row user_clash True r (users d) of
        Inl e \<Rightarrow> (Inl (sql_message e), d)
      | Inr us \<Rightarrow>
          (let d1 = d\<lparr>users := us\<rparr>
           in (or_fail ''created user not found'' (user_by_id d1 (u_id r)), d1)))"

definition setup_initial_admin ::
  "ext \<Rightarrow> int \<Rightarrow> string \<Rightarrow> string \<Rightarrow> string \<Rightarrow> string \<Rightarrow> password_policy \<Rightarrow> db
   \<Rightarrow> (string + auth_user) \<times> db" where
  "setup_initial_admin x now i salt name password policy d =
     (case first_error [validate_username name, validate_password password policy] of
        Some e \<Rightarrow> (Inl e, d)
      | None \<Rightarrow>
          if 0 < user_count d then (Inl ''setup already completed'', d)
          else insert_user (new_user x now i salt name password ''admin'') d)"

record user_create_request =
  uc_username :: string
  uc_password :: string
  uc_role :: string

definition create_user_with_policy ::
  "ext \<Rightarrow> int \<Rightarrow> string \<Rightarrow> string \<Rightarrow> user_create_request \<Rightarrow> password_policy \<Rightarrow> db
   \<Rightarrow> (string + auth_user) \<times> db" where
  "create_user_with_policy x now i salt r policy d =
     (case first_error [validate_username (uc_username r), validate_password (uc_password r) policy,
             validate_role (uc_role r)] of
        Some e \<Rightarrow> (Inl e, d)
      | None \<Rightarrow> insert_user (new_user x now i salt (uc_username r) (uc_password r) (uc_role r)) d)"

section \<open>Updating users\<close>

record user_update_request =
  uu_password :: "string option"
  uu_role :: "string option"
  uu_enabled :: "bool option"

definition set_user :: "string \<Rightarrow> (user_row \<Rightarrow> user_row) \<Rightarrow> db \<Rightarrow> db" where
  "set_user i f d = d\<lparr>users := update_where (\<lambda>r. u_id r = i) f (users d)\<rparr>"

definition enabled_admin :: "user_row \<Rightarrow> bool" where
  "enabled_admin r \<longleftrightarrow> u_role r = ''admin'' \<and> u_enabled r"

definition other_admins :: "db \<Rightarrow> string \<Rightarrow> nat" where
  "other_admins d i = length (filter (\<lambda>r. u_id r \<noteq> i \<and> enabled_admin r) (users d))"

text \<open>\<open>UPDATE user_sessions SET revoked_at = ? WHERE user_id = ? AND revoked_at IS NULL\<close>.\<close>

definition revoke_user_sessions :: "int \<Rightarrow> string \<Rightarrow> db \<Rightarrow> db" where
  "revoke_user_sessions now uid d =
     d\<lparr>user_sessions := update_where (\<lambda>s. us_user_id s = uid \<and> us_revoked_at s = None)
         (\<lambda>s. s\<lparr>us_revoked_at := Some now\<rparr>) (user_sessions d)\<rparr>"

definition apply_user_update ::
  "ext \<Rightarrow> int \<Rightarrow> string \<Rightarrow> string option \<Rightarrow> string \<Rightarrow> bool \<Rightarrow> user_row \<Rightarrow> user_row" where
  "apply_user_update x now salt password role enabled u =
     (case password of
        Some p \<Rightarrow> u\<lparr>u_password_hash := ext_hash_password x salt p, u_role := role,
                    u_enabled := enabled, u_password_changed_at := now,
                    u_must_change_password := True, u_updated_at := now\<rparr>
      | None \<Rightarrow> u\<lparr>u_role := role, u_enabled := enabled, u_updated_at := now\<rparr>)"

definition update_user_with_policy ::
  "ext \<Rightarrow> int \<Rightarrow> string \<Rightarrow> string \<Rightarrow> user_update_request \<Rightarrow> password_policy \<Rightarrow> db
   \<Rightarrow> (string + auth_user) \<times> db" where
  "update_user_with_policy x now salt i r policy d =
     (case first_error [Option.bind (uu_role r) validate_role,
             Option.bind (uu_password r) (\<lambda>p. validate_password p policy)] of
        Some e \<Rightarrow> (Inl e, d)
      | None \<Rightarrow>
     (case user_by_id d i of
        None \<Rightarrow> (Inl ''user not found'', d)
      | Some old \<Rightarrow>
     (let role = unwrap_or (uu_role r) (au_role old);
          enabled = unwrap_or (uu_enabled r) (au_enabled old)
      in if au_role old = ''admin'' \<and> (\<not> enabled \<or> role \<noteq> ''admin'') \<and> other_admins d i = 0 then
           (Inl ''cannot disable or demote the last enabled admin'', d)
         else
           (let d1 = set_user i (apply_user_update x now salt (uu_password r) role enabled) d;
                d2 = (if enabled then d1 else revoke_user_sessions now i d1)
            in (or_fail ''updated user not found'' (user_by_id d2 i), d2)))))"

section \<open>Sessions\<close>

definition session_clash :: "session_row \<Rightarrow> session_row \<Rightarrow> bool" where
  "session_clash a b \<longleftrightarrow> us_id a = us_id b \<or> us_token_hash a = us_token_hash b"

definition password_expired :: "password_policy \<Rightarrow> int \<Rightarrow> user_row \<Rightarrow> bool" where
  "password_expired policy now u =
     (case pp_expires_days policy of
        None \<Rightarrow> False
      | Some days \<Rightarrow> 0 < u_password_changed_at u \<and> days * 86400 < now - u_password_changed_at u)"

definition new_session :: "ext \<Rightarrow> int \<Rightarrow> string \<Rightarrow> string \<Rightarrow> string \<Rightarrow> int \<Rightarrow> session_row" where
  "new_session x now i uid token ttl =
     \<lparr>us_id = i, us_user_id = uid, us_token_hash = ext_hash_token x token, us_created_at = now,
      us_last_seen_at = now, us_expires_at = now + ttl, us_revoked_at = None\<rparr>"

definition login_user ::
  "ext \<Rightarrow> int \<Rightarrow> string \<Rightarrow> string \<Rightarrow> string \<Rightarrow> string \<Rightarrow> session_policy \<Rightarrow> password_policy \<Rightarrow> db
   \<Rightarrow> (string + (auth_user \<times> string) option) \<times> db" where
  "login_user x now sid token name password sp pp d =
     (case find_row (\<lambda>r. u_username r = trim name) (users d) of
        None \<Rightarrow> (Inr None, d)
      | Some u \<Rightarrow>
          if \<not> u_enabled u \<or> \<not> ext_verify_password x password (u_password_hash u) then (Inr None, d)
          else if password_expired pp now u then (Inr None, d)
          else (case insert_row session_clash (\<exists>q \<in> set (users d). u_id q = u_id u)
                       (new_session x now sid (u_id u) token (sp_ttl_secs sp)) (user_sessions d) of
                  Inl e \<Rightarrow> (Inl (sql_message e), d)
                | Inr ss \<Rightarrow>
                    (Inr (Some (enrich_effective_role d (user_from_row u), token)),
                     d\<lparr>user_sessions := ss\<rparr>)))"

text \<open>The session a token names and its enabled user (the join of \<open>authenticate_session\<close>).\<close>

definition live_session :: "int \<Rightarrow> db \<Rightarrow> string \<Rightarrow> (session_row \<times> user_row) option" where
  "live_session now d h =
     (case find_row (\<lambda>s. us_token_hash s = h \<and> us_revoked_at s = None \<and> now < us_expires_at s
             \<and> (case user_of d (us_user_id s) of None \<Rightarrow> False | Some u \<Rightarrow> u_enabled u))
             (user_sessions d) of
        None \<Rightarrow> None
      | Some s \<Rightarrow> map_option (\<lambda>u. (s, u)) (user_of d (us_user_id s)))"

definition set_session :: "string \<Rightarrow> (session_row \<Rightarrow> session_row) \<Rightarrow> db \<Rightarrow> db" where
  "set_session h f d =
     d\<lparr>user_sessions := update_where (\<lambda>s. us_token_hash s = h) f (user_sessions d)\<rparr>"

definition idle_too_long :: "session_policy \<Rightarrow> int \<Rightarrow> session_row \<Rightarrow> bool" where
  "idle_too_long sp now s =
     (case sp_idle_timeout_secs sp of None \<Rightarrow> False | Some idle \<Rightarrow> idle < now - us_last_seen_at s)"

definition authenticate_session ::
  "ext \<Rightarrow> int \<Rightarrow> string \<Rightarrow> session_policy \<Rightarrow> db \<Rightarrow> auth_user option \<times> db" where
  "authenticate_session x now token sp d =
     (let h = ext_hash_token x token in
      case live_session now d h of
        None \<Rightarrow> (None, d)
      | Some (s, u) \<Rightarrow>
          if idle_too_long sp now s
          then (None, set_session h (\<lambda>s. s\<lparr>us_revoked_at := Some now\<rparr>) d)
          else (let d1 = set_session h (\<lambda>s. s\<lparr>us_last_seen_at := now\<rparr>) d
                in (Some (enrich_effective_role d1 (user_from_row u)), d1)))"

definition revoke_session :: "ext \<Rightarrow> int \<Rightarrow> string \<Rightarrow> db \<Rightarrow> db" where
  "revoke_session x now token =
     set_session (ext_hash_token x token) (\<lambda>s. s\<lparr>us_revoked_at := Some now\<rparr>)"

section \<open>Passwords\<close>

definition reset_user_password ::
  "ext \<Rightarrow> int \<Rightarrow> string \<Rightarrow> string \<Rightarrow> string \<Rightarrow> password_policy \<Rightarrow> db \<Rightarrow> (string + auth_user) \<times> db" where
  "reset_user_password x now salt name password policy d =
     (case validate_password password policy of
        Some e \<Rightarrow> (Inl e, d)
      | None \<Rightarrow>
     (case find_row (\<lambda>r. u_username r = trim name) (users d) of
        None \<Rightarrow> (Inl ''user not found'', d)
      | Some u \<Rightarrow>
          (let d1 = set_user (u_id u) (\<lambda>q. q\<lparr>u_password_hash := ext_hash_password x salt password,
                      u_password_changed_at := now,
                      u_must_change_password := pp_force_change_after_reset policy,
                      u_updated_at := now\<rparr>) d;
               d2 = revoke_user_sessions now (u_id u) d1
           in (or_fail ''updated user not found'' (user_by_id d2 (u_id u)), d2))))"

definition change_user_password ::
  "ext \<Rightarrow> int \<Rightarrow> string \<Rightarrow> string \<Rightarrow> string \<Rightarrow> string \<Rightarrow> password_policy \<Rightarrow> db \<Rightarrow> (string + unit) \<times> db" where
  "change_user_password x now salt uid current new policy d =
     (case validate_password new policy of
        Some e \<Rightarrow> (Inl e, d)
      | None \<Rightarrow>
     (case find_row (\<lambda>r. u_id r = uid \<and> u_enabled r) (users d) of
        None \<Rightarrow> (Inl ''user not found'', d)
      | Some u \<Rightarrow>
          if \<not> ext_verify_password x current (u_password_hash u)
          then (Inl ''current password is incorrect'', d)
          else (Inr (), revoke_user_sessions now uid
                  (set_user uid (\<lambda>q. q\<lparr>u_password_hash := ext_hash_password x salt new,
                     u_password_changed_at := now, u_must_change_password := False,
                     u_updated_at := now\<rparr>) d))))"

section \<open>Groups\<close>

record group_view =
  gv_row :: group_row
  gv_members :: "auth_user list"

definition group_members :: "db \<Rightarrow> string \<Rightarrow> auth_user list" where
  "group_members d gid =
     map (\<lambda>u. enrich_effective_role d (user_from_row u))
       (sort_key u_username
         (List.map_filter (\<lambda>m. if gm_group_id m = gid then user_of d (gm_user_id m) else None)
            (user_group_members d)))"

definition group_view_from_row :: "db \<Rightarrow> group_row \<Rightarrow> group_view" where
  "group_view_from_row d g = \<lparr>gv_row = g, gv_members = group_members d (ug_id g)\<rparr>"

definition user_group_by_id :: "db \<Rightarrow> string \<Rightarrow> group_view option" where
  "user_group_by_id d i = map_option (group_view_from_row d) (group_of d i)"

definition list_user_groups :: "db \<Rightarrow> group_view list" where
  "list_user_groups d = map (group_view_from_row d) (sort_key ug_name (user_groups d))"

definition group_clash :: "group_row \<Rightarrow> group_row \<Rightarrow> bool" where
  "group_clash a b \<longleftrightarrow> ug_id a = ug_id b \<or> ug_name a = ug_name b"

definition create_user_group ::
  "int \<Rightarrow> string \<Rightarrow> string \<Rightarrow> string \<Rightarrow> db \<Rightarrow> (string + group_view) \<times> db" where
  "create_user_group now i name role d =
     (case first_error [validate_group_name name, validate_role role] of
        Some e \<Rightarrow> (Inl e, d)
      | None \<Rightarrow>
          (case insert_row group_clash True
                  \<lparr>ug_id = i, ug_name = trim name, ug_role = role, ug_enabled = True,
                   ug_created_at = now, ug_updated_at = now\<rparr> (user_groups d) of
             Inl e \<Rightarrow> (Inl (sql_message e), d)
           | Inr gs \<Rightarrow>
               (let d1 = d\<lparr>user_groups := gs\<rparr>
                in (or_fail ''created group not found'' (user_group_by_id d1 i), d1))))"

record group_update =
  gu_name :: "string option"
  gu_role :: "string option"
  gu_enabled :: "bool option"

text \<open>\<open>name\<close> is UNIQUE: the update fails when another group has the new name.\<close>

definition update_user_group ::
  "int \<Rightarrow> string \<Rightarrow> group_update \<Rightarrow> db \<Rightarrow> (string + group_view) \<times> db" where
  "update_user_group now i r d =
     (case user_group_by_id d i of
        None \<Rightarrow> (Inl ''group not found'', d)
      | Some old \<Rightarrow>
     (let name = unwrap_or (gu_name r) (ug_name (gv_row old));
          role = unwrap_or (gu_role r) (ug_role (gv_row old));
          enabled = unwrap_or (gu_enabled r) (ug_enabled (gv_row old))
      in case first_error [validate_group_name name, validate_role role] of
           Some e \<Rightarrow> (Inl e, d)
         | None \<Rightarrow>
             if \<exists>g \<in> set (user_groups d). ug_id g \<noteq> i \<and> ug_name g = trim name
             then (Inl (sql_message UniqueFailed), d)
             else
               (let d1 = d\<lparr>user_groups := update_where (\<lambda>g. ug_id g = i)
                      (\<lambda>g. g\<lparr>ug_name := trim name, ug_role := role, ug_enabled := enabled,
                             ug_updated_at := now\<rparr>) (user_groups d)\<rparr>
                in (or_fail ''updated group not found'' (user_group_by_id d1 i), d1))))"

text \<open>
  The members are inserted in the order of a hash set, which nothing reads back: the model uses
  the order of the first occurrences.
\<close>

definition replace_user_group_members ::
  "int \<Rightarrow> string \<Rightarrow> string list \<Rightarrow> db \<Rightarrow> (string + group_view) \<times> db" where
  "replace_user_group_members now gid ids d =
     (if user_group_by_id d gid = None then (Inl ''group not found'', d)
      else if \<exists>u \<in> set ids. user_by_id d u = None then (Inl ''user not found'', d)
      else
        (let d1 = d\<lparr>user_group_members :=
               delete_where (\<lambda>m. gm_group_id m = gid) (user_group_members d)
               @ map (\<lambda>u. \<lparr>gm_group_id = gid, gm_user_id = u, gm_created_at = now\<rparr>) (remdups ids)\<rparr>
         in (or_fail ''updated group not found'' (user_group_by_id d1 gid), d1)))"

definition delete_user_group :: "string \<Rightarrow> db \<Rightarrow> (string + unit) \<times> db" where
  "delete_user_group gid d =
     (if \<exists>m \<in> set (user_group_members d). gm_group_id m = gid then
        (Inl ''group has members; remove members before deleting'', d)
      else if rows_affected (\<lambda>g. ug_id g = gid) (user_groups d) = 0 then (Inl ''group not found'', d)
      else (Inr (), d\<lparr>user_groups := delete_where (\<lambda>g. ug_id g = gid) (user_groups d)\<rparr>))"

section \<open>What every account operation keeps\<close>

text \<open>The unique indices, and the references of sessions.\<close>

definition accounts_ok :: "db \<Rightarrow> bool" where
  "accounts_ok d \<longleftrightarrow>
     distinct (map u_id (users d)) \<and> distinct (map u_username (users d))
     \<and> distinct (map us_token_hash (user_sessions d))
     \<and> distinct (map ug_id (user_groups d)) \<and> distinct (map ug_name (user_groups d))"

definition has_admin :: "db \<Rightarrow> bool" where
  "has_admin d \<longleftrightarrow> (\<exists>r \<in> set (users d). enabled_admin r)"

definition token_dead :: "db \<Rightarrow> string \<Rightarrow> bool" where
  "token_dead d h \<longleftrightarrow> (\<exists>s \<in> set (user_sessions d). us_token_hash s = h \<and> us_revoked_at s \<noteq> None)"

definition account_step :: "db \<Rightarrow> db \<Rightarrow> bool" where
  "account_step d d' \<longleftrightarrow> accounts_ok d \<longrightarrow>
     accounts_ok d' \<and> (has_admin d \<longrightarrow> has_admin d') \<and> (\<forall>h. token_dead d h \<longrightarrow> token_dead d' h)
     \<and> user_count d \<le> user_count d'"

lemma account_step_refl [simp, intro]: "account_step d d"
  by (simp add: account_step_def)

lemma account_step_trans: "account_step a b \<Longrightarrow> account_step b c \<Longrightarrow> account_step a c"
  by (auto simp: account_step_def)

lemma account_step_same: "accounts d' = accounts d \<Longrightarrow> account_step d d'"
  by (simp add: account_step_def accounts_ok_def has_admin_def token_dead_def user_count_def accounts_def)

lemma step_insert_user: "account_step d (snd (insert_user r d))"
proof (cases "insert_row user_clash True r (users d)")
  case (Inr us)
  then have us: "us = users d @ [r]" "\<forall>q \<in> set (users d). \<not> user_clash r q" by (auto simp: insert_row_Inr)
  show ?thesis
    unfolding account_step_def insert_user_def Inr sum.case Let_def snd_conv
    using us(2) by (auto simp: us(1) accounts_ok_def has_admin_def token_dead_def user_count_def user_clash_def)
qed (simp add: insert_user_def)

lemma insert_user_admin:
  "insert_user r d = (Inr v, d') \<Longrightarrow> enabled_admin r \<Longrightarrow> has_admin d'"
  by (auto simp: insert_user_def Let_def insert_row_Inr has_admin_def split: sum.splits)

lemma step_set_sessions:
  assumes "\<And>s. us_token_hash (f s) = us_token_hash s" and "\<And>s. us_revoked_at s \<noteq> None \<Longrightarrow> us_revoked_at (f s) \<noteq> None"
  shows "account_step d (d\<lparr>user_sessions := update_where p f (user_sessions d)\<rparr>)"
proof -
  have "token_dead (d\<lparr>user_sessions := update_where p f (user_sessions d)\<rparr>) h" if "token_dead d h" for h
  proof -
    from that obtain s where s: "s \<in> set (user_sessions d)" "us_token_hash s = h" "us_revoked_at s \<noteq> None"
      by (auto simp: token_dead_def)
    let ?s = "if p s then f s else s"
    have "?s \<in> set (update_where p f (user_sessions d))" using s(1) by (auto simp: update_where_def)
    moreover have "us_token_hash ?s = h" "us_revoked_at ?s \<noteq> None" using s(2,3) assms by auto
    ultimately show ?thesis unfolding token_dead_def by auto
  qed
  then show ?thesis
    using assms(1) by (auto simp: account_step_def accounts_ok_def has_admin_def user_count_def map_update_where)
qed

lemma step_revoke_all: "account_step d (revoke_user_sessions now uid d)"
  unfolding revoke_user_sessions_def by (rule step_set_sessions) simp_all

lemma step_set_session:
  "(\<And>s. us_token_hash (f s) = us_token_hash s) \<Longrightarrow>
   (\<And>s. us_revoked_at s \<noteq> None \<Longrightarrow> us_revoked_at (f s) \<noteq> None) \<Longrightarrow> account_step d (set_session h f d)"
  unfolding set_session_def by (rule step_set_sessions)

text \<open>
  An update of one user keeps the contract when it keeps the key columns and either keeps the
  user an enabled admin, or there is another one, or he was none.
\<close>

lemma step_set_user:
  assumes keys: "\<And>u. u_id (f u) = u_id u" "\<And>u. u_username (f u) = u_username u"
    and adm: "accounts_ok d \<Longrightarrow> (\<forall>u. user_of d i = Some u \<longrightarrow> enabled_admin u \<longrightarrow> enabled_admin (f u)) \<or> other_admins d i \<noteq> 0"
  shows "account_step d (set_user i f d)"
proof -
  have "has_admin (set_user i f d)" if ok: "accounts_ok d" and has: "has_admin d"
  proof (cases "other_admins d i = 0")
    case False
    then obtain r where r: "r \<in> set (users d)" "u_id r \<noteq> i" "enabled_admin r"
      by (auto simp: other_admins_def filter_empty_conv)
    then have "r \<in> set (update_where (\<lambda>r. u_id r = i) f (users d))" by (auto simp: update_where_def)
    with r(3) show ?thesis by (auto simp: has_admin_def set_user_def)
  next
    case True
    with has obtain r where r: "r \<in> set (users d)" "u_id r = i" "enabled_admin r"
      by (auto simp: has_admin_def other_admins_def filter_empty_conv)
    have "user_of d i = Some r"
      using find_key_unique [of u_id "users d" r] ok r(1,2) by (simp add: accounts_ok_def user_of_def)
    with adm [OF ok] True r(3) have "enabled_admin (f r)" by blast
    moreover have "f r \<in> set (update_where (\<lambda>r. u_id r = i) f (users d))"
      using r(1,2) by (auto simp: update_where_def)
    ultimately show ?thesis by (auto simp: has_admin_def set_user_def)
  qed
  then show ?thesis
    using keys by (auto simp: account_step_def accounts_ok_def token_dead_def user_count_def set_user_def map_update_where)
qed

lemma step_setup: "account_step d (snd (setup_initial_admin x now i salt name pw policy d))"
  by (auto simp: setup_initial_admin_def step_insert_user split: option.split)

lemma step_create: "account_step d (snd (create_user_with_policy x now i salt r policy d))"
  by (auto simp: create_user_with_policy_def step_insert_user split: option.split)

lemma user_by_id_Some:
  "user_by_id d i = Some a \<Longrightarrow> \<exists>u. user_of d i = Some u \<and> au_role a = u_role u \<and> au_enabled a = u_enabled u"
  by (auto simp: user_by_id_def enrich_effective_role_def user_from_row_def)

lemma apply_user_update_simps [simp]:
  "u_id (apply_user_update x now salt p role en u) = u_id u"
  "u_username (apply_user_update x now salt p role en u) = u_username u"
  "u_role (apply_user_update x now salt p role en u) = role"
  "u_enabled (apply_user_update x now salt p role en u) = en"
  by (simp_all add: apply_user_update_def split: option.split)

lemma step_update: "account_step d (snd (update_user_with_policy x now salt i r policy d))"
proof (cases "first_error [Option.bind (uu_role r) validate_role,
    Option.bind (uu_password r) (\<lambda>p. validate_password p policy)] = None \<and> user_by_id d i \<noteq> None")
  case False
  then show ?thesis by (auto simp: update_user_with_policy_def split: option.split)
next
  case True
  then obtain old where old: "user_by_id d i = Some old"
    and val: "first_error [Option.bind (uu_role r) validate_role,
      Option.bind (uu_password r) (\<lambda>p. validate_password p policy)] = None" by auto
  let ?role = "unwrap_or (uu_role r) (au_role old)" and ?en = "unwrap_or (uu_enabled r) (au_enabled old)"
  let ?d1 = "set_user i (apply_user_update x now salt (uu_password r) ?role ?en) d"
  show ?thesis
  proof (cases "au_role old = ''admin'' \<and> (\<not> ?en \<or> ?role \<noteq> ''admin'') \<and> other_admins d i = 0")
    case True
    with old val show ?thesis by (auto simp: update_user_with_policy_def Let_def)
  next
    case False
    from user_by_id_Some [OF old] False have "account_step d ?d1"
      by (intro step_set_user) (auto simp: enabled_admin_def)
    then have "account_step d (if ?en then ?d1 else revoke_user_sessions now i ?d1)"
      using step_revoke_all by (auto intro: account_step_trans)
    with old val False show ?thesis by (simp add: update_user_with_policy_def Let_def)
  qed
qed

lemma step_login: "account_step d (snd (login_user x now sid token name pw sp pp d))"
proof -
  have "account_step d (d\<lparr>user_sessions := ss\<rparr>)"
    if "insert_row session_clash ok s (user_sessions d) = Inr ss" for ok s ss
    using that by (auto simp: account_step_def accounts_ok_def has_admin_def token_dead_def
        user_count_def insert_row_Inr session_clash_def)
  then show ?thesis by (auto simp: login_user_def split: option.split sum.split)
qed

lemma step_authenticate: "account_step d (snd (authenticate_session x now token sp d))"
  by (auto simp: authenticate_session_def Let_def split: option.split prod.split intro!: step_set_session)

lemma step_revoke: "account_step d (revoke_session x now token d)"
  unfolding revoke_session_def by (rule step_set_session) simp_all

lemma step_reset: "account_step d (snd (reset_user_password x now salt name pw policy d))"
proof -
  have "account_step d (revoke_user_sessions now i (set_user i (\<lambda>q. q\<lparr>u_password_hash := h,
      u_password_changed_at := now, u_must_change_password := m, u_updated_at := now\<rparr>) d))" for i h m
    using step_set_user step_revoke_all by (rule account_step_trans) (simp_all add: enabled_admin_def)
  then show ?thesis by (auto simp: reset_user_password_def Let_def split: option.split)
qed

lemma step_change: "account_step d (snd (change_user_password x now salt uid cur new policy d))"
proof -
  have "account_step d (revoke_user_sessions now i (set_user i (\<lambda>q. q\<lparr>u_password_hash := h,
      u_password_changed_at := now, u_must_change_password := m, u_updated_at := now\<rparr>) d))" for i h m
    using step_set_user step_revoke_all by (rule account_step_trans) (simp_all add: enabled_admin_def)
  then show ?thesis by (auto simp: change_user_password_def split: option.split)
qed

lemma step_groups:
  "accounts_ok d \<Longrightarrow> distinct (map ug_id gs) \<Longrightarrow> distinct (map ug_name gs) \<Longrightarrow>
     account_step d (d\<lparr>user_groups := gs\<rparr>)"
  by (simp add: account_step_def accounts_ok_def has_admin_def token_dead_def user_count_def)

lemma step_not_ok: "\<not> accounts_ok d \<Longrightarrow> account_step d d'"
  by (simp add: account_step_def)

lemma step_create_group: "account_step d (snd (create_user_group now i name role d))"
proof (cases "accounts_ok d")
  case True
  then show ?thesis
    by (auto simp: create_user_group_def Let_def insert_row_Inr group_clash_def
        split: option.split sum.split intro!: step_groups) (auto simp: accounts_ok_def)
qed (rule step_not_ok)

lemma step_update_group: "account_step d (snd (update_user_group now i r d))"
proof (cases "accounts_ok d")
  case True
  have "account_step d (d\<lparr>user_groups := update_where (\<lambda>g. ug_id g = i)
       (\<lambda>g. g\<lparr>ug_name := n, ug_role := role, ug_enabled := en, ug_updated_at := now\<rparr>) (user_groups d)\<rparr>)"
    if "\<not> (\<exists>g \<in> set (user_groups d). ug_id g \<noteq> i \<and> ug_name g = n)" for n role en
    using True that by (intro step_groups distinct_rename [where n = n and j = ug_id and k = ug_name]) (auto simp: accounts_ok_def map_update_where)
  then show ?thesis by (auto simp: update_user_group_def Let_def split: option.split)
qed (rule step_not_ok)

lemma step_members: "account_step d (d\<lparr>user_group_members := ms\<rparr>)"
  by (simp add: account_step_def accounts_ok_def has_admin_def token_dead_def user_count_def)

lemma step_replace_members: "account_step d (snd (replace_user_group_members now gid ids d))"
  by (auto simp: replace_user_group_members_def Let_def intro: step_members)

lemma step_delete_group: "account_step d (snd (delete_user_group gid d))"
proof (cases "accounts_ok d")
  case True
  then show ?thesis
    by (auto simp: delete_user_group_def delete_where_def accounts_ok_def distinct_map inj_on_def
        intro!: step_groups)
qed (rule step_not_ok)

section \<open>The account operations together\<close>

datatype account_event =
    SetupAdmin int string string string string password_policy
  | CreateUser int string string user_create_request password_policy
  | UpdateUser int string string user_update_request password_policy
  | Login int string string string string session_policy password_policy
  | Authenticate int string session_policy
  | RevokeSession int string
  | ResetPassword int string string string password_policy
  | ChangePassword int string string string string password_policy
  | CreateGroup int string string string
  | UpdateGroup int string group_update
  | ReplaceMembers int string "string list"
  | DeleteGroup string

fun account_run :: "ext \<Rightarrow> account_event \<Rightarrow> db \<Rightarrow> db" where
  "account_run x (SetupAdmin now i salt name pw p) d = snd (setup_initial_admin x now i salt name pw p d)"
| "account_run x (CreateUser now i salt r p) d = snd (create_user_with_policy x now i salt r p d)"
| "account_run x (UpdateUser now salt i r p) d = snd (update_user_with_policy x now salt i r p d)"
| "account_run x (Login now sid token name pw sp pp) d = snd (login_user x now sid token name pw sp pp d)"
| "account_run x (Authenticate now token sp) d = snd (authenticate_session x now token sp d)"
| "account_run x (RevokeSession now token) d = revoke_session x now token d"
| "account_run x (ResetPassword now salt name pw p) d = snd (reset_user_password x now salt name pw p d)"
| "account_run x (ChangePassword now salt uid cur new p) d =
     snd (change_user_password x now salt uid cur new p d)"
| "account_run x (CreateGroup now i name role) d = snd (create_user_group now i name role d)"
| "account_run x (UpdateGroup now i r) d = snd (update_user_group now i r d)"
| "account_run x (ReplaceMembers now gid ids) d = snd (replace_user_group_members now gid ids d)"
| "account_run x (DeleteGroup gid) d = snd (delete_user_group gid d)"

locale account_ops =
  fixes run :: "'e \<Rightarrow> db \<Rightarrow> db"
  assumes step: "account_step d (run e d)"
begin

lemma fold_step: "account_step d (fold run es d)"
  by (induction es arbitrary: d) (auto intro: account_step_trans step)

lemma fold_ok: "accounts_ok d \<Longrightarrow> accounts_ok (fold run es d)"
  using fold_step by (simp add: account_step_def)

lemma fold_admin: "accounts_ok d \<Longrightarrow> has_admin d \<Longrightarrow> has_admin (fold run es d)"
  using fold_step by (simp add: account_step_def)

lemma fold_dead: "accounts_ok d \<Longrightarrow> token_dead d h \<Longrightarrow> token_dead (fold run es d) h"
  using fold_step by (simp add: account_step_def)

lemma fold_count: "accounts_ok d \<Longrightarrow> user_count d \<le> user_count (fold run es d)"
  using fold_step by (simp add: account_step_def)

end

interpretation accounts: account_ops "account_run x" for x
proof unfold_locales
  fix d e
  show "account_step d (account_run x e d)"
    by (cases e) (simp_all add: step_setup step_create step_update step_login step_authenticate step_revoke
        step_reset step_change step_create_group step_update_group step_replace_members step_delete_group)
qed

section \<open>Sessions\<close>

lemma dead_not_live:
  assumes "accounts_ok d" and "token_dead d h"
  shows "live_session now d h = None"
proof -
  obtain s where s: "s \<in> set (user_sessions d)" "us_token_hash s = h" "us_revoked_at s \<noteq> None"
    using assms(2) by (auto simp: token_dead_def)
  have none: "\<not> (us_token_hash q = h \<and> us_revoked_at q = None \<and> r)" if "q \<in> set (user_sessions d)" for q r
  proof
    assume "us_token_hash q = h \<and> us_revoked_at q = None \<and> r"
    moreover from this have "q = s"
      using distinct_key_eq [of us_token_hash "user_sessions d" s q] assms(1) that s(1,2)
      by (simp add: accounts_ok_def)
    ultimately show False using s(3) by simp
  qed
  have "find_row (\<lambda>s. us_token_hash s = h \<and> us_revoked_at s = None \<and> now < us_expires_at s
      \<and> (case user_of d (us_user_id s) of None \<Rightarrow> False | Some u \<Rightarrow> u_enabled u)) (user_sessions d) = None"
    using none by (auto simp: find_None_iff)
  then show ?thesis by (simp add: live_session_def)
qed

lemma live_session_Some:
  assumes "live_session now d h = Some (s, u)"
  shows "s \<in> set (user_sessions d) \<and> us_token_hash s = h \<and> us_revoked_at s = None
    \<and> now < us_expires_at s \<and> user_of d (us_user_id s) = Some u \<and> u_enabled u"
  using assms by (auto simp: live_session_def split: option.splits dest!: find_Some_D)

lemma authenticate_Some:
  assumes "authenticate_session x now token sp d = (Some a, d')"
  shows "\<exists>s u. s \<in> set (user_sessions d) \<and> us_token_hash s = ext_hash_token x token
    \<and> us_revoked_at s = None \<and> now < us_expires_at s \<and> \<not> idle_too_long sp now s
    \<and> user_of d (us_user_id s) = Some u \<and> u_enabled u \<and> au_id a = u_id u \<and> au_role a = u_role u"
proof -
  from assms obtain s u where "live_session now d (ext_hash_token x token) = Some (s, u)"
    "\<not> idle_too_long sp now s" "au_id a = u_id u" "au_role a = u_role u"
    by (auto simp: authenticate_session_def Let_def enrich_effective_role_def user_from_row_def
        split: option.splits if_splits)
  with live_session_Some show ?thesis by blast
qed

lemma authenticate_dead:
  "accounts_ok d \<Longrightarrow> token_dead d (ext_hash_token x token) \<Longrightarrow>
     authenticate_session x now token sp d = (None, d)"
  by (simp add: authenticate_session_def dead_not_live)

lemma token_deadI:
  "s \<in> set (user_sessions d) \<Longrightarrow> us_revoked_at s \<noteq> None \<Longrightarrow> token_dead d (us_token_hash s)"
  by (auto simp: token_dead_def)

lemma revoke_dead:
  assumes "s \<in> set (user_sessions d)" and "us_token_hash s = ext_hash_token x token"
  shows "token_dead (revoke_session x now token d) (ext_hash_token x token)"
proof -
  have "s\<lparr>us_revoked_at := Some now\<rparr> \<in> set (user_sessions (revoke_session x now token d))"
    using assms by (auto simp: revoke_session_def set_session_def update_where_def)
  from token_deadI [OF this] assms(2) show ?thesis by simp
qed

lemma revoke_all_dead:
  assumes "s \<in> set (user_sessions d)" and "us_user_id s = uid"
  shows "token_dead (revoke_user_sessions now uid d) (us_token_hash s)"
proof -
  have "(if us_user_id s = uid \<and> us_revoked_at s = None then s\<lparr>us_revoked_at := Some now\<rparr> else s)
      \<in> set (user_sessions (revoke_user_sessions now uid d))"
    using assms by (auto simp: revoke_user_sessions_def update_where_def)
  from token_deadI [OF this] assms(2) show ?thesis by (cases "us_revoked_at s") simp_all
qed

text \<open>The three operations that lock a user out of all his sessions.\<close>

lemma disable_kills_sessions:
  assumes "update_user_with_policy x now salt i r policy d = (Inr a, d')" and "uu_enabled r = Some False"
    and "s \<in> set (user_sessions d)" and "us_user_id s = i"
  shows "token_dead d' (us_token_hash s)"
  using assms by (auto simp: update_user_with_policy_def Let_def set_user_def
      split: option.splits if_splits intro: revoke_all_dead)

lemma reset_kills_sessions:
  assumes "reset_user_password x now salt name pw policy d = (Inr a, d')"
    and "s \<in> set (user_sessions d)" and "us_user_id s = au_id a"
  shows "token_dead d' (us_token_hash s)"
proof -
  from assms(1) obtain u where u: "find_row (\<lambda>r. u_username r = trim name) (users d) = Some u"
    by (auto simp: reset_user_password_def split: option.splits)
  with assms(1) have d': "user_by_id d' (u_id u) = Some a"
    "d' = revoke_user_sessions now (u_id u) (set_user (u_id u) (\<lambda>q. q\<lparr>u_password_hash := ext_hash_password x salt pw,
                      u_password_changed_at := now,
                      u_must_change_password := pp_force_change_after_reset policy,
                      u_updated_at := now\<rparr>) d)"
    by (auto simp: reset_user_password_def Let_def or_fail_def split: option.splits)
  from d'(1) have "au_id a = u_id u"
    by (auto simp: user_by_id_def enrich_effective_role_def user_from_row_def user_of_def dest: find_Some_D)
  with assms(2,3) show ?thesis unfolding d'(2) by (intro revoke_all_dead) (simp_all add: set_user_def)
qed

lemma change_kills_sessions:
  assumes "change_user_password x now salt uid cur new policy d = (Inr a, d')"
    and "s \<in> set (user_sessions d)" and "us_user_id s = uid"
  shows "token_dead d' (us_token_hash s)"
  using assms by (auto simp: change_user_password_def set_user_def
      split: option.splits if_splits intro: revoke_all_dead)

lemma change_needs_password:
  assumes "change_user_password x now salt uid cur new policy d = (Inr a, d')"
  shows "\<exists>u \<in> set (users d). u_id u = uid \<and> u_enabled u \<and> ext_verify_password x cur (u_password_hash u)"
  using assms by (auto simp: change_user_password_def split: option.splits if_splits dest!: find_Some_D)

text \<open>A login is followed by authentication until the session expires or idles.\<close>

lemma login_Some:
  assumes "login_user x now sid token name pw sp pp d = (Inr (Some (a, t)), d')"
  shows "\<exists>u. u \<in> set (users d) \<and> u_username u = trim name \<and> u_enabled u
      \<and> ext_verify_password x pw (u_password_hash u) \<and> \<not> password_expired pp now u \<and> t = token
      \<and> au_id a = u_id u
      \<and> insert_row session_clash (\<exists>q \<in> set (users d). u_id q = u_id u)
          (new_session x now sid (u_id u) token (sp_ttl_secs sp)) (user_sessions d) = Inr (user_sessions d')
      \<and> users d' = users d \<and> user_groups d' = user_groups d \<and> user_group_members d' = user_group_members d"
  using assms
  by (auto simp: login_user_def enrich_effective_role_def user_from_row_def
      split: option.splits if_splits sum.splits dest!: find_Some_D)

lemma login_authenticates:
  assumes ok: "accounts_ok d" and login: "login_user x now sid token name pw sp pp d = (Inr (Some (a, t)), d')"
    and "later < now + sp_ttl_secs sp" and "case sp_idle_timeout_secs sp of None \<Rightarrow> True | Some i \<Rightarrow> later - now \<le> i"
  shows "\<exists>b. fst (authenticate_session x later t sp d') = Some b \<and> au_id b = au_id a"
proof -
  from login_Some [OF login] obtain u where u: "u \<in> set (users d)" "u_enabled u" "t = token" "au_id a = u_id u"
    and ss: "user_sessions d' = user_sessions d @ [new_session x now sid (u_id u) token (sp_ttl_secs sp)]"
    "\<forall>q \<in> set (user_sessions d). \<not> session_clash (new_session x now sid (u_id u) token (sp_ttl_secs sp)) q"
    and us: "users d' = users d"
    by (auto simp: insert_row_Inr)
  let ?s = "new_session x now sid (u_id u) token (sp_ttl_secs sp)"
  have uo: "user_of d' (u_id u) = Some u"
    using find_key_unique [of u_id "users d" u] ok u(1) by (simp add: user_of_def us accounts_ok_def)
  have fresh: "us_token_hash q \<noteq> ext_hash_token x token" if "q \<in> set (user_sessions d)" for q
    using ss(2) that by (auto simp: session_clash_def new_session_def)
  have "find_row (\<lambda>s. us_token_hash s = ext_hash_token x token \<and> us_revoked_at s = None \<and> later < us_expires_at s
      \<and> (case user_of d' (us_user_id s) of None \<Rightarrow> False | Some u \<Rightarrow> u_enabled u)) (user_sessions d') = Some ?s"
    unfolding ss(1) using fresh uo u(2) assms(3)
    by (auto simp: find_append new_session_def find_None_iff split: option.split dest!: find_Some_D)
  then have "live_session later d' (ext_hash_token x token) = Some (?s, u)"
    by (simp add: live_session_def uo new_session_def)
  moreover have "\<not> idle_too_long sp later ?s"
    using assms(4) by (auto simp: idle_too_long_def new_session_def split: option.splits)
  ultimately show ?thesis
    using u(3,4) by (simp add: authenticate_session_def Let_def enrich_effective_role_def user_from_row_def)
qed

section \<open>Roles\<close>

text \<open>The effective role is one of the candidates, and none of them ranks higher.\<close>

lemma fold_higher_role:
  "fold higher_role rs e \<in> insert e (set rs) \<and> role_rank e \<le> role_rank (fold higher_role rs e)
   \<and> (\<forall>r \<in> set rs. role_rank r \<le> role_rank (fold higher_role rs e))"
proof (induction rs arbitrary: e)
  case (Cons r rs)
  have h: "higher_role r e \<in> {r, e}" "role_rank e \<le> role_rank (higher_role r e)" "role_rank r \<le> role_rank (higher_role r e)"
    by (auto simp: higher_role_def)
  with Cons.IH [of "higher_role r e"] show ?case by (auto intro: order_trans)
qed simp

lemma setup_twice:
  "user_count d \<noteq> 0 \<Longrightarrow> fst (setup_initial_admin x now i salt name pw policy d) \<noteq> Inr v
     \<and> snd (setup_initial_admin x now i salt name pw policy d) = d"
  by (auto simp: setup_initial_admin_def split: option.split)

lemma setup_Inr:
  assumes "setup_initial_admin x now i salt name pw policy d = (Inr v, d')"
  shows "has_admin d' \<and> users d = [] \<and> user_count d' = 1"
  using assms
  by (auto simp: setup_initial_admin_def user_count_def insert_user_def insert_row_Inr Let_def has_admin_def
      new_user_def enabled_admin_def split: option.splits if_splits sum.splits)

end
