(* ===== verification/Calendar.thy ===== *)
theory Calendar
  imports Prelude "HOL-Library.Signed_Division"
begin

text \<open>
  The calendar arithmetic of \<^verbatim>\<open>server/src/platform_log.rs\<close> (the same code is in
  \<^verbatim>\<open>agent/src/platform_log.rs\<close>): \<open>civil_from_days\<close> turns a day number since 1970-01-01 into
  year, month and day. The intermediate values are \<open>u32\<close> in the code and stay in range
  (\<open>civil_ranges\<close>), so they are integers here; Rust's division truncates (\<open>sdiv\<close>). The theorem
  is that consecutive day numbers give consecutive dates of the Gregorian calendar.
\<close>

definition day_of_era :: "int \<Rightarrow> int" where
  "day_of_era z = z - ((if 0 \<le> z then z else z - 146096) sdiv 146097) * 146097"

definition year_of_era :: "int \<Rightarrow> int" where
  "year_of_era doe = (doe - doe div 1460 + doe div 36524 - doe div 146096) div 365"

definition year_start :: "int \<Rightarrow> int" where
  "year_start yoe = 365 * yoe + yoe div 4 - yoe div 100"

definition month_index :: "int \<Rightarrow> int" where
  "month_index doy = (5 * doy + 2) div 153"

definition civil_from_days :: "int \<Rightarrow> int \<times> int \<times> int" where
  "civil_from_days days =
     (let z = days + 719468;
          era = (if 0 \<le> z then z else z - 146096) sdiv 146097;
          doe = day_of_era z;
          yoe = year_of_era doe;
          y = yoe + era * 400;
          doy = doe - year_start yoe;
          mp = month_index doy;
          d = doy - (153 * mp + 2) div 5 + 1;
          m = (if mp < 10 then mp + 3 else mp - 9)
      in (if m \<le> 2 then y + 1 else y, m, d))"

section \<open>The reference\<close>

definition leap_year :: "int \<Rightarrow> bool" where
  "leap_year y \<longleftrightarrow> 4 dvd y \<and> (\<not> 100 dvd y \<or> 400 dvd y)"

definition month_length :: "int \<Rightarrow> int \<Rightarrow> int" where
  "month_length y m =
     (if m = 2 then (if leap_year y then 29 else 28)
      else if m \<in> {4, 6, 9, 11} then 30 else 31)"

fun next_day :: "int \<times> int \<times> int \<Rightarrow> int \<times> int \<times> int" where
  "next_day (y, m, d) =
     (if d < month_length y m then (y, m, d + 1)
      else if m < 12 then (y, m + 1, 1) else (y + 1, 1, 1))"

section \<open>Eras\<close>

lemma div_of_minus: "0 < k \<Longrightarrow> (- w) div k = - ((w + (k - 1)) div (k::int))"
proof (rule int_div_pos_eq [where r = "k - 1 - (w + (k - 1)) mod k"])
  assume k: "0 < k"
  have e: "(w + (k - 1)) div k * k + (w + (k - 1)) mod k = w + (k - 1)" by (rule div_mult_mod_eq)
  then show "- w = k * - ((w + (k - 1)) div k) + (k - 1 - (w + (k - 1)) mod k)" by (simp add: algebra_simps)
  show "0 \<le> k - 1 - (w + (k - 1)) mod k" using pos_mod_bound [OF k, of "w + (k - 1)"] by linarith
  show "k - 1 - (w + (k - 1)) mod k < k" using pos_mod_sign [OF k, of "w + (k - 1)"] by linarith
qed

lemma era_div: "(if 0 \<le> z then z else z - 146096) sdiv 146097 = z div (146097::int)"
proof (cases "0 \<le> z")
  case True
  then show ?thesis by (simp add: signed_divide_int_def sgn_if)
next
  case False
  define w where "w = - z"
  from False have w: "0 < w" "z = - w" by (simp_all add: w_def)
  have "(z - 146096) sdiv 146097 = - ((w + 146096) div 146097)"
    using w by (simp add: signed_divide_int_def sgn_if)
  also have "\<dots> = z div 146097" using div_of_minus [of 146097 w] w(2) by simp
  finally show ?thesis using False by simp
qed

lemma day_of_era_mod: "day_of_era z = z mod 146097"
  unfolding day_of_era_def era_div by (simp add: minus_div_mult_eq_mod)

section \<open>Years of an era\<close>

text \<open>The day count from which the year is divided out grows with the day.\<close>

definition short_days :: "int \<Rightarrow> int" where
  "short_days doe = doe - doe div 1460 + doe div 36524 - doe div 146096"

lemma year_of_era_short: "year_of_era doe = short_days doe div 365"
  by (simp add: year_of_era_def short_days_def)

lemma minus_div_mono:
  assumes "0 < k" and "a \<le> b" shows "a - a div k \<le> b - b div (k::int)"
proof -
  have "(b - a) * 1 \<le> (b - a) * k" using assms by (intro mult_left_mono) simp_all
  then have "b div k \<le> (a + (b - a) * k) div k" using assms(1) by (intro zdiv_mono1) simp_all
  also have "\<dots> = a div k + (b - a)" using assms(1) by simp
  finally show ?thesis by linarith
qed

lemma short_days_mono:
  assumes "a \<le> b" shows "short_days a \<le> short_days b"
proof -
  have q: "x div 146096 = x div 36524 div 4" for x :: int by (simp add: div_mult2_eq [symmetric])
  have "a div 36524 \<le> b div 36524" using assms by (simp add: zdiv_mono1)
  from minus_div_mono [OF _ this, of 4] minus_div_mono [OF _ assms, of 1460]
  show ?thesis by (simp add: short_days_def q)
qed

definition year_end :: "int \<Rightarrow> int" where
  "year_end y = (if y = 399 then 146096 else year_start (y + 1) - 1)"

text \<open>What has to be checked of each of the 400 years, and of each day of a year.\<close>

definition year_ok :: "int \<Rightarrow> bool" where
  "year_ok y \<longleftrightarrow> 365 * y \<le> short_days (year_start y) \<and> short_days (year_end y) < 365 * (y + 1)
     \<and> year_end y - year_start y = (if leap_year (y + 1) then 365 else 364)"

lemma years_ok: "\<forall>y \<in> set [0..399]. year_ok y"
  by code_simp

lemma year_ok: "0 \<le> y \<Longrightarrow> y \<le> 399 \<Longrightarrow> year_ok y"
  using years_ok by simp

lemma year_of_era_in:
  assumes "0 \<le> y" and "y \<le> 399" and "year_start y \<le> doe" and "doe \<le> year_end y"
  shows "year_of_era doe = y"
proof -
  have "365 * y \<le> short_days doe" "short_days doe < 365 * (y + 1)"
    using year_ok [OF assms(1,2)] short_days_mono [OF assms(3)] short_days_mono [OF assms(4)]
    by (simp_all add: year_ok_def)
  then show ?thesis
    unfolding year_of_era_short by (intro int_div_pos_eq [where r = "short_days doe - 365 * y"]) simp_all
qed

lemma year_exists:
  assumes "0 \<le> doe" and "n \<le> 399" and "doe \<le> year_end (int n)"
  shows "\<exists>y. 0 \<le> y \<and> y \<le> 399 \<and> year_start y \<le> doe \<and> doe \<le> year_end y"
  using assms(2,3)
proof (induction n)
  case 0
  with assms(1) show ?case by (intro exI [of _ 0]) (simp add: year_start_def)
next
  case (Suc n)
  show ?case
  proof (cases "doe \<le> year_end (int n)")
    case True
    with Suc show ?thesis by simp
  next
    case False
    with Suc.prems have "year_start (int n + 1) \<le> doe" by (simp add: year_end_def)
    with Suc.prems show ?thesis by (intro exI [of _ "int n + 1"]) (simp add: add.commute)
  qed
qed

section \<open>Days of a year\<close>

definition month_day :: "int \<Rightarrow> int \<times> int" where
  "month_day doy =
     (let mp = month_index doy
      in (if mp < 10 then mp + 3 else mp - 9, doy - (153 * mp + 2) div 5 + 1))"

text \<open>The next month and day, and whether the year changes.\<close>

fun next_month_day :: "bool \<Rightarrow> int \<times> int \<Rightarrow> (int \<times> int) \<times> bool" where
  "next_month_day leap (m, d) =
     (if d < (if m = 2 then (if leap then 29 else 28) else if m \<in> {4, 6, 9, 11} then 30 else 31)
      then ((m, d + 1), False)
      else if m < 12 then ((m + 1, 1), False) else ((1, 1), True))"

definition day_ok :: "int \<Rightarrow> bool" where
  "day_ok doy \<longleftrightarrow> (\<forall>leap \<in> {True, False}. doy < 364 \<or> leap \<longrightarrow>
     next_month_day leap (month_day doy) = (month_day (doy + 1), doy = 305))
     \<and> (fst (month_day doy) \<le> 2 \<longleftrightarrow> 306 \<le> doy)"

lemma days_ok: "\<forall>doy \<in> set [0..364]. day_ok doy"
  by code_simp

lemma day_ok: "0 \<le> doy \<Longrightarrow> doy \<le> 364 \<Longrightarrow> day_ok doy"
  using days_ok by simp

definition civil :: "int \<Rightarrow> int \<Rightarrow> int \<times> int \<times> int" where
  "civil y doy = (if fst (month_day doy) \<le> 2 then y + 1 else y, month_day doy)"

lemma month_day_ends: "month_day 0 = (3, 1)" "month_day 364 = (2, 28)" "month_day 365 = (2, 29)"
  by code_simp+

lemma next_day_split:
  "next_day (y, md) = (case next_month_day (leap_year y) md of
     (md', carry) \<Rightarrow> (if carry then y + 1 else y, md'))"
  by (cases md) (simp add: month_length_def)

lemma civil_step:
  assumes "0 \<le> doy" and "doy \<le> 364" and "doy = 364 \<longrightarrow> leap_year (y + 1)"
  shows "next_day (civil y doy) = civil y (doy + 1)"
proof -
  note ok = day_ok [OF assms(1,2), unfolded day_ok_def]
  have early: "fst (month_day (doy + 1)) \<le> 2 \<longleftrightarrow> 306 \<le> doy + 1"
  proof (cases "doy = 364")
    case True
    then show ?thesis by (simp add: month_day_ends)
  next
    case False
    with day_ok [of "doy + 1"] assms(1,2) show ?thesis by (simp add: day_ok_def)
  qed
  let ?y = "if fst (month_day doy) \<le> 2 then y + 1 else y"
  have "doy < 364 \<or> leap_year ?y" using assms(2,3) ok by auto
  then have "next_month_day (leap_year ?y) (month_day doy) = (month_day (doy + 1), doy = 305)"
    using ok by (cases "leap_year ?y") simp_all
  with early ok show ?thesis by (auto simp: civil_def next_day_split)
qed

lemma civil_wrap:
  assumes "doy = (if leap_year (y + 1) then 365 else 364)"
  shows "next_day (civil y doy) = civil (y + 1) 0"
  using assms by (auto simp: civil_def month_day_ends month_length_def)

section \<open>The code\<close>

lemma leap_year_era: "leap_year (y + 400 * e) = leap_year y"
proof -
  have "k dvd y + 400 * e \<longleftrightarrow> k dvd y" if "k dvd 400" for k
    by (rule dvd_add_left_iff) (rule dvd_mult2 [OF that])
  from this [of 4] this [of 100] this [of 400] show ?thesis by (simp add: leap_year_def)
qed

lemma div_mod_succ:
  assumes "0 < k" and "x mod k + 1 < (k::int)"
  shows "(x + 1) mod k = x mod k + 1" and "(x + 1) div k = x div k"
proof -
  have "x + 1 = k * (x div k) + (x mod k + 1)" using div_mult_mod_eq [of x k] by (simp add: algebra_simps)
  moreover have "0 \<le> x mod k + 1" using pos_mod_sign [OF assms(1), of x] by linarith
  ultimately show "(x + 1) mod k = x mod k + 1" "(x + 1) div k = x div k"
    using assms(2) by (blast intro: int_mod_pos_eq int_div_pos_eq)+
qed

lemma div_mod_succ_wrap:
  assumes "0 < k" and "x mod k = (k::int) - 1"
  shows "(x + 1) mod k = 0" and "(x + 1) div k = x div k + 1"
proof -
  have "x + 1 = k * (x div k + 1) + 0" using div_mult_mod_eq [of x k] assms(2) by (simp add: algebra_simps)
  with assms(1) show "(x + 1) mod k = 0" "(x + 1) div k = x div k + 1"
    by (blast intro: int_mod_pos_eq int_div_pos_eq)+
qed

lemma civil_from_days_civil:
  assumes "0 \<le> y" and "y \<le> 399" and "year_start y \<le> doe" and "doe \<le> year_end y"
    and "(days + 719468) mod 146097 = doe" and "(days + 719468) div 146097 = era"
  shows "civil_from_days days = civil (y + 400 * era) (doe - year_start y)"
  using year_of_era_in [OF assms(1-4)] assms(5,6)
  by (simp add: civil_from_days_def era_div day_of_era_mod Let_def civil_def month_day_def algebra_simps)

lemma civil_from_days_next: "civil_from_days (days + 1) = next_day (civil_from_days days)"
proof -
  define doe where "doe = (days + 719468) mod 146097"
  define era where "era = (days + 719468) div 146097"
  have "0 \<le> doe" "doe \<le> year_end (int 399)" by (simp_all add: doe_def year_end_def)
  then obtain y where y: "0 \<le> y" "y \<le> 399" "year_start y \<le> doe" "doe \<le> year_end y"
    using year_exists [of doe 399] by blast
  note now = civil_from_days_civil [OF y doe_def [symmetric] era_def [symmetric]]
  have len: "year_end y - year_start y = (if leap_year (y + 400 * era + 1) then 365 else 364)"
    using year_ok [OF y(1,2)] leap_year_era [of "y + 1" era]
    by (simp add: year_ok_def algebra_simps)
  show ?thesis
  proof (cases "doe = year_end y")
    case False
    with y have y': "year_start y \<le> doe + 1" "doe + 1 \<le> year_end y" by simp_all
    have "doe + 1 < 146097" using y'(2) y(1,2) year_ok [of 399]
      by (cases "y = 399") (auto simp: year_end_def year_start_def)
    then have "(days + 1 + 719468) mod 146097 = doe + 1" "(days + 1 + 719468) div 146097 = era"
      using div_mod_succ [of 146097 "days + 719468"] by (simp_all add: doe_def era_def add_ac)
    from civil_from_days_civil [OF y(1,2) y' this] y' len y(3) False show ?thesis
      unfolding now by (subst civil_step) (auto simp: algebra_simps split: if_splits)
  next
    case True
    with len have wrap: "next_day (civil_from_days days) = civil (y + 400 * era + 1) 0"
      unfolding now by (intro civil_wrap) simp
    show ?thesis
    proof (cases "y = 399")
      case False
      with y True have z: "0 \<le> y + 1" "y + 1 \<le> 399" "doe + 1 = year_start (y + 1)"
        by (simp_all add: year_end_def)
      have le: "year_start (y + 1) \<le> year_end (y + 1)"
        using year_ok [OF z(1,2)] by (auto simp: year_ok_def split: if_splits)
      have "(y + 1) div 4 \<le> 99" "0 \<le> (y + 1) div 100"
        using zdiv_mono1 [OF z(2), of 4] z(1) by simp_all
      moreover have "a \<le> 399 \<Longrightarrow> b \<le> 99 \<Longrightarrow> 0 \<le> c \<Longrightarrow> 365 * a + b - c < 146097" for a b c :: int by linarith
      ultimately have "doe + 1 < 146097" unfolding z(3) year_start_def using z(2) by blast
      then have "(days + 1 + 719468) mod 146097 = year_start (y + 1)" "(days + 1 + 719468) div 146097 = era"
        unfolding z(3) [symmetric] using div_mod_succ [of 146097 "days + 719468"]
        by (simp_all add: doe_def era_def add_ac)
      from civil_from_days_civil [OF z(1,2) order_refl le this] show ?thesis
        unfolding wrap by (simp add: algebra_simps)
    next
      case True
      with \<open>doe = year_end y\<close> have "doe = 146096" by (simp add: year_end_def)
      then have "(days + 1 + 719468) mod 146097 = 0" "(days + 1 + 719468) div 146097 = era + 1"
        using div_mod_succ_wrap [of 146097 "days + 719468"] by (simp_all add: doe_def era_def add_ac)
      from civil_from_days_civil [of 0 0 "days + 1", OF _ _ _ _ this] show ?thesis
        unfolding wrap by (simp add: True year_start_def year_end_def algebra_simps)
    qed
  qed
qed

lemma civil_epoch: "civil_from_days 0 = (1970, 1, 1)"
  by code_simp

lemma next_day_valid:
  "1 \<le> m \<and> m \<le> 12 \<and> 1 \<le> d \<and> d \<le> month_length y m \<Longrightarrow> next_day (y, m, d) = (y', m', d') \<Longrightarrow>
     1 \<le> m' \<and> m' \<le> 12 \<and> 1 \<le> d' \<and> d' \<le> month_length y' m'"
  by (auto simp: month_length_def split: if_splits)

lemma civil_valid:
  "case civil_from_days (int n) of (y, m, d) \<Rightarrow> 1 \<le> m \<and> m \<le> 12 \<and> 1 \<le> d \<and> d \<le> month_length y m"
proof (induction n)
  case 0
  then show ?case by (simp add: civil_epoch month_length_def)
next
  case (Suc n)
  obtain y m d where c: "civil_from_days (int n) = (y, m, d)" by (cases "civil_from_days (int n)") auto
  obtain y' m' d' where c': "next_day (y, m, d) = (y', m', d')" by (cases "next_day (y, m, d)") auto
  have "civil_from_days (int (Suc n)) = next_day (y, m, d)"
    using civil_from_days_next [of "int n"] c by (simp add: add.commute)
  with c' Suc c show ?case using next_day_valid [OF _ c'] by simp
qed

end
