(* ===== verification/PlatformLog.thy ===== *)
theory PlatformLog
  imports Policy Calendar
begin

text \<open>
  \<^verbatim>\<open>server/src/platform_log.rs\<close>: the log files of the platform. What is written is sanitized
  line by line; before a write the live file is rotated when it would grow too large, and after
  it the rotated files beyond the retention are removed. The files of one log are a map from an
  index to content and modification time: 0 is the live file, \<open>i\<close> the rotated file \<open>name.i\<close>.
  Creating the directory is an argument (its outcome). \<open>validate_policy\<close> is in the theory Policy.
\<close>

section \<open>Sanitizing\<close>

definition sensitive_words :: "string list" where
  "sensitive_words = [''token'', ''password'', ''authorization'', ''api key'', ''api_key'', ''apikey'',
                      ''secret'']"

text \<open>\<open>[redacted -- sensitive log line]\<close> with an em dash (U+2014).\<close>

definition redacted_line :: string where
  "redacted_line = ''[redacted '' @ [CHR 0xE2, CHR 0x80, CHR 0x94] @ '' sensitive log line]''"

definition sanitize_line :: "string \<Rightarrow> string" where
  "sanitize_line l =
     (if \<exists>w \<in> set sensitive_words. contains (to_ascii_lowercase l) w
      then redacted_line else chars_take 1000 l)"

definition sanitize :: "string \<Rightarrow> string" where
  "sanitize s = join [CHR 0x0A] (map sanitize_line (lines s))"

section \<open>Levels and time stamps\<close>

definition level_rank :: "string \<Rightarrow> nat" where
  "level_rank l =
     (if l = ''error'' then 1 else if l = ''warn'' then 2 else if l = ''info'' then 3
      else if l = ''debug'' then 4 else if l = ''trace'' then 5 else 3)"

definition level_enabled :: "string \<Rightarrow> string \<Rightarrow> bool" where
  "level_enabled configured l \<longleftrightarrow> level_rank l \<le> level_rank configured"

definition upper_byte :: "char \<Rightarrow> char" where
  "upper_byte c = (if 97 \<le> byte c \<and> byte c \<le> 122 then char_of (byte c - 32) else c)"

definition to_ascii_uppercase :: "string \<Rightarrow> string" where
  "to_ascii_uppercase s = map upper_byte s"

definition pad_zero :: "nat \<Rightarrow> int \<Rightarrow> string" where
  "pad_zero w n = (let s = int_str n in replicate (w - length s) (CHR ''0'') @ s)"

definition format_timestamp :: "nat \<Rightarrow> string" where
  "format_timestamp secs =
     (let tod = int secs mod 86400 in
      case civil_from_days (int secs div 86400) of (y, m, d) \<Rightarrow>
        pad_zero 4 y @ ''-'' @ pad_zero 2 m @ ''-'' @ pad_zero 2 d @ ''T''
        @ pad_zero 2 (tod div 3600) @ '':'' @ pad_zero 2 (tod mod 3600 div 60) @ '':''
        @ pad_zero 2 (tod mod 60) @ ''Z'')"

section \<open>Files\<close>

record log_file =
  lf_content :: string
  lf_modified :: int

type_synonym log_files = "nat \<Rightarrow> log_file option"

definition safe_log_file :: "string \<Rightarrow> string option" where
  "safe_log_file name =
     (if name \<in> {''lightai-server.log'', ''lightai-agent.log'', ''instance.log''} then None
      else Some ''log file is not managed by platform'')"

definition file_size :: "log_files \<Rightarrow> nat \<Rightarrow> nat" where
  "file_size fs i = (case fs i of None \<Rightarrow> 0 | Some f \<Rightarrow> length (lf_content f))"

definition rename_file :: "nat \<Rightarrow> nat \<Rightarrow> log_files \<Rightarrow> log_files" where
  "rename_file i j fs = (if fs i = None then fs else fs(j := fs i, i := None))"

text \<open>\<open>for index in (1..=n).rev()\<close>.\<close>

fun shift_files :: "nat \<Rightarrow> log_files \<Rightarrow> log_files" where
  "shift_files 0 fs = fs"
| "shift_files (Suc n) fs = shift_files n (rename_file (Suc n) (Suc (Suc n)) fs)"

definition rotate_if_needed :: "log_policy \<Rightarrow> nat \<Rightarrow> log_files \<Rightarrow> log_files" where
  "rotate_if_needed p incoming fs =
     (if int (file_size fs 0 + incoming) \<le> lp_log_max_file_bytes p then fs
      else rename_file 0 1 (shift_files (nat (lp_log_retention_files p)) fs))"

definition cleanup_retention :: "log_policy \<Rightarrow> int \<Rightarrow> log_files \<Rightarrow> log_files" where
  "cleanup_retention p now fs =
     (let n = nat (lp_log_retention_files p);
          fs1 = (\<lambda>i. if n < i \<and> i \<le> n + 20 then None else fs i);
          cutoff = max 0 (now - lp_log_retention_days p * 86400)
      in if lp_log_retention_days p = 0 then fs1
         else (\<lambda>i. if 1 \<le> i \<and> i \<le> n + 20
                     \<and> (case fs1 i of None \<Rightarrow> False | Some f \<Rightarrow> lf_modified f < cutoff)
                   then None else fs1 i))"

definition append_line :: "string \<Rightarrow> int \<Rightarrow> log_files \<Rightarrow> log_files" where
  "append_line l now fs =
     fs(0 := Some \<lparr>lf_content = (case fs 0 of None \<Rightarrow> [] | Some f \<Rightarrow> lf_content f) @ l,
                   lf_modified = now\<rparr>)"

definition log_line :: "nat \<Rightarrow> string \<Rightarrow> string \<Rightarrow> string" where
  "log_line now level message =
     format_timestamp now @ '' ['' @ to_ascii_uppercase level @ ''] '' @ sanitize message @ [CHR 0x0A]"

definition append_log ::
  "log_policy \<Rightarrow> string option \<Rightarrow> string \<Rightarrow> string \<Rightarrow> string \<Rightarrow> nat \<Rightarrow> log_files
   \<Rightarrow> (string + unit) \<times> log_files" where
  "append_log p dir_error name level message now fs =
     (if \<not> level_enabled (lp_log_level p) level then (Inr (), fs)
      else case first_error [validate_log_policy p, dir_error, safe_log_file name] of
             Some e \<Rightarrow> (Inl e, fs)
           | None \<Rightarrow>
               (let l = log_line now level message in
                (Inr (), cleanup_retention p (int now)
                           (append_line l (int now) (rotate_if_needed p (length l) fs)))))"

text \<open>
  \<open>read_tail\<close>: the last bytes of the live file, sanitized. Replacing invalid UTF-8 at the cut
  (\<open>from_utf8_lossy\<close>) is an argument.
\<close>

definition read_tail ::
  "(string \<Rightarrow> string) \<Rightarrow> log_policy \<Rightarrow> string option \<Rightarrow> string \<Rightarrow> nat \<Rightarrow> log_files \<Rightarrow> string + string" where
  "read_tail lossy p dir_error name max_bytes fs =
     (case first_error [validate_log_policy p, dir_error, safe_log_file name] of
        Some e \<Rightarrow> Inl e
      | None \<Rightarrow>
          (let bytes = (case fs 0 of None \<Rightarrow> [] | Some f \<Rightarrow> lf_content f)
           in Inr (sanitize (lossy (drop (length bytes - max_bytes) bytes)))))"

section \<open>Nothing sensitive is written\<close>

lemma byte_lower_not: "lower_byte c = x \<Longrightarrow> byte x < 97 \<Longrightarrow> byte x < 65 \<or> 90 < byte x \<Longrightarrow> c = x"
  by (auto simp: lower_byte_def byte_def split: if_splits)

lemma contains_append: "contains s w \<Longrightarrow> contains (s @ t) w"
  unfolding contains_sublist by (metis append.assoc)

lemma chars_take_prefix: "\<exists>t. s = chars_take n s @ t"
proof -
  have "s = concat (take (nat n) (utf8_chars s)) @ concat (drop (nat n) (utf8_chars s))"
    by (metis append_take_drop_id concat_append concat_utf8_chars)
  then show ?thesis unfolding chars_take_def take_int_eq by blast
qed

lemma redacted_clean: "\<forall>w \<in> set sensitive_words. \<not> contains (to_ascii_lowercase redacted_line) w"
  by code_simp

lemma sanitize_line_clean:
  assumes "w \<in> set sensitive_words"
  shows "\<not> contains (to_ascii_lowercase (sanitize_line l)) w"
proof (cases "\<exists>w \<in> set sensitive_words. contains (to_ascii_lowercase l) w")
  case True
  with assms redacted_clean show ?thesis by (simp add: sanitize_line_def)
next
  case False
  obtain t where "l = chars_take 1000 l @ t" using chars_take_prefix by blast
  then have "to_ascii_lowercase l = to_ascii_lowercase (chars_take 1000 l) @ to_ascii_lowercase t"
    by (metis map_append to_ascii_lowercase_def)
  with False assms show ?thesis using contains_append by (fastforce simp: sanitize_line_def)
qed

text \<open>A word without a separator that occurs in joined pieces occurs in one of them.\<close>

lemma starts_with_sep:
  "starts_with (a @ c # b) w \<Longrightarrow> c \<notin> set w \<Longrightarrow> starts_with a w"
proof (induction a w rule: starts_with.induct)
  case (2 b p)
  then show ?case by (auto split: if_splits)
qed auto

lemma contains_sep:
  "contains (a @ c # b) w \<Longrightarrow> c \<notin> set w \<Longrightarrow> w \<noteq> [] \<Longrightarrow> contains a w \<or> contains b w"
proof (induction a)
  case Nil
  then show ?case by (cases w) auto
next
  case (Cons x a)
  then show ?case using starts_with_sep [of "x # a" c b w] by auto
qed

lemma contains_join:
  "contains (map f (join [c] ls)) w \<Longrightarrow> f c \<notin> set w \<Longrightarrow> w \<noteq> [] \<Longrightarrow> \<exists>l \<in> set ls. contains (map f l) w"
proof (induction "[c]" ls rule: join.induct)
  case (3 x y ys)
  from 3(2) have "contains (map f x @ f c # map f (join [c] (y # ys))) w" by simp
  from contains_sep [OF this 3(3,4)] 3(1) [OF _ 3(3,4)] show ?case by auto
qed auto

lemma sanitize_clean:
  assumes "w \<in> set sensitive_words"
  shows "\<not> contains (to_ascii_lowercase (sanitize s)) w"
proof
  have nl: "lower_byte (CHR 0x0A) \<notin> set w" "w \<noteq> []"
    using assms by (auto simp: sensitive_words_def lower_byte_def byte_def)
  assume "contains (to_ascii_lowercase (sanitize s)) w"
  then obtain l where "contains (to_ascii_lowercase (sanitize_line l)) w"
    using contains_join [where f = lower_byte and c = "CHR 0x0A" and ls = "map sanitize_line (lines s)", OF _ nl]
    by (auto simp: sanitize_def to_ascii_lowercase_def)
  with sanitize_line_clean [OF assms] show False by blast
qed

section \<open>Rotation and retention\<close>

lemma shift_files_above: "Suc n < j \<Longrightarrow> shift_files n fs j = fs j"
  by (induction n arbitrary: fs) (auto simp: rename_file_def)

lemma shift_files_live: "shift_files n fs 0 = fs 0"
  by (induction n arbitrary: fs) (auto simp: rename_file_def)

text \<open>Every rotated file within the retention moves up by one.\<close>

lemma shift_files_moves:
  assumes "1 \<le> i" and "i \<le> n" and "fs i \<noteq> None"
  shows "shift_files n fs (Suc i) = fs i"
  using assms
proof (induction n arbitrary: fs)
  case (Suc n)
  show ?case
  proof (cases "i = Suc n")
    case True
    with Suc.prems(3) show ?thesis by (auto simp: shift_files_above rename_file_def)
  next
    case False
    with Suc.prems have "i \<le> n" "rename_file (Suc n) (Suc (Suc n)) fs i = fs i" by (auto simp: rename_file_def)
    with Suc.IH [of "rename_file (Suc n) (Suc (Suc n)) fs"] Suc.prems show ?thesis by simp
  qed
qed simp

definition log_bounded :: "log_policy \<Rightarrow> log_files \<Rightarrow> bool" where
  "log_bounded p fs \<longleftrightarrow> (\<forall>i. lp_log_retention_files p < int i \<longrightarrow> fs i = None)"

lemma cleanup_live: "cleanup_retention p now fs 0 = fs 0"
  by (simp add: cleanup_retention_def Let_def)

lemma cleanup_None: "fs i = None \<Longrightarrow> cleanup_retention p now fs i = None"
  by (simp add: cleanup_retention_def Let_def)

lemma cleanup_over:
  assumes "lp_log_retention_files p < int i" and "int i \<le> lp_log_retention_files p + 20"
    and "0 \<le> lp_log_retention_files p"
  shows "cleanup_retention p now fs i = None"
proof -
  from assms have "nat (lp_log_retention_files p) < i" "i \<le> nat (lp_log_retention_files p) + 20" by linarith+
  then show ?thesis by (simp add: cleanup_retention_def Let_def)
qed

lemma rotate_bounded:
  assumes "log_bounded p fs" and "0 \<le> lp_log_retention_files p" and "lp_log_retention_files p + 1 < int i"
  shows "rotate_if_needed p n fs i = None"
proof -
  from assms(2,3) have "Suc (nat (lp_log_retention_files p)) < i" "1 < i" by linarith+
  moreover have "fs i = None" using assms by (simp add: log_bounded_def)
  ultimately show ?thesis by (simp add: rotate_if_needed_def rename_file_def shift_files_above)
qed

lemma append_log_bounded:
  assumes "log_bounded p fs" and "append_log p de name level message now fs = (Inr u, fs')"
    and pos: "0 \<le> lp_log_retention_files p"
  shows "log_bounded p fs'"
  unfolding log_bounded_def
proof (intro allI impI)
  fix i assume i: "lp_log_retention_files p < int i"
  show "fs' i = None"
  proof (cases "level_enabled (lp_log_level p) level")
    case False
    with assms(1,2) i show ?thesis by (simp add: append_log_def log_bounded_def)
  next
    case True
    let ?l = "log_line now level message"
    let ?r = "rotate_if_needed p (length ?l) fs"
    from assms(2) True have fs': "fs' = cleanup_retention p (int now) (append_line ?l (int now) ?r)"
      by (auto simp: append_log_def Let_def split: option.splits)
    show ?thesis
    proof (cases "int i \<le> lp_log_retention_files p + 1")
      case True
      with i pos show ?thesis unfolding fs' by (intro cleanup_over) simp_all
    next
      case False
      with i pos have "append_line ?l (int now) ?r i = None"
        using rotate_bounded [OF assms(1) pos, of i] by (auto simp: append_line_def)
      then show ?thesis unfolding fs' by (rule cleanup_None)
    qed
  qed
qed

text \<open>The live file stays under the limit unless one line alone is larger.\<close>

lemma rotate_live:
  "rotate_if_needed p n fs 0 = None
   \<or> (rotate_if_needed p n fs = fs \<and> int (file_size fs 0 + n) \<le> lp_log_max_file_bytes p)"
  by (auto simp: rotate_if_needed_def rename_file_def)

lemma append_log_size:
  assumes "append_log p de name level message now fs = (Inr u, fs')"
    and "level_enabled (lp_log_level p) level"
  shows "int (file_size fs' 0) \<le> lp_log_max_file_bytes p
    \<or> fs' 0 = Some \<lparr>lf_content = log_line now level message, lf_modified = int now\<rparr>"
proof -
  let ?l = "log_line now level message"
  from assms have fs': "fs' = cleanup_retention p (int now)
      (append_line ?l (int now) (rotate_if_needed p (length ?l) fs))"
    by (auto simp: append_log_def Let_def split: option.splits)
  then have live: "fs' 0 = append_line ?l (int now) (rotate_if_needed p (length ?l) fs) 0"
    by (simp add: cleanup_live)
  show ?thesis using rotate_live [of p "length ?l" fs]
    by (auto simp: live append_line_def file_size_def split: option.splits)
qed

text \<open>Without an age limit a rotation loses no file within the retention.\<close>

lemma rotation_keeps:
  assumes "append_log p de name level message now fs = (Inr u, fs')"
    and "level_enabled (lp_log_level p) level" and "lp_log_retention_days p = 0"
    and "lp_log_max_file_bytes p < int (file_size fs 0 + length (log_line now level message))"
    and "int i < lp_log_retention_files p" and "fs i \<noteq> None"
  shows "fs' (Suc i) = fs i"
proof -
  let ?l = "log_line now level message" and ?n = "nat (lp_log_retention_files p)"
  from assms(1-4) have fs': "fs' (Suc i) = (if ?n < Suc i \<and> Suc i \<le> ?n + 20 then None
      else rename_file 0 1 (shift_files ?n fs) (Suc i))"
    by (auto simp: append_log_def Let_def cleanup_retention_def append_line_def rotate_if_needed_def
        split: option.splits)
  have "\<not> ?n < Suc i" using assms(5) by linarith
  moreover have "rename_file 0 1 (shift_files ?n fs) (Suc i) = fs i"
  proof (cases "i = 0")
    case True
    with assms(6) show ?thesis by (auto simp: rename_file_def shift_files_live)
  next
    case False
    with assms(5,6) have "shift_files ?n fs (Suc i) = fs i" by (intro shift_files_moves) linarith+
    with False show ?thesis by (simp add: rename_file_def)
  qed
  ultimately show ?thesis using fs' by simp
qed

end
