(* ===== verification/Nodes.thy ===== *)
theory Nodes
  imports Waiting
begin

text \<open>
  The node part of \<^verbatim>\<open>server/src/repository.rs\<close> and \<^verbatim>\<open>server/src/history_cleanup.rs\<close>:
  registration of agents, heartbeats (status, GPUs, samples, reconciliation of the instances the
  agent manages), the node list, metric samples and their retention. Errors are messages.
\<close>

section \<open>Requests and views\<close>

record register_request =
  rg_name :: string
  rg_hostname :: string
  rg_agent_version :: "string option"
  rg_os :: "string option"
  rg_arch :: "string option"

record register_response =
  rs_node_id :: string
  rs_agent_token :: string
  rs_heartbeat_interval_secs :: int
  rs_agent_config :: agent_config


record node_metrics =
  nm_cpu_usage_percent :: "f64 option"
  nm_memory_total_bytes :: "int option"
  nm_memory_used_bytes :: "int option"
  nm_disk_total_bytes :: "int option"
  nm_disk_used_bytes :: "int option"

record gpu_metrics =
  gx_gpu_key :: string
  gx_gpu_index :: "int option"
  gx_vendor :: string
  gx_name :: string
  gx_uuid :: "string option"
  gx_driver_version :: "string option"
  gx_memory_total_bytes :: "int option"
  gx_memory_used_bytes :: "int option"
  gx_utilization_percent :: "f64 option"
  gx_temperature_celsius :: "f64 option"
  gx_power_watts :: "f64 option"
  gx_collector :: string
  gx_raw_json :: "string option"

record instance_report =
  rp_instance_id :: string
  rp_status :: string
  rp_message :: string
  rp_process_id :: "int option"
  rp_process_ref :: "string option"
  rp_base_url :: "string option"
  rp_endpoint_url :: "string option"
  rp_command :: "string option"
  rp_log_path :: "string option"

record heartbeat_request =
  hb_node_id :: string
  hb_sampled_at :: int
  hb_metrics :: node_metrics
  hb_gpus :: "gpu_metrics list"
  hb_collector_errors :: "string list"
  hb_collector_status :: string
  hb_agent_config :: "agent_config option"
  hb_managed_instances :: "instance_report list"

section \<open>Registration\<close>

definition quoted :: "string \<Rightarrow> string" where
  "quoted s = [CHR 0x27] @ s @ [CHR 0x27]"

text \<open>\<open>nodes.id\<close> is the primary key, name and hostname have unique indices.\<close>

definition node_clash :: "node_row \<Rightarrow> node_row \<Rightarrow> bool" where
  "node_clash a b \<longleftrightarrow> n_id a = n_id b \<or> n_name a = n_name b \<or> n_hostname a = n_hostname b"

definition token_prefix :: "string \<Rightarrow> string" where
  "token_prefix token = chars_take 8 token"

definition new_node :: "ext \<Rightarrow> int \<Rightarrow> string \<Rightarrow> string \<Rightarrow> register_request \<Rightarrow> node_row" where
  "new_node x now i token r =
     \<lparr>n_id = i, n_name = rg_name r, n_hostname = rg_hostname r,
      n_agent_version = rg_agent_version r, n_os = rg_os r, n_arch = rg_arch r,
      n_token_hash = ext_hash_token x token, n_token_prefix = token_prefix token,
      n_registered_at = now, n_updated_at = now, n_last_heartbeat_at = None\<rparr>"

definition refresh_node :: "ext \<Rightarrow> int \<Rightarrow> string \<Rightarrow> register_request \<Rightarrow> node_row \<Rightarrow> node_row" where
  "refresh_node x now token r n =
     n\<lparr>n_name := rg_name r, n_hostname := rg_hostname r, n_agent_version := rg_agent_version r,
       n_os := rg_os r, n_arch := rg_arch r, n_token_hash := ext_hash_token x token,
       n_token_prefix := token_prefix token, n_updated_at := now\<rparr>"

text \<open>
  \<open>INSERT .. ON CONFLICT(id) DO UPDATE\<close>: a row with the id is updated, otherwise the row is
  inserted under the unique indices.
\<close>

definition upsert_node ::
  "ext \<Rightarrow> int \<Rightarrow> string \<Rightarrow> string \<Rightarrow> register_request \<Rightarrow> node_row list \<Rightarrow> sql_error + node_row list" where
  "upsert_node x now i token r rows =
     (if \<exists>n \<in> set rows. n_id n = i then
        (if \<exists>n \<in> set rows. n_id n \<noteq> i \<and> (n_name n = rg_name r \<or> n_hostname n = rg_hostname r)
         then Inl UniqueFailed
         else Inr (update_where (\<lambda>n. n_id n = i) (refresh_node x now token r) rows))
      else insert_row node_clash True (new_node x now i token r) rows)"

definition name_in_use :: "string \<Rightarrow> string \<Rightarrow> string" where
  "name_in_use name host =
     ''Node name '' @ quoted name @ '' is already in use by host '' @ quoted host
     @ ''; same name cannot be used for different hosts. Change node_name in Agent config''"

definition host_in_use :: "string \<Rightarrow> string \<Rightarrow> string" where
  "host_in_use host name =
     ''Host '' @ quoted host @ '' is already in use by node '' @ quoted name
     @ ''; same host cannot be used for different names. Change hostname or node_name in Agent config''"

definition try_register ::
  "ext \<Rightarrow> int \<Rightarrow> string \<Rightarrow> string \<Rightarrow> register_request \<Rightarrow> db \<Rightarrow> (string + register_response) \<times> db" where
  "try_register x now fresh token r d =
     (case find_row (\<lambda>n. n_name n = rg_name r \<and> n_hostname n \<noteq> rg_hostname r) (nodes d) of
        Some n \<Rightarrow> (Inl (name_in_use (rg_name r) (n_hostname n)), d)
      | None \<Rightarrow>
     (case find_row (\<lambda>n. n_hostname n = rg_hostname r \<and> n_name n \<noteq> rg_name r) (nodes d) of
        Some n \<Rightarrow> (Inl (host_in_use (rg_hostname r) (n_name n)), d)
      | None \<Rightarrow>
     (let i = (case find_row (\<lambda>n. n_name n = rg_name r \<and> n_hostname n = rg_hostname r) (nodes d) of
                 Some n \<Rightarrow> n_id n | None \<Rightarrow> fresh)
      in case upsert_node x now i token r (nodes d) of
           Inl e \<Rightarrow> (Inl (sql_message e), d)
         | Inr rows \<Rightarrow>
             (let d1 = d\<lparr>nodes := rows\<rparr> in
              case effective_agent_config x now d1 i of
                Inl e \<Rightarrow> (Inl e, d1)
              | Inr c \<Rightarrow> (Inr \<lparr>rs_node_id = i, rs_agent_token = token,
                              rs_heartbeat_interval_secs = HEARTBEAT_INTERVAL,
                              rs_agent_config = c\<rparr>, d1)))))"

definition is_unique_violation :: "string \<Rightarrow> bool" where
  "is_unique_violation e \<longleftrightarrow> contains e ''UNIQUE constraint failed''"

text \<open>
  Two attempts. Each call of \<open>try_register\<close> makes its own fresh id; between them the rest of the
  server may change the database.
\<close>

definition register_node ::
  "ext \<Rightarrow> int \<Rightarrow> string \<Rightarrow> string \<Rightarrow> string \<Rightarrow> (db \<Rightarrow> db) \<Rightarrow> register_request \<Rightarrow> db
   \<Rightarrow> (string + register_response) \<times> db" where
  "register_node x now fresh1 fresh2 token between r d =
     (case try_register x now fresh1 token r d of
        (Inr v, d1) \<Rightarrow> (Inr v, d1)
      | (Inl e, d1) \<Rightarrow>
          if is_unique_violation e then try_register x now fresh2 token r (between d1)
          else (Inl e, d1))"

definition authenticate_node :: "ext \<Rightarrow> db \<Rightarrow> string \<Rightarrow> string \<Rightarrow> bool" where
  "authenticate_node x d i token =
     (case node_of d i of None \<Rightarrow> False | Some n \<Rightarrow> ext_hash_token x token = n_token_hash n)"

definition any_node_with_token :: "ext \<Rightarrow> db \<Rightarrow> string \<Rightarrow> bool" where
  "any_node_with_token x d token \<longleftrightarrow> (\<exists>n \<in> set (nodes d). ext_hash_token x token = n_token_hash n)"

section \<open>Heartbeats\<close>

text \<open>\<open>value as i64\<close> of a \<open>u64\<close>: two's complement.\<close>

definition as_i64_cast :: "int \<Rightarrow> int" where
  "as_i64_cast v = (v + 2 ^ 63) mod 2 ^ 64 - 2 ^ 63"

definition heartbeat_status_row :: "ext \<Rightarrow> heartbeat_request \<Rightarrow> node_status_row" where
  "heartbeat_status_row x h =
     (let m = hb_metrics h; c = hb_agent_config h; num = (\<lambda>f. map_option (\<lambda>c. as_i64_cast (f c)) c) in
      \<lparr>ns_node_id = hb_node_id h, ns_cpu_usage_percent = nm_cpu_usage_percent m,
       ns_memory_total_bytes = nm_memory_total_bytes m, ns_memory_used_bytes = nm_memory_used_bytes m,
       ns_disk_total_bytes = nm_disk_total_bytes m, ns_disk_used_bytes = nm_disk_used_bytes m,
       ns_collector_errors_json = Some (ext_jprint x (JArr (map JStr (hb_collector_errors h)))),
       ns_agent_config_version = map_option ac_config_version c,
       ns_heartbeat_interval_secs = num ac_heartbeat_interval_secs,
       ns_metrics_sample_interval_secs = num ac_metrics_sample_interval_secs,
       ns_task_poll_interval_secs = num ac_task_poll_interval_secs,
       ns_config_refresh_interval_secs = num ac_config_refresh_interval_secs,
       ns_command_timeout_secs = num ac_command_timeout_secs,
       ns_environment_check_timeout_secs = num ac_environment_check_timeout_secs,
       ns_allowed_model_dirs_json =
         map_option (\<lambda>c. ext_jprint x (JArr (map JStr (ac_allowed_model_dirs c)))) c,
       ns_collector_timeout_secs = num ac_collector_timeout_secs,
       ns_collector_max_output_bytes = num ac_collector_max_output_bytes,
       ns_collector_status = Some (hb_collector_status h),
       ns_last_config_updated_at = Option.bind c ac_last_config_updated_at,
       ns_updated_at = hb_sampled_at h\<rparr>)"

definition upsert_node_status :: "ext \<Rightarrow> heartbeat_request \<Rightarrow> db \<Rightarrow> db" where
  "upsert_node_status x h d =
     (let r = heartbeat_status_row x h in
      d\<lparr>node_status := upsert_row (\<lambda>q. ns_node_id q = hb_node_id h) (\<lambda>_. r) r (node_status d)\<rparr>)"

definition node_sample :: "heartbeat_request \<Rightarrow> node_sample_row" where
  "node_sample h =
     (let m = hb_metrics h in
      \<lparr>nms_node_id = hb_node_id h, nms_sampled_at = hb_sampled_at h,
       nms_cpu_usage_percent = nm_cpu_usage_percent m,
       nms_memory_total_bytes = nm_memory_total_bytes m,
       nms_memory_used_bytes = nm_memory_used_bytes m,
       nms_disk_total_bytes = nm_disk_total_bytes m, nms_disk_used_bytes = nm_disk_used_bytes m\<rparr>)"

definition gpu_row :: "string \<Rightarrow> int \<Rightarrow> gpu_metrics \<Rightarrow> gpu_status_row" where
  "gpu_row nid at g =
     \<lparr>g_node_id = nid, g_gpu_key = gx_gpu_key g, g_gpu_index = gx_gpu_index g,
      g_vendor = gx_vendor g, g_name = gx_name g, g_uuid = gx_uuid g,
      g_driver_version = gx_driver_version g, g_memory_total_bytes = gx_memory_total_bytes g,
      g_memory_used_bytes = gx_memory_used_bytes g,
      g_utilization_percent = gx_utilization_percent g,
      g_temperature_celsius = gx_temperature_celsius g, g_power_watts = gx_power_watts g,
      g_collector = gx_collector g, g_raw_json = gx_raw_json g, g_status = None,
      g_last_error = None, g_updated_at = at\<rparr>"

definition upsert_gpu_status :: "string \<Rightarrow> int \<Rightarrow> gpu_metrics \<Rightarrow> db \<Rightarrow> db" where
  "upsert_gpu_status nid at g d =
     d\<lparr>gpu_status := upsert_row (\<lambda>q. g_node_id q = nid \<and> g_gpu_key q = gx_gpu_key g)
         (\<lambda>_. gpu_row nid at g) (gpu_row nid at g) (gpu_status d)\<rparr>"

definition mark_missing_gpus :: "string \<Rightarrow> int \<Rightarrow> db \<Rightarrow> db" where
  "mark_missing_gpus nid at d =
     d\<lparr>gpu_status := update_where (\<lambda>q. g_node_id q = nid \<and> g_updated_at q < at)
         (\<lambda>q. q\<lparr>g_status := Some ''missing'',
                g_last_error := Some ''device not found in latest discovery'',
                g_updated_at := at\<rparr>) (gpu_status d)\<rparr>"

definition insert_gpu_sample :: "string \<Rightarrow> int \<Rightarrow> gpu_metrics \<Rightarrow> db \<Rightarrow> db" where
  "insert_gpu_sample nid at g d =
     d\<lparr>gpu_metric_samples := gpu_metric_samples d @
         [\<lparr>gms_node_id = nid, gms_gpu_key = gx_gpu_key g, gms_sampled_at = at,
           gms_vendor = gx_vendor g, gms_memory_total_bytes = gx_memory_total_bytes g,
           gms_memory_used_bytes = gx_memory_used_bytes g,
           gms_utilization_percent = gx_utilization_percent g,
           gms_temperature_celsius = gx_temperature_celsius g,
           gms_power_watts = gx_power_watts g\<rparr>]\<rparr>"

subsection \<open>Reconciliation\<close>

definition reported_status :: "string \<Rightarrow> string" where
  "reported_status s =
     (if s = ''running'' then ''running'' else if s = ''stopped'' then ''stopped'' else ''failed'')"

definition apply_report :: "int \<Rightarrow> instance_report \<Rightarrow> instance_row \<Rightarrow> instance_row" where
  "apply_report now p r =
     (let status = reported_status (rp_status p); running = (status = ''running'') in
      r\<lparr>mi_status := status,
        mi_process_id := (if running then rp_process_id p else None),
        mi_process_ref := (if running then rp_process_ref p else None),
        mi_base_url := coalesce (rp_base_url p) (mi_base_url r),
        mi_endpoint_url := coalesce (rp_endpoint_url p) (mi_endpoint_url r),
        mi_command := coalesce (rp_command p) (mi_command r),
        mi_log_tail := coalesce (map_option (\<lambda>f. ''log file: '' @ f) (rp_log_path p)) (mi_log_tail r),
        mi_last_checked_at := Some now,
        mi_last_error := (if running then None else Some (rp_message p)),
        mi_updated_at := now\<rparr>)"

definition managed_by :: "string \<Rightarrow> instance_row \<Rightarrow> bool" where
  "managed_by nid r \<longleftrightarrow> mi_node_id r = Some nid \<and> mi_deploy_type r = ''local''"

definition reconcile_report :: "string \<Rightarrow> int \<Rightarrow> instance_report \<Rightarrow> db \<Rightarrow> db" where
  "reconcile_report nid now p d =
     d\<lparr>model_instances := update_where (\<lambda>r. mi_id r = rp_instance_id p \<and> managed_by nid r)
         (apply_report now p) (model_instances d)\<rparr>"

definition runtime_backend :: "db \<Rightarrow> instance_row \<Rightarrow> string option" where
  "runtime_backend d r = map_option re_backend (joined (runtime_of d) (mi_runtime_environment_id r))"

text \<open>A managed instance the server believes active and the agent did not report.\<close>

definition unreported :: "string \<Rightarrow> string list \<Rightarrow> db \<Rightarrow> instance_row \<Rightarrow> bool" where
  "unreported nid reported d r \<longleftrightarrow>
     managed_by nid r \<and> mi_status r \<in> {''starting'', ''running'', ''stopping''}
     \<and> runtime_backend d r \<noteq> Some ''ollama'' \<and> mi_id r \<notin> set reported"

definition unreported_message :: string where
  "unreported_message =
     ''Agent did not report managed process status; process may have exited or been terminated externally''"

definition fail_unreported :: "int \<Rightarrow> instance_row \<Rightarrow> instance_row" where
  "fail_unreported now r =
     r\<lparr>mi_status := ''failed'', mi_process_id := None, mi_process_ref := None,
       mi_last_checked_at := Some now, mi_last_error := Some unreported_message,
       mi_updated_at := now\<rparr>"

definition reconcile_managed_instances ::
  "string \<Rightarrow> instance_report list \<Rightarrow> int \<Rightarrow> db \<Rightarrow> db" where
  "reconcile_managed_instances nid reports now d =
     (let d1 = fold (reconcile_report nid now) reports d;
          ids = map mi_id (filter (unreported nid (map rp_instance_id reports) d1) (model_instances d1))
      in fold (\<lambda>i. set_instance i (fail_unreported now)) ids d1)"

definition touch_node :: "int \<Rightarrow> heartbeat_request \<Rightarrow> db \<Rightarrow> db" where
  "touch_node now h d =
     d\<lparr>nodes := update_where (\<lambda>n. n_id n = hb_node_id h)
         (\<lambda>n. n\<lparr>n_updated_at := now, n_last_heartbeat_at := Some (hb_sampled_at h)\<rparr>) (nodes d)\<rparr>"

definition record_gpus :: "heartbeat_request \<Rightarrow> db \<Rightarrow> db" where
  "record_gpus h =
     fold (\<lambda>g d. insert_gpu_sample (hb_node_id h) (hb_sampled_at h) g
                   (upsert_gpu_status (hb_node_id h) (hb_sampled_at h) g d)) (hb_gpus h)"

text \<open>
  The transaction of one heartbeat. The status row references its node, so a heartbeat of an
  unknown node fails and leaves nothing behind.
\<close>

definition record_heartbeat :: "ext \<Rightarrow> int \<Rightarrow> heartbeat_request \<Rightarrow> db \<Rightarrow> (string + unit) \<times> db" where
  "record_heartbeat x now h d =
     (if \<not> node_exists d (hb_node_id h) then (Inl (sql_message ForeignKeyFailed), d)
      else
        (let d1 = upsert_node_status x h (touch_node now h d);
             d2 = d1\<lparr>node_metric_samples := node_metric_samples d1 @ [node_sample h]\<rparr>;
             d3 = record_gpus h d2;
             d4 = (if hb_collector_errors h = []
                   then mark_missing_gpus (hb_node_id h) (hb_sampled_at h) d3 else d3)
         in (Inr (), reconcile_managed_instances (hb_node_id h) (hb_managed_instances h) now d4)))"

section \<open>Reading\<close>

definition list_gpus :: "db \<Rightarrow> string \<Rightarrow> gpu_status_row list" where
  "list_gpus d nid =
     sort_key (\<lambda>g. (g_gpu_index g, g_gpu_key g)) (filter (\<lambda>g. g_node_id g = nid) (gpu_status d))"

record node_view =
  nv_row :: node_row
  nv_status :: string
  nv_metrics :: "node_metrics option"
  nv_agent_config :: "agent_config option"
  nv_effective_agent_config :: agent_config
  nv_config_sync_status :: string
  nv_gpus :: "gpu_status_row list"
  nv_collector_status :: string
  nv_collector_errors :: "string list"

definition node_state :: "int \<Rightarrow> int option \<Rightarrow> string" where
  "node_state now beat =
     (case beat of
        Some seen \<Rightarrow> if now - seen \<le> ONLINE_THRESHOLD then ''online'' else ''offline''
      | None \<Rightarrow> ''registered'')"

text \<open>\<open>value as u64\<close> of an \<open>i64\<close>.\<close>

definition as_u64_cast :: "int \<Rightarrow> int" where
  "as_u64_cast v = v mod 2 ^ 64"

text \<open>A JSON array of strings, or nothing when the text is not one.\<close>

definition parse_strings :: "ext \<Rightarrow> string \<Rightarrow> string list option" where
  "parse_strings x text =
     (case Option.bind (ext_jparse x text) as_array of
        None \<Rightarrow> None
      | Some vs \<Rightarrow> if \<forall>v \<in> set vs. as_str v \<noteq> None then Some (map (the \<circ> as_str) vs) else None)"

definition reported_config :: "ext \<Rightarrow> node_status_row \<Rightarrow> agent_config option" where
  "reported_config x s =
     (let num = (\<lambda>v def. as_u64_cast (unwrap_or v def)) in
      map_option (\<lambda>v.
        \<lparr>ac_config_version = v,
         ac_heartbeat_interval_secs = num (ns_heartbeat_interval_secs s) HEARTBEAT_INTERVAL,
         ac_metrics_sample_interval_secs = num (ns_metrics_sample_interval_secs s) HEARTBEAT_INTERVAL,
         ac_task_poll_interval_secs = num (ns_task_poll_interval_secs s) HEARTBEAT_INTERVAL,
         ac_config_refresh_interval_secs = num (ns_config_refresh_interval_secs s) 60,
         ac_command_timeout_secs = num (ns_command_timeout_secs s) 5,
         ac_environment_check_timeout_secs = num (ns_environment_check_timeout_secs s) 5,
         ac_allowed_model_dirs =
           unwrap_or (Option.bind (ns_allowed_model_dirs_json s) (parse_strings x)) [],
         ac_collector_timeout_secs = num (ns_collector_timeout_secs s) 5,
         ac_collector_max_output_bytes = num (ns_collector_max_output_bytes s) (1024 * 1024),
         ac_log_policy = default_log_policy,
         ac_last_config_updated_at = ns_last_config_updated_at s\<rparr>)
        (ns_agent_config_version s))"

definition reported_metrics :: "node_status_row \<Rightarrow> node_metrics option" where
  "reported_metrics s =
     map_option (\<lambda>cpu. \<lparr>nm_cpu_usage_percent = Some cpu,
         nm_memory_total_bytes = ns_memory_total_bytes s, nm_memory_used_bytes = ns_memory_used_bytes s,
         nm_disk_total_bytes = ns_disk_total_bytes s, nm_disk_used_bytes = ns_disk_used_bytes s\<rparr>)
       (ns_cpu_usage_percent s)"

definition derived_collector_status :: "gpu_status_row list \<Rightarrow> string list \<Rightarrow> string" where
  "derived_collector_status gpus errors =
     (if gpus = [] \<and> errors = [] then ''no_collector_configured''
      else if gpus \<noteq> [] then ''collector_ok_devices_found''
      else if errors \<noteq> [] then ''collector_configured_but_failed''
      else ''collector_ok_no_devices'')"

definition node_view_of :: "ext \<Rightarrow> int \<Rightarrow> db \<Rightarrow> node_row \<Rightarrow> string + node_view" where
  "node_view_of x now d n =
     (let s = find_row (\<lambda>s. ns_node_id s = n_id n) (node_status d);
          gpus = list_gpus d (n_id n);
          config = Option.bind s (reported_config x);
          errors = unwrap_or (Option.bind (Option.bind s ns_collector_errors_json) (parse_strings x)) []
      in case effective_agent_config x now d (n_id n) of
           Inl e \<Rightarrow> Inl e
         | Inr eff \<Rightarrow> Inr
             \<lparr>nv_row = n, nv_status = node_state now (n_last_heartbeat_at n),
              nv_metrics = Option.bind s reported_metrics, nv_agent_config = config,
              nv_effective_agent_config = eff,
              nv_config_sync_status =
                (case config of
                   None \<Rightarrow> ''pending''
                 | Some c \<Rightarrow> if ac_config_version c = ac_config_version eff then ''synced''
                             else ''out_of_sync''),
              nv_gpus = gpus,
              nv_collector_status =
                unwrap_or (Option.bind s ns_collector_status) (derived_collector_status gpus errors),
              nv_collector_errors = errors\<rparr>)"

fun all_right :: "('e + 'a) list \<Rightarrow> 'e + 'a list" where
  "all_right [] = Inr []"
| "all_right (Inl e # rs) = Inl e"
| "all_right (Inr v # rs) = map_sum id (\<lambda>vs. v # vs) (all_right rs)"

definition list_nodes :: "ext \<Rightarrow> int \<Rightarrow> db \<Rightarrow> string + node_view list" where
  "list_nodes x now d = all_right (map (node_view_of x now d) (sort_key n_name (nodes d)))"

section \<open>Samples and their retention\<close>

fun actual_range :: "int list \<Rightarrow> int option \<times> int option" where
  "actual_range [] = (None, None)"
| "actual_range (v # vs) = (Some (fold min vs v), Some (fold max vs v))"

record 's samples_response =
  sr_actual_from :: "int option"
  sr_actual_to :: "int option"
  sr_sample_count :: nat
  sr_samples :: "'s list"

definition samples_response :: "('s \<Rightarrow> int) \<Rightarrow> 's list \<Rightarrow> 's samples_response" where
  "samples_response at samples =
     \<lparr>sr_actual_from = fst (actual_range (map at samples)),
      sr_actual_to = snd (actual_range (map at samples)),
      sr_sample_count = length samples, sr_samples = samples\<rparr>"

definition get_node_metric_samples ::
  "db \<Rightarrow> string \<Rightarrow> int \<Rightarrow> int \<Rightarrow> node_sample_row samples_response" where
  "get_node_metric_samples d nid from until =
     samples_response nms_sampled_at (sort_key nms_sampled_at
       (filter (\<lambda>s. nms_node_id s = nid \<and> from \<le> nms_sampled_at s \<and> nms_sampled_at s \<le> until)
          (node_metric_samples d)))"

definition get_gpu_metric_samples ::
  "db \<Rightarrow> string \<Rightarrow> string \<Rightarrow> int \<Rightarrow> int \<Rightarrow> gpu_sample_row samples_response" where
  "get_gpu_metric_samples d nid key from until =
     samples_response gms_sampled_at (sort_key gms_sampled_at
       (filter (\<lambda>s. gms_node_id s = nid \<and> gms_gpu_key s = key
                  \<and> from \<le> gms_sampled_at s \<and> gms_sampled_at s \<le> until) (gpu_metric_samples d)))"

definition cleanup_historical_metrics :: "int \<Rightarrow> nat \<Rightarrow> db \<Rightarrow> nat \<times> db" where
  "cleanup_historical_metrics now days d =
     (let cutoff = now - int days * 86400;
          old_node = (\<lambda>s. nms_sampled_at s < cutoff);
          old_gpu = (\<lambda>s. gms_sampled_at s < cutoff)
      in (rows_affected old_node (node_metric_samples d) + rows_affected old_gpu (gpu_metric_samples d),
          d\<lparr>node_metric_samples := delete_where old_node (node_metric_samples d),
            gpu_metric_samples := delete_where old_gpu (gpu_metric_samples d)\<rparr>))"

section \<open>Facts about registration\<close>

definition nodes_ok :: "db \<Rightarrow> bool" where
  "nodes_ok d \<longleftrightarrow> distinct (map n_id (nodes d)) \<and> distinct (map n_name (nodes d))
     \<and> distinct (map n_hostname (nodes d))"

lemma refresh_node_simps [simp]:
  "n_id (refresh_node x now token r n) = n_id n" "n_name (refresh_node x now token r n) = rg_name r"
  "n_hostname (refresh_node x now token r n) = rg_hostname r"
  "n_token_hash (refresh_node x now token r n) = ext_hash_token x token"
  by (simp_all add: refresh_node_def)

lemma new_node_simps [simp]:
  "n_id (new_node x now i token r) = i" "n_name (new_node x now i token r) = rg_name r"
  "n_hostname (new_node x now i token r) = rg_hostname r"
  "n_token_hash (new_node x now i token r) = ext_hash_token x token"
  by (simp_all add: new_node_def)

text \<open>The id a registration ends up with.\<close>

definition register_id :: "string \<Rightarrow> register_request \<Rightarrow> db \<Rightarrow> string" where
  "register_id fresh r d =
     (case find_row (\<lambda>n. n_name n = rg_name r \<and> n_hostname n = rg_hostname r) (nodes d) of
        Some n \<Rightarrow> n_id n | None \<Rightarrow> fresh)"

definition name_conflict :: "register_request \<Rightarrow> db \<Rightarrow> bool" where
  "name_conflict r d \<longleftrightarrow>
     (\<exists>n \<in> set (nodes d). (n_name n = rg_name r) \<noteq> (n_hostname n = rg_hostname r))"

lemma name_conflict_find:
  "\<not> name_conflict r d \<longleftrightarrow>
     find_row (\<lambda>n. n_name n = rg_name r \<and> n_hostname n \<noteq> rg_hostname r) (nodes d) = None
     \<and> find_row (\<lambda>n. n_hostname n = rg_hostname r \<and> n_name n \<noteq> rg_name r) (nodes d) = None"
  by (auto simp: name_conflict_def find_None_iff)

lemma try_register_conflict:
  assumes "name_conflict r d"
  shows "\<exists>e. try_register x now fresh token r d = (Inl e, d)"
  using assms unfolding name_conflict_find [THEN arg_cong [of _ _ Not], simplified]
  by (auto simp: try_register_def split: option.split)

lemma try_register_rows:
  assumes "\<not> name_conflict r d" and "upsert_node x now (register_id fresh r d) token r (nodes d) = Inr rows"
  shows "snd (try_register x now fresh token r d) = d\<lparr>nodes := rows\<rparr>"
  using assms unfolding name_conflict_find
  by (auto simp: try_register_def register_id_def Let_def split: option.splits sum.splits)

lemma upsert_node_lookup:
  assumes "upsert_node x now i token r rows = Inr rows'"
  shows "find_row (\<lambda>n. n_id n = k) rows' =
    (if k = i then Some (case find_row (\<lambda>n. n_id n = i) rows of
                           Some n \<Rightarrow> refresh_node x now token r n | None \<Rightarrow> new_node x now i token r)
     else find_row (\<lambda>n. n_id n = k) rows)"
proof (cases "\<exists>n \<in> set rows. n_id n = i")
  case True
  with assms have rows': "rows' = update_where (\<lambda>n. n_id n = i) (refresh_node x now token r) rows"
    by (auto simp: upsert_node_def split: if_splits)
  have "find_row (\<lambda>n. n_id n = k) rows' =
      map_option (\<lambda>n. if n_id n = i then refresh_node x now token r n else n) (find_row (\<lambda>n. n_id n = k) rows)"
    unfolding rows' by (rule find_update_where) simp
  moreover from True obtain n where "find_row (\<lambda>n. n_id n = i) rows = Some n"
    by (cases "find_row (\<lambda>n. n_id n = i) rows") (auto simp: find_None_iff)
  ultimately show ?thesis
    by (cases "find_row (\<lambda>n. n_id n = k) rows") (auto dest: find_Some_D)
next
  case False
  then have "find_row (\<lambda>n. n_id n = i) rows = None" by (auto simp: find_None_iff)
  with False assms show ?thesis
    by (auto simp: upsert_node_def insert_row_Inr find_append split: option.split)
qed

lemma upsert_node_distinct:
  assumes "upsert_node x now i token r rows = Inr rows'"
    and "distinct (map n_id rows)" and "distinct (map n_name rows)" and "distinct (map n_hostname rows)"
  shows "distinct (map n_id rows') \<and> distinct (map n_name rows') \<and> distinct (map n_hostname rows')"
proof (cases "\<exists>n \<in> set rows. n_id n = i")
  case True
  with assms(1) have rows': "rows' = update_where (\<lambda>n. n_id n = i) (refresh_node x now token r) rows"
    and other: "\<forall>n \<in> set rows. n_id n \<noteq> i \<longrightarrow> n_name n \<noteq> rg_name r"
      "\<forall>n \<in> set rows. n_id n \<noteq> i \<longrightarrow> n_hostname n \<noteq> rg_hostname r"
    by (auto simp: upsert_node_def split: if_splits)
  have "distinct (map n_name rows')" unfolding rows'
    by (rule distinct_rename [OF assms(2,3) other(1)]) simp
  moreover have "distinct (map n_hostname rows')" unfolding rows'
    by (rule distinct_rename [OF assms(2,4) other(2)]) simp
  moreover have "distinct (map n_id rows')" using assms(2) unfolding rows' by (simp add: map_update_where)
  ultimately show ?thesis by blast
next
  case False
  with assms show ?thesis
    by (auto simp: upsert_node_def insert_row_Inr node_clash_def)
qed

text \<open>Without a conflict the unique indices cannot fail: registration always goes through.\<close>

lemma upsert_node_total:
  assumes "nodes_ok d" and "\<not> name_conflict r d" and "node_of d fresh = None"
  shows "\<exists>rows. upsert_node x now (register_id fresh r d) token r (nodes d) = Inr rows"
proof (cases "find_row (\<lambda>n. n_name n = rg_name r \<and> n_hostname n = rg_hostname r) (nodes d)")
  case (Some n)
  note n = find_Some_D [OF Some]
  have "n_name m \<noteq> rg_name r \<and> n_hostname m \<noteq> rg_hostname r"
    if "m \<in> set (nodes d)" "n_id m \<noteq> n_id n" for m
  proof -
    have "n_name m \<noteq> n_name n" "n_hostname m \<noteq> n_hostname n"
      using distinct_key_eq [of n_name "nodes d" n m] distinct_key_eq [of n_hostname "nodes d" n m] n that assms(1)
      by (auto simp: nodes_ok_def)
    with n show ?thesis by simp
  qed
  with n Some show ?thesis by (auto simp: upsert_node_def register_id_def)
next
  case None
  have free: "rg_name r \<noteq> n_name n \<and> rg_hostname r \<noteq> n_hostname n \<and> fresh \<noteq> n_id n"
    if n: "n \<in> set (nodes d)" for n
  proof -
    have "\<not> (n_name n = rg_name r \<and> n_hostname n = rg_hostname r)" using find_None_D [OF None n] by simp
    moreover have "(n_name n = rg_name r) = (n_hostname n = rg_hostname r)"
      using assms(2) n unfolding name_conflict_def by blast
    moreover have "n_id n \<noteq> fresh" using find_None_D [OF assms(3) [unfolded node_of_def] n] by simp
    ultimately show ?thesis by simp
  qed
  then have "insert_row node_clash True (new_node x now fresh token r) (nodes d)
      = Inr (nodes d @ [new_node x now fresh token r])"
    by (auto simp: insert_row_Inr node_clash_def)
  moreover have "\<not> (\<exists>n \<in> set (nodes d). n_id n = fresh)" using free by blast
  ultimately show ?thesis using None by (simp add: upsert_node_def register_id_def)
qed

lemma try_register_nodes:
  "snd (try_register x now fresh token r d) = d
   \<or> (\<exists>rows. \<not> name_conflict r d \<and> upsert_node x now (register_id fresh r d) token r (nodes d) = Inr rows
        \<and> snd (try_register x now fresh token r d) = d\<lparr>nodes := rows\<rparr>)"
proof (cases "name_conflict r d")
  case True
  from try_register_conflict [OF this, of x now fresh token] show ?thesis by auto
next
  case False
  then have none: "find_row (\<lambda>n. n_name n = rg_name r \<and> n_hostname n \<noteq> rg_hostname r) (nodes d) = None"
    "find_row (\<lambda>n. n_hostname n = rg_hostname r \<and> n_name n \<noteq> rg_name r) (nodes d) = None"
    unfolding name_conflict_find by simp_all
  show ?thesis
  proof (cases "upsert_node x now (register_id fresh r d) token r (nodes d)")
    case (Inl e)
    with none have "snd (try_register x now fresh token r d) = d"
      unfolding try_register_def register_id_def by (simp add: Let_def)
    then show ?thesis ..
  next
    case (Inr rows)
    with False try_register_rows [OF False Inr] show ?thesis by blast
  qed
qed

lemma nodes_ok_register:
  assumes "nodes_ok d" shows "nodes_ok (snd (try_register x now fresh token r d))"
  using try_register_nodes [of x now fresh token r d]
proof
  assume "snd (try_register x now fresh token r d) = d"
  with assms show ?thesis by simp
next
  assume "\<exists>rows. \<not> name_conflict r d \<and> upsert_node x now (register_id fresh r d) token r (nodes d) = Inr rows
        \<and> snd (try_register x now fresh token r d) = d\<lparr>nodes := rows\<rparr>"
  then obtain rows where "upsert_node x now (register_id fresh r d) token r (nodes d) = Inr rows"
    and "snd (try_register x now fresh token r d) = d\<lparr>nodes := rows\<rparr>" by blast
  with upsert_node_distinct assms show ?thesis by (simp add: nodes_ok_def)
qed

lemma try_register_Inr:
  assumes "try_register x now fresh token r d = (Inr v, d')"
  shows "rs_node_id v = register_id fresh r d" and "rs_agent_token v = token" and "\<not> name_conflict r d"
    and "\<exists>n. node_of d' (rs_node_id v) = Some n \<and> n_name n = rg_name r \<and> n_hostname n = rg_hostname r
           \<and> n_token_hash n = ext_hash_token x token"
    and "k \<noteq> rs_node_id v \<Longrightarrow> node_of d' k = node_of d k"
proof -
  show "\<not> name_conflict r d"
    using try_register_conflict [of r d x now fresh token] assms by auto
  show id: "rs_node_id v = register_id fresh r d" and "rs_agent_token v = token"
    using assms by (auto simp: try_register_def register_id_def Let_def split: option.splits sum.splits)
  from assms obtain rows where u: "upsert_node x now (register_id fresh r d) token r (nodes d) = Inr rows"
    and d': "d' = d\<lparr>nodes := rows\<rparr>"
    by (auto simp: try_register_def register_id_def Let_def split: option.splits sum.splits)
  note look = upsert_node_lookup [OF u]
  show "\<exists>n. node_of d' (rs_node_id v) = Some n \<and> n_name n = rg_name r \<and> n_hostname n = rg_hostname r
      \<and> n_token_hash n = ext_hash_token x token"
    using look [of "register_id fresh r d"] by (auto simp: node_of_def d' id split: option.split)
  show "k \<noteq> rs_node_id v \<Longrightarrow> node_of d' k = node_of d k"
    using look [of k] by (simp add: node_of_def d' id)
qed

end
