(* ===== verification/Examples.thy ===== *)
theory Examples
  imports Catalog Instances Users PlatformLog Nodes
begin

text \<open>
  A small concrete state of the platform: one online node with one checked runtime, one model
  with one verified file, one local instance that is stopped, one queued task and two accounts.
  The witnesses of the properties evaluate the model on it.
\<close>

definition ex_node :: node_row where
  "ex_node = \<lparr>n_id = ''n1'', n_name = ''gpu-box'', n_hostname = ''host1'', n_agent_version = None,
     n_os = None, n_arch = None, n_token_hash = ''h:agent'', n_token_prefix = ''agent'',
     n_registered_at = 10, n_updated_at = 90, n_last_heartbeat_at = Some 90\<rparr>"

definition ex_runtime :: runtime_row where
  "ex_runtime = \<lparr>re_id = ''r1'', re_node_id = Some ''n1'', re_name = ''llama'',
     re_backend = ''llama_cpp'', re_deploy_type = ''binary'', re_version = None,
     re_base_url = None, re_health_url = None, re_endpoint_url = None,
     re_binary_path = Some ''/bin/l'', re_docker_image = None, re_working_dir = None,
     re_log_dir = None, re_allowed_model_dirs_json = None, re_params_json = None,
     re_enabled = True, re_last_checked_at = None, re_check_status = Some ''available'',
     re_check_message = None, re_created_at = 20, re_updated_at = 20\<rparr>"

definition ex_model :: model_row where
  "ex_model = \<lparr>m_id = ''m1'', m_name = ''qwen'', m_display_name = None, m_model_type = ''llm'',
     m_model_path = None, m_description = None, m_default_backend = None, m_params_json = None,
     m_created_at = 30, m_updated_at = 30, m_deleted_at = None\<rparr>"

definition ex_file :: file_row where
  "ex_file = \<lparr>mf_id = ''f1'', mf_model_id = ''m1'', mf_node_id = ''n1'', mf_path = ''/m/q'',
     mf_path_type = Some ''file'', mf_status = ''verified'', mf_size_bytes = Some 7,
     mf_last_verified_at = Some 31, mf_last_error = None, mf_verify_task_id = None,
     mf_deleted_at = None, mf_created_at = 31, mf_updated_at = 31\<rparr>"

definition ex_instance :: "string \<Rightarrow> instance_row" where
  "ex_instance st = \<lparr>mi_id = ''i1'', mi_model_id = Some ''m1'', mi_model_file_id = Some ''f1'',
     mi_node_id = Some ''n1'', mi_runtime_environment_id = Some ''r1'', mi_name = ''chat'',
     mi_backend = ''llama_cpp'', mi_deploy_type = ''local'', mi_status = st, mi_base_url = None,
     mi_endpoint_url = None, mi_health_url = None, mi_runtime_version = None,
     mi_model_name = None, mi_description = None, mi_params_json = None, mi_process_id = None,
     mi_process_ref = None, mi_log_tail = None, mi_command = None, mi_last_checked_at = None,
     mi_last_error = None, mi_created_at = 40, mi_updated_at = 40\<rparr>"

definition ex_user :: "string \<Rightarrow> string \<Rightarrow> user_row" where
  "ex_user i role = \<lparr>u_id = i, u_username = i, u_password_hash = ''s:'' @ i @ ''-Secret1'',
     u_role = role, u_enabled = True, u_password_changed_at = 5, u_must_change_password = False,
     u_created_at = 5, u_updated_at = 5\<rparr>"

definition ex_session :: session_row where
  "ex_session = \<lparr>us_id = ''s1'', us_user_id = ''bob'', us_token_hash = ''h:tok'',
     us_created_at = 50, us_last_seen_at = 60, us_expires_at = 1000, us_revoked_at = None\<rparr>"

definition ex_task :: task_row where
  "ex_task = new_task 95 ''t1'' ''n1'' ''verify_model_file''
     (demo_print (JObj [(''model_file_id'', JStr ''f1''), (''path'', JStr ''/m/q'')]))"

definition ex_db :: db where
  "ex_db = empty_db\<lparr>nodes := [ex_node], runtime_environments := [ex_runtime],
     models := [ex_model], model_files := [ex_file], model_instances := [ex_instance ''stopped''],
     agent_tasks := [ex_task], users := [ex_user ''ann'' ''admin'', ex_user ''bob'' ''viewer''],
     user_sessions := [ex_session]\<rparr>"

section \<open>Requests\<close>

definition ex_runtime_request :: runtime_request where
  "ex_runtime_request = \<lparr>rr_name = ''llama'', rr_backend = ''llama_cpp'', rr_deploy_type = ''binary'',
     rr_version = None, rr_base_url = None, rr_health_url = None, rr_endpoint_url = None,
     rr_binary_path = Some ''/bin/l'', rr_docker_image = None, rr_working_dir = None,
     rr_log_dir = None, rr_allowed_model_dirs_json = None, rr_params_json = None, rr_enabled = None\<rparr>"

definition ex_result :: "string \<Rightarrow> (string \<times> json) list \<Rightarrow> task_result_request" where
  "ex_result st kvs = \<lparr>tq_node_id = ''n1'', tq_status = st, tq_result = JObj kvs\<rparr>"

definition ex_model_request :: model_request where
  "ex_model_request = \<lparr>mr_name = ''glm'', mr_display_name = None, mr_model_type = ''llm'',
     mr_model_path = None, mr_description = None, mr_default_backend = None, mr_params_json = None,
     mr_initial_file = Some \<lparr>fr_node_id = ''n1'', fr_path = ''/m/g''\<rparr>\<rparr>"

definition ex_instance_request :: instance_request where
  "ex_instance_request = \<lparr>ir_model_id = None, ir_model_file_id = Some ''f1'', ir_node_id = Some ''n1'',
     ir_runtime_environment_id = Some ''r1'', ir_name = ''two'', ir_deploy_type = Some ''local'',
     ir_backend = None, ir_base_url = None, ir_endpoint_url = None, ir_health_url = None,
     ir_runtime_version = None, ir_model_name = None, ir_description = None, ir_status = None,
     ir_params_json = None\<rparr>"

definition ex_instance_update :: instance_update where
  "ex_instance_update = \<lparr>iu_name = Some ''renamed'', iu_backend = None, iu_base_url = None,
     iu_endpoint_url = None, iu_health_url = None, iu_runtime_version = None, iu_model_name = None,
     iu_description = None, iu_status = None, iu_params_json = None\<rparr>"

definition ex_running_db :: db where
  "ex_running_db = ex_db\<lparr>model_instances := [ex_instance ''running'']\<rparr>"

definition ex_register :: register_request where
  "ex_register = \<lparr>rg_name = ''gpu-box'', rg_hostname = ''host1'', rg_agent_version = None,
     rg_os = None, rg_arch = None\<rparr>"

definition ex_trash :: trash_row where
  "ex_trash = \<lparr>tr_id = ''x1'', tr_model_file_id = Some ''f1'', tr_model_id = Some ''m1'',
     tr_node_id = Some ''n1'', tr_path = ''/m/q'', tr_reason = None, tr_status = ''pending'',
     tr_file_deleted_at = None, tr_cleanup_task_id = None, tr_last_error = None, tr_note = None,
     tr_created_at = 70, tr_updated_at = 70\<rparr>"

definition ex_trash_db :: db where
  "ex_trash_db = ex_db\<lparr>model_file_trash := [ex_trash]\<rparr>"

definition ex_log_policy :: log_policy where
  "ex_log_policy = \<lparr>lp_log_dir = ''logs'', lp_log_level = ''info'', lp_log_max_file_bytes = 4,
     lp_log_retention_files = 2, lp_log_retention_days = 0\<rparr>"

text \<open>An operation that succeeded.\<close>

definition succeeds :: "('e + 'a) \<times> db \<Rightarrow> bool" where
  "succeeds r \<longleftrightarrow> (case fst r of Inl _ \<Rightarrow> False | Inr _ \<Rightarrow> True)"

lemma succeedsE:
  assumes "succeeds r" obtains v d' where "r = (Inr v, d')"
  using assms by (cases r) (auto simp: succeeds_def split: sum.splits)

definition ex_report :: "string \<Rightarrow> instance_report" where
  "ex_report st = \<lparr>rp_instance_id = ''i1'', rp_status = st, rp_message = ''seen'', rp_process_id = Some 77,
     rp_process_ref = None, rp_base_url = None, rp_endpoint_url = None, rp_command = None, rp_log_path = None\<rparr>"

definition ex_gpu :: "string \<Rightarrow> gpu_metrics" where
  "ex_gpu k = \<lparr>gx_gpu_key = k, gx_gpu_index = Some 0, gx_vendor = ''nvidia'', gx_name = ''card'',
     gx_uuid = None, gx_driver_version = None, gx_memory_total_bytes = None, gx_memory_used_bytes = None,
     gx_utilization_percent = None, gx_temperature_celsius = None, gx_power_watts = None,
     gx_collector = ''nvidia-smi'', gx_raw_json = None\<rparr>"

definition ex_heartbeat :: "instance_report list \<Rightarrow> gpu_metrics list \<Rightarrow> heartbeat_request" where
  "ex_heartbeat ps gs = \<lparr>hb_node_id = ''n1'', hb_sampled_at = 100,
     hb_metrics = \<lparr>nm_cpu_usage_percent = None, nm_memory_total_bytes = None, nm_memory_used_bytes = None,
       nm_disk_total_bytes = None, nm_disk_used_bytes = None\<rparr>,
     hb_gpus = gs, hb_collector_errors = [], hb_collector_status = ''ok'', hb_agent_config = None,
     hb_managed_instances = ps\<rparr>"

lemma ex_distinct [simp]: "distinct (map mi_id (model_instances ex_running_db))"
  by (simp add: ex_running_db_def)

end
