(* ===== verification/Heartbeats.thy ===== *)
theory Heartbeats
  imports Nodes "HOL-Library.Multiset"
begin

text \<open>
  What a heartbeat does to the database (\<^verbatim>\<open>record_heartbeat\<close> of \<^verbatim>\<open>server/src/repository.rs\<close>): the
  reconciliation of the managed instances as one function on each instance row, the liveness of
  the node, the GPU rows, and the facts about samples and their retention.
\<close>

section \<open>Reconciliation, one row at a time\<close>

definition after_reports :: "string \<Rightarrow> int \<Rightarrow> instance_report list \<Rightarrow> instance_row \<Rightarrow> instance_row" where
  "after_reports nid now ps =
     fold (\<lambda>p r. if mi_id r = rp_instance_id p \<and> managed_by nid r then apply_report now p r else r) ps"

lemma apply_report_simps [simp]:
  "mi_id (apply_report now p r) = mi_id r" "mi_node_id (apply_report now p r) = mi_node_id r"
  "mi_deploy_type (apply_report now p r) = mi_deploy_type r"
  "mi_runtime_environment_id (apply_report now p r) = mi_runtime_environment_id r"
  "mi_status (apply_report now p r) = reported_status (rp_status p)"
  "managed_by nid (apply_report now p r) = managed_by nid r"
  by (simp_all add: apply_report_def managed_by_def Let_def)

lemma fail_unreported_simps [simp]:
  "mi_id (fail_unreported now r) = mi_id r" "mi_status (fail_unreported now r) = ''failed''"
  "managed_by nid (fail_unreported now r) = managed_by nid r"
  "fail_unreported now (fail_unreported now r) = fail_unreported now r"
  "runtime_backend d (fail_unreported now r) = runtime_backend d r"
  by (simp_all add: fail_unreported_def managed_by_def runtime_backend_def)

lemma after_reports_Cons:
  "after_reports nid now (p # ps) r = after_reports nid now ps
     (if mi_id r = rp_instance_id p \<and> managed_by nid r then apply_report now p r else r)"
  by (simp add: after_reports_def)

lemma after_reports_Nil [simp]: "after_reports nid now [] r = r"
  by (simp add: after_reports_def)

lemma after_reports_simps [simp]:
  "mi_id (after_reports nid now ps r) = mi_id r"
  "managed_by nid (after_reports nid now ps r) = managed_by nid r"
  "mi_runtime_environment_id (after_reports nid now ps r) = mi_runtime_environment_id r"
  "runtime_backend d (after_reports nid now ps r) = runtime_backend d r"
  by (induction ps arbitrary: r) (simp_all add: after_reports_Cons runtime_backend_def)

lemma after_reports_unmanaged: "\<not> managed_by nid r \<Longrightarrow> after_reports nid now ps r = r"
  by (induction ps) (simp_all add: after_reports_Cons)

lemma after_reports_unreported:
  "mi_id r \<notin> rp_instance_id ` set ps \<Longrightarrow> after_reports nid now ps r = r"
  by (induction ps) (auto simp: after_reports_Cons)

text \<open>A reported instance has the status of a report about it.\<close>

lemma after_reports_status:
  assumes "managed_by nid r" and "mi_id r \<in> rp_instance_id ` set ps"
  shows "\<exists>p \<in> set ps. rp_instance_id p = mi_id r
    \<and> mi_status (after_reports nid now ps r) = reported_status (rp_status p)"
  using assms
proof (induction ps arbitrary: r)
  case (Cons p ps)
  let ?r = "if mi_id r = rp_instance_id p \<and> managed_by nid r then apply_report now p r else r"
  show ?case
  proof (cases "mi_id r \<in> rp_instance_id ` set ps")
    case True
    with Cons.IH [of ?r] Cons.prems(1) show ?thesis by (auto simp: after_reports_Cons)
  next
    case False
    with Cons.prems have "mi_id r = rp_instance_id p" by auto
    with False Cons.prems(1) after_reports_unreported [of ?r ps nid now] show ?thesis
      by (auto simp: after_reports_Cons)
  qed
qed simp

lemma fold_reconcile_report:
  "fold (reconcile_report nid now) ps d =
     d\<lparr>model_instances := map (after_reports nid now ps) (model_instances d)\<rparr>"
proof (induction ps arbitrary: d)
  case Nil
  then show ?case by (simp add: after_reports_def)
next
  case (Cons p ps)
  have step: "model_instances (reconcile_report nid now p d) = map (\<lambda>r.
      if mi_id r = rp_instance_id p \<and> managed_by nid r then apply_report now p r else r) (model_instances d)"
    by (simp add: reconcile_report_def update_where_def)
  have "fold (reconcile_report nid now) (p # ps) d = (reconcile_report nid now p d)\<lparr>model_instances :=
      map (after_reports nid now ps) (model_instances (reconcile_report nid now p d))\<rparr>"
    using Cons.IH by simp
  also have "\<dots> = d\<lparr>model_instances := map (after_reports nid now (p # ps)) (model_instances d)\<rparr>"
    unfolding step by (simp add: reconcile_report_def after_reports_Cons o_def)
  finally show ?case .
qed

lemma fold_set_instance:
  assumes "\<And>r. mi_id (f r) = mi_id r" and "\<And>r. f (f r) = f r"
  shows "fold (\<lambda>i. set_instance i f) is d =
     d\<lparr>model_instances := map (\<lambda>r. if mi_id r \<in> set is then f r else r) (model_instances d)\<rparr>"
proof (induction "is" arbitrary: d)
  case (Cons i "is")
  show ?case
    by (simp add: Cons.IH) (auto simp: set_instance_def update_where_def assms)
qed simp

definition reconciled :: "string \<Rightarrow> int \<Rightarrow> instance_report list \<Rightarrow> db \<Rightarrow> instance_row \<Rightarrow> instance_row" where
  "reconciled nid now ps d r =
     (let q = after_reports nid now ps r
      in if unreported nid (map rp_instance_id ps) d q then fail_unreported now q else q)"

lemma unreported_same_runtimes:
  assumes "runtime_environments d' = runtime_environments d"
  shows "unreported nid ids d' r = unreported nid ids d r"
proof -
  have "runtime_of d' = runtime_of d" using assms by (simp add: runtime_of_def fun_eq_iff)
  then show ?thesis by (simp add: unreported_def runtime_backend_def)
qed

lemma reconcile_pointwise:
  assumes "distinct (map mi_id (model_instances d))"
  shows "reconcile_managed_instances nid ps now d =
    d\<lparr>model_instances := map (reconciled nid now ps d) (model_instances d)\<rparr>"
proof -
  let ?d1 = "d\<lparr>model_instances := map (after_reports nid now ps) (model_instances d)\<rparr>"
  let ?bad = "unreported nid (map rp_instance_id ps) ?d1"
  let ?ids = "map mi_id (filter ?bad (model_instances ?d1))"
  have bad: "?bad = unreported nid (map rp_instance_id ps) d"
    by (rule ext, rule unreported_same_runtimes) simp
  have ids: "mi_id q \<in> set ?ids \<longleftrightarrow> ?bad q" if "q \<in> set (model_instances ?d1)" for q
  proof
    assume "mi_id q \<in> set ?ids"
    then obtain p where "p \<in> set (filter ?bad (model_instances ?d1))" "mi_id q = mi_id p"
      unfolding set_map by (rule imageE) simp
    then have p: "p \<in> set (model_instances ?d1)" "?bad p" and pid: "mi_id p = mi_id q"
      unfolding set_filter by (blast, blast, simp)
    have "distinct (map mi_id (model_instances ?d1))" using assms by (simp add: o_def)
    from distinct_key_eq [OF this that p(1)] p pid show "?bad q" by simp
  qed (use that in auto)
  let ?f = "\<lambda>r. if mi_id r \<in> set ?ids then fail_unreported now r else r"
  have one: "?f (after_reports nid now ps r) = reconciled nid now ps d r" if "r \<in> set (model_instances d)" for r
  proof -
    from that have "after_reports nid now ps r \<in> set (model_instances ?d1)" by simp
    from ids [OF this] show ?thesis unfolding reconciled_def Let_def bad by (simp only:)
  qed
  have all: "map ?f (model_instances ?d1) = map (reconciled nid now ps d) (model_instances d)"
  proof (rule nth_equalityI)
    fix k assume "k < length (map ?f (model_instances ?d1))"
    then have k: "k < length (model_instances d)" by simp
    with one [OF nth_mem [OF k]] show "map ?f (model_instances ?d1) ! k = map (reconciled nid now ps d) (model_instances d) ! k"
      by (simp del: set_map)
  qed simp
  have "reconcile_managed_instances nid ps now d = fold (\<lambda>i. set_instance i (fail_unreported now)) ?ids ?d1"
    by (simp add: reconcile_managed_instances_def Let_def fold_reconcile_report)
  also have "\<dots> = ?d1\<lparr>model_instances := map ?f (model_instances ?d1)\<rparr>"
    by (rule fold_set_instance) simp_all
  also have "\<dots> = d\<lparr>model_instances := map (reconciled nid now ps d) (model_instances d)\<rparr>"
    unfolding all by simp
  finally show ?thesis .
qed

text \<open>No managed instance stays active on the server's side unless the agent reported it running.\<close>

lemma reconciled_active:
  assumes "managed_by nid r" and "mi_status (reconciled nid now ps d r) \<in> {''starting'', ''running'', ''stopping''}"
    and "runtime_backend d r \<noteq> Some ''ollama''"
  shows "\<exists>p \<in> set ps. rp_instance_id p = mi_id r \<and> rp_status p = ''running''"
proof -
  let ?q = "after_reports nid now ps r"
  have act: "mi_status ?q \<in> {''starting'', ''running'', ''stopping''}"
    and nu: "\<not> unreported nid (map rp_instance_id ps) d ?q"
    using assms(2) by (auto simp: reconciled_def Let_def split: if_splits)
  have "runtime_backend d ?q = runtime_backend d r" by (simp add: runtime_backend_def)
  with act nu assms(1,3) have "mi_id r \<in> rp_instance_id ` set ps" by (auto simp: unreported_def)
  with after_reports_status [OF assms(1), of ps now] obtain p where
    p: "p \<in> set ps" "rp_instance_id p = mi_id r" "mi_status ?q = reported_status (rp_status p)" by blast
  with act have "rp_status p = ''running''" by (auto simp: reported_status_def split: if_splits)
  with p show ?thesis by blast
qed

lemma reconciled_unmanaged: "\<not> managed_by nid r \<Longrightarrow> reconciled nid now ps d r = r"
  by (simp add: reconciled_def Let_def after_reports_unmanaged unreported_def)

lemma reconciled_simps [simp]:
  "mi_id (reconciled nid now ps d r) = mi_id r"
  "managed_by nid (reconciled nid now ps d r) = managed_by nid r"
  "runtime_backend d' (reconciled nid now ps d r) = runtime_backend d' r"
  by (simp_all add: reconciled_def Let_def)

section \<open>The whole heartbeat\<close>

definition gpus_reported :: "string \<Rightarrow> int \<Rightarrow> gpu_metrics list \<Rightarrow> gpu_status_row list \<Rightarrow> gpu_status_row list" where
  "gpus_reported nid at =
     fold (\<lambda>g. upsert_row (\<lambda>q. g_node_id q = nid \<and> g_gpu_key q = gx_gpu_key g)
                 (\<lambda>_. gpu_row nid at g) (gpu_row nid at g))"

lemma fold_gpus:
  "\<exists>ss. fold (\<lambda>g d. insert_gpu_sample nid at g (upsert_gpu_status nid at g d)) gs d
     = d\<lparr>gpu_status := gpus_reported nid at gs (gpu_status d), gpu_metric_samples := ss\<rparr>"
proof (induction gs arbitrary: d)
  case Nil
  have "d = d\<lparr>gpu_status := gpu_status d, gpu_metric_samples := gpu_metric_samples d\<rparr>" by simp
  then show ?case unfolding gpus_reported_def fold_simps(1) id_apply by blast
next
  case (Cons g gs)
  let ?d = "insert_gpu_sample nid at g (upsert_gpu_status nid at g d)"
  from Cons.IH [of ?d] obtain ss where
    "fold (\<lambda>g d. insert_gpu_sample nid at g (upsert_gpu_status nid at g d)) gs ?d
       = ?d\<lparr>gpu_status := gpus_reported nid at gs (gpu_status ?d), gpu_metric_samples := ss\<rparr>" by blast
  then show ?case
    by (simp add: gpus_reported_def insert_gpu_sample_def upsert_gpu_status_def) blast
qed

lemma heartbeat_tables:
  assumes "record_heartbeat x now h d = (Inr u, d')" and "distinct (map mi_id (model_instances d))"
  shows "node_exists d (hb_node_id h)"
    and "nodes d' = nodes (touch_node now h d)"
    and "model_instances d' = map (reconciled (hb_node_id h) now (hb_managed_instances h) d) (model_instances d)"
    and "gpu_status d' = (if hb_collector_errors h = []
          then update_where (\<lambda>q. g_node_id q = hb_node_id h \<and> g_updated_at q < hb_sampled_at h)
                 (\<lambda>q. q\<lparr>g_status := Some ''missing'',
                        g_last_error := Some ''device not found in latest discovery'',
                        g_updated_at := hb_sampled_at h\<rparr>)
          else (\<lambda>gs. gs)) (gpus_reported (hb_node_id h) (hb_sampled_at h) (hb_gpus h) (gpu_status d))"
    and "runtime_environments d' = runtime_environments d" and "agent_tasks d' = agent_tasks d"
    and "models d' = models d" and "accounts d' = accounts d"
proof -
  let ?nid = "hb_node_id h" and ?at = "hb_sampled_at h" and ?ps = "hb_managed_instances h"
  let ?d1 = "upsert_node_status x h (touch_node now h d)"
  let ?d2 = "?d1\<lparr>node_metric_samples := node_metric_samples ?d1 @ [node_sample h]\<rparr>"
  obtain ss where gpus: "record_gpus h ?d2
      = ?d2\<lparr>gpu_status := gpus_reported ?nid ?at (hb_gpus h) (gpu_status ?d2), gpu_metric_samples := ss\<rparr>"
    unfolding record_gpus_def using fold_gpus [of ?nid ?at "hb_gpus h" ?d2] by blast
  let ?d3 = "record_gpus h ?d2"
  let ?d4 = "if hb_collector_errors h = [] then mark_missing_gpus ?nid ?at ?d3 else ?d3"
  have same: "model_instances ?d4 = model_instances d" "runtime_environments ?d4 = runtime_environments d"
    "nodes ?d4 = nodes (touch_node now h d)" "agent_tasks ?d4 = agent_tasks d" "models ?d4 = models d"
    "accounts ?d4 = accounts d"
    unfolding gpus by (simp_all add: mark_missing_gpus_def upsert_node_status_def touch_node_def Let_def accounts_def)
  from assms(1) show "node_exists d ?nid" by (auto simp: record_heartbeat_def Let_def split: if_splits)
  with assms(1) have "d' = reconcile_managed_instances ?nid ?ps now ?d4"
    unfolding record_heartbeat_def Let_def by simp
  then have d': "d' = ?d4\<lparr>model_instances := map (reconciled ?nid now ?ps ?d4) (model_instances ?d4)\<rparr>"
    using reconcile_pointwise [of ?d4 ?nid ?ps now] assms(2) same(1) by simp
  have rec: "reconciled ?nid now ?ps ?d4 = reconciled ?nid now ?ps d"
    unfolding reconciled_def Let_def unreported_same_runtimes [OF same(2)] ..
  show "model_instances d' = map (reconciled ?nid now ?ps d) (model_instances d)"
    unfolding d' rec same(1) by simp
  show "nodes d' = nodes (touch_node now h d)" "runtime_environments d' = runtime_environments d"
    "agent_tasks d' = agent_tasks d" "models d' = models d" "accounts d' = accounts d"
    unfolding d' using same(2-6) by (simp_all add: accounts_def)
  have g: "gpu_status ?d3 = gpus_reported ?nid ?at (hb_gpus h) (gpu_status d)"
    unfolding gpus by (simp add: upsert_node_status_def touch_node_def Let_def)
  show "gpu_status d' = (if hb_collector_errors h = []
          then update_where (\<lambda>q. g_node_id q = ?nid \<and> g_updated_at q < ?at)
                 (\<lambda>q. q\<lparr>g_status := Some ''missing'',
                        g_last_error := Some ''device not found in latest discovery'',
                        g_updated_at := ?at\<rparr>)
          else (\<lambda>gs. gs)) (gpus_reported ?nid ?at (hb_gpus h) (gpu_status d))"
    unfolding d' by (simp add: mark_missing_gpus_def g)
qed

lemma heartbeat_unknown_node:
  "\<not> node_exists d (hb_node_id h) \<Longrightarrow> record_heartbeat x now h d = (Inl (sql_message ForeignKeyFailed), d)"
  by (simp add: record_heartbeat_def)

lemma heartbeat_node_online:
  assumes "record_heartbeat x now h d = (Inr u, d')" and "distinct (map mi_id (model_instances d))"
    and "later - hb_sampled_at h \<le> ONLINE_THRESHOLD"
  shows "node_online d' later (hb_node_id h)"
proof -
  have "\<exists>n. find (\<lambda>n. n_id n = hb_node_id h) (nodes d) = Some n"
    using heartbeat_tables(1) [OF assms(1,2)] by (cases "find (\<lambda>n. n_id n = hb_node_id h) (nodes d)")
      (auto simp: node_exists_def find_None_iff)
  then obtain n where n: "find (\<lambda>n. n_id n = hb_node_id h) (nodes d) = Some n" by blast
  have "find (\<lambda>n. n_id n = hb_node_id h) (nodes d')
      = Some (n\<lparr>n_updated_at := now, n_last_heartbeat_at := Some (hb_sampled_at h)\<rparr>)"
    unfolding heartbeat_tables(2) [OF assms(1,2)] touch_node_def
    using n find_Some_D [OF n] by (simp add: find_update_where)
  with assms(3) show ?thesis by (auto simp: node_online_def)
qed

text \<open>GPUs: what was reported is stored and not marked missing.\<close>

lemma upsert_memberD:
  assumes "g \<in> set (upsert_row same (\<lambda>_. r) r rows)"
  shows "g = r \<or> g \<in> set rows"
proof (cases "\<exists>q \<in> set rows. same q")
  case True
  with assms have "g \<in> set (update_where same (\<lambda>_. r) rows)" by (simp add: upsert_row_def)
  then show ?thesis by (rule update_whereE) (simp split: if_splits)
next
  case False
  with assms show ?thesis by (auto simp: upsert_row_def)
qed

lemma gpus_reported_other:
  "g \<in> set (gpus_reported nid at gs rows) \<Longrightarrow> g_node_id g = nid \<Longrightarrow> g_gpu_key g \<notin> gx_gpu_key ` set gs \<Longrightarrow> g \<in> set rows"
proof (induction gs arbitrary: rows)
  case (Cons m gs)
  let ?rows = "upsert_row (\<lambda>q. g_node_id q = nid \<and> g_gpu_key q = gx_gpu_key m)
      (\<lambda>_. gpu_row nid at m) (gpu_row nid at m) rows"
  have "gpus_reported nid at (m # gs) rows = gpus_reported nid at gs ?rows"
    by (simp add: gpus_reported_def)
  with Cons.prems(1) have "g \<in> set (gpus_reported nid at gs ?rows)" by (simp only:)
  moreover have "g_gpu_key g \<notin> gx_gpu_key ` set gs" using Cons.prems(3) by simp
  ultimately have "g \<in> set ?rows" using Cons.IH Cons.prems(2) by blast
  then have "g = gpu_row nid at m \<or> g \<in> set rows" by (rule upsert_memberD)
  moreover have "g \<noteq> gpu_row nid at m" using Cons.prems(3) by (auto simp: gpu_row_def)
  ultimately show ?case by blast
qed (simp add: gpus_reported_def)

lemma heartbeat_gpus_fresh:
  assumes "record_heartbeat x now h d = (Inr u, d')" and "distinct (map mi_id (model_instances d))"
    and "hb_collector_errors h = []" and "g \<in> set (gpu_status d')" and "g_node_id g = hb_node_id h"
  shows "hb_sampled_at h \<le> g_updated_at g"
  using assms(3-5) unfolding heartbeat_tables(4) [OF assms(1,2)]
  by (auto elim!: update_whereE split: if_splits)

lemma heartbeat_gpu_missing:
  assumes "record_heartbeat x now h d = (Inr u, d')" and "distinct (map mi_id (model_instances d))"
    and "g \<in> set (gpu_status d')" and "g_node_id g = hb_node_id h" and "g \<notin> set (gpu_status d)"
    and "g_gpu_key g \<notin> gx_gpu_key ` set (hb_gpus h)"
  shows "hb_collector_errors h = [] \<and> g_status g = Some ''missing''"
proof (cases "hb_collector_errors h = []")
  case True
  from assms(3) True obtain q where
    q: "q \<in> set (gpus_reported (hb_node_id h) (hb_sampled_at h) (hb_gpus h) (gpu_status d))"
    "g = (if g_node_id q = hb_node_id h \<and> g_updated_at q < hb_sampled_at h
          then q\<lparr>g_status := Some ''missing'', g_last_error := Some ''device not found in latest discovery'',
                 g_updated_at := hb_sampled_at h\<rparr> else q)"
    unfolding heartbeat_tables(4) [OF assms(1,2)] by (auto elim!: update_whereE)
  show ?thesis
  proof (cases "g = q")
    case True
    with q(1) assms(4,6) have "g \<in> set (gpu_status d)" by (blast intro: gpus_reported_other)
    with assms(5) show ?thesis by simp
  next
    case False
    with q(2) have "g_status g = Some ''missing''" by (auto split: if_splits)
    with True show ?thesis by simp
  qed
next
  case False
  with assms(3) have "g \<in> set (gpus_reported (hb_node_id h) (hb_sampled_at h) (hb_gpus h) (gpu_status d))"
    unfolding heartbeat_tables(4) [OF assms(1,2)] by simp
  from gpus_reported_other [OF this assms(4,6)] assms(5) show ?thesis by simp
qed

section \<open>Samples\<close>

lemma cleanup_keeps_recent:
  assumes "cleanup_historical_metrics now days d = (n, d')"
  shows "node_metric_samples d' = filter (\<lambda>s. now - int days * 86400 \<le> nms_sampled_at s) (node_metric_samples d)"
    and "gpu_metric_samples d' = filter (\<lambda>s. now - int days * 86400 \<le> gms_sampled_at s) (gpu_metric_samples d)"
    and "n + length (node_metric_samples d') + length (gpu_metric_samples d')
          = length (node_metric_samples d) + length (gpu_metric_samples d)"
proof -
  have len: "length (filter p rs) + length (delete_where p rs) = length rs" for p and rs :: "'a list"
    unfolding delete_where_def by (rule sum_length_filter_compl)
  show "node_metric_samples d' = filter (\<lambda>s. now - int days * 86400 \<le> nms_sampled_at s) (node_metric_samples d)"
    "gpu_metric_samples d' = filter (\<lambda>s. now - int days * 86400 \<le> gms_sampled_at s) (gpu_metric_samples d)"
    using assms by (auto simp: cleanup_historical_metrics_def Let_def delete_where_def not_less)
  show "n + length (node_metric_samples d') + length (gpu_metric_samples d')
          = length (node_metric_samples d) + length (gpu_metric_samples d)"
    using assms len [of "\<lambda>s. nms_sampled_at s < now - int days * 86400" "node_metric_samples d"]
      len [of "\<lambda>s. gms_sampled_at s < now - int days * 86400" "gpu_metric_samples d"]
    by (auto simp: cleanup_historical_metrics_def Let_def rows_affected_def)
qed

lemma fold_min_le: "fold min vs v \<le> (v :: int) \<and> (\<forall>w \<in> set vs. fold min vs v \<le> w) \<and> fold min vs v \<in> insert v (set vs)"
proof (induction vs arbitrary: v)
  case (Cons w vs)
  from Cons [of "min w v"] show ?case by (auto simp: min_def split: if_splits)
qed simp

lemma fold_max_ge_all: "v \<le> fold max vs (v :: int) \<and> (\<forall>w \<in> set vs. w \<le> fold max vs v) \<and> fold max vs v \<in> insert v (set vs)"
proof (induction vs arbitrary: v)
  case (Cons w vs)
  from Cons [of "max w v"] show ?case by (auto simp: max_def split: if_splits)
qed simp

lemma actual_range_tight:
  assumes "actual_range vs = (Some a, Some b)"
  shows "a \<in> set vs \<and> b \<in> set vs \<and> (\<forall>v \<in> set vs. a \<le> v \<and> v \<le> b)"
  using assms fold_min_le [of "tl vs" "hd vs"] fold_max_ge_all [of "hd vs" "tl vs"]
  by (cases vs) auto

lemma actual_range_sorted:
  assumes "sorted vs" and "vs \<noteq> []"
  shows "actual_range vs = (Some (hd vs), Some (last vs))"
proof -
  obtain a b where r: "actual_range vs = (Some a, Some b)" using assms(2) by (cases vs) auto
  have ends: "\<forall>v \<in> set vs. hd vs \<le> v \<and> v \<le> last vs" "hd vs \<in> set vs" "last vs \<in> set vs"
    using assms by (induction vs) auto
  have "a = hd vs" "b = last vs" using actual_range_tight [OF r] ends by (auto intro: order_antisym)
  with r show ?thesis by simp
qed

end
