(* ===== verification/GatewayTasks.thy ===== *)
theory GatewayTasks
  imports Instances
begin

text \<open>
  \<^verbatim>\<open>server/src/domain/gateway.rs\<close>: starting, stopping, restarting and checking the gateway process
  of a node and reading its log, each as a task for the node's agent. The request is validated before
  anything is queued: the health URL must point at the loopback interface. The host text of an IPv6
  URL carries brackets (\<^verbatim>\<open>url\<close> crate), so the entry \<open>::1\<close> of the list matches no URL.
\<close>

section \<open>Requests and answers\<close>

record gateway_request =
  gq_binary_path :: "string option"
  gq_config_path :: "string option"
  gq_work_dir :: "string option"
  gq_log_path :: "string option"
  gq_state_path :: "string option"
  gq_health_url :: "string option"
  gq_max_bytes :: "int option"

record gateway_response =
  gr_gateway_status :: string
  gr_message :: string
  gr_process_id :: "int option"
  gr_process_ref :: "string option"
  gr_health_url :: "string option"
  gr_log_tail :: "string option"
  gr_command :: "string option"

text \<open>A struct is read from an object, or from an array of its fields in order.\<close>

definition struct_form :: "string list \<Rightarrow> json \<Rightarrow> json option" where
  "struct_form names v =
     (case v of
        JObj kvs \<Rightarrow> Some v
      | JArr xs \<Rightarrow> if length xs = length names then Some (JObj (zip names xs)) else None
      | _ \<Rightarrow> None)"

definition gateway_of_json :: "json \<Rightarrow> gateway_response option" where
  "gateway_of_json j =
     Option.bind (struct_form [''gateway_status'', ''message'', ''process_id'', ''process_ref'',
                               ''health_url'', ''log_tail'', ''command''] j) (\<lambda>v.
     Option.bind (get_str v ''gateway_status'') (\<lambda>st.
     Option.bind (get_str v ''message'') (\<lambda>m.
     Option.bind (read_opt as_i64 v ''process_id'') (\<lambda>pid.
     Option.bind (read_opt as_str v ''process_ref'') (\<lambda>ref.
     Option.bind (read_opt as_str v ''health_url'') (\<lambda>url.
     Option.bind (read_opt as_str v ''log_tail'') (\<lambda>tail.
     Option.bind (read_opt as_str v ''command'') (\<lambda>cmd.
     Some \<lparr>gr_gateway_status = st, gr_message = m, gr_process_id = pid, gr_process_ref = ref,
           gr_health_url = url, gr_log_tail = tail, gr_command = cmd\<rparr>))))))))"

section \<open>Validation\<close>

definition validate_required_path :: "string \<Rightarrow> string option \<Rightarrow> domain_error option" where
  "validate_required_path field v =
     (case v of
        None \<Rightarrow> Some (BadRequest (field @ '' is required''))
      | Some p \<Rightarrow> validate_path field p)"

definition loopback_hosts :: "string list" where
  "loopback_hosts = [''127.0.0.1'', ''localhost'', ''::1'']"

definition validate_required_url :: "ext \<Rightarrow> string \<Rightarrow> string option \<Rightarrow> domain_error option" where
  "validate_required_url x field v =
     (case v of
        None \<Rightarrow> Some (BadRequest (field @ '' is required''))
      | Some text \<Rightarrow>
     (case ext_url x text of
        None \<Rightarrow> Some (BadRequest (field @ '' is invalid''))
      | Some u \<Rightarrow> first_error [
          if url_scheme u = ''http'' \<or> url_scheme u = ''https'' then None
          else Some (BadRequest (field @ '' must use http:// or https://'')),
          if url_host u \<in> Some ` set loopback_hosts then None
          else Some (BadRequest (field @ '' must target localhost or loopback'')),
          if url_path u \<noteq> ''/health'' then Some (BadRequest (field @ '' path must be /health''))
          else None,
          if url_query u \<noteq> None
          then Some (BadRequest (field @ '' must not include query parameters'')) else None]))"

definition starts_gateway :: "string \<Rightarrow> bool" where
  "starts_gateway kind \<longleftrightarrow> kind = ''start_gateway'' \<or> kind = ''restart_gateway''"

definition validate_gateway_request :: "ext \<Rightarrow> string \<Rightarrow> gateway_request \<Rightarrow> domain_error option" where
  "validate_gateway_request x kind q =
     (if starts_gateway kind then first_error [
        validate_required_path ''binary_path'' (gq_binary_path q),
        validate_required_path ''config_path'' (gq_config_path q),
        validate_required_path ''work_dir'' (gq_work_dir q),
        validate_required_path ''log_path'' (gq_log_path q),
        validate_required_url x ''health_url'' (gq_health_url q)]
      else if kind \<in> {''stop_gateway'', ''check_gateway'', ''read_gateway_log''} then None
      else Some (BadRequest ''Gateway task kind is invalid''))"

definition ensure_node_can_run_gateway_task :: "db \<Rightarrow> int \<Rightarrow> string \<Rightarrow> domain_error option" where
  "ensure_node_can_run_gateway_task d now nid =
     (if \<not> node_exists d nid then Some (NotFound ''node not found'')
      else if \<not> node_online d now nid
      then Some (Conflict ''Node Agent offline, cannot execute Gateway task'') else None)"

definition insert_opt :: "string \<Rightarrow> string option \<Rightarrow> (string \<times> json) list" where
  "insert_opt k v = (case v of None \<Rightarrow> [] | Some s \<Rightarrow> [(k, JStr s)])"

definition gateway_payload :: "string \<Rightarrow> gateway_request \<Rightarrow> json" where
  "gateway_payload kind q = JObj
     ((if starts_gateway kind then
         insert_opt ''binary_path'' (gq_binary_path q) @ insert_opt ''config_path'' (gq_config_path q)
         @ insert_opt ''work_dir'' (gq_work_dir q) @ insert_opt ''log_path'' (gq_log_path q)
         @ insert_opt ''health_url'' (gq_health_url q)
       else [])
      @ (case gq_max_bytes q of None \<Rightarrow> [] | Some n \<Rightarrow> [(''max_bytes'', JInt n)]))"

section \<open>Running a task\<close>

definition gateway_response_from_row :: "ext \<Rightarrow> task_row \<Rightarrow> domain_error + gateway_response" where
  "gateway_response_from_row x t =
     (case t_result_json t of
        None \<Rightarrow> Inl (Conflict ''Gateway task has no result'')
      | Some text \<Rightarrow>
          (case Option.bind (ext_jparse x text) gateway_of_json of
             None \<Rightarrow> Inl (Internal ''invalid Gateway result'')
           | Some r \<Rightarrow> Inr r))"

definition gateway_timed_out :: domain_error where
  "gateway_timed_out = Conflict ''Gateway task timed out; confirm Agent is online and retry''"

definition gateway_failure :: "ext \<Rightarrow> task_row \<Rightarrow> string" where
  "gateway_failure x t =
     (case gateway_response_from_row x t of
        Inr r \<Rightarrow> gr_message r
      | Inl _ \<Rightarrow> unwrap_or (t_error_message t) ''Gateway task failed'')"

definition wait_for_gateway_task ::
  "ext \<Rightarrow> int \<Rightarrow> string \<Rightarrow> (db \<Rightarrow> db) list \<Rightarrow> db \<Rightarrow> (domain_error + gateway_response) \<times> db" where
  "wait_for_gateway_task x later tid es d =
     (case wait_task tid es d of
        (Ended t, d1) \<Rightarrow>
          ((if t_status t = ''succeeded'' then gateway_response_from_row x t
            else if t_status t = ''failed'' then Inl (Conflict (gateway_failure x t))
            else Inl gateway_timed_out), d1)
      | (DeadlinePassed, d1) \<Rightarrow> (Inl gateway_timed_out, mark_task_timed_out later tid d1)
      | (RowMissing, d1) \<Rightarrow> (Inl (Internal ''no rows returned''), d1))"

definition run_gateway_task ::
  "ext \<Rightarrow> int \<Rightarrow> int \<Rightarrow> string \<Rightarrow> (db \<Rightarrow> db) list \<Rightarrow> string \<Rightarrow> string \<Rightarrow> gateway_request \<Rightarrow> db
   \<Rightarrow> (domain_error + gateway_response) \<times> db" where
  "run_gateway_task x now later tid es nid kind q d =
     (case first_error [ensure_node_can_run_gateway_task d now nid, validate_gateway_request x kind q] of
        Some e \<Rightarrow> (Inl e, d)
      | None \<Rightarrow>
          (case queue_task x now tid nid kind (gateway_payload kind q) d of
             Inl e \<Rightarrow> (Inl (of_sql e), d)
           | Inr d1 \<Rightarrow> wait_for_gateway_task x later tid es d1))"

definition start_gateway where
  "start_gateway x now later tid es nid = run_gateway_task x now later tid es nid ''start_gateway''"

definition stop_gateway where
  "stop_gateway x now later tid es nid = run_gateway_task x now later tid es nid ''stop_gateway''"

definition restart_gateway where
  "restart_gateway x now later tid es nid = run_gateway_task x now later tid es nid ''restart_gateway''"

definition check_gateway where
  "check_gateway x now later tid es nid = run_gateway_task x now later tid es nid ''check_gateway''"

definition read_gateway_log where
  "read_gateway_log x now later tid es nid = run_gateway_task x now later tid es nid ''read_gateway_log''"

section \<open>Facts\<close>

lemma validate_required_path_None:
  "validate_required_path field v = None \<longleftrightarrow> (\<exists>p. v = Some p \<and> validate_path field p = None)"
  by (auto simp: validate_required_path_def split: option.split)

lemma validate_required_url_None:
  "validate_required_url x field v = None \<longleftrightarrow>
     (\<exists>text u. v = Some text \<and> ext_url x text = Some u \<and> (url_scheme u = ''http'' \<or> url_scheme u = ''https'')
        \<and> url_host u \<in> Some ` set loopback_hosts \<and> url_path u = ''/health'' \<and> url_query u = None)"
  unfolding validate_required_url_def by (auto simp: first_error_Cons split: option.split)

text \<open>What the agent will find in the payload of a start or restart.\<close>

definition gateway_fields :: "gateway_request \<Rightarrow> (string \<times> string option) list" where
  "gateway_fields q = [(''binary_path'', gq_binary_path q), (''config_path'', gq_config_path q),
     (''work_dir'', gq_work_dir q), (''log_path'', gq_log_path q), (''health_url'', gq_health_url q)]"

lemma map_of_insert_opt:
  "map_of (insert_opt k v @ r) k' = (if k' = k \<and> v \<noteq> None then map_option JStr v else map_of r k')"
  by (cases v) (auto simp: insert_opt_def)

lemma map_of_members:
  assumes "distinct (map fst fs)" and "(k, v) \<in> set fs" and "map_of r k = None"
  shows "map_of (concat (map (\<lambda>(k, v). insert_opt k v) fs) @ r) k = map_option JStr v"
  using assms(1,2)
proof (induction fs)
  case (Cons f fs)
  have other: "map_of (concat (map (\<lambda>(k, v). insert_opt k v) gs) @ r) k = None" if "k \<notin> fst ` set gs" for gs
    using that by (induction gs) (auto simp: assms(3) map_of_insert_opt simp del: map_of_append)
  obtain k' v' where f: "f = (k', v')" by (cases f)
  show ?case
  proof (cases "k' = k")
    case True
    with Cons.prems f have "v' = v" "k \<notin> fst ` set fs" by force+
    with True f other [of fs] show ?thesis by (cases v) (simp_all add: map_of_insert_opt del: map_of_append)
  next
    case False
    with Cons f show ?thesis by (simp add: map_of_insert_opt del: map_of_append)
  qed
qed simp

lemma gateway_payload_members:
  assumes "starts_gateway kind" and "(k, v) \<in> set (gateway_fields q)"
  shows "get_str (gateway_payload kind q) k = v"
proof -
  let ?r = "case gq_max_bytes q of None \<Rightarrow> [] | Some n \<Rightarrow> [(''max_bytes'', JInt n)]"
  have p: "gateway_payload kind q = JObj (concat (map (\<lambda>(k, v). insert_opt k v) (gateway_fields q)) @ ?r)"
    unfolding gateway_payload_def gateway_fields_def by (simp only: assms(1) if_True list.map concat.simps prod.case append.simps append_assoc append_Nil2)
  have "distinct (map fst (gateway_fields q))" by (simp add: gateway_fields_def)
  moreover have "''max_bytes'' \<notin> fst ` set (gateway_fields q)" by (simp add: gateway_fields_def)
  with assms(2) have "k \<noteq> ''max_bytes''" by force
  then have "map_of ?r k = None" by (cases "gq_max_bytes q") simp_all
  ultimately have "map_of (concat (map (\<lambda>(k, v). insert_opt k v) (gateway_fields q)) @ ?r) k = map_option JStr v"
    using assms(2) by (intro map_of_members)
  then show ?thesis unfolding p get_str_def jget.simps by (cases v) (simp_all del: map_of_append)
qed

lemma gateway_payload_stop:
  "\<not> starts_gateway kind \<Longrightarrow> k \<noteq> ''max_bytes'' \<Longrightarrow> jget (gateway_payload kind q) k = None"
  by (simp add: gateway_payload_def split: option.split)

lemma validated_start:
  assumes "validate_gateway_request x kind q = None" and "starts_gateway kind"
  shows "(\<forall>(k, v) \<in> set (gateway_fields q). \<exists>s. v = Some s \<and> (k \<noteq> ''health_url'' \<longrightarrow> validate_path k s = None))
    \<and> validate_required_url x ''health_url'' (gq_health_url q) = None"
  using assms
  by (auto simp: validate_gateway_request_def first_error_None gateway_fields_def
      validate_required_path_None validate_required_url_None)

lemma run_gateway_queued:
  assumes "run_gateway_task x now later tid es nid kind q d = (r, d')" and "d' \<noteq> d"
  shows "node_online d now nid \<and> validate_gateway_request x kind q = None
    \<and> (\<exists>d1. queue_task x now tid nid kind (gateway_payload kind q) d = Inr d1
        \<and> wait_for_gateway_task x later tid es d1 = (r, d'))"
  using assms unfolding run_gateway_task_def
  by (auto simp: first_error_Cons ensure_node_can_run_gateway_task_def split: option.splits sum.splits if_splits)

lemma run_gateway_Inr:
  assumes "run_gateway_task x now later tid es nid kind q d = (Inr r, d')"
  shows "node_online d now nid \<and> validate_gateway_request x kind q = None
    \<and> (\<exists>d1 t. queue_task x now tid nid kind (gateway_payload kind q) d = Inr d1
        \<and> wait_task tid es d1 = (Ended t, d') \<and> t_status t = ''succeeded''
        \<and> gateway_response_from_row x t = Inr r)"
  using assms unfolding run_gateway_task_def wait_for_gateway_task_def
  by (auto simp: first_error_Cons ensure_node_can_run_gateway_task_def
      split: option.splits sum.splits if_splits prod.splits wait_end.splits)

text \<open>The task behind an answer, when nothing but the agent protocol changes the queue meanwhile.\<close>

lemma run_gateway_task_row:
  assumes "run_gateway_task x now later tid (map (agent_run x) es) nid kind q d = (Inr r, d')" and "tasks_wf d"
  shows "\<exists>t. task_of d' tid = Some t \<and> t_node_id t = nid \<and> t_kind t = kind \<and> t_status t = ''succeeded''
    \<and> t_payload_json t = ext_jprint x (gateway_payload kind q) \<and> gateway_response_from_row x t = Inr r"
proof -
  from run_gateway_Inr [OF assms(1)] obtain d1 t where
    q: "queue_task x now tid nid kind (gateway_payload kind q) d = Inr d1" and
    w: "wait_task tid (map (agent_run x) es) d1 = (Ended t, d')" and
    s: "t_status t = ''succeeded''" "gateway_response_from_row x t = Inr r" by blast
  let ?new = "new_task now tid nid kind (ext_jprint x (gateway_payload kind q))"
  have "task_of d1 tid = Some ?new" using task_of_queue [OF q] by simp
  with agent.wait_keeps [OF queue_wf [OF assms(2) q], of tid x es] w obtain t' where
    "task_of d' tid = Some t'" "same_task ?new t'" by (auto simp: task_step_def)
  moreover have "task_of d' tid = Some t" using wait_ended [OF w] by simp
  ultimately show ?thesis using s by (simp add: same_task_def)
qed

end
