(* ===== verification/InstanceLogs.thy ===== *)
theory InstanceLogs
  imports Instances PlatformLog
begin

text \<open>
  \<^verbatim>\<open>server/src/domain/instance_logs.rs\<close>: reading logs and the model list of a node through its agent,
  and the error summaries. These loops stop for a task that succeeded or failed; one that was marked
  as timed out meanwhile is read until the deadline, because an agent may still report it.
\<close>

section \<open>Waiting for an answer\<close>

fun wait_answer :: "string \<Rightarrow> (db \<Rightarrow> db) list \<Rightarrow> db \<Rightarrow> wait_end \<times> db" where
  "wait_answer i es d =
     (case task_of d i of
        None \<Rightarrow> (RowMissing, d)
      | Some t \<Rightarrow>
          if t_status t = ''succeeded'' \<or> t_status t = ''failed'' then (Ended t, d)
          else (case es of
                  [] \<Rightarrow> (DeadlinePassed, d)
                | e # es' \<Rightarrow> wait_answer i es' (e d)))"

declare wait_answer.simps [simp del]

text \<open>\<open>unwrap_or_default()\<close> of the parsed result: null when there is none.\<close>

definition result_value :: "ext \<Rightarrow> task_row \<Rightarrow> json" where
  "result_value x t = unwrap_or (task_result x t) JNull"

definition result_text :: "ext \<Rightarrow> task_row \<Rightarrow> string \<Rightarrow> string" where
  "result_text x t k = unwrap_or (get_str (result_value x t) k) []"

text \<open>
  The end of the three loops: \<open>done\<close> is what a succeeded task gives, the two texts are the error of a
  failed task without a message and of the deadline.
\<close>

definition answer_of ::
  "int \<Rightarrow> string \<Rightarrow> (db \<Rightarrow> db) list \<Rightarrow> (task_row \<Rightarrow> db \<Rightarrow> 'a \<times> db) \<Rightarrow> string \<Rightarrow> string \<Rightarrow> db
   \<Rightarrow> (domain_error + 'a) \<times> db" where
  "answer_of later tid es finish failed_text timeout_text d =
     (case wait_answer tid es d of
        (Ended t, d1) \<Rightarrow>
          if t_status t = ''succeeded'' then (case finish t d1 of (v, d2) \<Rightarrow> (Inr v, d2))
          else (Inl (Conflict (unwrap_or (t_error_message t) failed_text)), d1)
      | (DeadlinePassed, d1) \<Rightarrow> (Inl (Conflict timeout_text), mark_task_timed_out later tid d1)
      | (RowMissing, d1) \<Rightarrow> (Inl (Internal ''no rows returned''), d1))"

section \<open>Reading the agent log\<close>

definition read_agent_log ::
  "ext \<Rightarrow> int \<Rightarrow> int \<Rightarrow> string \<Rightarrow> (db \<Rightarrow> db) list \<Rightarrow> string \<Rightarrow> int \<Rightarrow> db
   \<Rightarrow> (domain_error + string) \<times> db" where
  "read_agent_log x now later tid es nid max_bytes d =
     (if \<not> node_online d now nid then
        (Inl (Conflict ''Node Agent offline, cannot read Agent log''), d)
      else
        (case queue_task x now tid nid ''read_agent_log''
                (JObj [(''log_type'', JStr ''agent_service''), (''file_name'', JStr ''lightai-agent.log''),
                       (''max_bytes'', JInt (min max_bytes (512 * 1024)))]) d of
           Inl e \<Rightarrow> (Inl (of_sql e), d)
         | Inr d1 \<Rightarrow> answer_of later tid es (\<lambda>t d2. (result_text x t ''content'', d2))
                      ''Agent log read failed'' ''Agent log read timed out'' d1))"

section \<open>Refreshing the log of an instance\<close>

definition external_log_error :: string where
  "external_log_error = ''External instances are not managed by the platform Agent and do not support log refresh. ('' @ [CHR 0xE5, CHR 0xA4, CHR 0x96, CHR 0xE9, CHR 0x83, CHR 0xA8, CHR 0xE5, CHR 0xAE, CHR 0x9E, CHR 0xE4, CHR 0xBE, CHR 0x8B, CHR 0xE4, CHR 0xB8, CHR 0x8D, CHR 0xE7, CHR 0x94, CHR 0xB1, CHR 0xE5, CHR 0xB9, CHR 0xB3, CHR 0xE5, CHR 0x8F, CHR 0xB0] @ '' Agent '' @ [CHR 0xE7, CHR 0xAE, CHR 0xA1, CHR 0xE7, CHR 0x90, CHR 0x86, CHR 0xEF, CHR 0xBC, CHR 0x8C, CHR 0xE4, CHR 0xB8, CHR 0x8D, CHR 0xE6, CHR 0x94, CHR 0xAF, CHR 0xE6, CHR 0x8C, CHR 0x81, CHR 0xE8, CHR 0xAF, CHR 0xBB, CHR 0xE5, CHR 0x8F, CHR 0x96, CHR 0xE6, CHR 0x97, CHR 0xA5, CHR 0xE5, CHR 0xBF, CHR 0x97] @ '')''"

text \<open>The log text, under a heading when the agent sent a message.\<close>

definition refreshed_log :: "ext \<Rightarrow> task_row \<Rightarrow> string" where
  "refreshed_log x t =
     (let content = result_text x t ''content''; message = result_text x t ''message''
      in if message = [] then content
         else [CHR 0xE3, CHR 0x80, CHR 0x90] @ message @ [CHR 0xE3, CHR 0x80, CHR 0x91] @ [CHR 0x0A] @ content)"

definition prepare_log_refresh :: "int \<Rightarrow> string \<Rightarrow> db \<Rightarrow> domain_error + (string \<times> json)" where
  "prepare_log_refresh now i d =
     (case model_instance now d i of
        Inl e \<Rightarrow> Inl e
      | Inr v \<Rightarrow>
     (let r = iv_row v in
      if mi_deploy_type r \<noteq> ''local'' then Inl (BadRequest external_log_error)
      else (case mi_node_id r of
        None \<Rightarrow> Inl (BadRequest ''Local instance missing node'')
      | Some nid \<Rightarrow>
      if \<not> node_online d now nid then
        Inl (Conflict ''Node Agent offline, cannot refresh instance log'')
      else (case mi_runtime_environment_id r of
        None \<Rightarrow> Inl (BadRequest ''Local instance missing runtime environment'')
      | Some rid \<Rightarrow>
     (case runtime_environment d rid of
        Inl e \<Rightarrow> Inl e
      | Inr env \<Rightarrow>
          Inr (nid, JObj [(''instance_id'', JStr i), (''backend'', JStr (re_backend env)),
                          (''runtime_environment_id'', JStr rid), (''log_dir'', jopt (re_log_dir env)),
                          (''max_bytes'', JInt (64 * 1024))]))))))"

definition refresh_instance_logs ::
  "ext \<Rightarrow> int \<Rightarrow> int \<Rightarrow> string \<Rightarrow> (db \<Rightarrow> db) list \<Rightarrow> string \<Rightarrow> db \<Rightarrow> (domain_error + string) \<times> db" where
  "refresh_instance_logs x now later tid es i d =
     (case prepare_log_refresh now i d of
        Inl e \<Rightarrow> (Inl e, d)
      | Inr (nid, payload) \<Rightarrow>
          (case queue_task x now tid nid ''read_instance_log'' payload d of
             Inl e \<Rightarrow> (Inl (of_sql e), d)
           | Inr d1 \<Rightarrow> answer_of later tid es
               (\<lambda>t d2. (refreshed_log x t,
                        set_instance i (\<lambda>r. r\<lparr>mi_log_tail := Some (refreshed_log x t),
                                              mi_updated_at := later\<rparr>) d2))
               ''Instance log read failed'' ''Instance log read timed out'' d1))"

section \<open>The models of an ollama service\<close>

definition ollama_model_list ::
  "ext \<Rightarrow> int \<Rightarrow> int \<Rightarrow> string \<Rightarrow> (db \<Rightarrow> db) list \<Rightarrow> string \<Rightarrow> string \<Rightarrow> db
   \<Rightarrow> (domain_error + json list) \<times> db" where
  "ollama_model_list x now later tid es nid rid d =
     (if \<not> node_online d now nid then
        (Inl (Conflict ''Node Agent offline, cannot query Ollama models''), d)
      else (case runtime_environment d rid of
        Inl e \<Rightarrow> (Inl e, d)
      | Inr env \<Rightarrow>
          (case queue_task x now tid nid ''list_ollama_models''
                  (JObj [(''runtime_environment_id'', JStr rid),
                         (''runtime_params'', unwrap_or (Option.bind (re_params_json env) (ext_jparse x)) JNull)]) d of
             Inl e \<Rightarrow> (Inl (of_sql e), d)
           | Inr d1 \<Rightarrow> answer_of later tid es
               (\<lambda>t d2. (unwrap_or (Option.bind (jget (result_value x t) ''models'') as_array) [], d2))
               ''Ollama model list query failed'' ''Ollama model list query timed out'' d1)))"

section \<open>Error summaries\<close>

text \<open>
  \<open>ORDER BY .. DESC LIMIT 50\<close>; rows of the same second keep the order of the tables (SQL leaves it
  open).
\<close>

definition newest :: "('r \<Rightarrow> int) \<Rightarrow> 'r list \<Rightarrow> 'r list" where
  "newest at rows = take 50 (sort_key (\<lambda>r. - at r) rows)"

definition frontend_error_line :: "ext \<Rightarrow> audit_row \<Rightarrow> string" where
  "frontend_error_line x r =
     int_str (ae_occurred_at r) @ '' Frontend error: '' @ unwrap_or (ae_error_message r) ''no details''
     @ (case Option.bind (Option.bind (ae_detail_json r) (ext_jparse x)) (\<lambda>v. get_str v ''url'') of
          None \<Rightarrow> [] | Some u \<Rightarrow> '' [URL: '' @ u @ '']'')"

definition frontend_error_summary :: "ext \<Rightarrow> db \<Rightarrow> string" where
  "frontend_error_summary x d =
     (let rows = newest ae_occurred_at
            (filter (\<lambda>r. ae_operation_type r = ''frontend_error'') (audit_events d))
      in if rows = [] then ''No frontend errors''
         else join [CHR 0x0A] (map (frontend_error_line x) rows))"

record error_entry =
  ee_source :: string
  ee_target :: string
  ee_message :: string
  ee_ts :: int

text \<open>\<open>last_error IS NOT NULL AND TRIM(last_error) != ''\<close>: SQLite's TRIM removes blanks only.\<close>

definition error_entries ::
  "string \<Rightarrow> ('r \<Rightarrow> string) \<Rightarrow> ('r \<Rightarrow> string option) \<Rightarrow> ('r \<Rightarrow> int) \<Rightarrow> 'r list \<Rightarrow> error_entry list" where
  "error_entries source target message at rows =
     concat (map (\<lambda>r. case message r of
         None \<Rightarrow> []
       | Some m \<Rightarrow> if list_all (\<lambda>c. c = CHR '' '') m then []
                   else [\<lparr>ee_source = source, ee_target = target r, ee_message = m, ee_ts = at r\<rparr>]) rows)"

definition recent_errors :: "db \<Rightarrow> error_entry list" where
  "recent_errors d = newest ee_ts
     (error_entries ''instance'' mi_name mi_last_error mi_updated_at (model_instances d)
      @ error_entries ''model_file'' mf_path mf_last_error mf_updated_at (model_files d)
      @ error_entries ''trash'' tr_path tr_last_error tr_updated_at (model_file_trash d))"

definition recent_error_summary :: "db \<Rightarrow> string" where
  "recent_error_summary d =
     (let rows = recent_errors d
      in if rows = [] then ''No error summary available''
         else join [CHR 0x0A] (map (\<lambda>r. int_str (ee_ts r) @ '' ['' @ ee_source r @ ''] '' @ ee_target r
                                        @ '': '' @ sanitize (ee_message r)) rows))"

section \<open>Facts\<close>

lemma wait_answer_Ended:
  "wait_answer i es d = (Ended t, d') \<Longrightarrow>
     task_of d' i = Some t \<and> (t_status t = ''succeeded'' \<or> t_status t = ''failed'')"
proof (induction es arbitrary: d)
  case Nil
  then show ?case by (subst (asm) wait_answer.simps) (auto split: option.splits if_splits)
next
  case (Cons e es)
  from Cons.prems show ?case
    by (subst (asm) wait_answer.simps) (auto split: option.splits if_splits dest: Cons.IH)
qed

lemma newest_sorted: "sorted (rev (map at (newest at rows)))"
proof -
  have "sorted (map (\<lambda>r. - at r) (newest at rows))"
    unfolding newest_def by (metis sorted_sort_key sorted_wrt_take take_map)
  then have "sorted_wrt (\<lambda>a b. b \<le> a) (map at (newest at rows))" by (simp add: sorted_wrt_map)
  then show ?thesis by (simp add: sorted_wrt_rev)
qed

lemma newest_members: "set (newest at rows) \<subseteq> set rows"
  unfolding newest_def using set_take_subset by fastforce

lemma newest_length: "length (newest at rows) = min 50 (length rows)"
  by (simp add: newest_def min.commute)

lemma mem_error_entries:
  "e \<in> set (error_entries source target message at rows) \<longleftrightarrow>
     (\<exists>r \<in> set rows. \<exists>m. message r = Some m \<and> (\<exists>c \<in> set m. c \<noteq> CHR '' '')
        \<and> e = \<lparr>ee_source = source, ee_target = target r, ee_message = m, ee_ts = at r\<rparr>)"
proof -
  have "e \<in> set (case message r of None \<Rightarrow> []
        | Some m \<Rightarrow> if list_all (\<lambda>c. c = CHR '' '') m then []
                    else [\<lparr>ee_source = source, ee_target = target r, ee_message = m, ee_ts = at r\<rparr>])
    \<longleftrightarrow> (\<exists>m. message r = Some m \<and> (\<exists>c \<in> set m. c \<noteq> CHR '' '')
        \<and> e = \<lparr>ee_source = source, ee_target = target r, ee_message = m, ee_ts = at r\<rparr>)" for r
    by (cases "message r") (simp_all add: list_all_iff)
  then show ?thesis by (simp only: error_entries_def set_concat set_map UN_iff bex_simps)
qed

text \<open>The answer of a log read is the agent's, and the log of the instance is the answer.\<close>

lemma answer_Inr:
  assumes "answer_of later tid es finish f e d = (Inr v, d')"
  shows "\<exists>t d1. wait_answer tid es d = (Ended t, d1) \<and> t_status t = ''succeeded'' \<and> finish t d1 = (v, d')"
  using assms by (auto simp: answer_of_def split: prod.splits wait_end.splits if_splits)

lemma answer_deadline:
  assumes "answer_of later tid es finish f e d = (Inl err, d')"
  shows "(\<exists>t. wait_answer tid es d = (Ended t, d') \<and> t_status t = ''failed'')
    \<or> (\<exists>d1. wait_answer tid es d = (DeadlinePassed, d1) \<and> d' = mark_task_timed_out later tid d1 \<and> err = Conflict e)
    \<or> wait_answer tid es d = (RowMissing, d')"
  using assms wait_answer_Ended [of tid es d]
  by (auto simp: answer_of_def split: prod.splits wait_end.splits if_splits)

lemma refresh_Inr:
  assumes "refresh_instance_logs x now later tid es i d = (Inr log, d')"
  shows "\<exists>nid p d1 t d2. prepare_log_refresh now i d = Inr (nid, p)
    \<and> queue_task x now tid nid ''read_instance_log'' p d = Inr d1
    \<and> wait_answer tid es d1 = (Ended t, d2) \<and> t_status t = ''succeeded'' \<and> log = refreshed_log x t
    \<and> d' = set_instance i (\<lambda>r. r\<lparr>mi_log_tail := Some log, mi_updated_at := later\<rparr>) d2"
  using assms unfolding refresh_instance_logs_def
  by (auto split: sum.splits prod.splits dest!: answer_Inr)

end
