(* ===== verification/AuditLog.thy ===== *)
theory AuditLog
  imports PlatformLog Users
begin

text \<open>
  The audit log, the stored log policy of the server and the collector registry of
  \<^verbatim>\<open>server/src/repository.rs\<close>. The log policy in force is a process-wide value (\<open>global\<close>), an argument
  and a result where the code reads or sets it.
\<close>

section \<open>Audit events\<close>

record audit_record =
  ar_operation_type :: string
  ar_target_type :: string
  ar_target_id :: "string option"
  ar_node_id :: "string option"
  ar_instance_id :: "string option"
  ar_result :: string
  ar_error_message :: "string option"
  ar_detail_json :: "string option"
  ar_actor_type :: "string option"
  ar_actor_id :: "string option"
  ar_source :: "string option"

definition audit_event :: "int \<Rightarrow> string \<Rightarrow> audit_record \<Rightarrow> audit_row" where
  "audit_event now i r =
     \<lparr>ae_id = i, ae_occurred_at = now, ae_actor_type = unwrap_or (ar_actor_type r) ''system'',
      ae_actor_id = Some (unwrap_or (ar_actor_id r) ''local''), ae_actor_group_id = None,
      ae_operation_type = ar_operation_type r, ae_target_type = ar_target_type r,
      ae_target_id = ar_target_id r, ae_node_id = ar_node_id r, ae_instance_id = ar_instance_id r,
      ae_result = ar_result r, ae_error_message = map_option sanitize (ar_error_message r),
      ae_source = unwrap_or (ar_source r) ''local'',
      ae_detail_json = map_option sanitize (ar_detail_json r)\<rparr>"

definition record_audit :: "int \<Rightarrow> string \<Rightarrow> audit_record \<Rightarrow> db \<Rightarrow> (string + unit) \<times> db" where
  "record_audit now i r d =
     (case insert_row (same_key ae_id) True (audit_event now i r) (audit_events d) of
        Inl e \<Rightarrow> (Inl (sql_message e), d)
      | Inr rows \<Rightarrow> (Inr (), d\<lparr>audit_events := rows\<rparr>))"

definition frontend_detail ::
  "string \<Rightarrow> string option \<Rightarrow> string option \<Rightarrow> int \<Rightarrow> auth_user option \<Rightarrow> json" where
  "frontend_detail message stack url at user = JObj
     [(''message'', JStr (sanitize message)), (''stack'', jopt (map_option (chars_take 1024) stack)),
      (''url'', jopt (map_option (chars_take 512) url)), (''client_ts'', JInt at),
      (''user'', jopt (map_option au_username user))]"

definition record_frontend_error ::
  "ext \<Rightarrow> int \<Rightarrow> string \<Rightarrow> string \<Rightarrow> string option \<Rightarrow> string option \<Rightarrow> int \<Rightarrow> auth_user option \<Rightarrow> db
   \<Rightarrow> (string + unit) \<times> db" where
  "record_frontend_error x now i message stack url at user =
     record_audit now i
       \<lparr>ar_operation_type = ''frontend_error'', ar_target_type = ''frontend'', ar_target_id = None,
        ar_node_id = None, ar_instance_id = None, ar_result = ''failed'',
        ar_error_message = Some message,
        ar_detail_json = Some (ext_jprint x (frontend_detail message stack url at user)),
        ar_actor_type = Some (if user = None then ''frontend'' else ''user''),
        ar_actor_id = map_option au_id user, ar_source = Some ''frontend''\<rparr>"

record audit_query =
  aq_operation_type :: "string option"
  aq_target_type :: "string option"
  aq_target_id :: "string option"
  aq_node_id :: "string option"
  aq_instance_id :: "string option"
  aq_actor_type :: "string option"
  aq_result :: "string option"
  aq_from :: "int option"
  aq_to :: "int option"
  aq_limit :: "int option"
  aq_offset :: "int option"

text \<open>\<open>(? IS NULL OR column = ?)\<close>; a NULL column equals nothing.\<close>

definition column_is :: "string option \<Rightarrow> string option \<Rightarrow> bool" where
  "column_is wanted column \<longleftrightarrow> wanted = None \<or> column = wanted"

definition audit_matches :: "int \<Rightarrow> audit_query \<Rightarrow> audit_row \<Rightarrow> bool" where
  "audit_matches now q r \<longleftrightarrow>
     unwrap_or (aq_from q) 0 \<le> ae_occurred_at r \<and> ae_occurred_at r \<le> unwrap_or (aq_to q) now
     \<and> column_is (aq_operation_type q) (Some (ae_operation_type r))
     \<and> column_is (aq_target_type q) (Some (ae_target_type r))
     \<and> column_is (aq_target_id q) (ae_target_id r)
     \<and> column_is (aq_node_id q) (ae_node_id r)
     \<and> column_is (aq_instance_id q) (ae_instance_id r)
     \<and> column_is (aq_actor_type q) (Some (ae_actor_type r))
     \<and> column_is (aq_result q) (Some (ae_result r))"

definition clamp :: "int \<Rightarrow> int \<Rightarrow> int \<Rightarrow> int" where
  "clamp lo hi v = (if v < lo then lo else if hi < v then hi else v)"

definition list_audit_events :: "int \<Rightarrow> audit_query \<Rightarrow> db \<Rightarrow> audit_row list" where
  "list_audit_events now q d =
     take (nat (clamp 1 1000 (unwrap_or (aq_limit q) 500)))
       (drop (nat (max 0 (unwrap_or (aq_offset q) 0)))
         (sort_key (\<lambda>r. - ae_occurred_at r) (filter (audit_matches now q) (audit_events d))))"

section \<open>The log policy of the server\<close>

definition log_policy_to_json :: "log_policy \<Rightarrow> json" where
  "log_policy_to_json p = JObj
     [(''log_dir'', JStr (lp_log_dir p)), (''log_level'', JStr (lp_log_level p)),
      (''log_max_file_bytes'', JInt (lp_log_max_file_bytes p)),
      (''log_retention_files'', JInt (lp_log_retention_files p)),
      (''log_retention_days'', JInt (lp_log_retention_days p))]"

text \<open>A member with \<open>serde(default)\<close>: absent gives the default, null or another type is an error.\<close>

definition read_default :: "(json \<Rightarrow> 'a option) \<Rightarrow> 'a \<Rightarrow> json \<Rightarrow> string \<Rightarrow> 'a option" where
  "read_default rd dflt v k = (case jget v k of None \<Rightarrow> Some dflt | Some j \<Rightarrow> rd j)"

definition log_policy_of_json :: "json \<Rightarrow> log_policy option" where
  "log_policy_of_json v =
     (if \<not> is_object v then None else
      Option.bind (read_default as_str (lp_log_dir default_log_policy) v ''log_dir'') (\<lambda>dir.
      Option.bind (read_default as_str (lp_log_level default_log_policy) v ''log_level'') (\<lambda>level.
      Option.bind (read_default as_u64 (lp_log_max_file_bytes default_log_policy) v ''log_max_file_bytes'') (\<lambda>bytes.
      Option.bind (read_default as_u64 (lp_log_retention_files default_log_policy) v ''log_retention_files'') (\<lambda>files.
      Option.bind (read_default as_u64 (lp_log_retention_days default_log_policy) v ''log_retention_days'') (\<lambda>days.
      Some \<lparr>lp_log_dir = dir, lp_log_level = level, lp_log_max_file_bytes = bytes,
            lp_log_retention_files = files, lp_log_retention_days = days\<rparr>))))))"

definition server_log_policy :: "ext \<Rightarrow> log_policy \<Rightarrow> db \<Rightarrow> log_policy" where
  "server_log_policy x global d =
     unwrap_or (Option.bind (find_row (\<lambda>r. ps_key r = ''server_log_policy'') (platform_settings d))
                  (\<lambda>r. Option.bind (ext_jparse x (ps_value_json r)) log_policy_of_json)) global"

definition update_server_log_policy ::
  "ext \<Rightarrow> int \<Rightarrow> log_policy \<Rightarrow> log_policy \<Rightarrow> db \<Rightarrow> (string + log_policy) \<times> log_policy \<times> db" where
  "update_server_log_policy x now p global d =
     (case validate_log_policy p of
        Some e \<Rightarrow> (Inl e, global, d)
      | None \<Rightarrow>
          (let text = ext_jprint x (log_policy_to_json p)
           in (Inr p, p, d\<lparr>platform_settings := upsert_row (\<lambda>r. ps_key r = ''server_log_policy'')
                 (\<lambda>r. r\<lparr>ps_value_json := text, ps_updated_at := now\<rparr>)
                 \<lparr>ps_key = ''server_log_policy'', ps_value_json = text, ps_updated_at = now\<rparr>
                 (platform_settings d)\<rparr>)))"

section \<open>The collector registry\<close>

record register_collector_request =
  rc_id :: string
  rc_vendor :: string
  rc_name :: string
  rc_version :: string
  rc_description :: string
  rc_discover_sha256 :: string
  rc_metrics_sha256 :: string
  rc_enabled :: bool

definition list_collector_registry :: "db \<Rightarrow> collector_row list" where
  "list_collector_registry d = sort_key cr_id (collector_registry d)"

definition registry_key :: "string \<Rightarrow> string \<Rightarrow> collector_row \<Rightarrow> bool" where
  "registry_key i v r \<longleftrightarrow> cr_id r = i \<and> cr_version r = v"

definition collector_entry :: "int \<Rightarrow> register_collector_request \<Rightarrow> collector_row" where
  "collector_entry now q =
     \<lparr>cr_id = rc_id q, cr_version = rc_version q, cr_vendor = rc_vendor q, cr_name = rc_name q,
      cr_description = rc_description q, cr_discover_sha256 = rc_discover_sha256 q,
      cr_metrics_sha256 = rc_metrics_sha256 q, cr_enabled = rc_enabled q, cr_created_at = now,
      cr_updated_at = now\<rparr>"

definition register_collector ::
  "int \<Rightarrow> register_collector_request \<Rightarrow> db \<Rightarrow> collector_row \<times> db" where
  "register_collector now q d =
     (collector_entry now q,
      d\<lparr>collector_registry := upsert_row (registry_key (rc_id q) (rc_version q))
          (\<lambda>r. (collector_entry now q)\<lparr>cr_created_at := cr_created_at r\<rparr>)
          (collector_entry now q) (collector_registry d)\<rparr>)"

definition delete_collector_registry_entry :: "string \<Rightarrow> string \<Rightarrow> db \<Rightarrow> db" where
  "delete_collector_registry_entry i v d =
     d\<lparr>collector_registry := delete_where (registry_key i v) (collector_registry d)\<rparr>"

definition update_collector_enabled ::
  "int \<Rightarrow> string \<Rightarrow> string \<Rightarrow> bool \<Rightarrow> db \<Rightarrow> collector_row option \<times> db" where
  "update_collector_enabled now i v enabled d =
     (if rows_affected (registry_key i v) (collector_registry d) = 0 then (None, d)
      else
        (let rows = update_where (registry_key i v)
               (\<lambda>r. r\<lparr>cr_enabled := enabled, cr_updated_at := now\<rparr>) (collector_registry d)
         in (find_row (registry_key i v) rows, d\<lparr>collector_registry := rows\<rparr>)))"

section \<open>Facts\<close>

text \<open>What the audit log stores of a text has been sanitised.\<close>

definition clean :: "string \<Rightarrow> bool" where
  "clean s \<longleftrightarrow> (\<forall>w \<in> set sensitive_words. \<not> contains (to_ascii_lowercase s) w)"

lemma sanitize_is_clean: "clean (sanitize s)"
  by (simp add: clean_def sanitize_clean)

definition audit_clean :: "audit_row \<Rightarrow> bool" where
  "audit_clean r \<longleftrightarrow> (\<forall>s. ae_error_message r = Some s \<or> ae_detail_json r = Some s \<longrightarrow> clean s)"

lemma audit_event_clean: "audit_clean (audit_event now i r)"
  by (auto simp: audit_clean_def audit_event_def sanitize_is_clean)

lemma record_audit_appends:
  "record_audit now i r d = (Inr u, d') \<Longrightarrow>
     d' = d\<lparr>audit_events := audit_events d @ [audit_event now i r]\<rparr> \<and> (\<forall>q \<in> set (audit_events d). ae_id q \<noteq> i)"
  unfolding record_audit_def
  by (auto simp: insert_row_Inr same_key_def audit_event_def split: sum.splits)

lemma record_audit_clean:
  "\<forall>q \<in> set (audit_events d). audit_clean q \<Longrightarrow>
   \<forall>q \<in> set (audit_events (snd (record_audit now i r d))). audit_clean q"
  by (auto simp: record_audit_def insert_row_Inr audit_event_clean split: sum.split)

lemma list_audit_sorted: "sorted (rev (map ae_occurred_at (list_audit_events now q d)))"
proof -
  have "sorted (map (\<lambda>r. - ae_occurred_at r) (list_audit_events now q d))"
    unfolding list_audit_events_def
    by (metis (no_types, lifting) drop_map sorted_sort_key sorted_wrt_drop sorted_wrt_take take_map)
  then have "sorted_wrt (\<lambda>a b. b \<le> a) (map ae_occurred_at (list_audit_events now q d))"
    by (simp add: sorted_wrt_map)
  then show ?thesis by (simp add: sorted_wrt_rev)
qed

lemma list_audit_members:
  "r \<in> set (list_audit_events now q d) \<Longrightarrow> r \<in> set (audit_events d) \<and> audit_matches now q r"
  unfolding list_audit_events_def by (auto dest!: in_set_takeD in_set_dropD)

lemma list_audit_bounded: "length (list_audit_events now q d) \<le> 1000"
proof -
  have "nat (clamp 1 1000 v) \<le> 1000" for v by (auto simp: clamp_def)
  then show ?thesis unfolding list_audit_events_def by (auto simp: min_def intro: order_trans)
qed

text \<open>Reading the pages of a fixed limit one after the other gives every matching event once.\<close>

lemma drop_take_pages: "concat (map (\<lambda>k. take n (drop (k * n) xs)) [0..<m]) = take (m * n) xs"
proof (induction m)
  case (Suc m)
  have "take (Suc m * n) xs = take (m * n) xs @ take n (drop (m * n) xs)"
    using take_add [of "m * n" n xs] by (simp add: add.commute)
  with Suc.IH show ?case by simp
qed simp

lemma audit_pages:
  assumes "0 < n" and "n \<le> 1000"
  shows "concat (map (\<lambda>k. list_audit_events now (q\<lparr>aq_limit := Some (int n), aq_offset := Some (int (k * n))\<rparr>) d) [0..<m])
    = take (m * n) (sort_key (\<lambda>r. - ae_occurred_at r) (filter (audit_matches now q) (audit_events d)))"
proof -
  have m: "audit_matches now (q\<lparr>aq_limit := a, aq_offset := b\<rparr>) = audit_matches now q" for a b
    by (simp add: audit_matches_def fun_eq_iff)
  have c: "nat (clamp 1 1000 (int n)) = n" using assms by (simp add: clamp_def)
  show ?thesis unfolding list_audit_events_def m drop_take_pages [symmetric] by (simp add: c flip: of_nat_mult)
qed

text \<open>The log policy: what is set is read back, and a refused one changes nothing.\<close>

lemma log_policy_json:
  assumes "0 \<le> lp_log_max_file_bytes p" "lp_log_max_file_bytes p < 2 ^ 64"
    "0 \<le> lp_log_retention_files p" "lp_log_retention_files p < 2 ^ 64"
    "0 \<le> lp_log_retention_days p" "lp_log_retention_days p < 2 ^ 64"
  shows "log_policy_of_json (log_policy_to_json p) = Some p"
  using assms by (simp add: log_policy_of_json_def log_policy_to_json_def read_default_def)

lemma find_upsert_setting:
  "find (\<lambda>r. ps_key r = k) (upsert_row (\<lambda>r. ps_key r = k) (\<lambda>r. r\<lparr>ps_value_json := t, ps_updated_at := now\<rparr>)
      \<lparr>ps_key = k, ps_value_json = t, ps_updated_at = now\<rparr> rows)
   = Some (case find (\<lambda>r. ps_key r = k) rows of
        None \<Rightarrow> \<lparr>ps_key = k, ps_value_json = t, ps_updated_at = now\<rparr>
      | Some r \<Rightarrow> r\<lparr>ps_value_json := t, ps_updated_at := now\<rparr>)"
proof (cases "find (\<lambda>r. ps_key r = k) rows")
  case None
  then have "\<not> (\<exists>r \<in> set rows. ps_key r = k)" by (auto simp: find_None_iff)
  with None show ?thesis by (simp add: upsert_row_def find_append)
next
  case (Some r)
  then have "\<exists>r \<in> set rows. ps_key r = k" using find_Some_D by fastforce
  with Some find_Some_D [OF Some] show ?thesis by (simp add: upsert_row_def find_update_where)
qed

lemma server_policy_read_back:
  assumes "json_roundtrip x" and "update_server_log_policy x now p g d = (Inr r, g', d')"
    and "0 \<le> lp_log_max_file_bytes p" "lp_log_max_file_bytes p < 2 ^ 64"
    "0 \<le> lp_log_retention_files p" "lp_log_retention_files p < 2 ^ 64"
    "0 \<le> lp_log_retention_days p" "lp_log_retention_days p < 2 ^ 64"
  shows "r = p \<and> g' = p \<and> server_log_policy x h d' = p"
  using assms(2) log_policy_json [OF assms(3-8)] assms(1)
  unfolding update_server_log_policy_def Let_def
  by (auto simp: server_log_policy_def find_upsert_setting json_roundtrip_def split: option.splits)

text \<open>The registry holds one entry for a collector and version.\<close>

definition registry_ok :: "db \<Rightarrow> bool" where
  "registry_ok d \<longleftrightarrow> distinct (map (\<lambda>r. (cr_id r, cr_version r)) (collector_registry d))"

lemma register_collector_ok: "registry_ok d \<Longrightarrow> registry_ok (snd (register_collector now q d))"
proof -
  assume ok: "registry_ok d"
  let ?k = "\<lambda>r. (cr_id r, cr_version r)"
  have "map ?k (update_where (registry_key (rc_id q) (rc_version q))
      (\<lambda>r. (collector_entry now q)\<lparr>cr_created_at := cr_created_at r\<rparr>) (collector_registry d))
    = map ?k (collector_registry d)"
    by (rule map_update_where) (simp add: registry_key_def collector_entry_def)
  then show ?thesis using ok
    by (auto simp: register_collector_def registry_ok_def upsert_row_def registry_key_def collector_entry_def)
qed

lemma registry_ok_others:
  assumes "registry_ok d"
  shows "registry_ok (delete_collector_registry_entry i v d)"
    and "registry_ok (snd (update_collector_enabled now i v e d))"
  using assms
  by (auto simp: registry_ok_def delete_collector_registry_entry_def update_collector_enabled_def
      delete_where_def distinct_map_filter map_update_where Let_def)

end
