(* ===== verification/Server.thy ===== *)
theory Server
  imports Catalog Instances Users Heartbeats GatewayTasks InstanceLogs AuditLog
begin

text \<open>
  The server as a whole: every operation of the API, of the agents and of the timers as one step
  on the database, what each step keeps (\<open>server_kept\<close>), and the states the server can reach
  from an empty database.
\<close>

section \<open>What every step keeps\<close>

definition instances_ok :: "db \<Rightarrow> bool" where
  "instances_ok d \<longleftrightarrow> distinct (map mi_id (model_instances d))"

definition server_kept :: "db \<Rightarrow> db \<Rightarrow> bool" where
  "server_kept d d' \<longleftrightarrow>
     queue_kept d d' \<and> account_step d d' \<and> (nodes_ok d \<longrightarrow> nodes_ok d')
     \<and> (model_names_ok d \<longrightarrow> model_names_ok d') \<and> (instances_ok d \<longrightarrow> instances_ok d')"

lemma server_refl [simp, intro]: "server_kept d d"
  by (simp add: server_kept_def)

lemma server_trans: "server_kept a b \<Longrightarrow> server_kept b c \<Longrightarrow> server_kept a c"
  unfolding server_kept_def by (blast intro: kept_trans account_step_trans)

text \<open>The tables the kept properties are about; an operation on the others keeps them.\<close>

definition core :: "db \<Rightarrow> task_row list \<times> (user_row list \<times> session_row list \<times> group_row list \<times> member_row list)
    \<times> node_row list \<times> model_row list \<times> string list" where
  "core d = (agent_tasks d, accounts d, nodes d, models d, map mi_id (model_instances d))"

lemma server_same: "core d' = core d \<Longrightarrow> server_kept d d'"
  unfolding server_kept_def core_def
  by (auto simp: nodes_ok_def model_names_ok_def instances_ok_def intro: kept_same account_step_same)

lemma server_then: "server_kept d m \<Longrightarrow> core d' = core m \<Longrightarrow> server_kept d d'"
  by (rule server_trans [OF _ server_same])

lemma server_config:
  assumes "queue_kept d d'" and "same_config d d'"
  shows "server_kept d d'"
proof -
  have "map (fst \<circ> instance_core) (model_instances d') = map (fst \<circ> instance_core) (model_instances d)"
    using assms(2) by (simp add: same_config_def flip: map_map)
  moreover have "fst \<circ> instance_core = mi_id" by (simp add: fun_eq_iff instance_core_def)
  ultimately have "map mi_id (model_instances d') = map mi_id (model_instances d)" by simp
  with assms show ?thesis
    unfolding server_kept_def
    by (simp add: same_config_def nodes_ok_def model_names_ok_def instances_ok_def account_step_same)
qed

lemma core_updates [simp]:
  "core (d\<lparr>runtime_environments := rs\<rparr>) = core d" "core (d\<lparr>model_files := fs\<rparr>) = core d"
  "core (d\<lparr>model_file_trash := ts\<rparr>) = core d" "core (d\<lparr>agent_config_policies := ps\<rparr>) = core d"
  "core (d\<lparr>node_metric_samples := ns\<rparr>) = core d" "core (d\<lparr>gpu_metric_samples := gs\<rparr>) = core d"
  "core (d\<lparr>audit_events := es\<rparr>) = core d" "core (d\<lparr>platform_settings := ss\<rparr>) = core d"
  "core (d\<lparr>collector_registry := cs\<rparr>) = core d"
  by (simp_all add: core_def accounts_def)

lemma core_sets [simp]:
  "core (set_runtime i f d) = core d" "core (set_file i g d) = core d" "core (set_trash i h d) = core d"
  "core (update_trash_failure now i s m d) = core d" "core (mark_verify_timeout now i d) = core d"
  by (simp_all add: set_runtime_def set_file_def set_trash_def update_trash_failure_def mark_verify_timeout_def)

lemma core_set_instance: "(\<And>r. mi_id (f r) = mi_id r) \<Longrightarrow> core (set_instance i f d) = core d"
  by (simp add: core_def accounts_def set_instance_def map_update_where)

lemma core_pending [simp]: "core (mark_pending now i s d) = core d"
  by (simp add: mark_pending_def core_set_instance)

lemma core_instance_check [simp]: "core (snd (update_instance_check now i s e d)) = core d"
  by (simp add: update_instance_check_def Let_def core_set_instance)

lemma core_instance_checkD: "update_instance_check now i s e d = (r, d') \<Longrightarrow> core d' = core d"
  using core_instance_check [of now i s e d] by simp

section \<open>The parts of the waiting operations\<close>

lemma server_agent: "server_kept d (agent_run x e d)"
proof -
  have "queue_kept d (agent_run x e d)"
    unfolding queue_kept_def using agent.env_wf [of d x e] agent.env_moves [of d x e] by blast
  then show ?thesis using same_config_agent by (rule server_config)
qed

lemma server_mark: "server_kept d (mark_task_timed_out now i d)"
  using kept_mark same_config_sets(5) by (rule server_config)

lemma server_queue:
  assumes q: "queue_task x now i nid kind p d = Inr d'"
  shows "server_kept d d'"
proof -
  from q have d': "d' = d\<lparr>agent_tasks := agent_tasks d @ [new_task now i nid kind (ext_jprint x p)]\<rparr>"
    unfolding queue_task_Inr by (elim conjE)
  have "same_config d d'" unfolding d' by (simp add: same_config_def accounts_def)
  with kept_queue [OF q] show ?thesis by (rule server_config)
qed

lemma server_sweepD: "mark_timed_out_tasks x now d = (r, d') \<Longrightarrow> server_kept d d'"
  using server_config [OF kept_sweep same_config_sweep, of d x now] by simp

lemma server_rowsD: "model_file_rows x now m f d = (r, d') \<Longrightarrow> server_kept d d'"
  using server_config [OF model_file_rows_frame, of d x now m f] by simp

lemma server_fileD: "model_file x now i d = (r, d') \<Longrightarrow> server_kept d d'"
  using server_config [OF model_file_frame, of d x now i] by simp

lemma server_modelD: "model x now i d = (r, d') \<Longrightarrow> server_kept d d'"
  using server_config [OF model_frame, of d x now i] by simp

section \<open>Runtimes\<close>

lemma server_runtime_upd: "core (snd (update_runtime_environment_check now i s m d)) = core d"
  by (simp add: update_runtime_environment_check_def Let_def)

lemma server_runtime_updD: "update_runtime_environment_check now i s m d = (r, d') \<Longrightarrow> core d' = core d"
  using server_runtime_upd [of now i s m d] by simp

lemma core_insert_runtime: "core (snd (insert_runtime later rid nid r ck d)) = core d"
  by (simp add: insert_runtime_def Let_def split: sum.split)

lemma server_update_runtime: "server_kept d (snd (update_runtime_environment x now i r d))"
  by (auto simp: update_runtime_environment_def Let_def split: option.split prod.split sum.split
      dest!: server_runtime_updD intro!: server_same)

lemma server_delete_runtime: "server_kept d (snd (delete_runtime_environment i d))"
  by (auto simp: delete_runtime_environment_def intro: server_same)

section \<open>Files, trash and catalog\<close>

lemma core_insert_file: "insert_file r d = Inr d' \<Longrightarrow> core d' = core d"
  by (auto simp: insert_file_def map_sum_def split: sum.splits)

lemma server_queue_verification: "server_kept d (snd (queue_model_file_verification x now tid i d))"
proof -
  have last: "server_kept d1 (snd (model_file x now i (set_file i f d1)))" for f d1
    by (rule server_trans [OF server_same server_fileD [OF prod.collapse [symmetric]]]) simp
  show ?thesis
    by (auto simp: queue_model_file_verification_def Let_def split: prod.split sum.split
        dest!: server_fileD server_queue intro: server_trans [OF server_trans last])
qed

lemma server_ensure_trash:
  "ensure_model_file_trash x now trid fid reason note d = (r, d') \<Longrightarrow> server_kept d d'"
  by (auto simp: ensure_model_file_trash_def Let_def split: option.splits prod.splits sum.splits
      dest!: server_fileD intro: server_then)

lemma server_delete_file: "server_kept d (snd (delete_model_file x now trid i d))"
  by (auto simp: delete_model_file_def split: prod.split sum.split
      dest!: server_ensure_trash intro: server_then)

lemma server_delete_trash: "server_kept d (snd (delete_model_file_trash i d))"
  by (auto simp: delete_model_file_trash_def intro: server_same)

lemma server_models:
  assumes "model_names_ok d \<Longrightarrow> model_names_ok d'" and "agent_tasks d' = agent_tasks d"
    and "accounts d' = accounts d" and "nodes d' = nodes d" and "model_instances d' = model_instances d"
  shows "server_kept d d'"
  using assms unfolding server_kept_def
  by (simp add: nodes_ok_def instances_ok_def kept_same account_step_same)

lemma server_insert_model:
  assumes "insert_model now i fid r f v d = Inr d'"
  shows "server_kept d d'"
proof (rule server_models)
  show "model_names_ok d \<Longrightarrow> model_names_ok d'" using names_ok_insert_model [OF _ assms] .
  obtain ms where "insert_file (new_file now fid i f v) (d\<lparr>models := ms\<rparr>) = Inr d'"
    using assms by (auto simp: insert_model_def split: sum.splits)
  from core_insert_file [OF this] show "agent_tasks d' = agent_tasks d" "accounts d' = accounts d"
    "nodes d' = nodes d" by (simp_all add: core_def accounts_def)
  from \<open>insert_file (new_file now fid i f v) (d\<lparr>models := ms\<rparr>) = Inr d'\<close>
  show "model_instances d' = model_instances d" by (auto simp: insert_file_def map_sum_def split: sum.splits)
qed

lemma server_update_checked:
  assumes "update_checked model_clash p f [] (models d) = Inr ms"
  shows "server_kept d (d\<lparr>models := ms\<rparr>)"
  using names_ok_updated [OF _ assms] by (intro server_models) (simp_all add: model_names_ok_def accounts_def)

lemma server_update_model: "server_kept d (snd (update_model x now i r d))"
proof -
  have last: "server_kept d (snd (model x now i (d\<lparr>models := ms\<rparr>)))"
    if "update_checked model_clash p f [] (models d) = Inr ms" for p f ms
    using server_trans [OF server_update_checked [OF that] server_modelD [OF prod.collapse [symmetric]]] .
  show ?thesis
    by (auto simp: update_model_def Let_def split: option.split sum.split intro: last)
qed

lemma server_trash_files: "trash_files x now fs d = (r, d') \<Longrightarrow> server_kept d d'"
proof (induction fs arbitrary: d)
  case (Cons f fs)
  then show ?case
    by (cases f) (auto split: prod.splits sum.splits dest!: server_ensure_trash intro: server_trans)
qed simp

lemma server_delete_model: "server_kept d (snd (delete_model x now trids i d))"
  by (auto simp: delete_model_def split: prod.split sum.split dest!: server_trash_files server_update_checked
      intro: server_trans)

section \<open>Instances\<close>

lemma server_instances:
  assumes "instances_ok d \<Longrightarrow> instances_ok d'" and "agent_tasks d' = agent_tasks d"
    and "accounts d' = accounts d" and "nodes d' = nodes d" and "models d' = models d"
  shows "server_kept d d'"
  using assms unfolding server_kept_def
  by (simp add: nodes_ok_def model_names_ok_def kept_same account_step_same)

lemma server_insert_instance: "server_kept d (snd (insert_instance now r d))"
proof (cases "insert_row (same_key mi_id) (instance_refs_ok d r) r (model_instances d)")
  case (Inr rows)
  then have rows: "rows = model_instances d @ [r]" "\<forall>q \<in> set (model_instances d). mi_id r \<noteq> mi_id q"
    unfolding insert_row_Inr same_key_def by blast+
  have "server_kept d (d\<lparr>model_instances := rows\<rparr>)"
    by (rule server_instances) (use rows(2) in \<open>auto simp: rows(1) instances_ok_def accounts_def\<close>)
  with Inr show ?thesis by (simp add: insert_instance_def Let_def)
qed (simp add: insert_instance_def)

lemma server_create_local: "server_kept d (snd (create_local_model_instance x now i r d))"
  by (auto simp: create_local_model_instance_def Let_def server_insert_instance split: option.split sum.split)

lemma server_create_instance: "server_kept d (snd (create_model_instance x now i r d))"
  by (auto simp: create_model_instance_def Let_def server_insert_instance server_create_local split: option.split)

lemma server_update_instance: "server_kept d (snd (update_model_instance x now i r d))"
  by (auto simp: update_model_instance_def update_local_instance_def update_external_instance_def Let_def
      core_set_instance split: option.split sum.split intro!: server_same)

lemma server_delete_instance: "server_kept d (snd (delete_model_instance now i d))"
proof -
  have "server_kept d (d\<lparr>model_instances := delete_where p (model_instances d)\<rparr>)" for p
    by (rule server_instances) (auto simp: instances_ok_def accounts_def delete_where_def distinct_map_filter)
  then show ?thesis by (auto simp: delete_model_instance_def split: sum.split)
qed

section \<open>Accounts, nodes, configuration\<close>

lemmas account_defs = setup_initial_admin_def create_user_with_policy_def update_user_with_policy_def
  login_user_def authenticate_session_def revoke_session_def reset_user_password_def
  change_user_password_def create_user_group_def update_user_group_def replace_user_group_members_def
  delete_user_group_def insert_user_def revoke_user_sessions_def set_user_def set_session_def

lemma server_account: "server_kept d (account_run x e d)"
proof -
  have "agent_tasks (account_run x e d) = agent_tasks d \<and> nodes (account_run x e d) = nodes d
      \<and> models (account_run x e d) = models d \<and> model_instances (account_run x e d) = model_instances d"
    by (cases e) (simp_all add: account_defs Let_def split: option.split sum.split prod.split)
  then show ?thesis
    using accounts.step [of d x e]
    by (simp add: server_kept_def nodes_ok_def model_names_ok_def instances_ok_def kept_same)
qed

lemma server_nodes:
  assumes "nodes_ok d \<Longrightarrow> nodes_ok d'" and "agent_tasks d' = agent_tasks d"
    and "accounts d' = accounts d" and "models d' = models d" and "model_instances d' = model_instances d"
  shows "server_kept d d'"
  using assms unfolding server_kept_def
  by (simp add: model_names_ok_def instances_ok_def kept_same account_step_same)

lemma server_register: "server_kept d (snd (try_register x now fresh token r d))"
proof -
  have *: "server_kept d (d\<lparr>nodes := rows\<rparr>)" if "nodes_ok d \<Longrightarrow> nodes_ok (d\<lparr>nodes := rows\<rparr>)" for rows
    using that by (rule server_nodes) (simp_all add: accounts_def)
  from try_register_nodes [of x now fresh token r d] show ?thesis
  proof (elim disjE exE conjE)
    assume "snd (try_register x now fresh token r d) = d" then show ?thesis by simp
  next
    fix rows assume rows: "snd (try_register x now fresh token r d) = d\<lparr>nodes := rows\<rparr>"
    show ?thesis unfolding rows by (rule *) (use nodes_ok_register [of d x now fresh token r] rows in simp)
  qed
qed

lemma server_register_twice:
  assumes "\<And>d. server_kept d (between d)"
  shows "server_kept d (snd (register_node x now fresh1 fresh2 token between r d))"
proof -
  obtain res d1 where t: "try_register x now fresh1 token r d = (res, d1)" by fastforce
  have one: "server_kept d d1" using server_register [of d x now fresh1 token r] t by simp
  have two: "server_kept d (snd (try_register x now fresh2 token r (between d1)))"
    by (rule server_trans [OF server_trans [OF one assms] server_register])
  show ?thesis
  proof (cases res)
    case (Inl e)
    with one two show ?thesis unfolding register_node_def t by simp
  next
    case (Inr v)
    with one show ?thesis unfolding register_node_def t by simp
  qed
qed

lemma reconcile_ids:
  "\<exists>rows. reconcile_managed_instances nid ps now d = d\<lparr>model_instances := rows\<rparr>
     \<and> map mi_id rows = map mi_id (model_instances d)"
  unfolding reconcile_managed_instances_def Let_def fold_reconcile_report
  by (subst fold_set_instance) (auto simp: o_def)

lemma record_gpus_core: "core (record_gpus h d) = core d"
proof -
  obtain ss where "record_gpus h d = d\<lparr>gpu_status := gpus_reported (hb_node_id h) (hb_sampled_at h) (hb_gpus h) (gpu_status d),
      gpu_metric_samples := ss\<rparr>"
    unfolding record_gpus_def using fold_gpus [of "hb_node_id h" "hb_sampled_at h" "hb_gpus h" d] by blast
  then show ?thesis by (simp add: core_def accounts_def)
qed

lemma server_touch: "server_kept d (touch_node now h d)"
  by (rule server_nodes) (simp_all add: touch_node_def accounts_def nodes_ok_def map_update_where)

lemma server_heartbeat: "server_kept d (snd (record_heartbeat x now h d))"
proof (cases "node_exists d (hb_node_id h)")
  case True
  let ?d1 = "upsert_node_status x h (touch_node now h d)"
  let ?d2 = "?d1\<lparr>node_metric_samples := node_metric_samples ?d1 @ [node_sample h]\<rparr>"
  let ?d3 = "record_gpus h ?d2"
  let ?d4 = "if hb_collector_errors h = [] then mark_missing_gpus (hb_node_id h) (hb_sampled_at h) ?d3 else ?d3"
  have "core ?d1 = core (touch_node now h d)" by (simp add: upsert_node_status_def core_def accounts_def Let_def)
  then have "core ?d4 = core (touch_node now h d)"
    using record_gpus_core [of h ?d2] by (simp add: mark_missing_gpus_def core_def accounts_def)
  with server_touch have "server_kept d ?d4" by (rule server_then)
  moreover obtain rows where "reconcile_managed_instances (hb_node_id h) (hb_managed_instances h) now ?d4
      = ?d4\<lparr>model_instances := rows\<rparr>" "map mi_id rows = map mi_id (model_instances ?d4)"
    using reconcile_ids by blast
  then have "core (snd (record_heartbeat x now h d)) = core ?d4"
    using True by (simp add: record_heartbeat_def Let_def core_def accounts_def)
  ultimately show ?thesis by (rule server_then)
qed (simp add: record_heartbeat_def)

lemma server_cleanup_samples: "server_kept d (snd (cleanup_historical_metrics now days d))"
  by (rule server_same) (simp add: cleanup_historical_metrics_def Let_def core_def accounts_def)

lemma server_save_policy: "server_kept d (snd (save_agent_config_policy x now scope nid p d))"
  by (auto simp: save_agent_config_policy_def Let_def split: option.split intro: server_same)


section \<open>Operations that wait for an agent\<close>

text \<open>
  While such an operation waits, the rest of the server runs: \<open>es\<close> are the database changes that
  happen meanwhile. The contract of the waiting operations is that each of these changes keeps what
  the server keeps; under it the whole operation does.
\<close>

locale kept_env =
  fixes es :: "(db \<Rightarrow> db) list"
  assumes env_kept: "f \<in> set es \<Longrightarrow> server_kept d (f d)"
begin

lemma server_wait: "server_kept d (snd (wait_task i es d))"
  using env_kept
proof (induction es arbitrary: d)
  case Nil
  then show ?case by (subst wait_task.simps) (simp split: option.split)
next
  case (Cons e es)
  have "server_kept d (snd (wait_task i es (e d)))"
    by (rule server_trans [OF Cons.prems Cons.IH]) (simp_all add: Cons.prems)
  then show ?case by (subst wait_task.simps) (simp split: option.split)
qed

lemma server_waitD: "wait_task i es d = (w, d') \<Longrightarrow> server_kept d d'"
  using server_wait [of d i] by simp

lemma server_runtime_check:
  "check_runtime_environment_before_save x now later tid es nid r d = (res, d') \<Longrightarrow> server_kept d d'"
  by (auto simp: check_runtime_environment_before_save_def split: sum.splits prod.splits wait_end.splits
      dest!: server_queue server_waitD intro: server_trans server_trans [OF server_trans server_mark])

lemma server_create_runtime:
  "server_kept d (snd (create_runtime_environment x now later tid rid es nid r d))"
  by (auto simp: create_runtime_environment_def core_insert_runtime split: option.split prod.split sum.split
      dest!: server_runtime_check intro: server_same server_then)

lemma server_check_runtime:
  "server_kept d (snd (check_runtime_environment x now later tid es i d))"
  by (auto simp: check_runtime_environment_def Let_def split: option.split prod.split sum.split
      dest!: server_runtime_check server_runtime_updD intro: server_same server_then)

lemma server_verify:
  "verify_model_file_before_save x now later tid es nid path d = (r, d') \<Longrightarrow> server_kept d d'"
  by (auto simp: verify_model_file_before_save_def wait_for_model_file_verification_def
      split: if_splits sum.splits prod.splits wait_end.splits
      dest!: server_queue server_waitD intro: server_trans server_trans [OF server_trans server_mark])

lemma server_create_file:
  "server_kept d (snd (create_model_file x now later tid fid es mid r d))"
proof -
  have last: "server_kept d1 (snd (model_file x later fid d2))" if "insert_file f d1 = Inr d2" for f d1 d2
    using server_trans [OF server_same [OF core_insert_file [OF that]] server_fileD [OF prod.collapse [symmetric]]] .
  show ?thesis
    by (auto simp: create_model_file_def split: option.split prod.split sum.split
        dest!: server_verify dest: last intro: server_trans [OF _ last])
qed

lemma server_update_file:
  "server_kept d (snd (update_model_file x now later tid es i r d))"
proof -
  have last: "server_kept d1 (snd (model_file x later i (set_file i f d1)))" for f d1
    by (rule server_trans [OF server_same server_fileD [OF prod.collapse [symmetric]]]) simp
  show ?thesis
    by (auto simp: update_model_file_def split: option.split prod.split sum.split
        dest!: server_verify intro: server_trans [OF _ last])
qed

lemma server_cleanup:
  "server_kept d (snd (cleanup_model_file_trash x now later tid es i d))"
proof -
  have wait: "server_kept d0 (snd (wait_for_model_file_cleanup x later i tid es d0))" for d0
    by (auto simp: wait_for_model_file_cleanup_def split: prod.split wait_end.split dest!: server_waitD
        intro: server_then [OF server_trans [OF _ server_mark]])
  have last: "server_kept d1 (snd (wait_for_model_file_cleanup x later i tid es (set_trash i f d1)))" for f d1
    by (rule server_trans [OF server_same wait]) simp
  show ?thesis
    by (auto simp: cleanup_model_file_trash_def split: sum.split option.split
        dest!: server_queue intro: server_same server_trans [OF _ last])
qed

lemma server_create_model:
  "server_kept d (snd (create_model x now later tid i fid es r d))"
proof -
  have last: "server_kept d1 (snd (model x later i d2))" if "insert_model later i fid r f v d1 = Inr d2" for f v d1 d2
    using server_trans [OF server_insert_model [OF that] server_modelD [OF prod.collapse [symmetric]]] .
  show ?thesis
    by (auto simp: create_model_def split: option.split prod.split sum.split
        dest!: server_verify dest: last intro: server_trans [OF _ last])
qed

lemma server_wait_instance:
  "server_kept d (snd (wait_for_model_instance_task x later i tid es d))"
proof -
  obtain w d1 where w: "wait_task tid es d = (w, d1)" by fastforce
  obtain res d2 where u: "update_instance_check later i ''failed''
      (Some ''local instance task timed out'') (mark_task_timed_out later tid d1) = (res, d2)" by fastforce
  from server_then [OF server_trans [OF server_waitD [OF w] server_mark] core_instance_checkD [OF u]]
  have "server_kept d d2" .
  with w u server_waitD [OF w] show ?thesis
    by (cases w) (auto simp: wait_for_model_instance_task_def split: sum.split)
qed

lemma server_run_task:
  "server_kept d (snd (run_local_instance_task x now later tid es i kind pending d))"
proof -
  have last: "server_kept d1 (snd (wait_for_model_instance_task x later i tid es (mark_pending now i s d1)))"
    for d1 s by (rule server_trans [OF server_same server_wait_instance]) simp
  show ?thesis
    by (auto simp: run_local_instance_task_def split: sum.split dest!: server_queue intro: server_trans [OF _ last])
qed

lemma server_start_instance: "server_kept d (snd (start_model_instance x now later tid es i d))"
  unfolding start_model_instance_def by (rule server_run_task)

lemma server_stop_instance: "server_kept d (snd (stop_model_instance x now later tid es i d))"
  unfolding stop_model_instance_def by (rule server_run_task)

lemma server_check_instance:
  "server_kept d (snd (check_model_instance x http now later tid es i d))"
  by (auto simp: check_model_instance_def check_external_instance_def Let_def server_run_task
      split: sum.split option.split intro: server_same)

lemma server_test_instance:
  "server_kept d (snd (test_model_instance x http now later tid es i d))"
  by (auto simp: test_model_instance_def Let_def server_check_instance server_run_task split: sum.split)


lemma server_gateway: "server_kept d (snd (run_gateway_task x now later tid es nid kind q d))"
  by (auto simp: run_gateway_task_def wait_for_gateway_task_def
      split: option.split sum.split prod.split wait_end.split
      dest!: server_queue server_waitD intro: server_trans server_trans [OF server_trans server_mark])

lemma server_wait_answer: "server_kept d (snd (wait_answer i es d))"
  using env_kept
proof (induction es arbitrary: d)
  case Nil
  then show ?case by (subst wait_answer.simps) (simp split: option.split)
next
  case (Cons e es)
  have "server_kept d (snd (wait_answer i es (e d)))"
    by (rule server_trans [OF Cons.prems Cons.IH]) (simp_all add: Cons.prems)
  then show ?case by (subst wait_answer.simps) (simp split: option.split)
qed

lemma server_answer:
  assumes "\<And>t d. server_kept d (snd (finish t d))"
  shows "server_kept d (snd (answer_of later tid es finish f e d))"
proof -
  obtain w d1 where w: "wait_answer tid es d = (w, d1)" by fastforce
  then have d1: "server_kept d d1" using server_wait_answer [of d tid] by simp
  show ?thesis
  proof (cases w)
    case (Ended t)
    then show ?thesis using d1 server_trans [OF d1 assms [of d1 t]]
      by (simp add: answer_of_def w split: prod.split) (metis snd_conv)
  next
    case DeadlinePassed
    then show ?thesis using server_trans [OF d1 server_mark] by (simp add: answer_of_def w)
  qed (use d1 in \<open>simp add: answer_of_def w\<close>)
qed

lemma server_queued_answer:
  assumes "queue_task x now tid nid kind p d = Inr d1" and "\<And>t d. server_kept d (snd (finish t d))"
  shows "server_kept d (snd (answer_of later tid es finish f e d1))"
  by (rule server_trans [OF server_queue [OF assms(1)] server_answer [OF assms(2)]])

lemma server_agent_log: "server_kept d (snd (read_agent_log x now later tid es nid n d))"
  by (auto simp: read_agent_log_def split: sum.split intro: server_queued_answer)

lemma server_refresh_logs: "server_kept d (snd (refresh_instance_logs x now later tid es i d))"
  by (auto simp: refresh_instance_logs_def core_set_instance split: sum.split prod.split
      intro!: server_same elim!: server_queued_answer)

lemma server_ollama_models: "server_kept d (snd (ollama_model_list x now later tid es nid rid d))"
  by (auto simp: ollama_model_list_def split: sum.split intro: server_queued_answer)

end


text \<open>The steps of the agent protocol are such changes.\<close>

interpretation agent_env: kept_env "map (agent_run x) es" for x es
  by unfold_locales (auto intro: server_agent)


section \<open>Runs of the server\<close>

text \<open>
  One rule per operation of the API, of the agents and of the timers; a run is any sequence of
  them. An operation that waits for an agent lets an arbitrary run of the server happen between any
  two of its polls, and a registration one between its two attempts.
\<close>

inductive server_runs :: "ext \<Rightarrow> db \<Rightarrow> db \<Rightarrow> bool" for x where
  agent: "server_runs x d (agent_run x a d)"
| account: "server_runs x d (account_run x b d)"
| update_runtime: "server_runs x d (snd (update_runtime_environment x now i r d))"
| delete_runtime: "server_runs x d (snd (delete_runtime_environment i d))"
| list_files: "server_runs x d (snd (list_model_files x now mid d))"
| queue_verification: "server_runs x d (snd (queue_model_file_verification x now tid i d))"
| trash_file: "server_runs x d (snd (create_model_file_trash x now trid fid t d))"
| delete_file: "server_runs x d (snd (delete_model_file x now trid i d))"
| delete_trash: "server_runs x d (snd (delete_model_file_trash i d))"
| list_models: "server_runs x d (snd (list_models x now d))"
| read_model: "server_runs x d (snd (model x now i d))"
| read_file: "server_runs x d (snd (model_file x now i d))"
| update_model: "server_runs x d (snd (update_model x now i m d))"
| delete_model: "server_runs x d (snd (delete_model x now trids i d))"
| create_instance: "server_runs x d (snd (create_model_instance x now i c d))"
| update_instance: "server_runs x d (snd (update_model_instance x now i u d))"
| delete_instance: "server_runs x d (snd (delete_model_instance now i d))"
| heartbeat: "server_runs x d (snd (record_heartbeat x now h d))"
| register: "(\<And>d. server_runs x d (between d)) \<Longrightarrow> server_runs x d (snd (register_node x now fresh1 fresh2 token between g d))"
| cleanup_samples: "server_runs x d (snd (cleanup_historical_metrics now days d))"
| global_policy: "server_runs x d (snd (update_global_agent_config_policy x now p d))"
| node_policy: "server_runs x d (snd (update_node_agent_config_policy x now nid p d))"
| create_runtime: "(\<And>f d. f \<in> set es \<Longrightarrow> server_runs x d (f d)) \<Longrightarrow>
     server_runs x d (snd (create_runtime_environment x now later tid i es nid r d))"
| check_runtime: "(\<And>f d. f \<in> set es \<Longrightarrow> server_runs x d (f d)) \<Longrightarrow>
     server_runs x d (snd (check_runtime_environment x now later tid es i d))"
| create_file: "(\<And>f d. f \<in> set es \<Longrightarrow> server_runs x d (f d)) \<Longrightarrow>
     server_runs x d (snd (create_model_file x now later tid fid es mid f d))"
| update_file: "(\<And>f d. f \<in> set es \<Longrightarrow> server_runs x d (f d)) \<Longrightarrow>
     server_runs x d (snd (update_model_file x now later tid es i f d))"
| cleanup_trash: "(\<And>f d. f \<in> set es \<Longrightarrow> server_runs x d (f d)) \<Longrightarrow>
     server_runs x d (snd (cleanup_model_file_trash x now later tid es i d))"
| create_model: "(\<And>f d. f \<in> set es \<Longrightarrow> server_runs x d (f d)) \<Longrightarrow>
     server_runs x d (snd (create_model x now later tid i fid es m d))"
| start_instance: "(\<And>f d. f \<in> set es \<Longrightarrow> server_runs x d (f d)) \<Longrightarrow>
     server_runs x d (snd (start_model_instance x now later tid es i d))"
| stop_instance: "(\<And>f d. f \<in> set es \<Longrightarrow> server_runs x d (f d)) \<Longrightarrow>
     server_runs x d (snd (stop_model_instance x now later tid es i d))"
| check_instance: "(\<And>f d. f \<in> set es \<Longrightarrow> server_runs x d (f d)) \<Longrightarrow>
     server_runs x d (snd (check_model_instance x http now later tid es i d))"
| test_instance: "(\<And>f d. f \<in> set es \<Longrightarrow> server_runs x d (f d)) \<Longrightarrow>
     server_runs x d (snd (test_model_instance x http now later tid es i d))"
| gateway: "(\<And>f d. f \<in> set es \<Longrightarrow> server_runs x d (f d)) \<Longrightarrow>
     server_runs x d (snd (run_gateway_task x now later tid es nid kind gq d))"
| agent_log: "(\<And>f d. f \<in> set es \<Longrightarrow> server_runs x d (f d)) \<Longrightarrow>
     server_runs x d (snd (read_agent_log x now later tid es nid bytes d))"
| instance_log: "(\<And>f d. f \<in> set es \<Longrightarrow> server_runs x d (f d)) \<Longrightarrow>
     server_runs x d (snd (refresh_instance_logs x now later tid es i d))"
| ollama_models: "(\<And>f d. f \<in> set es \<Longrightarrow> server_runs x d (f d)) \<Longrightarrow>
     server_runs x d (snd (ollama_model_list x now later tid es nid rid d))"
| audit: "server_runs x d (snd (record_audit now i ar d))"
| frontend_error: "server_runs x d (snd (record_frontend_error x now i message stack page at who d))"
| log_policy: "server_runs x d (snd (snd (update_server_log_policy x now lp global d)))"
| register_collector: "server_runs x d (snd (register_collector now rc d))"
| delete_collector: "server_runs x d (delete_collector_registry_entry i v d)"
| enable_collector: "server_runs x d (snd (update_collector_enabled now i v enabled d))"
| idle: "server_runs x d d"
| seq: "server_runs x a b \<Longrightarrow> server_runs x b c \<Longrightarrow> server_runs x a c"

lemma server_list_files: "server_kept d (snd (list_model_files x now mid d))"
  by (auto simp: list_model_files_def split: option.split
      intro: server_rowsD [OF prod.collapse [symmetric]])

lemma server_trash_file: "server_kept d (snd (create_model_file_trash x now trid fid t d))"
  using server_ensure_trash [OF prod.collapse [symmetric]] unfolding create_model_file_trash_def .

lemma server_model: "server_kept d (snd (model x now i d))"
  by (rule server_modelD [OF prod.collapse [symmetric]])

lemma server_read_file: "server_kept d (snd (model_file x now i d))"
  by (rule server_fileD [OF prod.collapse [symmetric]])

lemma server_model_from_row: "model_from_row x now r d = (v, d') \<Longrightarrow> server_kept d d'"
  by (auto simp: model_from_row_def model_file_summary_def split: prod.splits sum.splits dest: server_sweepD)

lemma server_models_from_rows: "server_kept d (snd (models_from_rows x now rs d))"
proof (induction rs arbitrary: d)
  case (Cons r rs)
  obtain res d1 where r: "model_from_row x now r d = (res, d1)" by fastforce
  obtain vs d2 where rs: "models_from_rows x now rs d1 = (vs, d2)" by fastforce
  have "server_kept d d1" "server_kept d d2"
    using server_model_from_row [OF r] server_trans [OF server_model_from_row [OF r] Cons.IH] rs by (simp, metis snd_conv)
  with r rs show ?case by (simp split: sum.split)
qed simp

lemma server_list_models: "server_kept d (snd (list_models x now d))"
  unfolding list_models_def by (rule server_models_from_rows)

lemma server_policyD: "save_agent_config_policy x now scope nid p d = (r, d') \<Longrightarrow> server_kept d d'"
  using server_save_policy [of d x now scope nid p] by simp

lemma server_policies:
  "server_kept d (snd (update_global_agent_config_policy x now p d))"
  "server_kept d (snd (update_node_agent_config_policy x now nid p d))"
  by (auto simp: update_global_agent_config_policy_def update_node_agent_config_policy_def
      split: prod.split sum.split dest: server_policyD)

lemma server_audit: "server_kept d (snd (record_audit now i r d))"
  by (auto simp: record_audit_def split: sum.split intro: server_same)

lemma server_frontend_error: "server_kept d (snd (record_frontend_error x now i message stack page at who d))"
  unfolding record_frontend_error_def by (rule server_audit)

lemma server_settings:
  "server_kept d (snd (snd (update_server_log_policy x now lp global d)))"
  "server_kept d (snd (register_collector now rc d))"
  "server_kept d (delete_collector_registry_entry i v d)"
  "server_kept d (snd (update_collector_enabled now i v enabled d))"
  by (auto simp: update_server_log_policy_def register_collector_def delete_collector_registry_entry_def
      update_collector_enabled_def Let_def split: option.split intro: server_same)

lemmas server_operations = server_audit server_frontend_error server_settings server_agent server_account server_update_runtime server_delete_runtime
  server_list_files server_queue_verification server_trash_file server_delete_file server_delete_trash
  server_list_models server_model server_read_file server_update_model server_delete_model server_create_instance
  server_update_instance server_delete_instance server_heartbeat server_cleanup_samples server_policies

lemmas server_waits = kept_env.server_create_runtime kept_env.server_check_runtime
  kept_env.server_create_file kept_env.server_update_file kept_env.server_cleanup
  kept_env.server_create_model kept_env.server_start_instance kept_env.server_stop_instance
  kept_env.server_check_instance kept_env.server_test_instance kept_env.server_gateway
  kept_env.server_agent_log kept_env.server_refresh_logs kept_env.server_ollama_models

lemma runs_kept: "server_runs x d d' \<Longrightarrow> server_kept d d'"
proof (induction rule: server_runs.induct)
  case (register between d now fresh1 fresh2 token g)
  show ?case by (rule server_register_twice) (rule register)
next
  case (seq a b c)
  from seq(3,4) show ?case by (rule server_trans)
qed (rule server_operations server_refl | rule server_waits, unfold_locales, assumption)+

section \<open>Reachable states\<close>

definition server_ok :: "db \<Rightarrow> bool" where
  "server_ok d \<longleftrightarrow> tasks_wf d \<and> accounts_ok d \<and> nodes_ok d \<and> model_names_ok d \<and> instances_ok d"

lemma kept_ok: "server_kept d d' \<Longrightarrow> server_ok d \<Longrightarrow> server_ok d'"
  by (auto simp: server_kept_def server_ok_def queue_kept_def account_step_def)

lemma runs_ok: "server_runs x d d' \<Longrightarrow> server_ok d \<Longrightarrow> server_ok d'"
  by (rule kept_ok [OF runs_kept])

lemma empty_ok: "server_ok empty_db"
  by (simp add: server_ok_def empty_db_def tasks_wf_def accounts_ok_def nodes_ok_def
      model_names_ok_def instances_ok_def)

lemma reachable_ok: "server_runs x empty_db d \<Longrightarrow> server_ok d"
  using empty_ok by (rule runs_ok [rotated])

lemma runs_task:
  assumes "server_runs x d d'" and "server_ok d" and "task_of d i = Some t"
  shows "\<exists>t'. task_of d' i = Some t' \<and> same_task t t' \<and> task_moves (t_status t) (t_status t')"
  using runs_kept [OF assms(1)] assms(2,3)
  by (simp add: server_kept_def queue_kept_def server_ok_def task_step_def)

end
