(* ===== verification/Floats.thy ===== *)
theory Floats
  imports Json
begin

text \<open>
  Numbers in text: \<open>str::parse\<close> of the standard library for \<open>i64\<close>, \<open>u64\<close> and \<open>f64\<close>. An \<open>f64\<close> is
  its 64-bit pattern; \<open>round_f64\<close> rounds a fraction to the nearest value, ties to even, as IEEE 754
  and the library do. \<open>mib_to_bytes\<close> is the agent's \<open>(mb * 1024.0 * 1024.0) as i64\<close>: the product with
  a power of two is exact unless it overflows, and the cast truncates, saturates and sends NaN to 0.
\<close>

section \<open>Integers\<close>

definition digit_value :: "char \<Rightarrow> int" where
  "digit_value c = byte c - 48"

definition is_digit :: "char \<Rightarrow> bool" where
  "is_digit c \<longleftrightarrow> 48 \<le> byte c \<and> byte c \<le> 57"

fun digits_value :: "int \<Rightarrow> string \<Rightarrow> int" where
  "digits_value n [] = n"
| "digits_value n (c # s) = digits_value (10 * n + digit_value c) s"

definition parse_digits :: "string \<Rightarrow> int option" where
  "parse_digits s = (if s \<noteq> [] \<and> list_all is_digit s then Some (digits_value 0 s) else None)"

definition parse_u64 :: "string \<Rightarrow> int option" where
  "parse_u64 s =
     Option.bind (parse_digits (if starts_with s ''+'' then tl s else s))
       (\<lambda>n. if n < 2 ^ 64 then Some n else None)"

definition parse_i64 :: "string \<Rightarrow> int option" where
  "parse_i64 s =
     (if starts_with s ''-'' then
        Option.bind (parse_digits (tl s)) (\<lambda>n. if n \<le> 2 ^ 63 then Some (- n) else None)
      else Option.bind (parse_digits (if starts_with s ''+'' then tl s else s))
        (\<lambda>n. if n < 2 ^ 63 then Some n else None))"

section \<open>Rounding to a double\<close>

text \<open>The position of the highest one bit.\<close>

function ilog2 :: "int \<Rightarrow> int" where
  "ilog2 n = (if n \<le> 1 then 0 else 1 + ilog2 (n div 2))"
  by pat_completeness auto
termination
  by (relation "measure nat") auto

declare ilog2.simps [simp del]

definition round_half_even :: "int \<Rightarrow> int \<Rightarrow> int" where
  "round_half_even a b =
     (let q = a div b; r = a mod b
      in if 2 * r < b \<or> (2 * r = b \<and> even q) then q else q + 1)"

text \<open>\<open>a / b\<close> over \<open>2^e\<close>, rounded to an integer.\<close>

definition scaled :: "int \<Rightarrow> int \<Rightarrow> int \<Rightarrow> int" where
  "scaled a b e =
     (if 0 \<le> e then round_half_even a (b * 2 ^ nat e) else round_half_even (a * 2 ^ nat (- e)) b)"

text \<open>Is \<open>a / b < 2^(53 + e)\<close>?\<close>

definition fits_53 :: "int \<Rightarrow> int \<Rightarrow> int \<Rightarrow> bool" where
  "fits_53 a b e \<longleftrightarrow>
     (if 0 \<le> e then a < b * 2 ^ nat e * 2 ^ 53 else a * 2 ^ nat (- e) < b * 2 ^ 53)"

definition f64_infinity :: int where
  "f64_infinity = 2047 * 2 ^ 52"

definition f64_nan :: int where
  "f64_nan = 2047 * 2 ^ 52 + 2 ^ 51"

text \<open>
  The bits of the positive double nearest to \<open>a / b\<close>. The exponent is the least one with 53 bits,
  not below the subnormal one; a carry out of the significand moves into the exponent field.
\<close>

definition round_f64 :: "int \<Rightarrow> int \<Rightarrow> int" where
  "round_f64 a b =
     (if a = 0 then 0 else
        (let e0 = ilog2 a - ilog2 b - 53;
             e1 = (if fits_53 a b e0 then e0 else e0 + 1);
             e = max (- 1074) e1;
             q = scaled a b e
         in if q < 2 ^ 52 then q else min f64_infinity ((e + 1075) * 2 ^ 52 + (q - 2 ^ 52))))"

section \<open>Reading a double\<close>

definition sign_bit :: "bool \<Rightarrow> int \<Rightarrow> f64" where
  "sign_bit neg bits = word_of_int ((if neg then 2 ^ 63 else 0) + bits)"

definition decimal_f64 :: "int \<Rightarrow> int \<Rightarrow> int" where
  "decimal_f64 n k = (if 0 \<le> k then round_f64 (n * 10 ^ nat k) 1 else round_f64 n (10 ^ nat (- k)))"

text \<open>The exponent part: nothing, or \<open>e\<close> with an optional sign and at least one digit.\<close>

fun parse_exponent :: "string \<Rightarrow> int option" where
  "parse_exponent [] = Some 0"
| "parse_exponent (c # s) =
     (if c = CHR ''e'' \<or> c = CHR ''E'' then
        (if starts_with s ''-'' then map_option uminus (parse_digits (tl s))
         else parse_digits (if starts_with s ''+'' then tl s else s))
      else None)"

definition parse_decimal :: "string \<Rightarrow> int option" where
  "parse_decimal s =
     (let whole = takeWhile is_digit s; r = dropWhile is_digit s;
          frac = (if starts_with r ''.'' then takeWhile is_digit (tl r) else []);
          rest = (if starts_with r ''.'' then dropWhile is_digit (tl r) else r)
      in if whole = [] \<and> frac = [] then None
         else map_option (\<lambda>k. decimal_f64 (digits_value 0 (whole @ frac)) (k - int (length frac)))
                (parse_exponent rest))"

definition parse_f64 :: "string \<Rightarrow> f64 option" where
  "parse_f64 s =
     (let neg = starts_with s ''-'';
          r = (if neg \<or> starts_with s ''+'' then tl s else s);
          low = to_ascii_lowercase r
      in if low = ''inf'' \<or> low = ''infinity'' then Some (sign_bit neg f64_infinity)
         else if low = ''nan'' then Some (sign_bit neg f64_nan)
         else map_option (sign_bit neg) (parse_decimal r))"

section \<open>Mebibytes to bytes\<close>

definition saturate_i64 :: "int \<Rightarrow> int" where
  "saturate_i64 n = max (- (2 ^ 63)) (min (2 ^ 63 - 1) n)"

text \<open>The magnitude of \<open>bits * 2^20\<close>, cut to an integer; \<open>e\<close> is the exponent field.\<close>

definition mib_magnitude :: "int \<Rightarrow> int \<Rightarrow> int" where
  "mib_magnitude e m =
     (let sig = (if e = 0 then m else m + 2 ^ 52); k = max 1 e - 1055
      in if 0 \<le> k then (if 12 \<le> k then 2 ^ 63 else sig * 2 ^ nat k)
         else sig div 2 ^ nat (- k))"

definition mib_to_bytes :: "f64 \<Rightarrow> int" where
  "mib_to_bytes w =
     (let n = uint w; neg = 2 ^ 63 \<le> n; b = n mod 2 ^ 63; e = b div 2 ^ 52; m = b mod 2 ^ 52
      in if e = 2047 \<and> m \<noteq> 0 then 0
         else (let mag = (if e = 2047 then 2 ^ 63 else mib_magnitude e m)
               in saturate_i64 (if neg then - mag else mag)))"

section \<open>Whole numbers are read exactly\<close>

lemma ilog2_bounds: "1 \<le> n \<Longrightarrow> 0 \<le> ilog2 n \<and> 2 ^ nat (ilog2 n) \<le> n \<and> n < 2 * 2 ^ nat (ilog2 n)"
proof (induction n rule: ilog2.induct)
  case (1 n)
  show ?case
  proof (cases "n \<le> 1")
    case True
    with 1(2) show ?thesis by (simp add: ilog2.simps)
  next
    case False
    with 1 have IH: "0 \<le> ilog2 (n div 2)" "2 ^ nat (ilog2 (n div 2)) \<le> n div 2"
      "n div 2 < 2 * 2 ^ nat (ilog2 (n div 2))" by auto
    from False have l: "ilog2 n = 1 + ilog2 (n div 2)" by (simp add: ilog2.simps)
    have "(2 :: int) ^ nat (ilog2 n) = 2 * 2 ^ nat (ilog2 (n div 2))"
      using IH(1) unfolding l by (simp add: nat_add_distrib)
    with IH l show ?thesis by simp linarith
  qed
qed

lemma round_half_even_1 [simp]: "round_half_even a 1 = a"
  by (simp add: round_half_even_def)

lemma round_f64_whole:
  assumes "1 \<le> n" and "n < 2 ^ 53"
  shows "\<exists>l. l \<le> 52 \<and> 2 ^ l \<le> n \<and> n < 2 * 2 ^ l
    \<and> round_f64 n 1 = (int l + 1023) * 2 ^ 52 + (n * 2 ^ (52 - l) - 2 ^ 52)"
proof -
  define l where "l = nat (ilog2 n)"
  from ilog2_bounds [OF assms(1)] have l: "ilog2 n = int l" "2 ^ l \<le> n" "n < 2 * 2 ^ l" by (simp_all add: l_def)
  have "l \<le> 52"
  proof (rule ccontr)
    assume "\<not> l \<le> 52"
    then have "(2 :: int) ^ 53 \<le> 2 ^ l" by (intro power_increasing) auto
    with l(2) assms(2) show False by linarith
  qed
  have up: "(2 :: int) ^ l * 2 ^ (52 - l) = 2 ^ 52" using \<open>l \<le> 52\<close> by (simp flip: power_add)
  have q: "2 ^ 52 \<le> n * 2 ^ (52 - l)" "n * 2 ^ (52 - l) < 2 * 2 ^ 52"
    using mult_right_mono [OF l(2), of "2 ^ (52 - l)"] mult_strict_right_mono [OF l(3), of "2 ^ (52 - l)"] up
    by (simp_all add: mult.assoc)
  have "nat (- (int l - 52)) = 52 - l" "nat (- (int l - 53)) = Suc (52 - l)" using \<open>l \<le> 52\<close> by linarith+
  note exps = this
  have sc: "scaled n 1 (int l - 52) = n * 2 ^ (52 - l)"
  proof (cases "l = 52")
    case False
    with \<open>l \<le> 52\<close> have "\<not> 0 \<le> int l - 52" by linarith
    then show ?thesis unfolding scaled_def exps by simp
  qed (simp add: scaled_def)
  have nf: "\<not> fits_53 n 1 (int l - 53)"
  proof -
    have "\<not> 0 \<le> int l - 53" using \<open>l \<le> 52\<close> by linarith
    then show ?thesis unfolding fits_53_def exps using q(1) by simp
  qed
  have "round_f64 n 1 = min f64_infinity ((int l - 52 + 1075) * 2 ^ 52 + (n * 2 ^ (52 - l) - 2 ^ 52))"
    using assms(1) nf sc q(1) by (simp add: round_f64_def Let_def l(1) ilog2.simps [of 1])
  also have "\<dots> = (int l + 1023) * 2 ^ 52 + (n * 2 ^ (52 - l) - 2 ^ 52)"
    using q(2) \<open>l \<le> 52\<close> by (simp add: f64_infinity_def min_def)
  finally show ?thesis using l(2,3) \<open>l \<le> 52\<close> by blast
qed

lemma mib_whole:
  assumes "0 \<le> n" and "n < 2 ^ 43"
  shows "mib_to_bytes (sign_bit False (round_f64 n 1)) = n * 2 ^ 20"
proof (cases "n = 0")
  case True
  then show ?thesis by (simp add: round_f64_def sign_bit_def mib_to_bytes_def mib_magnitude_def saturate_i64_def)
next
  case False
  with assms have n: "1 \<le> n" "n < 2 ^ 53" by auto
  from round_f64_whole [OF n] obtain l where l: "l \<le> 52" "2 ^ l \<le> n" "n < 2 * 2 ^ l"
    and r: "round_f64 n 1 = (int l + 1023) * 2 ^ 52 + (n * 2 ^ (52 - l) - 2 ^ 52)" by blast
  have "l < 43"
  proof (rule ccontr)
    assume "\<not> l < 43"
    then have "(2 :: int) ^ 43 \<le> 2 ^ l" by (intro power_increasing) auto
    with l(2) assms(2) show False by linarith
  qed
  define m where "m = n * 2 ^ (52 - l) - 2 ^ 52"
  have up: "(2 :: int) ^ l * 2 ^ (52 - l) = 2 ^ 52" using l(1) by (simp flip: power_add)
  have m: "0 \<le> m" "m < 2 ^ 52"
    using mult_right_mono [OF l(2), of "2 ^ (52 - l)"] mult_strict_right_mono [OF l(3), of "2 ^ (52 - l)"] up
    by (simp_all add: m_def mult.assoc)
  have r': "round_f64 n 1 = (int l + 1023) * 2 ^ 52 + m" using r by (simp add: m_def)
  have bits: "0 \<le> round_f64 n 1" "round_f64 n 1 < 2 ^ 63" unfolding r' using m \<open>l < 43\<close> by simp_all
  have u: "uint (sign_bit False (round_f64 n 1)) = round_f64 n 1"
    using bits by (simp add: sign_bit_def uint_word_of_int)
  have dm: "round_f64 n 1 div 2 ^ 52 = int l + 1023" "round_f64 n 1 mod 2 ^ 52 = m"
    unfolding r' using m div_mult_self3 [of "2 ^ 52" "int l + 1023" m] mod_mult_self3 [of "int l + 1023" "2 ^ 52" m]
    by (simp_all only: div_pos_pos_trivial mod_pos_pos_trivial)
  have mag: "mib_magnitude (int l + 1023) m = n * 2 ^ 20"
  proof (cases "32 \<le> l")
    case True
    have "(2 :: int) ^ (52 - l) * 2 ^ (l - 32) = 2 ^ 20" using True \<open>l < 43\<close> by (simp flip: power_add)
    with True \<open>l < 43\<close> show ?thesis
      by (simp add: mib_magnitude_def Let_def m_def nat_diff_distrib' mult.assoc)
  next
    case False
    have "(2 :: int) ^ (52 - l) = 2 ^ 20 * 2 ^ (32 - l)"
      unfolding power_add [symmetric] using False by (intro arg_cong [where f = "\<lambda>k. 2 ^ k"]) simp
    with False show ?thesis
      by (simp add: mib_magnitude_def Let_def m_def nat_diff_distrib' flip: mult.assoc)
  qed
  have "n * 2 ^ 20 \<le> 2 ^ 63 - 1" "0 \<le> n * 2 ^ 20" using assms by simp_all
  then show ?thesis using bits u dm mag \<open>l < 43\<close>
    by (simp add: mib_to_bytes_def Let_def saturate_i64_def)
qed

lemma digits_value_snoc: "digits_value a (s @ [c]) = 10 * digits_value a s + digit_value c"
  by (induction a s rule: digits_value.induct) simp_all

lemma byte_char_of: "0 \<le> n \<Longrightarrow> n < 256 \<Longrightarrow> byte (char_of (n :: int)) = n"
  by (simp add: byte_def of_char_of)

lemma digits_are_digits:
  "0 \<le> n \<Longrightarrow> digits n \<noteq> [] \<and> list_all is_digit (digits n) \<and> digits_value 0 (digits n) = n"
proof (induction n rule: digits.induct)
  case (1 n)
  show ?case
  proof (cases "n < 10")
    case True
    with 1(2) show ?thesis
      by (subst (1 2 3) digits.simps) (simp add: is_digit_def digit_value_def byte_char_of)
  next
    case False
    with 1 have IH: "list_all is_digit (digits (n div 10))" "digits_value 0 (digits (n div 10)) = n div 10"
      by (auto simp: pos_imp_zdiv_nonneg_iff)
    have m: "0 \<le> n mod 10" "n mod 10 < 10" by simp_all
    then have "byte (char_of (48 + n mod 10)) = 48 + n mod 10" by (intro byte_char_of) linarith+
    with False IH m show ?thesis
      by (subst (1 2 3) digits.simps) (simp add: is_digit_def digit_value_def digits_value_snoc)
  qed
qed

lemma digit_not_letter: "is_digit c \<Longrightarrow> lower_byte c = c"
  by (simp add: is_digit_def lower_byte_def)

lemma parse_decimal_digits:
  assumes "t \<noteq> []" and "list_all is_digit t"
  shows "parse_decimal t = Some (decimal_f64 (digits_value 0 t) 0)"
proof -
  have tw: "takeWhile is_digit t = t" and dw: "dropWhile is_digit t = []"
    using assms(2) by (simp_all add: list_all_iff takeWhile_eq_all_conv dropWhile_eq_Nil_conv)
  show ?thesis using assms(1) unfolding parse_decimal_def Let_def tw dw by simp
qed

lemma parse_f64_whole:
  assumes "0 \<le> n" shows "parse_f64 (int_str n) = Some (sign_bit False (round_f64 n 1))"
proof -
  let ?s = "digits n"
  note d = digits_are_digits [OF assms]
  then obtain c t where s: "?s = c # t" and c: "is_digit c" by (cases ?s) auto
  have all: "list_all is_digit ?s" using d by blast
  have low: "to_ascii_lowercase ?s = ?s" using all
    unfolding to_ascii_lowercase_def by (induction ?s) (auto simp: digit_not_letter map_idI list_all_iff)
  have nd: "\<not> is_digit (CHR ''-'')" "\<not> is_digit (CHR ''+'')" "\<not> is_digit (CHR ''i'')" "\<not> is_digit (CHR ''n'')"
    by (simp_all add: is_digit_def byte_def)
  have "parse_decimal ?s = Some (round_f64 n 1)"
    using parse_decimal_digits [of ?s] d by (simp add: decimal_f64_def)
  moreover have "\<not> starts_with ?s ''-''" "\<not> starts_with ?s ''+''" "?s \<noteq> ''inf''" "?s \<noteq> ''infinity''" "?s \<noteq> ''nan''"
    using c nd by (auto simp: s)
  ultimately show ?thesis using assms by (simp add: parse_f64_def int_str_def low)
qed

theorem mib_text_exact:
  "0 \<le> n \<Longrightarrow> n < 2 ^ 43 \<Longrightarrow> map_option mib_to_bytes (parse_f64 (int_str n)) = Some (n * 1048576)"
  by (simp add: parse_f64_whole mib_whole)

end
