(* ===== verification/CollectorTsv.thy ===== *)
theory CollectorTsv
  imports Floats Nodes
begin

text \<open>
  \<^verbatim>\<open>agent/src/collector/tsv.rs\<close>: the tab separated output of the collector scripts. A parser is a
  fold over the lines with the state \<open>tsv_state\<close> (the status row, the device keys seen so far and the
  rows read); a malformed STATUS row ends it with an error, a malformed DEVICE or METRIC row is
  skipped. Log output is not modelled.
\<close>

section \<open>Rows\<close>

datatype tsv_status = TsvOk | TsvNotAvailable | TsvPartial | TsvError

definition parse_tsv_status :: "string \<Rightarrow> tsv_status option" where
  "parse_tsv_status v =
     (if v = ''ok'' then Some TsvOk else if v = ''not_available'' then Some TsvNotAvailable
      else if v = ''partial'' then Some TsvPartial else if v = ''error'' then Some TsvError else None)"

record discovery_device =
  dd_device_key :: string
  dd_vendor :: string
  dd_index :: "int option"
  dd_name :: string
  dd_uuid :: "string option"
  dd_pci_bus_id :: "string option"
  dd_driver_version :: "string option"
  dd_message :: "string option"

record metric_sample =
  ms_device_key :: string
  ms_memory_total_mb :: "f64 option"
  ms_memory_used_mb :: "f64 option"
  ms_memory_free_mb :: "f64 option"
  ms_utilization_percent :: "f64 option"
  ms_memory_utilization_percent :: "f64 option"
  ms_temperature_c :: "f64 option"
  ms_power_w :: "f64 option"
  ms_health_status :: string
  ms_message :: "string option"

text \<open>\<open>DiscoveryResult\<close> and \<open>MetricsResult\<close> differ in their rows only.\<close>

record 'r tsv_result =
  tsr_status :: tsv_status
  tsr_status_message :: "string option"
  tsr_vendor :: "string option"
  tsr_collector :: "string option"
  tsr_rows :: "'r list"

definition empty_to_opt :: "string \<Rightarrow> string option" where
  "empty_to_opt s = (if trim s = [] then None else Some (trim s))"

definition parse_opt_i64 :: "string \<Rightarrow> int option" where
  "parse_opt_i64 s = (if trim s = [] then None else parse_i64 (trim s))"

definition parse_opt_f64 :: "string \<Rightarrow> f64 option" where
  "parse_opt_f64 s = (if trim s = [] then None else parse_f64 (trim s))"

section \<open>Parsing\<close>

record 'r tsv_state =
  ts_status :: "tsv_status option"
  ts_message :: "string option"
  ts_vendor :: "string option"
  ts_collector :: "string option"
  ts_seen :: "string list"
  ts_rows :: "'r list"

definition tsv_start :: "'r tsv_state" where
  "tsv_start = \<lparr>ts_status = None, ts_message = None, ts_vendor = None, ts_collector = None,
     ts_seen = [], ts_rows = []\<rparr>"

definition status_row :: "string list \<Rightarrow> 'r tsv_state \<Rightarrow> string + 'r tsv_state" where
  "status_row cols s =
     (if length cols \<noteq> 6 then Inl (''STATUS row must have 6 columns, got '' @ int_str (int (length cols)))
      else if cols ! 1 \<noteq> ''1'' then
        Inl (''unsupported schema_version '' @ quoted (cols ! 1) @ '' in STATUS row'')
      else (case parse_tsv_status (cols ! 2) of
         None \<Rightarrow> Inl (''unknown collector status '' @ quoted (cols ! 2))
       | Some st \<Rightarrow> Inr (s\<lparr>ts_status := Some st, ts_vendor := empty_to_opt (cols ! 3),
                           ts_collector := empty_to_opt (cols ! 4),
                           ts_message := empty_to_opt (cols ! 5)\<rparr>)))"

definition read_device :: "string list \<Rightarrow> discovery_device" where
  "read_device cols =
     \<lparr>dd_device_key = trim (cols ! 2), dd_vendor = trim (cols ! 3), dd_index = parse_opt_i64 (cols ! 4),
      dd_name = trim (cols ! 5), dd_uuid = empty_to_opt (cols ! 6), dd_pci_bus_id = empty_to_opt (cols ! 7),
      dd_driver_version = empty_to_opt (cols ! 8), dd_message = empty_to_opt (cols ! 9)\<rparr>"

definition device_row :: "string list \<Rightarrow> discovery_device tsv_state \<Rightarrow> discovery_device tsv_state" where
  "device_row cols s =
     (if length cols \<noteq> 10 then s
      else if cols ! 1 \<noteq> ''1'' then s
      else (let key = trim (cols ! 2) in
        if key = [] then s
        else if key \<in> set (ts_seen s) then s
        else s\<lparr>ts_seen := ts_seen s @ [key], ts_rows := ts_rows s @ [read_device cols]\<rparr>))"

definition read_metric :: "string list \<Rightarrow> metric_sample" where
  "read_metric cols =
     \<lparr>ms_device_key = trim (cols ! 2), ms_memory_total_mb = parse_opt_f64 (cols ! 3),
      ms_memory_used_mb = parse_opt_f64 (cols ! 4), ms_memory_free_mb = parse_opt_f64 (cols ! 5),
      ms_utilization_percent = parse_opt_f64 (cols ! 6),
      ms_memory_utilization_percent = parse_opt_f64 (cols ! 7),
      ms_temperature_c = parse_opt_f64 (cols ! 8), ms_power_w = parse_opt_f64 (cols ! 9),
      ms_health_status = trim (cols ! 10), ms_message = empty_to_opt (cols ! 11)\<rparr>"

text \<open>The key counts as seen before the health status is looked at.\<close>

definition metric_row :: "string list \<Rightarrow> metric_sample tsv_state \<Rightarrow> metric_sample tsv_state" where
  "metric_row cols s =
     (if length cols \<noteq> 12 then s
      else if cols ! 1 \<noteq> ''1'' then s
      else (let key = trim (cols ! 2) in
        if key = [] then s
        else if key \<in> set (ts_seen s) then s
        else (let s1 = s\<lparr>ts_seen := ts_seen s @ [key]\<rparr> in
          if trim (cols ! 10) = [] then s1
          else s1\<lparr>ts_rows := ts_rows s1 @ [read_metric cols]\<rparr>)))"

text \<open>One line: its kind is its first column; \<open>row\<close> reads the rows of the kind \<open>tag\<close>.\<close>

definition tsv_line ::
  "string \<Rightarrow> (string list \<Rightarrow> 'r tsv_state \<Rightarrow> 'r tsv_state) \<Rightarrow> string \<Rightarrow> 'r tsv_state
   \<Rightarrow> string + 'r tsv_state" where
  "tsv_line tag row line s =
     (let l = trim_end_matches [CHR 0x0D, CHR 0x0A] line in
      if l = [] then Inr s
      else (let cols = split_on (CHR 0x09) l in
        if cols ! 0 = ''STATUS'' then status_row cols s
        else if cols ! 0 = tag then Inr (row cols s)
        else Inr s))"

fun tsv_lines ::
  "string \<Rightarrow> (string list \<Rightarrow> 'r tsv_state \<Rightarrow> 'r tsv_state) \<Rightarrow> string list \<Rightarrow> 'r tsv_state
   \<Rightarrow> string + 'r tsv_state" where
  "tsv_lines tag row [] s = Inr s"
| "tsv_lines tag row (l # ls) s =
     (case tsv_line tag row l s of Inl e \<Rightarrow> Inl e | Inr s' \<Rightarrow> tsv_lines tag row ls s')"

definition tsv_finish :: "string \<Rightarrow> string + 'r tsv_state \<Rightarrow> string + 'r tsv_result" where
  "tsv_finish what r =
     (case r of
        Inl e \<Rightarrow> Inl e
      | Inr s \<Rightarrow>
          (case ts_status s of
             None \<Rightarrow> Inl (what @ '' output missing STATUS row'')
           | Some st \<Rightarrow> Inr \<lparr>tsr_status = st, tsr_status_message = ts_message s, tsr_vendor = ts_vendor s,
                             tsr_collector = ts_collector s, tsr_rows = ts_rows s\<rparr>))"

definition parse_discovery :: "string \<Rightarrow> string + discovery_device tsv_result" where
  "parse_discovery text = tsv_finish ''discovery'' (tsv_lines ''DEVICE'' device_row (lines text) tsv_start)"

definition parse_metrics :: "string \<Rightarrow> string + metric_sample tsv_result" where
  "parse_metrics text = tsv_finish ''metrics'' (tsv_lines ''METRIC'' metric_row (lines text) tsv_start)"

section \<open>Merging\<close>

definition merged_device ::
  "string \<Rightarrow> metric_sample list \<Rightarrow> discovery_device \<Rightarrow> gpu_metrics" where
  "merged_device name samples dev =
     (let m = find (\<lambda>m. ms_device_key m = dd_device_key dev) samples in
      \<lparr>gx_gpu_key = dd_device_key dev, gx_gpu_index = dd_index dev, gx_vendor = dd_vendor dev,
       gx_name = dd_name dev, gx_uuid = dd_uuid dev, gx_driver_version = dd_driver_version dev,
       gx_memory_total_bytes = map_option mib_to_bytes (Option.bind m ms_memory_total_mb),
       gx_memory_used_bytes = map_option mib_to_bytes (Option.bind m ms_memory_used_mb),
       gx_utilization_percent = Option.bind m ms_utilization_percent,
       gx_temperature_celsius = Option.bind m ms_temperature_c,
       gx_power_watts = Option.bind m ms_power_w,
       gx_collector = name, gx_raw_json = None\<rparr>)"

definition metric_only_device :: "string \<Rightarrow> string option \<Rightarrow> metric_sample \<Rightarrow> gpu_metrics" where
  "metric_only_device name vendor m =
     \<lparr>gx_gpu_key = ms_device_key m, gx_gpu_index = None, gx_vendor = unwrap_or vendor ''unknown'',
      gx_name = ms_device_key m, gx_uuid = None, gx_driver_version = None,
      gx_memory_total_bytes = map_option mib_to_bytes (ms_memory_total_mb m),
      gx_memory_used_bytes = map_option mib_to_bytes (ms_memory_used_mb m),
      gx_utilization_percent = ms_utilization_percent m, gx_temperature_celsius = ms_temperature_c m,
      gx_power_watts = ms_power_w m, gx_collector = name, gx_raw_json = None\<rparr>"

definition metric_only_error :: "string \<Rightarrow> metric_sample \<Rightarrow> string" where
  "metric_only_error name m =
     ''device_key '' @ quoted (ms_device_key m)
     @ '' found in metrics but not in discovery for collector '' @ quoted name"

text \<open>The keys of the metric rows that some discovered device found.\<close>

definition matched_metric_keys :: "discovery_device list \<Rightarrow> metric_sample list \<Rightarrow> string list" where
  "matched_metric_keys devices samples =
     concat (map (\<lambda>dev. case find (\<lambda>m. ms_device_key m = dd_device_key dev) samples of
                          None \<Rightarrow> [] | Some m \<Rightarrow> [ms_device_key m]) devices)"

definition merge_into_gpu_metrics ::
  "discovery_device tsv_result \<Rightarrow> metric_sample tsv_result \<Rightarrow> string \<Rightarrow> gpu_metrics list \<times> string list" where
  "merge_into_gpu_metrics disc metrics name =
     (let only = filter (\<lambda>m. ms_device_key m
                   \<notin> set (matched_metric_keys (tsr_rows disc) (tsr_rows metrics))) (tsr_rows metrics)
      in (map (merged_device name (tsr_rows metrics)) (tsr_rows disc)
            @ map (metric_only_device name (tsr_vendor metrics)) only,
          map (metric_only_error name) only))"

section \<open>Facts about the parsers\<close>

text \<open>A row is read once for each key, and never without one.\<close>

definition keys_ok :: "('r \<Rightarrow> string) \<Rightarrow> 'r tsv_state \<Rightarrow> bool" where
  "keys_ok key s \<longleftrightarrow> distinct (map key (ts_rows s)) \<and> set (map key (ts_rows s)) \<subseteq> set (ts_seen s)
     \<and> [] \<notin> set (map key (ts_rows s))"

lemma status_row_rows: "status_row cols s = Inr s' \<Longrightarrow> ts_rows s' = ts_rows s \<and> ts_seen s' = ts_seen s"
  by (auto simp: status_row_def split: if_splits option.splits)

lemma keys_ok_same:
  "ts_rows s' = ts_rows s \<and> ts_seen s' = ts_seen s \<Longrightarrow> keys_ok key s' = keys_ok key s"
  by (simp add: keys_ok_def)

lemma tsv_lines_keys:
  assumes "\<And>cols s. keys_ok key s \<Longrightarrow> keys_ok key (row cols s)"
    and "tsv_lines tag row ls s = Inr s'" and "keys_ok key s"
  shows "keys_ok key s'"
  using assms(2,3)
proof (induction ls arbitrary: s)
  case (Cons l ls)
  from Cons.prems(1) obtain s1 where s1: "tsv_line tag row l s = Inr s1" "tsv_lines tag row ls s1 = Inr s'"
    by (auto split: sum.splits)
  have "keys_ok key s1"
    using s1(1) Cons.prems(2)
    by (auto simp: tsv_line_def Let_def keys_ok_same [OF status_row_rows] intro: assms(1) split: if_splits)
  with s1(2) show ?case by (rule Cons.IH)
qed simp

lemma device_row_keys: "keys_ok dd_device_key s \<Longrightarrow> keys_ok dd_device_key (device_row cols s)"
  by (auto simp: keys_ok_def device_row_def read_device_def Let_def)

lemma metric_row_keys: "keys_ok ms_device_key s \<Longrightarrow> keys_ok ms_device_key (metric_row cols s)"
  by (auto simp: keys_ok_def metric_row_def read_metric_def Let_def)

lemma keys_ok_start: "keys_ok key tsv_start"
  by (simp add: keys_ok_def tsv_start_def)

lemma tsv_finish_Inr: "tsv_finish what r = Inr v \<Longrightarrow> \<exists>s. r = Inr s \<and> tsr_rows v = ts_rows s"
  by (auto simp: tsv_finish_def split: sum.splits option.splits)

lemma discovery_keys:
  assumes "parse_discovery text = Inr r"
  shows "distinct (map dd_device_key (tsr_rows r)) \<and> [] \<notin> set (map dd_device_key (tsr_rows r))"
proof -
  obtain s where s: "tsv_lines ''DEVICE'' device_row (lines text) tsv_start = Inr s" "tsr_rows r = ts_rows s"
    using tsv_finish_Inr [OF assms [unfolded parse_discovery_def]] by blast
  from tsv_lines_keys [OF device_row_keys s(1) keys_ok_start] s(2) show ?thesis by (simp add: keys_ok_def)
qed

lemma metrics_keys:
  assumes "parse_metrics text = Inr r"
  shows "distinct (map ms_device_key (tsr_rows r)) \<and> [] \<notin> set (map ms_device_key (tsr_rows r))"
proof -
  obtain s where s: "tsv_lines ''METRIC'' metric_row (lines text) tsv_start = Inr s" "tsr_rows r = ts_rows s"
    using tsv_finish_Inr [OF assms [unfolded parse_metrics_def]] by blast
  from tsv_lines_keys [OF metric_row_keys s(1) keys_ok_start] s(2) show ?thesis by (simp add: keys_ok_def)
qed

section \<open>Facts about merging\<close>

lemma matched_keys:
  "set (matched_metric_keys devices samples) = dd_device_key ` set devices \<inter> ms_device_key ` set samples"
proof -
  have *: "set (case find (\<lambda>m. ms_device_key m = k) samples of None \<Rightarrow> [] | Some m \<Rightarrow> [ms_device_key m])
      = (if k \<in> ms_device_key ` set samples then {k} else {})" for k
  proof (cases "find (\<lambda>m. ms_device_key m = k) samples")
    case None
    then have "k \<notin> ms_device_key ` set samples" by (auto simp: find_None_iff)
    with None show ?thesis by simp
  next
    case (Some m)
    with find_Some_D [OF Some] show ?thesis by (auto simp: image_iff)
  qed
  show ?thesis unfolding matched_metric_keys_def set_concat set_map * image_image by auto
qed

lemma merged_keys:
  "map gx_gpu_key (fst (merge_into_gpu_metrics disc metrics name)) =
     map dd_device_key (tsr_rows disc)
     @ filter (\<lambda>k. k \<notin> dd_device_key ` set (tsr_rows disc)) (map ms_device_key (tsr_rows metrics))"
proof -
  have "filter (\<lambda>m. ms_device_key m \<notin> dd_device_key ` set (tsr_rows disc) \<inter> ms_device_key ` set (tsr_rows metrics))
      (tsr_rows metrics)
    = filter (\<lambda>m. ms_device_key m \<notin> dd_device_key ` set (tsr_rows disc)) (tsr_rows metrics)"
    by (rule filter_cong) auto
  then show ?thesis
    by (simp add: merge_into_gpu_metrics_def Let_def matched_keys merged_device_def metric_only_device_def
        o_def filter_map)
qed

lemma merged_distinct:
  assumes "parse_discovery a = Inr disc" and "parse_metrics b = Inr metrics"
  shows "distinct (map gx_gpu_key (fst (merge_into_gpu_metrics disc metrics name)))"
  unfolding merged_keys using discovery_keys [OF assms(1)] metrics_keys [OF assms(2)] by auto

lemma find_sample:
  assumes "distinct (map ms_device_key samples)" and "m \<in> set samples" and "ms_device_key m = k"
  shows "find (\<lambda>m. ms_device_key m = k) samples = Some m"
  using find_key_unique [OF assms(1,2)] assms(3) by simp

lemma merged_total:
  assumes "distinct (map ms_device_key (tsr_rows metrics))" and "m \<in> set (tsr_rows metrics)"
  shows "\<exists>g \<in> set (fst (merge_into_gpu_metrics disc metrics name)). gx_gpu_key g = ms_device_key m
    \<and> gx_collector g = name
    \<and> gx_memory_total_bytes g = map_option mib_to_bytes (ms_memory_total_mb m)
    \<and> gx_memory_used_bytes g = map_option mib_to_bytes (ms_memory_used_mb m)
    \<and> gx_utilization_percent g = ms_utilization_percent m \<and> gx_power_watts g = ms_power_w m"
proof (cases "ms_device_key m \<in> dd_device_key ` set (tsr_rows disc)")
  case True
  then obtain dev where dev: "dev \<in> set (tsr_rows disc)" "dd_device_key dev = ms_device_key m" by force
  let ?g = "merged_device name (tsr_rows metrics) dev"
  have "?g \<in> set (fst (merge_into_gpu_metrics disc metrics name))"
    using dev(1) by (simp add: merge_into_gpu_metrics_def Let_def)
  moreover note find_sample [OF assms refl]
  ultimately show ?thesis using dev(2) by (intro bexI [of _ ?g]) (simp_all add: merged_device_def Let_def)
next
  case False
  let ?g = "metric_only_device name (tsr_vendor metrics) m"
  have "?g \<in> set (fst (merge_into_gpu_metrics disc metrics name))"
    using assms(2) False by (simp add: merge_into_gpu_metrics_def Let_def matched_keys)
  then show ?thesis by (intro bexI [of _ ?g]) (simp_all add: metric_only_device_def)
qed

end
