(* ===== verification/Collectors.thy ===== *)
theory Collectors
  imports CollectorTsv
begin

text \<open>
  \<^verbatim>\<open>agent/src/collector\<close> and \<^verbatim>\<open>agent/src/gpu/mod.rs\<close>: the collector directories of an agent, the check
  whether a collector may run, and the collection itself. A directory is a record of what the file
  system holds under it when it is scanned; the scripts are read a second time right before they run
  (\<open>reread\<close>), and may have changed. SHA-256, TOML and the shell are parameters. The list \<open>cl_executed\<close>
  of the collection state records which script texts were executed, in order.
\<close>

section \<open>Manifests and directories\<close>

record manifest =
  mf_c_id :: string
  mf_c_vendor :: string
  mf_c_name :: string
  mf_c_version :: string
  mf_c_description :: string
  mf_c_discover :: string
  mf_c_metrics :: string
  mf_c_discover_sha256 :: string
  mf_c_metrics_sha256 :: string
  mf_c_enabled :: bool
  mf_c_priority :: nat

definition is_path :: "string \<Rightarrow> bool" where
  "is_path s \<longleftrightarrow> CHR ''/'' \<in> set s \<or> CHR 0x5C \<in> set s"

definition check_manifest :: "manifest \<Rightarrow> string option" where
  "check_manifest m = first_error [
     if mf_c_id m = [] then Some ''collector id must not be empty'' else None,
     if mf_c_vendor m = [] then Some ''collector vendor must not be empty'' else None,
     if mf_c_name m = [] then Some ''collector name must not be empty'' else None,
     if mf_c_version m = [] then Some ''collector version must not be empty'' else None,
     if mf_c_discover m = [] then Some ''discover script path must not be empty'' else None,
     if mf_c_metrics m = [] then Some ''metrics script path must not be empty'' else None,
     if is_path (mf_c_discover m) then Some ''discover script must be a filename, not a path'' else None,
     if is_path (mf_c_metrics m) then Some ''metrics script must be a filename, not a path'' else None]"

text \<open>\<open>manifest::parse\<close>, given the outcome of reading and deserializing the file.\<close>

definition parse_manifest :: "string + manifest \<Rightarrow> string + manifest" where
  "parse_manifest raw =
     (case raw of
        Inl e \<Rightarrow> Inl e
      | Inr m \<Rightarrow> (case check_manifest m of Some e \<Rightarrow> Inl e | None \<Rightarrow> Inr m))"

text \<open>A file of a directory: its bytes, or the error reading it gives.\<close>

type_synonym file_read = "string + string"

record dir_entry =
  de_path :: string
  de_is_dir :: bool
  de_manifest :: "(string + manifest) option"
  de_files :: "string \<Rightarrow> file_read option"

record collector_dir =
  cd_path :: string
  cd_manifest :: manifest
  cd_discover_sha256 :: string
  cd_metrics_sha256 :: string

definition dir_from :: "(string \<Rightarrow> string) \<Rightarrow> dir_entry \<Rightarrow> string + collector_dir" where
  "dir_from sha e =
     (case de_manifest e of
        None \<Rightarrow> Inl (''missing collector.toml in '' @ de_path e)
      | Some raw \<Rightarrow>
     (case parse_manifest raw of
        Inl err \<Rightarrow> Inl err
      | Inr m \<Rightarrow>
     (case de_files e (mf_c_discover m) of
        None \<Rightarrow> Inl (''missing discover script '' @ quoted (mf_c_discover m) @ '' in '' @ de_path e)
      | Some discover \<Rightarrow>
     (case de_files e (mf_c_metrics m) of
        None \<Rightarrow> Inl (''missing metrics script '' @ quoted (mf_c_metrics m) @ '' in '' @ de_path e)
      | Some metrics \<Rightarrow>
     (case discover of
        Inl err \<Rightarrow> Inl err
      | Inr b1 \<Rightarrow>
     (case metrics of
        Inl err \<Rightarrow> Inl err
      | Inr b2 \<Rightarrow> Inr \<lparr>cd_path = de_path e, cd_manifest = m, cd_discover_sha256 = sha b1,
                     cd_metrics_sha256 = sha b2\<rparr>))))))"

text \<open>The last component of a path.\<close>

definition file_name :: "string \<Rightarrow> string" where
  "file_name p = last (split_on (CHR ''/'') p)"

definition skipped_name :: "string \<Rightarrow> bool" where
  "skipped_name n \<longleftrightarrow>
     starts_with n ''.'' \<or> ends_with n ''~'' \<or> ends_with n ''.tmp'' \<or> ends_with n ''.bak''"

definition scan_collector_dirs :: "(string \<Rightarrow> string) \<Rightarrow> dir_entry list \<Rightarrow> collector_dir list" where
  "scan_collector_dirs sha entries =
     sort_key (\<lambda>c. (- int (mf_c_priority (cd_manifest c)), mf_c_id (cd_manifest c)))
       (concat (map (\<lambda>e. if \<not> de_is_dir e \<or> skipped_name (file_name (de_path e)) then []
                         else (case dir_from sha e of Inl _ \<Rightarrow> [] | Inr c \<Rightarrow> [c])) entries))"

section \<open>May a collector run?\<close>

datatype collector_mode = ExplicitMode | AutoMode

definition parse_collector_mode :: "string \<Rightarrow> collector_mode option" where
  "parse_collector_mode v =
     (if v = ''explicit'' then Some ExplicitMode else if v = ''auto'' then Some AutoMode else None)"

record collector_config =
  cc_mode :: collector_mode
  cc_enabled :: "string list"
  cc_disabled :: "string list"
  cc_timeout_secs :: int
  cc_max_output_bytes :: int

datatype enable_status =
    Allowed
  | Disabled
  | NotListed
  | NotRegistered
  | RegistryDisabled
  | DiscoverHashMismatch
  | MetricsHashMismatch

definition entry_for :: "manifest \<Rightarrow> collector_row \<Rightarrow> bool" where
  "entry_for m r \<longleftrightarrow> cr_id r = mf_c_id m \<and> cr_version r = mf_c_version m"

definition check_enabled :: "collector_config \<Rightarrow> collector_row list \<Rightarrow> collector_dir \<Rightarrow> enable_status" where
  "check_enabled cfg registry c =
     (let i = mf_c_id (cd_manifest c) in
      if i \<in> set (cc_disabled cfg) then Disabled
      else if cc_mode cfg = ExplicitMode \<and> i \<notin> set (cc_enabled cfg) then NotListed
      else (case find (entry_for (cd_manifest c)) registry of
         None \<Rightarrow> NotRegistered
       | Some r \<Rightarrow>
           if \<not> cr_enabled r then RegistryDisabled
           else if cr_discover_sha256 r \<noteq> cd_discover_sha256 c then DiscoverHashMismatch
           else if cr_metrics_sha256 r \<noteq> cd_metrics_sha256 c then MetricsHashMismatch
           else Allowed))"

section \<open>Running scripts\<close>

record script_output =
  so_stdout :: string
  so_stderr :: string
  so_exit_code :: "int option"
  so_timed_out :: bool

text \<open>\<open>truncate_bytes\<close>: cut at the last character boundary within the limit.\<close>

definition is_char_boundary :: "string \<Rightarrow> nat \<Rightarrow> bool" where
  "is_char_boundary s i \<longleftrightarrow> i = 0 \<or> i = length s \<or> (i < length s \<and> \<not> is_cont (s ! i))"

fun boundary_below :: "string \<Rightarrow> nat \<Rightarrow> nat" where
  "boundary_below s 0 = 0"
| "boundary_below s (Suc n) = (if is_char_boundary s (Suc n) then Suc n else boundary_below s n)"

definition truncated_mark :: string where
  "truncated_mark = [CHR 0x0A] @ ''[output truncated]''"

definition truncate_bytes :: "string \<Rightarrow> int \<Rightarrow> string" where
  "truncate_bytes s n =
     (if int (length s) \<le> n then s else take (boundary_below s (nat n)) s @ truncated_mark)"

text \<open>
  \<open>execute_script\<close>: the outcome of the shell (\<open>None\<close> when the time limit was reached), its
  output cut to the limits.
\<close>

definition execute_script ::
  "(string \<Rightarrow> script_output option) \<Rightarrow> string \<Rightarrow> int \<Rightarrow> int \<Rightarrow> script_output" where
  "execute_script shell bytes max_out max_err =
     (case shell bytes of
        None \<Rightarrow> \<lparr>so_stdout = [], so_stderr = ''collector script timed out'', so_exit_code = None,
                so_timed_out = True\<rparr>
      | Some o' \<Rightarrow> o'\<lparr>so_stdout := truncate_bytes (so_stdout o') max_out,
                     so_stderr := truncate_bytes (so_stderr o') max_err, so_timed_out := False\<rparr>)"

section \<open>Collection\<close>

record collection =
  cl_gpus :: "gpu_metrics list"
  cl_errors :: "string list"
  cl_executed :: "string list"

definition add_error :: "string \<Rightarrow> collection \<Rightarrow> collection" where
  "add_error e s = s\<lparr>cl_errors := cl_errors s @ [e]\<rparr>"

definition em_dash :: string where
  "em_dash = [CHR 0xE2, CHR 0x80, CHR 0x94]"

definition dir_label :: "manifest \<Rightarrow> string" where
  "dir_label m = mf_c_id m @ '' (id='' @ mf_c_id m @ '', version='' @ mf_c_version m @ '')''"

definition changed_script :: "string \<Rightarrow> string \<Rightarrow> string" where
  "changed_script i script =
     i @ '': '' @ script @ '' hash mismatch '' @ em_dash
     @ '' script has changed since last registration. Re-run inspect and re-register.''"

text \<open>The error a refused directory adds; a collector that is not listed is passed over silently.\<close>

definition refusal :: "manifest \<Rightarrow> enable_status \<Rightarrow> string option" where
  "refusal m st =
     (case st of
        Allowed \<Rightarrow> None
      | Disabled \<Rightarrow> Some (dir_label m @ '': collector disabled in Agent config'')
      | NotListed \<Rightarrow> None
      | NotRegistered \<Rightarrow> Some (dir_label m @ '': collector not registered in Server registry ''
          @ em_dash @ '' run '' @ quoted ''lightai-agent collector inspect'' @ '' and register via Web'')
      | RegistryDisabled \<Rightarrow> Some (dir_label m @ '': collector disabled in Server registry'')
      | DiscoverHashMismatch \<Rightarrow> Some (changed_script (mf_c_id m) ''discover.sh'')
      | MetricsHashMismatch \<Rightarrow> Some (changed_script (mf_c_id m) ''metrics.sh''))"

definition exit_text :: "int option \<Rightarrow> string" where
  "exit_text v = (case v of None \<Rightarrow> ''None'' | Some n \<Rightarrow> ''Some('' @ int_str n @ '')'')"

text \<open>Run one script; \<open>Inl\<close> is the error of a script that timed out or failed.\<close>

definition run_step ::
  "(nat \<Rightarrow> string \<Rightarrow> script_output option) \<Rightarrow> collector_config \<Rightarrow> string \<Rightarrow> string \<Rightarrow> string \<Rightarrow> collection
   \<Rightarrow> (string + string) \<times> collection" where
  "run_step shell cfg name script bytes s =
     (let out = execute_script (shell (length (cl_executed s))) bytes (cc_max_output_bytes cfg) (64 * 1024);
          s1 = s\<lparr>cl_executed := cl_executed s @ [bytes]\<rparr>
      in if so_timed_out out then (Inl (name @ '': '' @ script @ '' timed out''), s1)
         else if so_exit_code out \<noteq> Some 0 then
           (Inl (name @ '': '' @ script @ '' exited with '' @ exit_text (so_exit_code out) @ '': ''
                 @ trim (so_stderr out)), s1)
         else (Inr (so_stdout out), s1))"

definition run_metrics ::
  "(nat \<Rightarrow> string \<Rightarrow> script_output option) \<Rightarrow> collector_config \<Rightarrow> string \<Rightarrow> string
   \<Rightarrow> discovery_device tsv_result \<Rightarrow> collection \<Rightarrow> collection" where
  "run_metrics shell cfg name bytes disc s =
     (case run_step shell cfg name ''metrics.sh'' bytes s of
        (Inl e, s1) \<Rightarrow> add_error e s1
      | (Inr text, s1) \<Rightarrow>
          (case parse_metrics text of
             Inl e \<Rightarrow> add_error (name @ '': metrics parse error: '' @ e) s1
           | Inr metrics \<Rightarrow>
               (case merge_into_gpu_metrics disc metrics name of
                  (gpus, errors) \<Rightarrow> s1\<lparr>cl_gpus := cl_gpus s1 @ gpus, cl_errors := cl_errors s1 @ errors\<rparr>)))"

definition run_collector ::
  "(nat \<Rightarrow> string \<Rightarrow> script_output option) \<Rightarrow> collector_config \<Rightarrow> string \<Rightarrow> string \<Rightarrow> string
   \<Rightarrow> collection \<Rightarrow> collection" where
  "run_collector shell cfg name discover metrics s =
     (case run_step shell cfg name ''discover.sh'' discover s of
        (Inl e, s1) \<Rightarrow> add_error e s1
      | (Inr text, s1) \<Rightarrow>
          (case parse_discovery text of
             Inl e \<Rightarrow> add_error (name @ '': discover parse error: '' @ e) s1
           | Inr disc \<Rightarrow>
               if tsr_status disc = TsvNotAvailable then
                 (case tsr_status_message disc of
                    None \<Rightarrow> s1 | Some m \<Rightarrow> add_error (name @ '': '' @ m) s1)
               else run_metrics shell cfg name metrics disc s1))"

definition hash_error :: "string \<Rightarrow> string \<Rightarrow> string \<Rightarrow> string \<Rightarrow> string" where
  "hash_error name script reg here =
     name @ '': '' @ script @ '' hash mismatch (registry='' @ reg @ '', local='' @ here @ '')''"

text \<open>One directory that may run: the scripts are read again and their hashes compared again.\<close>

definition collect_allowed ::
  "(string \<Rightarrow> string) \<Rightarrow> (nat \<Rightarrow> string \<Rightarrow> script_output option) \<Rightarrow> (string \<Rightarrow> string \<Rightarrow> file_read)
   \<Rightarrow> collector_config \<Rightarrow> collector_row list \<Rightarrow> collector_dir \<Rightarrow> collection \<Rightarrow> collection" where
  "collect_allowed sha shell reread cfg registry c s =
     (let m = cd_manifest c; name = mf_c_id m in
      case reread (cd_path c) (mf_c_discover m) of
        Inl e \<Rightarrow> add_error (name @ '': failed to read discover script: '' @ e) s
      | Inr discover \<Rightarrow>
     (case reread (cd_path c) (mf_c_metrics m) of
        Inl e \<Rightarrow> add_error (name @ '': failed to read metrics script: '' @ e) s
      | Inr metrics \<Rightarrow>
     (case find (\<lambda>r. entry_for m r \<and> cr_enabled r) registry of
        None \<Rightarrow> add_error (name @ '': registry entry (id='' @ mf_c_id m @ '', version='' @ mf_c_version m
                          @ '') missing or disabled'') s
      | Some r \<Rightarrow>
          if cr_discover_sha256 r \<noteq> sha discover then
            add_error (hash_error name ''discover.sh'' (cr_discover_sha256 r) (sha discover)) s
          else if cr_metrics_sha256 r \<noteq> sha metrics then
            add_error (hash_error name ''metrics.sh'' (cr_metrics_sha256 r) (sha metrics)) s
          else run_collector shell cfg name discover metrics s)))"

definition collect_dir ::
  "(string \<Rightarrow> string) \<Rightarrow> (nat \<Rightarrow> string \<Rightarrow> script_output option) \<Rightarrow> (string \<Rightarrow> string \<Rightarrow> file_read)
   \<Rightarrow> collector_config \<Rightarrow> collector_row list \<Rightarrow> collector_dir \<Rightarrow> collection \<Rightarrow> collection" where
  "collect_dir sha shell reread cfg registry c s =
     (let st = check_enabled cfg registry c in
      if st = Allowed then collect_allowed sha shell reread cfg registry c s
      else (case refusal (cd_manifest c) st of None \<Rightarrow> s | Some e \<Rightarrow> add_error e s))"

definition empty_registry_error :: string where
  "empty_registry_error =
     ''collector registry is empty '' @ em_dash @ '' no collectors will execute. ''
     @ ''Register collector hashes via the Web collector registry page.''"

definition collect_via_dirs ::
  "(string \<Rightarrow> string) \<Rightarrow> (nat \<Rightarrow> string \<Rightarrow> script_output option) \<Rightarrow> (string \<Rightarrow> string \<Rightarrow> file_read)
   \<Rightarrow> collector_config \<Rightarrow> collector_row list \<Rightarrow> dir_entry list \<Rightarrow> collection \<Rightarrow> collection" where
  "collect_via_dirs sha shell reread cfg registry entries s =
     (let dirs = scan_collector_dirs sha entries;
          s1 = (if registry = [] \<and> dirs \<noteq> [] then add_error empty_registry_error s else s)
      in fold (collect_dir sha shell reread cfg registry) dirs s1)"

text \<open>The settings of the pipeline; without a root nothing is scanned. \<open>entries\<close> is what the root holds.\<close>

record gpu_config =
  gc_collector_root :: "string option"
  gc_collector_mode :: string
  gc_collector_enabled :: "string list"
  gc_collector_disabled :: "string list"
  gc_collector_registry :: "collector_row list"
  gc_collector_timeout_secs :: int
  gc_collector_max_output_bytes :: int

definition to_dir_config :: "gpu_config \<Rightarrow> collector_config option" where
  "to_dir_config g =
     map_option (\<lambda>_. \<lparr>cc_mode = (if gc_collector_mode g = ''auto'' then AutoMode else ExplicitMode),
                      cc_enabled = gc_collector_enabled g, cc_disabled = gc_collector_disabled g,
                      cc_timeout_secs = gc_collector_timeout_secs g,
                      cc_max_output_bytes = gc_collector_max_output_bytes g\<rparr>)
       (gc_collector_root g)"

definition collect_gpus ::
  "(string \<Rightarrow> string) \<Rightarrow> (nat \<Rightarrow> string \<Rightarrow> script_output option) \<Rightarrow> (string \<Rightarrow> string \<Rightarrow> file_read)
   \<Rightarrow> gpu_config \<Rightarrow> dir_entry list \<Rightarrow> collection" where
  "collect_gpus sha shell reread g entries =
     (let s = \<lparr>cl_gpus = [], cl_errors = [], cl_executed = []\<rparr> in
      case to_dir_config g of
        Some cfg \<Rightarrow> collect_via_dirs sha shell reread cfg (gc_collector_registry g) entries s
      | None \<Rightarrow> add_error ''gpu collector root is not configured; no GPU collectors executed'' s)"

definition compute_collector_status :: "string option \<Rightarrow> string list \<Rightarrow> gpu_metrics list \<Rightarrow> string" where
  "compute_collector_status root errors gpus =
     (if root = None then ''no_collector_configured''
      else if gpus \<noteq> [] then ''collector_ok_devices_found''
      else if errors = [] then ''collector_ok_no_devices''
      else ''collector_configured_but_failed'')"

section \<open>Only registered scripts run\<close>

lemma check_enabled_Allowed:
  "check_enabled cfg registry c = Allowed \<longleftrightarrow>
     mf_c_id (cd_manifest c) \<notin> set (cc_disabled cfg)
     \<and> (cc_mode cfg = ExplicitMode \<longrightarrow> mf_c_id (cd_manifest c) \<in> set (cc_enabled cfg))
     \<and> (\<exists>r. find (entry_for (cd_manifest c)) registry = Some r \<and> cr_enabled r
          \<and> cr_discover_sha256 r = cd_discover_sha256 c \<and> cr_metrics_sha256 r = cd_metrics_sha256 c)"
  by (auto simp: check_enabled_def Let_def split: option.split)

text \<open>A script text is approved by a registry for a configuration.\<close>

definition approved ::
  "(string \<Rightarrow> string) \<Rightarrow> collector_config \<Rightarrow> collector_row list \<Rightarrow> string \<Rightarrow> bool" where
  "approved sha cfg registry b \<longleftrightarrow>
     (\<exists>r \<in> set registry. cr_enabled r \<and> cr_id r \<notin> set (cc_disabled cfg)
        \<and> (cc_mode cfg = ExplicitMode \<longrightarrow> cr_id r \<in> set (cc_enabled cfg))
        \<and> (sha b = cr_discover_sha256 r \<or> sha b = cr_metrics_sha256 r))"

definition only_approved ::
  "(string \<Rightarrow> string) \<Rightarrow> collector_config \<Rightarrow> collector_row list \<Rightarrow> collection \<Rightarrow> bool" where
  "only_approved sha cfg registry s \<longleftrightarrow> (\<forall>b \<in> set (cl_executed s). approved sha cfg registry b)"

lemma only_approved_error [simp]: "only_approved sha cfg reg (add_error e s) = only_approved sha cfg reg s"
  by (simp add: only_approved_def add_error_def)

lemma run_step_executed: "cl_executed (snd (run_step shell cfg name script b s)) = cl_executed s @ [b]"
  by (simp add: run_step_def Let_def)

lemma run_metrics_executed:
  "cl_executed (run_metrics shell cfg name b disc s) = cl_executed s @ [b]"
proof -
  obtain r s1 where st: "run_step shell cfg name ''metrics.sh'' b s = (r, s1)" by fastforce
  with run_step_executed [of shell cfg name "''metrics.sh''" b s] have "cl_executed s1 = cl_executed s @ [b]" by simp
  with st show ?thesis
    by (cases r) (simp_all add: run_metrics_def add_error_def split: sum.split prod.split)
qed

lemma run_collector_executed:
  "set (cl_executed (run_collector shell cfg name b1 b2 s)) \<subseteq> set (cl_executed s) \<union> {b1, b2}"
proof -
  obtain r s1 where st: "run_step shell cfg name ''discover.sh'' b1 s = (r, s1)" by fastforce
  with run_step_executed [of shell cfg name "''discover.sh''" b1 s] have "cl_executed s1 = cl_executed s @ [b1]" by simp
  with st show ?thesis
    by (cases r) (auto simp: run_collector_def add_error_def run_metrics_executed split: sum.split option.split)
qed

lemma collect_allowed_approved:
  assumes "check_enabled cfg registry c = Allowed" and "only_approved sha cfg registry s"
  shows "only_approved sha cfg registry (collect_allowed sha shell reread cfg registry c s)"
proof (cases "reread (cd_path c) (mf_c_discover (cd_manifest c))")
  case d: (Inr discover)
  show ?thesis
  proof (cases "reread (cd_path c) (mf_c_metrics (cd_manifest c))")
    case m: (Inr metrics)
    show ?thesis
    proof (cases "find (\<lambda>r. entry_for (cd_manifest c) r \<and> cr_enabled r) registry")
      case (Some r)
      note r = find_Some_D [OF Some]
      have ok: "approved sha cfg registry b"
        if "cr_discover_sha256 r = sha discover" "cr_metrics_sha256 r = sha metrics" "b \<in> {discover, metrics}" for b
        using r assms(1) that unfolding approved_def check_enabled_Allowed entry_for_def by (intro bexI [of _ r]) auto
      show ?thesis
      proof (cases "cr_discover_sha256 r = sha discover \<and> cr_metrics_sha256 r = sha metrics")
        case True
        then have "collect_allowed sha shell reread cfg registry c s
            = run_collector shell cfg (mf_c_id (cd_manifest c)) discover metrics s"
          using d m Some by (simp add: collect_allowed_def)
        with ok True assms(2) show ?thesis
          using run_collector_executed [of shell cfg "mf_c_id (cd_manifest c)" discover metrics s]
          unfolding only_approved_def by auto
      next
        case False
        then show ?thesis using d m Some assms(2) by (auto simp: collect_allowed_def Let_def)
      qed
    qed (use d m assms(2) in \<open>simp add: collect_allowed_def Let_def\<close>)
  qed (use d assms(2) in \<open>simp add: collect_allowed_def Let_def\<close>)
qed (use assms(2) in \<open>simp add: collect_allowed_def Let_def\<close>)

lemma collect_dir_approved:
  "only_approved sha cfg registry s \<Longrightarrow> only_approved sha cfg registry (collect_dir sha shell reread cfg registry c s)"
  by (simp add: collect_dir_def Let_def collect_allowed_approved split: option.split)

lemma fold_collect_approved:
  "only_approved sha cfg registry s \<Longrightarrow>
   only_approved sha cfg registry (fold (collect_dir sha shell reread cfg registry) cs s)"
  by (induction cs arbitrary: s) (simp_all add: collect_dir_approved)

lemma collect_approved:
  "to_dir_config g = Some cfg \<Longrightarrow>
   only_approved sha cfg (gc_collector_registry g) (collect_gpus sha shell reread g entries)"
proof -
  let ?s = "\<lparr>cl_gpus = [], cl_errors = [], cl_executed = []\<rparr>"
  assume g: "to_dir_config g = Some cfg"
  have "only_approved sha cfg reg ?s" for reg by (simp add: only_approved_def)
  then have "only_approved sha cfg (gc_collector_registry g)
      (if gc_collector_registry g = [] \<and> scan_collector_dirs sha entries \<noteq> []
       then add_error empty_registry_error ?s else ?s)" by (simp split: if_split)
  from fold_collect_approved [OF this] show ?thesis
    unfolding collect_gpus_def collect_via_dirs_def Let_def g by simp
qed

lemma collect_no_root: "to_dir_config g = None \<Longrightarrow> cl_executed (collect_gpus sha shell reread g entries) = []"
  by (simp add: collect_gpus_def add_error_def)

section \<open>Truncation\<close>

lemma boundary_below_le: "boundary_below s n \<le> n"
  by (induction n) auto

lemma boundary_below_is: "is_char_boundary s (boundary_below s n)"
  by (induction n) (auto simp: is_char_boundary_def)

lemma truncate_bytes_bound: "length (truncate_bytes s n) \<le> nat n + length truncated_mark"
  using boundary_below_le [of s "nat n"] by (auto simp: truncate_bytes_def)

end
