(* ===== verification/AgentLoop.thy ===== *)
theory AgentLoop
  imports Collectors
begin

text \<open>
  \<^verbatim>\<open>agent/src/heartbeat.rs\<close> and \<^verbatim>\<open>agent/src/client.rs\<close>: the configuration in force on an agent and one
  cycle of its heartbeat loop. The server is seen through the outcomes of three requests (register,
  fetch the collector registry, heartbeat), given as functions of the token and the request. Writing
  the agent's log is not modelled.
\<close>

section \<open>The configuration in force\<close>

record agent_settings =
  as_node_name :: string
  as_hostname :: string
  as_collector_root :: "string option"
  as_collector_mode :: string
  as_collector_enabled :: "string list"
  as_collector_disabled :: "string list"

record runtime_config =
  rt_config_version :: int
  rt_heartbeat_interval_secs :: int
  rt_metrics_sample_interval_secs :: int
  rt_command_timeout_secs :: int
  rt_environment_check_timeout_secs :: int
  rt_allowed_model_dirs :: "string list"
  rt_collector_timeout_secs :: int
  rt_collector_max_output_bytes :: int
  rt_collector_root :: "string option"
  rt_collector_mode :: string
  rt_collector_enabled :: "string list"
  rt_collector_disabled :: "string list"
  rt_collector_registry :: "collector_row list"
  rt_log_policy :: log_policy
  rt_last_config_updated_at :: "int option"

definition default_effective :: runtime_config where
  "default_effective =
     \<lparr>rt_config_version = 0, rt_heartbeat_interval_secs = 15, rt_metrics_sample_interval_secs = 15,
      rt_command_timeout_secs = 5, rt_environment_check_timeout_secs = 5, rt_allowed_model_dirs = [],
      rt_collector_timeout_secs = 5, rt_collector_max_output_bytes = 1024 * 1024,
      rt_collector_root = None, rt_collector_mode = ''explicit'', rt_collector_enabled = [],
      rt_collector_disabled = [], rt_collector_registry = [], rt_log_policy = default_log_policy,
      rt_last_config_updated_at = None\<rparr>"

definition from_config :: "agent_settings \<Rightarrow> runtime_config" where
  "from_config c = default_effective
     \<lparr>rt_collector_root := as_collector_root c, rt_collector_mode := as_collector_mode c,
      rt_collector_enabled := as_collector_enabled c, rt_collector_disabled := as_collector_disabled c\<rparr>"

text \<open>A configuration older than the one in force is ignored.\<close>

definition apply_server_config :: "agent_config option \<Rightarrow> runtime_config \<Rightarrow> runtime_config" where
  "apply_server_config config r =
     (case config of
        None \<Rightarrow> r
      | Some c \<Rightarrow>
          if rt_config_version r \<le> ac_config_version c then
            r\<lparr>rt_config_version := ac_config_version c,
              rt_heartbeat_interval_secs := ac_heartbeat_interval_secs c,
              rt_metrics_sample_interval_secs := ac_metrics_sample_interval_secs c,
              rt_command_timeout_secs := ac_command_timeout_secs c,
              rt_environment_check_timeout_secs := ac_environment_check_timeout_secs c,
              rt_allowed_model_dirs := ac_allowed_model_dirs c,
              rt_collector_timeout_secs := ac_collector_timeout_secs c,
              rt_collector_max_output_bytes := ac_collector_max_output_bytes c,
              rt_log_policy := ac_log_policy c,
              rt_last_config_updated_at := ac_last_config_updated_at c\<rparr>
          else r)"

definition to_agent_config :: "runtime_config \<Rightarrow> agent_config" where
  "to_agent_config r =
     \<lparr>ac_config_version = rt_config_version r, ac_heartbeat_interval_secs = rt_heartbeat_interval_secs r,
      ac_metrics_sample_interval_secs = rt_metrics_sample_interval_secs r,
      ac_task_poll_interval_secs = 15, ac_config_refresh_interval_secs = 60,
      ac_command_timeout_secs = rt_command_timeout_secs r,
      ac_environment_check_timeout_secs = rt_environment_check_timeout_secs r,
      ac_allowed_model_dirs = rt_allowed_model_dirs r,
      ac_collector_timeout_secs = rt_collector_timeout_secs r,
      ac_collector_max_output_bytes = rt_collector_max_output_bytes r,
      ac_log_policy = rt_log_policy r, ac_last_config_updated_at = rt_last_config_updated_at r\<rparr>"

definition to_collector_config :: "runtime_config \<Rightarrow> gpu_config" where
  "to_collector_config r =
     \<lparr>gc_collector_root = rt_collector_root r, gc_collector_mode = rt_collector_mode r,
      gc_collector_enabled = rt_collector_enabled r, gc_collector_disabled = rt_collector_disabled r,
      gc_collector_registry = rt_collector_registry r,
      gc_collector_timeout_secs = rt_collector_timeout_secs r,
      gc_collector_max_output_bytes = rt_collector_max_output_bytes r\<rparr>"

definition next_interval_secs :: "int \<Rightarrow> int option \<Rightarrow> int" where
  "next_interval_secs config_secs registration_secs = unwrap_or registration_secs config_secs"

section \<open>Requests\<close>

text \<open>An answer with its status code and decoded body, or no answer.\<close>

datatype 'a http_answer = NoAnswer string | Answer nat "string + 'a"

definition success_code :: "nat \<Rightarrow> bool" where
  "success_code c \<longleftrightarrow> 200 \<le> c \<and> c < 300"

text \<open>\<open>error_for_status\<close> fails for client and server errors only.\<close>

definition error_code :: "nat \<Rightarrow> bool" where
  "error_code c \<longleftrightarrow> 400 \<le> c \<and> c < 600"

datatype request_error = Unauthorized | RequestFailed string

definition checked_answer :: "'a http_answer \<Rightarrow> request_error + 'a" where
  "checked_answer a =
     (case a of
        NoAnswer e \<Rightarrow> Inl (RequestFailed e)
      | Answer c body \<Rightarrow>
          if c = 401 then Inl Unauthorized
          else if error_code c then Inl (RequestFailed (''HTTP status '' @ int_str (int c)))
          else (case body of Inl e \<Rightarrow> Inl (RequestFailed e) | Inr v \<Rightarrow> Inr v))"

datatype registry_fetch_error =
    FetchFailed string
  | FetchUnauthorized
  | FetchForbidden
  | FetchServerError nat

definition as_bool :: "json \<Rightarrow> bool option" where
  "as_bool j = (case j of JBool b \<Rightarrow> Some b | _ \<Rightarrow> None)"

definition registry_entry_of_json :: "json \<Rightarrow> collector_row option" where
  "registry_entry_of_json v =
     (if \<not> is_object v then None else
      Option.bind (get_str v ''id'') (\<lambda>i.
      Option.bind (get_str v ''vendor'') (\<lambda>vendor.
      Option.bind (get_str v ''name'') (\<lambda>name.
      Option.bind (get_str v ''version'') (\<lambda>version.
      Option.bind (case jget v ''description'' of None \<Rightarrow> Some [] | Some d \<Rightarrow> as_str d) (\<lambda>description.
      Option.bind (get_str v ''discover_sha256'') (\<lambda>h1.
      Option.bind (get_str v ''metrics_sha256'') (\<lambda>h2.
      Option.bind (Option.bind (jget v ''enabled'') as_bool) (\<lambda>enabled.
      Option.bind (get_i64 v ''created_at'') (\<lambda>created.
      Option.bind (get_i64 v ''updated_at'') (\<lambda>updated.
      Some \<lparr>cr_id = i, cr_version = version, cr_vendor = vendor, cr_name = name,
            cr_description = description, cr_discover_sha256 = h1, cr_metrics_sha256 = h2,
            cr_enabled = enabled, cr_created_at = created, cr_updated_at = updated\<rparr>)))))))))))"

text \<open>A body without a readable list of collectors counts as the empty list.\<close>

definition fetch_collector_registry ::
  "json http_answer \<Rightarrow> registry_fetch_error + collector_row list" where
  "fetch_collector_registry a =
     (case a of
        NoAnswer e \<Rightarrow> Inl (FetchFailed e)
      | Answer c body \<Rightarrow>
          if c = 401 then Inl FetchUnauthorized
          else if c = 403 then Inl FetchForbidden
          else if \<not> success_code c then Inl (FetchServerError c)
          else (case body of
             Inl e \<Rightarrow> Inl (FetchFailed e)
           | Inr payload \<Rightarrow>
               Inr (unwrap_or (Option.bind (Option.bind (jget payload ''collectors'') as_array)
                                 (\<lambda>vs. all_some (map registry_entry_of_json vs))) [])))"

record heartbeat_response =
  hr_agent_config :: "agent_config option"
  hr_collector_registry :: "collector_row list"

record agent_state =
  st_node_id :: string
  st_agent_token :: string

record registration =
  rn_node_id :: string
  rn_agent_token :: string
  rn_heartbeat_interval_secs :: int
  rn_agent_config :: "agent_config option"

text \<open>The server as the agent sees it during one cycle.\<close>

record server_link =
  sl_register :: "register_request \<Rightarrow> registration http_answer"
  sl_registry :: "string \<Rightarrow> json http_answer"
  sl_heartbeat :: "string \<Rightarrow> heartbeat_request \<Rightarrow> heartbeat_response http_answer"

section \<open>One cycle\<close>

text \<open>\<open>register\<close>: a registration that succeeded and the configuration it brings.\<close>

definition register_agent ::
  "server_link \<Rightarrow> register_request \<Rightarrow> request_error + (agent_state \<times> agent_config)" where
  "register_agent link req =
     map_sum id (\<lambda>a. (\<lparr>st_node_id = rn_node_id a, st_agent_token = rn_agent_token a\<rparr>,
         unwrap_or (rn_agent_config a)
           (agent_config_default\<lparr>ac_config_version := 0,
                                 ac_heartbeat_interval_secs := rn_heartbeat_interval_secs a\<rparr>)))
       (checked_answer (sl_register link req))"

definition enhance_collector_errors :: "string list \<Rightarrow> collector_row list \<Rightarrow> string list" where
  "enhance_collector_errors errors registry =
     (if registry \<noteq> [] then errors
      else (case filter (\<lambda>k. contains (errors ! k) ''registry is empty'') [0..<length errors] of
         [] \<Rightarrow> errors
       | k # _ \<Rightarrow> errors[k := ''collector registry fetch: entries=0 (no collectors registered on Server).''
                             @ ''Register collectors via the Web collector registry page.'']))"

record cycle_result =
  cy_config :: "agent_config option"
  cy_registry :: "collector_row list option"
  cy_fetched :: "collector_row list"

text \<open>
  What one cycle needs of the node: the directories under the collector root, the scripts when they
  are read again, the shell, SHA-256, the host's metrics, the reports about managed instances and the
  clock.
\<close>

record node_link =
  nl_entries :: "dir_entry list"
  nl_reread :: "string \<Rightarrow> string \<Rightarrow> file_read"
  nl_shell :: "nat \<Rightarrow> string \<Rightarrow> script_output option"
  nl_sha :: "string \<Rightarrow> string"
  nl_metrics :: node_metrics
  nl_reports :: "instance_report list"
  nl_now :: int

text \<open>The registry a cycle uses: the one just fetched, the cached one when the fetch failed.\<close>

definition fetched_registry :: "server_link \<Rightarrow> runtime_config \<Rightarrow> string \<Rightarrow> collector_row list" where
  "fetched_registry link r token =
     (if rt_collector_root r = None then rt_collector_registry r
      else (case fetch_collector_registry (sl_registry link token) of
         Inl _ \<Rightarrow> rt_collector_registry r
       | Inr entries \<Rightarrow> entries))"

definition cycle_collection :: "node_link \<Rightarrow> runtime_config \<Rightarrow> collector_row list \<Rightarrow> collection" where
  "cycle_collection node r registry =
     collect_gpus (nl_sha node) (nl_shell node) (nl_reread node)
       ((to_collector_config r)\<lparr>gc_collector_registry := registry\<rparr>) (nl_entries node)"

definition cycle_request ::
  "node_link \<Rightarrow> runtime_config \<Rightarrow> collector_row list \<Rightarrow> string \<Rightarrow> heartbeat_request" where
  "cycle_request node r registry nid =
     (let c = cycle_collection node r registry in
      \<lparr>hb_node_id = nid, hb_sampled_at = nl_now node, hb_metrics = nl_metrics node, hb_gpus = cl_gpus c,
       hb_collector_errors = enhance_collector_errors (cl_errors c) registry,
       hb_collector_status = compute_collector_status (rt_collector_root r) (cl_errors c) (cl_gpus c),
       hb_agent_config = Some (to_agent_config r), hb_managed_instances = nl_reports node\<rparr>)"

definition non_empty :: "'a list \<Rightarrow> 'a list option" where
  "non_empty xs = (if xs = [] then None else Some xs)"

definition cycle_done ::
  "agent_config option \<Rightarrow> collector_row list \<Rightarrow> heartbeat_response \<Rightarrow> cycle_result" where
  "cycle_done config fetched resp =
     \<lparr>cy_config = coalesce (hr_agent_config resp) config,
      cy_registry = non_empty (hr_collector_registry resp), cy_fetched = fetched\<rparr>"

text \<open>
  \<open>run_once\<close> on the agent's stored identity. The result carries the identity that is stored
  afterwards: a registration stores it before the heartbeat is sent.
\<close>

definition send_heartbeat ::
  "server_link \<Rightarrow> node_link \<Rightarrow> register_request \<Rightarrow> runtime_config \<Rightarrow> agent_state \<Rightarrow> agent_config option
   \<Rightarrow> (string + cycle_result) \<times> agent_state" where
  "send_heartbeat link node req r st config =
     (let fetched = fetched_registry link r (st_agent_token st);
          h = cycle_request node r fetched (st_node_id st)
      in case checked_answer (sl_heartbeat link (st_agent_token st) h) of
           Inr resp \<Rightarrow> (Inr (cycle_done config fetched resp), st)
         | Inl (RequestFailed e) \<Rightarrow> (Inl e, st)
         | Inl Unauthorized \<Rightarrow>
             (case register_agent link req of
                Inl Unauthorized \<Rightarrow> (Inl ''unauthorized'', st)
              | Inl (RequestFailed e) \<Rightarrow> (Inl e, st)
              | Inr (st', c) \<Rightarrow>
                  (case checked_answer (sl_heartbeat link (st_agent_token st')
                           (h\<lparr>hb_node_id := st_node_id st'\<rparr>)) of
                     Inl Unauthorized \<Rightarrow> (Inl ''unauthorized'', st')
                   | Inl (RequestFailed e) \<Rightarrow> (Inl e, st')
                   | Inr resp \<Rightarrow> (Inr (cycle_done (Some c) fetched resp), st'))))"

definition run_once ::
  "server_link \<Rightarrow> node_link \<Rightarrow> register_request \<Rightarrow> runtime_config \<Rightarrow> agent_state option
   \<Rightarrow> (string + cycle_result) \<times> agent_state option" where
  "run_once link node req r st =
     (case st of
        Some s \<Rightarrow> map_prod id Some (send_heartbeat link node req r s None)
      | None \<Rightarrow>
          (case register_agent link req of
             Inl Unauthorized \<Rightarrow> (Inl ''unauthorized'', None)
           | Inl (RequestFailed e) \<Rightarrow> (Inl e, None)
           | Inr (s, c) \<Rightarrow> map_prod id Some (send_heartbeat link node req r s (Some c))))"

text \<open>The registry kept for the next cycle: fetched, else from the heartbeat, else the old one.\<close>

definition merged_registry :: "cycle_result \<Rightarrow> collector_row list \<Rightarrow> collector_row list" where
  "merged_registry c old =
     (if cy_fetched c \<noteq> [] then cy_fetched c
      else (case Option.bind (cy_registry c) non_empty of Some rs \<Rightarrow> rs | None \<Rightarrow> old))"

definition heartbeat_cycle ::
  "server_link \<Rightarrow> node_link \<Rightarrow> register_request \<Rightarrow> runtime_config \<times> agent_state option
   \<Rightarrow> runtime_config \<times> agent_state option" where
  "heartbeat_cycle link node req s =
     (case run_once link node req (fst s) (snd s) of
        (Inl _, st) \<Rightarrow> (fst s, st)
      | (Inr c, st) \<Rightarrow>
          (let r = apply_server_config (cy_config c) (fst s)
           in (r\<lparr>rt_collector_registry := merged_registry c (rt_collector_registry r)\<rparr>, st)))"

definition cycle_sleep_secs :: "server_link \<Rightarrow> node_link \<Rightarrow> register_request
   \<Rightarrow> runtime_config \<times> agent_state option \<Rightarrow> int" where
  "cycle_sleep_secs link node req s =
     (case run_once link node req (fst s) (snd s) of
        (Inl _, _) \<Rightarrow> rt_heartbeat_interval_secs (fst s)
      | (Inr _, _) \<Rightarrow> rt_heartbeat_interval_secs (fst (heartbeat_cycle link node req s)))"

section \<open>Facts\<close>

lemma apply_version: "rt_config_version r \<le> rt_config_version (apply_server_config c r)"
  by (simp add: apply_server_config_def split: option.split)

lemma apply_registry [simp]: "rt_collector_registry (apply_server_config c r) = rt_collector_registry r"
  and apply_root [simp]: "rt_collector_root (apply_server_config c r) = rt_collector_root r"
  and apply_lists [simp]: "rt_collector_mode (apply_server_config c r) = rt_collector_mode r"
    "rt_collector_enabled (apply_server_config c r) = rt_collector_enabled r"
    "rt_collector_disabled (apply_server_config c r) = rt_collector_disabled r"
  by (simp_all add: apply_server_config_def split: option.split)

lemma cycle_version: "rt_config_version (fst s) \<le> rt_config_version (fst (heartbeat_cycle link node req s))"
  by (simp add: heartbeat_cycle_def Let_def apply_version split: sum.split prod.split)

lemma cycle_local_settings:
  "rt_collector_root (fst (heartbeat_cycle link node req s)) = rt_collector_root (fst s)"
  "rt_collector_mode (fst (heartbeat_cycle link node req s)) = rt_collector_mode (fst s)"
  "rt_collector_enabled (fst (heartbeat_cycle link node req s)) = rt_collector_enabled (fst s)"
  "rt_collector_disabled (fst (heartbeat_cycle link node req s)) = rt_collector_disabled (fst s)"
  by (simp_all add: heartbeat_cycle_def Let_def split: sum.split prod.split)

text \<open>Any number of cycles, each with its own server and node.\<close>

definition cycles ::
  "(server_link \<times> node_link) list \<Rightarrow> register_request \<Rightarrow> runtime_config \<times> agent_state option
   \<Rightarrow> runtime_config \<times> agent_state option" where
  "cycles ls req = fold (\<lambda>(link, node). heartbeat_cycle link node req) ls"

lemma cycles_version: "rt_config_version (fst s) \<le> rt_config_version (fst (cycles ls req s))"
  unfolding cycles_def
proof (induction ls arbitrary: s)
  case (Cons l ls)
  obtain link node where l: "l = (link, node)" by (cases l)
  from Cons.IH [of "heartbeat_cycle link node req s"] cycle_version [of s link node req] l
  show ?case by simp
qed simp

lemma cycles_local:
  "rt_collector_disabled (fst (cycles ls req s)) = rt_collector_disabled (fst s)
   \<and> rt_collector_enabled (fst (cycles ls req s)) = rt_collector_enabled (fst s)"
  unfolding cycles_def by (induction ls arbitrary: s) (auto simp: cycle_local_settings)

text \<open>A configuration that was applied is what the next heartbeat reports.\<close>

lemma applied_is_reported:
  assumes "rt_config_version r \<le> ac_config_version c"
    and "ac_task_poll_interval_secs c = 15" and "ac_config_refresh_interval_secs c = 60"
  shows "to_agent_config (apply_server_config (Some c) r) = c"
  using assms by (simp add: to_agent_config_def apply_server_config_def)

text \<open>The scripts of a cycle are approved by the registry of the cycle.\<close>

lemma cycle_approved:
  assumes "b \<in> set (cl_executed (cycle_collection node r registry))"
  shows "\<exists>e \<in> set registry. cr_enabled e \<and> cr_id e \<notin> set (rt_collector_disabled r)
    \<and> (rt_collector_mode r \<noteq> ''auto'' \<longrightarrow> cr_id e \<in> set (rt_collector_enabled r))
    \<and> (nl_sha node b = cr_discover_sha256 e \<or> nl_sha node b = cr_metrics_sha256 e)"
proof -
  let ?g = "(to_collector_config r)\<lparr>gc_collector_registry := registry\<rparr>"
  show ?thesis
  proof (cases "to_dir_config ?g")
    case None
    with assms collect_no_root [OF None] show ?thesis by (simp add: cycle_collection_def)
  next
    case (Some cfg)
    from collect_approved [OF Some, of "nl_sha node" "nl_shell node" "nl_reread node" "nl_entries node"] assms
    have "approved (nl_sha node) cfg registry b" by (simp add: cycle_collection_def only_approved_def)
    with Some show ?thesis
      by (auto simp: approved_def to_dir_config_def to_collector_config_def split: if_splits)
  qed
qed

lemma cycle_needs_root:
  assumes "b \<in> set (cl_executed (cycle_collection node r registry))"
  shows "rt_collector_root r \<noteq> None"
proof
  let ?g = "(to_collector_config r)\<lparr>gc_collector_registry := registry\<rparr>"
  assume "rt_collector_root r = None"
  then have "to_dir_config ?g = None" by (simp add: to_dir_config_def to_collector_config_def)
  from collect_no_root [OF this] assms show False by (simp add: cycle_collection_def)
qed

text \<open>
  A registry that the server has emptied does not replace the cached one, and the cached one is used
  again when a later fetch fails.
\<close>

lemma emptied_registry_stays_cached:
  assumes "run_once link node req r st = (Inr c, st')" and "cy_fetched c = []" and "cy_registry c = None"
  shows "rt_collector_registry (fst (heartbeat_cycle link node req (r, st))) = rt_collector_registry r"
  using assms by (simp add: heartbeat_cycle_def Let_def merged_registry_def)

lemma failed_fetch_uses_cache:
  "fetch_collector_registry (sl_registry link token) = Inl e \<Longrightarrow>
     fetched_registry link r token = rt_collector_registry r"
  by (simp add: fetched_registry_def)

end
