(* ===== verification/ManagedProcesses.thy ===== *)
theory ManagedProcesses
  imports Floats Heartbeats
begin

text \<open>
  \<^verbatim>\<open>agent/src/managed_process.rs\<close>: the store of the processes an agent has started, and the checks
  before such a process counts as running or is killed. A process id alone does not identify a
  process: the start time of \<^verbatim>\<open>/proc/<pid>/stat\<close> is compared with the recorded one, so that a reused
  id is never taken for the managed process. Containers are checked and stopped through docker, a
  parameter. A store is the list the JSON file holds, or the error reading it gives.
\<close>

section \<open>Records and process table\<close>

record process_record =
  pr_instance_id :: string
  pr_process_id :: int
  pr_process_start_time :: "int option"
  pr_base_url :: "string option"
  pr_endpoint_url :: "string option"
  pr_command :: "string option"
  pr_log_path :: "string option"
  pr_started_at :: int
  pr_container_id :: "string option"
  pr_container_name :: "string option"
  pr_deploy_type :: "string option"

text \<open>\<open>rsplit_once(") ")\<close>: what follows the last occurrence.\<close>

fun after_last :: "string \<Rightarrow> string \<Rightarrow> string option" where
  "after_last p [] = (if p = [] then Some [] else None)"
| "after_last p (c # s) =
     (case after_last p s of
        Some r \<Rightarrow> Some r
      | None \<Rightarrow> if starts_with (c # s) p then Some (drop (length p) (c # s)) else None)"

text \<open>\<open>split_whitespace\<close>: the maximal runs of characters that are no white space.\<close>

fun words_of :: "string list \<Rightarrow> string list" where
  "words_of [] = []"
| "words_of (c # cs) =
     (if is_whitespace c then words_of cs
      else (case cs of
         [] \<Rightarrow> [c]
       | d # _ \<Rightarrow> if is_whitespace d then c # words_of cs
                  else (case words_of cs of [] \<Rightarrow> [c] | w # ws \<Rightarrow> (c @ w) # ws)))"

definition split_whitespace :: "string \<Rightarrow> string list" where
  "split_whitespace s = words_of (utf8_chars s)"

definition nth_opt :: "'a list \<Rightarrow> nat \<Rightarrow> 'a option" where
  "nth_opt xs i = (if i < length xs then Some (xs ! i) else None)"

definition parse_linux_stat_start_time :: "string \<Rightarrow> int option" where
  "parse_linux_stat_start_time stat =
     Option.bind (after_last '') '' stat) (\<lambda>r.
     Option.bind (nth_opt (split_whitespace r) 19) parse_u64)"

text \<open>
  The host: the text of the stat file of a process id (nothing when it cannot be read), docker's
  answer about a container, the outcomes of \<^verbatim>\<open>kill -TERM\<close> and of stopping a container.
\<close>

record proc_check =
  pc_is_running :: bool
  pc_message :: string

record host =
  ho_stat :: "int \<Rightarrow> string option"
  ho_docker_check :: "process_record \<Rightarrow> proc_check"
  ho_kill :: "int \<Rightarrow> string option"
  ho_docker_stop :: "process_record \<Rightarrow> string option"

definition process_start_time :: "host \<Rightarrow> int \<Rightarrow> int option" where
  "process_start_time h pid = Option.bind (ho_stat h pid) parse_linux_stat_start_time"

definition process_missing :: string where
  "process_missing = ''Managed process not found; may have exited abnormally''"

definition process_reused :: string where
  "process_reused =
     ''PID reused by another process; cannot confirm as platform managed instance; management stopped''"

definition process_recovered :: string where
  "process_recovered = ''Agent restarted and recovered managed process: still running''"

definition check_process :: "host \<Rightarrow> process_record \<Rightarrow> proc_check" where
  "check_process h r =
     (if pr_deploy_type r = Some ''docker'' then ho_docker_check h r
      else (case process_start_time h (pr_process_id r) of
         None \<Rightarrow> \<lparr>pc_is_running = False, pc_message = process_missing\<rparr>
       | Some current \<Rightarrow>
           if (case pr_process_start_time r of None \<Rightarrow> False | Some expected \<Rightarrow> current \<noteq> expected)
           then \<lparr>pc_is_running = False, pc_message = process_reused\<rparr>
           else \<lparr>pc_is_running = True, pc_message = process_recovered\<rparr>))"

text \<open>What a kill does to the host: nothing, a signal to a process, or a container stop.\<close>

datatype kill_action = NoAction | SignalTerm int | StopContainer process_record

definition kill_managed :: "host \<Rightarrow> process_record \<Rightarrow> string option \<times> kill_action" where
  "kill_managed h r =
     (if pr_deploy_type r = Some ''docker'' then (ho_docker_stop h r, StopContainer r)
      else (let c = check_process h r in
        if \<not> pc_is_running c then (Some (pc_message c), NoAction)
        else (ho_kill h (pr_process_id r), SignalTerm (pr_process_id r))))"

section \<open>The store\<close>

type_synonym process_store = "process_record list"

definition upsert_record :: "process_record \<Rightarrow> process_store \<Rightarrow> process_store" where
  "upsert_record r rs = filter (\<lambda>q. pr_instance_id q \<noteq> pr_instance_id r) rs @ [r]"

definition remove_record :: "string \<Rightarrow> process_store \<Rightarrow> process_store" where
  "remove_record i rs = filter (\<lambda>q. pr_instance_id q \<noteq> i) rs"

definition find_record :: "string \<Rightarrow> process_store \<Rightarrow> process_record option" where
  "find_record i rs = find (\<lambda>q. pr_instance_id q = i) rs"

definition report_of :: "host \<Rightarrow> process_record \<Rightarrow> instance_report" where
  "report_of h r =
     (let c = check_process h r in
      \<lparr>rp_instance_id = pr_instance_id r,
       rp_status = (if pc_is_running c then ''running'' else ''failed''),
       rp_message = pc_message c, rp_process_id = Some (pr_process_id r),
       rp_process_ref = Some (pr_instance_id r), rp_base_url = pr_base_url r,
       rp_endpoint_url = pr_endpoint_url r, rp_command = pr_command r, rp_log_path = pr_log_path r\<rparr>)"

text \<open>Every record is reported once; those that no longer run are forgotten.\<close>

definition reports :: "host \<Rightarrow> process_store \<Rightarrow> instance_report list \<times> process_store" where
  "reports h rs = (map (report_of h) rs, filter (\<lambda>r. pc_is_running (check_process h r)) rs)"

text \<open>
  Where the store is: no path gives no reports; a store that cannot be read gives none and stays
  unchanged.
\<close>

definition store_reports ::
  "host \<Rightarrow> (string + process_store) option \<Rightarrow> instance_report list \<times> (string + process_store) option" where
  "store_reports h store =
     (case store of
        None \<Rightarrow> ([], None)
      | Some (Inl e) \<Rightarrow> ([], Some (Inl e))
      | Some (Inr rs) \<Rightarrow> (case reports h rs of (ps, rs') \<Rightarrow> (ps, Some (Inr rs'))))"

section \<open>A store is a finite map\<close>

definition store_ok :: "process_store \<Rightarrow> bool" where
  "store_ok rs \<longleftrightarrow> distinct (map pr_instance_id rs)"

locale record_store =
  fixes lookup :: "'i \<Rightarrow> 's \<Rightarrow> 'r option"
    and insert :: "'r \<Rightarrow> 's \<Rightarrow> 's"
    and delete :: "'i \<Rightarrow> 's \<Rightarrow> 's"
    and key :: "'r \<Rightarrow> 'i"
    and ok :: "'s \<Rightarrow> bool"
  assumes lookup_insert: "lookup i (insert r s) = (if i = key r then Some r else lookup i s)"
    and lookup_delete: "lookup i (delete j s) = (if i = j then None else lookup i s)"
    and insert_ok: "ok s \<Longrightarrow> ok (insert r s)"
    and delete_ok: "ok s \<Longrightarrow> ok (delete i s)"
begin

lemma abs_insert: "(\<lambda>i. lookup i (insert r s)) = (\<lambda>i. lookup i s)(key r \<mapsto> r)"
  by (auto simp: lookup_insert)

lemma abs_delete: "(\<lambda>i. lookup i (delete j s)) = (\<lambda>i. lookup i s)(j := None)"
  by (auto simp: lookup_delete)

lemma insert_delete: "lookup i (delete (key r) (insert r s)) = lookup i (delete (key r) s)"
  by (simp add: lookup_insert lookup_delete)

end

lemma find_filter_other: "i \<noteq> j \<Longrightarrow>
  find (\<lambda>q. k q = i) (filter (\<lambda>q. k q \<noteq> j) rs) = find (\<lambda>q. k q = i) rs"
  by (induction rs) auto

lemma find_filter_same: "find (\<lambda>q. k q = j) (filter (\<lambda>q. k q \<noteq> j) rs) = None"
  by (simp add: find_None_iff)

interpretation proc_store: record_store find_record upsert_record remove_record pr_instance_id store_ok
proof
  fix i j :: string and r :: process_record and s :: process_store
  show "find_record i (upsert_record r s) = (if i = pr_instance_id r then Some r else find_record i s)"
    by (cases "i = pr_instance_id r")
      (simp_all add: find_record_def upsert_record_def find_append find_filter_other find_filter_same split: option.split)
  show "find_record i (remove_record j s) = (if i = j then None else find_record i s)"
    by (cases "i = j") (simp_all add: find_record_def remove_record_def find_filter_other find_filter_same)
  show "store_ok s \<Longrightarrow> store_ok (upsert_record r s)"
    by (auto simp: store_ok_def upsert_record_def distinct_map_filter)
  show "store_ok s \<Longrightarrow> store_ok (remove_record i s)"
    by (auto simp: store_ok_def remove_record_def distinct_map_filter)
qed

section \<open>Facts\<close>

text \<open>A signal goes only to a process with the recorded start time.\<close>

lemma kill_is_ours:
  assumes "kill_managed h r = (e, SignalTerm pid)"
  shows "pid = pr_process_id r \<and> pr_deploy_type r \<noteq> Some ''docker''
    \<and> (\<exists>t. process_start_time h pid = Some t \<and> (\<forall>s. pr_process_start_time r = Some s \<longrightarrow> t = s))"
  using assms
  by (auto simp: kill_managed_def check_process_def Let_def split: if_splits option.splits)

lemma reports_cover:
  "map rp_instance_id (fst (reports h rs)) = map pr_instance_id rs"
  by (simp add: reports_def report_of_def Let_def)

lemma reports_prune: "r \<in> set (snd (reports h rs)) \<longleftrightarrow> r \<in> set rs \<and> pc_is_running (check_process h r)"
  by (simp add: reports_def)

lemma reports_ok: "store_ok rs \<Longrightarrow> store_ok (snd (reports h rs))"
  by (simp add: store_ok_def reports_def distinct_map_filter)

lemma reported_running:
  assumes "store_ok rs" and "r \<in> set rs" and "p \<in> set (fst (reports h rs))" and "rp_instance_id p = pr_instance_id r"
  shows "p = report_of h r"
proof -
  from assms(3) obtain q where q: "q \<in> set rs" "p = report_of h q" by (auto simp: reports_def)
  with assms(4) have "pr_instance_id q = pr_instance_id r" by (simp add: report_of_def Let_def)
  with assms(1,2) q(1) have "q = r" by (intro distinct_key_eq [of pr_instance_id rs]) (simp_all add: store_ok_def)
  with q(2) show ?thesis by simp
qed

text \<open>
  The agent's store and the server's table after a heartbeat: an active instance of the node is one
  whose process runs.
\<close>

lemma active_is_running:
  assumes "record_heartbeat x now hb d = (Inr u, d')" and "distinct (map mi_id (model_instances d))"
    and "hb_managed_instances hb = fst (reports h rs)"
    and "r \<in> set (model_instances d')" and "managed_by (hb_node_id hb) r"
    and "mi_status r \<in> {''starting'', ''running'', ''stopping''}" and "runtime_backend d r \<noteq> Some ''ollama''"
  shows "\<exists>q \<in> set rs. pr_instance_id q = mi_id r \<and> pc_is_running (check_process h q)"
proof -
  let ?f = "reconciled (hb_node_id hb) now (hb_managed_instances hb) d"
  from assms(4) obtain q where q: "r = ?f q" unfolding heartbeat_tables(3) [OF assms(1,2)] by auto
  from assms(5) have m: "managed_by (hb_node_id hb) q" unfolding q by simp
  have s: "mi_status (?f q) \<in> {''starting'', ''running'', ''stopping''}" using assms(6) unfolding q .
  have b: "runtime_backend d q \<noteq> Some ''ollama''" using assms(7) unfolding q by simp
  from reconciled_active [OF m s b] obtain p where
    p: "p \<in> set (fst (reports h rs))" "rp_instance_id p = mi_id r" "rp_status p = ''running''"
    unfolding assms(3) q by auto
  from p(1) obtain k where k: "k \<in> set rs" "p = report_of h k" by (auto simp: reports_def)
  have "pr_instance_id k = mi_id r" using p(2) k(2) by (simp add: report_of_def Let_def)
  moreover have "pc_is_running (check_process h k)" using p(3) k(2) by (auto simp: report_of_def Let_def split: if_splits)
  ultimately show ?thesis using k(1) by blast
qed

end
