(* ===== verification/GatewaySupervisor.thy ===== *)
theory GatewaySupervisor
  imports ManagedProcesses GatewayTasks PlatformLog
begin

text \<open>
  \<^verbatim>\<open>agent/src/gateway_supervisor.rs\<close>: the agent's side of the gateway tasks. One gateway process per
  agent, remembered in a state file with its process id and start time. The state is what that file
  holds (\<open>stored\<close>) and the list of the effects on processes; the outcomes of the file system, of
  spawning, of \<^verbatim>\<open>kill\<close> and of the health request are fields of \<open>gateway_host\<close>.
\<close>

section \<open>Specification of a process\<close>

record gateway_spec =
  gs_binary_path :: string
  gs_config_path :: string
  gs_work_dir :: string
  gs_log_path :: string
  gs_state_path :: string
  gs_health_url :: string

record gateway_command =
  gw_program :: string
  gw_args :: "string list"
  gw_current_dir :: string
  gw_log_path :: string

record gateway_record =
  gp_process_id :: int
  gp_process_start_time :: "int option"
  gp_health_url :: string
  gp_command :: string
  gp_log_path :: string
  gp_started_at :: int

text \<open>The named components of a path: empty pieces and \<open>.\<close> are none.\<close>

definition path_components :: "string \<Rightarrow> string list" where
  "path_components p = filter (\<lambda>c. c \<noteq> [] \<and> c \<noteq> ''.'') (split_on (CHR ''/'') p)"

definition is_root :: "string \<Rightarrow> bool" where
  "is_root p \<longleftrightarrow> starts_with p ''/'' \<and> path_components p = []"

definition path_file_name :: "string \<Rightarrow> string option" where
  "path_file_name p =
     (let cs = path_components p in if cs = [] \<or> last cs = ''..'' then None else Some (last cs))"

definition GATEWAY_LOG_FILE :: string where
  "GATEWAY_LOG_FILE = ''lightai-gateway.log''"

definition validate_non_empty_path :: "string \<Rightarrow> string \<Rightarrow> string option" where
  "validate_non_empty_path field p =
     (if p = [] then Some (field @ '' must not be empty'')
      else if CHR 0x00 \<in> set p then Some (field @ '' must not contain NUL bytes'')
      else None)"

definition validate_controlled_path :: "string \<Rightarrow> string \<Rightarrow> string option" where
  "validate_controlled_path field p = first_error [
     validate_non_empty_path field p,
     if ''..'' \<in> set (path_components p)
     then Some (field @ '' must not contain parent directory components'') else None]"

definition validate_health_url :: "ext \<Rightarrow> string \<Rightarrow> string option" where
  "validate_health_url x v =
     (case ext_url x v of
        None \<Rightarrow> Some ''health_url is invalid''
      | Some u \<Rightarrow> first_error [
          if url_scheme u \<noteq> ''http'' \<and> url_scheme u \<noteq> ''https''
          then Some ''health_url must use http:// or https://'' else None,
          if url_host u \<in> Some ` set loopback_hosts then None
          else Some ''health_url must target localhost or loopback'',
          if url_path u \<noteq> ''/health'' then Some ''health_url path must be /health'' else None,
          if url_query u \<noteq> None then Some ''health_url must not include query parameters'' else None])"

definition log_name_error :: string where
  "log_name_error = ''log_path file name must be '' @ GATEWAY_LOG_FILE"

definition validate_gateway_spec :: "ext \<Rightarrow> gateway_spec \<Rightarrow> string option" where
  "validate_gateway_spec x s = first_error [
     validate_non_empty_path ''binary_path'' (gs_binary_path s),
     validate_non_empty_path ''config_path'' (gs_config_path s),
     validate_controlled_path ''work_dir'' (gs_work_dir s),
     validate_controlled_path ''log_path'' (gs_log_path s),
     validate_controlled_path ''state_path'' (gs_state_path s),
     validate_health_url x (gs_health_url s),
     if is_root (gs_work_dir s) then Some ''work_dir must not be filesystem root'' else None,
     if path_file_name (gs_log_path s) \<noteq> Some GATEWAY_LOG_FILE then Some log_name_error else None]"

definition command_spec :: "ext \<Rightarrow> gateway_spec \<Rightarrow> string + gateway_command" where
  "command_spec x s =
     (case validate_gateway_spec x s of
        Some e \<Rightarrow> Inl e
      | None \<Rightarrow> Inr \<lparr>gw_program = gs_binary_path s, gw_args = [''--config'', gs_config_path s],
                    gw_current_dir = gs_work_dir s, gw_log_path = gs_log_path s\<rparr>)"

section \<open>Operations\<close>

text \<open>The state file: unreadable, absent, or a record.\<close>

type_synonym stored = "string + gateway_record option"

datatype gateway_effect = Spawned gateway_command int | Killed int

record gateway_host =
  gh_host :: host
  gh_host_after :: host
  gh_prepare :: "string \<Rightarrow> string option"
  gh_open_log :: "string option"
  gh_spawn :: "string + int option"
  gh_save :: "string option"
  gh_remove :: bool
  gh_http :: "string \<Rightarrow> http_reply"
  gh_read_log :: "string \<Rightarrow> (string + string) option"

definition gateway_failed :: "string \<Rightarrow> gateway_response" where
  "gateway_failed m =
     \<lparr>gr_gateway_status = ''failed'', gr_message = m, gr_process_id = None, gr_process_ref = None,
      gr_health_url = None, gr_log_tail = None, gr_command = None\<rparr>"

definition gateway_reply :: "string \<Rightarrow> string \<Rightarrow> gateway_record \<Rightarrow> gateway_response" where
  "gateway_reply status m r =
     \<lparr>gr_gateway_status = status, gr_message = m, gr_process_id = Some (gp_process_id r),
      gr_process_ref = Some (int_str (gp_process_id r)), gr_health_url = Some (gp_health_url r),
      gr_log_tail = None, gr_command = Some (gp_command r)\<rparr>"

definition check_gateway_record :: "host \<Rightarrow> gateway_record \<Rightarrow> proc_check" where
  "check_gateway_record h r =
     (case process_start_time h (gp_process_id r) of
        None \<Rightarrow> \<lparr>pc_is_running = False, pc_message = ''Gateway process not found; may have exited''\<rparr>
      | Some current \<Rightarrow>
          if (case gp_process_start_time r of None \<Rightarrow> False | Some expected \<Rightarrow> current \<noteq> expected)
          then \<lparr>pc_is_running = False,
                pc_message = ''PID reused by another process; cannot confirm as managed Gateway''\<rparr>
          else \<lparr>pc_is_running = True, pc_message = ''Gateway process is running''\<rparr>)"

text \<open>Spawn the process and save its record; the record names the start time read after the spawn.\<close>

definition spawn_gateway ::
  "gateway_host \<Rightarrow> int \<Rightarrow> gateway_spec \<Rightarrow> gateway_command \<Rightarrow> stored
   \<Rightarrow> gateway_response \<times> stored \<times> gateway_effect list" where
  "spawn_gateway g now s c st =
     (case gh_spawn g of
        Inl e \<Rightarrow> (gateway_failed (''Failed to start Gateway: '' @ e), st, [])
      | Inr None \<Rightarrow> (gateway_failed ''Failed to start Gateway: missing child process id'', st, [])
      | Inr (Some pid) \<Rightarrow>
          (let r = \<lparr>gp_process_id = pid, gp_process_start_time = process_start_time (gh_host_after g) pid,
                    gp_health_url = gs_health_url s,
                    gp_command = gw_program c @ '' '' @ join '' '' (gw_args c),
                    gp_log_path = gs_log_path s, gp_started_at = now\<rparr>
           in case gh_save g of
                Some e \<Rightarrow> (gateway_failed (''Failed to save Gateway state: '' @ e), st, [Spawned c pid])
              | None \<Rightarrow> (gateway_reply ''running'' ''Gateway started'' r, Inr (Some r), [Spawned c pid])))"

definition running_record :: "host \<Rightarrow> stored \<Rightarrow> gateway_record option" where
  "running_record h st =
     (case st of Inr (Some r) \<Rightarrow> if pc_is_running (check_gateway_record h r) then Some r else None
      | _ \<Rightarrow> None)"

definition agent_start_gateway ::
  "ext \<Rightarrow> gateway_host \<Rightarrow> int \<Rightarrow> gateway_spec \<Rightarrow> stored \<Rightarrow> gateway_response \<times> stored \<times> gateway_effect list" where
  "agent_start_gateway x g now s st =
     (case validate_gateway_spec x s of
        Some e \<Rightarrow> (gateway_failed e, st, [])
      | None \<Rightarrow>
     (case running_record (gh_host g) st of
        Some r \<Rightarrow> (gateway_reply ''running'' ''Gateway is already running'' r, st, [])
      | None \<Rightarrow>
     (case command_spec x s of
        Inl e \<Rightarrow> (gateway_failed e, st, [])
      | Inr c \<Rightarrow>
     (case gh_prepare g (gs_state_path s) of
        Some e \<Rightarrow> (gateway_failed (''Failed to prepare Gateway state path: '' @ e), st, [])
      | None \<Rightarrow>
     (case gh_prepare g (gw_log_path c) of
        Some e \<Rightarrow> (gateway_failed (''Failed to prepare Gateway log path: '' @ e), st, [])
      | None \<Rightarrow>
     (case gh_open_log g of
        Some e \<Rightarrow> (gateway_failed (''Failed to open Gateway log file: '' @ e), st, [])
      | None \<Rightarrow> spawn_gateway g now s c st))))))"

definition agent_stop_gateway ::
  "gateway_host \<Rightarrow> stored \<Rightarrow> gateway_response \<times> stored \<times> gateway_effect list" where
  "agent_stop_gateway g st =
     (case st of
        Inl e \<Rightarrow> (gateway_failed (''Failed to load Gateway state: '' @ e), st, [])
      | Inr None \<Rightarrow>
          ((gateway_failed ''Gateway is not running'')\<lparr>gr_gateway_status := ''stopped''\<rparr>, st, [])
      | Inr (Some r) \<Rightarrow>
          (let running = pc_is_running (check_gateway_record (gh_host g) r);
               effects = (if running then [Killed (gp_process_id r)] else []);
               gone = ((gateway_reply ''stopped'' ''Gateway stopped'' r), if gh_remove g then Inr None else st, effects)
           in if running then
                (case ho_kill (gh_host g) (gp_process_id r) of
                   Some e \<Rightarrow> (gateway_failed e, st, effects)
                 | None \<Rightarrow> gone)
              else gone))"

definition agent_check_gateway :: "gateway_host \<Rightarrow> stored \<Rightarrow> gateway_response" where
  "agent_check_gateway g st =
     (case st of
        Inl e \<Rightarrow> gateway_failed (''Failed to load Gateway state: '' @ e)
      | Inr None \<Rightarrow> gateway_failed ''Gateway is not running''
      | Inr (Some r) \<Rightarrow>
          (let c = check_gateway_record (gh_host g) r in
           if \<not> pc_is_running c then gateway_failed (pc_message c)
           else (case gh_http g (gp_health_url r) of
              BuildFailed e \<Rightarrow> gateway_failed (''Gateway health check client initialization failed: '' @ e)
            | SendFailed e \<Rightarrow> gateway_failed (''Gateway health check failed: '' @ e)
            | Replied code text \<Rightarrow>
                if 200 \<le> code \<and> code < 300
                then gateway_reply ''running'' (''Gateway health check succeeded: HTTP '' @ text) r
                else gateway_failed (''Gateway health check failed: HTTP '' @ text))))"

text \<open>\<open>lossy\<close> is \<open>String::from_utf8_lossy\<close>; the log is read from its last bytes and sanitised.\<close>

definition agent_read_gateway_log ::
  "(string \<Rightarrow> string) \<Rightarrow> gateway_host \<Rightarrow> nat \<Rightarrow> stored \<Rightarrow> gateway_response" where
  "agent_read_gateway_log lossy g max_bytes st =
     (case st of
        Inl e \<Rightarrow> gateway_failed (''Failed to load Gateway state: '' @ e)
      | Inr None \<Rightarrow> gateway_failed ''Gateway is not running''
      | Inr (Some r) \<Rightarrow>
     (case first_error [validate_controlled_path ''log_path'' (gp_log_path r),
             if path_file_name (gp_log_path r) \<noteq> Some GATEWAY_LOG_FILE then Some log_name_error else None] of
        Some e \<Rightarrow> gateway_failed e
      | None \<Rightarrow>
     (case gh_read_log g (gp_log_path r) of
        None \<Rightarrow> gateway_failed ''Gateway log file not found''
      | Some (Inl e) \<Rightarrow> gateway_failed (''Failed to read Gateway log file: '' @ e)
      | Some (Inr bytes) \<Rightarrow>
          (gateway_failed ''Gateway log read succeeded'')
            \<lparr>gr_gateway_status := ''log_available'',
             gr_log_tail := Some (sanitize (lossy (drop (length bytes - min max_bytes (512 * 1024)) bytes)))\<rparr>)))"

section \<open>Facts\<close>

text \<open>The server and the agent accept the same health URLs.\<close>

lemma health_url_agree:
  "validate_health_url x v = None \<longleftrightarrow> validate_required_url x field (Some v) = None"
  by (auto simp: validate_health_url_def validate_required_url_def first_error_Cons split: option.split)

lemma start_spawns:
  assumes "agent_start_gateway x g now s st = (resp, st', effects)" and "Spawned c pid \<in> set effects"
  shows "validate_gateway_spec x s = None \<and> command_spec x s = Inr c \<and> running_record (gh_host g) st = None
    \<and> effects = [Spawned c pid]"
  using assms
  by (auto simp: agent_start_gateway_def spawn_gateway_def Let_def split: option.splits sum.splits)

lemma start_never_kills:
  "agent_start_gateway x g now s st = (resp, st', effects) \<Longrightarrow> Killed pid \<notin> set effects"
  by (auto simp: agent_start_gateway_def spawn_gateway_def Let_def split: option.splits sum.splits)

lemma start_running:
  assumes "agent_start_gateway x g now s st = (resp, st', effects)" and "gr_gateway_status resp = ''running''"
  shows "\<exists>r. st' = Inr (Some r) \<and> gr_process_id resp = Some (gp_process_id r)
    \<and> (effects = [] \<longrightarrow> st' = st)
    \<and> (effects \<noteq> [] \<longrightarrow> gp_process_start_time r = process_start_time (gh_host_after g) (gp_process_id r))"
  using assms
  by (auto simp: agent_start_gateway_def spawn_gateway_def gateway_failed_def gateway_reply_def Let_def
      running_record_def split: option.splits sum.splits if_splits)

text \<open>A second start does nothing while the process of the first one runs.\<close>

lemma second_start:
  assumes "agent_start_gateway x g now s st = (resp, st', effects)" and "effects \<noteq> []"
    and "gr_gateway_status resp = ''running''" and "gr_process_id resp = Some pid"
    and "process_start_time (gh_host g2) pid \<noteq> None"
    and "process_start_time (gh_host_after g) pid \<noteq> None \<longrightarrow>
      process_start_time (gh_host g2) pid = process_start_time (gh_host_after g) pid"
    and "validate_gateway_spec x s2 = None"
  shows "\<exists>resp2. agent_start_gateway x g2 now2 s2 st' = (resp2, st', []) \<and> gr_process_id resp2 = Some pid"
proof -
  from start_running [OF assms(1,3)] assms(2,4) obtain r where r: "st' = Inr (Some r)" "gp_process_id r = pid"
    "gp_process_start_time r = process_start_time (gh_host_after g) pid" by auto
  have "pc_is_running (check_gateway_record (gh_host g2) r)"
    using assms(5,6) r by (auto simp: check_gateway_record_def split: option.split)
  then show ?thesis using assms(7) r
    by (simp add: agent_start_gateway_def running_record_def gateway_reply_def)
qed

lemma stop_kills_ours:
  assumes "agent_stop_gateway g st = (resp, st', effects)" and "Killed pid \<in> set effects"
  shows "\<exists>r t. st = Inr (Some r) \<and> gp_process_id r = pid \<and> process_start_time (gh_host g) pid = Some t
    \<and> (\<forall>s. gp_process_start_time r = Some s \<longrightarrow> t = s)"
proof -
  from assms obtain r where r: "st = Inr (Some r)" "pc_is_running (check_gateway_record (gh_host g) r)"
    "pid = gp_process_id r"
    by (auto simp: agent_stop_gateway_def Let_def split: sum.splits option.splits if_splits)
  from r(2) show ?thesis unfolding r(1,3)
    by (auto simp: check_gateway_record_def split: option.splits if_splits)
qed

lemma stop_stopped:
  assumes "agent_stop_gateway g st = (resp, st', effects)" and "gr_gateway_status resp = ''stopped''" and "gh_remove g"
  shows "st' = Inr None"
  using assms
  by (auto simp: agent_stop_gateway_def gateway_failed_def Let_def split: sum.splits option.splits if_splits)

end
