(* ===== verification/Http.thy ===== *)
theory Http
  imports Users
begin

text \<open>
  The HTTP side of the server (\<^verbatim>\<open>server/src/routes.rs\<close>): requests and responses, the session cookie and
  the bearer token, the errors a handler can answer with, and the middleware's decision who may send
  which request. A header is \<open>None\<close> when it is absent or no visible ASCII text (\<open>to_str\<close>). What the
  extractors of axum make of the body and of the query is the field \<open>rq_payload\<close>.
\<close>

section \<open>Requests\<close>

datatype http_method = GET | HEAD | POST | PUT | DELETE | PATCH | OtherMethod

record 'p http_request =
  rq_method :: http_method
  rq_path :: string
  rq_cookie :: "string option"
  rq_authorization :: "string option"
  rq_payload :: 'p

text \<open>\<open>split_once\<close> at the first separator.\<close>

fun split_once :: "char \<Rightarrow> string \<Rightarrow> (string \<times> string) option" where
  "split_once c [] = None"
| "split_once c (x # xs) =
     (if x = c then Some ([], xs) else map_option (\<lambda>(a, b). (x # a, b)) (split_once c xs))"

fun find_map :: "('a \<Rightarrow> 'b option) \<Rightarrow> 'a list \<Rightarrow> 'b option" where
  "find_map f [] = None"
| "find_map f (x # xs) = (case f x of Some y \<Rightarrow> Some y | None \<Rightarrow> find_map f xs)"

definition cookie_value :: "string \<Rightarrow> string option" where
  "cookie_value part =
     (case split_once (CHR ''='') (trim part) of
        None \<Rightarrow> None
      | Some (name, value) \<Rightarrow> if name = ''lightai_session'' \<and> value \<noteq> [] then Some value else None)"

definition session_cookie :: "string option \<Rightarrow> string option" where
  "session_cookie header = Option.bind header (\<lambda>text. find_map cookie_value (split_on (CHR '';'') text))"

definition strip_prefix :: "string \<Rightarrow> string \<Rightarrow> string option" where
  "strip_prefix p s = (if starts_with s p then Some (drop (length p) s) else None)"

definition bearer_token :: "string option \<Rightarrow> string option" where
  "bearer_token header = Option.bind header (strip_prefix ''Bearer '')"

definition session_cookie_header :: "string \<Rightarrow> int \<Rightarrow> bool \<Rightarrow> string" where
  "session_cookie_header token max_age secure =
     ''lightai_session='' @ token @ ''; Path=/; HttpOnly; SameSite=Lax; Max-Age='' @ int_str max_age
     @ (if secure then ''; Secure'' else [])"

definition cleared_cookie :: string where
  "cleared_cookie = ''lightai_session=; Path=/; HttpOnly; SameSite=Lax; Max-Age=0''"

section \<open>Errors\<close>

datatype api_error =
    ApiUnauthorized
  | ApiForbidden string
  | ApiBadRequest string
  | ApiNotFound string
  | ApiConflict string
  | ApiInternal string

definition of_domain :: "domain_error \<Rightarrow> api_error" where
  "of_domain e =
     (case e of
        BadRequest m \<Rightarrow> ApiBadRequest m
      | NotFound m \<Rightarrow> ApiNotFound m
      | Conflict m \<Rightarrow> ApiConflict m
      | Internal m \<Rightarrow> ApiInternal m)"

text \<open>The status, the error code and the message of an error; an internal error hides its message.\<close>

definition error_reply :: "api_error \<Rightarrow> int \<times> string \<times> string option" where
  "error_reply e =
     (case e of
        ApiUnauthorized \<Rightarrow> (401, ''unauthorized'', Some ''Please log in or check credentials'')
      | ApiForbidden m \<Rightarrow> (403, ''forbidden'', Some m)
      | ApiBadRequest m \<Rightarrow> (400, ''bad_request'', Some m)
      | ApiNotFound m \<Rightarrow> (404, ''not_found'', Some m)
      | ApiConflict m \<Rightarrow> (409, ''conflict'', Some m)
      | ApiInternal m \<Rightarrow> (500, ''internal_error'', None))"

definition group_management_error :: "string \<Rightarrow> api_error" where
  "group_management_error m =
     (if contains m ''not found'' then ApiNotFound m
      else if contains m ''has members'' then ApiConflict m
      else if contains m ''UNIQUE constraint'' \<or> contains m ''must be'' \<or> contains m ''may only contain''
      then ApiBadRequest m
      else ApiInternal m)"

definition setup_error :: "string \<Rightarrow> api_error" where
  "setup_error m =
     (if contains m ''already completed'' then ApiConflict m
      else if contains m ''password'' \<or> contains m ''username'' then ApiBadRequest m
      else ApiInternal m)"

definition user_management_error :: "string \<Rightarrow> api_error" where
  "user_management_error m =
     (if contains m ''not found'' then ApiNotFound m
      else if contains m ''UNIQUE constraint'' \<or> contains m ''must be'' \<or> contains m ''cannot disable''
        \<or> contains m ''may only contain''
      then ApiBadRequest m
      else ApiInternal m)"

definition password_change_error :: "string \<Rightarrow> api_error" where
  "password_change_error m =
     (if contains m ''password'' then ApiBadRequest m
      else if contains m ''not found'' then ApiNotFound m
      else ApiInternal m)"

section \<open>Who may send which request\<close>

text \<open>The paths the middleware lets through without a session.\<close>

definition is_public_path :: "string \<Rightarrow> bool" where
  "is_public_path path \<longleftrightarrow>
     \<not> starts_with path ''/api/'' \<or> starts_with path ''/api/agent/'' \<or> path = ''/api/auth/login''
     \<or> path = ''/api/setup/status'' \<or> path = ''/api/setup/admin''"

definition is_authorized_for_path :: "auth_user \<Rightarrow> http_method \<Rightarrow> string \<Rightarrow> bool" where
  "is_authorized_for_path u m path =
     (let role = au_effective_role u in
      if role = ''admin'' then True
      else if starts_with path ''/api/auth/'' \<or> path = ''/api/frontend-errors'' then True
      else if starts_with path ''/api/users'' \<or> starts_with path ''/api/groups''
        \<or> starts_with path ''/api/config'' \<or> starts_with path ''/api/model-file-trash'' then False
      else if starts_with path ''/api/nodes/'' \<and> contains path ''/gateway/''
      then role = ''admin'' \<or> role = ''operator''
      else if role = ''operator'' then True
      else m = GET)"

definition is_password_change_allowed_path :: "string \<Rightarrow> bool" where
  "is_password_change_allowed_path path \<longleftrightarrow>
     path \<in> {''/api/auth/me'', ''/api/auth/logout'', ''/api/auth/change-password''}
     \<or> path = ''/api/frontend-errors''"

text \<open>The middleware: what it answers itself, or the user it hands to the handler (none on a public path).\<close>

datatype auth_outcome =
    PassThrough
  | PassAs auth_user
  | LoginRequired
  | PasswordChangeRequired
  | InsufficientPermissions

definition control_plane_auth ::
  "ext \<Rightarrow> int \<Rightarrow> session_policy \<Rightarrow> 'p http_request \<Rightarrow> db \<Rightarrow> auth_outcome \<times> db" where
  "control_plane_auth x now sp q d =
     (let path = rq_path q in
      if is_public_path path then (PassThrough, d)
      else (case session_cookie (rq_cookie q) of
         None \<Rightarrow> (LoginRequired, d)
       | Some token \<Rightarrow>
           (case authenticate_session x now token sp d of
              (None, d1) \<Rightarrow> (LoginRequired, d1)
            | (Some u, d1) \<Rightarrow>
                (if au_must_change_password u \<and> \<not> is_password_change_allowed_path path then PasswordChangeRequired
                 else if \<not> is_authorized_for_path u (rq_method q) path then InsufficientPermissions
                 else PassAs u, d1))))"

section \<open>Matching paths against patterns\<close>

text \<open>A pattern segment in braces stands for any segment that is not empty.\<close>

fun match_segments :: "string list \<Rightarrow> string list \<Rightarrow> string list option" where
  "match_segments [] [] = Some []"
| "match_segments (p # ps) (s # ss) =
     (if starts_with p ''{'' then (if s = [] then None else map_option ((#) s) (match_segments ps ss))
      else if p = s then match_segments ps ss else None)"
| "match_segments [] (s # ss) = None"
| "match_segments (p # ps) [] = None"

definition match_path :: "string \<Rightarrow> string \<Rightarrow> string list option" where
  "match_path pattern path = match_segments (split_on (CHR ''/'') pattern) (split_on (CHR ''/'') path)"

section \<open>Facts\<close>

lemma auth_public: "is_public_path (rq_path q) \<Longrightarrow> control_plane_auth x now sp q d = (PassThrough, d)"
  by (simp add: control_plane_auth_def Let_def)

text \<open>Only the session rows change while a request is authenticated.\<close>

lemma authenticate_sessions:
  "\<exists>rows. snd (authenticate_session x now token sp d) = d\<lparr>user_sessions := rows\<rparr>"
  by (cases "live_session now d (ext_hash_token x token)")
     (auto simp: authenticate_session_def set_session_def Let_def split: prod.split intro: exI [of _ "user_sessions d"])

lemma auth_sessions:
  assumes "control_plane_auth x now sp q d = (a, d')"
  shows "\<exists>rows. d' = d\<lparr>user_sessions := rows\<rparr>"
proof (cases "is_public_path (rq_path q)")
  case True
  with assms show ?thesis by (auto simp: auth_public intro: exI [of _ "user_sessions d"])
next
  case False
  show ?thesis
  proof (cases "session_cookie (rq_cookie q)")
    case None
    with assms False show ?thesis
      by (auto simp: control_plane_auth_def Let_def intro: exI [of _ "user_sessions d"])
  next
    case (Some token)
    with assms False have "d' = snd (authenticate_session x now token sp d)"
      by (auto simp: control_plane_auth_def Let_def split: prod.splits option.splits)
    with authenticate_sessions show ?thesis by simp
  qed
qed

text \<open>A handler that gets a user gets one whose session is live and who may send the request.\<close>

lemma auth_passed:
  assumes "control_plane_auth x now sp q d = (PassAs u, d')"
  shows "\<exists>token. session_cookie (rq_cookie q) = Some token \<and> authenticate_session x now token sp d = (Some u, d')
    \<and> (au_must_change_password u \<longrightarrow> is_password_change_allowed_path (rq_path q))
    \<and> is_authorized_for_path u (rq_method q) (rq_path q) \<and> \<not> is_public_path (rq_path q)"
  using assms by (auto simp: control_plane_auth_def Let_def split: if_splits option.splits prod.splits)

text \<open>The cookie a login sets is the one the next request is read from.\<close>

lemma split_on_no: "c \<notin> set s \<Longrightarrow> split_on c s = [s]"
  by (induction s) auto

lemma split_once_at: "c \<notin> set a \<Longrightarrow> split_once c (a @ c # b) = Some (a, b)"
  by (induction a) auto

end
