(* ===== verification/Api.thy ===== *)
theory Api
  imports Http Catalog Instances Nodes GatewayTasks InstanceLogs AuditLog
begin

text \<open>
  The handlers of \<^verbatim>\<open>server/src/routes.rs\<close>. A handler takes the environment of the request (clocks,
  fresh ids, the database changes of the rest of the server while it waits), the user the middleware
  has found, the path parameters and the extracted body, and answers with a response and the database it
  leaves. A body of another shape than the handler extracts is rejected by the extractor.
\<close>

section \<open>Environment, bodies and responses\<close>

record log_query =
  lq_source_type :: "string option"
  lq_node_id :: "string option"
  lq_instance_id :: "string option"
  lq_max_bytes :: "int option"

record frontend_report =
  fr_message :: string
  fr_stack :: "string option"
  fr_url :: "string option"
  fr_occurred_at :: "int option"

datatype payload =
    NoPayload
  | PSetup (the_setup: "string \<times> string \<times> string option")
  | PLogin (the_login: "string \<times> string")
  | PPassword (the_password: "string \<times> string")
  | PUserCreate (the_user_create: "user_create_request")
  | PUserUpdate (the_user_update: "user_update_request")
  | PGroupCreate (the_group_create: "string \<times> string")
  | PGroupUpdate (the_group_update: "group_update")
  | PMembers (the_members: "string list")
  | PRegister (the_register: "register_request")
  | PHeartbeat (the_heartbeat: "heartbeat_request")
  | PAgentPolicy (the_agent_policy: "agent_config_policy")
  | PLogPolicy (the_log_policy: "log_policy")
  | PRuntime (the_runtime: "runtime_request")
  | PCollector (the_collector: "register_collector_request")
  | PModel (the_model: "model_request")
  | PFile (the_file: "file_request")
  | PTrash (the_trash: "trash_request")
  | PInstance (the_instance: "instance_request")
  | PInstanceUpdate (the_instance_update: "instance_update")
  | PGateway (the_gateway: "gateway_request")
  | PReport (the_report: "frontend_report")
  | PPoll (the_poll: "string \<times> int option")
  | PResult (the_result: "task_result_request")
  | PWindow (the_window: "int option \<times> int option")
  | PGpuWindow (the_gpu_window: "string \<times> int option \<times> int option")
  | PLogs (the_logs: "log_query")
  | PAudit (the_audit: "audit_query")
  | PQuery (the_query: "json")

type_synonym request = "payload http_request"

datatype reply =
    RNone
  | RError string "string option"
  | RJson json
  | RText string
  | RUser auth_user
  | RUsers "auth_user list"
  | RSetup bool
  | RGroup group_view
  | RGroups "group_view list"
  | RRegistered register_response
  | RHeartbeat agent_config "collector_row list"
  | RCollectors "collector_row list"
  | RCollector collector_row
  | RNodes "node_view list"
  | RLog string "string option" "string option" string string
  | RLogPolicy log_policy
  | RAudit "audit_row list"
  | RPolicies policy_view "policy_view list"
  | RPolicy policy_view
  | RNodeSamples "node_sample_row samples_response"
  | RGpuSamples "gpu_sample_row samples_response"
  | RRuntimes "runtime_row list"
  | RRuntime runtime_row
  | RModels "model_view list"
  | RModel model_view
  | RFiles "file_view list"
  | RFile file_view
  | RInstances "instance_view list"
  | RInstance instance_view
  | RGateway gateway_response
  | RTrashItems "trash_view list"
  | RTrash trash_view
  | RPoll poll_response

text \<open>\<open>rs_log_policy\<close> is the log policy the handler has put in force for the whole process, if any.\<close>

record response =
  rs_status :: int
  rs_set_cookie :: "string option"
  rs_log_policy :: "log_policy option"
  rs_body :: reply

record web =
  wb_now :: int
  wb_later :: int
  wb_done :: int
  wb_id :: string
  wb_id2 :: string
  wb_ids :: "string list"
  wb_task_id :: string
  wb_audit_id :: string
  wb_session_id :: string
  wb_salt :: string
  wb_token :: string
  wb_env :: "(db \<Rightarrow> db) list"
  wb_between :: "db \<Rightarrow> db"
  wb_wakes :: "wake list"
  wb_http :: "string \<Rightarrow> http_reply"
  wb_password_policy :: password_policy
  wb_session_policy :: session_policy
  wb_setup_token :: "string option"
  wb_log_policy :: log_policy
  wb_lossy :: "string \<Rightarrow> string"
  wb_log_dir_error :: "string option"
  wb_log_files :: log_files
  wb_decode :: "string \<Rightarrow> string option"
  wb_ca_cert :: "string option"
  wb_ca_fingerprint :: "string option"
  wb_ca_on_disk :: "string option"
  wb_debug :: "domain_error \<Rightarrow> string"
  wb_debug_error :: "string \<Rightarrow> string"
  wb_static :: "(string \<Rightarrow> response option) option"
  wb_index :: string

record call =
  ca_request :: request
  ca_user :: "auth_user option"
  ca_params :: "string list"

type_synonym handler = "ext \<Rightarrow> web \<Rightarrow> call \<Rightarrow> db \<Rightarrow> response \<times> db"

definition response_of :: "int \<Rightarrow> reply \<Rightarrow> response" where
  "response_of status body =
     \<lparr>rs_status = status, rs_set_cookie = None, rs_log_policy = None, rs_body = body\<rparr>"

definition error_response :: "api_error \<Rightarrow> response" where
  "error_response e = (case error_reply e of (status, code, m) \<Rightarrow> response_of status (RError code m))"

definition ok_response :: "reply \<Rightarrow> response" where
  "ok_response body = response_of 200 body"

text \<open>The answers of axum itself: a body or a path parameter that cannot be extracted, a missing user.\<close>

definition rejected :: response where
  "rejected = response_of 422 (RError ''rejected'' None)"

definition missing_extension :: response where
  "missing_extension = response_of 500 (RError ''missing extension'' None)"

section \<open>Combinators\<close>

definition domain_result :: "(domain_error + 'a) \<times> 'd \<Rightarrow> (api_error + 'a) \<times> 'd" where
  "domain_result r = (map_sum of_domain id (fst r), snd r)"

definition failing :: "(string \<Rightarrow> api_error) \<Rightarrow> (string + 'a) \<times> 'd \<Rightarrow> (api_error + 'a) \<times> 'd" where
  "failing f r = (map_sum f id (fst r), snd r)"

definition answer :: "('a \<Rightarrow> reply) \<Rightarrow> (api_error + 'a) \<times> db \<Rightarrow> response \<times> db" where
  "answer f r = (case fst r of Inl e \<Rightarrow> error_response e | Inr v \<Rightarrow> ok_response (f v), snd r)"

definition with_user :: "call \<Rightarrow> (auth_user \<Rightarrow> db \<Rightarrow> response \<times> db) \<Rightarrow> db \<Rightarrow> response \<times> db" where
  "with_user c f d = (case ca_user c of None \<Rightarrow> (missing_extension, d) | Some u \<Rightarrow> f u d)"

text \<open>The extracted body, when it has the shape the handler asks for.\<close>

definition with_body ::
  "(payload \<Rightarrow> bool) \<Rightarrow> (payload \<Rightarrow> 'a) \<Rightarrow> call \<Rightarrow> ('a \<Rightarrow> db \<Rightarrow> response \<times> db) \<Rightarrow> db \<Rightarrow> response \<times> db" where
  "with_body shape part c f d =
     (let p = rq_payload (ca_request c) in if shape p then f (part p) d else (rejected, d))"

definition require_admin :: "auth_user \<Rightarrow> (db \<Rightarrow> response \<times> db) \<Rightarrow> db \<Rightarrow> response \<times> db" where
  "require_admin u f d =
     (if au_effective_role u = ''admin'' then f d
      else (error_response (ApiForbidden
              [CHR 0xE9, CHR 0x9C, CHR 0x80, CHR 0xE8, CHR 0xA6, CHR 0x81, CHR 0xE7, CHR 0xAE, CHR 0xA1,
               CHR 0xE7, CHR 0x90, CHR 0x86, CHR 0xE5, CHR 0x91, CHR 0x98, CHR 0xE6, CHR 0x9D, CHR 0x83,
               CHR 0xE9, CHR 0x99, CHR 0x90]), d))"

definition param :: "call \<Rightarrow> nat \<Rightarrow> string" where
  "param c n = (if n < length (ca_params c) then ca_params c ! n else [])"

text \<open>Who did what to which object, with the outcome.\<close>

definition audit_actor_result ::
  "ext \<Rightarrow> web \<Rightarrow> auth_user \<Rightarrow> string \<Rightarrow> string \<Rightarrow> string option \<Rightarrow> string option \<Rightarrow> string option
   \<Rightarrow> string \<Rightarrow> string option \<Rightarrow> db \<Rightarrow> db" where
  "audit_actor_result x w u op target tid nid iid result err d =
     snd (record_audit (wb_done w) (wb_audit_id w)
       \<lparr>ar_operation_type = op, ar_target_type = target, ar_target_id = tid, ar_node_id = nid,
        ar_instance_id = iid, ar_result = result, ar_error_message = err,
        ar_detail_json = Some (ext_jprint x (JObj [(''actor_username'', JStr (au_username u)),
                                                   (''effective_role'', JStr (au_effective_role u))])),
        ar_actor_type = Some ''user'', ar_actor_id = Some (au_id u), ar_source = Some ''web''\<rparr> d)"

definition audit_actor_success ::
  "ext \<Rightarrow> web \<Rightarrow> auth_user \<Rightarrow> string \<Rightarrow> string \<Rightarrow> string option \<Rightarrow> db \<Rightarrow> db" where
  "audit_actor_success x w u op target tid =
     audit_actor_result x w u op target tid None None ''success'' None"

text \<open>
  The shape most changing handlers have: when the operation has succeeded, an event is recorded
  (target, node and instance may depend on the result) and the result answered.
\<close>

definition audited ::
  "ext \<Rightarrow> web \<Rightarrow> auth_user \<Rightarrow> string \<Rightarrow> string
   \<Rightarrow> ('a \<Rightarrow> string option \<times> string option \<times> string option)
   \<Rightarrow> (api_error + 'a) \<times> db \<Rightarrow> (api_error + 'a) \<times> db" where
  "audited x w u op target ids r =
     (case fst r of
        Inl e \<Rightarrow> r
      | Inr v \<Rightarrow> (case ids v of (tid, nid, iid) \<Rightarrow>
          (Inr v, audit_actor_result x w u op target tid nid iid ''success'' None (snd r))))"

section \<open>Configuration policies and metric windows\<close>

definition global_agent_config_policy :: "ext \<Rightarrow> int \<Rightarrow> db \<Rightarrow> string + policy_view" where
  "global_agent_config_policy x now d = agent_config_policy_view x now d ''global'' None"

definition node_agent_config_policy :: "ext \<Rightarrow> int \<Rightarrow> db \<Rightarrow> string \<Rightarrow> string + policy_view" where
  "node_agent_config_policy x now d nid = agent_config_policy_view x now d ''node'' (Some nid)"

definition list_agent_config_policies ::
  "ext \<Rightarrow> int \<Rightarrow> db \<Rightarrow> string + (policy_view \<times> policy_view list)" where
  "list_agent_config_policies x now d =
     (case global_agent_config_policy x now d of
        Inl e \<Rightarrow> Inl e
      | Inr g \<Rightarrow>
          map_sum id (Pair g)
            (all_right (map (\<lambda>n. node_agent_config_policy x now d (n_id n)) (sort_key n_name (nodes d)))))"

text \<open>The last hour up to \<open>to\<close>, as \<open>i64\<close> values (the subtraction wraps in a release build).\<close>

definition time_window :: "int \<Rightarrow> int option \<Rightarrow> int option \<Rightarrow> int \<times> int" where
  "time_window now from until =
     (let t = unwrap_or until now; start = t - 3600
      in (unwrap_or from (if start < - (2 ^ 63) then start + 2 ^ 64 else start), t))"

text \<open>A read that cannot change the database.\<close>

definition shown :: "('a \<Rightarrow> reply) \<Rightarrow> (string + 'a) \<Rightarrow> db \<Rightarrow> response \<times> db" where
  "shown f r d = answer f (failing ApiInternal (r, d))"

definition fetched :: "('a \<Rightarrow> reply) \<Rightarrow> (domain_error + 'a) \<Rightarrow> db \<Rightarrow> response \<times> db" where
  "fetched f r d = answer f (domain_result (r, d))"

end
