(* ===== verification/Handlers.thy ===== *)
theory Handlers
  imports Api
begin

text \<open>
  One definition per handler of \<^verbatim>\<open>server/src/routes.rs\<close>, in the order of the file. Writing to the server's
  own log file (\<open>register_agent\<close>, \<open>report_frontend_error\<close>, internal errors) is left out: its result is
  ignored and nothing reads it back but \<open>read_logs\<close>, whose log files are part of the environment.
\<close>

section \<open>Accounts\<close>

definition status_ok :: reply where
  "status_ok = RJson (JObj [(''status'', JStr ''ok'')])"

text \<open>A user with the cookie of a fresh session.\<close>

definition greeting :: "web \<Rightarrow> auth_user \<Rightarrow> string \<Rightarrow> response" where
  "greeting w u token =
     (ok_response (RUser u))\<lparr>rs_set_cookie := Some (session_cookie_header token
        (sp_ttl_secs (wb_session_policy w)) (sp_secure_cookie (wb_session_policy w)))\<rparr>"

definition api_login :: handler where
  "api_login x w c = with_body is_PLogin the_login c (\<lambda>(name, pw) d.
     case login_user x (wb_now w) (wb_session_id w) (wb_token w) name pw (wb_session_policy w)
            (wb_password_policy w) d of
       (Inl e, d1) \<Rightarrow> (error_response (ApiInternal e), d1)
     | (Inr None, d1) \<Rightarrow> (error_response ApiUnauthorized, d1)
     | (Inr (Some (u, token)), d1) \<Rightarrow>
         (greeting w u token, audit_actor_success x w u ''auth.login'' ''user'' (Some (au_id u)) d1))"

definition api_logout :: handler where
  "api_logout x w c = with_user c (\<lambda>u d.
     let d1 = (case session_cookie (rq_cookie (ca_request c)) of
                 Some token \<Rightarrow> revoke_session x (wb_now w) token d | None \<Rightarrow> d)
     in ((ok_response status_ok)\<lparr>rs_set_cookie := Some cleared_cookie\<rparr>,
         audit_actor_success x w u ''auth.logout'' ''user'' (Some (au_id u)) d1))"

definition api_change_password :: handler where
  "api_change_password x w c = with_user c (\<lambda>u. with_body is_PPassword the_password c (\<lambda>(current, new) d.
     answer (\<lambda>_. status_ok)
       (audited x w u ''auth.password.change'' ''user'' (\<lambda>_. (Some (au_id u), None, None))
         (failing password_change_error
           (change_user_password x (wb_now w) (wb_salt w) (au_id u) current new (wb_password_policy w) d)))))"

definition api_setup_status :: handler where
  "api_setup_status x w c d = (ok_response (RSetup (user_count d = 0)), d)"

definition wrong_setup_token :: string where
  "wrong_setup_token =
     ''setup token '' @
     [CHR 0xE9, CHR 0x94, CHR 0x99, CHR 0xE8, CHR 0xAF, CHR 0xAF, CHR 0xE3, CHR 0x80, CHR 0x82,
      CHR 0xE8, CHR 0xAF, CHR 0xB7, CHR 0xE6, CHR 0xA3, CHR 0x80, CHR 0xE6, CHR 0x9F, CHR 0xA5,
      CHR 0xE5, CHR 0x88, CHR 0x9D, CHR 0xE5, CHR 0xA7, CHR 0x8B, CHR 0xE5, CHR 0x8C, CHR 0x96,
      CHR 0xE5, CHR 0x8F, CHR 0xA3, CHR 0xE4, CHR 0xBB, CHR 0xA4, CHR 0xE6, CHR 0x98, CHR 0xAF,
      CHR 0xE5, CHR 0x90, CHR 0xA6, CHR 0xE6, CHR 0xAD, CHR 0xA3, CHR 0xE7, CHR 0xA1, CHR 0xAE,
      CHR 0xEF, CHR 0xBC, CHR 0x8C, CHR 0xE6, CHR 0x88, CHR 0x96, CHR 0xE8, CHR 0x81, CHR 0x94,
      CHR 0xE7, CHR 0xB3, CHR 0xBB, CHR 0xE7, CHR 0xAE, CHR 0xA1, CHR 0xE7, CHR 0x90, CHR 0x86,
      CHR 0xE5, CHR 0x91, CHR 0x98, CHR 0xE8, CHR 0x8E, CHR 0xB7, CHR 0xE5, CHR 0x8F, CHR 0x96,
      CHR 0xE6, CHR 0xAD, CHR 0xA3, CHR 0xE7, CHR 0xA1, CHR 0xAE, CHR 0xE7, CHR 0x9A, CHR 0x84] @
     '' setup token'' @ [CHR 0xE3, CHR 0x80, CHR 0x82]"

definition api_setup_admin :: handler where
  "api_setup_admin x w c = with_body is_PSetup the_setup c (\<lambda>(name, pw, token) d.
     if wb_setup_token w \<noteq> None \<and> unwrap_or token [] \<noteq> the (wb_setup_token w)
     then (error_response (ApiForbidden wrong_setup_token), d)
     else case setup_initial_admin x (wb_now w) (wb_id w) (wb_salt w) name pw (wb_password_policy w) d of
       (Inl e, d1) \<Rightarrow> (error_response (setup_error e), d1)
     | (Inr u, d1) \<Rightarrow>
         (case login_user x (wb_later w) (wb_session_id w) (wb_token w) name pw (wb_session_policy w)
                 (wb_password_policy w) d1 of
            (Inl e, d2) \<Rightarrow> (error_response (ApiInternal e), d2)
          | (Inr None, d2) \<Rightarrow> (error_response ApiUnauthorized, d2)
          | (Inr (Some (_, session)), d2) \<Rightarrow>
              (greeting w u session, audit_actor_success x w u ''auth.setup'' ''user'' (Some (au_id u)) d2)))"

definition api_current_user :: handler where
  "api_current_user x w c = with_user c (\<lambda>u d. (ok_response (RUser u), d))"

definition api_list_users :: handler where
  "api_list_users x w c = with_user c (\<lambda>u. require_admin u (\<lambda>d. (ok_response (RUsers (list_users d)), d)))"

definition api_create_user :: handler where
  "api_create_user x w c = with_user c (\<lambda>u. with_body is_PUserCreate the_user_create c (\<lambda>r. require_admin u (\<lambda>d.
     answer RUser
       (audited x w u ''user.create'' ''user'' (\<lambda>v. (Some (au_id v), None, None))
         (failing user_management_error
           (create_user_with_policy x (wb_now w) (wb_id w) (wb_salt w) r (wb_password_policy w) d))))))"

definition api_update_user :: handler where
  "api_update_user x w c = with_user c (\<lambda>u. with_body is_PUserUpdate the_user_update c (\<lambda>r. require_admin u (\<lambda>d.
     answer RUser
       (audited x w u ''user.update'' ''user'' (\<lambda>_. (Some (param c 0), None, None))
         (failing user_management_error
           (update_user_with_policy x (wb_now w) (wb_salt w) (param c 0) r (wb_password_policy w) d))))))"

definition api_list_groups :: handler where
  "api_list_groups x w c = with_user c (\<lambda>u. require_admin u (\<lambda>d. (ok_response (RGroups (list_user_groups d)), d)))"

definition api_create_group :: handler where
  "api_create_group x w c = with_user c (\<lambda>u. with_body is_PGroupCreate the_group_create c (\<lambda>(name, role). require_admin u (\<lambda>d.
     answer RGroup
       (audited x w u ''group.create'' ''user_group'' (\<lambda>g. (Some (ug_id (gv_row g)), None, None))
         (failing group_management_error (create_user_group (wb_now w) (wb_id w) name role d))))))"

definition api_update_group :: handler where
  "api_update_group x w c = with_user c (\<lambda>u. with_body is_PGroupUpdate the_group_update c (\<lambda>r. require_admin u (\<lambda>d.
     answer RGroup
       (audited x w u ''group.update'' ''user_group'' (\<lambda>_. (Some (param c 0), None, None))
         (failing group_management_error (update_user_group (wb_now w) (param c 0) r d))))))"

definition api_update_group_members :: handler where
  "api_update_group_members x w c = with_user c (\<lambda>u. with_body is_PMembers the_members c (\<lambda>ids. require_admin u (\<lambda>d.
     answer RGroup
       (audited x w u ''group.members.update'' ''user_group'' (\<lambda>_. (Some (param c 0), None, None))
         (failing group_management_error (replace_user_group_members (wb_now w) (param c 0) ids d))))))"

definition api_delete_group :: handler where
  "api_delete_group x w c = with_user c (\<lambda>u. require_admin u (\<lambda>d.
     answer (\<lambda>_. RNone)
       (audited x w u ''group.delete'' ''user_group'' (\<lambda>_. (Some (param c 0), None, None))
         (failing group_management_error (delete_user_group (param c 0) d)))))"

section \<open>Health, certificates and security status\<close>

definition api_health :: handler where
  "api_health x w c d =
     (ok_response (RJson (JObj [(''status'', JStr ''ok''), (''service'', JStr ''server'')])), d)"

definition no_ca_certificate :: response where
  "no_ca_certificate = error_response (ApiNotFound ''CA certificate not available'')"

definition api_serve_ca_cert :: handler where
  "api_serve_ca_cert x w c d =
     (case wb_ca_cert w of Some bytes \<Rightarrow> ok_response (RText bytes) | None \<Rightarrow> no_ca_certificate, d)"

definition api_serve_ca_fingerprint :: handler where
  "api_serve_ca_fingerprint x w c d =
     (case wb_ca_fingerprint w of
        Some h \<Rightarrow> ok_response (RJson (JObj [(''sha256'', JStr h), (''format'', JStr ''SHA256''),
                                         (''purpose'', JStr ''LightAI local CA'')]))
      | None \<Rightarrow> no_ca_certificate, d)"

definition api_security_status :: handler where
  "api_security_status x w c d =
     (ok_response (RJson (JObj
        [(''ca_fingerprint'', case wb_ca_on_disk w of Some h \<Rightarrow> JStr h | None \<Rightarrow> JNull),
         (''ca_download_url'', JStr ''/.well-known/lightai/ca.crt''),
         (''setup_required'', JBool (user_count d = 0)),
         (''note'', JStr ''ca.crt can be distributed to Agents; ca.key and server.key must not be distributed.'')])), d)"

definition api_not_found :: response where
  "api_not_found = error_response (ApiNotFound ''API endpoint not found'')"

section \<open>Agents\<close>

definition api_register_agent :: handler where
  "api_register_agent x w c = with_body is_PRegister the_register c (\<lambda>r d.
     answer RRegistered
       (failing (\<lambda>m. if contains m ''same name cannot'' \<or> contains m ''same host cannot''
                     then ApiBadRequest m else ApiInternal m)
         (register_node x (wb_now w) (wb_id w) (wb_id2 w) (wb_token w) (wb_between w) r d)))"

text \<open>The requests of an agent carry the token of its node.\<close>

definition node_authorized :: "ext \<Rightarrow> call \<Rightarrow> string \<Rightarrow> db \<Rightarrow> bool" where
  "node_authorized x c nid d =
     (case bearer_token (rq_authorization (ca_request c)) of
        None \<Rightarrow> False | Some token \<Rightarrow> authenticate_node x d nid token)"

definition as_node ::
  "ext \<Rightarrow> call \<Rightarrow> string \<Rightarrow> (db \<Rightarrow> response \<times> db) \<Rightarrow> db \<Rightarrow> response \<times> db" where
  "as_node x c nid f d = (if node_authorized x c nid d then f d else (error_response ApiUnauthorized, d))"

definition api_agent_heartbeat :: handler where
  "api_agent_heartbeat x w c = with_body is_PHeartbeat the_heartbeat c (\<lambda>h. as_node x c (hb_node_id h) (\<lambda>d.
     case record_heartbeat x (wb_now w) h d of
       (Inl e, d1) \<Rightarrow> (error_response (ApiInternal e), d1)
     | (Inr _, d1) \<Rightarrow>
         (case effective_agent_config x (wb_later w) d1 (hb_node_id h) of
            Inl e \<Rightarrow> (error_response (ApiInternal e), d1)
          | Inr config \<Rightarrow> (ok_response (RHeartbeat config (list_collector_registry d1)), d1))))"

definition api_agent_collector_registry :: handler where
  "api_agent_collector_registry x w c d =
     (case bearer_token (rq_authorization (ca_request c)) of
        None \<Rightarrow> (error_response ApiUnauthorized, d)
      | Some token \<Rightarrow>
          if any_node_with_token x d token then (ok_response (RCollectors (list_collector_registry d)), d)
          else (error_response ApiUnauthorized, d))"

definition api_agent_task_poll :: handler where
  "api_agent_task_poll x w c = with_body is_PPoll the_poll c (\<lambda>(nid, version). as_node x c nid (\<lambda>d.
     answer RPoll (domain_result (poll_agent_task x nid version (wb_wakes w) (wb_now w) d))))"

definition api_agent_task_result :: handler where
  "api_agent_task_result x w c = with_body is_PResult the_result c (\<lambda>q. as_node x c (tq_node_id q) (\<lambda>d.
     answer (\<lambda>_. RNone) (domain_result (record_agent_task_result x (wb_now w) (param c 0) q d))))"

section \<open>Nodes, logs and settings\<close>

definition api_list_nodes :: handler where
  "api_list_nodes x w c d = shown RNodes (list_nodes x (wb_now w) d) d"

definition log_reply :: "string \<Rightarrow> string option \<Rightarrow> string option \<Rightarrow> string \<Rightarrow> string \<Rightarrow> reply" where
  "log_reply source nid iid message content = RLog source nid iid content message"

definition api_read_logs :: handler where
  "api_read_logs x w c = with_body is_PLogs the_logs c (\<lambda>q d.
     let source = unwrap_or (lq_source_type q) ''server'';
         max_bytes = min (unwrap_or (lq_max_bytes q) (64 * 1024)) (512 * 1024)
     in if source = ''server'' then
          shown (log_reply ''server'' None None ''Server log loaded'')
            (read_tail (wb_lossy w) (server_log_policy x (wb_log_policy w) d) (wb_log_dir_error w)
               ''lightai-server.log'' (nat max_bytes) (wb_log_files w)) d
        else if source = ''agent'' then
          (case lq_node_id q of
             None \<Rightarrow> (error_response (ApiBadRequest ''Node selection required to view Agent log''), d)
           | Some nid \<Rightarrow>
               answer (log_reply ''agent'' (Some nid) None ''Agent log loaded'')
                 (domain_result (read_agent_log x (wb_now w) (wb_later w) (wb_task_id w) (wb_env w) nid max_bytes d)))
        else if source = ''instance'' then
          (case lq_instance_id q of
             None \<Rightarrow> (error_response (ApiBadRequest ''Instance selection required to view instance log''), d)
           | Some iid \<Rightarrow>
               fetched (\<lambda>v. log_reply ''instance'' (mi_node_id (iv_row v)) (Some iid) ''Instance log loaded''
                     (unwrap_or (coalesce (mi_log_tail (iv_row v)) (mi_last_error (iv_row v))) ''No instance log available''))
                 (model_instance (wb_now w) d iid) d)
        else if source = ''errors'' then
          (ok_response (log_reply ''errors'' None None ''Recent error summary loaded'' (recent_error_summary d)), d)
        else if source = ''frontend'' then
          (ok_response (log_reply ''frontend'' None None ''Frontend error log loaded'' (frontend_error_summary x d)), d)
        else (error_response (ApiBadRequest ''unsupported log source type''), d))"

definition api_get_server_log_policy :: handler where
  "api_get_server_log_policy x w c d = (ok_response (RLogPolicy (server_log_policy x (wb_log_policy w) d)), d)"

text \<open>The only handler but \<open>api_create_model\<close> that also records its failures.\<close>

definition api_update_server_log_policy :: handler where
  "api_update_server_log_policy x w c = with_user c (\<lambda>u. with_body is_PLogPolicy the_log_policy c (\<lambda>p d.
     case update_server_log_policy x (wb_now w) p (wb_log_policy w) d of
       (Inl e, global, d1) \<Rightarrow>
         ((error_response (ApiInternal e))\<lparr>rs_log_policy := Some global\<rparr>,
          audit_actor_result x w u ''config.update'' ''server_log_policy'' (Some ''server'') None None
            ''failed'' (Some (wb_debug_error w e)) d1)
     | (Inr q, global, d1) \<Rightarrow>
         ((ok_response (RLogPolicy q))\<lparr>rs_log_policy := Some global\<rparr>,
          audit_actor_result x w u ''config.update'' ''server_log_policy'' (Some ''server'') None None
            ''success'' None d1)))"

definition api_list_audit_events :: handler where
  "api_list_audit_events x w c = with_body is_PAudit the_audit c (\<lambda>q d.
     (ok_response (RAudit (list_audit_events (wb_now w) q d)), d))"

definition api_list_agent_config_policies :: handler where
  "api_list_agent_config_policies x w c d =
     shown (\<lambda>(g, ns). RPolicies g ns) (list_agent_config_policies x (wb_now w) d) d"

definition api_get_global_agent_config_policy :: handler where
  "api_get_global_agent_config_policy x w c d = shown RPolicy (global_agent_config_policy x (wb_now w) d) d"

definition api_update_global_agent_config_policy :: handler where
  "api_update_global_agent_config_policy x w c = with_user c (\<lambda>u. with_body is_PAgentPolicy the_agent_policy c (\<lambda>p d.
     answer RPolicy
       (audited x w u ''config.update'' ''agent_config'' (\<lambda>_. (Some ''global'', None, None))
         (failing ApiInternal (update_global_agent_config_policy x (wb_now w) p d)))))"

definition api_get_node_agent_config_policy :: handler where
  "api_get_node_agent_config_policy x w c d =
     shown RPolicy (node_agent_config_policy x (wb_now w) d (param c 0)) d"

definition api_update_node_agent_config_policy :: handler where
  "api_update_node_agent_config_policy x w c = with_user c (\<lambda>u. with_body is_PAgentPolicy the_agent_policy c (\<lambda>p d.
     answer RPolicy
       (audited x w u ''config.update'' ''agent_config'' (\<lambda>_. (Some (param c 0), Some (param c 0), None))
         (failing ApiInternal (update_node_agent_config_policy x (wb_now w) (param c 0) p d)))))"

definition api_node_metrics :: handler where
  "api_node_metrics x w c = with_body is_PWindow the_window c (\<lambda>(from, until) d.
     case time_window (wb_now w) from until of (a, b) \<Rightarrow>
       (ok_response (RNodeSamples (get_node_metric_samples d (param c 0) a b)), d))"

definition api_gpu_metrics :: handler where
  "api_gpu_metrics x w c = with_body is_PWindow the_window c (\<lambda>(from, until) d.
     case time_window (wb_now w) from until of (a, b) \<Rightarrow>
       (ok_response (RGpuSamples (get_gpu_metric_samples d (param c 0) (param c 1) a b)), d))"

definition api_gpu_metrics_by_query :: handler where
  "api_gpu_metrics_by_query x w c = with_body is_PGpuWindow the_gpu_window c (\<lambda>(key, from, until) d.
     case time_window (wb_now w) from until of (a, b) \<Rightarrow>
       (ok_response (RGpuSamples (get_gpu_metric_samples d (param c 0) key a b)), d))"

definition api_report_frontend_error :: handler where
  "api_report_frontend_error x w c = with_user c (\<lambda>u. with_body is_PReport the_report c (\<lambda>r d.
     answer (\<lambda>_. RNone)
       (failing ApiInternal
         (record_frontend_error x (wb_later w) (wb_audit_id w) (chars_take 1024 (fr_message r))
            (map_option (chars_take 2048) (fr_stack r)) (map_option (chars_take 512) (fr_url r))
            (unwrap_or (fr_occurred_at r) (wb_now w)) (Some u) d))))"

section \<open>The collector registry\<close>

definition api_list_collector_registry_entries :: handler where
  "api_list_collector_registry_entries x w c d = (ok_response (RCollectors (list_collector_registry d)), d)"

definition collector_id :: "collector_row \<Rightarrow> string option \<times> string option \<times> string option" where
  "collector_id r = (Some (cr_id r), None, None)"

definition api_register_collector_entry :: handler where
  "api_register_collector_entry x w c = with_user c (\<lambda>u. with_body is_PCollector the_collector c (\<lambda>r. require_admin u (\<lambda>d.
     case register_collector (wb_now w) r d of (row, d1) \<Rightarrow>
       answer RCollector (audited x w u ''collector.register'' ''collector_registry'' collector_id (Inr row, d1)))))"

definition api_get_collector_entry :: handler where
  "api_get_collector_entry x w c d =
     (case find_row (\<lambda>r. cr_id r = param c 0 \<and> cr_version r = param c 1) (list_collector_registry d) of
        Some r \<Rightarrow> ok_response (RCollector r)
      | None \<Rightarrow> error_response (ApiNotFound ''collector registry entry not found''), d)"

definition api_delete_collector_entry :: handler where
  "api_delete_collector_entry x w c = with_user c (\<lambda>u. require_admin u (\<lambda>d.
     (ok_response RNone,
      audit_actor_result x w u ''collector.delete'' ''collector_registry'' (Some (param c 0)) None None
        ''success'' None (delete_collector_registry_entry (param c 0) (param c 1) d))))"

text \<open>The path of an update is ignored: the body names the entry.\<close>

definition api_update_collector_entry :: handler where
  "api_update_collector_entry x w c = with_user c (\<lambda>u. with_body is_PCollector the_collector c (\<lambda>r. require_admin u (\<lambda>d.
     case register_collector (wb_now w) r d of (row, d1) \<Rightarrow>
       answer RCollector (audited x w u ''collector.update'' ''collector_registry'' collector_id (Inr row, d1)))))"

end
