(* ===== verification/CatalogHandlers.thy ===== *)
theory CatalogHandlers
  imports Api
begin

text \<open>
  The handlers of \<^verbatim>\<open>server/src/routes.rs\<close> over runtimes, models, files, instances, gateways and the trash.
  Most of them run one operation and record it with the user who asked for it.
\<close>

section \<open>Runtime environments\<close>

definition runtime_ids :: "string \<Rightarrow> runtime_row \<Rightarrow> string option \<times> string option \<times> string option" where
  "runtime_ids i r = (Some i, re_node_id r, None)"

definition api_list_runtime_environments :: handler where
  "api_list_runtime_environments x w c d = (ok_response (RRuntimes (list_runtime_environments d None)), d)"

definition api_list_node_runtime_environments :: handler where
  "api_list_node_runtime_environments x w c d =
     (ok_response (RRuntimes (list_runtime_environments d (Some (param c 0)))), d)"

definition api_create_runtime_environment :: handler where
  "api_create_runtime_environment x w c = with_user c (\<lambda>u. with_body is_PRuntime the_runtime c (\<lambda>r d.
     answer RRuntime
       (audited x w u ''runtime.create'' ''runtime_environment'' (\<lambda>v. (Some (re_id v), Some (param c 0), None))
         (domain_result
           (create_runtime_environment x (wb_now w) (wb_later w) (wb_task_id w) (wb_id w) (wb_env w) (param c 0) r d)))))"

definition api_get_runtime_environment :: handler where
  "api_get_runtime_environment x w c d = fetched RRuntime (runtime_environment d (param c 0)) d"

definition api_update_runtime_environment :: handler where
  "api_update_runtime_environment x w c = with_user c (\<lambda>u. with_body is_PRuntime the_runtime c (\<lambda>r d.
     answer RRuntime
       (audited x w u ''runtime.update'' ''runtime_environment'' (runtime_ids (param c 0))
         (domain_result (update_runtime_environment x (wb_now w) (param c 0) r d)))))"

definition api_delete_runtime_environment :: handler where
  "api_delete_runtime_environment x w c = with_user c (\<lambda>u d.
     answer (\<lambda>_. RNone)
       (audited x w u ''runtime.delete'' ''runtime_environment'' (\<lambda>_. (Some (param c 0), None, None))
         (domain_result (delete_runtime_environment (param c 0) d))))"

definition api_check_runtime_environment :: handler where
  "api_check_runtime_environment x w c = with_user c (\<lambda>u d.
     answer RRuntime
       (audited x w u ''runtime.check'' ''runtime_environment'' (runtime_ids (param c 0))
         (domain_result
           (check_runtime_environment x (wb_now w) (wb_later w) (wb_task_id w) (wb_env w) (param c 0) d))))"

section \<open>Models\<close>

definition api_list_models :: handler where
  "api_list_models x w c d = answer RModels (domain_result (list_models x (wb_now w) d))"

text \<open>A model that could not be created is recorded as a failed event, without a target.\<close>

definition api_create_model :: handler where
  "api_create_model x w c = with_user c (\<lambda>u. with_body is_PModel the_model c (\<lambda>r d.
     case create_model x (wb_now w) (wb_later w) (wb_task_id w) (wb_id w) (wb_id2 w) (wb_env w) r d of
       (Inl e, d1) \<Rightarrow>
         (error_response (of_domain e),
          audit_actor_result x w u ''model.create'' ''model'' None None None ''failed'' (Some (wb_debug w e)) d1)
     | (Inr v, d1) \<Rightarrow>
         (ok_response (RModel v),
          audit_actor_success x w u ''model.create'' ''model'' (Some (m_id (mv_row v))) d1)))"

definition api_get_model :: handler where
  "api_get_model x w c d = answer RModel (domain_result (model x (wb_now w) (param c 0) d))"

definition api_update_model :: handler where
  "api_update_model x w c = with_user c (\<lambda>u. with_body is_PModel the_model c (\<lambda>r d.
     answer RModel
       (audited x w u ''model.update'' ''model'' (\<lambda>_. (Some (param c 0), None, None))
         (domain_result (update_model x (wb_now w) (param c 0) r d)))))"

definition api_delete_model :: handler where
  "api_delete_model x w c = with_user c (\<lambda>u d.
     answer (\<lambda>_. RNone)
       (audited x w u ''model.delete'' ''model'' (\<lambda>_. (Some (param c 0), None, None))
         (domain_result (delete_model x (wb_now w) (wb_ids w) (param c 0) d))))"

section \<open>Model files\<close>

definition file_ids :: "string \<Rightarrow> file_view \<Rightarrow> string option \<times> string option \<times> string option" where
  "file_ids i v = (Some i, Some (mf_node_id (fv_row v)), None)"

definition api_list_model_files :: handler where
  "api_list_model_files x w c d = answer RFiles (domain_result (list_model_files x (wb_now w) (param c 0) d))"

definition api_create_model_file :: handler where
  "api_create_model_file x w c = with_user c (\<lambda>u. with_body is_PFile the_file c (\<lambda>r d.
     answer RFile
       (audited x w u ''model_file.create'' ''model_file'' (\<lambda>v. file_ids (mf_id (fv_row v)) v)
         (domain_result
           (create_model_file x (wb_now w) (wb_later w) (wb_task_id w) (wb_id w) (wb_env w) (param c 0) r d)))))"

definition api_get_model_file :: handler where
  "api_get_model_file x w c d = answer RFile (domain_result (model_file x (wb_now w) (param c 0) d))"

definition api_update_model_file :: handler where
  "api_update_model_file x w c = with_user c (\<lambda>u. with_body is_PFile the_file c (\<lambda>r d.
     answer RFile
       (audited x w u ''model_file.update'' ''model_file'' (file_ids (param c 0))
         (domain_result
           (update_model_file x (wb_now w) (wb_later w) (wb_task_id w) (wb_env w) (param c 0) r d)))))"

definition api_delete_model_file :: handler where
  "api_delete_model_file x w c = with_user c (\<lambda>u d.
     answer (\<lambda>_. RNone)
       (audited x w u ''model_file.delete'' ''model_file'' (\<lambda>_. (Some (param c 0), None, None))
         (domain_result (delete_model_file x (wb_now w) (wb_id w) (param c 0) d))))"

definition api_verify_model_file :: handler where
  "api_verify_model_file x w c = with_user c (\<lambda>u d.
     answer RFile
       (audited x w u ''model_file.verify'' ''model_file'' (file_ids (param c 0))
         (domain_result (queue_model_file_verification x (wb_now w) (wb_task_id w) (param c 0) d))))"

section \<open>Model instances\<close>

definition instance_ids :: "string \<Rightarrow> instance_view \<Rightarrow> string option \<times> string option \<times> string option" where
  "instance_ids i v = (Some i, mi_node_id (iv_row v), Some i)"

definition api_list_model_instances :: handler where
  "api_list_model_instances x w c d = (ok_response (RInstances (list_model_instances (wb_now w) d)), d)"

definition api_create_model_instance :: handler where
  "api_create_model_instance x w c = with_user c (\<lambda>u. with_body is_PInstance the_instance c (\<lambda>r d.
     answer RInstance
       (audited x w u ''instance.create'' ''model_instance'' (\<lambda>v. instance_ids (mi_id (iv_row v)) v)
         (domain_result (create_model_instance x (wb_now w) (wb_id w) r d)))))"

definition api_get_model_instance :: handler where
  "api_get_model_instance x w c d = fetched RInstance (model_instance (wb_now w) d (param c 0)) d"

definition api_update_model_instance :: handler where
  "api_update_model_instance x w c = with_user c (\<lambda>u. with_body is_PInstanceUpdate the_instance_update c (\<lambda>r d.
     answer RInstance
       (audited x w u ''instance.update'' ''model_instance'' (instance_ids (param c 0))
         (domain_result (update_model_instance x (wb_now w) (param c 0) r d)))))"

definition api_delete_model_instance :: handler where
  "api_delete_model_instance x w c = with_user c (\<lambda>u d.
     answer (\<lambda>_. RNone)
       (audited x w u ''instance.delete'' ''model_instance'' (\<lambda>_. (Some (param c 0), None, Some (param c 0)))
         (domain_result (delete_model_instance (wb_now w) (param c 0) d))))"

definition api_check_model_instance :: handler where
  "api_check_model_instance x w c = with_user c (\<lambda>u d.
     answer RInstance
       (audited x w u ''instance.check'' ''model_instance'' (instance_ids (param c 0))
         (domain_result
           (check_model_instance x (wb_http w) (wb_now w) (wb_later w) (wb_task_id w) (wb_env w) (param c 0) d))))"

definition api_start_model_instance :: handler where
  "api_start_model_instance x w c = with_user c (\<lambda>u d.
     answer RInstance
       (audited x w u ''instance.start'' ''model_instance'' (instance_ids (param c 0))
         (domain_result
           (start_model_instance x (wb_now w) (wb_later w) (wb_task_id w) (wb_env w) (param c 0) d))))"

definition api_stop_model_instance :: handler where
  "api_stop_model_instance x w c = with_user c (\<lambda>u d.
     answer RInstance
       (audited x w u ''instance.stop'' ''model_instance'' (instance_ids (param c 0))
         (domain_result
           (stop_model_instance x (wb_now w) (wb_later w) (wb_task_id w) (wb_env w) (param c 0) d))))"

definition api_test_model_instance :: handler where
  "api_test_model_instance x w c = with_user c (\<lambda>u d.
     answer RInstance
       (audited x w u ''instance.test'' ''model_instance'' (instance_ids (param c 0))
         (domain_result
           (test_model_instance x (wb_http w) (wb_now w) (wb_later w) (wb_task_id w) (wb_env w) (param c 0) d))))"

definition api_refresh_instance_logs :: handler where
  "api_refresh_instance_logs x w c = with_user c (\<lambda>u d.
     case refresh_instance_logs x (wb_now w) (wb_later w) (wb_task_id w) (wb_env w) (param c 0) d of
       (Inl e, d1) \<Rightarrow> (error_response (of_domain e), d1)
     | (Inr content, d1) \<Rightarrow>
         answer (\<lambda>v. RLog ''instance'' (mi_node_id (iv_row v)) (Some (param c 0)) content ''Instance log refreshed'')
           (audited x w u ''instance.logs.refresh'' ''model_instance'' (instance_ids (param c 0))
             (domain_result (model_instance (wb_later w) d1 (param c 0), d1))))"

section \<open>Gateways and Ollama\<close>

type_synonym gateway_operation =
  "ext \<Rightarrow> int \<Rightarrow> int \<Rightarrow> string \<Rightarrow> (db \<Rightarrow> db) list \<Rightarrow> string \<Rightarrow> gateway_request
   \<Rightarrow> db \<Rightarrow> (domain_error + gateway_response) \<times> db"

definition audit_gateway_action ::
  "ext \<Rightarrow> web \<Rightarrow> auth_user \<Rightarrow> string \<Rightarrow> string \<Rightarrow> (api_error + 'a) \<times> db \<Rightarrow> (api_error + 'a) \<times> db" where
  "audit_gateway_action x w u op nid = audited x w u op ''gateway'' (\<lambda>_. (Some nid, Some nid, None))"

definition gateway_handler :: "gateway_operation \<Rightarrow> string \<Rightarrow> handler" where
  "gateway_handler f op x w c = with_user c (\<lambda>u. with_body is_PGateway the_gateway c (\<lambda>r d.
     answer RGateway
       (audit_gateway_action x w u op (param c 0)
         (domain_result (f x (wb_now w) (wb_later w) (wb_task_id w) (wb_env w) (param c 0) r d)))))"

definition api_start_gateway :: handler where
  "api_start_gateway = gateway_handler start_gateway ''gateway.start''"

definition api_stop_gateway :: handler where
  "api_stop_gateway = gateway_handler stop_gateway ''gateway.stop''"

definition api_restart_gateway :: handler where
  "api_restart_gateway = gateway_handler restart_gateway ''gateway.restart''"

definition api_check_gateway :: handler where
  "api_check_gateway = gateway_handler check_gateway ''gateway.check''"

definition api_read_gateway_log :: handler where
  "api_read_gateway_log = gateway_handler read_gateway_log ''gateway.logs.read''"

definition api_list_ollama_models :: handler where
  "api_list_ollama_models x w c = with_body is_PQuery the_query c (\<lambda>q d.
     case get_str q ''node_id'' of
       None \<Rightarrow> (error_response (ApiBadRequest ''node_id is required''), d)
     | Some nid \<Rightarrow>
         (case get_str q ''runtime_env_id'' of
            None \<Rightarrow> (error_response (ApiBadRequest ''runtime_env_id is required''), d)
          | Some rid \<Rightarrow>
              answer (\<lambda>ms. RJson (JObj [(''models'', JArr ms)]))
                (domain_result
                  (ollama_model_list x (wb_now w) (wb_later w) (wb_task_id w) (wb_env w) nid rid d))))"

section \<open>The trash\<close>

definition api_list_model_file_trash :: handler where
  "api_list_model_file_trash x w c d = (ok_response (RTrashItems (list_model_file_trash d)), d)"

definition api_create_model_file_trash :: handler where
  "api_create_model_file_trash x w c = with_user c (\<lambda>u. with_body is_PTrash the_trash c (\<lambda>r d.
     answer RTrash
       (audited x w u ''trash.create'' ''model_file_trash''
         (\<lambda>v. (Some (tr_id (tv_row v)), tr_node_id (tv_row v), None))
         (domain_result (create_model_file_trash x (wb_now w) (wb_id w) (param c 0) r d)))))"

definition api_cleanup_model_file_trash :: handler where
  "api_cleanup_model_file_trash x w c = with_user c (\<lambda>u d.
     answer RTrash
       (audited x w u ''trash.cleanup'' ''model_file_trash'' (\<lambda>v. (Some (param c 0), tr_node_id (tv_row v), None))
         (domain_result
           (cleanup_model_file_trash x (wb_now w) (wb_later w) (wb_task_id w) (wb_env w) (param c 0) d))))"

definition api_delete_model_file_trash :: handler where
  "api_delete_model_file_trash x w c = with_user c (\<lambda>u d.
     answer (\<lambda>_. RNone)
       (audited x w u ''trash.delete_record'' ''model_file_trash'' (\<lambda>_. (Some (param c 0), None, None))
         (domain_result (delete_model_file_trash (param c 0) d))))"

end
