(* ===== verification/Routes.thy ===== *)
theory Routes
  imports Handlers CatalogHandlers
begin

text \<open>
  The router of \<^verbatim>\<open>server/src/routes.rs\<close>: the route table, the lookup of a path in it, and \<open>serve\<close>, which
  answers one request: the middleware first, then the handler of the route. \<open>{name}\<close> in a pattern
  stands for one segment of the path.
\<close>

section \<open>The routes\<close>

definition route_table :: "(string \<times> (http_method \<times> handler) list) list" where
  "route_table =
   [(''/health'', [(GET, api_health)]),
    (''/.well-known/lightai/ca.crt'', [(GET, api_serve_ca_cert)]),
    (''/.well-known/lightai/ca-fingerprint'', [(GET, api_serve_ca_fingerprint)]),
    (''/api/security/status'', [(GET, api_security_status)]),
    (''/api/setup/status'', [(GET, api_setup_status)]),
    (''/api/setup/admin'', [(POST, api_setup_admin)]),
    (''/api/auth/login'', [(POST, api_login)]),
    (''/api/auth/logout'', [(POST, api_logout)]),
    (''/api/auth/me'', [(GET, api_current_user)]),
    (''/api/auth/change-password'', [(POST, api_change_password)]),
    (''/api/users'', [(GET, api_list_users), (POST, api_create_user)]),
    (''/api/users/{id}'', [(PUT, api_update_user)]),
    (''/api/groups'', [(GET, api_list_groups), (POST, api_create_group)]),
    (''/api/groups/{id}'', [(PUT, api_update_group), (DELETE, api_delete_group)]),
    (''/api/groups/{id}/members'', [(PUT, api_update_group_members)]),
    (''/api/agent/register'', [(POST, api_register_agent)]),
    (''/api/agent/heartbeat'', [(POST, api_agent_heartbeat)]),
    (''/api/agent/collector-registry'', [(GET, api_agent_collector_registry)]),
    (''/api/nodes'', [(GET, api_list_nodes)]),
    (''/api/config/agent'', [(GET, api_list_agent_config_policies)]),
    (''/api/config/agent/global'', [(GET, api_get_global_agent_config_policy), (PUT, api_update_global_agent_config_policy)]),
    (''/api/nodes/{node_id}/config'', [(GET, api_get_node_agent_config_policy), (PUT, api_update_node_agent_config_policy)]),
    (''/api/nodes/{node_id}/metrics'', [(GET, api_node_metrics)]),
    (''/api/nodes/{node_id}/gpus/{gpu_key}/metrics'', [(GET, api_gpu_metrics)]),
    (''/api/nodes/{node_id}/gpu-metrics'', [(GET, api_gpu_metrics_by_query)]),
    (''/api/runtime-environments'', [(GET, api_list_runtime_environments)]),
    (''/api/nodes/{node_id}/runtime-environments'', [(GET, api_list_node_runtime_environments), (POST, api_create_runtime_environment)]),
    (''/api/runtime-environments/{id}'', [(GET, api_get_runtime_environment), (PUT, api_update_runtime_environment), (DELETE, api_delete_runtime_environment)]),
    (''/api/runtime-environments/{id}/check'', [(POST, api_check_runtime_environment)]),
    (''/api/collector-registry'', [(GET, api_list_collector_registry_entries), (POST, api_register_collector_entry)]),
    (''/api/collector-registry/{id}/{version}'', [(GET, api_get_collector_entry), (PUT, api_update_collector_entry), (DELETE, api_delete_collector_entry)]),
    (''/api/models'', [(GET, api_list_models), (POST, api_create_model)]),
    (''/api/models/{id}'', [(GET, api_get_model), (PUT, api_update_model), (DELETE, api_delete_model)]),
    (''/api/models/{id}/files'', [(GET, api_list_model_files), (POST, api_create_model_file)]),
    (''/api/model-files/{id}'', [(GET, api_get_model_file), (PUT, api_update_model_file), (DELETE, api_delete_model_file)]),
    (''/api/model-files/{id}/verify'', [(POST, api_verify_model_file)]),
    (''/api/model-files/{id}/trash'', [(POST, api_create_model_file_trash)]),
    (''/api/model-instances'', [(GET, api_list_model_instances), (POST, api_create_model_instance)]),
    (''/api/model-instances/{id}'', [(GET, api_get_model_instance), (PUT, api_update_model_instance), (DELETE, api_delete_model_instance)]),
    (''/api/model-instances/{id}/check'', [(POST, api_check_model_instance)]),
    (''/api/model-instances/{id}/start'', [(POST, api_start_model_instance)]),
    (''/api/model-instances/{id}/stop'', [(POST, api_stop_model_instance)]),
    (''/api/model-instances/{id}/test'', [(POST, api_test_model_instance)]),
    (''/api/model-instances/{id}/logs'', [(POST, api_refresh_instance_logs)]),
    (''/api/nodes/{node_id}/gateway/start'', [(POST, api_start_gateway)]),
    (''/api/nodes/{node_id}/gateway/stop'', [(POST, api_stop_gateway)]),
    (''/api/nodes/{node_id}/gateway/restart'', [(POST, api_restart_gateway)]),
    (''/api/nodes/{node_id}/gateway/check'', [(POST, api_check_gateway)]),
    (''/api/nodes/{node_id}/gateway/logs'', [(POST, api_read_gateway_log)]),
    (''/api/model-file-trash'', [(GET, api_list_model_file_trash)]),
    (''/api/ollama/models'', [(GET, api_list_ollama_models)]),
    (''/api/logs'', [(GET, api_read_logs)]),
    (''/api/frontend-errors'', [(POST, api_report_frontend_error)]),
    (''/api/audit-events'', [(GET, api_list_audit_events)]),
    (''/api/config/server-logs'', [(GET, api_get_server_log_policy), (PUT, api_update_server_log_policy)]),
    (''/api/model-file-trash/{id}/cleanup'', [(POST, api_cleanup_model_file_trash)]),
    (''/api/model-file-trash/{id}'', [(DELETE, api_delete_model_file_trash)]),
    (''/api/agent/tasks/poll'', [(POST, api_agent_task_poll)]),
    (''/api/agent/tasks/{id}/result'', [(POST, api_agent_task_result)])]"

section \<open>Serving a request\<close>

text \<open>\<open>get\<close> routes also answer HEAD.\<close>

definition handler_for :: "(http_method \<times> handler) list \<Rightarrow> http_method \<Rightarrow> handler option" where
  "handler_for ms m =
     (case map_of ms m of
        Some h \<Rightarrow> Some h
      | None \<Rightarrow> if m = HEAD then map_of ms GET else None)"

definition find_route :: "string \<Rightarrow> ((http_method \<times> handler) list \<times> string list) option" where
  "find_route path = find_map (\<lambda>(p, ms). map_option (Pair ms) (match_path p path)) route_table"

definition decode_params :: "(string \<Rightarrow> string option) \<Rightarrow> string list \<Rightarrow> string list option" where
  "decode_params decode ps =
     (let vs = map decode ps in if None \<in> set vs then None else Some (map the vs))"

definition method_not_allowed :: response where
  "method_not_allowed = response_of 405 RNone"

definition run_route ::
  "ext \<Rightarrow> web \<Rightarrow> request \<Rightarrow> (http_method \<times> handler) list \<Rightarrow> string list \<Rightarrow> auth_user option \<Rightarrow> db
   \<Rightarrow> response \<times> db" where
  "run_route x w q ms ps user d =
     (case handler_for ms (rq_method q) of
        None \<Rightarrow> (method_not_allowed, d)
      | Some h \<Rightarrow>
          (case decode_params (wb_decode w) ps of
             None \<Rightarrow> (response_of 400 (RError ''rejected'' None), d)
           | Some vs \<Rightarrow> h x w \<lparr>ca_request = q, ca_user = user, ca_params = vs\<rparr> d))"

definition login_required :: response where
  "login_required = response_of 401 (RError ''unauthorized'' (Some ''Please log in''))"

definition forbidden_response :: "string \<Rightarrow> response" where
  "forbidden_response m = response_of 403 (RError ''forbidden'' (Some m))"

definition guarded ::
  "ext \<Rightarrow> web \<Rightarrow> request \<Rightarrow> (auth_user option \<Rightarrow> db \<Rightarrow> response \<times> db) \<Rightarrow> db \<Rightarrow> response \<times> db" where
  "guarded x w q next_run d =
     (case control_plane_auth x (wb_now w) (wb_session_policy w) q d of
        (LoginRequired, d1) \<Rightarrow> (login_required, d1)
      | (PasswordChangeRequired, d1) \<Rightarrow> (forbidden_response ''Password change required before continuing'', d1)
      | (InsufficientPermissions, d1) \<Rightarrow> (forbidden_response ''Insufficient permissions for this operation'', d1)
      | (PassThrough, d1) \<Rightarrow> next_run None d1
      | (PassAs u, d1) \<Rightarrow> next_run (Some u) d1)"

text \<open>Below \<open>/api/\<close> every unknown path is an error in JSON; elsewhere the web console answers, when there is one.\<close>

definition unknown_api :: "http_method \<Rightarrow> response" where
  "unknown_api m = (if m \<in> {GET, HEAD, POST, PUT, DELETE, PATCH} then api_not_found else method_not_allowed)"

definition spa_fallback :: "string \<Rightarrow> string \<Rightarrow> response" where
  "spa_fallback index path =
     (if starts_with path ''/assets/'' then response_of 404 (RText ''not found'') else response_of 200 (RText index))"

definition web_fallback :: "web \<Rightarrow> http_method \<Rightarrow> string \<Rightarrow> response" where
  "web_fallback w m path =
     (case wb_static w of
        None \<Rightarrow> response_of 404 RNone
      | Some files \<Rightarrow>
          if m \<notin> {GET, HEAD} then method_not_allowed
          else (case files path of Some r \<Rightarrow> r | None \<Rightarrow> spa_fallback (wb_index w) path))"

definition serve :: "ext \<Rightarrow> web \<Rightarrow> request \<Rightarrow> db \<Rightarrow> response \<times> db" where
  "serve x w q d =
     (case find_route (rq_path q) of
        Some (ms, ps) \<Rightarrow> guarded x w q (run_route x w q ms ps) d
      | None \<Rightarrow>
          if starts_with (rq_path q) ''/api/'' \<and> rq_path q \<noteq> ''/api/'' then (unknown_api (rq_method q), d)
          else (web_fallback w (rq_method q) (rq_path q), d))"

section \<open>Facts about the table\<close>

text \<open>Every route keeps a property when every handler in the table does.\<close>

lemma find_route_in:
  assumes "find_route path = Some (ms, ps)"
  shows "\<exists>p. (p, ms) \<in> set route_table \<and> match_path p path = Some ps"
proof -
  have "\<exists>p. (p, ms) \<in> set t \<and> match_path p path = Some ps"
    if "find_map (\<lambda>(p, ms). map_option (Pair ms) (match_path p path)) t = Some (ms, ps)" for t
    using that by (induction t) (auto split: option.splits)
  then show ?thesis using assms unfolding find_route_def by blast
qed

lemma handler_for_in: "handler_for ms m = Some h \<Longrightarrow> \<exists>k. (k, h) \<in> set ms"
  by (auto simp: handler_for_def split: option.splits if_splits dest: map_of_SomeD)

end
