(* ===== verification/Serving.thy ===== *)
theory Serving
  imports Routes Server
begin

text \<open>
  Serving a request is a run of the server (\<open>server_runs\<close>): whatever the request, the database it leaves is
  one the operations of the server reach, so what holds in every reachable state holds between requests.
\<close>

section \<open>The environment of a request\<close>

text \<open>While a request is served, the rest of the server makes runs of its own.\<close>

definition web_runs :: "ext \<Rightarrow> web \<Rightarrow> bool" where
  "web_runs x w \<longleftrightarrow>
     (\<forall>f \<in> set (wb_env w). \<forall>d. server_runs x d (f d)) \<and> (\<forall>d. server_runs x d (wb_between w d))
     \<and> (\<forall>k \<in> set (wb_wakes w). \<forall>d. server_runs x d (wk_env k d))"

named_theorems run_intros

declare server_runs.idle [run_intros]

lemma runs_step: "d' = d1 \<Longrightarrow> server_runs x d d1 \<Longrightarrow> server_runs x d d'"
  by simp

lemma runs_accounts [run_intros]:
  "server_runs x d (snd (login_user x now sid token name pw sp pp d))"
  "server_runs x d (snd (setup_initial_admin x now i salt name pw p d))"
  "server_runs x d (snd (create_user_with_policy x now i salt r p d))"
  "server_runs x d (snd (update_user_with_policy x now salt i ru p d))"
  "server_runs x d (snd (authenticate_session x now token sp d))"
  "server_runs x d (revoke_session x now token d)"
  "server_runs x d (snd (change_user_password x now salt uid cur new p d))"
  "server_runs x d (snd (create_user_group now i name role d))"
  "server_runs x d (snd (update_user_group now i g d))"
  "server_runs x d (snd (replace_user_group_members now gid ids d))"
  "server_runs x d (snd (delete_user_group gid d))"
  using server_runs.account [of x d "Login now sid token name pw sp pp"]
    server_runs.account [of x d "SetupAdmin now i salt name pw p"]
    server_runs.account [of x d "CreateUser now i salt r p"]
    server_runs.account [of x d "UpdateUser now salt i ru p"]
    server_runs.account [of x d "Authenticate now token sp"]
    server_runs.account [of x d "RevokeSession now token"]
    server_runs.account [of x d "ChangePassword now salt uid cur new p"]
    server_runs.account [of x d "CreateGroup now i name role"]
    server_runs.account [of x d "UpdateGroup now i g"]
    server_runs.account [of x d "ReplaceMembers now gid ids"]
    server_runs.account [of x d "DeleteGroup gid"]
  by simp_all

lemma runs_result [run_intros]: "server_runs x d (snd (record_agent_task_result x now i q d))"
  using server_runs.agent [of x d "AgentReports now i q"] by simp

lemma runs_sweep: "mark_timed_out_tasks x now d = (r, d1) \<Longrightarrow> server_runs x d d1"
  using server_runs.agent [of x d "SweepOverdue now"] by simp

text \<open>A long poll is a sweep and an environment step per wait, and the claim of a task at the end.\<close>

lemma runs_poll:
  assumes "\<forall>k \<in> set ws. \<forall>d. server_runs x d (wk_env k d)"
  shows "server_runs x d (snd (poll_agent_task x nid version ws now d))"
  using assms
proof (induction ws arbitrary: d now)
  case Nil
  have "snd (poll_agent_task x nid version [] now d) = agent_run x (AgentPolls now nid) d"
    by (simp add: poll_agent_task.simps split: prod.split sum.split option.split)
  then show ?case by (simp only: server_runs.agent)
next
  case (Cons k ws)
  obtain r d1 where sweep: "mark_timed_out_tasks x now d = (r, d1)" by fastforce
  note runs = runs_sweep [OF sweep]
  show ?case
  proof (cases "r = Inr () \<and> next_queued_agent_task d1 nid = None")
    case False
    then have "snd (poll_agent_task x nid version (k # ws) now d) = agent_run x (AgentPolls now nid) d"
      by (cases r) (auto simp: poll_agent_task.simps sweep split: option.split)
    then show ?thesis by (simp only: server_runs.agent)
  next
    case True
    have env: "server_runs x d (wk_env k d1)" using runs Cons.prems by (auto intro: server_runs.seq)
    have rest: "server_runs x d (snd (poll_agent_task x nid version ws (wk_now k) (wk_env k d1)))"
      using env Cons.IH Cons.prems by (auto intro: server_runs.seq)
    from env rest show ?thesis
      using True by (subst poll_agent_task.simps)
        (simp add: sweep Let_def split: sum.split option.split)
  qed
qed

section \<open>What the combinators keep\<close>

lemma runs_with_user [run_intros]:
  "(\<And>u. server_runs x d (snd (f u d))) \<Longrightarrow> server_runs x d (snd (with_user c f d))"
  by (simp add: with_user_def server_runs.idle split: option.split)

lemma runs_with_body [run_intros]:
  "(\<And>v. server_runs x d (snd (f v d))) \<Longrightarrow> server_runs x d (snd (with_body p g c f d))"
  by (simp add: with_body_def Let_def server_runs.idle)

lemma runs_require_admin [run_intros]:
  "server_runs x d (snd (f d)) \<Longrightarrow> server_runs x d (snd (require_admin u f d))"
  by (simp add: require_admin_def server_runs.idle)

lemma runs_as_node [run_intros]:
  "server_runs x d (snd (f d)) \<Longrightarrow> server_runs x d (snd (as_node x c nid f d))"
  by (simp add: as_node_def server_runs.idle)

lemma runs_answer [run_intros]: "server_runs x d (snd r) \<Longrightarrow> server_runs x d (snd (answer f r))"
  by (simp add: answer_def)

lemma runs_domain [run_intros]: "server_runs x d (snd r) \<Longrightarrow> server_runs x d (snd (domain_result r))"
  by (simp add: domain_result_def)

lemma runs_failing [run_intros]: "server_runs x d (snd r) \<Longrightarrow> server_runs x d (snd (failing f r))"
  by (simp add: failing_def)

lemma runs_event [run_intros]:
  "server_runs x d d1 \<Longrightarrow> server_runs x d (audit_actor_result x w u op target tid nid iid res err d1)"
  unfolding audit_actor_result_def by (rule server_runs.seq [OF _ server_runs.audit])

lemma runs_success [run_intros]:
  "server_runs x d d1 \<Longrightarrow> server_runs x d (audit_actor_success x w u op target tid d1)"
  unfolding audit_actor_success_def by (rule runs_event)

lemma runs_audited [run_intros]:
  "server_runs x d (snd r) \<Longrightarrow> server_runs x d (snd (audited x w u op target ids r))"
  by (cases r) (auto simp: audited_def runs_event split: sum.split prod.split)

lemma runs_gateway_audit [run_intros]:
  "server_runs x d (snd r) \<Longrightarrow> server_runs x d (snd (audit_gateway_action x w u op nid r))"
  unfolding audit_gateway_action_def by (rule runs_audited)

lemma runs_shown [run_intros]: "server_runs x d (snd (shown f r d))"
  by (simp add: shown_def answer_def failing_def server_runs.idle)

lemma runs_fetched [run_intros]: "server_runs x d (snd (fetched f r d))"
  by (simp add: fetched_def answer_def domain_result_def server_runs.idle)

lemma runs_pair [run_intros]: "server_runs x d d1 \<Longrightarrow> server_runs x d (snd (r, d1))"
  by simp

lemma runs_prod [run_intros]: "(\<And>a b. server_runs x d (snd (f a b d))) \<Longrightarrow> server_runs x d (snd ((case v of (a, b) \<Rightarrow> f a b) d))"
  by (simp split: prod.split)

lemma runs_if [run_intros]:
  "(b \<Longrightarrow> server_runs x d (snd r1)) \<Longrightarrow> (\<not> b \<Longrightarrow> server_runs x d (snd r2)) \<Longrightarrow>
   server_runs x d (snd (if b then r1 else r2))"
  by simp

lemma runs_option [run_intros]:
  "server_runs x d (snd r1) \<Longrightarrow> (\<And>v. server_runs x d (snd (r2 v))) \<Longrightarrow>
   server_runs x d (snd (case v of None \<Rightarrow> r1 | Some v \<Rightarrow> r2 v))"
  by (simp split: option.split)

lemma runs_let [run_intros]: "(\<And>v. server_runs x d (snd (f v))) \<Longrightarrow> server_runs x d (snd (let v = a in f v))"
  by simp

lemma runs_case_pair [run_intros]:
  "(\<And>a b. server_runs x d (snd (f a b))) \<Longrightarrow> server_runs x d (snd (case v of (a, b) \<Rightarrow> f a b))"
  by (simp split: prod.split)

lemma runs_sum [run_intros]:
  "(\<And>v. server_runs x d (snd (f v))) \<Longrightarrow> (\<And>v. server_runs x d (snd (g v))) \<Longrightarrow>
   server_runs x d (snd (case r of Inl v \<Rightarrow> f v | Inr v \<Rightarrow> g v))"
  by (simp split: sum.split)

text \<open>An operation, and what is done with its result.\<close>

lemma runs_then:
  "server_runs x d (snd r) \<Longrightarrow> (\<And>v d1. server_runs x d d1 \<Longrightarrow> server_runs x d (snd (f v d1))) \<Longrightarrow>
   server_runs x d (snd (case r of (v, d1) \<Rightarrow> f v d1))"
  by (cases r) simp

section \<open>The handlers\<close>

text \<open>The operations that do not wait.\<close>

lemmas run_operations = server_runs.update_runtime server_runs.delete_runtime server_runs.list_files
  server_runs.queue_verification server_runs.trash_file server_runs.delete_file server_runs.delete_trash
  server_runs.list_models server_runs.read_model server_runs.read_file server_runs.update_model server_runs.delete_model
  server_runs.create_instance server_runs.update_instance server_runs.delete_instance
  server_runs.heartbeat server_runs.global_policy server_runs.node_policy server_runs.audit
  server_runs.frontend_error server_runs.register_collector server_runs.delete_collector

text \<open>The operations that wait, in an environment that runs.\<close>

lemma run_waits:
  assumes "web_runs x w"
  shows "server_runs x d (snd (create_runtime_environment x now later tid i (wb_env w) nid rr d))"
    "server_runs x d (snd (check_runtime_environment x now later tid (wb_env w) i d))"
    "server_runs x d (snd (create_model_file x now later tid fid (wb_env w) mid fr d))"
    "server_runs x d (snd (update_model_file x now later tid (wb_env w) i fr d))"
    "server_runs x d (snd (cleanup_model_file_trash x now later tid (wb_env w) i d))"
    "server_runs x d (snd (create_model x now later tid i fid (wb_env w) m d))"
    "server_runs x d (snd (start_model_instance x now later tid (wb_env w) i d))"
    "server_runs x d (snd (stop_model_instance x now later tid (wb_env w) i d))"
    "server_runs x d (snd (check_model_instance x http now later tid (wb_env w) i d))"
    "server_runs x d (snd (test_model_instance x http now later tid (wb_env w) i d))"
    "server_runs x d (snd (run_gateway_task x now later tid (wb_env w) nid kind gq d))"
    "server_runs x d (snd (read_agent_log x now later tid (wb_env w) nid n d))"
    "server_runs x d (snd (refresh_instance_logs x now later tid (wb_env w) i d))"
    "server_runs x d (snd (ollama_model_list x now later tid (wb_env w) nid rid d))"
    "server_runs x d (snd (register_node x now f1 f2 token (wb_between w) g d))"
    "server_runs x d (snd (poll_agent_task x nid version (wb_wakes w) now d))"
  using assms unfolding web_runs_def
  by (auto intro!: server_runs.create_runtime server_runs.check_runtime server_runs.create_file
    server_runs.update_file server_runs.cleanup_trash server_runs.create_model server_runs.start_instance
    server_runs.stop_instance server_runs.check_instance server_runs.test_instance server_runs.gateway
    server_runs.agent_log server_runs.instance_log server_runs.ollama_models server_runs.register runs_poll)


lemmas simple_handlers =
  api_health_def api_serve_ca_cert_def api_serve_ca_fingerprint_def api_security_status_def
  api_setup_status_def api_current_user_def api_change_password_def api_list_users_def
  api_create_user_def api_update_user_def api_list_groups_def api_create_group_def
  api_update_group_def api_delete_group_def api_update_group_members_def api_register_agent_def
 api_list_nodes_def api_list_agent_config_policies_def
  api_get_global_agent_config_policy_def api_update_global_agent_config_policy_def
  api_get_node_agent_config_policy_def api_update_node_agent_config_policy_def
  api_list_runtime_environments_def api_list_node_runtime_environments_def
  api_create_runtime_environment_def api_get_runtime_environment_def
  api_update_runtime_environment_def api_delete_runtime_environment_def
  api_check_runtime_environment_def api_list_collector_registry_entries_def
  api_get_collector_entry_def api_delete_collector_entry_def api_list_models_def api_get_model_def
  api_update_model_def api_delete_model_def api_list_model_files_def api_create_model_file_def
  api_get_model_file_def api_update_model_file_def api_delete_model_file_def
  api_verify_model_file_def api_create_model_file_trash_def api_list_model_instances_def
  api_create_model_instance_def api_get_model_instance_def api_update_model_instance_def
  api_delete_model_instance_def api_check_model_instance_def api_start_model_instance_def
  api_stop_model_instance_def api_test_model_instance_def api_list_model_file_trash_def
  api_report_frontend_error_def api_list_audit_events_def api_get_server_log_policy_def
  api_cleanup_model_file_trash_def api_delete_model_file_trash_def api_agent_task_poll_def
  api_agent_task_result_def

lemma runs_simple [run_intros]:
  assumes "web_runs x w"
  shows "server_runs x d (snd (api_health x w c d))"
    "server_runs x d (snd (api_serve_ca_cert x w c d))"
    "server_runs x d (snd (api_serve_ca_fingerprint x w c d))"
    "server_runs x d (snd (api_security_status x w c d))"
    "server_runs x d (snd (api_setup_status x w c d))"
    "server_runs x d (snd (api_current_user x w c d))"
    "server_runs x d (snd (api_change_password x w c d))"
    "server_runs x d (snd (api_list_users x w c d))"
    "server_runs x d (snd (api_create_user x w c d))"
    "server_runs x d (snd (api_update_user x w c d))"
    "server_runs x d (snd (api_list_groups x w c d))"
    "server_runs x d (snd (api_create_group x w c d))"
    "server_runs x d (snd (api_update_group x w c d))"
    "server_runs x d (snd (api_delete_group x w c d))"
    "server_runs x d (snd (api_update_group_members x w c d))"
    "server_runs x d (snd (api_register_agent x w c d))"
    "server_runs x d (snd (api_list_nodes x w c d))"
    "server_runs x d (snd (api_list_agent_config_policies x w c d))"
    "server_runs x d (snd (api_get_global_agent_config_policy x w c d))"
    "server_runs x d (snd (api_update_global_agent_config_policy x w c d))"
    "server_runs x d (snd (api_get_node_agent_config_policy x w c d))"
    "server_runs x d (snd (api_update_node_agent_config_policy x w c d))"
    "server_runs x d (snd (api_list_runtime_environments x w c d))"
    "server_runs x d (snd (api_list_node_runtime_environments x w c d))"
    "server_runs x d (snd (api_create_runtime_environment x w c d))"
    "server_runs x d (snd (api_get_runtime_environment x w c d))"
    "server_runs x d (snd (api_update_runtime_environment x w c d))"
    "server_runs x d (snd (api_delete_runtime_environment x w c d))"
    "server_runs x d (snd (api_check_runtime_environment x w c d))"
    "server_runs x d (snd (api_list_collector_registry_entries x w c d))"
    "server_runs x d (snd (api_get_collector_entry x w c d))"
    "server_runs x d (snd (api_delete_collector_entry x w c d))"
    "server_runs x d (snd (api_list_models x w c d))"
    "server_runs x d (snd (api_get_model x w c d))"
    "server_runs x d (snd (api_update_model x w c d))"
    "server_runs x d (snd (api_delete_model x w c d))"
    "server_runs x d (snd (api_list_model_files x w c d))"
    "server_runs x d (snd (api_create_model_file x w c d))"
    "server_runs x d (snd (api_get_model_file x w c d))"
    "server_runs x d (snd (api_update_model_file x w c d))"
    "server_runs x d (snd (api_delete_model_file x w c d))"
    "server_runs x d (snd (api_verify_model_file x w c d))"
    "server_runs x d (snd (api_create_model_file_trash x w c d))"
    "server_runs x d (snd (api_list_model_instances x w c d))"
    "server_runs x d (snd (api_create_model_instance x w c d))"
    "server_runs x d (snd (api_get_model_instance x w c d))"
    "server_runs x d (snd (api_update_model_instance x w c d))"
    "server_runs x d (snd (api_delete_model_instance x w c d))"
    "server_runs x d (snd (api_check_model_instance x w c d))"
    "server_runs x d (snd (api_start_model_instance x w c d))"
    "server_runs x d (snd (api_stop_model_instance x w c d))"
    "server_runs x d (snd (api_test_model_instance x w c d))"
    "server_runs x d (snd (api_list_model_file_trash x w c d))"
    "server_runs x d (snd (api_report_frontend_error x w c d))"
    "server_runs x d (snd (api_list_audit_events x w c d))"
    "server_runs x d (snd (api_get_server_log_policy x w c d))"
    "server_runs x d (snd (api_cleanup_model_file_trash x w c d))"
    "server_runs x d (snd (api_delete_model_file_trash x w c d))"
    "server_runs x d (snd (api_agent_task_poll x w c d))"
    "server_runs x d (snd (api_agent_task_result x w c d))"
  unfolding simple_handlers by (intro run_intros run_operations run_waits [OF assms])+

lemma runs_gateway [run_intros]:
  assumes "web_runs x w"
  shows "server_runs x d (snd (api_start_gateway x w c d))"
    "server_runs x d (snd (api_stop_gateway x w c d))"
    "server_runs x d (snd (api_restart_gateway x w c d))"
    "server_runs x d (snd (api_check_gateway x w c d))"
    "server_runs x d (snd (api_read_gateway_log x w c d))"
  unfolding api_start_gateway_def api_stop_gateway_def api_restart_gateway_def api_check_gateway_def
    api_read_gateway_log_def gateway_handler_def start_gateway_def stop_gateway_def restart_gateway_def
    check_gateway_def read_gateway_log_def
  by (intro run_intros run_waits [OF assms])+

lemma runs_node_metrics [run_intros]: "server_runs x d (snd (api_node_metrics x w c d))"
  unfolding api_node_metrics_def by (intro run_intros)

lemma runs_gpu_metrics [run_intros]: "server_runs x d (snd (api_gpu_metrics x w c d))"
  unfolding api_gpu_metrics_def by (intro run_intros)

lemma runs_gpu_metrics_by_query [run_intros]: "server_runs x d (snd (api_gpu_metrics_by_query x w c d))"
  unfolding api_gpu_metrics_by_query_def by (intro run_intros)

lemma runs_agent_collector_registry [run_intros]: "server_runs x d (snd (api_agent_collector_registry x w c d))"
  unfolding api_agent_collector_registry_def by (intro run_intros)

lemma runs_login [run_intros]:
  assumes "web_runs x w"
  shows "server_runs x d (snd (api_login x w c d))"
  unfolding api_login_def by (intro run_intros runs_then run_operations run_waits [OF assms])

lemma runs_agent_heartbeat [run_intros]:
  assumes "web_runs x w"
  shows "server_runs x d (snd (api_agent_heartbeat x w c d))"
  unfolding api_agent_heartbeat_def by (intro run_intros runs_then run_operations run_waits [OF assms])

lemma runs_register_collector_entry [run_intros]:
  assumes "web_runs x w"
  shows "server_runs x d (snd (api_register_collector_entry x w c d))"
  unfolding api_register_collector_entry_def by (intro run_intros runs_then run_operations run_waits [OF assms])

lemma runs_update_collector_entry [run_intros]:
  assumes "web_runs x w"
  shows "server_runs x d (snd (api_update_collector_entry x w c d))"
  unfolding api_update_collector_entry_def by (intro run_intros runs_then run_operations run_waits [OF assms])

lemma runs_create_model [run_intros]:
  assumes "web_runs x w"
  shows "server_runs x d (snd (api_create_model x w c d))"
  unfolding api_create_model_def by (intro run_intros runs_then run_operations run_waits [OF assms])

lemma runs_list_ollama_models [run_intros]:
  assumes "web_runs x w"
  shows "server_runs x d (snd (api_list_ollama_models x w c d))"
  unfolding api_list_ollama_models_def by (intro run_intros runs_then run_operations run_waits [OF assms])

lemma runs_read_logs [run_intros]:
  assumes "web_runs x w"
  shows "server_runs x d (snd (api_read_logs x w c d))"
  unfolding api_read_logs_def by (intro run_intros runs_then run_operations run_waits [OF assms])

lemma runs_refresh_instance_logs [run_intros]:
  assumes "web_runs x w"
  shows "server_runs x d (snd (api_refresh_instance_logs x w c d))"
  unfolding api_refresh_instance_logs_def by (intro run_intros runs_then run_waits [OF assms])

lemma runs_logout [run_intros]: "server_runs x d (snd (api_logout x w c d))"
  by (auto simp: api_logout_def with_user_def Let_def intro: run_intros split: option.split)

lemma runs_log_policyD: "update_server_log_policy x now lp global d = (r, g, d1) \<Longrightarrow> server_runs x d d1"
  using server_runs.log_policy [of x d now lp global] by simp

lemma runs_update_server_log_policy [run_intros]: "server_runs x d (snd (api_update_server_log_policy x w c d))"
  by (auto simp: api_update_server_log_policy_def with_user_def with_body_def Let_def
      split: option.split prod.split sum.split dest!: runs_log_policyD intro: run_intros)

lemma runs_setup_admin [run_intros]: "server_runs x d (snd (api_setup_admin x w c d))"
proof -
  have admin: "server_runs x d d1" if "setup_initial_admin x now i salt name pw p d = (r, d1)" for now i salt name pw p r d1
    using runs_accounts(2) [of x d now i salt name pw p] that by simp
  have login: "server_runs x a b" if "login_user x now sid token name pw sp pp a = (r, b)" for now sid token name pw sp pp a b r
    using runs_accounts(1) [of x a now sid token name pw sp pp] that by simp
  show ?thesis
    by (auto simp: api_setup_admin_def with_body_def Let_def split: option.split prod.split sum.split
        dest!: admin login intro: run_intros server_runs.seq)
qed

section \<open>Requests\<close>

lemma runs_handler:
  assumes "web_runs x w" and "(p, ms) \<in> set route_table" and "(m, h) \<in> set ms"
  shows "server_runs x d (snd (h x w c d))"
  using assms(2,3) unfolding route_table_def
  by (simp, elim disjE conjE) (simp_all add: run_intros assms(1), (auto intro!: run_intros assms(1))?)

lemma runs_route:
  assumes "web_runs x w" and "(p, ms) \<in> set route_table"
  shows "server_runs x d (snd (run_route x w q ms ps user d))"
  using runs_handler [OF assms] handler_for_in
  by (auto simp: run_route_def server_runs.idle split: option.split) blast

lemma auth_database:
  assumes "control_plane_auth x now sp q d = (a, d')"
  shows "d' = d \<or> (\<exists>token. d' = snd (authenticate_session x now token sp d))"
proof (cases "is_public_path (rq_path q) \<or> session_cookie (rq_cookie q) = None")
  case True
  with assms show ?thesis by (auto simp: control_plane_auth_def Let_def split: if_splits)
next
  case False
  then obtain token where "session_cookie (rq_cookie q) = Some token" by (cases "session_cookie (rq_cookie q)") auto
  with assms False have "d' = snd (authenticate_session x now token sp d)"
    by (auto simp: control_plane_auth_def Let_def split: prod.splits option.splits)
  then show ?thesis by blast
qed

lemma runs_guarded:
  assumes "\<And>u d. server_runs x d (snd (f u d))"
  shows "server_runs x d (snd (guarded x w q f d))"
proof -
  obtain a d1 where auth: "control_plane_auth x (wb_now w) (wb_session_policy w) q d = (a, d1)" by fastforce
  have "server_runs x d d1"
    using auth_database [OF auth] by (auto intro: runs_accounts server_runs.idle)
  with assms show ?thesis by (auto simp: guarded_def auth split: auth_outcome.split intro: server_runs.seq)
qed

lemma serve_runs:
  assumes "web_runs x w"
  shows "server_runs x d (snd (serve x w q d))"
proof (cases "find_route (rq_path q)")
  case None
  then show ?thesis by (simp add: serve_def server_runs.idle)
next
  case (Some r)
  obtain ms ps where r: "r = (ms, ps)" by fastforce
  with Some find_route_in obtain p where "(p, ms) \<in> set route_table" by blast
  from runs_guarded [OF runs_route [OF assms this]] show ?thesis by (simp add: serve_def Some r)
qed

end
