(* ===== verification/RoutePatterns.thy ===== *)
theory RoutePatterns
  imports Routes
begin

text \<open>
  What the patterns of the route table say about the paths they match: the segments of a path, that no
  path belongs to two routes, and which role each route and method needs (the access matrix), of which
  the prefix tests of the middleware turn out to be an implementation.
\<close>

section \<open>Segments\<close>

lemma join_split: "join [c] (split_on c s) = s"
proof (induction s)
  case (Cons x s)
  obtain p ps where p: "split_on c s = p # ps" by (cases "split_on c s") simp_all
  with Cons show ?case by (cases ps) auto
qed simp

lemma split_segments: "p \<in> set (split_on c s) \<Longrightarrow> c \<notin> set p"
proof (induction s arbitrary: p)
  case (Cons x s)
  obtain q qs where q: "split_on c s = q # qs" by (cases "split_on c s") simp_all
  with Cons show ?case by (auto split: if_splits)
qed simp

lemma split_append: "c \<notin> set a \<Longrightarrow> split_on c (a @ c # s) = a # split_on c s"
  by (induction a) auto

text \<open>A word between two separators is an inner segment.\<close>

lemma contains_segment:
  assumes "c \<notin> set w"
  shows "contains s (c # w @ [c]) \<longleftrightarrow> w \<in> set (butlast (tl (split_on c s)))"
proof (induction s)
  case (Cons x s)
  obtain q qs where q: "split_on c s = q # qs" by (cases "split_on c s") simp_all
  show ?case
  proof (cases "x = c")
    case False
    with Cons q show ?thesis by simp
  next
    case True
    have "starts_with s (w @ [c]) \<longleftrightarrow> q = w \<and> qs \<noteq> []"
    proof
      assume "starts_with s (w @ [c])"
      then obtain r where "s = w @ c # r" by (auto simp: starts_with_prefix)
      with q split_append [OF assms, of r] show "q = w \<and> qs \<noteq> []" by auto
    next
      assume "q = w \<and> qs \<noteq> []"
      then obtain r rs where "split_on c s = w # r # rs" using q by (cases qs) auto
      with join_split [of c s] have "s = w @ c # join [c] (r # rs)" by simp
      then show "starts_with s (w @ [c])" by (auto simp: starts_with_prefix)
    qed
    with True Cons q show ?thesis by (cases qs) auto
  qed
qed simp

text \<open>A matched path is its pattern with the parameters put in.\<close>

lemma match_path_join:
  "match_path pattern path = Some ps \<Longrightarrow>
   path = join ''/'' (split_on (CHR ''/'') path)
   \<and> match_segments (split_on (CHR ''/'') pattern) (split_on (CHR ''/'') path) = Some ps"
  by (simp add: match_path_def join_split)

lemma match_segments_in: "match_segments ps ss = Some vs \<Longrightarrow> set vs \<subseteq> set ss \<and> length ss = length ps"
  by (induction ps ss arbitrary: vs rule: match_segments.induct) (auto split: if_splits)

text \<open>Two patterns that both match a path agree wherever neither has a parameter.\<close>

fun overlap :: "string list \<Rightarrow> string list \<Rightarrow> bool" where
  "overlap [] [] = True"
| "overlap (p # ps) (q # qs) = ((starts_with p ''{'' \<or> starts_with q ''{'' \<or> p = q) \<and> overlap ps qs)"
| "overlap ps qs = False"

lemma match_overlap:
  "match_segments ps ss \<noteq> None \<Longrightarrow> match_segments qs ss \<noteq> None \<Longrightarrow> overlap ps qs"
proof (induction ps ss arbitrary: qs rule: match_segments.induct)
  case (2 p ps s ss)
  then show ?case by (cases qs) (auto split: if_splits)
next
  case 1
  then show ?case by (cases qs) auto
qed simp_all

section \<open>The routes do not overlap\<close>

definition route_patterns :: "string list" where
  "route_patterns =
    [''/health'', ''/.well-known/lightai/ca.crt'', ''/.well-known/lightai/ca-fingerprint'',
     ''/api/security/status'', ''/api/setup/status'', ''/api/setup/admin'', ''/api/auth/login'',
     ''/api/auth/logout'', ''/api/auth/me'', ''/api/auth/change-password'', ''/api/users'',
     ''/api/users/{id}'', ''/api/groups'', ''/api/groups/{id}'', ''/api/groups/{id}/members'',
     ''/api/agent/register'', ''/api/agent/heartbeat'', ''/api/agent/collector-registry'',
     ''/api/nodes'', ''/api/config/agent'', ''/api/config/agent/global'',
     ''/api/nodes/{node_id}/config'', ''/api/nodes/{node_id}/metrics'',
     ''/api/nodes/{node_id}/gpus/{gpu_key}/metrics'', ''/api/nodes/{node_id}/gpu-metrics'',
     ''/api/runtime-environments'', ''/api/nodes/{node_id}/runtime-environments'',
     ''/api/runtime-environments/{id}'', ''/api/runtime-environments/{id}/check'',
     ''/api/collector-registry'', ''/api/collector-registry/{id}/{version}'', ''/api/models'',
     ''/api/models/{id}'', ''/api/models/{id}/files'', ''/api/model-files/{id}'',
     ''/api/model-files/{id}/verify'', ''/api/model-files/{id}/trash'', ''/api/model-instances'',
     ''/api/model-instances/{id}'', ''/api/model-instances/{id}/check'',
     ''/api/model-instances/{id}/start'', ''/api/model-instances/{id}/stop'',
     ''/api/model-instances/{id}/test'', ''/api/model-instances/{id}/logs'',
     ''/api/nodes/{node_id}/gateway/start'', ''/api/nodes/{node_id}/gateway/stop'',
     ''/api/nodes/{node_id}/gateway/restart'', ''/api/nodes/{node_id}/gateway/check'',
     ''/api/nodes/{node_id}/gateway/logs'', ''/api/model-file-trash'', ''/api/ollama/models'',
     ''/api/logs'', ''/api/frontend-errors'', ''/api/audit-events'', ''/api/config/server-logs'',
     ''/api/model-file-trash/{id}/cleanup'', ''/api/model-file-trash/{id}'',
     ''/api/agent/tasks/poll'', ''/api/agent/tasks/{id}/result'']"

lemma route_patterns_eq: "map fst route_table = route_patterns"
  unfolding route_table_def route_patterns_def by (simp only: list.map fst_conv)

lemma patterns_disjoint:
  "list_all (\<lambda>p. list_all (\<lambda>q. overlap p q \<longrightarrow> p = q) (map (split_on (CHR ''/'')) route_patterns))
     (map (split_on (CHR ''/'')) route_patterns)"
  by code_simp

section \<open>What a pattern says about the paths it matches\<close>

definition static_part :: "string \<Rightarrow> string" where
  "static_part p = takeWhile (\<lambda>c. c \<noteq> CHR ''{'') p"

definition matches :: "string list \<Rightarrow> string \<Rightarrow> string \<Rightarrow> bool" where
  "matches vs p s \<longleftrightarrow> (if starts_with p ''{'' then s \<in> set vs else s = p)"

lemma matches_mono: "matches vs p s \<Longrightarrow> set vs \<subseteq> set us \<Longrightarrow> matches us p s"
  by (auto simp: matches_def split: if_splits)

lemma match_all2: "match_segments ps ss = Some vs \<Longrightarrow> list_all2 (matches vs) ps ss"
proof (induction ps ss arbitrary: vs rule: match_segments.induct)
  case (2 p ps s ss)
  show ?case
  proof (cases "starts_with p ''{''")
    case True
    with 2 obtain us where us: "vs = s # us" "match_segments ps ss = Some us" by (auto split: if_splits)
    with 2 True have "list_all2 (matches us) ps ss" by (auto split: if_splits)
    then have "list_all2 (matches vs) ps ss" by (rule list_all2_mono) (auto simp: us(1) elim: matches_mono)
    then show ?thesis using True unfolding us(1) list_all2_Cons by (simp add: matches_def [of _ p])
  next
    case False
    with 2 have "p = s" "list_all2 (matches vs) ps ss" by (auto split: if_splits)
    with False show ?thesis unfolding list_all2_Cons matches_def [of vs p s] by simp
  qed
qed simp_all

lemma starts_takeWhile: "starts_with a (takeWhile P a)"
  by (induction a) auto

lemma starts_takeWhile_append: "starts_with a (takeWhile P b) \<Longrightarrow> starts_with (c @ a) (takeWhile P (c @ b))"
  by (induction c) auto

lemma static_join:
  "list_all2 (matches vs) ps ss \<Longrightarrow>
   starts_with (join sep ss) (takeWhile (\<lambda>c. c \<noteq> CHR ''{'') (join sep ps))"
proof (induction ps ss rule: list_all2_induct)
  case (Cons p ps s ss)
  show ?case
  proof (cases "starts_with p ''{''")
    case True
    then have "takeWhile (\<lambda>c. c \<noteq> CHR ''{'') (join sep (p # ps)) = []" by (cases p; cases ps) auto
    then show ?thesis by simp
  next
    case False
    with Cons have s: "s = p" by (simp add: matches_def)
    show ?thesis
    proof (cases ps)
      case Nil
      with Cons.hyps s show ?thesis by (simp add: starts_takeWhile)
    next
      case ps: (Cons q qs)
      then obtain t ts where ss: "ss = t # ts" using Cons.hyps by (cases ss) auto
      from starts_takeWhile_append [OF Cons.IH, of "p @ sep"] show ?thesis unfolding s ps ss by simp
    qed
  qed
qed simp

lemma split_on_subset: "q \<in> set (split_on c s) \<Longrightarrow> set q \<subseteq> set s"
proof (induction s arbitrary: q)
  case (Cons x s)
  obtain p ps where p: "split_on c s = p # ps" by (cases "split_on c s") simp_all
  with Cons.prems consider "q = []" | "q = x # p" | "q \<in> set (split_on c s)" by (auto split: if_splits)
  then show ?case using Cons.IH p by cases auto
qed simp

lemma match_static:
  assumes "match_path p path = Some vs"
  shows "starts_with path (static_part p)" and "CHR ''{'' \<notin> set p \<Longrightarrow> path = p"
proof -
  have all: "list_all2 (matches vs) (split_on (CHR ''/'') p) (split_on (CHR ''/'') path)"
    using assms unfolding match_path_def by (rule match_all2)
  from static_join [OF all, of "''/''"] show "starts_with path (static_part p)" by (simp add: static_part_def join_split)
  assume no: "CHR ''{'' \<notin> set p"
  have not_param: "\<not> starts_with q ''{''" if "q \<in> set (split_on (CHR ''/'') p)" for q
    using split_on_subset [OF that] no by (cases q) auto
  have "split_on (CHR ''/'') p = split_on (CHR ''/'') path"
    using all not_param by (auto simp: list_all2_conv_all_nth matches_def intro: nth_equalityI)
  then show "path = p" by (metis join_split)
qed

text \<open>A prefix that the static part of a pattern contains or contradicts is decided by the pattern.\<close>

fun decides :: "string \<Rightarrow> string \<Rightarrow> bool" where
  "decides s [] = True"
| "decides [] (_ # _) = False"
| "decides (a # s) (b # l) = (a \<noteq> b \<or> decides s l)"

lemma decides_append: "decides s l \<Longrightarrow> starts_with (s @ r) l \<longleftrightarrow> starts_with s l"
  by (induction s l rule: decides.induct) auto

lemma pattern_starts:
  assumes "match_path p path = Some vs" and "CHR ''{'' \<notin> set p \<or> decides (static_part p) l"
  shows "starts_with path l \<longleftrightarrow> starts_with p l"
proof (cases "CHR ''{'' \<in> set p")
  case False
  with match_static(2) [OF assms(1)] show ?thesis by simp
next
  case True
  with assms(2) have dec: "decides (static_part p) l" by simp
  obtain r q where "path = static_part p @ r" "p = static_part p @ q"
    using match_static(1) [OF assms(1)] starts_takeWhile [of p "\<lambda>c. c \<noteq> CHR ''{''"]
    unfolding starts_with_prefix static_part_def by blast
  with decides_append [OF dec] show ?thesis by metis
qed

lemma inner_matches:
  assumes "list_all2 (matches vs) ps ss" and "w \<notin> set vs" and "\<not> starts_with w ''{''"
  shows "w \<in> set (butlast (tl ss)) \<longleftrightarrow> w \<in> set (butlast (tl ps))"
proof -
  have "list_all2 (matches vs) (butlast (tl ps)) (butlast (tl ss))"
    using assms(1) by (cases ps; cases ss) (auto simp: butlast_conv_take list_all2_lengthD)
  moreover have "w \<in> set ss' \<longleftrightarrow> w \<in> set ps'" if "list_all2 (matches vs) ps' ss'" for ps' ss'
    using that assms(2,3) by (induction ps' ss' rule: list_all2_induct) (auto simp: matches_def split: if_splits)
  ultimately show ?thesis by blast
qed

lemma gateway_segment: "contains path ''/gateway/'' \<longleftrightarrow> ''gateway'' \<in> set (butlast (tl (split_on (CHR ''/'') path)))"
  using contains_segment [of "CHR ''/''" "''gateway''" path] by simp

lemma pattern_gateway:
  assumes "match_path p path = Some vs" and "''gateway'' \<notin> set vs"
  shows "contains path ''/gateway/'' \<longleftrightarrow> contains p ''/gateway/''"
  unfolding gateway_segment
  by (rule inner_matches [OF match_all2 [OF assms(1) [unfolded match_path_def]] assms(2)]) simp

section \<open>The access matrix\<close>

definition own_routes :: "string list" where
  "own_routes = [''/api/auth/login'', ''/api/auth/logout'', ''/api/auth/me'', ''/api/auth/change-password'', ''/api/frontend-errors'']"

definition admin_routes :: "string list" where
  "admin_routes =
    [''/api/users'', ''/api/users/{id}'', ''/api/groups'', ''/api/groups/{id}'', ''/api/groups/{id}/members'',
     ''/api/config/agent'', ''/api/config/agent/global'', ''/api/config/server-logs'',
     ''/api/model-file-trash'', ''/api/model-file-trash/{id}/cleanup'', ''/api/model-file-trash/{id}'']"

definition gateway_routes :: "string list" where
  "gateway_routes =
    [''/api/nodes/{node_id}/gateway/start'', ''/api/nodes/{node_id}/gateway/stop'',
     ''/api/nodes/{node_id}/gateway/restart'', ''/api/nodes/{node_id}/gateway/check'',
     ''/api/nodes/{node_id}/gateway/logs'']"

text \<open>The rank a role needs for a method of a route: viewers read, operators change, the rest is for admins.\<close>

definition required_rank :: "string \<Rightarrow> http_method \<Rightarrow> nat" where
  "required_rank p m =
     (if p \<in> set own_routes then 1
      else if p \<in> set admin_routes then 3
      else if p \<in> set gateway_routes then 2
      else if m = GET then 1 else 2)"

definition path_class :: "string \<Rightarrow> bool \<times> bool \<times> bool" where
  "path_class path =
     (starts_with path ''/api/auth/'' \<or> path = ''/api/frontend-errors'',
      starts_with path ''/api/users'' \<or> starts_with path ''/api/groups''
        \<or> starts_with path ''/api/config'' \<or> starts_with path ''/api/model-file-trash'',
      starts_with path ''/api/nodes/'' \<and> contains path ''/gateway/'')"

definition class_rank :: "bool \<times> bool \<times> bool \<Rightarrow> http_method \<Rightarrow> nat" where
  "class_rank c m = (case c of (own, adm, gw) \<Rightarrow>
     if own then 1 else if adm then 3 else if gw then 2 else if m = GET then 1 else 2)"

lemma authorized_class:
  "au_effective_role u \<in> set roles \<Longrightarrow>
   is_authorized_for_path u m path \<longleftrightarrow> class_rank (path_class path) m \<le> role_rank (au_effective_role u)"
  by (auto simp: is_authorized_for_path_def class_rank_def path_class_def roles_def role_rank_def Let_def)

definition class_literals :: "string list" where
  "class_literals = [''/api/'', ''/api/agent/'', ''/api/auth/'', ''/api/users'', ''/api/groups'', ''/api/config'',
     ''/api/model-file-trash'', ''/api/nodes/'']"

definition exact_literals :: "string list" where
  "exact_literals = [''/api/frontend-errors'', ''/api/auth/login'', ''/api/setup/status'', ''/api/setup/admin'',
     ''/api/auth/me'', ''/api/auth/logout'', ''/api/auth/change-password'']"

text \<open>All these tests are decided by the pattern.\<close>

lemma classes_decided:
  "list_all (\<lambda>p. CHR ''{'' \<notin> set p \<or> (list_all (decides (static_part p)) class_literals
     \<and> list_all (\<lambda>l. decides (static_part p) l \<and> \<not> starts_with p l) exact_literals)) route_patterns"
  by code_simp

lemma pattern_classes:
  "list_all (\<lambda>p. starts_with p ''/api/'' \<longrightarrow>
     path_class p = (p \<in> set own_routes, p \<in> set admin_routes, p \<in> set gateway_routes)) route_patterns"
  by code_simp

lemma route_starts:
  assumes "p \<in> set route_patterns" and "match_path p path = Some vs" and "l \<in> set class_literals"
  shows "starts_with path l \<longleftrightarrow> starts_with p l"
  using pattern_starts [OF assms(2)] classes_decided assms(1,3) by (auto simp: list_all_iff)

lemma route_exact:
  assumes "p \<in> set route_patterns" and "match_path p path = Some vs" and "l \<in> set exact_literals"
  shows "path = l \<longleftrightarrow> p = l"
proof (cases "CHR ''{'' \<in> set p")
  case False
  with match_static(2) [OF assms(2)] show ?thesis by simp
next
  case True
  with classes_decided assms(1,3) have l: "decides (static_part p) l" "\<not> starts_with p l" by (auto simp: list_all_iff)
  have refl: "starts_with q q" for q by (induction q) auto
  have "\<not> starts_with path l" using pattern_starts [OF assms(2)] l by simp
  with refl l(2) show ?thesis by metis
qed

lemma route_public:
  assumes "p \<in> set route_patterns" and "match_path p path = Some vs"
  shows "is_public_path path \<longleftrightarrow> is_public_path p"
  using route_starts [OF assms] route_exact [OF assms]
  by (simp add: is_public_path_def class_literals_def exact_literals_def)

lemma route_password:
  assumes "p \<in> set route_patterns" and "match_path p path = Some vs"
  shows "is_password_change_allowed_path path \<longleftrightarrow> is_password_change_allowed_path p"
  using route_exact [OF assms] by (simp add: is_password_change_allowed_path_def exact_literals_def)

lemma route_class:
  assumes "p \<in> set route_patterns" and "match_path p path = Some vs" and "''gateway'' \<notin> set vs"
  shows "path_class path = path_class p"
  using route_starts [OF assms(1,2)] route_exact [OF assms(1,2)] pattern_gateway [OF assms(2,3)]
  by (simp add: path_class_def class_literals_def exact_literals_def)

lemma access_matrix:
  assumes "p \<in> set route_patterns" and "match_path p path = Some vs" and "''gateway'' \<notin> set vs"
    and "starts_with p ''/api/''" and "au_effective_role u \<in> set roles"
  shows "is_authorized_for_path u m path \<longleftrightarrow> required_rank p m \<le> role_rank (au_effective_role u)"
proof -
  have "path_class path = (p \<in> set own_routes, p \<in> set admin_routes, p \<in> set gateway_routes)"
    using route_class [OF assms(1-3)] pattern_classes assms(1,4) by (simp add: list_all_iff)
  then show ?thesis using authorized_class [OF assms(5)] by (simp add: class_rank_def required_rank_def)
qed

text \<open>A path belongs to one route at most.\<close>

lemma one_route:
  assumes "p \<in> set route_patterns" and "q \<in> set route_patterns"
    and "match_path p path = Some vs" and "match_path q path = Some us"
  shows "p = q"
proof -
  have "overlap (split_on (CHR ''/'') p) (split_on (CHR ''/'') q)"
    using assms(3,4) unfolding match_path_def by (intro match_overlap) auto
  with patterns_disjoint assms(1,2) have "split_on (CHR ''/'') p = split_on (CHR ''/'') q" by (auto simp: list_all_iff)
  then show ?thesis by (metis join_split)
qed

lemma find_route_pattern:
  assumes "find_route path = Some (ms, vs)"
  shows "\<exists>p. (p, ms) \<in> set route_table \<and> p \<in> set route_patterns \<and> match_path p path = Some vs"
proof -
  from find_route_in [OF assms] obtain p where p: "(p, ms) \<in> set route_table" "match_path p path = Some vs" by blast
  from p(1) have "p \<in> set (map fst route_table)" by force
  with p show ?thesis unfolding route_patterns_eq by blast
qed

text \<open>Every route is found by its own pattern.\<close>

lemma distinct_patterns: "distinct route_patterns"
  by code_simp

lemma find_route_complete:
  assumes "(p, ms) \<in> set route_table" and "match_path p path = Some vs"
  shows "find_route path = Some (ms, vs)"
proof -
  have "find_map (\<lambda>(p, ms). map_option (Pair ms) (match_path p path)) t \<noteq> None" if "(p, ms) \<in> set t" for t
    using that assms(2) by (induction t) (auto split: option.splits)
  then obtain ms' us where r: "find_route path = Some (ms', us)"
    using assms(1) unfolding find_route_def by fastforce
  from find_route_pattern [OF r] obtain q
    where q: "(q, ms') \<in> set route_table" "q \<in> set route_patterns" "match_path q path = Some us" by blast
  have "p \<in> set route_patterns" using assms(1) unfolding route_patterns_eq [symmetric] by force
  from one_route [OF this q(2) assms(2) q(3)] have "q = p" by simp
  moreover from this have "ms' = ms"
    using eq_key_imp_eq_value [of route_table] distinct_patterns assms(1) q(1) by (simp add: route_patterns_eq)
  ultimately show ?thesis using q(3) assms(2) r by simp
qed
end
