(* ===== verification/Access.thy ===== *)
theory Access
  imports Serving RoutePatterns
begin

text \<open>
  Who gets past the router and what a served request leaves behind: the cookie round trip of a login, the
  answers of the handlers, the audit events of changes, and the requests of agents.
\<close>

section \<open>Cookies\<close>

definition visible :: "char \<Rightarrow> bool" where
  "visible c \<longleftrightarrow> 33 \<le> byte c \<and> byte c \<le> 126"

lemma visible_chars: "\<forall>c \<in> set s. visible c \<Longrightarrow> utf8_chars s = map (\<lambda>c. [c]) s"
proof (induction s)
  case (Cons b s)
  have "takeWhile is_cont s = []" "dropWhile is_cont s = s"
    using Cons.prems by (cases s; auto simp: is_cont_def visible_def)+
  with Cons show ?case by simp
qed simp

lemma visible_not_white: "visible c \<Longrightarrow> \<not> is_whitespace [c]"
  by (auto simp: visible_def is_whitespace_def Let_def)

lemma trim_visible: "\<forall>c \<in> set s. visible c \<Longrightarrow> trim s = s"
proof -
  assume vis: "\<forall>c \<in> set s. visible c"
  have none: "dropWhile is_whitespace (map (\<lambda>c. [c]) t) = map (\<lambda>c. [c]) t" if "\<forall>c \<in> set t. visible c" for t
    using that visible_not_white by (cases t) auto
  from none [OF vis] none [of "rev s"] vis show ?thesis
    by (simp add: trim_def visible_chars flip: rev_map)
qed

text \<open>What a browser sends back: the name and the value, without the attributes.\<close>

definition sent_back :: "string \<Rightarrow> string" where
  "sent_back header = takeWhile (\<lambda>c. c \<noteq> CHR '';'') header"

definition cookie_token :: "string \<Rightarrow> bool" where
  "cookie_token t \<longleftrightarrow> t \<noteq> [] \<and> (\<forall>c \<in> set t. visible c \<and> c \<noteq> CHR '';'')"

lemma sent_back_token:
  "cookie_token t \<Longrightarrow> sent_back (session_cookie_header t age secure) = ''lightai_session='' @ t"
proof -
  assume t: "cookie_token t"
  have *: "takeWhile (\<lambda>c. c \<noteq> CHR '';'') (t @ CHR '';'' # rest) = t" for rest
    using t by (auto simp: cookie_token_def takeWhile_append takeWhile_eq_all_conv)
  show ?thesis unfolding sent_back_def session_cookie_header_def by (simp add: *)
qed

lemma cookie_read:
  assumes "cookie_token t"
  shows "session_cookie (Some (''lightai_session='' @ t)) = Some t"
proof -
  have no: "CHR '';'' \<notin> set (''lightai_session='' @ t)" using assms by (auto simp: cookie_token_def)
  have "\<forall>c \<in> set (''lightai_session='' @ t). visible c"
    using assms by (auto simp: cookie_token_def visible_def byte_def)
  from trim_visible [OF this] have trim: "trim (''lightai_session='' @ t) = ''lightai_session'' @ CHR ''='' # t" by simp
  have "split_once (CHR ''='') (''lightai_session'' @ CHR ''='' # t) = Some (''lightai_session'', t)"
    by (rule split_once_at) simp
  then have "cookie_value (''lightai_session='' @ t) = Some t"
    unfolding cookie_value_def trim using assms by (simp add: cookie_token_def)
  then have "find_map cookie_value (split_on (CHR '';'') (''lightai_session='' @ t)) = Some t"
    unfolding split_on_no [OF no] find_map.simps by (simp only: option.case)
  then show ?thesis unfolding session_cookie_def by (simp only: Option.bind.simps)
qed

section \<open>Answers\<close>

text \<open>
  A server error is the answer to an internal error of the application: no handler lacks the user it
  asks for, and no error of the framework itself shows.
\<close>

definition proper :: "response \<Rightarrow> bool" where
  "proper r \<longleftrightarrow> (rs_status r = 500 \<longrightarrow> rs_body r = RError ''internal_error'' None)"

named_theorems proper_intros

lemma proper_error [proper_intros]: "proper (error_response e)"
  by (cases e) (simp_all add: proper_def error_response_def error_reply_def response_of_def)

lemma proper_ok [proper_intros]: "proper (ok_response b)"
  by (simp add: proper_def ok_response_def response_of_def)

lemma proper_cookie [proper_intros]: "proper r \<Longrightarrow> proper (r\<lparr>rs_set_cookie := k\<rparr>)"
  by (simp add: proper_def)

lemma proper_policy [proper_intros]: "proper r \<Longrightarrow> proper (r\<lparr>rs_log_policy := k\<rparr>)"
  by (simp add: proper_def)

lemma proper_greeting [proper_intros]: "proper (greeting w u t)"
  unfolding greeting_def by (intro proper_intros)

lemma proper_answer [proper_intros]: "proper (fst (answer f r))"
  by (simp add: answer_def proper_error proper_ok split: sum.split)

lemma proper_shown [proper_intros]: "proper (fst (shown f r d))"
  by (simp add: shown_def proper_answer)

lemma proper_fetched [proper_intros]: "proper (fst (fetched f r d))"
  by (simp add: fetched_def proper_answer)

lemma proper_user [proper_intros]:
  "ca_user c \<noteq> None \<Longrightarrow> (\<And>u. proper (fst (f u d))) \<Longrightarrow> proper (fst (with_user c f d))"
  by (auto simp: with_user_def)

lemma proper_body [proper_intros]: "(\<And>v. proper (fst (f v d))) \<Longrightarrow> proper (fst (with_body p g c f d))"
  by (simp add: with_body_def Let_def rejected_def proper_def response_of_def)

lemma proper_admin [proper_intros]: "proper (fst (f d)) \<Longrightarrow> proper (fst (require_admin u f d))"
  by (simp add: require_admin_def proper_error)

lemma proper_node [proper_intros]: "proper (fst (f d)) \<Longrightarrow> proper (fst (as_node x c nid f d))"
  by (simp add: as_node_def proper_error)

lemma proper_pair [proper_intros]: "proper r \<Longrightarrow> proper (fst (r, d))"
  by simp

lemma proper_prod [proper_intros]:
  "(\<And>a b. proper (fst (f a b d))) \<Longrightarrow> proper (fst ((case v of (a, b) \<Rightarrow> f a b) d))"
  "(\<And>a b. proper (fst (g a b))) \<Longrightarrow> proper (fst (case v of (a, b) \<Rightarrow> g a b))"
  by (simp_all split: prod.split)

lemma proper_let [proper_intros]: "(\<And>v. proper (fst (f v))) \<Longrightarrow> proper (fst (let v = a in f v))"
  by simp

lemma proper_if [proper_intros]: "proper (fst a) \<Longrightarrow> proper (fst b) \<Longrightarrow> proper (fst (if c then a else b))"
  by simp

lemma proper_option [proper_intros]:
  "proper (fst a) \<Longrightarrow> (\<And>v. proper (fst (f v))) \<Longrightarrow> proper (fst (case v of None \<Rightarrow> a | Some v \<Rightarrow> f v))"
  "proper a' \<Longrightarrow> (\<And>v. proper (f' v)) \<Longrightarrow> proper (case v' of None \<Rightarrow> a' | Some v \<Rightarrow> f' v)"
  by (simp_all split: option.split)

lemma proper_sum [proper_intros]:
  "(\<And>v. proper (fst (f v))) \<Longrightarrow> (\<And>v. proper (fst (g v))) \<Longrightarrow> proper (fst (case v of Inl v \<Rightarrow> f v | Inr v \<Rightarrow> g v))"
  by (simp split: sum.split)

lemmas handler_defs =
  api_health_def api_serve_ca_cert_def api_serve_ca_fingerprint_def api_security_status_def
  api_setup_status_def api_setup_admin_def api_login_def api_logout_def api_current_user_def
  api_change_password_def api_list_users_def api_create_user_def api_update_user_def
  api_list_groups_def api_create_group_def api_update_group_def api_delete_group_def
  api_update_group_members_def api_register_agent_def api_agent_heartbeat_def
  api_agent_collector_registry_def api_list_nodes_def api_list_agent_config_policies_def
  api_get_global_agent_config_policy_def api_update_global_agent_config_policy_def
  api_get_node_agent_config_policy_def api_update_node_agent_config_policy_def api_node_metrics_def
  api_gpu_metrics_def api_gpu_metrics_by_query_def api_list_runtime_environments_def
  api_list_node_runtime_environments_def api_create_runtime_environment_def
  api_get_runtime_environment_def api_update_runtime_environment_def
  api_delete_runtime_environment_def api_check_runtime_environment_def
  api_list_collector_registry_entries_def api_register_collector_entry_def
  api_get_collector_entry_def api_update_collector_entry_def api_delete_collector_entry_def
  api_list_models_def api_create_model_def api_get_model_def api_update_model_def
  api_delete_model_def api_list_model_files_def api_create_model_file_def api_get_model_file_def
  api_update_model_file_def api_delete_model_file_def api_verify_model_file_def
  api_create_model_file_trash_def api_list_model_instances_def api_create_model_instance_def
  api_get_model_instance_def api_update_model_instance_def api_delete_model_instance_def
  api_check_model_instance_def api_start_model_instance_def api_stop_model_instance_def
  api_test_model_instance_def api_refresh_instance_logs_def api_start_gateway_def
  api_stop_gateway_def api_restart_gateway_def api_check_gateway_def api_read_gateway_log_def
  api_list_model_file_trash_def api_list_ollama_models_def api_read_logs_def
  api_report_frontend_error_def api_list_audit_events_def api_get_server_log_policy_def
  api_update_server_log_policy_def api_cleanup_model_file_trash_def api_delete_model_file_trash_def
  api_agent_task_poll_def api_agent_task_result_def gateway_handler_def no_ca_certificate_def

lemma proper_public:
  shows "proper (fst (api_health x w c d))"
    "proper (fst (api_serve_ca_cert x w c d))"
    "proper (fst (api_serve_ca_fingerprint x w c d))"
    "proper (fst (api_setup_status x w c d))"
    "proper (fst (api_setup_admin x w c d))"
    "proper (fst (api_login x w c d))"
    "proper (fst (api_register_agent x w c d))"
    "proper (fst (api_agent_heartbeat x w c d))"
    "proper (fst (api_agent_collector_registry x w c d))"
    "proper (fst (api_agent_task_poll x w c d))"
    "proper (fst (api_agent_task_result x w c d))"
  unfolding handler_defs by (intro proper_intros)+

lemma proper_protected:
  assumes "ca_user c \<noteq> None"
  shows "proper (fst (api_security_status x w c d))"
    "proper (fst (api_logout x w c d))"
    "proper (fst (api_current_user x w c d))"
    "proper (fst (api_change_password x w c d))"
    "proper (fst (api_list_users x w c d))"
    "proper (fst (api_create_user x w c d))"
    "proper (fst (api_update_user x w c d))"
    "proper (fst (api_list_groups x w c d))"
    "proper (fst (api_create_group x w c d))"
    "proper (fst (api_update_group x w c d))"
    "proper (fst (api_delete_group x w c d))"
    "proper (fst (api_update_group_members x w c d))"
    "proper (fst (api_list_nodes x w c d))"
    "proper (fst (api_list_agent_config_policies x w c d))"
    "proper (fst (api_get_global_agent_config_policy x w c d))"
    "proper (fst (api_update_global_agent_config_policy x w c d))"
    "proper (fst (api_get_node_agent_config_policy x w c d))"
    "proper (fst (api_update_node_agent_config_policy x w c d))"
    "proper (fst (api_node_metrics x w c d))"
    "proper (fst (api_gpu_metrics x w c d))"
    "proper (fst (api_gpu_metrics_by_query x w c d))"
    "proper (fst (api_list_runtime_environments x w c d))"
    "proper (fst (api_list_node_runtime_environments x w c d))"
    "proper (fst (api_create_runtime_environment x w c d))"
    "proper (fst (api_get_runtime_environment x w c d))"
    "proper (fst (api_update_runtime_environment x w c d))"
    "proper (fst (api_delete_runtime_environment x w c d))"
    "proper (fst (api_check_runtime_environment x w c d))"
    "proper (fst (api_list_collector_registry_entries x w c d))"
    "proper (fst (api_register_collector_entry x w c d))"
    "proper (fst (api_get_collector_entry x w c d))"
    "proper (fst (api_update_collector_entry x w c d))"
    "proper (fst (api_delete_collector_entry x w c d))"
    "proper (fst (api_list_models x w c d))"
    "proper (fst (api_create_model x w c d))"
    "proper (fst (api_get_model x w c d))"
    "proper (fst (api_update_model x w c d))"
    "proper (fst (api_delete_model x w c d))"
    "proper (fst (api_list_model_files x w c d))"
    "proper (fst (api_create_model_file x w c d))"
    "proper (fst (api_get_model_file x w c d))"
    "proper (fst (api_update_model_file x w c d))"
    "proper (fst (api_delete_model_file x w c d))"
    "proper (fst (api_verify_model_file x w c d))"
    "proper (fst (api_create_model_file_trash x w c d))"
    "proper (fst (api_list_model_instances x w c d))"
    "proper (fst (api_create_model_instance x w c d))"
    "proper (fst (api_get_model_instance x w c d))"
    "proper (fst (api_update_model_instance x w c d))"
    "proper (fst (api_delete_model_instance x w c d))"
    "proper (fst (api_check_model_instance x w c d))"
    "proper (fst (api_start_model_instance x w c d))"
    "proper (fst (api_stop_model_instance x w c d))"
    "proper (fst (api_test_model_instance x w c d))"
    "proper (fst (api_refresh_instance_logs x w c d))"
    "proper (fst (api_start_gateway x w c d))"
    "proper (fst (api_stop_gateway x w c d))"
    "proper (fst (api_restart_gateway x w c d))"
    "proper (fst (api_check_gateway x w c d))"
    "proper (fst (api_read_gateway_log x w c d))"
    "proper (fst (api_list_model_file_trash x w c d))"
    "proper (fst (api_list_ollama_models x w c d))"
    "proper (fst (api_read_logs x w c d))"
    "proper (fst (api_report_frontend_error x w c d))"
    "proper (fst (api_list_audit_events x w c d))"
    "proper (fst (api_get_server_log_policy x w c d))"
    "proper (fst (api_update_server_log_policy x w c d))"
    "proper (fst (api_cleanup_model_file_trash x w c d))"
    "proper (fst (api_delete_model_file_trash x w c d))"
  unfolding handler_defs by (intro proper_intros assms)+

definition public_routes :: "string list" where
  "public_routes =
    [''/health'', ''/.well-known/lightai/ca.crt'', ''/.well-known/lightai/ca-fingerprint'', ''/api/setup/status'',
     ''/api/setup/admin'', ''/api/auth/login'', ''/api/agent/register'', ''/api/agent/heartbeat'',
     ''/api/agent/collector-registry'', ''/api/agent/tasks/poll'', ''/api/agent/tasks/{id}/result'']"

lemma public_patterns: "list_all (\<lambda>p. is_public_path p \<longleftrightarrow> p \<in> set public_routes) route_patterns"
  by code_simp

lemma table_pattern: "(p, ms) \<in> set route_table \<Longrightarrow> p \<in> set route_patterns"
  unfolding route_patterns_eq [symmetric] by force

lemma proper_public_handler:
  assumes "(p, ms) \<in> set route_table" and "(m, h) \<in> set ms" and "p \<in> set public_routes"
  shows "proper (fst (h x w c d))"
  using assms(3,1,2) unfolding public_routes_def list.set insert_iff empty_iff
  by (elim disjE; simp add: route_table_def proper_public)

lemma proper_handler:
  assumes "(p, ms) \<in> set route_table" and "(m, h) \<in> set ms" and "ca_user c \<noteq> None"
  shows "proper (fst (h x w c d))"
  using assms(1,2) unfolding route_table_def
  by (simp, elim disjE conjE) (simp_all add: proper_public proper_protected [OF assms(3)], (auto intro!: proper_public proper_protected [OF assms(3)])?)

section \<open>Every change is recorded\<close>

text \<open>A request answered with success ends with an audit event of the user who sent it.\<close>

definition recorded_by :: "ext \<Rightarrow> web \<Rightarrow> auth_user \<Rightarrow> response \<times> db \<Rightarrow> bool" where
  "recorded_by x w u r \<longleftrightarrow> (rs_status (fst r) = 200 \<longrightarrow>
     (\<exists>d1 op target tid nid iid. snd r = audit_actor_result x w u op target tid nid iid ''success'' None d1))"

named_theorems recorded_intros

lemma status_error: "rs_status (error_response e) \<noteq> 200"
  by (cases e) (simp_all add: error_response_def error_reply_def response_of_def)

lemma recorded_failure: "rs_status r \<noteq> 200 \<Longrightarrow> recorded_by x w u (r, d)"
  by (simp add: recorded_by_def)

lemma recorded_error [recorded_intros]: "recorded_by x w u (error_response e, d)"
  by (rule recorded_failure) (rule status_error)

lemma recorded_policy_error [recorded_intros]: "recorded_by x w u ((error_response e)\<lparr>rs_log_policy := k\<rparr>, d)"
  by (rule recorded_failure) (simp add: status_error)

lemma recorded_event [recorded_intros]:
  "recorded_by x w u (r, audit_actor_result x w u op target tid nid iid ''success'' None d1)"
  unfolding recorded_by_def snd_conv by (intro impI exI) (rule refl)

lemma recorded_success [recorded_intros]: "recorded_by x w u (r, audit_actor_success x w u op target tid d1)"
  unfolding audit_actor_success_def by (rule recorded_event)

lemma recorded_audited [recorded_intros]: "recorded_by x w u (answer f (audited x w u op target ids r))"
  by (cases r) (auto simp: answer_def audited_def recorded_event recorded_error split: sum.split prod.split)

lemma recorded_user [recorded_intros]:
  "ca_user c = Some u \<Longrightarrow> recorded_by x w u (f u d) \<Longrightarrow> recorded_by x w u (with_user c f d)"
  by (simp add: with_user_def)

lemma recorded_body [recorded_intros]:
  "(\<And>v. recorded_by x w u (f v d)) \<Longrightarrow> recorded_by x w u (with_body p g c f d)"
  by (simp add: with_body_def Let_def rejected_def recorded_by_def response_of_def)

lemma recorded_admin [recorded_intros]:
  "recorded_by x w u (f d) \<Longrightarrow> recorded_by x w u (require_admin v f d)"
  by (simp add: require_admin_def recorded_error)

lemma recorded_prod [recorded_intros]:
  "(\<And>a b. recorded_by x w u (f a b d)) \<Longrightarrow> recorded_by x w u ((case v of (a, b) \<Rightarrow> f a b) d)"
  "(\<And>a b. recorded_by x w u (g a b)) \<Longrightarrow> recorded_by x w u (case v of (a, b) \<Rightarrow> g a b)"
  by (simp_all split: prod.split)

lemma recorded_sum [recorded_intros]:
  "(\<And>v. recorded_by x w u (f v)) \<Longrightarrow> (\<And>v. recorded_by x w u (g v)) \<Longrightarrow>
   recorded_by x w u (case v of Inl v \<Rightarrow> f v | Inr v \<Rightarrow> g v)"
  by (simp split: sum.split)

lemma recorded_let [recorded_intros]:
  "(\<And>v. recorded_by x w u (f v)) \<Longrightarrow> recorded_by x w u (let v = a in f v)"
  by simp

lemma recorded_handlers:
  assumes "ca_user c = Some u"
  shows "recorded_by x w u (api_logout x w c d)"
    "recorded_by x w u (api_change_password x w c d)"
    "recorded_by x w u (api_create_user x w c d)"
    "recorded_by x w u (api_update_user x w c d)"
    "recorded_by x w u (api_create_group x w c d)"
    "recorded_by x w u (api_update_group x w c d)"
    "recorded_by x w u (api_delete_group x w c d)"
    "recorded_by x w u (api_update_group_members x w c d)"
    "recorded_by x w u (api_update_global_agent_config_policy x w c d)"
    "recorded_by x w u (api_update_node_agent_config_policy x w c d)"
    "recorded_by x w u (api_create_runtime_environment x w c d)"
    "recorded_by x w u (api_update_runtime_environment x w c d)"
    "recorded_by x w u (api_delete_runtime_environment x w c d)"
    "recorded_by x w u (api_check_runtime_environment x w c d)"
    "recorded_by x w u (api_register_collector_entry x w c d)"
    "recorded_by x w u (api_update_collector_entry x w c d)"
    "recorded_by x w u (api_delete_collector_entry x w c d)"
    "recorded_by x w u (api_create_model x w c d)"
    "recorded_by x w u (api_update_model x w c d)"
    "recorded_by x w u (api_delete_model x w c d)"
    "recorded_by x w u (api_create_model_file x w c d)"
    "recorded_by x w u (api_update_model_file x w c d)"
    "recorded_by x w u (api_delete_model_file x w c d)"
    "recorded_by x w u (api_verify_model_file x w c d)"
    "recorded_by x w u (api_create_model_file_trash x w c d)"
    "recorded_by x w u (api_create_model_instance x w c d)"
    "recorded_by x w u (api_update_model_instance x w c d)"
    "recorded_by x w u (api_delete_model_instance x w c d)"
    "recorded_by x w u (api_check_model_instance x w c d)"
    "recorded_by x w u (api_start_model_instance x w c d)"
    "recorded_by x w u (api_stop_model_instance x w c d)"
    "recorded_by x w u (api_test_model_instance x w c d)"
    "recorded_by x w u (api_refresh_instance_logs x w c d)"
    "recorded_by x w u (api_start_gateway x w c d)"
    "recorded_by x w u (api_stop_gateway x w c d)"
    "recorded_by x w u (api_restart_gateway x w c d)"
    "recorded_by x w u (api_check_gateway x w c d)"
    "recorded_by x w u (api_read_gateway_log x w c d)"
    "recorded_by x w u (api_update_server_log_policy x w c d)"
    "recorded_by x w u (api_cleanup_model_file_trash x w c d)"
    "recorded_by x w u (api_delete_model_file_trash x w c d)"
  unfolding handler_defs audit_gateway_action_def by (intro recorded_intros assms)+

lemma recorded_handler:
  assumes "(p, ms) \<in> set route_table" and "(m, h) \<in> set ms" and "m \<noteq> GET"
    and "p \<notin> set public_routes" and "p \<noteq> ''/api/frontend-errors''" and "ca_user c = Some u"
  shows "recorded_by x w u (h x w c d)"
proof -
  have "list_all (\<lambda>(p, ms). list_all (\<lambda>(m, h). recorded_by x w u (h x w c d) \<or> m = GET
      \<or> p \<in> set (''/api/frontend-errors'' # public_routes)) ms) route_table"
    unfolding route_table_def list.pred_inject prod.case
    by (simp only: recorded_handlers [OF assms(6)] simp_thms) (simp add: public_routes_def)
  then have "recorded_by x w u (h x w c d) \<or> m = GET \<or> p \<in> set (''/api/frontend-errors'' # public_routes)"
    using assms(1,2) unfolding list_all_iff by blast
  with assms(3-5) show ?thesis by simp
qed

section \<open>Serving by the route\<close>

text \<open>What a request on a route is answered with, once the middleware has decided.\<close>

lemma serve_route:
  assumes "(p, ms) \<in> set route_table" and "match_path p (rq_path q) = Some vs"
  shows "serve x w q d = guarded x w q (run_route x w q ms vs) d"
  using find_route_complete [OF assms] by (simp add: serve_def)

lemma serve_public:
  assumes "(p, ms) \<in> set route_table" and "match_path p (rq_path q) = Some vs" and "p \<in> set public_routes"
  shows "serve x w q d = run_route x w q ms vs None d"
proof -
  have "is_public_path p" using public_patterns table_pattern [OF assms(1)] assms(3) by (auto simp: list_all_iff)
  then have "is_public_path (rq_path q)" using route_public [OF table_pattern [OF assms(1)] assms(2)] by simp
  then show ?thesis by (simp add: serve_route [OF assms(1,2)] guarded_def auth_public)
qed

lemma not_public_api: "\<not> is_public_path p \<Longrightarrow> starts_with p ''/api/''"
  by (rule ccontr) (simp only: is_public_path_def simp_thms)

lemma unknown_status: "rs_status (unknown_api m) \<in> {401, 404, 405}"
  by (simp add: unknown_api_def api_not_found_def error_response_def error_reply_def method_not_allowed_def
      response_of_def)

text \<open>A protected path without a valid session: nothing but session rows changes, and no handler runs.\<close>

lemma serve_no_session:
  assumes "\<not> is_public_path (rq_path q)" and "rq_path q \<noteq> ''/api/''"
    and "\<And>token. session_cookie (rq_cookie q) = Some token \<Longrightarrow>
      fst (authenticate_session x (wb_now w) token (wb_session_policy w) d) = None"
  shows "(\<exists>rows. snd (serve x w q d) = d\<lparr>user_sessions := rows\<rparr>) \<and> rs_status (fst (serve x w q d)) \<in> {401, 404, 405}"
proof -
  obtain a d1 where auth: "control_plane_auth x (wb_now w) (wb_session_policy w) q d = (a, d1)" by fastforce
  have a: "a = LoginRequired"
  proof (cases "session_cookie (rq_cookie q)")
    case None
    with auth assms(1) show ?thesis by (simp add: control_plane_auth_def Let_def)
  next
    case (Some token)
    with auth assms(1,3) show ?thesis
      by (cases "authenticate_session x (wb_now w) token (wb_session_policy w) d")
        (auto simp: control_plane_auth_def Let_def)
  qed
  have api: "starts_with (rq_path q) ''/api/''" using assms(1) by (rule not_public_api)
  obtain rows where rows: "d1 = d\<lparr>user_sessions := rows\<rparr>" using auth_sessions [OF auth] by blast
  show ?thesis
  proof (cases "find_route (rq_path q)")
    case None
    have "serve x w q d = (unknown_api (rq_method q), d)" using None api assms(2) by (simp add: serve_def)
    moreover have "d = d\<lparr>user_sessions := user_sessions d\<rparr>" by simp
    ultimately show ?thesis using unknown_status [of "rq_method q"] by (simp only: fst_conv snd_conv) blast
  next
    case (Some r)
    have "serve x w q d = (login_required, d1)" using auth a by (cases r) (simp add: serve_def Some guarded_def)
    moreover have "rs_status login_required = 401" by (simp add: login_required_def response_of_def)
    ultimately show ?thesis unfolding rows by (simp only: fst_conv snd_conv) blast
  qed
qed

text \<open>With a valid session the access matrix decides.\<close>

lemma serve_session:
  assumes "(p, ms) \<in> set route_table" and "match_path p (rq_path q) = Some vs" and "''gateway'' \<notin> set vs"
    and "p \<notin> set public_routes" and "session_cookie (rq_cookie q) = Some token"
    and "authenticate_session x (wb_now w) token (wb_session_policy w) d = (Some u, d1)"
    and "au_effective_role u \<in> set roles"
  shows "serve x w q d =
    (if au_must_change_password u \<and> \<not> is_password_change_allowed_path p
     then (forbidden_response ''Password change required before continuing'', d1)
     else if required_rank p (rq_method q) \<le> role_rank (au_effective_role u)
     then run_route x w q ms vs (Some u) d1
     else (forbidden_response ''Insufficient permissions for this operation'', d1))"
proof -
  note pat = table_pattern [OF assms(1)]
  have pub: "\<not> is_public_path p" using public_patterns pat assms(4) by (auto simp: list_all_iff)
  have p: "\<not> is_public_path (rq_path q)" using route_public [OF pat assms(2)] pub by simp
  have "starts_with p ''/api/''" using pub by (rule not_public_api)
  from access_matrix [OF pat assms(2,3) this assms(7)] route_password [OF pat assms(2)]
  show ?thesis
    by (simp add: serve_route [OF assms(1,2)] guarded_def control_plane_auth_def Let_def p assms(5,6))
qed

section \<open>Logging in and out\<close>

lemma authenticate_audit:
  "fst (authenticate_session x now t sp (d\<lparr>audit_events := es\<rparr>)) = fst (authenticate_session x now t sp d)"
proof -
  have live: "live_session now (d\<lparr>audit_events := es\<rparr>) h = live_session now d h" for h
  proof -
    have "user_of (d\<lparr>audit_events := es\<rparr>) = user_of d" by (simp add: fun_eq_iff user_of_def)
    from this show ?thesis unfolding live_session_def \<open>user_of (d\<lparr>audit_events := es\<rparr>) = user_of d\<close> by simp
  qed
  have rich: "enrich_effective_role (set_session h f (d\<lparr>audit_events := es\<rparr>)) v = enrich_effective_role (set_session h f d) v" for h f v
    by (simp add: enrich_effective_role_def group_roles_def group_of_def set_session_def)
  show ?thesis
    by (cases "live_session now d (ext_hash_token x t)")
      (simp_all add: authenticate_session_def live rich Let_def split: prod.split)
qed

lemma audit_result_events:
  "\<exists>es. audit_actor_result x w u op target tid nid iid res err d = d\<lparr>audit_events := es\<rparr>"
  by (auto simp: audit_actor_result_def record_audit_def split: sum.split intro: exI [of _ "audit_events d"])

lemma login_route: "(''/api/auth/login'', [(POST, api_login)]) \<in> set route_table"
  unfolding route_table_def by simp

lemma logout_route: "(''/api/auth/logout'', [(POST, api_logout)]) \<in> set route_table"
  unfolding route_table_def by simp

lemma match_fixed:
  "match_path ''/api/auth/login'' ''/api/auth/login'' = Some []"
  "match_path ''/api/auth/logout'' ''/api/auth/logout'' = Some []"
  by code_simp+

lemma run_one:
  "run_route x w q [(m, h)] [] user d =
     (if rq_method q = m \<or> rq_method q = HEAD \<and> m = GET then h x w \<lparr>ca_request = q, ca_user = user, ca_params = []\<rparr> d
      else (method_not_allowed, d))"
  by (auto simp: run_route_def handler_for_def decode_params_def)

lemma login_answer:
  assumes "api_login x w c d = (r, d1)" and "rs_set_cookie r \<noteq> None"
  shows "\<exists>name pw u d2 es. login_user x (wb_now w) (wb_session_id w) (wb_token w) name pw (wb_session_policy w)
      (wb_password_policy w) d = (Inr (Some (u, wb_token w)), d2) \<and> d1 = d2\<lparr>audit_events := es\<rparr>
    \<and> r = greeting w u (wb_token w)"
proof (cases "is_PLogin (rq_payload (ca_request c))")
  case False
  with assms show ?thesis by (auto simp: api_login_def with_body_def Let_def rejected_def response_of_def)
next
  case True
  obtain name pw where body: "the_login (rq_payload (ca_request c)) = (name, pw)" by fastforce
  obtain res d2 where l: "login_user x (wb_now w) (wb_session_id w) (wb_token w) name pw (wb_session_policy w)
      (wb_password_policy w) d = (res, d2)" by fastforce
  have no_cookie: "rs_set_cookie (error_response e) = None" for e
    by (simp add: error_response_def response_of_def split: prod.split)
  have run: "(r, d1) = (case (res, d2) of
       (Inl e, d1) \<Rightarrow> (error_response (ApiInternal e), d1)
     | (Inr None, d1) \<Rightarrow> (error_response ApiUnauthorized, d1)
     | (Inr (Some (u, token)), d1) \<Rightarrow>
         (greeting w u token, audit_actor_success x w u ''auth.login'' ''user'' (Some (au_id u)) d1))"
    using assms(1) True body unfolding api_login_def with_body_def Let_def l [symmetric] by simp
  obtain u t where res: "res = Inr (Some (u, t))"
    and d1: "d1 = audit_actor_success x w u ''auth.login'' ''user'' (Some (au_id u)) d2" and r: "r = greeting w u t"
  proof (cases res)
    case (Inl e)
    with run assms(2) no_cookie show ?thesis by simp
  next
    case (Inr v)
    with run assms(2) no_cookie that show ?thesis by (cases v) (auto simp only: sum.case option.case prod.case prod.inject)
  qed
  have "t = wb_token w" using login_Some l res by blast
  moreover obtain es where "d1 = d2\<lparr>audit_events := es\<rparr>"
    unfolding d1 audit_actor_success_def using audit_result_events by blast
  ultimately show ?thesis using l res r by blast
qed

section \<open>Agents\<close>

text \<open>The node an agent's request speaks for.\<close>

fun named_node :: "payload \<Rightarrow> string option" where
  "named_node (PHeartbeat h) = Some (hb_node_id h)"
| "named_node (PPoll v) = Some (fst v)"
| "named_node (PResult r) = Some (tq_node_id r)"
| "named_node _ = None"

definition refused_or_authorized :: "ext \<Rightarrow> call \<Rightarrow> response \<times> db \<Rightarrow> db \<Rightarrow> bool" where
  "refused_or_authorized x c r d \<longleftrightarrow> rs_status (fst r) \<noteq> 200 \<and> snd r = d
     \<or> (\<exists>nid. named_node (rq_payload (ca_request c)) = Some nid \<and> node_authorized x c nid d)"

lemma as_node_authorized:
  "named_node (rq_payload (ca_request c)) = Some nid \<Longrightarrow> refused_or_authorized x c (as_node x c nid f d) d"
  using status_error [of ApiUnauthorized] by (simp add: refused_or_authorized_def as_node_def)

lemma body_refused: "\<not> p (rq_payload (ca_request c)) \<Longrightarrow> refused_or_authorized x c (with_body p g c f d) d"
  by (simp add: refused_or_authorized_def with_body_def Let_def rejected_def response_of_def)

lemma agent_handlers:
  "refused_or_authorized x c (api_agent_heartbeat x w c d) d"
  "refused_or_authorized x c (api_agent_task_poll x w c d) d"
  "refused_or_authorized x c (api_agent_task_result x w c d) d"
proof -
  show "refused_or_authorized x c (api_agent_heartbeat x w c d) d"
  proof (cases "rq_payload (ca_request c)")
    case (PHeartbeat h)
    then show ?thesis using as_node_authorized [of c "hb_node_id h"] by (simp add: api_agent_heartbeat_def with_body_def Let_def)
  qed (simp_all add: api_agent_heartbeat_def body_refused)
  show "refused_or_authorized x c (api_agent_task_poll x w c d) d"
  proof (cases "rq_payload (ca_request c)")
    case (PPoll v)
    then show ?thesis using as_node_authorized [of c "fst v"]
      by (cases v) (simp add: api_agent_task_poll_def with_body_def Let_def)
  qed (simp_all add: api_agent_task_poll_def body_refused)
  show "refused_or_authorized x c (api_agent_task_result x w c d) d"
  proof (cases "rq_payload (ca_request c)")
    case (PResult v)
    then show ?thesis using as_node_authorized [of c "tq_node_id v"]
      by (simp add: api_agent_task_result_def with_body_def Let_def)
  qed (simp_all add: api_agent_task_result_def body_refused)
qed

lemma run_refused:
  assumes "\<And>c. refused_or_authorized x c (h x w c d) d" and "run_route x w q [(m, h)] vs None d = (r, d')"
    and "rs_status r = 200 \<or> d' \<noteq> d"
  shows "\<exists>nid. named_node (rq_payload q) = Some nid
    \<and> node_authorized x \<lparr>ca_request = q, ca_user = None, ca_params = []\<rparr> nid d"
proof -
  from assms(2,3) obtain ps where "h x w \<lparr>ca_request = q, ca_user = None, ca_params = ps\<rparr> d = (r, d')"
    by (auto simp: run_route_def method_not_allowed_def response_of_def split: option.splits if_splits)
      (auto simp: handler_for_def split: option.splits if_splits)
  with assms(1) [of "\<lparr>ca_request = q, ca_user = None, ca_params = ps\<rparr>"] assms(3) show ?thesis
    by (auto simp: refused_or_authorized_def node_authorized_def)
qed

lemma agent_request_authorized:
  assumes "p \<in> {''/api/agent/heartbeat'', ''/api/agent/tasks/poll'', ''/api/agent/tasks/{id}/result''}"
    and "match_path p (rq_path q) = Some vs" and "serve x w q d = (r, d')" and "rs_status r = 200 \<or> d' \<noteq> d"
  shows "\<exists>nid. named_node (rq_payload q) = Some nid
    \<and> node_authorized x \<lparr>ca_request = q, ca_user = None, ca_params = []\<rparr> nid d"
proof -
  obtain h where h: "(p, [(POST, h)]) \<in> set route_table" "\<And>c. refused_or_authorized x c (h x w c d) d"
  proof -
    have "(''/api/agent/heartbeat'', [(POST, api_agent_heartbeat)]) \<in> set route_table"
      "(''/api/agent/tasks/poll'', [(POST, api_agent_task_poll)]) \<in> set route_table"
      "(''/api/agent/tasks/{id}/result'', [(POST, api_agent_task_result)]) \<in> set route_table"
      unfolding route_table_def by simp_all
    with agent_handlers assms(1) that show ?thesis unfolding insert_iff empty_iff by (elim disjE) simp_all
  qed
  have "p \<in> set public_routes" using assms(1) unfolding public_routes_def by auto
  from serve_public [OF h(1) assms(2) this] have "run_route x w q [(POST, h)] vs None d = (r, d')" using assms(3) by simp
  from run_refused [OF h(2) this assms(4)] show ?thesis .
qed

section \<open>Every answer is proper\<close>

lemma proper_status: "rs_status r \<noteq> 500 \<Longrightarrow> proper r"
  by (simp add: proper_def)

lemma proper_run:
  assumes "(p, ms) \<in> set route_table" and "p \<in> set public_routes \<or> user \<noteq> None"
  shows "proper (fst (run_route x w q ms vs user d))"
proof (cases "handler_for ms (rq_method q)")
  case None
  then show ?thesis by (simp add: run_route_def proper_status method_not_allowed_def response_of_def)
next
  case (Some h)
  then obtain m where "(m, h) \<in> set ms" using handler_for_in by blast
  with proper_handler [OF assms(1) this] proper_public_handler [OF assms(1) this] assms(2) Some
  show ?thesis by (auto simp: run_route_def proper_status response_of_def split: option.split)
qed

lemma serve_proper:
  assumes "wb_static w = None"
  shows "proper (fst (serve x w q d))"
proof (cases "find_route (rq_path q)")
  case None
  have "proper (web_fallback w m path)" for m path
    using assms by (simp add: web_fallback_def proper_status response_of_def)
  moreover have "proper (unknown_api m)" for m using unknown_status [of m] by (auto intro!: proper_status)
  ultimately show ?thesis using None by (simp add: serve_def)
next
  case (Some r)
  obtain ms vs where r: "r = (ms, vs)" by fastforce
  from find_route_pattern [OF Some [unfolded r]] obtain p
    where p: "(p, ms) \<in> set route_table" "match_path p (rq_path q) = Some vs" by blast
  show ?thesis
  proof (cases "p \<in> set public_routes")
    case True
    with proper_run [OF p(1)] serve_public [OF p True] show ?thesis by simp
  next
    case False
    with public_patterns table_pattern [OF p(1)] route_public [OF table_pattern [OF p(1)] p(2)]
    have pub: "\<not> is_public_path (rq_path q)" by (auto simp: list_all_iff)
    obtain a d1 where auth: "control_plane_auth x (wb_now w) (wb_session_policy w) q d = (a, d1)" by fastforce
    have "a \<noteq> PassThrough" using auth pub
      by (auto simp: control_plane_auth_def Let_def split: option.splits prod.splits if_splits)
    then show ?thesis
      using proper_run [OF p(1), of "Some u" for u]
      by (cases a) (auto simp: serve_route [OF p] guarded_def auth proper_status login_required_def
          forbidden_response_def response_of_def)
  qed
qed

end
