(* ===== verification/AgentHost.thy ===== *)
theory AgentHost
  imports GatewaySupervisor
begin

text \<open>
  The surroundings of the agent's tasks (\<^verbatim>\<open>agent/src/tasks\<close>): what the operating system, the
  programs the agent runs and the network answer (\<open>agent_host\<close>), the state the agent keeps between
  tasks (\<open>agent_mem\<close>), the effects of a task in their order (\<open>agent_effect\<close>), and the results
  (\<^verbatim>\<open>tasks/result.rs\<close>) with the JSON the server is sent.
\<close>

unbundle bit_operations_syntax

section \<open>Paths and files\<close>

record io_error =
  ie_not_found :: bool
  ie_text :: string

datatype file_kind = RegularFile | Directory | SymbolicLink | SpecialFile

record file_meta =
  fm_kind :: file_kind
  fm_len :: nat
  fm_mode :: "32 word"

text \<open>\<open>permissions().mode() & 0o111 != 0\<close>.\<close>

definition is_executable :: "file_meta \<Rightarrow> bool" where
  "is_executable m \<longleftrightarrow> fm_mode m AND 73 \<noteq> 0"

definition has_parent_dir :: "string \<Rightarrow> bool" where
  "has_parent_dir p \<longleftrightarrow> ''..'' \<in> set (path_components p)"

definition is_absolute :: "string \<Rightarrow> bool" where
  "is_absolute p \<longleftrightarrow> starts_with p ''/''"

text \<open>\<open>Path::starts_with\<close> compares whole components.\<close>

definition path_within :: "string \<Rightarrow> string \<Rightarrow> bool" where
  "path_within p dir \<longleftrightarrow>
     is_absolute p = is_absolute dir
     \<and> take (length (path_components dir)) (path_components p) = path_components dir"

text \<open>\<open>dir.join(name)\<close> for a relative name.\<close>

definition path_join :: "string \<Rightarrow> string \<Rightarrow> string" where
  "path_join dir name = (if dir = [] \<or> ends_with dir ''/'' then dir @ name else dir @ ''/'' @ name)"

section \<open>The host\<close>

text \<open>A program that was run to its end, with the text of its exit status.\<close>

record command_output =
  co_success :: bool
  co_status :: string
  co_stdout :: string
  co_stderr :: string

datatype command_result = TimedOut | RunFailed string | Finished command_output

datatype request_method = Get | Post json

text \<open>A response has a code, the text of the code (\<open>200 OK\<close>) and a body that may be unreadable.\<close>

datatype http_result = NoResponse string | Response nat string "string + string"

definition is_success :: "nat \<Rightarrow> bool" where
  "is_success code \<longleftrightarrow> 200 \<le> code \<and> code < 300"

definition is_redirection :: "nat \<Rightarrow> bool" where
  "is_redirection code \<longleftrightarrow> 300 \<le> code \<and> code < 400"

text \<open>\<open>try_wait\<close> of a child: it has exited with a status, it runs, or the call fails.\<close>

datatype child_state = Exited string | Alive | WaitFailed string

text \<open>
  Requests of one task are numbered, as an endpoint can answer differently each time. The same holds
  for the looks at the child and for the output it has written by then: chunks of bytes, each
  with the stream it came from.
\<close>

record agent_host =
  ah_lossy :: "string \<Rightarrow> string"
  ah_meta :: "string \<Rightarrow> io_error + file_meta"
  ah_canonical :: "string \<Rightarrow> io_error + string \<times> bool"
  ah_remove :: "string \<Rightarrow> string option"
  ah_read :: "string \<Rightarrow> io_error + string"
  ah_read_text :: "string \<Rightarrow> string + string"
  ah_create_dir :: "string \<Rightarrow> string option"
  ah_run :: "string \<Rightarrow> string list \<Rightarrow> command_result"
  ah_client :: "string option"
  ah_http :: "nat \<Rightarrow> request_method \<Rightarrow> string \<Rightarrow> http_result"
  ah_bind :: "string \<Rightarrow> (bool \<times> string) option"
  ah_spawn :: "string \<Rightarrow> string list \<Rightarrow> string + int option"
  ah_child :: "nat \<Rightarrow> child_state"
  ah_output :: "nat \<Rightarrow> (string \<times> string) list"
  ah_kill_child :: "string option"
  ah_daemon :: "string \<Rightarrow> child_state"
  ah_store_save :: "string option"
  ah_json_error :: "string \<Rightarrow> string"
  ah_processes :: host
  ah_gateway :: gateway_host
  ah_gateway_after :: gateway_host
  ah_log_dir :: "string option"
  ah_clock :: int
  ah_elapsed :: nat
  ah_delay :: "nat \<Rightarrow> nat"

section \<open>State and effects\<close>

text \<open>
  A handle has the command and the output read from the child so far.
  \<open>am_registry\<close> holds the children by instance, \<open>am_daemons\<close> the Ollama daemons by runtime
  environment, \<open>am_store\<close> the file of managed processes and \<open>am_gateway\<close> the gateway's state
  file (no path, or the path and what the file holds), \<open>am_logs\<close> the agent's own log.
\<close>

record process_handle =
  ph_command :: string
  ph_output :: "(string \<times> string) list"

record daemon_handle =
  dh_log_path :: string

record agent_mem =
  am_registry :: "string \<Rightarrow> process_handle option"
  am_daemons :: "string \<Rightarrow> daemon_handle option"
  am_store :: "(string + process_store) option"
  am_gateway :: "(string \<times> stored) option"
  am_logs :: log_files

text \<open>A spawned child has its arguments, the environment variables set for it and its working directory.\<close>

datatype agent_effect =
    FileRemoved string
  | ProgramRun string "string list"
  | ChildSpawned string "string list" "(string \<times> string) list" "string option"
  | ChildKilled
  | ProcessKilled kill_action
  | Requested request_method string
  | GatewayEffect gateway_effect
  | LogLine string string

fun is_request :: "agent_effect \<Rightarrow> bool" where
  "is_request (Requested _ _) = True"
| "is_request _ = False"

definition requests :: "agent_effect list \<Rightarrow> nat" where
  "requests es = length (filter is_request es)"

text \<open>\<open>find\<close>, \<open>upsert\<close> and \<open>remove\<close> of \<^verbatim>\<open>managed_process.rs\<close> on the file of the agent: each reads the file first.\<close>

definition store_find :: "string \<Rightarrow> agent_mem \<Rightarrow> string + process_record option" where
  "store_find i m =
     (case am_store m of
        Some (Inl e) \<Rightarrow> Inl e
      | Some (Inr rs) \<Rightarrow> Inr (find_record i rs)
      | None \<Rightarrow> Inr None)"

definition store_change ::
  "agent_host \<Rightarrow> (process_store \<Rightarrow> process_store) \<Rightarrow> agent_mem \<Rightarrow> string option \<times> agent_mem" where
  "store_change h f m =
     (case am_store m of
        Some (Inl e) \<Rightarrow> (Some e, m)
      | Some (Inr rs) \<Rightarrow>
          (case ah_store_save h of
             Some e \<Rightarrow> (Some e, m)
           | None \<Rightarrow> (None, m\<lparr>am_store := Some (Inr (f rs))\<rparr>))
      | None \<Rightarrow> (None, m))"

definition store_upsert :: "agent_host \<Rightarrow> process_record \<Rightarrow> agent_mem \<Rightarrow> string option \<times> agent_mem" where
  "store_upsert h r m = store_change h (upsert_record r) m"

definition store_remove :: "agent_host \<Rightarrow> string \<Rightarrow> agent_mem \<Rightarrow> string option \<times> agent_mem" where
  "store_remove h i m = store_change h (remove_record i) m"

section \<open>Results\<close>

record verify_result =
  vr_file_status :: string
  vr_size_bytes :: "int option"
  vr_path_type :: "string option"
  vr_message :: string

record cleanup_result =
  cx_cleanup_status :: string
  cx_message :: string

record runtime_check_result =
  rk_check_status :: string
  rk_version :: "string option"
  rk_message :: string

record instance_result =
  it_instance_status :: string
  it_message :: string
  it_base_url :: "string option"
  it_endpoint_url :: "string option"
  it_process_id :: "int option"
  it_process_ref :: "string option"
  it_response_summary :: "string option"
  it_log_tail :: "string option"
  it_command :: "string option"

record log_result =
  lr_log_status :: string
  lr_content :: string
  lr_message :: string

definition runtime_unavailable :: "string \<Rightarrow> runtime_check_result" where
  "runtime_unavailable m =
     \<lparr>rk_check_status = ''unavailable'', rk_version = None, rk_message = m\<rparr>"

definition instance_failure_with_details ::
  "string \<Rightarrow> string option \<Rightarrow> string option \<Rightarrow> instance_result" where
  "instance_failure_with_details m log_tail command =
     \<lparr>it_instance_status = ''failed'', it_message = m, it_base_url = None, it_endpoint_url = None,
      it_process_id = None, it_process_ref = None, it_response_summary = None,
      it_log_tail = log_tail, it_command = command\<rparr>"

definition instance_failure :: "string \<Rightarrow> instance_result" where
  "instance_failure m = instance_failure_with_details m None None"

text \<open>An instance that a stop has left stopped.\<close>

definition instance_stopped :: "string \<Rightarrow> string option \<Rightarrow> string option \<Rightarrow> instance_result" where
  "instance_stopped m log_tail command =
     (instance_failure_with_details m log_tail command)\<lparr>it_instance_status := ''stopped''\<rparr>"

section \<open>Results as JSON\<close>

text \<open>\<open>serde_json::to_value\<close>: an absent option is null, or left out where the field says so.\<close>

definition jint_opt :: "int option \<Rightarrow> json" where
  "jint_opt v = (case v of None \<Rightarrow> JNull | Some i \<Rightarrow> JInt i)"

definition member_opt :: "string \<Rightarrow> json option \<Rightarrow> (string \<times> json) list" where
  "member_opt k v = (case v of None \<Rightarrow> [] | Some j \<Rightarrow> [(k, j)])"

definition verify_json :: "verify_result \<Rightarrow> json" where
  "verify_json r =
     JObj [(''file_status'', JStr (vr_file_status r)), (''size_bytes'', jint_opt (vr_size_bytes r)),
           (''path_type'', jopt (vr_path_type r)), (''message'', JStr (vr_message r))]"

definition cleanup_json :: "cleanup_result \<Rightarrow> json" where
  "cleanup_json r =
     JObj [(''cleanup_status'', JStr (cx_cleanup_status r)), (''message'', JStr (cx_message r))]"

definition runtime_check_json :: "runtime_check_result \<Rightarrow> json" where
  "runtime_check_json r =
     JObj [(''check_status'', JStr (rk_check_status r)), (''version'', jopt (rk_version r)),
           (''message'', JStr (rk_message r))]"

definition instance_json :: "instance_result \<Rightarrow> json" where
  "instance_json r =
     JObj ([(''instance_status'', JStr (it_instance_status r)), (''message'', JStr (it_message r))]
       @ member_opt ''base_url'' (map_option JStr (it_base_url r))
       @ member_opt ''endpoint_url'' (map_option JStr (it_endpoint_url r))
       @ member_opt ''process_id'' (map_option JInt (it_process_id r))
       @ member_opt ''process_ref'' (map_option JStr (it_process_ref r))
       @ member_opt ''response_summary'' (map_option JStr (it_response_summary r))
       @ member_opt ''log_tail'' (map_option JStr (it_log_tail r))
       @ member_opt ''command'' (map_option JStr (it_command r)))"

definition log_json :: "log_result \<Rightarrow> json" where
  "log_json r =
     JObj [(''log_status'', JStr (lr_log_status r)), (''content'', JStr (lr_content r)),
           (''message'', JStr (lr_message r))]"

definition gateway_json :: "gateway_response \<Rightarrow> json" where
  "gateway_json r =
     JObj [(''gateway_status'', JStr (gr_gateway_status r)), (''message'', JStr (gr_message r)),
           (''process_id'', jint_opt (gr_process_id r)), (''process_ref'', jopt (gr_process_ref r)),
           (''health_url'', jopt (gr_health_url r)), (''log_tail'', jopt (gr_log_tail r)),
           (''command'', jopt (gr_command r))]"

text \<open>What the server reads back of a result.\<close>

lemma jget_JObj: "jget (JObj kvs) k = map_of kvs k"
  by simp

lemma map_of_member_opt: "map_of (member_opt k v) j = (if j = k then v else None)"
  by (simp add: member_opt_def split: option.split)

lemma get_str_verify [simp]:
  "get_str (verify_json r) ''file_status'' = Some (vr_file_status r)"
  "get_str (verify_json r) ''path_type'' = vr_path_type r"
  "get_str (verify_json r) ''message'' = Some (vr_message r)"
  by (simp_all add: verify_json_def get_str_def jopt_def split: option.split)

lemma get_i64_verify:
  "get_i64 (verify_json r) ''size_bytes'' = Option.bind (vr_size_bytes r) (\<lambda>i. as_i64 (JInt i))"
  by (simp add: verify_json_def get_i64_def jint_opt_def split: option.split)

lemma get_str_cleanup [simp]:
  "get_str (cleanup_json r) ''message'' = Some (cx_message r)"
  by (simp add: cleanup_json_def get_str_def)

lemma bind_map_JStr [simp]: "Option.bind (map_option JStr v) as_str = v"
  by (cases v) simp_all

lemma get_str_instance [simp]:
  "get_str (instance_json r) ''instance_status'' = Some (it_instance_status r)"
  "get_str (instance_json r) ''message'' = Some (it_message r)"
  "get_str (instance_json r) ''base_url'' = it_base_url r"
  "get_str (instance_json r) ''endpoint_url'' = it_endpoint_url r"
  "get_str (instance_json r) ''process_ref'' = it_process_ref r"
  "get_str (instance_json r) ''response_summary'' = it_response_summary r"
  "get_str (instance_json r) ''log_tail'' = it_log_tail r"
  "get_str (instance_json r) ''command'' = it_command r"
  by (simp_all add: instance_json_def get_str_def map_of_append map_add_def map_of_member_opt
      del: jget.simps add: jget_JObj split: option.split)

lemma get_str_runtime_check [simp]:
  "get_str (runtime_check_json r) ''check_status'' = Some (rk_check_status r)"
  "get_str (runtime_check_json r) ''message'' = Some (rk_message r)"
  "get_str (runtime_check_json r) ''version'' = rk_version r"
  by (simp_all add: runtime_check_json_def get_str_def jopt_def split: option.split)

lemma instance_failure_simps [simp]:
  "it_instance_status (instance_failure_with_details m l c) = ''failed''"
  "it_instance_status (instance_failure m) = ''failed''"
  "it_instance_status (instance_stopped m l c) = ''stopped''"
  "it_command (instance_failure_with_details m l c) = c"
  "it_command (instance_failure m) = None"
  "it_command (instance_stopped m l c) = c"
  by (simp_all add: instance_failure_with_details_def instance_failure_def instance_stopped_def)

end
