(* ===== verification/FileTasks.thy ===== *)
theory FileTasks
  imports AgentHost
begin

text \<open>
  \<^verbatim>\<open>agent/src/tasks/verify_model.rs\<close> and \<^verbatim>\<open>tasks/cleanup.rs\<close>: the check of a model path and the
  removal of a model file. The file system is the host; it does not change while a task looks at it.
\<close>

section \<open>Verification\<close>

definition verify_failure :: "string \<Rightarrow> string \<Rightarrow> verify_result" where
  "verify_failure status m =
     \<lparr>vr_file_status = status, vr_size_bytes = None, vr_path_type = None, vr_message = m\<rparr>"

definition verified_as :: "int option \<Rightarrow> string \<Rightarrow> string \<Rightarrow> verify_result" where
  "verified_as n path_type m =
     \<lparr>vr_file_status = ''verified'', vr_size_bytes = n, vr_path_type = Some path_type, vr_message = m\<rparr>"

definition verify_custom :: "agent_host \<Rightarrow> string \<Rightarrow> verify_result" where
  "verify_custom h path =
     (case ah_meta h path of
        Inr _ \<Rightarrow> verified_as None ''custom'' ''custom path verified''
      | Inl e \<Rightarrow>
          if ie_not_found e
          then verified_as None ''custom''
                 ''Custom path does not exist; verify the path is available on the target node''
          else verify_failure ''failed'' (''failed to read path info: '' @ ie_text e))"

definition verify_meta :: "string option \<Rightarrow> file_meta \<Rightarrow> verify_result" where
  "verify_meta hint m =
     (if fm_kind m = SymbolicLink
      then verify_failure ''security_risk'' ''Security risk: model path must not be a symlink''
      else if fm_kind m = Directory then
        (if hint = Some ''file''
         then verify_failure ''type_mismatch'' ''Expected a model file, but path is a directory''
         else verified_as None ''directory'' ''directory verified'')
      else if fm_kind m \<noteq> RegularFile
      then verify_failure ''not_file'' ''path is not a regular file or directory''
      else if hint = Some ''directory''
      then verify_failure ''type_mismatch'' ''Expected a model directory, but path is a regular file''
      else verified_as (Some (min (int (fm_len m)) (2 ^ 63 - 1))) ''file'' ''file verified'')"

definition verify_model_file_with_hint :: "agent_host \<Rightarrow> string \<Rightarrow> string option \<Rightarrow> verify_result" where
  "verify_model_file_with_hint h path hint =
     (if blank path \<or> contains path ''..'' then verify_failure ''invalid_path'' ''invalid path''
      else if hint = Some ''ollama'' then verified_as None ''ollama'' ''Ollama model name accepted''
      else if hint = Some ''custom'' then verify_custom h path
      else case ah_meta h path of
        Inl e \<Rightarrow>
          if ie_not_found e then verify_failure ''missing'' ''path does not exist''
          else verify_failure ''failed'' (''failed to read file info: '' @ ie_text e)
      | Inr m \<Rightarrow> verify_meta hint m)"

definition agent_verify_model_file :: "agent_host \<Rightarrow> string \<Rightarrow> verify_result" where
  "agent_verify_model_file h path = verify_model_file_with_hint h path None"

section \<open>Clean-up\<close>

definition agent_cleanup_failure :: "string \<Rightarrow> cleanup_result" where
  "agent_cleanup_failure m = \<lparr>cx_cleanup_status = ''failed'', cx_message = m\<rparr>"

datatype dir_check = GoodDir string | InvalidDir | MissingDir | InaccessibleDir

definition check_allowed_dir :: "agent_host \<Rightarrow> string \<Rightarrow> dir_check" where
  "check_allowed_dir h dir =
     (if blank dir \<or> has_parent_dir dir \<or> \<not> is_absolute dir then InvalidDir
      else case ah_canonical h dir of
        Inr (canonical, is_dir) \<Rightarrow> if is_dir then GoodDir canonical else InvalidDir
      | Inl e \<Rightarrow> if ie_not_found e then MissingDir else InaccessibleDir)"

datatype dir_resolution = Dirs "string list" | InvalidConfig | MissingDirs | InaccessibleDirs

fun good_dir :: "dir_check \<Rightarrow> string option" where
  "good_dir (GoodDir d) = Some d"
| "good_dir _ = None"

definition allowed_canonical_dirs :: "agent_host \<Rightarrow> string list \<Rightarrow> dir_resolution" where
  "allowed_canonical_dirs h allowed =
     (let checks = map (check_allowed_dir h) allowed; dirs = List.map_filter good_dir checks
      in if dirs \<noteq> [] then Dirs dirs
         else if InvalidDir \<in> set checks then InvalidConfig
         else if MissingDir \<in> set checks then MissingDirs
         else if InaccessibleDir \<in> set checks then InaccessibleDirs
         else InvalidConfig)"

text \<open>The last steps, with the allowed directories resolved.\<close>

definition remove_within ::
  "agent_host \<Rightarrow> string list \<Rightarrow> string \<Rightarrow> cleanup_result \<times> agent_effect list" where
  "remove_within h dirs path =
     (case ah_meta h path of
        Inl e \<Rightarrow>
          (agent_cleanup_failure (if ie_not_found e then ''file does not exist''
                            else ''failed to read file info: '' @ ie_text e), [])
      | Inr m \<Rightarrow>
          if fm_kind m = SymbolicLink then (agent_cleanup_failure ''Security risk: refusing to delete symlink'', [])
          else if fm_kind m \<noteq> RegularFile
          then (agent_cleanup_failure ''refusing to delete directory or non-regular file'', [])
          else case ah_canonical h path of
            Inl e \<Rightarrow> (agent_cleanup_failure (''failed to resolve file path: '' @ ie_text e), [])
          | Inr (target, _) \<Rightarrow>
              if \<not> (\<exists>d \<in> set dirs. path_within target d)
              then (agent_cleanup_failure ''file not within allowed model directory'', [])
              else case ah_remove h path of
                Some e \<Rightarrow> (agent_cleanup_failure (''failed to delete file: '' @ e), [])
              | None \<Rightarrow>
                  (\<lparr>cx_cleanup_status = ''deleted'', cx_message = ''file cleaned up''\<rparr>, [FileRemoved path]))"

definition agent_cleanup_model_file ::
  "agent_host \<Rightarrow> string \<Rightarrow> string list \<Rightarrow> cleanup_result \<times> agent_effect list" where
  "agent_cleanup_model_file h path allowed =
     (if allowed = []
      then (agent_cleanup_failure ''no allowed model directory configured; refusing to delete file'', [])
      else if blank path \<or> has_parent_dir path then (agent_cleanup_failure ''invalid path'', [])
      else if \<not> is_absolute path then (agent_cleanup_failure ''path must be absolute'', [])
      else case allowed_canonical_dirs h allowed of
        InvalidConfig \<Rightarrow> (agent_cleanup_failure ''allowed model directory config is invalid'', [])
      | MissingDirs \<Rightarrow> (agent_cleanup_failure ''allowed model directory does not exist'', [])
      | InaccessibleDirs \<Rightarrow> (agent_cleanup_failure ''allowed model directory not accessible'', [])
      | Dirs dirs \<Rightarrow>
          if dirs = [] then (agent_cleanup_failure ''allowed model directory config is invalid'', [])
          else remove_within h dirs path)"

section \<open>Facts\<close>

lemma verify_failure_simps [simp]: "vr_file_status (verify_failure s m) = s"
  by (simp add: verify_failure_def)

lemma verified_as_simps [simp]:
  "vr_file_status (verified_as n t m) = ''verified''" "vr_path_type (verified_as n t m) = Some t"
  "vr_size_bytes (verified_as n t m) = n"
  by (simp_all add: verified_as_def)

text \<open>What a verified path is, when the hint does not stand for a name that is no file.\<close>

definition plain_hint :: "string option \<Rightarrow> bool" where
  "plain_hint hint \<longleftrightarrow> hint \<notin> {Some ''ollama'', Some ''custom''}"

lemma verify_meta_verified:
  "vr_file_status (verify_meta hint m) = ''verified'' \<longleftrightarrow>
   (fm_kind m = Directory \<and> hint \<noteq> Some ''file'') \<or> (fm_kind m = RegularFile \<and> hint \<noteq> Some ''directory'')"
  by (auto simp: verify_meta_def)

lemma verified_iff:
  assumes "plain_hint hint"
  shows "vr_file_status (verify_model_file_with_hint h path hint) = ''verified'' \<longleftrightarrow>
    \<not> blank path \<and> \<not> contains path ''..'' \<and>
    (\<exists>m. ah_meta h path = Inr m \<and>
      ((fm_kind m = Directory \<and> hint \<noteq> Some ''file'') \<or> (fm_kind m = RegularFile \<and> hint \<noteq> Some ''directory'')))"
  using assms
  by (auto simp: plain_hint_def verify_model_file_with_hint_def verify_meta_verified split: sum.split)

lemma verified_size:
  "vr_size_bytes (verify_model_file_with_hint h path hint) = Some n \<Longrightarrow>
   0 \<le> n \<and> n < 2 ^ 63 \<and> (\<exists>m. ah_meta h path = Inr m \<and> fm_kind m = RegularFile \<and> n = min (int (fm_len m)) (2 ^ 63 - 1))"
  by (auto simp: verify_model_file_with_hint_def verify_custom_def verify_meta_def verify_failure_def
      split: sum.splits if_splits)

lemma allowed_dirs_good:
  assumes "allowed_canonical_dirs h allowed = Dirs dirs"
  shows "dirs \<noteq> [] \<and> (\<forall>d \<in> set dirs. \<exists>a \<in> set allowed. \<not> has_parent_dir a \<and> is_absolute a \<and> ah_canonical h a = Inr (d, True))"
proof -
  from assms have dirs: "dirs = List.map_filter good_dir (map (check_allowed_dir h) allowed)" "dirs \<noteq> []"
    by (auto simp: allowed_canonical_dirs_def Let_def split: if_splits)
  have "\<exists>a \<in> set allowed. \<not> has_parent_dir a \<and> is_absolute a \<and> ah_canonical h a = Inr (d, True)"
    if "d \<in> set dirs" for d
  proof -
    from that dirs(1) obtain a where a: "a \<in> set allowed" "good_dir (check_allowed_dir h a) = Some d"
      by (auto simp: List.map_filter_def)
    then have "check_allowed_dir h a = GoodDir d" by (cases "check_allowed_dir h a") simp_all
    with a(1) show ?thesis
      by (auto simp: check_allowed_dir_def split: if_splits sum.splits prod.splits)
  qed
  with dirs(2) show ?thesis by blast
qed

text \<open>A removal: of which path, and what was known of it.\<close>

lemma remove_within_removed:
  assumes "FileRemoved p \<in> set (snd (remove_within h dirs path))"
  shows "p = path \<and> snd (remove_within h dirs path) = [FileRemoved path]
    \<and> cx_cleanup_status (fst (remove_within h dirs path)) = ''deleted'' \<and> ah_remove h path = None
    \<and> (\<exists>m. ah_meta h path = Inr m \<and> fm_kind m = RegularFile)
    \<and> (\<exists>t k. ah_canonical h path = Inr (t, k) \<and> (\<exists>d \<in> set dirs. path_within t d))"
  using assms by (auto simp: remove_within_def split: sum.splits prod.splits if_splits option.splits)

lemma remove_within_status:
  "cx_cleanup_status (fst (remove_within h dirs path)) = ''deleted'' \<longleftrightarrow>
   snd (remove_within h dirs path) = [FileRemoved path]"
  by (auto simp: remove_within_def agent_cleanup_failure_def split: sum.split prod.split option.split)

lemma cleanup_removed:
  assumes "FileRemoved p \<in> set (snd (agent_cleanup_model_file h path allowed))"
  shows "p = path \<and> is_absolute path \<and> \<not> has_parent_dir path
    \<and> (\<exists>m. ah_meta h path = Inr m \<and> fm_kind m = RegularFile)
    \<and> (\<exists>t k a d. ah_canonical h path = Inr (t, k) \<and> a \<in> set allowed \<and> ah_canonical h a = Inr (d, True)
        \<and> path_within t d)"
proof -
  from assms obtain dirs where d: "allowed_canonical_dirs h allowed = Dirs dirs"
    "FileRemoved p \<in> set (snd (remove_within h dirs path))" "is_absolute path" "\<not> has_parent_dir path"
    by (auto simp: agent_cleanup_model_file_def split: if_splits dir_resolution.splits)
  from remove_within_removed [OF d(2)] obtain t k d where "p = path"
    "\<exists>m. ah_meta h path = Inr m \<and> fm_kind m = RegularFile"
    "ah_canonical h path = Inr (t, k)" "d \<in> set dirs" "path_within t d" by blast
  with allowed_dirs_good [OF d(1)] d(3,4) show ?thesis by blast
qed

lemma cleanup_status:
  "cx_cleanup_status (fst (agent_cleanup_model_file h path allowed)) = ''deleted'' \<longleftrightarrow>
   snd (agent_cleanup_model_file h path allowed) = [FileRemoved path]"
  by (auto simp: agent_cleanup_model_file_def remove_within_status agent_cleanup_failure_def split: dir_resolution.split)

lemma cleanup_effects:
  "snd (agent_cleanup_model_file h path allowed) \<in> {[], [FileRemoved path]}"
  by (auto simp: agent_cleanup_model_file_def remove_within_def split: dir_resolution.split sum.split prod.split option.split)

end
