(* ===== verification/RuntimeCheck.thy ===== *)
theory RuntimeCheck
  imports AgentHost
begin

text \<open>
  \<^verbatim>\<open>agent/src/tasks/runtime_check.rs\<close>: the check of a runtime environment. An entrypoint must be an
  absolute path of a regular executable file; its version is asked for only after that.
\<close>

definition check_status :: "string \<Rightarrow> string \<Rightarrow> runtime_check_result" where
  "check_status s m = \<lparr>rk_check_status = s, rk_version = None, rk_message = m\<rparr>"

definition verify_controlled_entrypoint :: "agent_host \<Rightarrow> string \<Rightarrow> runtime_check_result" where
  "verify_controlled_entrypoint h path =
     (if blank path \<or> has_parent_dir path then runtime_unavailable ''invalid entrypoint path''
      else if \<not> is_absolute path then runtime_unavailable ''entrypoint path must be absolute''
      else case ah_meta h path of
        Inl e \<Rightarrow>
          if ie_not_found e then runtime_unavailable ''entrypoint file does not exist''
          else runtime_unavailable (''entrypoint file not accessible: '' @ ie_text e)
      | Inr m \<Rightarrow>
          if fm_kind m = SymbolicLink
          then runtime_unavailable ''Security risk: entrypoint must not be a symlink''
          else if fm_kind m \<noteq> RegularFile
          then check_status ''invalid_path'' ''entrypoint path is not a regular file''
          else if \<not> is_executable m
          then check_status ''not_executable'' ''entrypoint file is not executable''
          else check_status ''available''
                 ''Entrypoint file is accessible; version could not be auto-detected'')"

section \<open>Versions\<close>

definition parse_version_line :: "string \<Rightarrow> string option" where
  "parse_version_line line =
     (let t = trim line; low = to_ascii_lowercase t in
      if t = [] then None
      else if contains low ''cuda'' \<or> contains low ''ggml'' \<or> starts_with low ''main:''
        \<or> starts_with low ''warning'' \<or> starts_with low ''error'' then None
      else if any_char is_ascii_digit t
        \<and> (contains low ''version'' \<or> starts_with low ''ollama '' \<or> starts_with low ''vllm ''
           \<or> starts_with low ''llama.cpp '')
      then Some t else None)"

text \<open>What a program printed, when it ended with success.\<close>

definition successful_output :: "command_result \<Rightarrow> command_output option" where
  "successful_output r =
     (case r of Finished out \<Rightarrow> if co_success out then Some out else None | _ \<Rightarrow> None)"

definition first_version :: "string \<Rightarrow> string option" where
  "first_version text =
     map_option (chars_take 120)
       (case List.map_filter parse_version_line (lines text) of [] \<Rightarrow> None | v # _ \<Rightarrow> Some v)"

definition detect_entrypoint_version :: "agent_host \<Rightarrow> string \<Rightarrow> string option" where
  "detect_entrypoint_version h path =
     Option.bind (successful_output (ah_run h path [''--version''])) (\<lambda>out.
       first_version (ah_lossy h (co_stdout out) @ [CHR 0x0A] @ ah_lossy h (co_stderr out)))"

definition inspect_args :: "string \<Rightarrow> string list" where
  "inspect_args img = [''image'', ''inspect'', img]"

definition check_docker_image_exists :: "agent_host \<Rightarrow> string \<Rightarrow> bool" where
  "check_docker_image_exists h img \<longleftrightarrow>
     successful_output (ah_run h ''docker'' (inspect_args img)) \<noteq> None"

definition image_version_args :: "string \<Rightarrow> string list" where
  "image_version_args img =
     [''run'', ''--rm'', ''--entrypoint'', ''python'', img, ''-c'',
      ''import importlib; m = importlib.util.find_spec('' @ [CHR 0x27] @ ''vllm'' @ [CHR 0x27]
      @ ''); print(m and __import__('' @ [CHR 0x27] @ ''vllm'' @ [CHR 0x27] @ '').__version__)'']"

definition detect_docker_image_version :: "agent_host \<Rightarrow> string \<Rightarrow> string option" where
  "detect_docker_image_version h img =
     Option.bind (successful_output (ah_run h ''docker'' (image_version_args img))) (\<lambda>out.
       map_option (chars_take 120)
         (find (\<lambda>l. l \<noteq> []) (map trim (lines (ah_lossy h (co_stdout out))))))"

section \<open>The check\<close>

definition check_docker_runtime ::
  "agent_host \<Rightarrow> json \<Rightarrow> runtime_check_result \<times> agent_effect list" where
  "check_docker_runtime h payload =
     (let img = unwrap_or (get_str payload ''docker_image'') [];
          inspect = ProgramRun ''docker'' (inspect_args img);
          detect = ProgramRun ''docker'' (image_version_args img)
      in if blank img \<or> any_char is_whitespace img
         then (runtime_unavailable ''Docker image config is invalid'', [])
         else if \<not> check_docker_image_exists h img
         then (check_status ''available''
           ''Docker image config passed basic validation; image not present locally, will be pulled on start'',
           [inspect])
         else (let version = detect_docker_image_version h img in
           (\<lparr>rk_check_status = ''available'', rk_version = version,
             rk_message = (if version \<noteq> None then ''Docker image exists and passed basic validation''
               else ''Docker image passed basic validation; version unavailable (may be verified at real start)'')\<rparr>,
            [inspect, detect])))"

definition manual_version :: "json \<Rightarrow> string option" where
  "manual_version payload =
     Option.bind (map_option trim (get_str payload ''version'')) (\<lambda>v. if v = [] then None else Some v)"

definition check_entrypoint_runtime ::
  "agent_host \<Rightarrow> json \<Rightarrow> runtime_check_result \<times> agent_effect list" where
  "check_entrypoint_runtime h payload =
     (let backend = unwrap_or (get_str payload ''backend'') [];
          path = unwrap_or (get_str payload ''binary_path'') [];
          result = verify_controlled_entrypoint h path
      in if rk_check_status result \<noteq> ''available'' then (result, [])
         else case manual_version payload of
           Some v \<Rightarrow>
             (\<lparr>rk_check_status = ''available'', rk_version = Some v,
               rk_message = backend @ '' entrypoint available, using manual version '' @ v\<rparr>, [])
         | None \<Rightarrow>
             (case detect_entrypoint_version h path of
                Some v \<Rightarrow>
                  (\<lparr>rk_check_status = ''available'', rk_version = Some v,
                    rk_message = backend @ '' entrypoint available, version auto-detected''\<rparr>,
                   [ProgramRun path [''--version'']])
              | None \<Rightarrow>
                  (check_status ''version_unavailable'' (backend @ '' entrypoint available but version could not be auto-detected; --version did not return a recognizable version; version may be filled manually''),
                   [ProgramRun path [''--version'']])))"

definition agent_check_runtime_environment ::
  "agent_host \<Rightarrow> json \<Rightarrow> runtime_check_result \<times> agent_effect list" where
  "agent_check_runtime_environment h payload =
     (let deploy_type = unwrap_or (get_str payload ''deploy_type'') [] in
      if deploy_type = ''docker'' then check_docker_runtime h payload
      else if deploy_type = ''script'' \<or> deploy_type = ''binary'' then check_entrypoint_runtime h payload
      else (runtime_unavailable ''deploy type not supported'', []))"

section \<open>Facts\<close>

text \<open>The paths the agent is willing to run.\<close>

definition controlled_entrypoint :: "agent_host \<Rightarrow> string \<Rightarrow> bool" where
  "controlled_entrypoint h path \<longleftrightarrow>
     \<not> blank path \<and> \<not> has_parent_dir path \<and> is_absolute path \<and>
     (case ah_meta h path of Inl _ \<Rightarrow> False | Inr m \<Rightarrow> fm_kind m = RegularFile \<and> is_executable m)"

lemma entrypoint_available:
  "rk_check_status (verify_controlled_entrypoint h path) = ''available'' \<longleftrightarrow> controlled_entrypoint h path"
  by (auto simp: verify_controlled_entrypoint_def controlled_entrypoint_def runtime_unavailable_def
      check_status_def split: sum.split)

lemma check_runs:
  assumes "ProgramRun prog args \<in> set (snd (agent_check_runtime_environment h payload))"
  shows "prog = ''docker'' \<or> (controlled_entrypoint h prog \<and> args = [''--version''])"
  using assms
  by (auto simp: agent_check_runtime_environment_def check_docker_runtime_def check_entrypoint_runtime_def
      Let_def entrypoint_available split: if_splits option.splits)

lemma check_effects:
  "e \<in> set (snd (agent_check_runtime_environment h payload)) \<Longrightarrow> \<exists>prog args. e = ProgramRun prog args"
  by (auto simp: agent_check_runtime_environment_def check_docker_runtime_def check_entrypoint_runtime_def
      Let_def split: if_splits option.splits)

lemma first_version_has_digit:
  "parse_version_line l = Some v \<Longrightarrow> v = trim l \<and> v \<noteq> [] \<and> any_char is_ascii_digit v"
  by (auto simp: parse_version_line_def Let_def split: if_splits)

end
