(* ===== verification/ProcessLogs.thy ===== *)
theory ProcessLogs
  imports AgentHost Collectors
begin

text \<open>
  \<^verbatim>\<open>agent/src/tasks/process_logs.rs\<close> and the log readers of \<^verbatim>\<open>tasks/process.rs\<close>: the output of a
  managed process is read in chunks, sanitised, kept in a bounded buffer and appended to the log
  file of the instance. Slicing a string at an offset that is no character boundary panics in
  Rust: such a function returns an option, with \<open>None\<close> for the panic.
\<close>

section \<open>Sanitising\<close>

definition process_log_words :: "string list" where
  "process_log_words = [''token'', ''secret'', ''password'', ''api_key'', ''apikey'', ''authorization'']"

definition sanitize_log_line :: "string \<Rightarrow> string" where
  "sanitize_log_line l =
     (if \<exists>w \<in> set process_log_words. contains (to_ascii_lowercase l) w
      then redacted_line else chars_take 500 l)"

definition sanitize_log :: "string \<Rightarrow> string" where
  "sanitize_log s = join [CHR 0x0A] (map sanitize_log_line (lines s))"

section \<open>Tails\<close>

text \<open>\<open>text[start..]\<close>.\<close>

definition slice_from :: "nat \<Rightarrow> string \<Rightarrow> string option" where
  "slice_from i s = (if is_char_boundary s i then Some (drop i s) else None)"

definition tail_bytes :: "string \<Rightarrow> nat \<Rightarrow> string option" where
  "tail_bytes s n = (if length s \<le> n then Some s else slice_from (length s - n) s)"

definition MAX_LOG_BYTES :: nat where
  "MAX_LOG_BYTES = 8192"

definition trim_log_buffer :: "string \<Rightarrow> string option" where
  "trim_log_buffer b =
     (if MAX_LOG_BYTES < length b then slice_from (length b - MAX_LOG_BYTES) b else Some b)"

definition log_tail :: "string \<Rightarrow> string option" where
  "log_tail b = (if trim b = [] then None else Some (trim b))"

definition log_tail_with_path :: "string \<Rightarrow> string option \<Rightarrow> string option" where
  "log_tail_with_path b path =
     (case (path, log_tail b) of
        (Some p, Some tail) \<Rightarrow> Some (''log file: '' @ p @ [CHR 0x0A] @ tail)
      | (Some p, None) \<Rightarrow> Some (''log file: '' @ p)
      | (None, tail) \<Rightarrow> tail)"

text \<open>\<open>chars().rev().take(n)\<close> and back: the last characters.\<close>

definition chars_take_last :: "nat \<Rightarrow> string \<Rightarrow> string" where
  "chars_take_last n s = concat (rev (take n (rev (utf8_chars s))))"

definition combined_output_log :: "(string \<Rightarrow> string) \<Rightarrow> string \<Rightarrow> string \<Rightarrow> string option" where
  "combined_output_log lossy stdout stderr =
     (let parts = (if stdout = [] then [] else [''stdout:'' @ [CHR 0x0A] @ sanitize_log (lossy stdout)])
                @ (if stderr = [] then [] else [''stderr:'' @ [CHR 0x0A] @ sanitize_log (lossy stderr)]);
          text = join [CHR 0x0A] parts
      in if blank text then None else Some (chars_take_last 8192 text))"

definition first_log_line :: "string option \<Rightarrow> string option" where
  "first_log_line tail =
     Option.bind tail (\<lambda>t. map_option (chars_take 220)
       (find (\<lambda>l. l \<noteq> [] \<and> l \<noteq> ''stdout:'' \<and> l \<noteq> ''stderr:'') (map trim (lines t))))"

section \<open>The log file of an instance\<close>

definition safe_id_char :: "string \<Rightarrow> string" where
  "safe_id_char c = (if is_ascii_alphanumeric c \<or> c \<in> {''-'', ''_''} then c else ''_'')"

definition safe_id :: "string \<Rightarrow> string" where
  "safe_id i = concat (map safe_id_char (utf8_chars i))"

definition controlled_log_path :: "agent_host \<Rightarrow> string \<Rightarrow> string \<Rightarrow> string + string" where
  "controlled_log_path h log_dir instance_id =
     (if blank log_dir \<or> has_parent_dir log_dir then Inl ''invalid log directory path''
      else if \<not> is_absolute log_dir then Inl ''log directory must be an absolute path''
      else case first_error [
          (case ah_meta h log_dir of
             Inl _ \<Rightarrow> None
           | Inr m \<Rightarrow>
               if fm_kind m = SymbolicLink then Some ''log directory must not be a symlink''
               else if fm_kind m \<noteq> Directory then Some ''log directory is not a directory''
               else None),
          map_option (\<lambda>e. ''failed to create log directory: '' @ e) (ah_create_dir h log_dir)] of
        Some e \<Rightarrow> Inl e
      | None \<Rightarrow> Inr (path_join log_dir (safe_id instance_id @ ''.log'')))"

section \<open>Reading the output of a child\<close>

text \<open>
  The two readers of a child (\<open>stdout\<close>, \<open>stderr\<close>) share the buffer. \<open>rd_file\<close> is what they have
  written to the log file, when it could be opened; \<open>rd_started\<close> the streams whose header is
  written; \<open>rd_dead\<close> the readers that have panicked.
\<close>

record reader =
  rd_buffer :: string
  rd_file :: "string option"
  rd_started :: "string list"
  rd_dead :: "string list"

definition fresh_reader :: "string option \<Rightarrow> reader" where
  "fresh_reader file = \<lparr>rd_buffer = [], rd_file = file, rd_started = [], rd_dead = []\<rparr>"

definition write_header :: "string \<Rightarrow> reader \<Rightarrow> reader" where
  "write_header label r =
     (if label \<in> set (rd_started r) then r
      else r\<lparr>rd_buffer := rd_buffer r @ label @ '':'' @ [CHR 0x0A],
             rd_file := map_option (\<lambda>f. f @ label @ '':'' @ [CHR 0x0A]) (rd_file r),
             rd_started := label # rd_started r\<rparr>)"

definition read_chunk :: "(string \<Rightarrow> string) \<Rightarrow> string \<times> string \<Rightarrow> reader \<Rightarrow> reader" where
  "read_chunk lossy chunk r =
     (case chunk of (label, bytes) \<Rightarrow>
       if label \<in> set (rd_dead r) then r
       else (let text = sanitize_log (lossy bytes);
                 r1 = write_header label r;
                 b = rd_buffer r1 @ text @ [CHR 0x0A]
             in case trim_log_buffer b of
                  None \<Rightarrow> r1\<lparr>rd_buffer := b, rd_dead := label # rd_dead r1\<rparr>
                | Some b' \<Rightarrow> r1\<lparr>rd_buffer := b',
                     rd_file := map_option (\<lambda>f. f @ text @ [CHR 0x0A]) (rd_file r1)\<rparr>))"

definition read_output :: "(string \<Rightarrow> string) \<Rightarrow> string option \<Rightarrow> (string \<times> string) list \<Rightarrow> reader" where
  "read_output lossy file chunks = fold (read_chunk lossy) chunks (fresh_reader file)"

definition log_buffer :: "(string \<Rightarrow> string) \<Rightarrow> (string \<times> string) list \<Rightarrow> string" where
  "log_buffer lossy chunks = rd_buffer (read_output lossy None chunks)"

section \<open>Facts\<close>

lemma process_words_facts:
  assumes "w \<in> set process_log_words"
  shows "lower_byte (CHR 0x0A) \<notin> set w" and "w \<noteq> []"
  using assms by (auto simp: process_log_words_def lower_byte_def byte_def)

lemma redacted_process_clean:
  "\<forall>w \<in> set process_log_words. \<not> contains (to_ascii_lowercase redacted_line) w"
  by code_simp

lemma sanitize_log_line_clean:
  assumes "w \<in> set process_log_words"
  shows "\<not> contains (to_ascii_lowercase (sanitize_log_line l)) w"
proof (cases "\<exists>w \<in> set process_log_words. contains (to_ascii_lowercase l) w")
  case True
  with assms redacted_process_clean show ?thesis by (simp add: sanitize_log_line_def)
next
  case False
  obtain t where "l = chars_take 500 l @ t" using chars_take_prefix by blast
  then have "to_ascii_lowercase l = to_ascii_lowercase (chars_take 500 l) @ to_ascii_lowercase t"
    by (metis map_append to_ascii_lowercase_def)
  with False assms show ?thesis using contains_append by (fastforce simp: sanitize_log_line_def)
qed

lemma sanitize_log_clean:
  assumes "w \<in> set process_log_words"
  shows "\<not> contains (to_ascii_lowercase (sanitize_log s)) w"
proof
  note nl = process_words_facts [OF assms]
  assume "contains (to_ascii_lowercase (sanitize_log s)) w"
  then obtain l where "contains (to_ascii_lowercase (sanitize_log_line l)) w"
    using contains_join [where f = lower_byte and c = "CHR 0x0A" and ls = "map sanitize_log_line (lines s)", OF _ nl]
    by (auto simp: sanitize_log_def to_ascii_lowercase_def)
  with sanitize_log_line_clean [OF assms] show False by blast
qed

lemma slice_from_length: "slice_from i s = Some t \<Longrightarrow> length t = length s - i"
  by (auto simp: slice_from_def split: if_splits)

lemma tail_bytes_bound: "tail_bytes s n = Some t \<Longrightarrow> length t \<le> n \<and> (\<exists>p. s = p @ t)"
  by (auto simp: tail_bytes_def slice_from_def split: if_splits
      intro: exI [of _ "take (length s - n) s"])

lemma trim_log_buffer_bound: "trim_log_buffer b = Some b' \<Longrightarrow> length b' \<le> MAX_LOG_BYTES \<and> (\<exists>p. b = p @ b')"
  by (auto simp: trim_log_buffer_def slice_from_def split: if_splits
      intro: exI [of _ "take (length b - MAX_LOG_BYTES) b"])

text \<open>While no reader has panicked, the buffer stays within its limit after every chunk.\<close>

lemma read_chunk_bound:
  "length (rd_buffer r) \<le> MAX_LOG_BYTES \<Longrightarrow> rd_dead (read_chunk lossy c r) = [] \<Longrightarrow>
   length (rd_buffer (read_chunk lossy c r)) \<le> MAX_LOG_BYTES"
  by (auto simp: read_chunk_def Let_def split: prod.splits option.splits if_splits dest: trim_log_buffer_bound)

lemma read_chunk_dead_mono: "rd_dead (read_chunk lossy c r) = [] \<Longrightarrow> rd_dead r = []"
  by (auto simp: read_chunk_def Let_def write_header_def split: prod.splits option.splits if_splits)

lemma fold_dead_mono: "rd_dead (fold (read_chunk lossy) cs r) = [] \<Longrightarrow> rd_dead r = []"
  by (induction cs arbitrary: r) (auto dest: read_chunk_dead_mono)

lemma fold_bound:
  "length (rd_buffer r) \<le> MAX_LOG_BYTES \<Longrightarrow> rd_dead (fold (read_chunk lossy) cs r) = [] \<Longrightarrow>
   length (rd_buffer (fold (read_chunk lossy) cs r)) \<le> MAX_LOG_BYTES"
  by (induction cs arbitrary: r) (auto dest: fold_dead_mono intro: read_chunk_bound)

lemma log_buffer_bound:
  "rd_dead (read_output lossy file cs) = [] \<Longrightarrow> length (rd_buffer (read_output lossy file cs)) \<le> MAX_LOG_BYTES"
  by (auto simp: read_output_def fresh_reader_def intro: fold_bound)

text \<open>ASCII output is never cut inside a character, so no reader panics on it.\<close>

definition ascii :: "string \<Rightarrow> bool" where
  "ascii s \<longleftrightarrow> (\<forall>c \<in> set s. byte c < 128)"

lemma ascii_boundary:
  assumes "ascii s" and "i \<le> length s"
  shows "is_char_boundary s i"
proof (cases "i = length s")
  case False
  with assms have "byte (s ! i) < 128" by (simp add: ascii_def)
  with assms False show ?thesis by (auto simp: is_char_boundary_def is_cont_def)
qed (simp add: is_char_boundary_def)

lemma ascii_tail_bytes: "ascii s \<Longrightarrow> tail_bytes s n = Some (drop (length s - n) s)"
  by (simp add: tail_bytes_def slice_from_def ascii_boundary)

text \<open>
  A reader that has not panicked has written all of its text to the log file, and its buffer holds the
  last \<open>MAX_LOG_BYTES\<close> of it.
\<close>

definition last_bytes :: "nat \<Rightarrow> string \<Rightarrow> string" where
  "last_bytes n s = drop (length s - n) s"

lemma last_bytes_append: "last_bytes n (last_bytes n s @ t) = last_bytes n (s @ t)"
proof (cases "length s \<le> n")
  case False
  then have "s = take (length s - n) s @ last_bytes n s" "length (last_bytes n s) = n"
    by (simp_all add: last_bytes_def)
  then obtain a b where "s = a @ b" "last_bytes n s = b" "length b = n" by blast
  then show ?thesis by (simp add: last_bytes_def)
qed (simp add: last_bytes_def)

lemma last_bytes_length: "length (last_bytes n s) \<le> n"
  by (simp add: last_bytes_def)

lemma trim_log_buffer_last: "trim_log_buffer b = Some b' \<Longrightarrow> b' = last_bytes MAX_LOG_BYTES b"
  by (auto simp: trim_log_buffer_def slice_from_def last_bytes_def split: if_splits)

definition holds_tail :: "reader \<Rightarrow> bool" where
  "holds_tail r \<longleftrightarrow> (\<exists>f. rd_file r = Some f \<and> rd_buffer r = last_bytes MAX_LOG_BYTES f)"

lemma header_tail:
  assumes "holds_tail r"
  obtains s t where "rd_file (write_header l r) = Some (s @ t)"
    "rd_buffer (write_header l r) = last_bytes MAX_LOG_BYTES s @ t"
proof -
  from assms obtain f where f: "rd_file r = Some f" "rd_buffer r = last_bytes MAX_LOG_BYTES f"
    by (auto simp: holds_tail_def)
  show thesis
    by (rule that [of f "if l \<in> set (rd_started r) then [] else l @ '':'' @ [CHR 0x0A]"])
      (simp_all add: write_header_def f)
qed

lemma read_chunk_tail:
  assumes "holds_tail r" and "rd_dead (read_chunk lossy c r) = []"
  shows "holds_tail (read_chunk lossy c r)"
proof -
  obtain l bs where c: "c = (l, bs)" by fastforce
  from header_tail [OF assms(1), of l] obtain s t where
    f: "rd_file (write_header l r) = Some (s @ t)" "rd_buffer (write_header l r) = last_bytes MAX_LOG_BYTES s @ t" .
  let ?t = "sanitize_log (lossy bs) @ [CHR 0x0A]"
  have "rd_dead r = []" by (rule read_chunk_dead_mono [OF assms(2)])
  with assms(2) f(2) obtain b' where
    b: "trim_log_buffer (last_bytes MAX_LOG_BYTES s @ t @ ?t) = Some b'"
    by (auto simp: read_chunk_def c Let_def split: option.splits)
  have "b' = last_bytes MAX_LOG_BYTES (s @ t @ ?t)"
    using trim_log_buffer_last [OF b] by (simp add: last_bytes_append)
  with b f \<open>rd_dead r = []\<close> show ?thesis by (simp add: read_chunk_def c holds_tail_def Let_def)
qed

lemma fold_tail:
  "holds_tail r \<Longrightarrow> rd_dead (fold (read_chunk lossy) cs r) = [] \<Longrightarrow> holds_tail (fold (read_chunk lossy) cs r)"
  by (induction cs arbitrary: r) (auto dest: fold_dead_mono intro: read_chunk_tail)

lemma read_output_tail:
  assumes "rd_dead (read_output lossy (Some []) cs) = []"
  shows "holds_tail (read_output lossy (Some []) cs)"
  using assms unfolding read_output_def
  by (intro fold_tail) (simp add: holds_tail_def fresh_reader_def last_bytes_def)

text \<open>Plain output: ASCII lines without a sensitive word.\<close>

definition plain_chunk :: "(string \<Rightarrow> string) \<Rightarrow> string \<times> string \<Rightarrow> bool" where
  "plain_chunk lossy c \<longleftrightarrow> ascii (fst c) \<and> ascii (lossy (snd c))
     \<and> (\<forall>l \<in> set (lines (lossy (snd c))). \<forall>w \<in> set process_log_words. \<not> contains (to_ascii_lowercase l) w)"

lemma ascii_simps [simp]: "ascii []" "ascii (c # s) \<longleftrightarrow> byte c < 128 \<and> ascii s" "ascii (s @ t) \<longleftrightarrow> ascii s \<and> ascii t"
  by (auto simp: ascii_def)

lemma ascii_split: "ascii s \<Longrightarrow> p \<in> set (split_on c s) \<Longrightarrow> ascii p"
  by (induction s arbitrary: p rule: split_on.induct) (auto split: list.splits if_splits)

lemma ascii_strip: "ascii s \<Longrightarrow> ascii (strip_cr s)"
  by (auto simp: strip_cr_def ascii_def dest: in_set_butlastD)

lemma ascii_lines: "ascii s \<Longrightarrow> l \<in> set (lines s) \<Longrightarrow> ascii l"
  using ascii_split [of s "last (split_on (CHR 0x0A) s)" "CHR 0x0A"]
  by (auto simp: lines_def Let_def intro!: ascii_strip dest: ascii_split in_set_butlastD split: if_splits)

lemma ascii_join: "byte c < 128 \<Longrightarrow> \<forall>l \<in> set ls. ascii l \<Longrightarrow> ascii (join [c] ls)"
  by (induction "[c]" ls rule: join.induct) auto

lemma ascii_chars_take: "ascii s \<Longrightarrow> ascii (chars_take n s)"
  by (metis chars_take_prefix ascii_simps(3))

lemma plain_text: "plain_chunk lossy c \<Longrightarrow> ascii (sanitize_log (lossy (snd c)))"
  unfolding sanitize_log_def
  by (rule ascii_join)
    (auto simp: plain_chunk_def sanitize_log_line_def byte_def intro: ascii_chars_take ascii_lines)

lemma ascii_trim: "ascii b \<Longrightarrow> \<exists>b'. trim_log_buffer b = Some b' \<and> ascii b'"
  by (auto simp: trim_log_buffer_def slice_from_def ascii_boundary) (auto simp: ascii_def dest: in_set_dropD)

lemma plain_step:
  assumes "plain_chunk lossy c" and "ascii (rd_buffer r)" and "rd_dead r = []"
  shows "ascii (rd_buffer (read_chunk lossy c r)) \<and> rd_dead (read_chunk lossy c r) = []"
proof -
  obtain l bs where c: "c = (l, bs)" by fastforce
  have "ascii (rd_buffer (write_header l r))"
    using assms(1,2) by (simp add: write_header_def plain_chunk_def c byte_def)
  with plain_text [OF assms(1)] have "ascii (rd_buffer (write_header l r) @ sanitize_log (lossy bs) @ [CHR 0x0A])"
    by (simp add: c byte_def)
  from ascii_trim [OF this] assms(3) show ?thesis
    by (auto simp: read_chunk_def c Let_def write_header_def)
qed

lemma plain_output_survives:
  assumes "\<forall>c \<in> set cs. plain_chunk lossy c"
  shows "rd_dead (read_output lossy file cs) = []"
proof -
  have "ascii (rd_buffer r) \<Longrightarrow> rd_dead r = [] \<Longrightarrow> rd_dead (fold (read_chunk lossy) cs r) = []" for r
    using assms by (induction cs arbitrary: r) (auto simp: plain_step)
  then show ?thesis by (simp add: read_output_def fresh_reader_def)
qed

text \<open>
  The log is sanitised chunk by chunk: a sensitive word that two reads split is not seen. The value
  below is written to the buffer in full.
\<close>

lemma split_secret_is_logged:
  "log_buffer (\<lambda>s. s) [(''stdout'', ''api_k''), (''stdout'', ''ey=s3cret'')] =
     ''stdout:'' @ [CHR 0x0A] @ ''api_k'' @ [CHR 0x0A] @ ''ey=s3cret'' @ [CHR 0x0A]"
  by code_simp

lemma whole_secret_is_redacted:
  "log_buffer (\<lambda>s. s) [(''stdout'', ''api_key=s3cr'')] =
     ''stdout:'' @ [CHR 0x0A] @ redacted_line @ [CHR 0x0A]"
  by code_simp

end
