(* ===== verification/Launch.thy ===== *)
theory Launch
  imports ProcessLogs Probe
begin

text \<open>
  \<^verbatim>\<open>agent/src/tasks/process_command.rs\<close> and \<open>InstanceLaunchParams\<close> of \<^verbatim>\<open>tasks/process.rs\<close>: from the
  payload of a start task to the arguments of the program, and what of them may be shown.
\<close>

section \<open>Parameters\<close>

record launch_params =
  ln_host :: string
  ln_port :: "16 word"
  ln_ctx_size :: "int option"
  ln_gpu_layers :: "int option"
  ln_threads :: "int option"
  ln_extra_args :: "string list"

definition validate_arg :: "string \<Rightarrow> string option" where
  "validate_arg a =
     (if blank a then Some ''extra args must not be empty''
      else if 256 < length a \<or> any_char is_control a then Some ''extra args contain invalid characters''
      else None)"

definition safe_host_char :: "string \<Rightarrow> bool" where
  "safe_host_char c \<longleftrightarrow> is_ascii_alphanumeric c \<or> c \<in> {''.'', ''-'', '':'', ''_''}"

definition is_safe_host :: "string \<Rightarrow> bool" where
  "is_safe_host s \<longleftrightarrow> s \<noteq> [] \<and> length s \<le> 128 \<and> all_chars safe_host_char s"

definition params_object :: "json \<Rightarrow> json" where
  "params_object payload =
     (case jget payload ''params'' of
        Some v \<Rightarrow> if is_object v then v else JNull
      | None \<Rightarrow> JNull)"

definition launch_values :: "ext \<Rightarrow> json \<Rightarrow> json" where
  "launch_values x payload =
     (case jget payload ''params_json'' of
        Some (JStr s) \<Rightarrow> unwrap_or (ext_jparse x s) JNull
      | Some (JObj kvs) \<Rightarrow> JObj kvs
      | Some JNull \<Rightarrow> params_object payload
      | None \<Rightarrow> params_object payload
      | _ \<Rightarrow> JNull)"

definition runtime_defaults :: "json \<Rightarrow> json option" where
  "runtime_defaults payload =
     Option.bind (Option.bind (jget payload ''runtime_params'') (\<lambda>v. jget v ''defaults''))
       (\<lambda>v. if is_object v then Some v else None)"

text \<open>A value of the instance, or else the default of its runtime.\<close>

definition or_default :: "'a option \<Rightarrow> json option \<Rightarrow> (json \<Rightarrow> 'a option) \<Rightarrow> 'a option" where
  "or_default v defaults get = (case v of Some a \<Rightarrow> Some a | None \<Rightarrow> Option.bind defaults get)"

definition launch_params_from_payload :: "ext \<Rightarrow> json \<Rightarrow> string + launch_params" where
  "launch_params_from_payload x payload =
     (let p = launch_values x payload; d = runtime_defaults payload;
          host = trim (unwrap_or (or_default (get_str p ''host'') d (\<lambda>v. get_str v ''host'')) ''127.0.0.1'');
          port = unwrap_or (or_default (get_u64 p ''port'') d (\<lambda>v. get_u64 v ''port'')) 8080;
          extra = unwrap_or (map_option (List.map_filter as_str)
                    (Option.bind (jget p ''extra_args'') as_array)) []
      in if \<not> is_safe_host host then Inl ''invalid listen address''
         else if port = 0 \<or> 65535 < port then Inl ''invalid listen port''
         else case first_error (map validate_arg extra) of
           Some e \<Rightarrow> Inl e
         | None \<Rightarrow> Inr
             \<lparr>ln_host = host, ln_port = word_of_int port,
              ln_ctx_size = or_default (get_u64 p ''ctx_size'') d (\<lambda>v. get_u64 v ''ctx_size''),
              ln_gpu_layers = or_default (get_i64 p ''gpu_layers'') d (\<lambda>v. get_i64 v ''n_gpu_layers''),
              ln_threads = or_default (get_u64 p ''threads'') d (\<lambda>v. get_u64 v ''threads''),
              ln_extra_args = extra\<rparr>)"

section \<open>Arguments\<close>

definition port_str :: "16 word \<Rightarrow> string" where
  "port_str w = int_str (uint w)"

definition listen_args :: "launch_params \<Rightarrow> string list" where
  "listen_args p = [''--host'', ln_host p, ''--port'', port_str (ln_port p)]"

definition num_arg :: "string \<Rightarrow> int option \<Rightarrow> string list" where
  "num_arg flag v = (case v of None \<Rightarrow> [] | Some n \<Rightarrow> [flag, int_str n])"

definition build_launch_args ::
  "string \<Rightarrow> string \<Rightarrow> string \<Rightarrow> launch_params \<Rightarrow> string + string list" where
  "build_launch_args backend deploy_type model_path p =
     (if deploy_type = ''script''
      then Inr ([''start'', ''--model'', model_path] @ listen_args p @ ln_extra_args p)
      else if backend = ''llama_cpp''
      then Inr ([''-m'', model_path] @ listen_args p @ num_arg ''--ctx-size'' (ln_ctx_size p)
             @ (case ln_gpu_layers p of
                  None \<Rightarrow> [] | Some n \<Rightarrow> if 0 \<le> n then [''--n-gpu-layers'', int_str n] else [])
             @ num_arg ''--threads'' (ln_threads p) @ ln_extra_args p)
      else if backend \<in> {''ollama'', ''vllm'', ''lmdeploy'', ''mindie'', ''custom'', ''triton''}
      then Inr ([''--model'', model_path] @ listen_args p @ ln_extra_args p)
      else Inl ''backend type not supported'')"

section \<open>What is shown of a command\<close>

definition secret_arg_words :: "string list" where
  "secret_arg_words = [''token'', ''secret'', ''password'', ''api-key'', ''api_key'', ''authorization'']"

definition sanitize_arg_for_display :: "string \<Rightarrow> string" where
  "sanitize_arg_for_display a =
     (if \<exists>w \<in> set secret_arg_words. contains (to_ascii_lowercase a) w then ''[redacted]'' else a)"

definition command_parts :: "string \<Rightarrow> string list \<Rightarrow> string list" where
  "command_parts program args = program # map sanitize_arg_for_display args"

definition command_summary :: "ext \<Rightarrow> string \<Rightarrow> string list \<Rightarrow> string" where
  "command_summary x program args = ext_jprint x (JArr (map JStr (command_parts program args)))"

section \<open>Facts\<close>

lemma port_nonneg: "0 \<le> unwrap_or (or_default (get_u64 p k) d (\<lambda>v. get_u64 v k)) 8080"
  by (auto simp: or_default_def unwrap_or_def bind_eq_Some_conv dest: get_u64_bounds split: option.split)

lemma port_word: "0 \<le> port \<Longrightarrow> port \<noteq> 0 \<Longrightarrow> \<not> 65535 < port \<Longrightarrow>
  uint (word_of_int port :: 16 word) = port"
  by (simp add: uint_word_of_int take_bit_int_eq_self)

lemma launch_params_ok:
  assumes "launch_params_from_payload x payload = Inr p"
  shows "is_safe_host (ln_host p)" and "1 \<le> uint (ln_port p) \<and> uint (ln_port p) \<le> 65535"
    and "\<forall>a \<in> set (ln_extra_args p). validate_arg a = None"
proof -
  define port where "port = unwrap_or (or_default (get_u64 (launch_values x payload) ''port'')
    (runtime_defaults payload) (\<lambda>v. get_u64 v ''port'')) 8080"
  define host where "host = trim (unwrap_or (or_default (get_str (launch_values x payload) ''host'')
    (runtime_defaults payload) (\<lambda>v. get_str v ''host'')) ''127.0.0.1'')"
  define extra where "extra = unwrap_or (map_option (List.map_filter as_str)
    (Option.bind (jget (launch_values x payload) ''extra_args'') as_array)) []"
  note def = assms [unfolded launch_params_from_payload_def Let_def, folded port_def host_def extra_def]
  from def have host: "is_safe_host host" by (simp split: if_splits)
  with def have port: "port \<noteq> 0" "\<not> 65535 < port" by (simp_all split: if_splits)
  with host def have "first_error (map validate_arg extra) = None" by (simp split: option.splits)
  moreover from this host port def have p: "ln_host p = host" "ln_port p = word_of_int port" "ln_extra_args p = extra"
    by auto
  ultimately show "\<forall>a \<in> set (ln_extra_args p). validate_arg a = None" by (simp add: first_error_None)
  from host p show "is_safe_host (ln_host p)" by simp
  have "0 \<le> port" unfolding port_def by (rule port_nonneg)
  with port port_word [of port] p show "1 \<le> uint (ln_port p) \<and> uint (ln_port p) \<le> 65535" by simp
qed

lemma build_launch_args_listen:
  "build_launch_args backend dt path p = Inr args \<Longrightarrow>
   path \<in> set args \<and> set (listen_args p) \<subseteq> set args \<and> set (ln_extra_args p) \<subseteq> set args"
  by (auto simp: build_launch_args_def split: if_splits)

lemma redacted_arg_clean: "\<forall>w \<in> set secret_arg_words. \<not> contains (to_ascii_lowercase ''[redacted]'') w"
  by code_simp

lemma sanitize_arg_clean:
  "w \<in> set secret_arg_words \<Longrightarrow> \<not> contains (to_ascii_lowercase (sanitize_arg_for_display a)) w"
  using redacted_arg_clean by (auto simp: sanitize_arg_for_display_def)

end
