(* ===== verification/FloatDisplay.thy ===== *)
theory FloatDisplay
  imports Floats
begin

text \<open>
  How the standard library prints an \<open>f64\<close> with \<open>{}\<close>: the shortest decimal that is read back as
  the same double, without an exponent. A positive finite double is a fraction \<open>a / b\<close>; \<open>ex\<close> is its
  decimal exponent (\<open>10^(ex-1) \<le> a/b < 10^ex\<close>), and \<open>n\<close> digits are tried for \<open>n\<close> from 1 to 17,
  which always suffices.
\<close>

definition below_pow10 :: "int \<Rightarrow> int \<Rightarrow> int \<Rightarrow> bool" where
  "below_pow10 a b ex \<longleftrightarrow>
     (if 0 \<le> ex then a < b * 10 ^ nat ex else a * 10 ^ nat (- ex) < b)"

text \<open>The exponents of doubles lie between -323 and 309.\<close>

fun exponent_down :: "nat \<Rightarrow> int \<Rightarrow> int \<Rightarrow> int \<Rightarrow> int" where
  "exponent_down 0 a b ex = ex"
| "exponent_down (Suc n) a b ex =
     (if below_pow10 a b (ex - 1) then exponent_down n a b (ex - 1) else ex)"

fun exponent_up :: "nat \<Rightarrow> int \<Rightarrow> int \<Rightarrow> int \<Rightarrow> int" where
  "exponent_up 0 a b ex = ex"
| "exponent_up (Suc n) a b ex =
     (if below_pow10 a b ex then ex else exponent_up n a b (ex + 1))"

definition decimal_exponent :: "int \<Rightarrow> int \<Rightarrow> int" where
  "decimal_exponent a b = (if a < b then exponent_down 330 a b 0 else exponent_up 310 a b 1)"

definition floor_pow10 :: "int \<Rightarrow> int \<Rightarrow> int \<Rightarrow> int" where
  "floor_pow10 a b k = (if 0 \<le> k then a div (b * 10 ^ nat k) else (a * 10 ^ nat (- k)) div b)"

text \<open>Is \<open>q\<close> nearer to \<open>a / b / 10^k\<close> than \<open>q + 1\<close>?\<close>

definition nearer_below :: "int \<Rightarrow> int \<Rightarrow> int \<Rightarrow> int \<Rightarrow> bool" where
  "nearer_below a b k q \<longleftrightarrow>
     (if 0 \<le> k then 2 * a < (2 * q + 1) * b * 10 ^ nat k else 2 * a * 10 ^ nat (- k) < (2 * q + 1) * b)"

fun shortest_digits :: "nat \<Rightarrow> int \<Rightarrow> int \<Rightarrow> int \<Rightarrow> int \<Rightarrow> int \<Rightarrow> int \<times> int" where
  "shortest_digits 0 bits a b ex n = (floor_pow10 a b (ex - n), ex - n)"
| "shortest_digits (Suc f) bits a b ex n =
     (let k = ex - n; q = floor_pow10 a b k;
          lo = (decimal_f64 q k = bits); hi = (decimal_f64 (q + 1) k = bits)
      in if lo \<and> hi then (if nearer_below a b k q then q else q + 1, k)
         else if lo then (q, k) else if hi then (q + 1, k)
         else shortest_digits f bits a b ex (n + 1))"

definition trim_zeros :: "string \<Rightarrow> string" where
  "trim_zeros s = rev (dropWhile (\<lambda>c. c = CHR ''0'') (rev s))"

definition decimal_text :: "int \<Rightarrow> int \<Rightarrow> string" where
  "decimal_text d k =
     (if 0 \<le> k then int_str d @ replicate (nat k) (CHR ''0'')
      else (let p = nat (- k); s = replicate (Suc p - length (int_str d)) (CHR ''0'') @ int_str d;
                whole = take (length s - p) s; frac = trim_zeros (drop (length s - p) s)
            in if frac = [] then whole else whole @ ''.'' @ frac))"

text \<open>\<open>bits\<close> are those of a positive finite double.\<close>

definition positive_text :: "int \<Rightarrow> string" where
  "positive_text bits =
     (let e = bits div 2 ^ 52; m = bits mod 2 ^ 52;
          sig = (if e = 0 then m else m + 2 ^ 52); k = max 1 e - 1075;
          a = (if 0 \<le> k then sig * 2 ^ nat k else sig); b = (if 0 \<le> k then 1 else 2 ^ nat (- k))
      in case shortest_digits 17 bits a b (decimal_exponent a b) 1 of (d, k) \<Rightarrow> decimal_text d k)"

definition display_f64 :: "f64 \<Rightarrow> string" where
  "display_f64 w =
     (let n = uint w; neg = 2 ^ 63 \<le> n; bits = n mod 2 ^ 63 in
      if f64_infinity < bits then ''NaN''
      else (if neg then ''-'' else []) @
        (if bits = f64_infinity then ''inf'' else if bits = 0 then ''0'' else positive_text bits))"

lemma display_examples:
  "map_option display_f64 (parse_f64 ''0.5'') = Some ''0.5''"
  "map_option display_f64 (parse_f64 ''0.9'') = Some ''0.9''"
  "map_option display_f64 (parse_f64 ''12'') = Some ''12''"
  by code_simp+

text \<open>Digits that were found are read back as the same bits.\<close>

lemma shortest_digits_sound:
  "shortest_digits f bits a b ex n = (d, k) \<Longrightarrow>
   decimal_f64 d k = bits \<or> (d = floor_pow10 a b (ex - (n + int f)) \<and> k = ex - (n + int f))"
proof (induction f arbitrary: n)
  case (Suc f)
  show ?case
  proof (cases "decimal_f64 (floor_pow10 a b (ex - n)) (ex - n) = bits
      \<or> decimal_f64 (floor_pow10 a b (ex - n) + 1) (ex - n) = bits")
    case True
    with Suc.prems show ?thesis by (auto simp: Let_def split: if_splits)
  next
    case False
    with Suc.prems have "shortest_digits f bits a b ex (n + 1) = (d, k)" by (simp add: Let_def)
    from Suc.IH [OF this] show ?thesis by (simp add: add.assoc)
  qed
qed auto

end
