(* ===== verification/ContainerConfig.thy ===== *)
theory ContainerConfig
  imports Launch FloatDisplay
begin

text \<open>
  \<^verbatim>\<open>agent/src/tasks/docker_backend.rs\<close>, first half: the configuration of a vLLM container (read by
  serde from the runtime's parameters and the instance's overrides), their merge, and the
  arguments of \<^verbatim>\<open>docker run\<close>. Ports are 16-bit words: \<open>container_port + 10000\<close> wraps as it does in a
  release build.
\<close>

section \<open>Decoding structs\<close>

text \<open>
  serde's derived decoding: an object gives each field the member of its name or alias (both
  is an error) and ignores other members, an array gives the fields by position.
\<close>

definition field_value :: "json \<Rightarrow> string list \<Rightarrow> json option" where
  "field_value v names =
     (case List.map_filter (jget v) names of [] \<Rightarrow> None | j # _ \<Rightarrow> Some j)"

definition struct_fields :: "string list list \<Rightarrow> json \<Rightarrow> json option list option" where
  "struct_fields fl v =
     (case v of
        JObj kvs \<Rightarrow>
          if \<exists>names \<in> set fl. 1 < length (List.map_filter (jget v) names) then None
          else Some (map (field_value v) fl)
      | JArr vs \<Rightarrow>
          if length fl < length vs then None
          else Some (map Some vs @ replicate (length fl - length vs) None)
      | _ \<Rightarrow> None)"

definition with_default :: "json option list \<Rightarrow> nat \<Rightarrow> 'a \<Rightarrow> (json \<Rightarrow> 'a option) \<Rightarrow> 'a option" where
  "with_default fs i d dec = (case fs ! i of None \<Rightarrow> Some d | Some j \<Rightarrow> dec j)"

definition required :: "json option list \<Rightarrow> nat \<Rightarrow> (json \<Rightarrow> 'a option) \<Rightarrow> 'a option" where
  "required fs i dec = Option.bind (fs ! i) dec"

definition dec_int :: "int \<Rightarrow> int \<Rightarrow> json \<Rightarrow> int option" where
  "dec_int lo hi j = (case j of JInt i \<Rightarrow> if lo \<le> i \<and> i \<le> hi then Some i else None | _ \<Rightarrow> None)"

definition dec_u16 :: "json \<Rightarrow> 16 word option" where
  "dec_u16 j = map_option word_of_int (dec_int 0 65535 j)"

definition dec_u32 :: "json \<Rightarrow> 32 word option" where
  "dec_u32 j = map_option word_of_int (dec_int 0 (2 ^ 32 - 1) j)"

definition dec_i64 :: "json \<Rightarrow> int option" where
  "dec_i64 j = dec_int (- (2 ^ 63)) (2 ^ 63 - 1) j"

definition dec_bool :: "json \<Rightarrow> bool option" where
  "dec_bool j = (case j of JBool b \<Rightarrow> Some b | _ \<Rightarrow> None)"

text \<open>An integer is read as the nearest double.\<close>

definition dec_f64 :: "json \<Rightarrow> f64 option" where
  "dec_f64 j =
     (case j of JFloat w \<Rightarrow> Some w | JInt i \<Rightarrow> Some (sign_bit (i < 0) (round_f64 \<bar>i\<bar> 1)) | _ \<Rightarrow> None)"

definition dec_opt :: "(json \<Rightarrow> 'a option) \<Rightarrow> json \<Rightarrow> 'a option option" where
  "dec_opt dec j = (if j = JNull then Some None else map_option Some (dec j))"

definition dec_list :: "(json \<Rightarrow> 'a option) \<Rightarrow> json \<Rightarrow> 'a list option" where
  "dec_list dec j = Option.bind (as_array j) (\<lambda>vs. those (map dec vs))"

definition dec_map :: "json \<Rightarrow> (string \<times> string) list option" where
  "dec_map j =
     (case j of JObj kvs \<Rightarrow> those (map (\<lambda>(k, v). map_option (Pair k) (as_str v)) kvs) | _ \<Rightarrow> None)"

section \<open>Configuration\<close>

record port_mapping =
  pm_host :: "16 word"
  pm_container :: "16 word"

record volume_mapping =
  vm_host :: string
  vm_container :: string
  vm_readonly :: bool

text \<open>\<open>dp_env\<close> is a hash map in the code, here the list of its entries in the order of iteration.\<close>

record docker_params =
  dp_image :: string
  dp_container_name :: string
  dp_gpu :: string
  dp_ipc :: string
  dp_ports :: "port_mapping list"
  dp_volumes :: "volume_mapping list"
  dp_env :: "(string \<times> string) list"
  dp_extra_docker_args :: "string list"

record vllm_params =
  vl_model :: string
  vl_served_model_name :: string
  vl_host :: string
  vl_port :: "16 word"
  vl_gpu_memory_utilization :: "f64 option"
  vl_max_model_len :: "32 word option"
  vl_max_num_seqs :: "32 word option"
  vl_tensor_parallel_size :: "32 word option"
  vl_extra_vllm_args :: "string list"

record docker_payload =
  dy_docker :: docker_params
  dy_vllm :: vllm_params

record backend_defaults =
  bd_host :: string
  bd_port :: "16 word"
  bd_gpu_memory_utilization :: "f64 option"
  bd_max_model_len :: "32 word option"
  bd_max_num_seqs :: "32 word option"
  bd_ctx_size :: "32 word option"
  bd_n_gpu_layers :: "int option"
  bd_tensor_parallel_size :: "32 word option"

record docker_runtime_config =
  dr_backend :: string
  dr_deploy_type :: string
  dr_image :: string
  dr_entrypoint :: string
  dr_gpu :: string
  dr_ipc :: string
  dr_container_port :: "16 word"
  dr_cache_host_path :: string
  dr_cache_container_path :: string
  dr_defaults :: backend_defaults
  dr_extra_docker_args :: "string list"
  dr_extra_backend_args :: "string list"

record docker_overrides =
  do_container_name :: string
  do_host_port :: "16 word"
  do_model_container_path :: string
  do_served_model_name :: string
  do_gpu_memory_utilization :: "f64 option"
  do_max_model_len :: "32 word option"
  do_max_num_seqs :: "32 word option"
  do_tensor_parallel_size :: "32 word option"
  do_gpu :: "string option"
  do_container_port :: "16 word option"
  do_extra_docker_args :: "string list"
  do_extra_backend_args :: "string list"

definition default_docker_params :: docker_params where
  "default_docker_params =
     \<lparr>dp_image = [], dp_container_name = [], dp_gpu = ''all'', dp_ipc = [], dp_ports = [],
      dp_volumes = [], dp_env = [], dp_extra_docker_args = []\<rparr>"

definition default_vllm_params :: vllm_params where
  "default_vllm_params =
     \<lparr>vl_model = [], vl_served_model_name = [], vl_host = ''0.0.0.0'', vl_port = 8000,
      vl_gpu_memory_utilization = None, vl_max_model_len = None, vl_max_num_seqs = None,
      vl_tensor_parallel_size = None, vl_extra_vllm_args = []\<rparr>"

definition default_docker_payload :: docker_payload where
  "default_docker_payload = \<lparr>dy_docker = default_docker_params, dy_vllm = default_vllm_params\<rparr>"

text \<open>The default utilisation 0.5 is the double with the bits \<open>1022 * 2^52\<close>.\<close>

definition default_backend_defaults :: backend_defaults where
  "default_backend_defaults =
     \<lparr>bd_host = ''0.0.0.0'', bd_port = 8000, bd_gpu_memory_utilization = Some (1022 * 2 ^ 52),
      bd_max_model_len = Some 4096, bd_max_num_seqs = Some 8, bd_ctx_size = Some 4096,
      bd_n_gpu_layers = Some (- 1), bd_tensor_parallel_size = Some 1\<rparr>"

definition default_docker_runtime_config :: docker_runtime_config where
  "default_docker_runtime_config =
     \<lparr>dr_backend = [], dr_deploy_type = [], dr_image = [], dr_entrypoint = [], dr_gpu = ''all'',
      dr_ipc = ''host'', dr_container_port = 8000, dr_cache_host_path = [],
      dr_cache_container_path = [], dr_defaults = default_backend_defaults,
      dr_extra_docker_args = [], dr_extra_backend_args = []\<rparr>"

definition default_docker_overrides :: docker_overrides where
  "default_docker_overrides =
     \<lparr>do_container_name = [], do_host_port = 0, do_model_container_path = [],
      do_served_model_name = [], do_gpu_memory_utilization = None, do_max_model_len = None,
      do_max_num_seqs = None, do_tensor_parallel_size = None, do_gpu = None,
      do_container_port = None, do_extra_docker_args = [], do_extra_backend_args = []\<rparr>"

section \<open>Decoding the configuration\<close>

definition backend_defaults_from :: "json \<Rightarrow> backend_defaults option" where
  "backend_defaults_from v =
     (let d = default_backend_defaults in
      Option.bind (struct_fields [[''host''], [''port''], [''gpu_memory_utilization''], [''max_model_len''],
        [''max_num_seqs''], [''ctx_size''], [''n_gpu_layers''], [''tensor_parallel_size'']] v) (\<lambda>f.
      Option.bind (with_default f 0 (bd_host d) as_str) (\<lambda>host.
      Option.bind (with_default f 1 (bd_port d) dec_u16) (\<lambda>port.
      Option.bind (with_default f 2 (bd_gpu_memory_utilization d) (dec_opt dec_f64)) (\<lambda>gmu.
      Option.bind (with_default f 3 (bd_max_model_len d) (dec_opt dec_u32)) (\<lambda>ml.
      Option.bind (with_default f 4 (bd_max_num_seqs d) (dec_opt dec_u32)) (\<lambda>ns.
      Option.bind (with_default f 5 (bd_ctx_size d) (dec_opt dec_u32)) (\<lambda>ctx.
      Option.bind (with_default f 6 (bd_n_gpu_layers d) (dec_opt dec_i64)) (\<lambda>layers.
      Option.bind (with_default f 7 (bd_tensor_parallel_size d) (dec_opt dec_u32)) (\<lambda>tp.
      Some \<lparr>bd_host = host, bd_port = port, bd_gpu_memory_utilization = gmu, bd_max_model_len = ml,
            bd_max_num_seqs = ns, bd_ctx_size = ctx, bd_n_gpu_layers = layers,
            bd_tensor_parallel_size = tp\<rparr>))))))))))"

definition docker_runtime_config_from :: "json \<Rightarrow> docker_runtime_config option" where
  "docker_runtime_config_from v =
     (let d = default_docker_runtime_config in
      Option.bind (struct_fields [[''backend''], [''deploy_type''], [''image''], [''entrypoint''], [''gpu''],
        [''ipc''], [''container_port''], [''cache_host_path''], [''cache_container_path''],
        [''defaults'', ''vllm_defaults''], [''extra_docker_args''],
        [''extra_backend_args'', ''extra_vllm_args'']] v) (\<lambda>f.
      Option.bind (with_default f 0 (dr_backend d) as_str) (\<lambda>backend.
      Option.bind (with_default f 1 (dr_deploy_type d) as_str) (\<lambda>deploy.
      Option.bind (with_default f 2 (dr_image d) as_str) (\<lambda>img.
      Option.bind (with_default f 3 (dr_entrypoint d) as_str) (\<lambda>entry.
      Option.bind (with_default f 4 (dr_gpu d) as_str) (\<lambda>gpu.
      Option.bind (with_default f 5 (dr_ipc d) as_str) (\<lambda>ipc.
      Option.bind (with_default f 6 (dr_container_port d) dec_u16) (\<lambda>port.
      Option.bind (with_default f 7 (dr_cache_host_path d) as_str) (\<lambda>chost.
      Option.bind (with_default f 8 (dr_cache_container_path d) as_str) (\<lambda>ccont.
      Option.bind (with_default f 9 (dr_defaults d) backend_defaults_from) (\<lambda>defs.
      Option.bind (with_default f 10 (dr_extra_docker_args d) (dec_list as_str)) (\<lambda>extra.
      Option.bind (with_default f 11 (dr_extra_backend_args d) (dec_list as_str)) (\<lambda>bextra.
      Some \<lparr>dr_backend = backend, dr_deploy_type = deploy, dr_image = img, dr_entrypoint = entry,
            dr_gpu = gpu, dr_ipc = ipc, dr_container_port = port, dr_cache_host_path = chost,
            dr_cache_container_path = ccont, dr_defaults = defs, dr_extra_docker_args = extra,
            dr_extra_backend_args = bextra\<rparr>))))))))))))))"

definition docker_overrides_from :: "json \<Rightarrow> docker_overrides option" where
  "docker_overrides_from v =
     (let d = default_docker_overrides in
      Option.bind (struct_fields [[''container_name''], [''host_port''], [''model_container_path''],
        [''served_model_name''], [''gpu_memory_utilization''], [''max_model_len''], [''max_num_seqs''],
        [''tensor_parallel_size''], [''gpu''], [''container_port''], [''extra_docker_args''],
        [''extra_backend_args'', ''extra_vllm_args'']] v) (\<lambda>f.
      Option.bind (with_default f 0 (do_container_name d) as_str) (\<lambda>cname.
      Option.bind (with_default f 1 (do_host_port d) dec_u16) (\<lambda>hport.
      Option.bind (with_default f 2 (do_model_container_path d) as_str) (\<lambda>mpath.
      Option.bind (with_default f 3 (do_served_model_name d) as_str) (\<lambda>served.
      Option.bind (with_default f 4 (do_gpu_memory_utilization d) (dec_opt dec_f64)) (\<lambda>gmu.
      Option.bind (with_default f 5 (do_max_model_len d) (dec_opt dec_u32)) (\<lambda>ml.
      Option.bind (with_default f 6 (do_max_num_seqs d) (dec_opt dec_u32)) (\<lambda>ns.
      Option.bind (with_default f 7 (do_tensor_parallel_size d) (dec_opt dec_u32)) (\<lambda>tp.
      Option.bind (with_default f 8 (do_gpu d) (dec_opt as_str)) (\<lambda>gpu.
      Option.bind (with_default f 9 (do_container_port d) (dec_opt dec_u16)) (\<lambda>cport.
      Option.bind (with_default f 10 (do_extra_docker_args d) (dec_list as_str)) (\<lambda>extra.
      Option.bind (with_default f 11 (do_extra_backend_args d) (dec_list as_str)) (\<lambda>bextra.
      Some \<lparr>do_container_name = cname, do_host_port = hport, do_model_container_path = mpath,
            do_served_model_name = served, do_gpu_memory_utilization = gmu, do_max_model_len = ml,
            do_max_num_seqs = ns, do_tensor_parallel_size = tp, do_gpu = gpu,
            do_container_port = cport, do_extra_docker_args = extra,
            do_extra_backend_args = bextra\<rparr>))))))))))))))"

definition port_mapping_from :: "json \<Rightarrow> port_mapping option" where
  "port_mapping_from v =
     Option.bind (struct_fields [[''host''], [''container'']] v) (\<lambda>f.
     Option.bind (required f 0 dec_u16) (\<lambda>host.
     Option.bind (required f 1 dec_u16) (\<lambda>container.
     Some \<lparr>pm_host = host, pm_container = container\<rparr>)))"

definition volume_mapping_from :: "json \<Rightarrow> volume_mapping option" where
  "volume_mapping_from v =
     Option.bind (struct_fields [[''host''], [''container''], [''readonly'']] v) (\<lambda>f.
     Option.bind (required f 0 as_str) (\<lambda>host.
     Option.bind (required f 1 as_str) (\<lambda>container.
     Option.bind (with_default f 2 False dec_bool) (\<lambda>ro.
     Some \<lparr>vm_host = host, vm_container = container, vm_readonly = ro\<rparr>))))"

definition docker_params_from :: "json \<Rightarrow> docker_params option" where
  "docker_params_from v =
     (let d = default_docker_params in
      Option.bind (struct_fields [[''image''], [''container_name''], [''gpu''], [''ipc''], [''ports''],
        [''volumes''], [''env''], [''extra_docker_args'']] v) (\<lambda>f.
      Option.bind (with_default f 0 (dp_image d) as_str) (\<lambda>img.
      Option.bind (with_default f 1 (dp_container_name d) as_str) (\<lambda>cname.
      Option.bind (with_default f 2 (dp_gpu d) as_str) (\<lambda>gpu.
      Option.bind (with_default f 3 (dp_ipc d) as_str) (\<lambda>ipc.
      Option.bind (with_default f 4 (dp_ports d) (dec_list port_mapping_from)) (\<lambda>ports.
      Option.bind (with_default f 5 (dp_volumes d) (dec_list volume_mapping_from)) (\<lambda>volumes.
      Option.bind (with_default f 6 (dp_env d) dec_map) (\<lambda>env.
      Option.bind (with_default f 7 (dp_extra_docker_args d) (dec_list as_str)) (\<lambda>extra.
      Some \<lparr>dp_image = img, dp_container_name = cname, dp_gpu = gpu, dp_ipc = ipc, dp_ports = ports,
            dp_volumes = volumes, dp_env = env, dp_extra_docker_args = extra\<rparr>))))))))))"

definition vllm_params_from :: "json \<Rightarrow> vllm_params option" where
  "vllm_params_from v =
     (let d = default_vllm_params in
      Option.bind (struct_fields [[''model''], [''served_model_name''], [''host''], [''port''],
        [''gpu_memory_utilization''], [''max_model_len''], [''max_num_seqs''],
        [''tensor_parallel_size''], [''extra_vllm_args'']] v) (\<lambda>f.
      Option.bind (with_default f 0 (vl_model d) as_str) (\<lambda>mdl.
      Option.bind (with_default f 1 (vl_served_model_name d) as_str) (\<lambda>served.
      Option.bind (with_default f 2 (vl_host d) as_str) (\<lambda>host.
      Option.bind (with_default f 3 (vl_port d) dec_u16) (\<lambda>port.
      Option.bind (with_default f 4 (vl_gpu_memory_utilization d) (dec_opt dec_f64)) (\<lambda>gmu.
      Option.bind (with_default f 5 (vl_max_model_len d) (dec_opt dec_u32)) (\<lambda>ml.
      Option.bind (with_default f 6 (vl_max_num_seqs d) (dec_opt dec_u32)) (\<lambda>ns.
      Option.bind (with_default f 7 (vl_tensor_parallel_size d) (dec_opt dec_u32)) (\<lambda>tp.
      Option.bind (with_default f 8 (vl_extra_vllm_args d) (dec_list as_str)) (\<lambda>extra.
      Some \<lparr>vl_model = mdl, vl_served_model_name = served, vl_host = host, vl_port = port,
            vl_gpu_memory_utilization = gmu, vl_max_model_len = ml, vl_max_num_seqs = ns,
            vl_tensor_parallel_size = tp, vl_extra_vllm_args = extra\<rparr>)))))))))))"

text \<open>\<open>parse_docker_payload\<close> (kept in the code for tests only) answers with an error text.\<close>

definition docker_payload_from :: "json \<Rightarrow> docker_payload option" where
  "docker_payload_from v =
     Option.bind (struct_fields [[''docker''], [''vllm'']] v) (\<lambda>f.
     Option.bind (with_default f 0 default_docker_params docker_params_from) (\<lambda>docker.
     Option.bind (with_default f 1 default_vllm_params vllm_params_from) (\<lambda>vllm.
     Some \<lparr>dy_docker = docker, dy_vllm = vllm\<rparr>)))"

definition parse_docker_payload :: "ext \<Rightarrow> json \<Rightarrow> docker_payload option" where
  "parse_docker_payload x payload = docker_payload_from (probe_params x payload)"

section \<open>Merging\<close>

definition docker_volumes :: "string \<Rightarrow> string \<Rightarrow> docker_runtime_config \<Rightarrow> volume_mapping list" where
  "docker_volumes model_host_path container_model rt =
     (if \<not> blank (dr_cache_host_path rt) \<and> \<not> blank (dr_cache_container_path rt)
      then [\<lparr>vm_host = trim (dr_cache_host_path rt), vm_container = trim (dr_cache_container_path rt),
             vm_readonly = False\<rparr>]
      else [])
     @ [\<lparr>vm_host = trim model_host_path, vm_container = container_model, vm_readonly = True\<rparr>]"

definition host_port_for :: "docker_runtime_config \<Rightarrow> docker_overrides \<Rightarrow> 16 word" where
  "host_port_for rt ov =
     (if 0 < do_host_port ov then do_host_port ov else dr_container_port rt + 10000)"

definition container_model_path :: "string \<Rightarrow> docker_overrides \<Rightarrow> string" where
  "container_model_path model_host_path ov =
     (if blank (do_model_container_path ov)
      then ''/models/'' @ unwrap_or (path_file_name model_host_path) ''model''
      else trim (do_model_container_path ov))"

definition merged_payload ::
  "string \<Rightarrow> string \<Rightarrow> docker_runtime_config \<Rightarrow> docker_overrides \<Rightarrow> docker_payload" where
  "merged_payload model_host_path served_name rt ov =
     (let mdl = container_model_path model_host_path ov; d = dr_defaults rt in
      \<lparr>dy_docker = default_docker_params
         \<lparr>dp_image := dr_image rt, dp_container_name := do_container_name ov,
          dp_gpu := unwrap_or (do_gpu ov) (dr_gpu rt), dp_ipc := dr_ipc rt,
          dp_ports := [\<lparr>pm_host = host_port_for rt ov, pm_container = dr_container_port rt\<rparr>],
          dp_volumes := docker_volumes model_host_path mdl rt,
          dp_extra_docker_args := dr_extra_docker_args rt @ do_extra_docker_args ov\<rparr>,
       dy_vllm =
         \<lparr>vl_model = mdl, vl_served_model_name = served_name, vl_host = bd_host d, vl_port = bd_port d,
          vl_gpu_memory_utilization = (case do_gpu_memory_utilization ov of
             None \<Rightarrow> bd_gpu_memory_utilization d | Some u \<Rightarrow> Some u),
          vl_max_model_len = (case do_max_model_len ov of None \<Rightarrow> bd_max_model_len d | Some u \<Rightarrow> Some u),
          vl_max_num_seqs = (case do_max_num_seqs ov of None \<Rightarrow> bd_max_num_seqs d | Some u \<Rightarrow> Some u),
          vl_tensor_parallel_size = (case do_tensor_parallel_size ov of
             None \<Rightarrow> bd_tensor_parallel_size d | Some u \<Rightarrow> Some u),
          vl_extra_vllm_args = dr_extra_backend_args rt @ do_extra_backend_args ov\<rparr>\<rparr>)"

definition merge_docker_config ::
  "string \<Rightarrow> string \<Rightarrow> docker_runtime_config option \<Rightarrow> docker_overrides option \<Rightarrow> string + docker_payload" where
  "merge_docker_config model_host_path model_name runtime overrides =
     (let rt = unwrap_or runtime default_docker_runtime_config;
          ov = unwrap_or overrides default_docker_overrides
      in if blank (dr_image rt) then Inl ''Docker runtime missing image config''
         else if blank model_host_path then Inl ''Model file path not configured''
         else if blank (do_served_model_name ov) \<and> blank model_name
         then Inl ''served_model_name not configured''
         else Inr (merged_payload model_host_path
           (if blank (do_served_model_name ov) then model_name else trim (do_served_model_name ov)) rt ov))"

section \<open>Arguments\<close>

definition validate_docker_arg :: "string \<Rightarrow> string option" where
  "validate_docker_arg a =
     (if blank a then Some ''Docker extra args must not be empty''
      else if 512 < length a \<or> any_char is_control a
      then Some ''Docker extra args contain invalid characters'' else None)"

definition flag_arg :: "string \<Rightarrow> string \<Rightarrow> string list" where
  "flag_arg flag v = (if blank v then [] else [flag, trim v])"

definition port_pair :: "port_mapping \<Rightarrow> string" where
  "port_pair p = port_str (pm_host p) @ '':'' @ port_str (pm_container p)"

definition volume_arg :: "volume_mapping \<Rightarrow> string" where
  "volume_arg v = trim (vm_host v) @ '':'' @ trim (vm_container v) @ (if vm_readonly v then '':ro'' else [])"

definition build_docker_run_args :: "docker_payload \<Rightarrow> string + string list" where
  "build_docker_run_args payload =
     (let d = dy_docker payload in
      if blank (dp_image d) then Inl ''Docker image not configured''
      else case first_error (map validate_docker_arg (dp_extra_docker_args d)) of
        Some e \<Rightarrow> Inl e
      | None \<Rightarrow> Inr
          ([''run''] @ flag_arg ''--name'' (dp_container_name d) @ flag_arg ''--gpus'' (dp_gpu d)
           @ flag_arg ''--ipc'' (dp_ipc d)
           @ concat (map (\<lambda>p. [''-p'', port_pair p]) (dp_ports d))
           @ concat (map (\<lambda>v. [''-v'', volume_arg v]) (dp_volumes d))
           @ concat (map (\<lambda>(k, v). [''-e'', k @ ''='' @ v]) (dp_env d))
           @ dp_extra_docker_args d @ [''--detach'', trim (dp_image d)]))"

definition word_arg :: "string \<Rightarrow> 32 word option \<Rightarrow> string list" where
  "word_arg flag v = (case v of None \<Rightarrow> [] | Some n \<Rightarrow> [flag, int_str (uint n)])"

definition build_vllm_args :: "docker_payload \<Rightarrow> string list" where
  "build_vllm_args payload =
     (let v = dy_vllm payload in
      flag_arg ''--model'' (vl_model v) @ flag_arg ''--served-model-name'' (vl_served_model_name v)
      @ flag_arg ''--host'' (vl_host v)
      @ (if 0 < vl_port v then [''--port'', port_str (vl_port v)] else [])
      @ (case vl_gpu_memory_utilization v of
           None \<Rightarrow> [] | Some u \<Rightarrow> [''--gpu-memory-utilization'', display_f64 u])
      @ word_arg ''--max-model-len'' (vl_max_model_len v)
      @ word_arg ''--max-num-seqs'' (vl_max_num_seqs v)
      @ (if vl_tensor_parallel_size v = Some 0 then []
         else word_arg ''--tensor-parallel-size'' (vl_tensor_parallel_size v))
      @ vl_extra_vllm_args v)"

text \<open>\<open>sanitize_docker_arg\<close> is the text of \<open>sanitize_arg_for_display\<close> again.\<close>

definition sanitize_docker_arg :: "string \<Rightarrow> string" where
  "sanitize_docker_arg a =
     (if \<exists>w \<in> set secret_arg_words. contains (to_ascii_lowercase a) w then ''[redacted]'' else a)"

definition docker_command_parts :: "string \<Rightarrow> string list \<Rightarrow> string list \<Rightarrow> string list" where
  "docker_command_parts img docker_args vllm_args =
     [''docker''] @ map sanitize_docker_arg docker_args @ [img] @ map sanitize_docker_arg vllm_args"

definition docker_command_summary :: "ext \<Rightarrow> string \<Rightarrow> string list \<Rightarrow> string list \<Rightarrow> string" where
  "docker_command_summary x img docker_args vllm_args =
     ext_jprint x (JArr (map JStr (docker_command_parts img docker_args vllm_args)))"

section \<open>Facts\<close>

lemma sanitize_docker_arg_eq: "sanitize_docker_arg = sanitize_arg_for_display"
  by (simp add: fun_eq_iff sanitize_docker_arg_def sanitize_arg_for_display_def)

text \<open>The host port wraps around: a container port above 55535 gives a low one.\<close>

lemma host_port_wraps:
  "do_host_port ov = 0 \<Longrightarrow> uint (host_port_for rt ov) = (uint (dr_container_port rt) + 10000) mod 65536"
  by (simp add: host_port_for_def uint_word_ariths)

lemma run_args_shape:
  assumes "build_docker_run_args p = Inr args"
  shows "hd args = ''run'' \<and> last args = trim (dp_image (dy_docker p)) \<and> \<not> blank (dp_image (dy_docker p))
    \<and> ''--detach'' \<in> set args
    \<and> (\<forall>a \<in> set (dp_extra_docker_args (dy_docker p)). validate_docker_arg a = None \<and> a \<in> set args)
    \<and> (\<forall>q \<in> set (dp_ports (dy_docker p)). port_pair q \<in> set args)
    \<and> (\<forall>v \<in> set (dp_volumes (dy_docker p)). volume_arg v \<in> set args)"
proof -
  from assms have e: "\<not> blank (dp_image (dy_docker p))"
    "first_error (map validate_docker_arg (dp_extra_docker_args (dy_docker p))) = None"
    by (auto simp: build_docker_run_args_def Let_def split: if_splits option.splits)
  with assms show ?thesis
    by (auto simp: build_docker_run_args_def Let_def first_error_None)
qed

lemma merged_ok:
  assumes "merge_docker_config path name runtime overrides = Inr p"
  shows "\<not> blank (dp_image (dy_docker p)) \<and>
    (\<exists>m. m = \<lparr>vm_host = trim path, vm_container = vl_model (dy_vllm p), vm_readonly = True\<rparr>
      \<and> m \<in> set (dp_volumes (dy_docker p)))
    \<and> length (dp_ports (dy_docker p)) = 1 \<and> dp_env (dy_docker p) = []"
  using assms
  by (auto simp: merge_docker_config_def Let_def merged_payload_def docker_volumes_def
      default_docker_params_def split: if_splits)

text \<open>Every volume is mounted by an argument of its own.\<close>

lemma run_args_volume:
  assumes "build_docker_run_args p = Inr args" and "v \<in> set (dp_volumes (dy_docker p))"
  shows "\<exists>before after. args = before @ [''-v'', volume_arg v] @ after"
proof -
  let ?f = "\<lambda>vs. concat (map (\<lambda>v. [''-v'', volume_arg v]) vs)"
  from assms(2) obtain vs ws where vs: "dp_volumes (dy_docker p) = vs @ v # ws" by (meson split_list)
  have "\<exists>xs ts. args = xs @ ?f (dp_volumes (dy_docker p)) @ ts"
    using assms(1) by (auto simp: build_docker_run_args_def Let_def split: if_splits option.splits
      intro: exI [of _ "''run'' # flag_arg ''--name'' (dp_container_name (dy_docker p))
          @ flag_arg ''--gpus'' (dp_gpu (dy_docker p)) @ flag_arg ''--ipc'' (dp_ipc (dy_docker p))
          @ concat (map (\<lambda>q. [''-p'', port_pair q]) (dp_ports (dy_docker p)))"])
  then obtain xs ts where "args = xs @ ?f (dp_volumes (dy_docker p)) @ ts" by blast
  then have "args = (xs @ ?f vs) @ [''-v'', volume_arg v] @ (?f ws @ ts)" by (simp add: vs)
  then show ?thesis by blast
qed

end
