(* ===== verification/Containers.thy ===== *)
theory Containers
  imports ContainerConfig AgentLoop
begin

text \<open>
  \<^verbatim>\<open>agent/src/tasks/docker_backend.rs\<close>, second half, and the container operations of
  \<^verbatim>\<open>tasks/process.rs\<close>: start, stop, inspect and logs of a container through the docker command, and the
  managed record a started container leaves.
\<close>

definition port_or_default :: "docker_payload \<Rightarrow> 16 word" where
  "port_or_default p = (case dp_ports (dy_docker p) of [] \<Rightarrow> 8000 | q # _ \<Rightarrow> pm_host q)"

section \<open>Start\<close>

definition shown_volume :: "volume_mapping \<Rightarrow> string" where
  "shown_volume v = vm_host v @ '':'' @ vm_container v @ (if vm_readonly v then '':ro'' else [])"

definition start_message :: "string \<Rightarrow> docker_payload \<Rightarrow> string \<Rightarrow> string" where
  "start_message instance_id p summary =
     (let d = dy_docker p in
      ''Docker start instance_id='' @ instance_id @ '' container_name='' @ dp_container_name d
      @ '' image='' @ trim (dp_image d) @ '' gpu='' @ dp_gpu d @ '' ipc='' @ dp_ipc d
      @ '' port='' @ (case dp_ports d of [] \<Rightarrow> [] | q # _ \<Rightarrow> port_pair q)
      @ '' volumes=['' @ join '', '' (map shown_volume (dp_volumes d)) @ ''] command_summary='' @ summary)"

definition failed_run_detail :: "string \<Rightarrow> string" where
  "failed_run_detail stderr =
     chars_take 300 (case lines stderr of [] \<Rightarrow> ''Docker run failed'' | l # _ \<Rightarrow> l)"

text \<open>What follows from the outcome of \<^verbatim>\<open>docker run\<close>: the result and the line in the log.\<close>

definition docker_run_result ::
  "agent_host \<Rightarrow> string \<Rightarrow> docker_payload \<Rightarrow> string \<Rightarrow> command_result \<Rightarrow> instance_result \<times> agent_effect" where
  "docker_run_result h instance_id p summary r =
     (case r of
        RunFailed e \<Rightarrow>
          (instance_failure_with_details (''Docker run failed: '' @ e) None (Some summary),
           LogLine ''error'' (''Docker run process start failed instance_id='' @ instance_id @ '': '' @ e
             @ '' command_summary='' @ summary))
      | TimedOut \<Rightarrow>
          (instance_failure_with_details ''Docker run timed out'' None (Some summary),
           LogLine ''error'' (''Docker run timed out instance_id='' @ instance_id @ '' command_summary='' @ summary))
      | Finished out \<Rightarrow>
          (let stderr = ah_lossy h (co_stderr out); stdout = ah_lossy h (co_stdout out);
               detail = failed_run_detail stderr; container_id = trim stdout;
               base_url = ''http://127.0.0.1:'' @ port_str (port_or_default p)
           in if \<not> co_success out
              then (instance_failure_with_details (''Docker run failed'' @ wide_colon @ detail)
                      (Some (chars_take 4096 stderr)) (Some summary),
                    LogLine ''error'' (''Docker run failed instance_id='' @ instance_id @ '' container_name=''
                      @ dp_container_name (dy_docker p) @ '' detail='' @ detail @ '' command_summary='' @ summary))
              else (\<lparr>it_instance_status = ''running'',
                     it_message = ''Docker container started container_id='' @ container_id,
                     it_base_url = Some base_url, it_endpoint_url = Some base_url, it_process_id = None,
                     it_process_ref = Some container_id, it_response_summary = None, it_log_tail = None,
                     it_command = Some summary\<rparr>,
                    LogLine ''info'' (''Docker container started instance_id='' @ instance_id
                      @ '' container_id='' @ container_id @ '' container_name=''
                      @ dp_container_name (dy_docker p)))))"

definition start_docker_container ::
  "ext \<Rightarrow> agent_host \<Rightarrow> string \<Rightarrow> docker_payload \<Rightarrow> instance_result \<times> agent_effect list" where
  "start_docker_container x h instance_id p =
     (case build_docker_run_args p of
        Inl e \<Rightarrow> (instance_failure e,
          [LogLine ''error'' (''Docker start arg build failed instance_id='' @ instance_id @ '': '' @ e)])
      | Inr docker_args \<Rightarrow>
          (let vllm_args = build_vllm_args p; args = docker_args @ vllm_args;
               summary = docker_command_summary x (trim (dp_image (dy_docker p))) docker_args vllm_args
           in case docker_run_result h instance_id p summary (ah_run h ''docker'' args) of
                (r, line) \<Rightarrow>
                  (r, [LogLine ''info'' (start_message instance_id p summary), ProgramRun ''docker'' args, line])))"

definition create_docker_managed_record ::
  "string \<Rightarrow> string \<Rightarrow> string \<Rightarrow> string \<Rightarrow> string \<Rightarrow> int \<Rightarrow> process_record" where
  "create_docker_managed_record instance_id container_id container_name base_url summary started_at =
     \<lparr>pr_instance_id = instance_id, pr_process_id = 0, pr_process_start_time = None,
      pr_base_url = Some base_url, pr_endpoint_url = Some base_url, pr_command = Some summary,
      pr_log_path = None, pr_started_at = started_at, pr_container_id = Some container_id,
      pr_container_name = Some container_name, pr_deploy_type = Some ''docker''\<rparr>"

text \<open>\<open>resolve_docker_payload\<close>: a configuration that does not decode counts as absent.\<close>

definition embedded_json :: "ext \<Rightarrow> json \<Rightarrow> json" where
  "embedded_json x v = (case as_str v of None \<Rightarrow> v | Some s \<Rightarrow> unwrap_or (ext_jparse x s) JNull)"

definition resolve_docker_payload :: "ext \<Rightarrow> json \<Rightarrow> docker_payload" where
  "resolve_docker_payload x payload =
     (let runtime_params = (case jget payload ''runtime_params'' of
            None \<Rightarrow> jget payload ''runtime_config'' | Some v \<Rightarrow> Some v);
          runtime = Option.bind runtime_params (\<lambda>v. docker_runtime_config_from (embedded_json x v));
          overrides = Option.bind (jget payload ''params_json'') (\<lambda>v. docker_overrides_from (embedded_json x v))
      in if runtime = None \<and> overrides = None then default_docker_payload
         else case merge_docker_config (unwrap_or (get_str payload ''model_path'') [])
                     (unwrap_or (get_str payload ''model_name'') []) runtime overrides of
           Inr p \<Rightarrow> p
         | Inl _ \<Rightarrow> default_docker_payload)"

definition start_docker_instance ::
  "ext \<Rightarrow> agent_host \<Rightarrow> string \<Rightarrow> json \<Rightarrow> agent_mem \<Rightarrow> instance_result \<times> agent_mem \<times> agent_effect list" where
  "start_docker_instance x h instance_id payload m =
     (let p = resolve_docker_payload x payload in
      case start_docker_container x h instance_id p of (r, es) \<Rightarrow>
        if it_instance_status r \<noteq> ''running'' \<or> am_store m = None then (r, m, es)
        else (let summary = unwrap_or (it_command r) [];
                  record = create_docker_managed_record instance_id (unwrap_or (it_process_ref r) [])
                    (dp_container_name (dy_docker p)) (unwrap_or (it_base_url r) []) summary (ah_clock h)
              in case store_upsert h record m of
                   (Some e, m') \<Rightarrow>
                     (instance_failure_with_details (''failed to write Docker managed record: '' @ e) None
                        (Some summary), m', es)
                 | (None, m') \<Rightarrow> (r, m', es)))"

section \<open>Stop\<close>

definition container_ref :: "process_record \<Rightarrow> string option" where
  "container_ref r = coalesce (pr_container_id r) (pr_container_name r)"

definition stop_failure :: "agent_host \<Rightarrow> string \<Rightarrow> command_result \<Rightarrow> (string \<times> string) option" where
  "stop_failure h who r =
     (case r of
        RunFailed e \<Rightarrow> Some (''Docker stop failed: '' @ e, ''Docker stop process failed '' @ who @ '': '' @ e)
      | TimedOut \<Rightarrow> Some (''Docker stop timed out'', ''Docker stop timed out '' @ who)
      | Finished out \<Rightarrow>
          if co_success out then None
          else (let stderr = trim (ah_lossy h (co_stderr out)) in
                Some (''Docker stop failed: '' @ stderr, ''Docker stop failed '' @ who @ '': '' @ stderr)))"

definition stop_docker_container ::
  "agent_host \<Rightarrow> process_record \<Rightarrow> string option \<times> agent_effect list" where
  "stop_docker_container h r =
     (case container_ref r of
        None \<Rightarrow> (Some ''missing container ID or name; cannot stop'', [])
      | Some c \<Rightarrow>
          (let who = ''instance_id='' @ pr_instance_id r @ '' container_ref='' @ c;
               begun = [LogLine ''info'' (''Docker stop starting '' @ who), ProgramRun ''docker'' [''stop'', c]]
           in case stop_failure h who (ah_run h ''docker'' [''stop'', c]) of
                Some (e, line) \<Rightarrow> (Some e, begun @ [LogLine ''error'' line])
              | None \<Rightarrow> (None, begun @ [LogLine ''info'' (''Docker container stopped '' @ who)])))"

text \<open>The record is dropped and the instance reported as stopped whether docker stopped it or not.\<close>

definition stop_docker_instance ::
  "agent_host \<Rightarrow> string \<Rightarrow> process_record \<Rightarrow> agent_mem \<Rightarrow> instance_result \<times> agent_mem \<times> agent_effect list" where
  "stop_docker_instance h instance_id r m =
     (case stop_docker_container h r of (e, es) \<Rightarrow>
        (instance_stopped (unwrap_or e ''Docker container stopped'') None (pr_command r),
         snd (store_remove h instance_id m), es))"

section \<open>Inspect\<close>

record container_status =
  ct_running :: bool
  ct_message :: string
  ct_exit_code :: "int option"

text \<open>\<open>value[k]\<close> of serde_json: null where there is no such member.\<close>

definition jindex :: "json \<Rightarrow> string \<Rightarrow> json" where
  "jindex v k = unwrap_or (jget v k) JNull"

definition container_state :: "json \<Rightarrow> container_status" where
  "container_state container =
     (let state = jindex container ''State'';
          running = unwrap_or (as_bool (jindex state ''Running'')) False;
          code = as_i64 (jindex state ''ExitCode'');
          err = (case as_str (jindex state ''Error'') of
                   None \<Rightarrow> None | Some s \<Rightarrow> if s = [] then None else Some s)
      in \<lparr>ct_running = running,
          ct_message = (if running then ''container running''
            else case err of
              Some e \<Rightarrow> ''container exited, error: '' @ e
            | None \<Rightarrow> ''container exited, exit code: ''
                @ (case code of None \<Rightarrow> ''unknown'' | Some c \<Rightarrow> int_str c)),
          ct_exit_code = code\<rparr>)"

definition inspect_docker_container ::
  "ext \<Rightarrow> agent_host \<Rightarrow> string \<Rightarrow> string + container_status" where
  "inspect_docker_container x h c =
     (case ah_run h ''docker'' [''inspect'', c] of
        TimedOut \<Rightarrow> Inl ''Docker inspect timed out''
      | RunFailed e \<Rightarrow> Inl (''Docker inspect failed: '' @ e)
      | Finished out \<Rightarrow>
          (let stderr = ah_lossy h (co_stderr out); stdout = ah_lossy h (co_stdout out) in
           if \<not> co_success out then
             (if contains stderr ''No such object''
              then Inr \<lparr>ct_running = False, ct_message = ''container not found'', ct_exit_code = None\<rparr>
              else Inl (''Docker inspect failed: '' @ trim stderr))
           else case Option.bind (ext_jparse x stdout) as_array of
             None \<Rightarrow> Inl (''Docker inspect output parse failed: '' @ ah_json_error h stdout)
           | Some [] \<Rightarrow> Inl ''Docker inspect returned empty array''
           | Some (container # _) \<Rightarrow> Inr (container_state container)))"

definition check_docker_record ::
  "ext \<Rightarrow> agent_host \<Rightarrow> process_record \<Rightarrow> proc_check \<times> agent_effect list" where
  "check_docker_record x h r =
     (case container_ref r of
        None \<Rightarrow> (\<lparr>pc_is_running = False, pc_message = ''missing container ID or name''\<rparr>, [])
      | Some c \<Rightarrow>
          (let who = ''instance_id='' @ pr_instance_id r @ '' container_ref='' @ c;
               run = ProgramRun ''docker'' [''inspect'', c]
           in case inspect_docker_container x h c of
                Inr s \<Rightarrow>
                  (\<lparr>pc_is_running = ct_running s, pc_message = ct_message s\<rparr>,
                   [run, LogLine ''debug'' (''Docker inspect '' @ who @ '' running=''
                      @ (if ct_running s then ''true'' else ''false'') @ '' message='' @ ct_message s)])
              | Inl e \<Rightarrow>
                  (\<lparr>pc_is_running = False, pc_message = ''Docker container check failed: '' @ e\<rparr>,
                   [run, LogLine ''warn'' (''Docker inspect failed '' @ who @ '': '' @ e)])))"

text \<open>The host as the process store sees it, with its questions about containers answered by docker.\<close>

definition docker_host :: "ext \<Rightarrow> agent_host \<Rightarrow> host" where
  "docker_host x h =
     (ah_processes h)\<lparr>ho_docker_check := (\<lambda>r. fst (check_docker_record x h r)),
                     ho_docker_stop := (\<lambda>r. fst (stop_docker_container h r))\<rparr>"

section \<open>Logs\<close>

definition DOCKER_LOGS_TAIL_BYTES :: nat where
  "DOCKER_LOGS_TAIL_BYTES = 8192"

definition logs_args :: "nat \<Rightarrow> string \<Rightarrow> string list" where
  "logs_args n c = [''logs'', ''--tail'', int_str (int (min n DOCKER_LOGS_TAIL_BYTES)), c]"

text \<open>The byte count is passed as a number of lines. \<open>None\<close>: the cut falls inside a character.\<close>

definition read_docker_logs :: "agent_host \<Rightarrow> string \<Rightarrow> nat \<Rightarrow> (string + string) option" where
  "read_docker_logs h c n =
     (case ah_run h ''docker'' (logs_args n c) of
        TimedOut \<Rightarrow> Some (Inl ''Docker logs timed out'')
      | RunFailed e \<Rightarrow> Some (Inl (''Docker logs failed: '' @ e))
      | Finished out \<Rightarrow>
          map_option (\<lambda>s. Inr (sanitize_log s))
            (tail_bytes (ah_lossy h (co_stdout out) @ [CHR 0x0A] @ ah_lossy h (co_stderr out)) n))"

section \<open>Facts\<close>

lemma start_container_effects:
  "e \<in> set (snd (start_docker_container x h i p)) \<Longrightarrow>
   (\<exists>l s. e = LogLine l s) \<or> (\<exists>dargs. build_docker_run_args p = Inr dargs \<and> e = ProgramRun ''docker'' (dargs @ build_vllm_args p))"
  by (auto simp: start_docker_container_def docker_run_result_def Let_def
      split: sum.splits command_result.splits if_splits)

lemma start_docker_trace:
  "snd (snd (start_docker_instance x h i payload m)) = snd (start_docker_container x h i (resolve_docker_payload x payload))"
  by (simp add: start_docker_instance_def Let_def split: prod.split option.split)

lemma stop_container_effects:
  "e \<in> set (snd (stop_docker_container h r)) \<Longrightarrow>
   (\<exists>l s. e = LogLine l s) \<or> (\<exists>c. container_ref r = Some c \<and> e = ProgramRun ''docker'' [''stop'', c])"
  by (auto simp: stop_docker_container_def Let_def split: option.splits prod.splits)

text \<open>A container that was started is one docker reports by the id of the managed record.\<close>

lemma docker_run_running:
  assumes "docker_run_result h i p summary r = (res, line)" and "it_instance_status res = ''running''"
  shows "\<exists>out. r = Finished out \<and> co_success out \<and> it_process_ref res = Some (trim (ah_lossy h (co_stdout out)))
    \<and> it_base_url res = Some (''http://127.0.0.1:'' @ port_str (port_or_default p)) \<and> it_command res = Some summary"
  using assms by (auto simp: docker_run_result_def Let_def split: command_result.splits if_splits)

lemma start_docker_running:
  assumes "start_docker_instance x h i payload m = (r, m', es)" and "it_instance_status r = ''running''"
    and "am_store m = Some st"
  shows "\<exists>rs q. st = Inr rs \<and> am_store m' = Some (Inr (upsert_record q rs)) \<and> pr_instance_id q = i
    \<and> pr_deploy_type q = Some ''docker'' \<and> pr_container_id q = it_process_ref r \<and> pr_base_url q = it_base_url r
    \<and> pr_command q = it_command r"
proof -
  let ?p = "resolve_docker_payload x payload"
  obtain r0 es0 where s: "start_docker_container x h i ?p = (r0, es0)" by fastforce
  have run: "it_instance_status r0 = ''running''" "r0 = r"
    using assms s by (auto simp: start_docker_instance_def Let_def split: if_splits prod.splits option.splits)
  have some: "\<exists>c b k. it_process_ref r = Some c \<and> it_base_url r = Some b \<and> it_command r = Some k"
    using s run by (auto simp: start_docker_container_def Let_def dest: docker_run_running
        split: sum.splits prod.splits)
  then obtain c b k where cbk: "it_process_ref r = Some c" "it_base_url r = Some b" "it_command r = Some k" by blast
  let ?q = "create_docker_managed_record i c (dp_container_name (dy_docker ?p)) b k (ah_clock h)"
  have up: "store_upsert h ?q m = (None, m')"
    using assms s run cbk by (auto simp: start_docker_instance_def Let_def split: if_splits prod.splits option.splits)
  then obtain rs where "st = Inr rs" "am_store m' = Some (Inr (upsert_record ?q rs))"
    using assms(3) by (auto simp: store_upsert_def store_change_def split: sum.splits option.splits)
  then show ?thesis
    by (intro exI [of _ rs] exI [of _ ?q]) (simp add: create_docker_managed_record_def cbk)
qed

end
