(* ===== verification/Ollama.thy ===== *)
theory Ollama
  imports Containers
begin

text \<open>
  \<^verbatim>\<open>agent/src/tasks/ollama.rs\<close>: one Ollama daemon per runtime environment, found or started, and the
  model operations over its HTTP interface. The loop that waits for a new daemon runs against
  the clock: each turn takes the time of its request and 500 ms, so it ends.
\<close>

section \<open>Configuration\<close>

record ollama_config =
  ol_host :: string
  ol_port :: "16 word"
  ol_models_dir :: string
  ol_max_loaded_models :: "32 word"
  ol_num_parallel :: "32 word"
  ol_max_queue :: "32 word"
  ol_keep_alive :: string
  ol_context_length :: "32 word"

text \<open>\<open>as u16\<close> and \<open>as u32\<close> cut the number off.\<close>

definition ollama_config_from :: "json \<Rightarrow> ollama_config" where
  "ollama_config_from params =
     (let d = (case jget params ''defaults'' of
                 Some v \<Rightarrow> if is_object v then v else params | None \<Rightarrow> params)
      in \<lparr>ol_host = unwrap_or (get_str d ''host'') ''127.0.0.1'',
          ol_port = word_of_int (unwrap_or (get_u64 d ''port'') 11434),
          ol_models_dir = unwrap_or (get_str d ''models_dir'') [],
          ol_max_loaded_models = word_of_int (unwrap_or (get_u64 d ''max_loaded_models'') 2),
          ol_num_parallel = word_of_int (unwrap_or (get_u64 d ''num_parallel'') 1),
          ol_max_queue = word_of_int (unwrap_or (get_u64 d ''max_queue'') 512),
          ol_keep_alive = unwrap_or (get_str d ''keep_alive'') ''30m'',
          ol_context_length = word_of_int (unwrap_or (get_u64 d ''context_length'') 4096)\<rparr>)"

definition ollama_address :: "ollama_config \<Rightarrow> string" where
  "ollama_address c = ol_host c @ '':'' @ port_str (ol_port c)"

definition ollama_api_base :: "ollama_config \<Rightarrow> string" where
  "ollama_api_base c = ''http://'' @ ollama_address c"

definition build_ollama_env :: "ollama_config \<Rightarrow> (string \<times> string) list" where
  "build_ollama_env c =
     [(''OLLAMA_HOST'', ollama_address c)]
     @ (if blank (ol_models_dir c) then [] else [(''OLLAMA_MODELS'', trim (ol_models_dir c))])
     @ [(''OLLAMA_MAX_LOADED_MODELS'', int_str (uint (ol_max_loaded_models c))),
        (''OLLAMA_NUM_PARALLEL'', int_str (uint (ol_num_parallel c))),
        (''OLLAMA_MAX_QUEUE'', int_str (uint (ol_max_queue c))),
        (''OLLAMA_KEEP_ALIVE'', ol_keep_alive c),
        (''OLLAMA_CONTEXT_LENGTH'', int_str (uint (ol_context_length c)))]"

definition ollama_config_of_payload :: "json \<Rightarrow> ollama_config" where
  "ollama_config_of_payload payload = ollama_config_from (unwrap_or (jget payload ''runtime_params'') JNull)"

definition ollama_params :: "ext \<Rightarrow> json \<Rightarrow> json" where
  "ollama_params x payload =
     unwrap_or (ext_jparse x (unwrap_or (get_str payload ''params_json'') ''{}'')) JNull"

definition ollama_model_of :: "ext \<Rightarrow> json \<Rightarrow> string" where
  "ollama_model_of x payload = unwrap_or (get_str (ollama_params x payload) ''ollama_model'') []"

section \<open>The daemon's log\<close>

definition daemon_log_path :: "agent_host \<Rightarrow> string \<Rightarrow> string \<Rightarrow> string + string" where
  "daemon_log_path h log_dir env_id =
     (if contains log_dir ''..'' then Inl ''invalid log_dir''
      else case ah_create_dir h log_dir of
        Some e \<Rightarrow> Inl (''create log dir: '' @ e)
      | None \<Rightarrow> Inr (path_join log_dir (''ollama-daemon-'' @ env_id @ ''.log'')))"

definition read_daemon_log :: "agent_host \<Rightarrow> string \<Rightarrow> string \<Rightarrow> nat \<Rightarrow> string + string" where
  "read_daemon_log h env_id log_dir n =
     (case daemon_log_path h log_dir env_id of
        Inl e \<Rightarrow> Inl e
      | Inr path \<Rightarrow>
          (case ah_read h path of
             Inr bytes \<Rightarrow> Inr (sanitize_log (ah_lossy h (drop (length bytes - n) bytes)))
           | Inl e \<Rightarrow>
               if ie_not_found e then Inr ''Ollama daemon log not yet available''
               else Inl (''read daemon log: '' @ ie_text e)))"

section \<open>Finding or starting the daemon\<close>

definition tags_url :: "string \<Rightarrow> string" where
  "tags_url base = base @ ''/api/tags''"

definition generate_url :: "string \<Rightarrow> string" where
  "generate_url base = base @ ''/api/generate''"

definition api_tags_reachable :: "agent_host \<Rightarrow> nat \<Rightarrow> string \<Rightarrow> bool" where
  "api_tags_reachable h k base \<longleftrightarrow>
     (case ah_http h k Get (tags_url base) of NoResponse _ \<Rightarrow> False | Response code _ _ \<Rightarrow> is_success code)"

definition OLLAMA_START_TIMEOUT_MS :: nat where
  "OLLAMA_START_TIMEOUT_MS = 30000"

text \<open>\<open>t\<close> is the time since the daemon was spawned, \<open>k\<close> the number of requests made so far.\<close>

function await_daemon :: "agent_host \<Rightarrow> string \<Rightarrow> nat \<Rightarrow> nat \<Rightarrow> bool \<times> agent_effect list" where
  "await_daemon h base k t =
     (if OLLAMA_START_TIMEOUT_MS \<le> t then (False, [])
      else if api_tags_reachable h k base then (True, [Requested Get (tags_url base)])
      else (case await_daemon h base (Suc k) (t + ah_delay h k + 500) of
              (ok, es) \<Rightarrow> (ok, Requested Get (tags_url base) # es)))"
  by pat_completeness auto
termination
  by (relation "measure (\<lambda>(h, base, k, t). OLLAMA_START_TIMEOUT_MS - t)") auto

declare await_daemon.simps [simp del]

definition drop_daemon :: "string \<Rightarrow> agent_mem \<Rightarrow> agent_mem" where
  "drop_daemon i m = m\<lparr>am_daemons := (am_daemons m)(i := None)\<rparr>"

definition add_daemon :: "string \<Rightarrow> string \<Rightarrow> agent_mem \<Rightarrow> agent_mem" where
  "add_daemon i path m = m\<lparr>am_daemons := (am_daemons m)(i := Some \<lparr>dh_log_path = path\<rparr>)\<rparr>"

type_synonym daemon_answer = "string + string \<times> string \<times> string"

definition serve_args :: "string list" where
  "serve_args = [''serve'']"

definition not_ready_error :: "string \<Rightarrow> string" where
  "not_ready_error tail =
     ''ollama daemon did not become ready within 30s. Daemon log tail: '' @ tail"

definition port_in_use_error :: "string \<Rightarrow> string" where
  "port_in_use_error base =
     ''Ollama port is already in use ('' @ base
     @ '') but /api/tags is not reachable. Please check the process using the port.''"

text \<open>The daemon has been spawned: wait for it, register it, or kill it.\<close>

definition daemon_spawned ::
  "agent_host \<Rightarrow> string \<Rightarrow> string \<Rightarrow> string \<Rightarrow> string \<Rightarrow> int option \<Rightarrow> agent_mem
   \<Rightarrow> daemon_answer \<times> agent_mem \<times> agent_effect list" where
  "daemon_spawned h env_id log_dir base path pid m =
     (case await_daemon h base 1 0 of
        (False, es) \<Rightarrow>
          (Inl (not_ready_error (case read_daemon_log h env_id log_dir 4096 of Inl _ \<Rightarrow> [] | Inr s \<Rightarrow> s)), m,
           es @ [ChildKilled])
      | (True, es) \<Rightarrow>
          (Inr (base, path, ''started_ollama_serve''), add_daemon env_id path m,
           es @ [LogLine ''info'' (''ollama daemon started runtime='' @ env_id @ '' pid=''
             @ int_str (unwrap_or pid 0) @ '' base_url='' @ base)]))"

definition daemon_spawn_failed ::
  "agent_host \<Rightarrow> string \<Rightarrow> string \<Rightarrow> string \<Rightarrow> string \<Rightarrow> daemon_answer \<times> agent_effect list" where
  "daemon_spawn_failed h env_id log_dir base e =
     (if contains e ''address already in use'' \<or> contains e ''bind'' then
        (if api_tags_reachable h 1 base then
           (case daemon_log_path h log_dir env_id of
              Inl e' \<Rightarrow> Inl e' | Inr path \<Rightarrow> Inr (base, path, ''reused_existing_daemon''),
            [Requested Get (tags_url base)])
         else (Inl (port_in_use_error base), [Requested Get (tags_url base)]))
      else (Inl (''ollama serve start failed: '' @ e), []))"

definition start_daemon ::
  "agent_host \<Rightarrow> string \<Rightarrow> string \<Rightarrow> string \<Rightarrow> ollama_config \<Rightarrow> agent_mem
   \<Rightarrow> daemon_answer \<times> agent_mem \<times> agent_effect list" where
  "start_daemon h env_id binary_path log_dir c m =
     (let base = ollama_api_base c in
      case daemon_log_path h log_dir env_id of
        Inl e \<Rightarrow> (Inl e, m, [])
      | Inr path \<Rightarrow>
          (case ah_spawn h binary_path serve_args of
             Inr pid \<Rightarrow>
               (case daemon_spawned h env_id log_dir base path pid m of (r, m', es) \<Rightarrow>
                  (r, m', ChildSpawned binary_path serve_args (build_ollama_env c) None # es))
           | Inl e \<Rightarrow>
               (case daemon_spawn_failed h env_id log_dir base e of (r, es) \<Rightarrow> (r, m, es))))"

definition ensure_daemon ::
  "agent_host \<Rightarrow> string \<Rightarrow> string \<Rightarrow> string \<Rightarrow> ollama_config \<Rightarrow> agent_mem
   \<Rightarrow> daemon_answer \<times> agent_mem \<times> agent_effect list" where
  "ensure_daemon h env_id binary_path log_dir c m =
     (let base = ollama_api_base c; probe = Requested Get (tags_url base) in
      if api_tags_reachable h 0 base then
        (Inr (base, case daemon_log_path h log_dir env_id of
                      Inl _ \<Rightarrow> ''logs/ollama-daemon.log'' | Inr path \<Rightarrow> path,
              ''reused_existing_daemon''), m, [probe])
      else case am_daemons m env_id of
        Some d \<Rightarrow>
          if ah_daemon h env_id = Alive then (Inr (base, dh_log_path d, ''reused_existing_daemon''), m, [probe])
          else (case start_daemon h env_id binary_path log_dir c (drop_daemon env_id m) of
                  (r, m', es) \<Rightarrow> (r, m', probe # es))
      | None \<Rightarrow>
          (case start_daemon h env_id binary_path log_dir c (drop_daemon env_id m) of
             (r, m', es) \<Rightarrow> (r, m', probe # es)))"

section \<open>Models\<close>

record ollama_model =
  om_name :: string
  om_size :: "int option"
  om_digest :: "string option"
  om_modified_at :: "string option"

definition dec_u64 :: "json \<Rightarrow> int option" where
  "dec_u64 j = dec_int 0 (2 ^ 64 - 1) j"

definition ollama_model_from :: "json \<Rightarrow> ollama_model option" where
  "ollama_model_from v =
     Option.bind (struct_fields [[''name''], [''size''], [''digest''], [''modified_at'']] v) (\<lambda>f.
     Option.bind (required f 0 as_str) (\<lambda>name.
     Option.bind (with_default f 1 None (dec_opt dec_u64)) (\<lambda>n.
     Option.bind (with_default f 2 None (dec_opt as_str)) (\<lambda>digest.
     Option.bind (with_default f 3 None (dec_opt as_str)) (\<lambda>modified.
     Some \<lparr>om_name = name, om_size = n, om_digest = digest, om_modified_at = modified\<rparr>)))))"

definition ollama_model_json :: "ollama_model \<Rightarrow> json" where
  "ollama_model_json m =
     JObj [(''name'', JStr (om_name m)), (''size'', jint_opt (om_size m)),
           (''digest'', jopt (om_digest m)), (''modified_at'', jopt (om_modified_at m))]"

definition tags_response_from :: "json \<Rightarrow> ollama_model list option" where
  "tags_response_from v =
     Option.bind (struct_fields [[''models'']] v) (\<lambda>f. required f 0 (dec_list ollama_model_from))"

definition list_ollama_models :: "ext \<Rightarrow> agent_host \<Rightarrow> nat \<Rightarrow> string \<Rightarrow> string + ollama_model list" where
  "list_ollama_models x h k base =
     (case ah_http h k Get (tags_url base) of
        NoResponse e \<Rightarrow> Inl (''ollama /api/tags request failed: '' @ e)
      | Response code text body \<Rightarrow>
          if \<not> is_success code then Inl (''ollama /api/tags returned '' @ text)
          else case body of
            Inl e \<Rightarrow> Inl (''read /api/tags body: '' @ e)
          | Inr b \<Rightarrow>
              (case Option.bind (ext_jparse x b) tags_response_from of
                 None \<Rightarrow> Inl (''parse /api/tags: '' @ ah_json_error h b)
               | Some ms \<Rightarrow> Inr ms))"

definition ollama_model_exists :: "ext \<Rightarrow> agent_host \<Rightarrow> nat \<Rightarrow> string \<Rightarrow> string \<Rightarrow> string + bool" where
  "ollama_model_exists x h k base mdl =
     (case list_ollama_models x h k base of
        Inl e \<Rightarrow> Inl e | Inr ms \<Rightarrow> Inr (\<exists>m \<in> set ms. om_name m = mdl))"

definition generate_body :: "string \<Rightarrow> string \<Rightarrow> (string \<times> json) list \<Rightarrow> json" where
  "generate_body mdl prompt extra =
     JObj ([(''model'', JStr mdl), (''prompt'', JStr prompt), (''stream'', JBool False)] @ extra)"

text \<open>\<open>text().await.unwrap_or_default()\<close>.\<close>

definition body_text :: "string + string \<Rightarrow> string" where
  "body_text b = (case b of Inl _ \<Rightarrow> [] | Inr s \<Rightarrow> s)"

definition warmup_body :: "string \<Rightarrow> string \<Rightarrow> json" where
  "warmup_body mdl keep_alive = generate_body mdl [] [(''keep_alive'', JStr keep_alive)]"

definition warmup_model :: "agent_host \<Rightarrow> nat \<Rightarrow> string \<Rightarrow> string \<Rightarrow> string \<Rightarrow> string + string" where
  "warmup_model h k base mdl keep_alive =
     (case ah_http h k (Post (warmup_body mdl keep_alive)) (generate_url base) of
        NoResponse e \<Rightarrow> Inl (''ollama /api/generate warmup failed: '' @ e)
      | Response code text body \<Rightarrow>
          if is_success code then Inr (body_text body)
          else Inl (''ollama warmup returned '' @ text @ '': '' @ body_text body))"

section \<open>Instances\<close>

definition load_command :: "string \<Rightarrow> string \<Rightarrow> string \<Rightarrow> string" where
  "load_command mdl base action =
     ''ollama load model '' @ mdl @ '' via daemon '' @ base @ ''; daemon_action='' @ action"

definition keep_alive_of :: "ext \<Rightarrow> json \<Rightarrow> ollama_config \<Rightarrow> string" where
  "keep_alive_of x payload c =
     (case get_str (ollama_params x payload) ''keep_alive'' of
        None \<Rightarrow> ol_keep_alive c | Some s \<Rightarrow> if s = [] then ol_keep_alive c else s)"

text \<open>With the daemon at hand: is the model there, and does it load? \<open>k\<close> requests were made.\<close>

definition load_model ::
  "ext \<Rightarrow> agent_host \<Rightarrow> nat \<Rightarrow> string \<Rightarrow> string \<Rightarrow> string \<Rightarrow> string \<Rightarrow> string
   \<Rightarrow> instance_result \<times> agent_effect list" where
  "load_model x h k env_id base action mdl keep_alive =
     (let cmd = load_command mdl base action; tags = Requested Get (tags_url base);
          warm = Requested (Post (warmup_body mdl keep_alive)) (generate_url base) in
      case ollama_model_exists x h k base mdl of
        Inl e \<Rightarrow>
          (instance_failure_with_details (''failed to check Ollama model: '' @ e) None
             (Some (cmd @ ''; model_check=error; error='' @ e)), [tags])
      | Inr False \<Rightarrow>
          (instance_failure_with_details
             (''Ollama model not found: '' @ mdl @ ''. Please run `ollama pull '' @ mdl @ ''` on the node first.'')
             None (Some (cmd @ ''; model_check=failed_not_found'')), [tags])
      | Inr True \<Rightarrow>
          (case warmup_model h (Suc k) base mdl keep_alive of
             Inl e \<Rightarrow>
               (instance_failure_with_details (''ollama warmup failed: '' @ e) None
                  (Some (cmd @ ''; warmup=POST /api/generate; warmup_error='' @ e)), [tags, warm])
           | Inr _ \<Rightarrow>
               (\<lparr>it_instance_status = ''running'', it_message = ''ollama model loaded: '' @ mdl,
                 it_base_url = Some base, it_endpoint_url = Some (generate_url base), it_process_id = None,
                 it_process_ref = Some env_id, it_response_summary = None, it_log_tail = None,
                 it_command = Some (cmd @ ''; warmup=POST /api/generate'')\<rparr>, [tags, warm])))"

definition start_ollama_instance ::
  "ext \<Rightarrow> agent_host \<Rightarrow> json \<Rightarrow> agent_mem \<Rightarrow> instance_result \<times> agent_mem \<times> agent_effect list" where
  "start_ollama_instance x h payload m =
     (let env_id = unwrap_or (get_str payload ''runtime_environment_id'') [];
          binary_path = unwrap_or (get_str payload ''binary_path'') ''ollama'';
          log_dir = unwrap_or (get_str payload ''log_dir'') ''logs'';
          mdl = ollama_model_of x payload; c = ollama_config_of_payload payload
      in if blank mdl then (instance_failure ''ollama_model is required in instance params'', m, [])
         else case ensure_daemon h env_id binary_path log_dir c m of
           (Inl e, m', es) \<Rightarrow>
             (instance_failure_with_details (''ollama daemon error: '' @ e) None
                (Some (load_command mdl (ollama_api_base c) ''failed_to_start'' @ ''; error='' @ e)), m', es)
         | (Inr (base, path, action), m', es) \<Rightarrow>
             (case load_model x h (requests es) env_id base action mdl (keep_alive_of x payload c) of
                (r, es') \<Rightarrow> (r, m', es @ es')))"

definition unload_body :: "string \<Rightarrow> json" where
  "unload_body mdl = generate_body mdl [] [(''keep_alive'', JStr ''0'')]"

definition stop_ollama_instance :: "ext \<Rightarrow> agent_host \<Rightarrow> json \<Rightarrow> instance_result \<times> agent_effect list" where
  "stop_ollama_instance x h payload =
     (let env_id = unwrap_or (get_str payload ''runtime_environment_id'') [];
          mdl = ollama_model_of x payload; base = ollama_api_base (ollama_config_of_payload payload);
          unload = Requested (Post (unload_body mdl)) (generate_url base)
      in if blank mdl then (instance_failure ''ollama_model is required'', [])
         else (\<lparr>it_instance_status = ''stopped'', it_message = ''ollama model unloaded: '' @ mdl,
                it_base_url = None, it_endpoint_url = None, it_process_id = None,
                it_process_ref = Some env_id, it_response_summary = None, it_log_tail = None,
                it_command = Some (''ollama unload model '' @ mdl @ '' via daemon '' @ base
                  @ ''; daemon_action=reused_existing_daemon; unload=POST /api/generate keep_alive=0'')\<rparr>,
               unload # (case ah_http h 0 (Post (unload_body mdl)) (generate_url base) of
                  NoResponse _ \<Rightarrow> []
                | Response code text _ \<Rightarrow>
                    if is_success code then []
                    else [LogLine ''warn'' (''ollama unload returned '' @ text @ '' for '' @ mdl)])))"

definition check_ollama_instance :: "ext \<Rightarrow> agent_host \<Rightarrow> json \<Rightarrow> instance_result \<times> agent_effect list" where
  "check_ollama_instance x h payload =
     (let mdl = ollama_model_of x payload; base = ollama_api_base (ollama_config_of_payload payload);
          tags = Requested Get (tags_url base)
      in if blank mdl then (instance_failure ''ollama_model is required'', [])
         else case ah_http h 0 Get (tags_url base) of
           NoResponse e \<Rightarrow> (instance_failure (''ollama daemon not reachable: '' @ e), [tags])
         | Response code text _ \<Rightarrow>
             if \<not> is_success code then (instance_failure (''ollama daemon returned '' @ text), [tags])
             else case ollama_model_exists x h 1 base mdl of
               Inl e \<Rightarrow> (instance_failure e, [tags, tags])
             | Inr False \<Rightarrow> (instance_failure (''Ollama model not found: '' @ mdl), [tags, tags])
             | Inr True \<Rightarrow>
                 (\<lparr>it_instance_status = ''running'', it_message = ''ollama model available: '' @ mdl,
                   it_base_url = Some base, it_endpoint_url = Some (generate_url base), it_process_id = None,
                   it_process_ref = None, it_response_summary = None, it_log_tail = None,
                   it_command = None\<rparr>, [tags, tags]))"

definition test_ollama_instance :: "ext \<Rightarrow> agent_host \<Rightarrow> json \<Rightarrow> instance_result \<times> agent_effect list" where
  "test_ollama_instance x h payload =
     (case check_ollama_instance x h payload of (check, es) \<Rightarrow>
        if it_instance_status check \<noteq> ''running'' then (check, es)
        else (let mdl = ollama_model_of x payload; base = ollama_api_base (ollama_config_of_payload payload);
                  body = generate_body mdl ''hello'' [];
                  es' = es @ [Requested (Post body) (generate_url base)]
              in case ah_http h 2 (Post body) (generate_url base) of
                   NoResponse e \<Rightarrow> (instance_failure (''ollama test failed: '' @ e), es')
                 | Response code text b \<Rightarrow>
                     if is_success code then
                       (\<lparr>it_instance_status = ''running'',
                         it_message = ''ollama test OK ('' @ int_str (int (ah_elapsed h)) @ ''ms)'',
                         it_base_url = Some base, it_endpoint_url = None, it_process_id = None,
                         it_process_ref = None, it_response_summary = Some (chars_take 300 (body_text b)),
                         it_log_tail = None, it_command = None\<rparr>, es')
                     else (instance_failure (''ollama test returned '' @ text @ '': '' @ body_text b), es')))"

definition query_model_list :: "ext \<Rightarrow> agent_host \<Rightarrow> json \<Rightarrow> (string + ollama_model list) \<times> agent_effect list" where
  "query_model_list x h payload =
     (let base = ollama_api_base (ollama_config_of_payload payload); tags = Requested Get (tags_url base) in
      case ah_http h 0 Get (tags_url base) of
        NoResponse _ \<Rightarrow>
          (Inl ''Ollama daemon not reachable. Start the Ollama Runtime or any Ollama Instance first.'', [tags])
      | Response code _ _ \<Rightarrow>
          if \<not> is_success code
          then (Inl ''Ollama daemon not running. Start the Ollama Runtime or any Ollama Instance first.'', [tags])
          else (list_ollama_models x h 1 base, [tags, tags]))"

section \<open>Facts\<close>

text \<open>Waiting for a daemon ends after at most sixty requests.\<close>

lemma await_daemon_length: "500 * length (snd (await_daemon h base k t)) \<le> OLLAMA_START_TIMEOUT_MS - t + 499"
proof (induction h base k t rule: await_daemon.induct)
  case (1 h base k t)
  show ?case
  proof (cases "OLLAMA_START_TIMEOUT_MS \<le> t \<or> api_tags_reachable h k base")
    case True
    then show ?thesis by (subst await_daemon.simps) auto
  next
    case False
    with 1 have "500 * length (snd (await_daemon h base (Suc k) (t + ah_delay h k + 500)))
      \<le> OLLAMA_START_TIMEOUT_MS - (t + ah_delay h k + 500) + 499" by simp
    moreover from False have "snd (await_daemon h base k t)
      = Requested Get (tags_url base) # snd (await_daemon h base (Suc k) (t + ah_delay h k + 500))"
      by (subst await_daemon.simps) (simp split: prod.split)
    moreover from False have "t < OLLAMA_START_TIMEOUT_MS" by simp
    ultimately show ?thesis
    proof (cases "t + ah_delay h k + 500 \<le> OLLAMA_START_TIMEOUT_MS")
      case True
      with \<open>500 * length (snd (await_daemon h base (Suc k) (t + ah_delay h k + 500)))
        \<le> OLLAMA_START_TIMEOUT_MS - (t + ah_delay h k + 500) + 499\<close>
        \<open>snd (await_daemon h base k t) = _\<close> show ?thesis by simp
    next
      case False
      then have "snd (await_daemon h base (Suc k) (t + ah_delay h k + 500)) = []"
        by (subst await_daemon.simps) simp
      with \<open>snd (await_daemon h base k t) = _\<close> \<open>t < OLLAMA_START_TIMEOUT_MS\<close> show ?thesis by simp
    qed
  qed
qed

lemma await_daemon_effects: "set (snd (await_daemon h base k t)) \<subseteq> {Requested Get (tags_url base)}"
  by (induction h base k t rule: await_daemon.induct)
    (subst await_daemon.simps, auto split: prod.splits)

lemma requests_append [simp]: "requests (a @ b) = requests a + requests b"
  by (simp add: requests_def)

lemma requests_Cons [simp]: "requests (e # es) = (if is_request e then Suc (requests es) else requests es)"
  by (simp add: requests_def)

lemma requests_Nil [simp]: "requests [] = 0"
  by (simp add: requests_def)

lemma requests_le: "requests es \<le> length es"
  by (simp add: requests_def)

text \<open>Every request of an Ollama task goes to the configured address.\<close>

definition ollama_request :: "string \<Rightarrow> agent_effect \<Rightarrow> bool" where
  "ollama_request base e \<longleftrightarrow> (\<forall>meth url. e = Requested meth url \<longrightarrow> url \<in> {tags_url base, generate_url base})"

lemma daemon_spawned_effects:
  "daemon_spawned h i d base path pid m = (r, m', es) \<Longrightarrow> e \<in> set es \<Longrightarrow>
   e = Requested Get (tags_url base) \<or> e = ChildKilled \<or> (\<exists>l s. e = LogLine l s)"
  using await_daemon_effects [of h base 1 0]
  by (auto simp: daemon_spawned_def split: prod.splits bool.splits)

lemma ensure_daemon_effects:
  assumes "e \<in> set (snd (snd (ensure_daemon h i bin d c m)))"
  shows "e = Requested Get (tags_url (ollama_api_base c)) \<or> e = ChildKilled \<or> (\<exists>l s. e = LogLine l s)
    \<or> e = ChildSpawned bin serve_args (build_ollama_env c) None"
  using assms
  by (auto simp: ensure_daemon_def start_daemon_def daemon_spawn_failed_def Let_def
      split: prod.splits sum.splits option.splits if_splits dest: daemon_spawned_effects)

end
