(* ===== verification/InstanceProcesses.thy ===== *)
theory InstanceProcesses
  imports FileTasks RuntimeCheck Ollama
begin

text \<open>
  \<^verbatim>\<open>agent/src/tasks/process.rs\<close> and \<^verbatim>\<open>tasks/logs.rs\<close>: starting, watching and stopping the process of a
  model instance, the actions of a custom script, and the log of an instance. The looks at the child
  (\<open>ah_child\<close>) are numbered: 0 is 250 ms after the spawn, 1 after the wait for a script, 2 after
  the endpoint was ready; \<open>ah_output\<close> is what the child has written at these points.
\<close>

section \<open>Start\<close>

definition non_blank :: "string option \<Rightarrow> string option" where
  "non_blank v = Option.bind v (\<lambda>s. if trim s = [] then None else Some (trim s))"

definition launch_log_path :: "agent_host \<Rightarrow> json \<Rightarrow> string \<Rightarrow> string + string option" where
  "launch_log_path h payload instance_id =
     (case non_blank (get_str payload ''log_dir'') of
        None \<Rightarrow> Inr None
      | Some d \<Rightarrow>
          (case controlled_log_path h d instance_id of Inl e \<Rightarrow> Inl e | Inr p \<Rightarrow> Inr (Some p)))"

definition working_dir :: "json \<Rightarrow> string option" where
  "working_dir payload =
     Option.bind (get_str payload ''working_dir'') (\<lambda>d. if blank d then None else Some d)"

definition child_log :: "agent_host \<Rightarrow> nat \<Rightarrow> string" where
  "child_log h n = log_buffer (ah_lossy h) (ah_output h n)"

text \<open>A start that failed after the spawn: the log of the child explains it.\<close>

definition start_failed :: "string \<Rightarrow> string option \<Rightarrow> string \<Rightarrow> string \<Rightarrow> instance_result" where
  "start_failed m tail fallback summary =
     instance_failure_with_details (m @ unwrap_or (first_log_line tail) fallback) tail (Some summary)"

definition check_port_available :: "agent_host \<Rightarrow> launch_params \<Rightarrow> string option" where
  "check_port_available h p =
     (let addr = ln_host p @ '':'' @ port_str (ln_port p) in
      case ah_bind h addr of
        None \<Rightarrow> None
      | Some (in_use, e) \<Rightarrow>
          Some (if in_use then ''port '' @ addr @ '' already in use; instance cannot start''
                else ''port '' @ addr @ '' unavailable: '' @ e))"

definition local_base_url :: "launch_params \<Rightarrow> string" where
  "local_base_url p = ''http://'' @ ln_host p @ '':'' @ port_str (ln_port p)"

definition local_record ::
  "agent_host \<Rightarrow> string \<Rightarrow> int \<Rightarrow> string \<Rightarrow> string \<Rightarrow> string option \<Rightarrow> process_record" where
  "local_record h instance_id pid base_url summary log_path =
     \<lparr>pr_instance_id = instance_id, pr_process_id = pid,
      pr_process_start_time = process_start_time (ah_processes h) pid,
      pr_base_url = Some base_url, pr_endpoint_url = Some base_url, pr_command = Some summary,
      pr_log_path = log_path, pr_started_at = ah_clock h, pr_container_id = None,
      pr_container_name = None, pr_deploy_type = Some ''local''\<rparr>"

definition add_handle :: "string \<Rightarrow> process_handle \<Rightarrow> agent_mem \<Rightarrow> agent_mem" where
  "add_handle i p m = m\<lparr>am_registry := (am_registry m)(i := Some p)\<rparr>"

definition drop_handle :: "string \<Rightarrow> agent_mem \<Rightarrow> agent_mem" where
  "drop_handle i m = m\<lparr>am_registry := (am_registry m)(i := None)\<rparr>"

text \<open>The child is up and answers: record it, or kill it when the record cannot be written.\<close>

definition register_child ::
  "agent_host \<Rightarrow> string \<Rightarrow> launch_params \<Rightarrow> string \<Rightarrow> string option \<Rightarrow> int option \<Rightarrow> agent_mem
   \<Rightarrow> instance_result \<times> agent_mem \<times> agent_effect list" where
  "register_child h instance_id p summary log_path pid m =
     (let base = local_base_url p;
          running = \<lparr>it_instance_status = ''running'',
            it_message = ''local instance started, listening at '' @ base,
            it_base_url = Some base, it_endpoint_url = Some base, it_process_id = pid,
            it_process_ref = Some instance_id, it_response_summary = None,
            it_log_tail = log_tail_with_path (child_log h 2) log_path, it_command = Some summary\<rparr>;
          handle = \<lparr>ph_command = summary, ph_output = ah_output h 2\<rparr>
      in case pid of
           None \<Rightarrow> (running, add_handle instance_id handle m, [])
         | Some n \<Rightarrow>
             (case store_upsert h (local_record h instance_id n base summary log_path) m of
                (Some e, m') \<Rightarrow>
                  (instance_failure_with_details
                     (''failed to write managed process record; instance stopped: '' @ e)
                     (log_tail (child_log h 2)) (Some summary), m', [ChildKilled])
              | (None, m') \<Rightarrow> (running, add_handle instance_id handle m', [])))"

definition service_ready ::
  "ext \<Rightarrow> agent_host \<Rightarrow> json \<Rightarrow> string \<Rightarrow> string \<Rightarrow> launch_params \<Rightarrow> bool \<times> agent_effect list" where
  "service_ready x h payload backend deploy_type p =
     (let c = probe_config_from_payload x payload in
      if backend = ''custom'' \<and> deploy_type = ''script'' \<and> pb_paths c = None
      then (ah_child h 1 = Alive, [])
      else endpoint_ready h backend (local_base_url p) c 0)"

text \<open>The child is there and has its log: watch it until its endpoint is ready.\<close>

definition watch_child ::
  "ext \<Rightarrow> agent_host \<Rightarrow> json \<Rightarrow> string \<Rightarrow> string \<Rightarrow> string \<Rightarrow> launch_params \<Rightarrow> string \<Rightarrow> string option
   \<Rightarrow> int option \<Rightarrow> agent_mem \<Rightarrow> instance_result \<times> agent_mem \<times> agent_effect list" where
  "watch_child x h payload instance_id backend deploy_type p summary log_path pid m =
     (case ah_child h 0 of
        Exited status \<Rightarrow>
          (start_failed ''process exited: '' (log_tail (child_log h 0)) status summary, m, [])
      | WaitFailed e \<Rightarrow>
          (instance_failure_with_details (''failed to verify process status: '' @ e)
             (log_tail (child_log h 0)) (Some summary), m, [])
      | Alive \<Rightarrow>
          (case service_ready x h payload backend deploy_type p of
             (False, es) \<Rightarrow>
               (start_failed ''local process started but service unavailable: ''
                  (log_tail (child_log h 1)) ''port or health endpoint not ready'' summary, m, es @ [ChildKilled])
           | (True, es) \<Rightarrow>
               (case ah_child h 2 of
                  Exited status \<Rightarrow>
                    (start_failed ''local process exited unexpectedly after service became ready: ''
                       (log_tail (child_log h 2)) status summary, m, es)
                | WaitFailed e \<Rightarrow>
                    (instance_failure_with_details (''failed to verify process status: '' @ e)
                       (log_tail (child_log h 2)) (Some summary), m, es @ [ChildKilled])
                | Alive \<Rightarrow>
                    (case register_child h instance_id p summary log_path pid m of
                       (r, m', es') \<Rightarrow> (r, m', es @ es')))))"

definition spawn_instance ::
  "ext \<Rightarrow> agent_host \<Rightarrow> json \<Rightarrow> string \<Rightarrow> string \<Rightarrow> string \<Rightarrow> string \<Rightarrow> launch_params \<Rightarrow> string list
   \<Rightarrow> agent_mem \<Rightarrow> instance_result \<times> agent_mem \<times> agent_effect list" where
  "spawn_instance x h payload instance_id backend deploy_type binary_path p args m =
     (let summary = command_summary x binary_path args;
          spawned = ChildSpawned binary_path args [] (working_dir payload)
      in case ah_spawn h binary_path args of
           Inl e \<Rightarrow> (instance_failure_with_details (''process start failed: '' @ e) None (Some summary), m, [])
         | Inr pid \<Rightarrow>
             (case launch_log_path h payload instance_id of
                Inl e \<Rightarrow>
                  (instance_failure_with_details (''log directory unavailable: '' @ e) None (Some summary), m,
                   [spawned])
              | Inr log_path \<Rightarrow>
                  (case watch_child x h payload instance_id backend deploy_type p summary log_path pid m of
                     (r, m', es) \<Rightarrow> (r, m', spawned # es))))"

definition start_local_instance ::
  "ext \<Rightarrow> agent_host \<Rightarrow> json \<Rightarrow> string \<Rightarrow> string \<Rightarrow> string \<Rightarrow> agent_mem
   \<Rightarrow> instance_result \<times> agent_mem \<times> agent_effect list" where
  "start_local_instance x h payload instance_id backend deploy_type m =
     (let model_path = unwrap_or (get_str payload ''model_path'') [] in
      if vr_file_status (agent_verify_model_file h model_path) \<noteq> ''verified''
      then (instance_failure ''model file or directory unavailable; instance not started'', m, [])
      else case non_blank (get_str payload ''binary_path'') of
        None \<Rightarrow> (instance_failure ''runtime is missing managed entry path'', m, [])
      | Some binary_path \<Rightarrow>
          if rk_check_status (verify_controlled_entrypoint h binary_path) \<noteq> ''available''
          then (instance_failure ''runtime entry unavailable; instance not started'', m, [])
          else case launch_params_from_payload x payload of
            Inl e \<Rightarrow> (instance_failure e, m, [])
          | Inr p \<Rightarrow>
              (case build_launch_args backend deploy_type model_path p of
                 Inl e \<Rightarrow> (instance_failure e, m, [])
               | Inr args \<Rightarrow>
                   (case check_port_available h p of
                      Some e \<Rightarrow> (instance_failure e, m, [])
                    | None \<Rightarrow>
                        spawn_instance x h payload instance_id backend deploy_type binary_path p args m)))"

definition start_model_instance_with_store ::
  "ext \<Rightarrow> agent_host \<Rightarrow> json \<Rightarrow> agent_mem \<Rightarrow> instance_result \<times> agent_mem \<times> agent_effect list" where
  "start_model_instance_with_store x h payload m =
     (let instance_id = unwrap_or (get_str payload ''instance_id'') [];
          deploy_type = unwrap_or (get_str payload ''deploy_type'') [];
          backend = unwrap_or (get_str payload ''backend'') []
      in if deploy_type = ''docker'' then start_docker_instance x h instance_id payload m
         else if backend = ''ollama'' then start_ollama_instance x h payload m
         else start_local_instance x h payload instance_id backend deploy_type m)"

section \<open>Watching\<close>

text \<open>
  One turn of the monitor of an instance, every three seconds. A child that has exited has lost its
  process id, so the message always says \<open>unknown\<close>.
\<close>

definition monitor_turn :: "agent_host \<Rightarrow> string \<Rightarrow> child_state \<Rightarrow> agent_mem \<Rightarrow> agent_mem \<times> agent_effect list" where
  "monitor_turn h i child m =
     (case am_registry m i of
        None \<Rightarrow> (m, [])
      | Some p \<Rightarrow>
          (case child of
             Alive \<Rightarrow> (m, [])
           | WaitFailed e \<Rightarrow> (drop_handle i m, [])
           | Exited status \<Rightarrow>
               (drop_handle i m,
                [LogLine ''warn'' (''managed instance process exited unexpectedly instance_id='' @ i
                  @ '' pid=unknown exit_status='' @ status
                  @ ''; managed store retains record for next heartbeat reconcile, recent log: ''
                  @ chars_take 300 (trim (log_buffer (ah_lossy h) (ph_output p))))])))"

section \<open>Stop\<close>

definition killed_effects :: "kill_action \<Rightarrow> agent_effect list" where
  "killed_effects a = (if a = NoAction then [] else [ProcessKilled a])"

text \<open>Without a child of its own, an agent stops the process its file of records names.\<close>

definition stop_recorded ::
  "ext \<Rightarrow> agent_host \<Rightarrow> string \<Rightarrow> agent_mem \<Rightarrow> instance_result \<times> agent_mem \<times> agent_effect list" where
  "stop_recorded x h i m =
     (if am_store m = None
      then (instance_failure ''no local process reference found and no managed process record configured; refusing to stop'', m, [])
      else case store_find i m of
        Inl e \<Rightarrow> (instance_failure (''failed to read managed process record; refusing to stop: '' @ e), m, [])
      | Inr None \<Rightarrow>
          (instance_failure ''no platform managed process record found; refusing to stop this instance'', m, [])
      | Inr (Some r) \<Rightarrow>
          (case kill_managed (docker_host x h) r of
             (None, a) \<Rightarrow>
               (case store_remove h i m of
                  (Some e, m') \<Rightarrow>
                    (instance_failure (''instance process stopped but failed to clean managed record: '' @ e), m',
                     killed_effects a)
                | (None, m') \<Rightarrow>
                    (instance_stopped ''instance stopped using platform managed process record'' None (pr_command r),
                     m', killed_effects a))
           | (Some e, a) \<Rightarrow>
               (instance_stopped e None (pr_command r), snd (store_remove h i m), killed_effects a)))"

definition stop_child ::
  "agent_host \<Rightarrow> string \<Rightarrow> process_handle \<Rightarrow> agent_mem \<Rightarrow> instance_result \<times> agent_mem \<times> agent_effect list" where
  "stop_child h i p m =
     (let m1 = drop_handle i m in
      case ah_kill_child h of
        Some e \<Rightarrow> (instance_failure (''failed to stop process: '' @ e), m1, [])
      | None \<Rightarrow>
          (case store_remove h i m1 of
             (Some e, m') \<Rightarrow>
               (instance_failure (''local instance process stopped but failed to clean managed record: '' @ e), m',
                [ChildKilled])
           | (None, m') \<Rightarrow>
               (instance_stopped ''local instance process stopped''
                  (log_tail (log_buffer (ah_lossy h) (ph_output p))) (Some (ph_command p)), m', [ChildKilled])))"

definition stop_model_instance_with_store ::
  "ext \<Rightarrow> agent_host \<Rightarrow> json \<Rightarrow> agent_mem \<Rightarrow> instance_result \<times> agent_mem \<times> agent_effect list" where
  "stop_model_instance_with_store x h payload m =
     (let i = unwrap_or (get_str payload ''instance_id'') [];
          container = (case store_find i m of
            Inr (Some r) \<Rightarrow> if pr_deploy_type r = Some ''docker'' then Some r else None | _ \<Rightarrow> None)
      in case container of
           Some r \<Rightarrow> stop_docker_instance h i r m
         | None \<Rightarrow>
             (case am_registry m i of
                Some p \<Rightarrow> stop_child h i p m
              | None \<Rightarrow> stop_recorded x h i m))"

section \<open>Custom scripts\<close>

definition is_custom_script :: "json \<Rightarrow> bool" where
  "is_custom_script payload \<longleftrightarrow>
     get_str payload ''backend'' = Some ''custom'' \<and> get_str payload ''deploy_type'' = Some ''script''"

definition run_controlled_script_action ::
  "ext \<Rightarrow> agent_host \<Rightarrow> json \<Rightarrow> string \<Rightarrow> string \<Rightarrow> instance_result \<times> agent_effect list" where
  "run_controlled_script_action x h payload action success_status =
     (case non_blank (get_str payload ''binary_path'') of
        None \<Rightarrow> (instance_failure ''custom script path not configured'', [])
      | Some path \<Rightarrow>
          if rk_check_status (verify_controlled_entrypoint h path) \<noteq> ''available''
          then (instance_failure ''custom script entry unavailable'', [])
          else (let command = command_summary x path [action]; run = [ProgramRun path [action]] in
            case ah_run h path [action] of
              RunFailed e \<Rightarrow>
                (instance_failure_with_details (''custom script execution failed: '' @ e) None (Some command), run)
            | TimedOut \<Rightarrow>
                (instance_failure_with_details ''custom script execution timed out'' None (Some command), run)
            | Finished out \<Rightarrow>
                (let tail = combined_output_log (ah_lossy h) (co_stdout out) (co_stderr out) in
                 if co_success out then
                   (\<lparr>it_instance_status = success_status,
                     it_message = ''custom script '' @ action @ '' completed successfully'',
                     it_base_url = None, it_endpoint_url = None, it_process_id = None, it_process_ref = None,
                     it_response_summary = tail, it_log_tail = tail, it_command = Some command\<rparr>, run)
                 else (start_failed (''custom script '' @ action @ '' failed: '') tail (co_status out) command, run))))"

section \<open>Logs\<close>

definition available_log :: "string \<Rightarrow> string \<Rightarrow> string \<Rightarrow> log_result" where
  "available_log when_blank content m =
     \<lparr>lr_log_status = ''available'', lr_content = (if blank content then when_blank else content),
      lr_message = m\<rparr>"

definition failed_log :: "string \<Rightarrow> log_result" where
  "failed_log m = \<lparr>lr_log_status = ''failed'', lr_content = [], lr_message = m\<rparr>"

definition no_instance_log :: log_result where
  "no_instance_log = failed_log ''no instance log found; instance may have stopped or Agent restarted''"

definition log_max_bytes :: "json \<Rightarrow> nat" where
  "log_max_bytes payload = nat (min (unwrap_or (get_u64 payload ''max_bytes'') 65536) 524288)"

text \<open>\<open>None\<close>: the cut falls inside a character and the task panics.\<close>

definition recorded_log :: "agent_host \<Rightarrow> nat \<Rightarrow> process_record \<Rightarrow> log_result option \<times> agent_effect list" where
  "recorded_log h n r =
     (if pr_deploy_type r = Some ''docker'' then
        (case container_ref r of
           None \<Rightarrow> (Some (failed_log ''Docker log read failed: no container ID or name in managed store''), [])
         | Some c \<Rightarrow>
             (map_option (\<lambda>res. case res of
                 Inl e \<Rightarrow> failed_log (''Docker log read failed: '' @ e)
               | Inr s \<Rightarrow> available_log ''Docker container log is empty'' s (''read from docker logs '' @ c))
               (read_docker_logs h c n), [ProgramRun ''docker'' (logs_args n c)]))
      else case pr_log_path r of
        None \<Rightarrow> (Some no_instance_log, [])
      | Some path \<Rightarrow>
          (case ah_read_text h path of
             Inl e \<Rightarrow> Some (failed_log (''failed to read instance log file: '' @ e))
           | Inr content \<Rightarrow>
               map_option (\<lambda>tail. if blank tail
                   then available_log ''log file is empty'' [] (''read from log file '' @ path)
                   else \<lparr>lr_log_status = ''available'', lr_content = sanitize_log tail,
                         lr_message = ''read from log file '' @ path\<rparr>)
                 (tail_bytes content n), []))"

definition agent_read_instance_log ::
  "agent_host \<Rightarrow> json \<Rightarrow> agent_mem \<Rightarrow> log_result option \<times> agent_effect list" where
  "agent_read_instance_log h payload m =
     (let i = unwrap_or (get_str payload ''instance_id'') []; n = log_max_bytes payload in
      case am_registry m i of
        Some p \<Rightarrow>
          (map_option (\<lambda>s. available_log ''instance process is running; no log output yet'' s
                             ''read from memory buffer'')
             (tail_bytes (log_buffer (ah_lossy h) (ph_output p)) n), [])
      | None \<Rightarrow>
          (case store_find i m of
             Inr (Some r) \<Rightarrow> recorded_log h n r
           | _ \<Rightarrow> (Some no_instance_log, [])))"

section \<open>Facts\<close>

text \<open>A local start spawns at most one program: a controlled entrypoint with valid arguments.\<close>

definition launched :: "ext \<Rightarrow> agent_host \<Rightarrow> json \<Rightarrow> string \<Rightarrow> string list \<Rightarrow> bool" where
  "launched x h payload prog args \<longleftrightarrow>
     controlled_entrypoint h prog
     \<and> vr_file_status (agent_verify_model_file h (unwrap_or (get_str payload ''model_path'') [])) = ''verified''
     \<and> (\<exists>p. launch_params_from_payload x payload = Inr p \<and> check_port_available h p = None
         \<and> build_launch_args (unwrap_or (get_str payload ''backend'') []) (unwrap_or (get_str payload ''deploy_type'') [])
             (unwrap_or (get_str payload ''model_path'') []) p = Inr args)"

lemma service_ready_effects:
  "service_ready x h payload b dt p = (ok, es) \<Longrightarrow> e \<in> set es \<Longrightarrow> \<exists>url. e = Requested Get url"
  using probe_rounds_effects [of e h "trim_end_matches [CHR ''/''] (local_base_url p)"
      "effective_paths (probe_config_from_payload x payload) b" 0
      "nat (pb_max_attempts (probe_config_from_payload x payload))"]
  by (auto simp: service_ready_def endpoint_ready_def Let_def split: if_splits)

lemma store_change_None:
  "store_change h f m = (None, m') \<Longrightarrow> (am_store m = None \<and> m' = m)
    \<or> (\<exists>rs. am_store m = Some (Inr rs) \<and> m' = m\<lparr>am_store := Some (Inr (f rs))\<rparr>)"
  by (auto simp: store_change_def split: option.splits sum.splits)

lemma store_change_Some: "store_change h f m = (Some e, m') \<Longrightarrow> m' = m"
  by (auto simp: store_change_def split: option.splits sum.splits)

lemma store_change_registry [simp]: "am_registry (snd (store_change h f m)) = am_registry m"
  by (auto simp: store_change_def split: option.split sum.split)

text \<open>
  What a start that reports \<open>running\<close> leaves: the child in the registry and, when there is a file
  of records and the child had a process id, its record with the start time of that id.
\<close>

definition managed_after :: "agent_host \<Rightarrow> string \<Rightarrow> instance_result \<Rightarrow> agent_mem \<Rightarrow> agent_mem \<Rightarrow> bool" where
  "managed_after h i r m m' \<longleftrightarrow>
     am_registry m' i \<noteq> None \<and>
     (case (it_process_id r, am_store m) of
        (Some pid, Some st) \<Rightarrow>
          (case st of
             Inl _ \<Rightarrow> False
           | Inr rs \<Rightarrow>
               (case am_store m' of
                  Some (Inr rs') \<Rightarrow>
                    (case find_record i rs' of
                       Some q \<Rightarrow> pr_process_id q = pid \<and> pr_deploy_type q = Some ''local''
                         \<and> pr_process_start_time q = process_start_time (ah_processes h) pid
                         \<and> pr_base_url q = it_base_url r
                         \<and> rs' = upsert_record q rs
                     | None \<Rightarrow> False)
                | _ \<Rightarrow> False))
      | _ \<Rightarrow> am_store m' = am_store m)"

lemma managed_after_store:
  assumes "managed_after h i r m m'" and "it_process_id r = Some pid" and "am_store m = Some (Inr rs)"
  shows "\<exists>q. am_store m' = Some (Inr (upsert_record q rs)) \<and> find_record i (upsert_record q rs) = Some q
    \<and> pr_deploy_type q = Some ''local'' \<and> pr_process_id q = pid
    \<and> pr_process_start_time q = process_start_time (ah_processes h) pid"
proof -
  note def = assms(1) [unfolded managed_after_def assms(2,3) prod.case option.case sum.case]
  then obtain rs' where st: "am_store m' = Some (Inr rs')" by (cases "am_store m'") (simp_all split: sum.splits)
  with def obtain q where "find_record i rs' = Some q" by (cases "find_record i rs'") simp_all
  with def st show ?thesis by auto
qed

lemma find_upsert: "find_record (pr_instance_id q) (upsert_record q rs) = Some q"
  by (simp add: proc_store.lookup_insert)

lemma register_child_running:
  assumes "register_child h i p summary lp pid m = (r, m', es)" and "it_instance_status r = ''running''"
  shows "managed_after h i r m m' \<and> es = []"
proof (cases pid)
  case None
  with assms show ?thesis
    by (auto simp: register_child_def Let_def managed_after_def add_handle_def)
next
  case (Some n)
  let ?q = "local_record h i n (local_base_url p) summary lp"
  from assms Some obtain m1 where up: "store_upsert h ?q m = (None, m1)"
    and r: "it_process_id r = Some n" "it_base_url r = Some (local_base_url p)" "es = []"
      "m' = add_handle i \<lparr>ph_command = summary, ph_output = ah_output h 2\<rparr> m1"
    by (auto simp: register_child_def Let_def split: prod.splits option.splits)
  have q: "pr_instance_id ?q = i" "pr_process_id ?q = n" "pr_deploy_type ?q = Some ''local''"
    "pr_process_start_time ?q = process_start_time (ah_processes h) n" "pr_base_url ?q = Some (local_base_url p)"
    by (simp_all add: local_record_def)
  have find: "find_record i (upsert_record ?q rs) = Some ?q" for rs
    using find_upsert [of ?q rs] q(1) by simp
  from store_change_None [OF up [unfolded store_upsert_def]] show ?thesis
  proof (elim disjE conjE exE)
    assume "am_store m = None" "m1 = m"
    with r show ?thesis by (simp add: managed_after_def add_handle_def)
  next
    fix rs
    assume "am_store m = Some (Inr rs)" "m1 = m\<lparr>am_store := Some (Inr (upsert_record ?q rs))\<rparr>"
    with r q find show ?thesis by (simp add: managed_after_def add_handle_def)
  qed
qed

lemma register_child_failed:
  assumes "register_child h i p summary lp pid m = (r, m', es)" and "it_instance_status r \<noteq> ''running''"
  shows "m' = m \<and> es = [ChildKilled]"
  using assms
  by (auto simp: register_child_def Let_def store_upsert_def split: prod.splits option.splits dest: store_change_Some)

lemma start_failed_status [simp]: "it_instance_status (start_failed m tail fb s) = ''failed''"
  by (simp add: start_failed_def)

lemma watch_child_running:
  assumes "watch_child x h payload i b dt p summary lp pid m = (r, m', es)" and "it_instance_status r = ''running''"
  shows "managed_after h i r m m' \<and> ah_child h 0 = Alive \<and> ah_child h 2 = Alive
    \<and> fst (service_ready x h payload b dt p)"
  using assms
  by (auto simp: watch_child_def split: child_state.splits prod.splits bool.splits dest: register_child_running)

lemma watch_child_failed:
  assumes "watch_child x h payload i b dt p summary lp pid m = (r, m', es)" and "it_instance_status r \<noteq> ''running''"
  shows "m' = m \<and> (ChildKilled \<in> set es \<or> (\<exists>n s. ah_child h n = Exited s) \<or> (\<exists>e. ah_child h 0 = WaitFailed e))"
  using assms
  by (auto simp: watch_child_def split: child_state.splits prod.splits bool.splits dest: register_child_failed)

lemma register_child_effects:
  "register_child h i p summary lp pid m = (r, m', es) \<Longrightarrow> e \<in> set es \<Longrightarrow> e = ChildKilled"
  by (auto simp: register_child_def Let_def split: prod.splits option.splits)

lemma watch_child_effects:
  assumes "watch_child x h payload i b dt p summary lp pid m = (r, m', es)" and "e \<in> set es"
  shows "(\<exists>url. e = Requested Get url) \<or> e = ChildKilled"
  using assms
  by (auto simp: watch_child_def split: child_state.splits prod.splits bool.splits
      dest: service_ready_effects register_child_effects)

lemma spawn_instance_cases:
  assumes "spawn_instance x h payload i b dt prog p args m = (r, m', es)"
  obtains (no_spawn) e where "ah_spawn h prog args = Inl e" "m' = m" "es = []" "it_instance_status r = ''failed''"
  | (no_log) e where "launch_log_path h payload i = Inl e" "m' = m"
      "es = [ChildSpawned prog args [] (working_dir payload)]" "it_instance_status r = ''failed''"
  | (watched) lp pid es' where
      "watch_child x h payload i b dt p (command_summary x prog args) lp pid m = (r, m', es')"
      "es = ChildSpawned prog args [] (working_dir payload) # es'"
  using assms by (auto simp: spawn_instance_def Let_def split: sum.splits prod.splits)

lemma start_local_cases:
  assumes "start_local_instance x h payload i b dt m = (r, m', es)"
    and "b = unwrap_or (get_str payload ''backend'') []" and "dt = unwrap_or (get_str payload ''deploy_type'') []"
  obtains (refused) "m' = m" "es = []" "it_instance_status r = ''failed''"
  | (spawned) prog p args where "launched x h payload prog args"
      "spawn_instance x h payload i b dt prog p args m = (r, m', es)"
proof -
  consider (no) "m' = m" "es = []" "it_instance_status r = ''failed''"
  | (yes) prog p args where
      "vr_file_status (agent_verify_model_file h (unwrap_or (get_str payload ''model_path'') [])) = ''verified''"
      "rk_check_status (verify_controlled_entrypoint h prog) = ''available''"
      "launch_params_from_payload x payload = Inr p" "check_port_available h p = None"
      "build_launch_args b dt (unwrap_or (get_str payload ''model_path'') []) p = Inr args"
      "spawn_instance x h payload i b dt prog p args m = (r, m', es)"
    using assms(1)
    by (auto simp: start_local_instance_def Let_def split: if_splits option.splits sum.splits)
  then show thesis
  proof cases
    case no
    then show thesis by (rule refused)
  next
    case yes
    then have "launched x h payload prog args"
      using assms(2,3) by (auto simp: launched_def entrypoint_available)
    from this yes(6) show thesis by (rule spawned)
  qed
qed

lemma start_local_running:
  assumes "start_local_instance x h payload i b dt m = (r, m', es)" and "it_instance_status r = ''running''"
    and "b = unwrap_or (get_str payload ''backend'') []" and "dt = unwrap_or (get_str payload ''deploy_type'') []"
  shows "managed_after h i r m m'"
  using assms(1,3,4)
proof (cases rule: start_local_cases)
  case (spawned prog p args)
  from spawned(2) show ?thesis
    by (cases rule: spawn_instance_cases) (use assms(2) in \<open>simp_all add: watch_child_running\<close>)
qed (use assms(2) in simp)

text \<open>
  A start that fails leaves the agent's memory as it was. The child it has spawned is killed or has
  exited, except in two cases: the look at the child failed, or the log directory is unusable.
\<close>

lemma start_local_failed:
  assumes "start_local_instance x h payload i b dt m = (r, m', es)" and "it_instance_status r \<noteq> ''running''"
    and "b = unwrap_or (get_str payload ''backend'') []" and "dt = unwrap_or (get_str payload ''deploy_type'') []"
  shows "m' = m \<and> (es = [] \<or> ChildKilled \<in> set es \<or> (\<exists>n s. ah_child h n = Exited s)
    \<or> (\<exists>e. ah_child h 0 = WaitFailed e) \<or> (\<exists>e. launch_log_path h payload i = Inl e))"
  using assms(1,3,4)
proof (cases rule: start_local_cases)
  case (spawned prog p args)
  from spawned(2) show ?thesis
  proof (cases rule: spawn_instance_cases)
    case (watched lp pid es')
    from watch_child_failed [OF watched(1) assms(2)] watched(2) show ?thesis by auto
  qed auto
qed simp

lemma start_local_effects:
  assumes "start_local_instance x h payload i b dt m = (r, m', es)" and "e \<in> set es"
    and "b = unwrap_or (get_str payload ''backend'') []" and "dt = unwrap_or (get_str payload ''deploy_type'') []"
  shows "(\<exists>url. e = Requested Get url) \<or> e = ChildKilled
    \<or> (\<exists>prog args. launched x h payload prog args \<and> e = ChildSpawned prog args [] (working_dir payload))"
  using assms(1,3,4)
proof (cases rule: start_local_cases)
  case (spawned prog p args)
  from spawned(2) show ?thesis
  proof (cases rule: spawn_instance_cases)
    case (watched lp pid es')
    from assms(2) watched(2) consider "e = ChildSpawned prog args [] (working_dir payload)" | "e \<in> set es'" by auto
    then show ?thesis
    proof cases
      case 1
      with spawned(1) show ?thesis by blast
    next
      case 2
      from watch_child_effects [OF watched(1) 2] show ?thesis by blast
    qed
  next
    case no_log
    with assms(2) spawned(1) show ?thesis by auto
  qed (use assms(2) in simp)
qed (use assms(2) in simp)

lemma script_action_effects:
  "e \<in> set (snd (run_controlled_script_action x h payload a s)) \<Longrightarrow>
   \<exists>path. controlled_entrypoint h path \<and> e = ProgramRun path [a]"
  by (auto simp: run_controlled_script_action_def Let_def entrypoint_available
      split: option.splits if_splits command_result.splits)

section \<open>Stop\<close>

lemma stop_child_stopped:
  assumes "stop_child h i p m = (r, m', es)" and "it_instance_status r = ''stopped''"
  shows "es = [ChildKilled] \<and> ah_kill_child h = None \<and> am_registry m' = (am_registry m)(i := None)
    \<and> (\<forall>rs. am_store m = Some (Inr rs) \<longrightarrow> am_store m' = Some (Inr (remove_record i rs)))
    \<and> it_command r = Some (ph_command p)"
proof -
  from assms obtain m1 where s: "store_remove h i (drop_handle i m) = (None, m1)" "m' = m1" "es = [ChildKilled]"
    "ah_kill_child h = None" "it_command r = Some (ph_command p)"
    by (auto simp: stop_child_def Let_def split: option.splits prod.splits)
  from store_change_None [OF s(1) [unfolded store_remove_def]] s(2-5) show ?thesis
    by (auto simp: drop_handle_def)
qed

lemma stop_recorded_effects:
  "stop_recorded x h i m = (r, m', es) \<Longrightarrow> e \<in> set es \<Longrightarrow>
   \<exists>rs q. am_store m = Some (Inr rs) \<and> find_record i rs = Some q \<and> e = ProcessKilled (snd (kill_managed (docker_host x h) q))"
  by (auto simp: stop_recorded_def store_find_def killed_effects_def
      split: if_splits option.splits sum.splits prod.splits)

text \<open>Starting and stopping: the second undoes what the first left in the agent's memory.\<close>

lemma start_then_stop:
  assumes "start_local_instance x h payload i b dt m = (r, m', es)" and "it_instance_status r = ''running''"
    and "b = unwrap_or (get_str payload ''backend'') []" and "dt = unwrap_or (get_str payload ''deploy_type'') []"
    and "am_store m = Some (Inr rs)" and "it_process_id r = Some pid"
    and "i = unwrap_or (get_str stop ''instance_id'') []"
    and "ah_kill_child h2 = None" and "ah_store_save h2 = None"
  shows "\<exists>r2 m2. stop_model_instance_with_store x h2 stop m' = (r2, m2, [ChildKilled])
    \<and> it_instance_status r2 = ''stopped''
    \<and> am_registry m2 = (am_registry m')(i := None) \<and> am_store m2 = Some (Inr (remove_record i rs))"
proof -
  note mg = start_local_running [OF assms(1-4)]
  then obtain p where p: "am_registry m' i = Some p" by (auto simp: managed_after_def)
  from managed_after_store [OF mg assms(6,5)] obtain q where
    q: "am_store m' = Some (Inr (upsert_record q rs))" "find_record i (upsert_record q rs) = Some q"
      "pr_deploy_type q = Some ''local''" by blast
  have iq: "pr_instance_id q = i"
    using q(2) by (auto simp: find_record_def find_Some_iff)
  then have rm: "remove_record i (upsert_record q rs) = remove_record i rs"
    by (auto simp: remove_record_def upsert_record_def)
  have find: "store_find i m' = Inr (Some q)" using q by (simp add: store_find_def)
  have "stop_model_instance_with_store x h2 stop m' = stop_child h2 i p m'"
    using find q(3) p assms(7) by (simp add: stop_model_instance_with_store_def Let_def)
  moreover have "store_remove h2 i (drop_handle i m')
      = (None, (drop_handle i m')\<lparr>am_store := Some (Inr (remove_record i rs))\<rparr>)"
    using q(1) assms(9) rm by (simp add: store_remove_def store_change_def drop_handle_def)
  ultimately show ?thesis using assms(8) by (simp add: stop_child_def Let_def drop_handle_def)
qed

end
