(* ===== verification/AgentTasks.thy ===== *)
theory AgentTasks
  imports InstanceProcesses Tasks
begin

text \<open>
  \<^verbatim>\<open>agent/src/tasks/mod.rs\<close>: the agent's task loop. A poll brings a task; \<open>run_task\<close> dispatches on its
  kind, and the agent reports a status and a result. A task that panics (a log cut inside a
  character) ends the loop, and with it the agent.
\<close>

section \<open>Reading the agent's log\<close>

definition AGENT_SERVICE_LOG_FILE :: string where
  "AGENT_SERVICE_LOG_FILE = ''lightai-agent.log''"

definition safe_agent_log_file :: "string \<Rightarrow> string option" where
  "safe_agent_log_file name =
     (if name \<in> {''server.log'', AGENT_SERVICE_LOG_FILE, ''instance.log''} then None
      else Some ''log file is not managed by platform'')"

definition missing_log_message :: "string \<Rightarrow> string" where
  "missing_log_message name =
     (if name = AGENT_SERVICE_LOG_FILE then ''Agent log file not found: logs/lightai-agent.log''
      else ''Log file not found: logs/'' @ name)"

definition read_tail_existing ::
  "(string \<Rightarrow> string) \<Rightarrow> log_policy \<Rightarrow> string option \<Rightarrow> string \<Rightarrow> nat \<Rightarrow> log_files \<Rightarrow> string + string" where
  "read_tail_existing lossy p dir_error name n fs =
     (case first_error [validate_log_policy p, dir_error, safe_agent_log_file name] of
        Some e \<Rightarrow> Inl e
      | None \<Rightarrow>
          (case fs 0 of
             None \<Rightarrow> Inl (missing_log_message name)
           | Some f \<Rightarrow> Inr (sanitize (lossy (drop (length (lf_content f) - n) (lf_content f))))))"

definition read_agent_service_log ::
  "agent_host \<Rightarrow> log_policy \<Rightarrow> json \<Rightarrow> agent_mem \<Rightarrow> string + string" where
  "read_agent_service_log h policy payload m =
     (if unwrap_or (get_str payload ''log_type'') [] \<noteq> ''agent_service'' then Inl ''Agent log type is not allowed''
      else if unwrap_or (get_str payload ''file_name'') AGENT_SERVICE_LOG_FILE \<noteq> AGENT_SERVICE_LOG_FILE
      then Inl ''Agent log file is not allowed''
      else read_tail_existing (ah_lossy h) policy (ah_log_dir h) AGENT_SERVICE_LOG_FILE (log_max_bytes payload)
             (am_logs m))"

section \<open>Testing an instance\<close>

definition attempt_failure :: "string \<Rightarrow> http_result \<Rightarrow> string" where
  "attempt_failure url r =
     (case r of
        NoResponse e \<Rightarrow> url @ '' -> request failed: '' @ e
      | Response code text body \<Rightarrow> url @ '' -> HTTP '' @ text @ '' '' @ chars_take 300 (body_text body))"

fun try_test_urls ::
  "agent_host \<Rightarrow> nat \<Rightarrow> string list \<Rightarrow> string list \<Rightarrow> (string list + instance_result) \<times> agent_effect list" where
  "try_test_urls h k failures [] = (Inl failures, [])"
| "try_test_urls h k failures (url # urls) =
     (let r = ah_http h k Get url in
      if good_answer r then
        (Inr \<lparr>it_instance_status = ''running'',
              it_message = ''test succeeded: HTTP '' @ (case r of NoResponse _ \<Rightarrow> [] | Response _ text _ \<Rightarrow> text)
                @ '' '' @ url,
              it_base_url = None, it_endpoint_url = None, it_process_id = None, it_process_ref = None,
              it_response_summary = (case r of NoResponse _ \<Rightarrow> None
                | Response _ _ body \<Rightarrow> Some (chars_take 300 (body_text body))),
              it_log_tail = None, it_command = None\<rparr>, [Requested Get url])
      else (case try_test_urls h (Suc k) (failures @ [attempt_failure url r]) urls of
              (res, es) \<Rightarrow> (res, Requested Get url # es)))"

definition agent_test_model_instance ::
  "ext \<Rightarrow> agent_host \<Rightarrow> json \<Rightarrow> instance_result \<times> agent_effect list" where
  "agent_test_model_instance x h payload =
     (if is_custom_script payload then run_controlled_script_action x h payload ''test'' ''running''
      else case coalesce (get_str payload ''endpoint_url'') (get_str payload ''base_url'') of
        None \<Rightarrow> (instance_failure ''instance missing test URL'', [])
      | Some url \<Rightarrow>
          (case build_test_urls x (unwrap_or (get_str payload ''backend'') []) url of
             Inl e \<Rightarrow> (instance_failure e, [])
           | Inr urls \<Rightarrow>
               (case ah_client h of
                  Some e \<Rightarrow> (instance_failure (''test client initialization failed: '' @ e), [])
                | None \<Rightarrow>
                    (case try_test_urls h 0 [] urls of
                       (Inr r, es) \<Rightarrow> (r, es)
                     | (Inl failures, es) \<Rightarrow> (instance_failure (summarize_test_failures urls failures), es)))))"

section \<open>Gateway tasks\<close>

definition gateway_path :: "json \<Rightarrow> string \<Rightarrow> string + string" where
  "gateway_path payload field =
     (case get_str payload field of
        None \<Rightarrow> Inl (''Gateway task missing '' @ field) | Some p \<Rightarrow> Inr p)"

definition default_gateway_state_path :: "agent_mem \<Rightarrow> string + string" where
  "default_gateway_state_path m =
     (case am_gateway m of None \<Rightarrow> Inl ''Gateway task missing state_path'' | Some (path, _) \<Rightarrow> Inr path)"

fun bind_result :: "'e + 'a \<Rightarrow> ('a \<Rightarrow> 'e + 'b) \<Rightarrow> 'e + 'b" where
  "bind_result (Inl e) f = Inl e"
| "bind_result (Inr a) f = f a"

definition gateway_spec_from_payload :: "json \<Rightarrow> agent_mem \<Rightarrow> string + gateway_spec" where
  "gateway_spec_from_payload payload m =
     bind_result (gateway_path payload ''binary_path'') (\<lambda>binary.
     bind_result (gateway_path payload ''config_path'') (\<lambda>config.
     bind_result (gateway_path payload ''work_dir'') (\<lambda>work.
     bind_result (gateway_path payload ''log_path'') (\<lambda>log.
     bind_result (default_gateway_state_path m) (\<lambda>state.
     bind_result (gateway_path payload ''health_url'') (\<lambda>health.
       Inr \<lparr>gs_binary_path = binary, gs_config_path = config, gs_work_dir = work, gs_log_path = log,
            gs_state_path = state, gs_health_url = health\<rparr>))))))"

definition gateway_stored :: "agent_mem \<Rightarrow> stored" where
  "gateway_stored m = (case am_gateway m of None \<Rightarrow> Inr None | Some (_, st) \<Rightarrow> st)"

definition set_gateway :: "stored \<Rightarrow> agent_mem \<Rightarrow> agent_mem" where
  "set_gateway st m = m\<lparr>am_gateway := map_option (\<lambda>(path, _). (path, st)) (am_gateway m)\<rparr>"

type_synonym gateway_outcome = "gateway_response \<times> agent_mem \<times> agent_effect list"

definition gateway_refused :: "string \<Rightarrow> agent_mem \<Rightarrow> gateway_outcome" where
  "gateway_refused e m = (gateway_failed e, m, [])"

definition gateway_done :: "agent_mem \<Rightarrow> gateway_response \<times> stored \<times> gateway_effect list \<Rightarrow> gateway_outcome" where
  "gateway_done m o' = (case o' of (r, st, es) \<Rightarrow> (r, set_gateway st m, map GatewayEffect es))"

definition start_gateway_task :: "ext \<Rightarrow> agent_host \<Rightarrow> json \<Rightarrow> agent_mem \<Rightarrow> gateway_outcome" where
  "start_gateway_task x h payload m =
     (case gateway_spec_from_payload payload m of
        Inl e \<Rightarrow> gateway_refused e m
      | Inr s \<Rightarrow> gateway_done m (agent_start_gateway x (ah_gateway h) (ah_clock h) s (gateway_stored m)))"

definition stop_gateway_task :: "agent_host \<Rightarrow> agent_mem \<Rightarrow> gateway_outcome" where
  "stop_gateway_task h m =
     (case default_gateway_state_path m of
        Inl e \<Rightarrow> gateway_refused e m
      | Inr _ \<Rightarrow> gateway_done m (agent_stop_gateway (ah_gateway h) (gateway_stored m)))"

definition restart_gateway_task :: "ext \<Rightarrow> agent_host \<Rightarrow> json \<Rightarrow> agent_mem \<Rightarrow> gateway_outcome" where
  "restart_gateway_task x h payload m =
     (case gateway_spec_from_payload payload m of
        Inl e \<Rightarrow> gateway_refused e m
      | Inr s \<Rightarrow>
          (case agent_stop_gateway (ah_gateway h) (gateway_stored m) of
             (stopped, st, es) \<Rightarrow>
               if gr_gateway_status stopped = ''failed'' then gateway_done m (stopped, st, es)
               else (case agent_start_gateway x (ah_gateway_after h) (ah_clock h) s st of
                       (r, st', es') \<Rightarrow> gateway_done m (r, st', es @ es'))))"

definition check_gateway_task :: "agent_host \<Rightarrow> agent_mem \<Rightarrow> gateway_outcome" where
  "check_gateway_task h m =
     (case default_gateway_state_path m of
        Inl e \<Rightarrow> gateway_refused e m
      | Inr _ \<Rightarrow> (agent_check_gateway (ah_gateway h) (gateway_stored m), m, []))"

definition read_gateway_log_task :: "agent_host \<Rightarrow> json \<Rightarrow> agent_mem \<Rightarrow> gateway_outcome" where
  "read_gateway_log_task h payload m =
     (case default_gateway_state_path m of
        Inl e \<Rightarrow> gateway_refused e m
      | Inr _ \<Rightarrow>
          (agent_read_gateway_log (ah_lossy h) (ah_gateway h)
             (nat (unwrap_or (get_u64 payload ''max_bytes'') 65536)) (gateway_stored m), m, []))"

section \<open>Dispatch\<close>

text \<open>The note in front of the log of an Ollama daemon, which all its models share.\<close>

definition shared_daemon_note :: string where
  "shared_daemon_note =
     [CHR 0xE3, CHR 0x80, CHR 0x90] @ ''Ollama '' @ [CHR 0xE4, CHR 0xBD, CHR 0xBF, CHR 0xE7, CHR
     0x94, CHR 0xA8, CHR 0xE5, CHR 0x85, CHR 0xB1, CHR 0xE4, CHR 0xBA, CHR 0xAB] @ '' daemon'' @
     [CHR 0xEF, CHR 0xBC, CHR 0x8C, CHR 0xE6, CHR 0x97, CHR 0xA5, CHR 0xE5, CHR 0xBF, CHR 0x97,
     CHR 0xE4, CHR 0xB8, CHR 0xBA] @ '' Ollama '' @ [CHR 0xE6, CHR 0x9C, CHR 0x8D, CHR 0xE5, CHR
     0x8A, CHR 0xA1, CHR 0xE6, CHR 0x97, CHR 0xA5, CHR 0xE5, CHR 0xBF, CHR 0x97, CHR 0xEF, CHR
     0xBC, CHR 0x8C, CHR 0xE4, CHR 0xB8, CHR 0x8D, CHR 0xE6, CHR 0x98, CHR 0xAF, CHR 0xE5, CHR
     0x8D, CHR 0x95, CHR 0xE6, CHR 0xA8, CHR 0xA1, CHR 0xE5, CHR 0x9E, CHR 0x8B, CHR 0xE7, CHR
     0x8B, CHR 0xAC, CHR 0xE7, CHR 0xAB, CHR 0x8B, CHR 0xE6, CHR 0x97, CHR 0xA5, CHR 0xE5, CHR
     0xBF, CHR 0x97, CHR 0xE3, CHR 0x80, CHR 0x91, CHR 0x0A, CHR 0x0A]"

definition ollama_instance_log :: "agent_host \<Rightarrow> json \<Rightarrow> log_result" where
  "ollama_instance_log h payload =
     (case read_daemon_log h (unwrap_or (get_str payload ''runtime_environment_id'') [])
             (unwrap_or (get_str payload ''log_dir'') ''logs'') 65536 of
        Inl e \<Rightarrow> failed_log e
      | Inr content \<Rightarrow>
          \<lparr>lr_log_status = ''available'', lr_content = shared_daemon_note @ content,
           lr_message = ''read from ollama daemon log''\<rparr>)"

type_synonym task_outcome = "(string \<times> json) option \<times> agent_mem \<times> agent_effect list"

definition verdict :: "bool \<Rightarrow> string" where
  "verdict ok = (if ok then ''succeeded'' else ''failed'')"

definition instance_outcome ::
  "string \<Rightarrow> instance_result \<times> agent_mem \<times> agent_effect list \<Rightarrow> task_outcome" where
  "instance_outcome good o' =
     (case o' of (r, m, es) \<Rightarrow> (Some (verdict (it_instance_status r = good), instance_json r), m, es))"

definition gateway_task_outcome :: "string \<Rightarrow> gateway_outcome \<Rightarrow> task_outcome" where
  "gateway_task_outcome good o' =
     (case o' of (r, m, es) \<Rightarrow> (Some (verdict (gr_gateway_status r = good), gateway_json r), m, es))"

definition log_outcome :: "log_result option \<Rightarrow> agent_mem \<Rightarrow> agent_effect list \<Rightarrow> task_outcome" where
  "log_outcome r m es =
     (map_option (\<lambda>l. (verdict (lr_log_status l = ''available''), log_json l)) r, m, es)"

definition verify_outcome :: "agent_host \<Rightarrow> json \<Rightarrow> agent_mem \<Rightarrow> task_outcome" where
  "verify_outcome h payload m =
     (let r = verify_model_file_with_hint h (unwrap_or (get_str payload ''path'') []) (get_str payload ''path_type'')
      in (Some (verdict (vr_file_status r = ''verified''), verify_json r), m, []))"

definition cleanup_outcome :: "agent_host \<Rightarrow> string list \<Rightarrow> json \<Rightarrow> agent_mem \<Rightarrow> task_outcome" where
  "cleanup_outcome h allowed payload m =
     (case agent_cleanup_model_file h (unwrap_or (get_str payload ''path'') []) allowed of (r, es) \<Rightarrow>
        (Some (verdict (cx_cleanup_status r = ''deleted''), cleanup_json r), m, es))"

definition agent_log_outcome :: "agent_host \<Rightarrow> log_policy \<Rightarrow> json \<Rightarrow> agent_mem \<Rightarrow> task_outcome" where
  "agent_log_outcome h policy payload m =
     log_outcome (Some (case read_agent_service_log h policy payload m of
          Inr content \<Rightarrow> \<lparr>lr_log_status = ''available'', lr_content = content,
                           lr_message = ''Agent log read succeeded''\<rparr>
        | Inl e \<Rightarrow> failed_log (''Agent log read failed: '' @ e))) m []"

definition runtime_outcome :: "agent_host \<Rightarrow> json \<Rightarrow> agent_mem \<Rightarrow> task_outcome" where
  "runtime_outcome h payload m =
     (case agent_check_runtime_environment h payload of (r, es) \<Rightarrow>
        (Some (verdict (rk_check_status r \<in> {''available'', ''version_unavailable''}), runtime_check_json r), m, es))"

definition ollama_list_outcome :: "ext \<Rightarrow> agent_host \<Rightarrow> json \<Rightarrow> agent_mem \<Rightarrow> task_outcome" where
  "ollama_list_outcome x h payload m =
     (case query_model_list x h payload of
        (Inr ms, es) \<Rightarrow> (Some (''succeeded'', JObj [(''models'', JArr (map ollama_model_json ms))]), m, es)
      | (Inl e, es) \<Rightarrow> (Some (''failed'', JObj [(''message'', JStr e)]), m, es))"

definition with_mem :: "agent_mem \<Rightarrow> 'r \<times> agent_effect list \<Rightarrow> 'r \<times> agent_mem \<times> agent_effect list" where
  "with_mem m o' = (case o' of (r, es) \<Rightarrow> (r, m, es))"

definition run_task ::
  "ext \<Rightarrow> agent_host \<Rightarrow> log_policy \<Rightarrow> string list \<Rightarrow> string \<Rightarrow> json \<Rightarrow> agent_mem \<Rightarrow> task_outcome" where
  "run_task x h policy allowed kind payload m =
     (let ollama = (unwrap_or (get_str payload ''backend'') [] = ''ollama'') in
      if kind = ''verify_model_file'' then verify_outcome h payload m
      else if kind = ''cleanup_model_file'' then cleanup_outcome h allowed payload m
      else if kind = ''read_agent_log'' then agent_log_outcome h policy payload m
      else if kind = ''check_runtime_environment'' then runtime_outcome h payload m
      else if kind = ''start_model_instance''
      then instance_outcome ''running'' (start_model_instance_with_store x h payload m)
      else if kind = ''stop_model_instance''
      then instance_outcome ''stopped''
             (if ollama then with_mem m (stop_ollama_instance x h payload)
              else stop_model_instance_with_store x h payload m)
      else if kind = ''check_model_instance''
      then instance_outcome ''running''
             (with_mem m (if ollama then check_ollama_instance x h payload
                          else agent_test_model_instance x h payload))
      else if kind = ''test_model_instance''
      then instance_outcome ''running''
             (with_mem m (if ollama then test_ollama_instance x h payload
                          else agent_test_model_instance x h payload))
      else if kind = ''read_instance_log''
      then (if ollama then log_outcome (Some (ollama_instance_log h payload)) m []
            else (case agent_read_instance_log h payload m of (r, es) \<Rightarrow> log_outcome r m es))
      else if kind = ''list_ollama_models'' then ollama_list_outcome x h payload m
      else if kind = ''start_gateway'' then gateway_task_outcome ''running'' (start_gateway_task x h payload m)
      else if kind = ''stop_gateway'' then gateway_task_outcome ''stopped'' (stop_gateway_task h m)
      else if kind = ''restart_gateway'' then gateway_task_outcome ''running'' (restart_gateway_task x h payload m)
      else if kind = ''check_gateway'' then gateway_task_outcome ''running'' (check_gateway_task h m)
      else if kind = ''read_gateway_log''
      then gateway_task_outcome ''log_available'' (read_gateway_log_task h payload m)
      else (Some (''failed'', JObj [(''cleanup_status'', JStr ''failed''), (''message'', JStr ''unknown task type'')]),
            m, []))"

section \<open>The loop\<close>

text \<open>
  \<open>run_once\<close>: the answer of a poll, the task in it, and the report of its result (which may fail).
  The line that a task is starting goes to the agent's log. A panic leaves no result.
\<close>

record agent_poll_answer =
  pa_task :: "(string \<times> string \<times> json) option"
  pa_config :: "agent_config option"

definition starting_line :: "string \<Rightarrow> string \<Rightarrow> string" where
  "starting_line task_id kind = ''Agent starting task task_id='' @ task_id @ '' kind='' @ kind"

definition log_starting ::
  "agent_host \<Rightarrow> log_policy \<Rightarrow> string \<Rightarrow> string \<Rightarrow> agent_mem \<Rightarrow> agent_mem" where
  "log_starting h policy task_id kind m =
     m\<lparr>am_logs := snd (append_log policy (ah_log_dir h) AGENT_SERVICE_LOG_FILE ''info''
                        (starting_line task_id kind) (nat (ah_clock h)) (am_logs m))\<rparr>"

type_synonym task_report = "string \<times> task_result_request"

definition run_once_task ::
  "ext \<Rightarrow> agent_host \<Rightarrow> log_policy \<Rightarrow> string list \<Rightarrow> string \<Rightarrow> (task_report \<Rightarrow> string option)
   \<Rightarrow> string + agent_poll_answer \<Rightarrow> agent_mem
   \<Rightarrow> (string + agent_config option) option \<times> agent_mem \<times> agent_effect list \<times> task_report list" where
  "run_once_task x h policy allowed node_id send answer m =
     (case answer of
        Inl e \<Rightarrow> (Some (Inl e), m, [], [])
      | Inr a \<Rightarrow>
          (case pa_task a of
             None \<Rightarrow> (Some (Inr (pa_config a)), m, [], [])
           | Some (task_id, kind, payload) \<Rightarrow>
               (case run_task x h policy allowed kind payload (log_starting h policy task_id kind m) of
                  (None, m', es) \<Rightarrow> (None, m', es, [])
                | (Some (status, result), m', es) \<Rightarrow>
                    (let report = (task_id, \<lparr>tq_node_id = node_id, tq_status = status, tq_result = result\<rparr>) in
                     (Some (case send report of Some e \<Rightarrow> Inl e | None \<Rightarrow> Inr (pa_config a)), m', es,
                      [report])))))"

text \<open>
  One turn of \<open>run\<close>: the agent's stored identity (absent, unreadable), a poll, the configuration and
  the seconds until the next turn. The configuration of the turn is that of its beginning.
\<close>

definition task_turn ::
  "ext \<Rightarrow> agent_host \<Rightarrow> (task_report \<Rightarrow> string option) \<Rightarrow> string + agent_state option
   \<Rightarrow> string + agent_poll_answer \<Rightarrow> runtime_config \<Rightarrow> agent_mem
   \<Rightarrow> (runtime_config \<times> nat) option \<times> agent_mem \<times> agent_effect list \<times> task_report list" where
  "task_turn x h send state answer r m =
     (case state of
        Inl _ \<Rightarrow> (Some (r, 5), m, [], [])
      | Inr None \<Rightarrow> (Some (r, 1), m, [], [])
      | Inr (Some s) \<Rightarrow>
          (case run_once_task x h (rt_log_policy r) (rt_allowed_model_dirs r) (st_node_id s) send answer m of
             (res, m', es, sent) \<Rightarrow>
               (map_option (\<lambda>res. case res of
                    Inl _ \<Rightarrow> (r, 5)
                  | Inr c \<Rightarrow> (apply_server_config c r, 0)) res, m', es, sent)))"

end
