(* ===== verification/TaskEffects.thy ===== *)
theory TaskEffects
  imports AgentTasks
begin

text \<open>
  What the agent's tasks do to the node (\<open>permitted\<close>: the effects a task of each kind may have), what
  their status says about their result, and what the server makes of a report.
\<close>

section \<open>Effects\<close>

definition removable :: "agent_host \<Rightarrow> string list \<Rightarrow> string \<Rightarrow> bool" where
  "removable h allowed p \<longleftrightarrow>
     is_absolute p \<and> \<not> has_parent_dir p \<and> (\<exists>m. ah_meta h p = Inr m \<and> fm_kind m = RegularFile)
     \<and> (\<exists>target k a dir. ah_canonical h p = Inr (target, k) \<and> a \<in> set allowed
          \<and> ah_canonical h a = Inr (dir, True) \<and> path_within target dir)"

definition payload_instance :: "json \<Rightarrow> string" where
  "payload_instance payload = unwrap_or (get_str payload ''instance_id'') []"

text \<open>
  The only program that runs without the check of its path, docker apart, is the Ollama daemon.
\<close>

fun permitted ::
  "ext \<Rightarrow> agent_host \<Rightarrow> string list \<Rightarrow> string \<Rightarrow> json \<Rightarrow> agent_mem \<Rightarrow> agent_effect \<Rightarrow> bool" where
  "permitted x h allowed kind payload m (FileRemoved p) \<longleftrightarrow>
     kind = ''cleanup_model_file'' \<and> p = unwrap_or (get_str payload ''path'') [] \<and> removable h allowed p"
| "permitted x h allowed kind payload m (ProgramRun prog args) \<longleftrightarrow>
     prog = ''docker'' \<or> controlled_entrypoint h prog"
| "permitted x h allowed kind payload m (ChildSpawned prog args env dir) \<longleftrightarrow>
     kind = ''start_model_instance'' \<and>
     (launched x h payload prog args \<and> env = []
      \<or> get_str payload ''backend'' = Some ''ollama'' \<and> args = serve_args
        \<and> env = build_ollama_env (ollama_config_of_payload payload))"
| "permitted x h allowed kind payload m ChildKilled \<longleftrightarrow>
     kind = ''start_model_instance''
     \<or> kind = ''stop_model_instance'' \<and> am_registry m (payload_instance payload) \<noteq> None"
| "permitted x h allowed kind payload m (ProcessKilled a) \<longleftrightarrow>
     kind = ''stop_model_instance'' \<and>
     (\<exists>rs q. am_store m = Some (Inr rs) \<and> find_record (payload_instance payload) rs = Some q
        \<and> a = snd (kill_managed (docker_host x h) q))"
| "permitted x h allowed kind payload m (Requested meth url) \<longleftrightarrow>
     kind \<in> {''start_model_instance'', ''stop_model_instance'', ''check_model_instance'',
             ''test_model_instance'', ''list_ollama_models''}"
| "permitted x h allowed kind payload m (GatewayEffect g) \<longleftrightarrow>
     kind \<in> {''start_gateway'', ''stop_gateway'', ''restart_gateway''}"
| "permitted x h allowed kind payload m (LogLine l s) \<longleftrightarrow> True"

abbreviation all_permitted ::
  "ext \<Rightarrow> agent_host \<Rightarrow> string list \<Rightarrow> string \<Rightarrow> json \<Rightarrow> agent_mem \<Rightarrow> agent_effect list \<Rightarrow> bool" where
  "all_permitted x h allowed kind payload m es \<equiv> (\<forall>e \<in> set es. permitted x h allowed kind payload m e)"

lemma permitted_cleanup:
  "cleanup_outcome h allowed payload m = (r, m', es) \<Longrightarrow> all_permitted x h allowed ''cleanup_model_file'' payload m es"
  using cleanup_effects [of h "unwrap_or (get_str payload ''path'') []" allowed]
    cleanup_removed [of _ h "unwrap_or (get_str payload ''path'') []" allowed]
  by (fastforce simp: cleanup_outcome_def removable_def split: prod.splits)

lemma permitted_runtime:
  assumes "runtime_outcome h payload m = (r, m', es)"
  shows "all_permitted x h allowed kind payload m es"
proof
  fix e
  assume "e \<in> set es"
  with assms have e: "e \<in> set (snd (agent_check_runtime_environment h payload))"
    by (auto simp: runtime_outcome_def split: prod.splits)
  from check_effects [OF e] obtain prog args where "e = ProgramRun prog args" by blast
  with check_runs [of prog args h payload] e show "permitted x h allowed kind payload m e" by auto
qed

lemma permitted_start:
  assumes "start_model_instance_with_store x h payload m = (r, m', es)"
  shows "all_permitted x h allowed ''start_model_instance'' payload m es"
proof
  fix e
  assume e: "e \<in> set es"
  let ?i = "unwrap_or (get_str payload ''instance_id'') []"
  let ?dt = "unwrap_or (get_str payload ''deploy_type'') []" and ?b = "unwrap_or (get_str payload ''backend'') []"
  consider (docker) "start_docker_instance x h ?i payload m = (r, m', es)"
    | (ollama) "?b = ''ollama''" "start_ollama_instance x h payload m = (r, m', es)"
    | (local) "start_local_instance x h payload ?i ?b ?dt m = (r, m', es)"
    using assms by (auto simp: start_model_instance_with_store_def Let_def split: if_splits)
  then show "permitted x h allowed ''start_model_instance'' payload m e"
  proof cases
    case docker
    with e start_docker_trace [of x h ?i payload m]
    have "e \<in> set (snd (start_docker_container x h ?i (resolve_docker_payload x payload)))" by simp
    from start_container_effects [OF this] show ?thesis by auto
  next
    case ollama
    then have b: "get_str payload ''backend'' = Some ''ollama''"
      by (cases "get_str payload ''backend''") simp_all
    from ollama(2) e have "(\<exists>meth url. e = Requested meth url)
        \<or> e \<in> set (snd (snd (ensure_daemon h (unwrap_or (get_str payload ''runtime_environment_id'') [])
            (unwrap_or (get_str payload ''binary_path'') ''ollama'') (unwrap_or (get_str payload ''log_dir'') ''logs'')
            (ollama_config_of_payload payload) m)))"
      by (auto simp: start_ollama_instance_def load_model_def Let_def
          split: if_splits prod.splits sum.splits bool.splits)
    then show ?thesis
    proof
      assume "\<exists>meth url. e = Requested meth url"
      then show ?thesis by auto
    next
      assume "e \<in> set (snd (snd (ensure_daemon h (unwrap_or (get_str payload ''runtime_environment_id'') [])
            (unwrap_or (get_str payload ''binary_path'') ''ollama'') (unwrap_or (get_str payload ''log_dir'') ''logs'')
            (ollama_config_of_payload payload) m)))"
      from ensure_daemon_effects [OF this] b show ?thesis by auto
    qed
  next
    case local
    from start_local_effects [OF local e refl refl] show ?thesis by auto
  qed
qed

lemma permitted_stop:
  assumes "stop_model_instance_with_store x h payload m = (r, m', es)"
  shows "all_permitted x h allowed ''stop_model_instance'' payload m es"
proof
  fix e
  assume e: "e \<in> set es"
  let ?i = "unwrap_or (get_str payload ''instance_id'') []"
  consider (docker) q where "stop_docker_instance h ?i q m = (r, m', es)"
    | (child) p where "am_registry m ?i = Some p" "stop_child h ?i p m = (r, m', es)"
    | (recorded) "stop_recorded x h ?i m = (r, m', es)"
    using assms by (auto simp: stop_model_instance_with_store_def Let_def
        split: sum.splits option.splits if_splits)
  then show "permitted x h allowed ''stop_model_instance'' payload m e"
  proof cases
    case docker
    with e have "e \<in> set (snd (stop_docker_container h q))"
      by (auto simp: stop_docker_instance_def split: prod.splits)
    from stop_container_effects [OF this] show ?thesis by auto
  next
    case child
    with e have "e = ChildKilled"
      by (auto simp: stop_child_def Let_def split: option.splits prod.splits)
    with child(1) show ?thesis by (simp add: payload_instance_def)
  next
    case recorded
    from stop_recorded_effects [OF recorded e] show ?thesis by (auto simp: payload_instance_def)
  qed
qed

lemma permitted_stop_ollama:
  "stop_ollama_instance x h payload = (r, es) \<Longrightarrow> all_permitted x h allowed ''stop_model_instance'' payload m es"
  by (auto simp: stop_ollama_instance_def Let_def split: if_splits http_result.splits)

lemma check_ollama_effects:
  "e \<in> set (snd (check_ollama_instance x h payload)) \<Longrightarrow> \<exists>meth url. e = Requested meth url"
  by (auto simp: check_ollama_instance_def Let_def split: if_splits http_result.splits sum.splits bool.splits)

lemma test_ollama_effects:
  "e \<in> set (snd (test_ollama_instance x h payload)) \<Longrightarrow> \<exists>meth url. e = Requested meth url"
  using check_ollama_effects [of e x h payload]
  by (auto simp: test_ollama_instance_def Let_def split: prod.splits if_splits http_result.splits)

lemma try_test_urls_effects:
  "e \<in> set (snd (try_test_urls h k failures urls)) \<Longrightarrow> \<exists>url \<in> set urls. e = Requested Get url"
  by (induction urls arbitrary: k failures) (auto simp: Let_def case_prod_beta split: if_splits)

lemma test_instance_effects:
  assumes "e \<in> set (snd (agent_test_model_instance x h payload))"
  shows "(\<exists>meth url. e = Requested meth url) \<or> (\<exists>path. controlled_entrypoint h path \<and> e = ProgramRun path [''test''])"
proof (cases "is_custom_script payload")
  case True
  with assms have "e \<in> set (snd (run_controlled_script_action x h payload ''test'' ''running''))"
    by (simp add: agent_test_model_instance_def)
  from script_action_effects [OF this] show ?thesis by blast
next
  case False
  with assms obtain urls where "e \<in> set (snd (try_test_urls h 0 [] urls))"
    by (auto simp: agent_test_model_instance_def split: option.splits sum.splits prod.splits) (metis snd_conv)+
  from try_test_urls_effects [OF this] show ?thesis by blast
qed

lemma list_ollama_effects:
  "ollama_list_outcome x h payload m = (r, m', es) \<Longrightarrow> e \<in> set es \<Longrightarrow> \<exists>meth url. e = Requested meth url"
  by (auto simp: ollama_list_outcome_def query_model_list_def Let_def
      split: prod.splits sum.splits http_result.splits if_splits)

lemma read_log_effects:
  "agent_read_instance_log h payload m = (r, es) \<Longrightarrow> e \<in> set es \<Longrightarrow> \<exists>args. e = ProgramRun ''docker'' args"
  by (auto simp: agent_read_instance_log_def recorded_log_def Let_def
      split: option.splits sum.splits if_splits)

lemma gateway_effects:
  "start_gateway_task x h payload m = (r, m', es) \<Longrightarrow> e \<in> set es \<Longrightarrow> \<exists>g. e = GatewayEffect g"
  "stop_gateway_task h m = (r, m', es) \<Longrightarrow> e \<in> set es \<Longrightarrow> \<exists>g. e = GatewayEffect g"
  "restart_gateway_task x h payload m = (r, m', es) \<Longrightarrow> e \<in> set es \<Longrightarrow> \<exists>g. e = GatewayEffect g"
  "check_gateway_task h m = (r, m', es) \<Longrightarrow> es = []"
  "read_gateway_log_task h payload m = (r, m', es) \<Longrightarrow> es = []"
  by (auto simp: start_gateway_task_def stop_gateway_task_def restart_gateway_task_def check_gateway_task_def
      read_gateway_log_task_def gateway_refused_def gateway_done_def split: sum.splits prod.splits if_splits)

text \<open>A gateway task works on the agent's own state file, whatever path the payload names.\<close>

lemma gateway_spec_state_path:
  "gateway_spec_from_payload payload m = Inr s \<Longrightarrow> \<exists>st. am_gateway m = Some (gs_state_path s, st)"
  by (cases "gateway_path payload ''binary_path''"; cases "gateway_path payload ''config_path''";
      cases "gateway_path payload ''work_dir''"; cases "gateway_path payload ''log_path''";
      cases "gateway_path payload ''health_url''"; cases "am_gateway m")
    (auto simp: gateway_spec_from_payload_def default_gateway_state_path_def)

section \<open>Splitting the dispatch\<close>

definition task_kinds :: "string list" where
  "task_kinds = [''verify_model_file'', ''cleanup_model_file'', ''read_agent_log'', ''check_runtime_environment'',
     ''start_model_instance'', ''stop_model_instance'', ''check_model_instance'', ''test_model_instance'',
     ''read_instance_log'', ''list_ollama_models'', ''start_gateway'', ''stop_gateway'', ''restart_gateway'',
     ''check_gateway'', ''read_gateway_log'']"

definition unknown_task :: json where
  "unknown_task = JObj [(''cleanup_status'', JStr ''failed''), (''message'', JStr ''unknown task type'')]"

lemma run_task_kinds:
  "run_task x h policy allowed ''verify_model_file'' payload m = verify_outcome h payload m"
  "run_task x h policy allowed ''cleanup_model_file'' payload m = cleanup_outcome h allowed payload m"
  "run_task x h policy allowed ''read_agent_log'' payload m = agent_log_outcome h policy payload m"
  "run_task x h policy allowed ''check_runtime_environment'' payload m = runtime_outcome h payload m"
  "run_task x h policy allowed ''start_model_instance'' payload m =
     instance_outcome ''running'' (start_model_instance_with_store x h payload m)"
  "run_task x h policy allowed ''stop_model_instance'' payload m =
     instance_outcome ''stopped'' (if unwrap_or (get_str payload ''backend'') [] = ''ollama''
       then with_mem m (stop_ollama_instance x h payload) else stop_model_instance_with_store x h payload m)"
  "run_task x h policy allowed ''check_model_instance'' payload m =
     instance_outcome ''running'' (with_mem m (if unwrap_or (get_str payload ''backend'') [] = ''ollama''
       then check_ollama_instance x h payload else agent_test_model_instance x h payload))"
  "run_task x h policy allowed ''test_model_instance'' payload m =
     instance_outcome ''running'' (with_mem m (if unwrap_or (get_str payload ''backend'') [] = ''ollama''
       then test_ollama_instance x h payload else agent_test_model_instance x h payload))"
  "run_task x h policy allowed ''read_instance_log'' payload m =
     (if unwrap_or (get_str payload ''backend'') [] = ''ollama''
      then log_outcome (Some (ollama_instance_log h payload)) m []
      else (case agent_read_instance_log h payload m of (r, es) \<Rightarrow> log_outcome r m es))"
  "run_task x h policy allowed ''list_ollama_models'' payload m = ollama_list_outcome x h payload m"
  "run_task x h policy allowed ''start_gateway'' payload m =
     gateway_task_outcome ''running'' (start_gateway_task x h payload m)"
  "run_task x h policy allowed ''stop_gateway'' payload m = gateway_task_outcome ''stopped'' (stop_gateway_task h m)"
  "run_task x h policy allowed ''restart_gateway'' payload m =
     gateway_task_outcome ''running'' (restart_gateway_task x h payload m)"
  "run_task x h policy allowed ''check_gateway'' payload m = gateway_task_outcome ''running'' (check_gateway_task h m)"
  "run_task x h policy allowed ''read_gateway_log'' payload m =
     gateway_task_outcome ''log_available'' (read_gateway_log_task h payload m)"
  by (simp_all add: run_task_def Let_def)

lemma run_task_unknown:
  "kind \<notin> set task_kinds \<Longrightarrow> run_task x h policy allowed kind payload m = (Some (''failed'', unknown_task), m, [])"
  by (simp add: run_task_def Let_def task_kinds_def unknown_task_def)

lemma instance_outcome_trace:
  "instance_outcome g o' = (r, m', es) \<Longrightarrow> snd o' = (m', es)"
  "gateway_task_outcome g o2 = (r, m', es) \<Longrightarrow> snd o2 = (m', es)"
  by (auto simp: instance_outcome_def gateway_task_outcome_def split: prod.splits)

lemma task_kinds_all:
  assumes "P ''verify_model_file''" "P ''cleanup_model_file''" "P ''read_agent_log''" "P ''check_runtime_environment''"
    "P ''start_model_instance''" "P ''stop_model_instance''" "P ''check_model_instance''" "P ''test_model_instance''"
    "P ''read_instance_log''" "P ''list_ollama_models''" "P ''start_gateway''" "P ''stop_gateway''"
    "P ''restart_gateway''" "P ''check_gateway''" "P ''read_gateway_log''"
  shows "\<forall>k \<in> set task_kinds. P k"
  using assms by (simp add: task_kinds_def)

lemma permitted_requests:
  "\<forall>e \<in> set es. \<exists>meth url. e = Requested meth url \<Longrightarrow>
   kind \<in> {''start_model_instance'', ''stop_model_instance'', ''check_model_instance'', ''test_model_instance'',
     ''list_ollama_models''} \<Longrightarrow> all_permitted x h allowed kind payload m es"
  by fastforce

lemma permitted_gateway:
  "\<forall>e \<in> set es. \<exists>g. e = GatewayEffect g \<Longrightarrow> kind \<in> {''start_gateway'', ''stop_gateway'', ''restart_gateway''} \<Longrightarrow>
   all_permitted x h allowed kind payload m es"
  by fastforce

lemma permitted_tests:
  assumes "\<forall>e \<in> set es. (\<exists>meth url. e = Requested meth url) \<or> (\<exists>path. controlled_entrypoint h path \<and> e = ProgramRun path [''test''])"
    and "kind \<in> {''check_model_instance'', ''test_model_instance''}"
  shows "all_permitted x h allowed kind payload m es"
proof
  fix e
  assume "e \<in> set es"
  with assms(1) show "permitted x h allowed kind payload m e" using assms(2) by auto
qed

theorem run_task_permitted:
  assumes "run_task x h policy allowed kind payload m = (r, m', es)"
  shows "all_permitted x h allowed kind payload m es"
proof (cases "kind \<in> set task_kinds")
  case False
  with assms show ?thesis by (simp add: run_task_unknown)
next
  case True
  let ?P = "\<lambda>k. \<forall>r m' es. run_task x h policy allowed k payload m = (r, m', es) \<longrightarrow> all_permitted x h allowed k payload m es"
  have all: "\<forall>k \<in> set task_kinds. ?P k"
  proof (rule task_kinds_all; intro allI impI; simp only: run_task_kinds)
    fix r m' es
    show "verify_outcome h payload m = (r, m', es) \<Longrightarrow> all_permitted x h allowed ''verify_model_file'' payload m es"
      by (auto simp: verify_outcome_def Let_def)
    show "cleanup_outcome h allowed payload m = (r, m', es) \<Longrightarrow> all_permitted x h allowed ''cleanup_model_file'' payload m es"
      by (rule permitted_cleanup)
    show "agent_log_outcome h policy payload m = (r, m', es) \<Longrightarrow> all_permitted x h allowed ''read_agent_log'' payload m es"
      by (auto simp: agent_log_outcome_def log_outcome_def)
    show "runtime_outcome h payload m = (r, m', es) \<Longrightarrow> all_permitted x h allowed ''check_runtime_environment'' payload m es"
      by (rule permitted_runtime)
    show "instance_outcome ''running'' (start_model_instance_with_store x h payload m) = (r, m', es) \<Longrightarrow>
        all_permitted x h allowed ''start_model_instance'' payload m es"
      using permitted_start [of x h payload m _ m' es allowed]
      by (metis instance_outcome_trace(1) prod.collapse)
    show "instance_outcome ''stopped'' (if unwrap_or (get_str payload ''backend'') [] = ''ollama''
          then with_mem m (stop_ollama_instance x h payload) else stop_model_instance_with_store x h payload m)
        = (r, m', es) \<Longrightarrow> all_permitted x h allowed ''stop_model_instance'' payload m es"
      using permitted_stop [of x h payload m _ m' es allowed] permitted_stop_ollama [of x h payload _ es allowed m]
      by (cases "stop_ollama_instance x h payload"; cases "stop_model_instance_with_store x h payload m")
        (auto simp: instance_outcome_def with_mem_def split: if_splits)
    show "all_permitted x h allowed ''check_model_instance'' payload m es"
      if "instance_outcome ''running'' (with_mem m (if unwrap_or (get_str payload ''backend'') [] = ''ollama''
        then check_ollama_instance x h payload else agent_test_model_instance x h payload)) = (r, m', es)"
    proof (rule permitted_tests)
      from that have "es = snd (if unwrap_or (get_str payload ''backend'') [] = ''ollama''
        then check_ollama_instance x h payload else agent_test_model_instance x h payload)"
        by (auto simp: instance_outcome_def with_mem_def split: prod.splits if_splits)
      then show "\<forall>e \<in> set es. (\<exists>meth url. e = Requested meth url) \<or> (\<exists>path. controlled_entrypoint h path \<and> e = ProgramRun path [''test''])"
        using check_ollama_effects [of _ x h payload] test_instance_effects [of _ x h payload] by (auto split: if_splits)
    qed simp
    show "all_permitted x h allowed ''test_model_instance'' payload m es"
      if "instance_outcome ''running'' (with_mem m (if unwrap_or (get_str payload ''backend'') [] = ''ollama''
        then test_ollama_instance x h payload else agent_test_model_instance x h payload)) = (r, m', es)"
    proof (rule permitted_tests)
      from that have "es = snd (if unwrap_or (get_str payload ''backend'') [] = ''ollama''
        then test_ollama_instance x h payload else agent_test_model_instance x h payload)"
        by (auto simp: instance_outcome_def with_mem_def split: prod.splits if_splits)
      then show "\<forall>e \<in> set es. (\<exists>meth url. e = Requested meth url) \<or> (\<exists>path. controlled_entrypoint h path \<and> e = ProgramRun path [''test''])"
        using test_ollama_effects [of _ x h payload] test_instance_effects [of _ x h payload] by (auto split: if_splits)
    qed simp
    show "all_permitted x h allowed ''read_instance_log'' payload m es"
      if "(if unwrap_or (get_str payload ''backend'') [] = ''ollama''
        then log_outcome (Some (ollama_instance_log h payload)) m []
        else (case agent_read_instance_log h payload m of (r, es) \<Rightarrow> log_outcome r m es)) = (r, m', es)"
    proof
      fix e
      assume "e \<in> set es"
      with that obtain r0 where "agent_read_instance_log h payload m = (r0, es)"
        by (auto simp: log_outcome_def split: if_splits prod.splits)
      from read_log_effects [OF this \<open>e \<in> set es\<close>] show "permitted x h allowed ''read_instance_log'' payload m e" by auto
    qed
    show "ollama_list_outcome x h payload m = (r, m', es) \<Longrightarrow> all_permitted x h allowed ''list_ollama_models'' payload m es"
      by (rule permitted_requests) (auto dest: list_ollama_effects)
    show "gateway_task_outcome ''running'' (start_gateway_task x h payload m) = (r, m', es) \<Longrightarrow>
        all_permitted x h allowed ''start_gateway'' payload m es"
      by (rule permitted_gateway, cases "start_gateway_task x h payload m")
        (auto simp: gateway_task_outcome_def dest: gateway_effects)
    show "gateway_task_outcome ''stopped'' (stop_gateway_task h m) = (r, m', es) \<Longrightarrow>
        all_permitted x h allowed ''stop_gateway'' payload m es"
      by (rule permitted_gateway, cases "stop_gateway_task h m")
        (auto simp: gateway_task_outcome_def dest: gateway_effects)
    show "gateway_task_outcome ''running'' (restart_gateway_task x h payload m) = (r, m', es) \<Longrightarrow>
        all_permitted x h allowed ''restart_gateway'' payload m es"
      by (rule permitted_gateway, cases "restart_gateway_task x h payload m")
        (auto simp: gateway_task_outcome_def dest: gateway_effects)
    show "gateway_task_outcome ''running'' (check_gateway_task h m) = (r, m', es) \<Longrightarrow>
        all_permitted x h allowed ''check_gateway'' payload m es"
      by (cases "check_gateway_task h m") (auto simp: gateway_task_outcome_def dest: gateway_effects(4))
    show "gateway_task_outcome ''log_available'' (read_gateway_log_task h payload m) = (r, m', es) \<Longrightarrow>
        all_permitted x h allowed ''read_gateway_log'' payload m es"
      by (cases "read_gateway_log_task h payload m") (auto simp: gateway_task_outcome_def dest: gateway_effects(5))
  qed
  from bspec [OF all True] have "?P kind" .
  with assms show ?thesis by blast
qed

section \<open>Status and result\<close>

text \<open>For each kind the member of the result and the values of it that count as success.\<close>

definition success_rule :: "string \<Rightarrow> (string \<times> string list) option" where
  "success_rule kind =
     (if kind = ''verify_model_file'' then Some (''file_status'', [''verified''])
      else if kind = ''cleanup_model_file'' then Some (''cleanup_status'', [''deleted''])
      else if kind = ''check_runtime_environment''
      then Some (''check_status'', [''available'', ''version_unavailable''])
      else if kind \<in> {''read_agent_log'', ''read_instance_log''} then Some (''log_status'', [''available''])
      else if kind \<in> {''start_model_instance'', ''check_model_instance'', ''test_model_instance''}
      then Some (''instance_status'', [''running''])
      else if kind = ''stop_model_instance'' then Some (''instance_status'', [''stopped''])
      else if kind \<in> {''start_gateway'', ''restart_gateway'', ''check_gateway''}
      then Some (''gateway_status'', [''running''])
      else if kind = ''stop_gateway'' then Some (''gateway_status'', [''stopped''])
      else if kind = ''read_gateway_log'' then Some (''gateway_status'', [''log_available''])
      else None)"

definition status_tells :: "string \<Rightarrow> string list \<Rightarrow> string \<times> json \<Rightarrow> bool" where
  "status_tells k goods a \<longleftrightarrow>
     (\<exists>s. get_str (snd a) k = Some s \<and> fst a = verdict (s \<in> set goods))"

lemma status_tells_verdict:
  "get_str j k = Some s \<Longrightarrow> b = (s \<in> set goods) \<Longrightarrow> status_tells k goods (verdict b, j)"
  by (auto simp: status_tells_def)

lemma status_members:
  "get_str (cleanup_json c) ''cleanup_status'' = Some (cx_cleanup_status c)"
  "get_str (log_json l) ''log_status'' = Some (lr_log_status l)"
  "get_str (gateway_json g) ''gateway_status'' = Some (gr_gateway_status g)"
  by (simp_all add: cleanup_json_def log_json_def gateway_json_def get_str_def)

lemma status_of_instance: "instance_outcome g o' = (Some a, m', es) \<Longrightarrow> status_tells ''instance_status'' [g] a"
  by (auto simp: instance_outcome_def split: prod.splits intro: status_tells_verdict)

lemma status_of_gateway: "gateway_task_outcome g o' = (Some a, m', es) \<Longrightarrow> status_tells ''gateway_status'' [g] a"
  by (auto simp: gateway_task_outcome_def split: prod.splits intro: status_tells_verdict status_members)

lemma status_of_log: "log_outcome l m es0 = (Some a, m', es) \<Longrightarrow> status_tells ''log_status'' [''available''] a"
  by (auto simp: log_outcome_def intro: status_tells_verdict status_members)

lemma run_task_status:
  assumes "run_task x h policy allowed kind payload m = (Some a, m', es)" and "success_rule kind = Some (k, goods)"
  shows "status_tells k goods a"
proof -
  have "kind \<notin> set task_kinds \<Longrightarrow> success_rule kind = None"
    by (simp add: success_rule_def task_kinds_def)
  with assms(2) have "kind \<in> set task_kinds" by auto
  let ?P = "\<lambda>kd. \<forall>a m' es k goods. run_task x h policy allowed kd payload m = (Some a, m', es) \<longrightarrow>
    success_rule kd = Some (k, goods) \<longrightarrow> status_tells k goods a"
  have all: "\<forall>kd \<in> set task_kinds. ?P kd"
  proof (rule task_kinds_all; intro allI impI; simp only: run_task_kinds)
    fix a m' es k goods
    show "verify_outcome h payload m = (Some a, m', es) \<Longrightarrow> success_rule ''verify_model_file'' = Some (k, goods) \<Longrightarrow> status_tells k goods a"
      by (auto simp: verify_outcome_def Let_def success_rule_def intro!: status_tells_verdict)
    show "cleanup_outcome h allowed payload m = (Some a, m', es) \<Longrightarrow> success_rule ''cleanup_model_file'' = Some (k, goods) \<Longrightarrow> status_tells k goods a"
      by (auto simp: cleanup_outcome_def success_rule_def split: prod.splits intro!: status_tells_verdict status_members)
    show "agent_log_outcome h policy payload m = (Some a, m', es) \<Longrightarrow> success_rule ''read_agent_log'' = Some (k, goods) \<Longrightarrow> status_tells k goods a"
      unfolding agent_log_outcome_def by (drule status_of_log) (simp add: success_rule_def)
    show "runtime_outcome h payload m = (Some a, m', es) \<Longrightarrow> success_rule ''check_runtime_environment'' = Some (k, goods) \<Longrightarrow> status_tells k goods a"
      by (auto simp: runtime_outcome_def success_rule_def split: prod.splits intro!: status_tells_verdict)
    show "instance_outcome ''running'' (start_model_instance_with_store x h payload m) = (Some a, m', es) \<Longrightarrow>
        success_rule ''start_model_instance'' = Some (k, goods) \<Longrightarrow> status_tells k goods a"
      by (drule status_of_instance) (simp add: success_rule_def)
    show "instance_outcome ''stopped'' (if unwrap_or (get_str payload ''backend'') [] = ''ollama''
          then with_mem m (stop_ollama_instance x h payload) else stop_model_instance_with_store x h payload m)
        = (Some a, m', es) \<Longrightarrow> success_rule ''stop_model_instance'' = Some (k, goods) \<Longrightarrow> status_tells k goods a"
      by (drule status_of_instance) (simp add: success_rule_def)
    show "instance_outcome ''running'' (with_mem m (if unwrap_or (get_str payload ''backend'') [] = ''ollama''
          then check_ollama_instance x h payload else agent_test_model_instance x h payload)) = (Some a, m', es) \<Longrightarrow>
        success_rule ''check_model_instance'' = Some (k, goods) \<Longrightarrow> status_tells k goods a"
      by (drule status_of_instance) (simp add: success_rule_def)
    show "instance_outcome ''running'' (with_mem m (if unwrap_or (get_str payload ''backend'') [] = ''ollama''
          then test_ollama_instance x h payload else agent_test_model_instance x h payload)) = (Some a, m', es) \<Longrightarrow>
        success_rule ''test_model_instance'' = Some (k, goods) \<Longrightarrow> status_tells k goods a"
      by (drule status_of_instance) (simp add: success_rule_def)
    show "(if unwrap_or (get_str payload ''backend'') [] = ''ollama''
          then log_outcome (Some (ollama_instance_log h payload)) m []
          else (case agent_read_instance_log h payload m of (r, es) \<Rightarrow> log_outcome r m es)) = (Some a, m', es) \<Longrightarrow>
        success_rule ''read_instance_log'' = Some (k, goods) \<Longrightarrow> status_tells k goods a"
      by (auto simp: success_rule_def split: if_splits prod.splits dest!: status_of_log)
    show "success_rule ''list_ollama_models'' = Some (k, goods) \<Longrightarrow> status_tells k goods a"
      by (simp add: success_rule_def)
    show "gateway_task_outcome ''running'' (start_gateway_task x h payload m) = (Some a, m', es) \<Longrightarrow>
        success_rule ''start_gateway'' = Some (k, goods) \<Longrightarrow> status_tells k goods a"
      by (drule status_of_gateway) (simp add: success_rule_def)
    show "gateway_task_outcome ''stopped'' (stop_gateway_task h m) = (Some a, m', es) \<Longrightarrow>
        success_rule ''stop_gateway'' = Some (k, goods) \<Longrightarrow> status_tells k goods a"
      by (drule status_of_gateway) (simp add: success_rule_def)
    show "gateway_task_outcome ''running'' (restart_gateway_task x h payload m) = (Some a, m', es) \<Longrightarrow>
        success_rule ''restart_gateway'' = Some (k, goods) \<Longrightarrow> status_tells k goods a"
      by (drule status_of_gateway) (simp add: success_rule_def)
    show "gateway_task_outcome ''running'' (check_gateway_task h m) = (Some a, m', es) \<Longrightarrow>
        success_rule ''check_gateway'' = Some (k, goods) \<Longrightarrow> status_tells k goods a"
      by (drule status_of_gateway) (simp add: success_rule_def)
    show "gateway_task_outcome ''log_available'' (read_gateway_log_task h payload m) = (Some a, m', es) \<Longrightarrow>
        success_rule ''read_gateway_log'' = Some (k, goods) \<Longrightarrow> status_tells k goods a"
      by (drule status_of_gateway) (simp add: success_rule_def)
  qed
  from bspec [OF all \<open>kind \<in> set task_kinds\<close>] have "?P kind" .
  with assms show ?thesis by blast
qed

end
