(* ===== verification/TaskReports.thy ===== *)
theory TaskReports
  imports TaskEffects Examples
begin

text \<open>
  From the agent to the server: what the rows of the server say after an agent has run a task and
  its report was recorded, and what the next heartbeat reports of a started instance. The end of
  the theory is a concrete node for the witnesses.
\<close>

section \<open>Reports at the server\<close>

definition report_of_task :: "string \<Rightarrow> string \<times> json \<Rightarrow> task_result_request" where
  "report_of_task node_id a = \<lparr>tq_node_id = node_id, tq_status = fst a, tq_result = snd a\<rparr>"

lemma verdict_accepted: "verdict b \<in> {''succeeded'', ''failed''}"
  by (simp add: verdict_def)

lemma verified_is_verdict:
  assumes "run_task x h policy allowed ''verify_model_file'' payload m = (Some a, m', es)"
  shows "a = (let r = verify_model_file_with_hint h (unwrap_or (get_str payload ''path'') []) (get_str payload ''path_type'')
    in (verdict (vr_file_status r = ''verified''), verify_json r)) \<and> m' = m \<and> es = []"
  using assms by (auto simp: run_task_kinds verify_outcome_def Let_def)

lemma verification_recorded:
  assumes run: "run_task x h policy allowed ''verify_model_file'' payload m = (Some a, m', es)"
    and t: "find (\<lambda>t. t_id t = tid \<and> t_node_id t = node_id) (agent_tasks d) = Some t"
      "t_kind t = ''verify_model_file''" "ext_jparse x (t_payload_json t) = Some payload"
    and fid: "get_str payload ''model_file_id'' = Some fid"
    and r: "r \<in> set (model_files d)" "mf_id r = fid"
    and hint: "plain_hint (get_str payload ''path_type'')"
  shows "\<exists>d' r'. record_agent_task_result x now tid (report_of_task node_id a) d = (Inr (), d')
    \<and> r' \<in> set (model_files d') \<and> mf_id r' = fid
    \<and> (let path = unwrap_or (get_str payload ''path'') []; v = verify_model_file_with_hint h path (get_str payload ''path_type'')
       in (mf_status r' = ''verified'' \<longleftrightarrow> vr_file_status v = ''verified'')
        \<and> mf_size_bytes r' = vr_size_bytes v
        \<and> (mf_last_error r' = (if vr_file_status v = ''verified'' then None else Some (vr_message v))))"
proof -
  let ?v = "verify_model_file_with_hint h (unwrap_or (get_str payload ''path'') []) (get_str payload ''path_type'')"
  let ?q = "report_of_task node_id a"
  from verified_is_verdict [OF run] have a: "a = (verdict (vr_file_status ?v = ''verified''), verify_json ?v)"
    by (simp add: Let_def)
  let ?d' = "set_file fid (file_after_result now ?q) (record_task_row x now tid ?q d)"
  have st: "tq_status ?q = ''succeeded'' \<or> tq_status ?q = ''failed''" and nid: "tq_node_id ?q = node_id"
    using a by (simp_all add: report_of_task_def verdict_def)
  have rec: "record_agent_task_result x now tid ?q d = (Inr (), ?d')"
    using t st nid fid by (auto simp: record_agent_task_result_def Let_def record_verify_result_def)
  have q: "tq_result ?q = verify_json ?v" using a by (simp add: report_of_task_def)
  have fs: "verify_file_status ?q = vr_file_status ?v"
    by (simp add: verify_file_status_def q)
  have sz: "get_i64 (verify_json ?v) ''size_bytes'' = vr_size_bytes ?v"
  proof (cases "vr_size_bytes ?v")
    case (Some n)
    from verified_size [OF Some] have "0 \<le> n" "n < 2 ^ 63" by auto
    then have "as_i64 (JInt n) = Some n" by simp
    with Some show ?thesis by (simp add: get_i64_verify)
  qed (simp add: get_i64_verify)
  let ?r' = "file_after_result now ?q r"
  have "?r' \<in> set (model_files ?d')"
    using r by (auto simp: set_file_def update_where_def record_task_row_def set_task_def)
  moreover have "mf_id ?r' = fid" using r(2) by (simp add: file_after_result_def)
  ultimately show ?thesis
    using rec
    by (intro exI [of _ ?d'] exI [of _ ?r'])
      (simp add: Let_def file_after_result_def fs sz q result_message_def)
qed

text \<open>A start: the instance row says what the agent saw.\<close>

lemma start_recorded:
  assumes run: "run_task x h policy allowed ''start_model_instance'' payload m = (Some a, m', es)"
    and res: "start_model_instance_with_store x h payload m = (r, m', es)"
    and t: "find (\<lambda>t. t_id t = tid \<and> t_node_id t = node_id) (agent_tasks d) = Some t"
      "t_kind t = ''start_model_instance''" "ext_jparse x (t_payload_json t) = Some payload"
    and iid: "get_str payload ''instance_id'' = Some iid"
    and row: "row \<in> set (model_instances d)" "mi_id row = iid"
  shows "\<exists>d' row'. record_agent_task_result x now tid (report_of_task node_id a) d = (Inr (), d')
    \<and> row' \<in> set (model_instances d') \<and> mi_id row' = iid
    \<and> mi_status row' = it_instance_status r
    \<and> mi_base_url row' = coalesce (it_base_url r) (mi_base_url row)
    \<and> mi_process_ref row' = coalesce (it_process_ref r) (mi_process_ref row)
    \<and> mi_last_error row' = Some (it_message r)"
proof -
  let ?q = "report_of_task node_id a"
  have a: "a = (verdict (it_instance_status r = ''running''), instance_json r)"
    using run res by (simp add: run_task_kinds instance_outcome_def)
  let ?d' = "set_instance iid (instance_after_result now (t_kind t) ?q) (record_task_row x now tid ?q d)"
  have st: "tq_status ?q = ''succeeded'' \<or> tq_status ?q = ''failed''" and nid: "tq_node_id ?q = node_id"
    and q: "tq_result ?q = instance_json r"
    using a by (simp_all add: report_of_task_def verdict_def)
  have rec: "record_agent_task_result x now tid ?q d = (Inr (), ?d')"
    using t st nid iid by (auto simp: record_agent_task_result_def Let_def record_instance_result_def instance_kinds_def)
  let ?r' = "instance_after_result now (t_kind t) ?q row"
  have "?r' \<in> set (model_instances ?d')"
    using row by (auto simp: set_instance_def update_where_def record_task_row_def set_task_def)
  moreover have "mi_id ?r' = iid" using row(2) by (simp add: instance_after_result_def Let_def)
  ultimately show ?thesis
    using rec t(2)
    by (intro exI [of _ ?d'] exI [of _ ?r'])
      (simp add: instance_after_result_def Let_def q instance_next_status_def instance_last_error_def
        result_message_def)
qed

section \<open>Heartbeats after a start\<close>

text \<open>As long as the process lives, every heartbeat of the agent reports the instance as running.\<close>

lemma started_is_reported:
  assumes "managed_after h i r m m'" and "am_store m = Some (Inr rs)" and "it_process_id r = Some pid"
    and "process_start_time hst pid = Some t" and "process_start_time (ah_processes h) pid \<in> {None, Some t}"
  shows "\<exists>p \<in> set (fst (store_reports hst (am_store m'))). rp_instance_id p = i \<and> rp_status p = ''running''
    \<and> rp_process_id p = Some pid"
proof -
  from managed_after_store [OF assms(1,3,2)] obtain q where
    q: "am_store m' = Some (Inr (upsert_record q rs))" "find_record i (upsert_record q rs) = Some q"
      "pr_deploy_type q = Some ''local''" "pr_process_id q = pid"
      "pr_process_start_time q = process_start_time (ah_processes h) pid" by blast
  have iq: "pr_instance_id q = i" using q(2) by (auto simp: find_record_def find_Some_iff)
  have "pc_is_running (check_process hst q)"
    using q(3-5) assms(4,5) by (auto simp: check_process_def)
  then have "rp_instance_id (report_of hst q) = i \<and> rp_status (report_of hst q) = ''running''
      \<and> rp_process_id (report_of hst q) = Some pid"
    using iq q(4) by (simp add: report_of_def Let_def)
  moreover have "report_of hst q \<in> set (fst (store_reports hst (am_store m')))"
    using q(1) by (simp add: store_reports_def reports_def upsert_record_def)
  ultimately show ?thesis by blast
qed

section \<open>A node for the witnesses\<close>

definition ex_node_host :: host where
  "ex_node_host = \<lparr>ho_stat = (\<lambda>pid. if pid = 42 then Some ''42 (l) S 1 2 3 4 5 6 7 8 9 10 11 12 13 14 15 16 17 18 99'' else None),
     ho_docker_check = (\<lambda>_. \<lparr>pc_is_running = False, pc_message = []\<rparr>), ho_kill = (\<lambda>_. None),
     ho_docker_stop = (\<lambda>_. None)\<rparr>"

definition ex_node_gateway :: gateway_host where
  "ex_node_gateway = \<lparr>gh_host = ex_node_host, gh_host_after = ex_node_host, gh_prepare = (\<lambda>_. None), gh_open_log = None,
     gh_spawn = Inr (Some 42), gh_save = None, gh_remove = True, gh_http = (\<lambda>_. Replied 200 ''200 OK''),
     gh_read_log = (\<lambda>_. None)\<rparr>"

definition ex_meta :: "string \<Rightarrow> io_error + file_meta" where
  "ex_meta p =
     (if p = ''/bin/l'' then Inr \<lparr>fm_kind = RegularFile, fm_len = 9, fm_mode = 493\<rparr>
      else if p = ''/m/q'' then Inr \<lparr>fm_kind = RegularFile, fm_len = 7, fm_mode = 420\<rparr>
      else if p = ''/m'' then Inr \<lparr>fm_kind = Directory, fm_len = 0, fm_mode = 493\<rparr>
      else Inl \<lparr>ie_not_found = True, ie_text = ''no such file''\<rparr>)"

definition ex_agent :: agent_host where
  "ex_agent = \<lparr>ah_lossy = (\<lambda>s. s), ah_meta = ex_meta, ah_canonical = (\<lambda>p. Inr (p, p = ''/m'')),
     ah_remove = (\<lambda>_. None), ah_read = (\<lambda>_. Inl \<lparr>ie_not_found = True, ie_text = []\<rparr>),
     ah_read_text = (\<lambda>_. Inr ''log''), ah_create_dir = (\<lambda>_. None), ah_run = (\<lambda>_ _. TimedOut),
     ah_client = None, ah_http = (\<lambda>k _ _. if k < 2 then NoResponse ''refused'' else Response 200 ''200 OK'' (Inr [])),
     ah_bind = (\<lambda>_. None), ah_spawn = (\<lambda>_ _. Inr (Some 42)), ah_child = (\<lambda>_. Alive),
     ah_output = (\<lambda>_. [(''stdout'', ''ready'')]), ah_kill_child = None, ah_daemon = (\<lambda>_. Alive),
     ah_store_save = None, ah_json_error = (\<lambda>_. []), ah_processes = ex_node_host, ah_gateway = ex_node_gateway,
     ah_gateway_after = ex_node_gateway, ah_log_dir = None, ah_clock = 1000, ah_elapsed = 5,
     ah_delay = (\<lambda>_. 10)\<rparr>"

definition ex_mem :: agent_mem where
  "ex_mem = \<lparr>am_registry = (\<lambda>_. None), am_daemons = (\<lambda>_. None), am_store = Some (Inr []),
     am_gateway = Some (''gw.json'', Inr None), am_logs = (\<lambda>_. None)\<rparr>"

definition ex_start :: json where
  "ex_start = JObj [(''instance_id'', JStr ''i1''), (''backend'', JStr ''llama_cpp''), (''deploy_type'', JStr ''binary''),
     (''model_path'', JStr ''/m/q''), (''binary_path'', JStr ''/bin/l'')]"

definition ex_verify :: json where
  "ex_verify = JObj [(''model_file_id'', JStr ''f1''), (''path'', JStr ''/m/q'')]"

definition is_running_result :: "instance_result \<times> agent_mem \<times> agent_effect list \<Rightarrow> bool" where
  "is_running_result o' \<longleftrightarrow> it_instance_status (fst o') = ''running''"

lemma ex_start_runs:
  "is_running_result (start_local_instance demo_ext ex_agent ex_start ''i1'' ''llama_cpp'' ''binary'' ex_mem)
   \<and> it_process_id (fst (start_local_instance demo_ext ex_agent ex_start ''i1'' ''llama_cpp'' ''binary'' ex_mem)) = Some 42"
  by code_simp

end
