(* ===== verification/ServerConfig.thy ===== *)
theory ServerConfig
  imports Users Policy
begin

text \<open>
  The configuration file of the server (\<^verbatim>\<open>server/src/config.rs\<close>). What the TOML library makes of the text
  (the sections with their optional members, or an error) is the record \<open>file_config\<close>; which files
  there are, and the environment, are arguments.
\<close>

section \<open>Records\<close>

record https_config =
  hs_listen_addr :: string
  hs_cert_path :: string
  hs_key_path :: string

record http_config =
  hp_enabled :: bool
  hp_listen_addr :: string

record server_config =
  sc_https :: "https_config option"
  sc_http :: http_config
  sc_database_url :: string
  sc_web_dist_dir :: "string option"
  sc_setup_token :: "string option"
  sc_metrics_retention_days :: nat
  sc_cleanup_interval_hours :: nat
  sc_password_policy :: password_policy
  sc_session_policy :: session_policy
  sc_log_policy :: log_policy

record server_section = sv_listen_addr :: "string option"

record database_section = da_url :: "string option"

record web_section = we_dist_dir :: "string option"

record metrics_section =
  me_retention_days :: "nat option"
  me_cleanup_interval_hours :: "nat option"

record password_section =
  pw_min_length :: "nat option"
  pw_complexity_required :: "bool option"
  pw_expires_days :: "int option"
  pw_force_change_after_reset :: "bool option"

record session_section =
  se_ttl_secs :: "int option"
  se_idle_timeout_secs :: "int option"
  se_secure_cookie :: "bool option"

record auth_section =
  at_password :: "password_section option"
  at_session :: "session_section option"

record logs_section =
  lo_dir :: "string option"
  lo_level :: "string option"
  lo_max_file_bytes :: "int option"
  lo_retention_files :: "int option"
  lo_retention_days :: "int option"

record file_config =
  fc_server :: "server_section option"
  fc_database :: "database_section option"
  fc_web :: "web_section option"
  fc_metrics :: "metrics_section option"
  fc_auth :: "auth_section option"
  fc_logs :: "logs_section option"
  fc_https :: "https_config option"
  fc_http :: "http_config option"
  fc_setup_token :: "string option"

definition default_server_config :: server_config where
  "default_server_config =
     \<lparr>sc_https = None, sc_http = \<lparr>hp_enabled = False, hp_listen_addr = ''127.0.0.1:18080''\<rparr>,
      sc_database_url = ''sqlite://./data/lightai.db'', sc_web_dist_dir = None, sc_setup_token = None,
      sc_metrics_retention_days = 7, sc_cleanup_interval_hours = 6,
      sc_password_policy = default_password_policy, sc_session_policy = default_session_policy,
      sc_log_policy = default_log_policy\<rparr>"

section \<open>From the file to the configuration\<close>

text \<open>\<open>if let Some(value) = field { .. }\<close>.\<close>

definition given :: "'v option \<Rightarrow> ('v \<Rightarrow> 'c \<Rightarrow> 'c) \<Rightarrow> 'c \<Rightarrow> 'c" where
  "given v f c = (case v of None \<Rightarrow> c | Some a \<Rightarrow> f a c)"

definition listener_sections :: "file_config \<Rightarrow> server_config \<Rightarrow> server_config" where
  "listener_sections f c =
     given (Option.bind (fc_server f) sv_listen_addr)
       (\<lambda>addr c. if sc_https c = None then c\<lparr>sc_http := \<lparr>hp_enabled = True, hp_listen_addr = addr\<rparr>\<rparr> else c)
       (given (fc_http f) (\<lambda>h c. c\<lparr>sc_http := h\<rparr>)
         (given (fc_https f) (\<lambda>h c. c\<lparr>sc_https := Some h\<rparr>) c))"

definition deprecation_warning :: "file_config \<Rightarrow> string list" where
  "deprecation_warning f =
     (case Option.bind (fc_server f) sv_listen_addr of
        None \<Rightarrow> []
      | Some _ \<Rightarrow> [''warning: [server].listen_addr is deprecated; use [https] and [http] instead''])"

definition storage_sections :: "file_config \<Rightarrow> server_config \<Rightarrow> server_config" where
  "storage_sections f c =
     (given (Option.bind (fc_web f) we_dist_dir) (\<lambda>v c. if blank v then c else c\<lparr>sc_web_dist_dir := Some v\<rparr>)
       (given (Option.bind (fc_database f) da_url) (\<lambda>v c. c\<lparr>sc_database_url := v\<rparr>) c))
     \<lparr>sc_setup_token := fc_setup_token f\<rparr>"

definition metrics_error :: "metrics_section \<Rightarrow> string option" where
  "metrics_error s = first_error [
     if me_retention_days s = Some 0 then Some ''metrics.retention_days must be at least 1'' else None,
     if me_cleanup_interval_hours s = Some 0 then Some ''metrics.cleanup_interval_hours must be at least 1'' else None]"

definition metrics_members :: "metrics_section \<Rightarrow> server_config \<Rightarrow> server_config" where
  "metrics_members s c =
     given (me_cleanup_interval_hours s) (\<lambda>v c. c\<lparr>sc_cleanup_interval_hours := v\<rparr>)
       (given (me_retention_days s) (\<lambda>v c. c\<lparr>sc_metrics_retention_days := v\<rparr>) c)"

text \<open>Zero days and a zero time-out mean none.\<close>

definition zero_is_none :: "int \<Rightarrow> int option" where
  "zero_is_none v = (if v = 0 then None else Some v)"

definition password_members :: "password_section \<Rightarrow> password_policy \<Rightarrow> password_policy" where
  "password_members s p =
     given (pw_force_change_after_reset s) (\<lambda>v p. p\<lparr>pp_force_change_after_reset := v\<rparr>)
       (given (pw_expires_days s) (\<lambda>v p. p\<lparr>pp_expires_days := zero_is_none v\<rparr>)
         (given (pw_complexity_required s) (\<lambda>v p. p\<lparr>pp_complexity_required := v\<rparr>)
           (given (pw_min_length s) (\<lambda>v p. p\<lparr>pp_min_length := v\<rparr>) p)))"

definition session_members :: "session_section \<Rightarrow> session_policy \<Rightarrow> session_policy" where
  "session_members s p =
     given (se_secure_cookie s) (\<lambda>v p. p\<lparr>sp_secure_cookie := v\<rparr>)
       (given (se_idle_timeout_secs s) (\<lambda>v p. p\<lparr>sp_idle_timeout_secs := zero_is_none v\<rparr>)
         (given (se_ttl_secs s) (\<lambda>v p. p\<lparr>sp_ttl_secs := v\<rparr>) p))"

definition auth_members :: "auth_section \<Rightarrow> server_config \<Rightarrow> server_config" where
  "auth_members s c =
     given (at_session s) (\<lambda>v c. c\<lparr>sc_session_policy := session_members v (sc_session_policy c)\<rparr>)
       (given (at_password s) (\<lambda>v c. c\<lparr>sc_password_policy := password_members v (sc_password_policy c)\<rparr>) c)"

definition logs_members :: "logs_section \<Rightarrow> log_policy \<Rightarrow> log_policy" where
  "logs_members s p =
     given (lo_retention_days s) (\<lambda>v p. p\<lparr>lp_log_retention_days := v\<rparr>)
       (given (lo_retention_files s) (\<lambda>v p. p\<lparr>lp_log_retention_files := v\<rparr>)
         (given (lo_max_file_bytes s) (\<lambda>v p. p\<lparr>lp_log_max_file_bytes := v\<rparr>)
           (given (lo_level s) (\<lambda>v p. p\<lparr>lp_log_level := v\<rparr>)
             (given (lo_dir s) (\<lambda>v p. p\<lparr>lp_log_dir := v\<rparr>) p))))"

text \<open>The log policy is checked only if the file has a section for it.\<close>

definition config_of_file :: "file_config \<Rightarrow> string + server_config" where
  "config_of_file f =
     (let c1 = storage_sections f (listener_sections f default_server_config) in
      case Option.bind (fc_metrics f) metrics_error of
        Some e \<Rightarrow> Inl e
      | None \<Rightarrow>
          (let c2 = given (fc_auth f) auth_members (given (fc_metrics f) metrics_members c1) in
           case fc_logs f of
             None \<Rightarrow> Inr c2
           | Some s \<Rightarrow>
               (let p = logs_members s (sc_log_policy c2) in
                case validate_log_policy p of
                  Some e \<Rightarrow> Inl e
                | None \<Rightarrow> Inr (c2\<lparr>sc_log_policy := p\<rparr>))))"

section \<open>Loading\<close>

text \<open>The files by name: the error of reading one, or what the TOML library says about its text.\<close>

record config_host =
  ch_read :: "string \<Rightarrow> string + string"
  ch_toml :: "string \<Rightarrow> string + file_config"
  ch_is_file :: "string \<Rightarrow> bool"
  ch_env :: "string \<Rightarrow> string option"

definition DEFAULT_SERVER_CONFIG_PATH :: string where
  "DEFAULT_SERVER_CONFIG_PATH = ''/etc/lightai/lightai-server.toml''"

definition server_config_from_file :: "config_host \<Rightarrow> string \<Rightarrow> string + server_config" where
  "server_config_from_file h path =
     (case ch_read h path of
        Inl e \<Rightarrow> Inl e
      | Inr content \<Rightarrow> (case ch_toml h content of Inl e \<Rightarrow> Inl e | Inr f \<Rightarrow> config_of_file f))"

definition env_config_path :: "config_host \<Rightarrow> string \<Rightarrow> string option" where
  "env_config_path h name = Option.bind (ch_env h name) (\<lambda>p. if blank p then None else Some p)"

definition load_default_config :: "config_host \<Rightarrow> string + server_config" where
  "load_default_config h =
     (case env_config_path h ''LIGHTAI_SERVER_CONFIG'' of
        Some p \<Rightarrow> server_config_from_file h p
      | None \<Rightarrow>
          if ch_is_file h DEFAULT_SERVER_CONFIG_PATH then server_config_from_file h DEFAULT_SERVER_CONFIG_PATH
          else Inr default_server_config)"

definition load_server_config :: "config_host \<Rightarrow> string option \<Rightarrow> string + server_config" where
  "load_server_config h explicit =
     (case explicit of
        Some p \<Rightarrow> if p = [] then Inl ''--config requires a non-empty path'' else server_config_from_file h p
      | None \<Rightarrow> load_default_config h)"

definition validate_auth :: "server_config \<Rightarrow> string option" where
  "validate_auth c = first_error [
     if pp_min_length (sc_password_policy c) < 8 then Some ''password min_length must be at least 8'' else None,
     if sp_ttl_secs (sc_session_policy c) < 300 then Some ''session ttl_secs must be at least 300'' else None]"

definition has_listener :: "server_config \<Rightarrow> bool" where
  "has_listener c \<longleftrightarrow> sc_https c \<noteq> None \<or> hp_enabled (sc_http c)"

section \<open>Facts\<close>

named_theorems config_simps

lemma given_simps [config_simps]: "given None f c = c" "given (Some v) f c = f v c"
  by (simp_all add: given_def)

text \<open>\<open>P\<close> survives an optional assignment if the assignment keeps it.\<close>

lemma given_keeps: "P c \<Longrightarrow> (\<And>v. P (f v c)) \<Longrightarrow> P (given v f c)"
  by (simp add: given_def split: option.split)

lemma listener_frame:
  "sc_metrics_retention_days (listener_sections f c) = sc_metrics_retention_days c"
  "sc_cleanup_interval_hours (listener_sections f c) = sc_cleanup_interval_hours c"
  "sc_log_policy (listener_sections f c) = sc_log_policy c"
  by (simp_all add: listener_sections_def given_def split: option.split)

lemma storage_frame:
  "sc_metrics_retention_days (storage_sections f c) = sc_metrics_retention_days c"
  "sc_cleanup_interval_hours (storage_sections f c) = sc_cleanup_interval_hours c"
  "sc_log_policy (storage_sections f c) = sc_log_policy c"
  "sc_https (storage_sections f c) = sc_https c" "sc_http (storage_sections f c) = sc_http c"
  by (simp_all add: storage_sections_def given_def split: option.split)

lemma auth_frame:
  "sc_metrics_retention_days (given a auth_members c) = sc_metrics_retention_days c"
  "sc_cleanup_interval_hours (given a auth_members c) = sc_cleanup_interval_hours c"
  "sc_log_policy (given a auth_members c) = sc_log_policy c"
  "sc_https (given a auth_members c) = sc_https c" "sc_http (given a auth_members c) = sc_http c"
  by (simp_all add: auth_members_def given_def split: option.split)

lemma metrics_frame:
  "sc_log_policy (given m metrics_members c) = sc_log_policy c"
  "sc_https (given m metrics_members c) = sc_https c" "sc_http (given m metrics_members c) = sc_http c"
  by (simp_all add: metrics_members_def given_def split: option.split)

lemma default_log_policy_valid: "validate_log_policy default_log_policy = None"
  by code_simp

definition sound_config :: "server_config \<Rightarrow> bool" where
  "sound_config c \<longleftrightarrow> 1 \<le> sc_metrics_retention_days c \<and> 1 \<le> sc_cleanup_interval_hours c
     \<and> validate_log_policy (sc_log_policy c) = None"

lemma metrics_sound:
  assumes "Option.bind m metrics_error = None" and "1 \<le> sc_metrics_retention_days c" and "1 \<le> sc_cleanup_interval_hours c"
  shows "1 \<le> sc_metrics_retention_days (given m metrics_members c) \<and> 1 \<le> sc_cleanup_interval_hours (given m metrics_members c)"
  using assms
  by (auto simp: given_def metrics_members_def metrics_error_def first_error_None split: option.splits if_splits)

lemma default_config_sound: "sound_config default_server_config"
  by (simp add: sound_config_def default_server_config_def default_log_policy_valid)

text \<open>Whatever the file says, a configuration that loads keeps these bounds.\<close>

lemma config_of_file_sound:
  assumes "config_of_file f = Inr c"
  shows "sound_config c"
proof -
  let ?c1 = "storage_sections f (listener_sections f default_server_config)"
  let ?c2 = "given (fc_auth f) auth_members (given (fc_metrics f) metrics_members ?c1)"
  have ok: "Option.bind (fc_metrics f) metrics_error = None"
    using assms by (auto simp: config_of_file_def Let_def split: option.splits)
  have "1 \<le> sc_metrics_retention_days ?c2 \<and> 1 \<le> sc_cleanup_interval_hours ?c2"
    unfolding auth_frame
    by (rule metrics_sound [OF ok]) (simp_all add: storage_frame listener_frame default_server_config_def)
  moreover have "sc_log_policy ?c2 = default_log_policy"
    by (simp add: auth_frame metrics_frame storage_frame listener_frame default_server_config_def)
  ultimately show ?thesis
    using assms ok by (auto simp: config_of_file_def Let_def sound_config_def default_log_policy_valid split: option.splits)
qed

lemma load_sound: "load_server_config h explicit = Inr c \<Longrightarrow> sound_config c"
  by (auto simp: load_server_config_def load_default_config_def server_config_from_file_def default_config_sound
      split: option.splits if_splits sum.splits dest: config_of_file_sound)

text \<open>The built-in defaults have no listener, so a server without a configuration file never starts.\<close>

lemma defaults_do_not_listen: "\<not> has_listener default_server_config"
  by (simp add: has_listener_def default_server_config_def)

end
