(* ===== verification/CollectorRegistration.thy ===== *)
theory CollectorRegistration
  imports AuditLog Collectors AgentHost
begin

text \<open>
  The collector commands of the server (\<^verbatim>\<open>server/src/collector_cli.rs\<close>): reading a collector
  directory, registering one, registering all below a root, inspecting; and the inspection of the
  agent (\<^verbatim>\<open>agent/src/collector/inspect.rs\<close>). A directory is given by what the code reads of it: the outcome
  of reading and deserializing its \<^verbatim>\<open>collector.toml\<close> (\<open>None\<close> when there is no such file) and its files.
\<close>

section \<open>Directories\<close>

record cli_manifest =
  cm_id :: string
  cm_vendor :: string
  cm_name :: string
  cm_version :: string
  cm_description :: string
  cm_discover :: string
  cm_metrics :: string

record registry_dir =
  gd_path :: string
  gd_is_dir :: bool
  gd_manifest :: "(string + cli_manifest) option"
  gd_files :: "string \<Rightarrow> file_read option"

definition check_cli_manifest :: "cli_manifest \<Rightarrow> string option" where
  "check_cli_manifest m = first_error [
     if cm_id m = [] then Some ''id must not be empty'' else None,
     if cm_discover m = [] then Some ''discover must not be empty'' else None,
     if cm_metrics m = [] then Some ''metrics must not be empty'' else None,
     if is_path (cm_discover m) then Some ''discover must be a filename, not a path'' else None,
     if is_path (cm_metrics m) then Some ''metrics must be a filename, not a path'' else None]"

definition read_manifest :: "registry_dir \<Rightarrow> string + cli_manifest" where
  "read_manifest e =
     (case gd_manifest e of
        None \<Rightarrow> Inl (''collector.toml not found in '' @ gd_path e)
      | Some (Inl err) \<Rightarrow> Inl err
      | Some (Inr m) \<Rightarrow> (case check_cli_manifest m of Some err \<Rightarrow> Inl err | None \<Rightarrow> Inr m))"

text \<open>The text that says that a script is not there.\<close>

definition missing_script :: "registry_dir \<Rightarrow> string \<Rightarrow> string \<Rightarrow> string" where
  "missing_script e kind name = kind @ '' script not found: '' @ path_join (gd_path e) name"

section \<open>Registration\<close>

datatype register_outcome =
    Registered string string string string
  | Updated string string string string
  | Skipped string string

definition cli_entry :: "int \<Rightarrow> cli_manifest \<Rightarrow> string \<Rightarrow> string \<Rightarrow> collector_row" where
  "cli_entry now m h1 h2 =
     \<lparr>cr_id = cm_id m, cr_version = cm_version m, cr_vendor = cm_vendor m, cr_name = cm_name m,
      cr_description = cm_description m, cr_discover_sha256 = h1, cr_metrics_sha256 = h2,
      cr_enabled = True, cr_created_at = now, cr_updated_at = now\<rparr>"

text \<open>The upsert: an entry that exists keeps its creation time and whether it is enabled.\<close>

definition cli_upsert :: "int \<Rightarrow> cli_manifest \<Rightarrow> string \<Rightarrow> string \<Rightarrow> db \<Rightarrow> db" where
  "cli_upsert now m h1 h2 d =
     d\<lparr>collector_registry := upsert_row (registry_key (cm_id m) (cm_version m))
         (\<lambda>r. (cli_entry now m h1 h2)\<lparr>cr_created_at := cr_created_at r, cr_enabled := cr_enabled r\<rparr>)
         (cli_entry now m h1 h2) (collector_registry d)\<rparr>"

definition register_one ::
  "(string \<Rightarrow> string) \<Rightarrow> int \<Rightarrow> registry_dir \<Rightarrow> db \<Rightarrow> (string + register_outcome) \<times> db" where
  "register_one sha now e d =
     (case read_manifest e of
        Inl err \<Rightarrow> (Inl err, d)
      | Inr m \<Rightarrow>
     (case gd_files e (cm_discover m) of
        None \<Rightarrow> (Inr (Skipped (gd_path e) (missing_script e ''discover'' (cm_discover m))), d)
      | Some discover \<Rightarrow>
     (case gd_files e (cm_metrics m) of
        None \<Rightarrow> (Inr (Skipped (gd_path e) (missing_script e ''metrics'' (cm_metrics m))), d)
      | Some metrics \<Rightarrow>
     (case discover of
        Inl err \<Rightarrow> (Inl err, d)
      | Inr b1 \<Rightarrow>
     (case metrics of
        Inl err \<Rightarrow> (Inl err, d)
      | Inr b2 \<Rightarrow>
          (let is_new = (find_row (registry_key (cm_id m) (cm_version m)) (collector_registry d) = None)
           in (Inr (if is_new then Registered (cm_id m) (cm_version m) (sha b1) (sha b2)
                    else Updated (cm_id m) (cm_version m) (sha b1) (sha b2)),
               cli_upsert now m (sha b1) (sha b2) d)))))))"

definition cli_skipped_name :: "string \<Rightarrow> bool" where
  "cli_skipped_name n \<longleftrightarrow> starts_with n ''.'' \<or> ends_with n ''~'' \<or> ends_with n ''.tmp''"

definition cli_candidate :: "registry_dir \<Rightarrow> bool" where
  "cli_candidate e \<longleftrightarrow> gd_is_dir e \<and> \<not> cli_skipped_name (file_name (gd_path e))"

definition sync_dir ::
  "(string \<Rightarrow> string) \<Rightarrow> int \<Rightarrow> registry_dir \<Rightarrow> db \<Rightarrow> register_outcome \<times> db" where
  "sync_dir sha now e d =
     (if gd_manifest e = None then (Skipped (gd_path e) ''missing collector.toml'', d)
      else case register_one sha now e d of
        (Inr out, d') \<Rightarrow> (out, d')
      | (Inl err, d') \<Rightarrow> (Skipped (gd_path e) err, d'))"

fun sync_dirs ::
  "(string \<Rightarrow> string) \<Rightarrow> int \<Rightarrow> registry_dir list \<Rightarrow> db \<Rightarrow> register_outcome list \<times> db" where
  "sync_dirs sha now [] d = ([], d)"
| "sync_dirs sha now (e # es) d =
     (if \<not> cli_candidate e then sync_dirs sha now es d
      else (case sync_dir sha now e d of (out, d1) \<Rightarrow>
             (case sync_dirs sha now es d1 of (outs, d2) \<Rightarrow> (out # outs, d2))))"

definition sync_root ::
  "(string \<Rightarrow> string) \<Rightarrow> int \<Rightarrow> string \<Rightarrow> string + registry_dir list \<Rightarrow> db
   \<Rightarrow> (string + register_outcome list) \<times> db" where
  "sync_root sha now root entries d =
     (case entries of
        Inl err \<Rightarrow> (Inl (''cannot read collector root '' @ root @ '': '' @ err), d)
      | Inr es \<Rightarrow> (case sync_dirs sha now es d of (outs, d') \<Rightarrow> (Inr outs, d')))"

section \<open>Inspection\<close>

record inspect_result =
  iq_id :: string
  iq_vendor :: string
  iq_name :: string
  iq_version :: string
  iq_description :: string
  iq_discover_sha256 :: string
  iq_metrics_sha256 :: string
  iq_enabled :: bool

definition inspect_one :: "(string \<Rightarrow> string) \<Rightarrow> registry_dir \<Rightarrow> string + inspect_result" where
  "inspect_one sha e =
     (case read_manifest e of
        Inl err \<Rightarrow> Inl err
      | Inr m \<Rightarrow>
     (case gd_files e (cm_discover m) of
        None \<Rightarrow> Inl (missing_script e ''discover'' (cm_discover m))
      | Some discover \<Rightarrow>
     (case gd_files e (cm_metrics m) of
        None \<Rightarrow> Inl (missing_script e ''metrics'' (cm_metrics m))
      | Some metrics \<Rightarrow>
     (case discover of
        Inl err \<Rightarrow> Inl err
      | Inr b1 \<Rightarrow>
     (case metrics of
        Inl err \<Rightarrow> Inl err
      | Inr b2 \<Rightarrow>
          Inr \<lparr>iq_id = cm_id m, iq_vendor = cm_vendor m, iq_name = cm_name m, iq_version = cm_version m,
               iq_description = cm_description m, iq_discover_sha256 = sha b1, iq_metrics_sha256 = sha b2,
               iq_enabled = True\<rparr>)))))"

text \<open>The results, and the directories passed over with their errors.\<close>

definition inspect_candidate :: "registry_dir \<Rightarrow> bool" where
  "inspect_candidate e \<longleftrightarrow> cli_candidate e \<and> gd_manifest e \<noteq> None"

fun inspect_dirs :: "(string \<Rightarrow> string) \<Rightarrow> registry_dir list \<Rightarrow> inspect_result list \<times> string list" where
  "inspect_dirs sha [] = ([], [])"
| "inspect_dirs sha (e # es) =
     (case inspect_dirs sha es of (rs, skipped) \<Rightarrow>
        if \<not> inspect_candidate e then (rs, skipped)
        else case inspect_one sha e of
          Inr r \<Rightarrow> (r # rs, skipped)
        | Inl err \<Rightarrow> (rs, (''skipped '' @ gd_path e @ '': '' @ err) # skipped))"

definition inspect_root ::
  "(string \<Rightarrow> string) \<Rightarrow> string \<Rightarrow> string + registry_dir list \<Rightarrow> string + inspect_result list \<times> string list" where
  "inspect_root sha root entries =
     (case entries of
        Inl err \<Rightarrow> Inl (''cannot read '' @ root @ '': '' @ err)
      | Inr es \<Rightarrow> Inr (inspect_dirs sha es))"

section \<open>Inspection at the agent\<close>

text \<open>
  \<open>agent_inspect\<close> reads the directory as the agent does, and looks at the permissions of the scripts and of
  the directory (\<open>symlink_metadata\<close> is an argument). Bit 1 of the mode: writable by everyone.
\<close>

unbundle bit_operations_syntax

record agent_inspection =
  ix_manifest :: manifest
  ix_discover_sha256 :: string
  ix_metrics_sha256 :: string
  ix_warnings :: "string list"

definition world_writable :: "file_meta \<Rightarrow> bool" where
  "world_writable m \<longleftrightarrow> fm_mode m AND 2 \<noteq> 0"

definition check_file_permissions :: "(string \<Rightarrow> io_error + file_meta) \<Rightarrow> string \<Rightarrow> string option" where
  "check_file_permissions meta path =
     (case meta path of
        Inl e \<Rightarrow> Some (ie_text e)
      | Inr m \<Rightarrow>
          if fm_kind m = SymbolicLink then Some (path @ '' is a symlink, not allowed'')
          else if fm_kind m \<noteq> RegularFile then Some (path @ '' is not a regular file'')
          else if world_writable m then Some (path @ '' is world-writable, not allowed'')
          else None)"

definition hash_warning :: "string \<Rightarrow> string \<Rightarrow> string \<Rightarrow> string list" where
  "hash_warning field stated actual =
     (if stated \<noteq> [] \<and> stated \<noteq> actual
      then [''collector.toml: '' @ field @ '' mismatch '' @ em_dash @ '' toml has '' @ quoted stated
            @ '', actual is '' @ quoted actual @ ''. Update toml or re-run inspect.'']
      else [])"

definition script_absent :: "string \<Rightarrow> string \<Rightarrow> string \<Rightarrow> string" where
  "script_absent kind name dir = kind @ '' script '' @ quoted name @ '' not found in '' @ dir"

definition dir_writable :: "(string \<Rightarrow> io_error + file_meta) \<Rightarrow> string \<Rightarrow> string option" where
  "dir_writable meta dir =
     (case meta dir of
        Inl e \<Rightarrow> Some (ie_text e)
      | Inr m \<Rightarrow>
          if world_writable m then Some (''collector directory '' @ dir @ '' is world-writable, not allowed'')
          else None)"

definition agent_inspect ::
  "(string \<Rightarrow> string) \<Rightarrow> (string \<Rightarrow> io_error + file_meta) \<Rightarrow> dir_entry \<Rightarrow> string + agent_inspection" where
  "agent_inspect sha meta e =
     (if \<not> de_is_dir e then Inl (de_path e @ '' is not a directory'')
      else case de_manifest e of
        None \<Rightarrow> Inl (''collector.toml not found in '' @ de_path e)
      | Some raw \<Rightarrow>
     (case parse_manifest raw of
        Inl err \<Rightarrow> Inl err
      | Inr m \<Rightarrow>
     (case (de_files e (mf_c_discover m), de_files e (mf_c_metrics m)) of
        (None, _) \<Rightarrow> Inl (script_absent ''discover'' (mf_c_discover m) (de_path e))
      | (Some f1, files2) \<Rightarrow>
     (case check_file_permissions meta (path_join (de_path e) (mf_c_discover m)) of
        Some err \<Rightarrow> Inl err
      | None \<Rightarrow>
     (case files2 of
        None \<Rightarrow> Inl (script_absent ''metrics'' (mf_c_metrics m) (de_path e))
      | Some f2 \<Rightarrow>
     (case first_error [check_file_permissions meta (path_join (de_path e) (mf_c_metrics m)),
                        dir_writable meta (de_path e)] of
        Some err \<Rightarrow> Inl err
      | None \<Rightarrow>
     (case (f1, f2) of
        (Inl err, _) \<Rightarrow> Inl err
      | (_, Inl err) \<Rightarrow> Inl err
      | (Inr b1, Inr b2) \<Rightarrow>
          Inr \<lparr>ix_manifest = m, ix_discover_sha256 = sha b1, ix_metrics_sha256 = sha b2,
               ix_warnings = hash_warning ''discover_sha256'' (mf_c_discover_sha256 m) (sha b1)
                 @ hash_warning ''metrics_sha256'' (mf_c_metrics_sha256 m) (sha b2)\<rparr>)))))))"

section \<open>Facts\<close>

text \<open>The inspection of the agent reports what the agent's scan finds.\<close>

lemma inspect_is_scan:
  assumes "agent_inspect sha meta e = Inr r"
  shows "dir_from sha e = Inr \<lparr>cd_path = de_path e, cd_manifest = ix_manifest r,
      cd_discover_sha256 = ix_discover_sha256 r, cd_metrics_sha256 = ix_metrics_sha256 r\<rparr>
    \<and> check_file_permissions meta (path_join (de_path e) (mf_c_discover (ix_manifest r))) = None
    \<and> check_file_permissions meta (path_join (de_path e) (mf_c_metrics (ix_manifest r))) = None"
  using assms
  by (auto simp: agent_inspect_def dir_from_def Let_def first_error_None split: if_splits option.splits sum.splits)

text \<open>The request to the API that an inspection is meant for.\<close>

definition request_of_inspection :: "inspect_result \<Rightarrow> register_collector_request" where
  "request_of_inspection r =
     \<lparr>rc_id = iq_id r, rc_vendor = iq_vendor r, rc_name = iq_name r, rc_version = iq_version r,
      rc_description = iq_description r, rc_discover_sha256 = iq_discover_sha256 r,
      rc_metrics_sha256 = iq_metrics_sha256 r, rc_enabled = iq_enabled r\<rparr>"

lemma inspect_one_cases:
  assumes "inspect_one sha e = Inr r"
  obtains m b1 b2 where "read_manifest e = Inr m" "gd_files e (cm_discover m) = Some (Inr b1)"
    "gd_files e (cm_metrics m) = Some (Inr b2)" "iq_id r = cm_id m" "iq_version r = cm_version m"
    "iq_vendor r = cm_vendor m" "iq_name r = cm_name m" "iq_description r = cm_description m"
    "iq_discover_sha256 r = sha b1" "iq_metrics_sha256 r = sha b2" "iq_enabled r"
  using assms by (auto simp: inspect_one_def split: sum.splits option.splits)

lemma register_one_inspects:
  assumes "inspect_one sha e = Inr r"
  obtains m where "read_manifest e = Inr m" "cm_id m = iq_id r" "cm_version m = iq_version r"
    "register_one sha now e d =
       (Inr (if find_row (registry_key (iq_id r) (iq_version r)) (collector_registry d) = None
             then Registered (iq_id r) (iq_version r) (iq_discover_sha256 r) (iq_metrics_sha256 r)
             else Updated (iq_id r) (iq_version r) (iq_discover_sha256 r) (iq_metrics_sha256 r)),
        cli_upsert now m (iq_discover_sha256 r) (iq_metrics_sha256 r) d)"
    "cli_entry now m (iq_discover_sha256 r) (iq_metrics_sha256 r) = collector_entry now (request_of_inspection r)"
proof -
  from assms obtain m b1 b2 where
    m: "read_manifest e = Inr m" "gd_files e (cm_discover m) = Some (Inr b1)" "gd_files e (cm_metrics m) = Some (Inr b2)"
      "iq_id r = cm_id m" "iq_version r = cm_version m" "iq_vendor r = cm_vendor m" "iq_name r = cm_name m"
      "iq_description r = cm_description m" "iq_discover_sha256 r = sha b1" "iq_metrics_sha256 r = sha b2" "iq_enabled r"
    by (rule inspect_one_cases)
  show thesis
  proof (rule that)
    show "read_manifest e = Inr m" by (rule m(1))
    show "register_one sha now e d =
       (Inr (if find_row (registry_key (iq_id r) (iq_version r)) (collector_registry d) = None
             then Registered (iq_id r) (iq_version r) (iq_discover_sha256 r) (iq_metrics_sha256 r)
             else Updated (iq_id r) (iq_version r) (iq_discover_sha256 r) (iq_metrics_sha256 r)),
        cli_upsert now m (iq_discover_sha256 r) (iq_metrics_sha256 r) d)"
      using m by (simp add: register_one_def Let_def)
    show "cli_entry now m (iq_discover_sha256 r) (iq_metrics_sha256 r) = collector_entry now (request_of_inspection r)"
      using m by (simp add: cli_entry_def collector_entry_def request_of_inspection_def)
  qed (simp_all add: m)
qed

lemma find_unique: "q \<in> set xs \<Longrightarrow> P q \<Longrightarrow> (\<And>r. r \<in> set xs \<Longrightarrow> P r \<Longrightarrow> r = q) \<Longrightarrow> find P xs = Some q"
proof (cases "find P xs")
  case None
  assume "q \<in> set xs" "P q"
  with find_None_D [OF None] show ?thesis by blast
next
  case (Some r)
  assume u: "\<And>r. r \<in> set xs \<Longrightarrow> P r \<Longrightarrow> r = q"
  from find_Some_D [OF Some] have "r = q" by (intro u) auto
  with Some show ?thesis by simp
qed

lemma registry_unique:
  assumes "registry_ok d" and "r \<in> set (collector_registry d)" and "q \<in> set (collector_registry d)"
    and "registry_key i v r" and "registry_key i v q"
  shows "r = q"
  using assms by (auto simp: registry_ok_def registry_key_def distinct_map inj_on_def)

lemma registry_find:
  assumes "registry_ok d" and "q \<in> set (collector_registry d)" and "registry_key i v q"
  shows "find (registry_key i v) (collector_registry d) = Some q"
proof (rule find_unique)
  fix r
  assume "r \<in> set (collector_registry d)" "registry_key i v r"
  then show "r = q" using registry_unique [OF assms(1)] assms(2,3) by blast
qed (use assms in simp_all)

lemma cli_upsert_ok: "registry_ok d \<Longrightarrow> registry_ok (cli_upsert now m h1 h2 d)"
proof -
  assume ok: "registry_ok d"
  have "map (\<lambda>r. (cr_id r, cr_version r)) (update_where (registry_key (cm_id m) (cm_version m))
      (\<lambda>r. (cli_entry now m h1 h2)\<lparr>cr_created_at := cr_created_at r, cr_enabled := cr_enabled r\<rparr>) (collector_registry d))
    = map (\<lambda>r. (cr_id r, cr_version r)) (collector_registry d)"
    by (rule map_update_where) (simp add: registry_key_def cli_entry_def)
  with ok show ?thesis
    by (auto simp: cli_upsert_def registry_ok_def upsert_row_def registry_key_def cli_entry_def)
qed

lemma register_one_ok: "registry_ok d \<Longrightarrow> registry_ok (snd (register_one sha now e d))"
  by (auto simp: register_one_def Let_def cli_upsert_ok split: sum.split option.split)

definition kept_enabled :: "string \<Rightarrow> string \<Rightarrow> db \<Rightarrow> bool" where
  "kept_enabled i v d = (case find (registry_key i v) (collector_registry d) of Some q \<Rightarrow> cr_enabled q | None \<Rightarrow> True)"

lemma cli_upsert_entry:
  assumes "registry_ok d"
  shows "cli_upsert now m h1 h2 d = d\<lparr>collector_registry := upsert_row (registry_key (cm_id m) (cm_version m))
      (\<lambda>r. (cli_entry now m h1 h2)\<lparr>cr_enabled := kept_enabled (cm_id m) (cm_version m) d, cr_created_at := cr_created_at r\<rparr>)
      ((cli_entry now m h1 h2)\<lparr>cr_enabled := kept_enabled (cm_id m) (cm_version m) d\<rparr>) (collector_registry d)\<rparr>"
proof -
  let ?k = "registry_key (cm_id m) (cm_version m)"
  have en: "kept_enabled (cm_id m) (cm_version m) d = cr_enabled q"
    if "q \<in> set (collector_registry d)" "?k q" for q
    using registry_find [OF assms that] by (simp add: kept_enabled_def)
  have up: "update_where ?k (\<lambda>r. (cli_entry now m h1 h2)\<lparr>cr_created_at := cr_created_at r, cr_enabled := cr_enabled r\<rparr>) (collector_registry d)
    = update_where ?k (\<lambda>r. (cli_entry now m h1 h2)\<lparr>cr_enabled := kept_enabled (cm_id m) (cm_version m) d, cr_created_at := cr_created_at r\<rparr>) (collector_registry d)"
    by (auto simp: update_where_def en)
  have none: "kept_enabled (cm_id m) (cm_version m) d" if "\<not> (\<exists>q \<in> set (collector_registry d). ?k q)"
  proof -
    from that have "find ?k (collector_registry d) = None" by (auto simp: find_None_iff)
    then show ?thesis by (simp add: kept_enabled_def)
  qed
  have "(cli_entry now m h1 h2)\<lparr>cr_enabled := True\<rparr> = cli_entry now m h1 h2" by (simp add: cli_entry_def)
  then show ?thesis using up none by (auto simp: cli_upsert_def upsert_row_def)
qed

text \<open>Registering a directory from the command line and sending its inspection to the API come to the same.\<close>

lemma register_one_is_api:
  assumes "registry_ok d" and "inspect_one sha e = Inr r"
  shows "snd (register_one sha now e d)
    = snd (register_collector now ((request_of_inspection r)\<lparr>rc_enabled := kept_enabled (iq_id r) (iq_version r) d\<rparr>) d)"
proof -
  from assms(2) obtain m where m: "cm_id m = iq_id r" "cm_version m = iq_version r"
    "snd (register_one sha now e d) = cli_upsert now m (iq_discover_sha256 r) (iq_metrics_sha256 r) d"
    "cli_entry now m (iq_discover_sha256 r) (iq_metrics_sha256 r) = collector_entry now (request_of_inspection r)"
    by (rule register_one_inspects [where now = now and d = d]) auto
  have "rc_id (request_of_inspection r) = iq_id r" "rc_version (request_of_inspection r) = iq_version r"
    by (simp_all add: request_of_inspection_def)
  then show ?thesis
    unfolding m(3) cli_upsert_entry [OF assms(1)] register_collector_def snd_conv
    by (simp add: m(1,2,4) collector_entry_def)
qed

section \<open>Registered collectors run\<close>

text \<open>The same directory, read by the server's command and by the agent.\<close>

definition same_dir :: "registry_dir \<Rightarrow> dir_entry \<Rightarrow> cli_manifest \<Rightarrow> manifest \<Rightarrow> bool" where
  "same_dir e a m mm \<longleftrightarrow>
     gd_path e = de_path a \<and> gd_files e = de_files a \<and> gd_manifest e = Some (Inr m) \<and> de_manifest a = Some (Inr mm)
     \<and> mf_c_id mm = cm_id m \<and> mf_c_version mm = cm_version m \<and> mf_c_discover mm = cm_discover m
     \<and> mf_c_metrics mm = cm_metrics m"

definition listed :: "collector_config \<Rightarrow> string \<Rightarrow> bool" where
  "listed cfg i \<longleftrightarrow> i \<notin> set (cc_disabled cfg) \<and> (cc_mode cfg = AutoMode \<or> i \<in> set (cc_enabled cfg))"

lemma entry_for_key: "entry_for mm = registry_key (mf_c_id mm) (mf_c_version mm)"
  by (simp add: fun_eq_iff entry_for_def registry_key_def)

lemma find_in_list:
  assumes "registry_ok d" and "find (registry_key i v) (collector_registry d) = Some q"
  shows "find (registry_key i v) (list_collector_registry d) = Some q"
proof (rule find_unique)
  from find_Some_D [OF assms(2)] show "q \<in> set (list_collector_registry d)" "registry_key i v q"
    by (auto simp: list_collector_registry_def)
  fix r
  assume "r \<in> set (list_collector_registry d)" "registry_key i v r"
  then show "r = q" using registry_unique [OF assms(1)] find_Some_D [OF assms(2)]
    by (auto simp: list_collector_registry_def)
qed

lemma registered_entry:
  assumes "registry_ok d" and "inspect_one sha e = Inr r"
  shows "\<exists>q. find (registry_key (iq_id r) (iq_version r)) (list_collector_registry (snd (register_one sha now e d))) = Some q
    \<and> cr_discover_sha256 q = iq_discover_sha256 r \<and> cr_metrics_sha256 q = iq_metrics_sha256 r
    \<and> cr_enabled q = kept_enabled (iq_id r) (iq_version r) d"
proof -
  from assms(2) obtain m where m: "cm_id m = iq_id r" "cm_version m = iq_version r"
    "snd (register_one sha now e d) = cli_upsert now m (iq_discover_sha256 r) (iq_metrics_sha256 r) d"
    by (rule register_one_inspects [where now = now and d = d]) auto
  let ?c = "cli_entry now m (iq_discover_sha256 r) (iq_metrics_sha256 r)"
  let ?q = "case find (registry_key (cm_id m) (cm_version m)) (collector_registry d) of
     Some q \<Rightarrow> ?c\<lparr>cr_created_at := cr_created_at q, cr_enabled := cr_enabled q\<rparr> | None \<Rightarrow> ?c"
  have "find (registry_key (cm_id m) (cm_version m)) (collector_registry (cli_upsert now m (iq_discover_sha256 r) (iq_metrics_sha256 r) d)) = Some ?q"
    unfolding cli_upsert_def by simp (rule find_upsert_same; simp add: registry_key_def cli_entry_def)
  then have "find (registry_key (cm_id m) (cm_version m)) (list_collector_registry (cli_upsert now m (iq_discover_sha256 r) (iq_metrics_sha256 r) d)) = Some ?q"
    by (rule find_in_list [OF cli_upsert_ok [OF assms(1)]])
  then show ?thesis unfolding m(3)
    by (auto simp: m(1,2) [symmetric] cli_entry_def kept_enabled_def split: option.split)
qed

lemma agent_reads_same:
  assumes "same_dir e a m mm" and "inspect_one sha e = Inr r" and "check_manifest mm = None"
  shows "dir_from sha a = Inr \<lparr>cd_path = de_path a, cd_manifest = mm, cd_discover_sha256 = iq_discover_sha256 r,
      cd_metrics_sha256 = iq_metrics_sha256 r\<rparr> \<and> iq_id r = mf_c_id mm \<and> iq_version r = mf_c_version mm"
proof -
  from assms(2) obtain m' b1 b2 where
    m: "read_manifest e = Inr m'" "gd_files e (cm_discover m') = Some (Inr b1)" "gd_files e (cm_metrics m') = Some (Inr b2)"
      "iq_id r = cm_id m'" "iq_version r = cm_version m'" "iq_discover_sha256 r = sha b1" "iq_metrics_sha256 r = sha b2"
    by (rule inspect_one_cases)
  from m(1) assms(1) have "m' = m" by (auto simp: read_manifest_def same_dir_def split: option.splits)
  with m assms(1,3) show ?thesis by (auto simp: dir_from_def parse_manifest_def same_dir_def)
qed

text \<open>
  After the registration of a directory the agent may run its collector exactly when its own settings
  allow it and the entry is enabled; a directory with other scripts under the same id and version may not run.
\<close>

lemma registered_may_run:
  assumes "registry_ok d" and "same_dir e a m mm" and "inspect_one sha e = Inr r" and "check_manifest mm = None"
  shows "\<exists>c. dir_from sha a = Inr c \<and>
    (check_enabled cfg (list_collector_registry (snd (register_one sha now e d))) c = Allowed
      \<longleftrightarrow> listed cfg (mf_c_id mm) \<and> kept_enabled (mf_c_id mm) (mf_c_version mm) d)"
proof -
  note ag = agent_reads_same [OF assms(2-4)]
  from registered_entry [OF assms(1,3), of now] ag obtain q where
    "find (entry_for mm) (list_collector_registry (snd (register_one sha now e d))) = Some q"
    "cr_discover_sha256 q = iq_discover_sha256 r" "cr_metrics_sha256 q = iq_metrics_sha256 r"
    "cr_enabled q = kept_enabled (mf_c_id mm) (mf_c_version mm) d"
    unfolding entry_for_key by auto
  with ag show ?thesis
    by (cases "cc_mode cfg") (auto simp: check_enabled_def Let_def listed_def split: if_splits)
qed

lemma changed_may_not_run:
  assumes "registry_ok d" and "inspect_one sha e = Inr r"
    and "mf_c_id (cd_manifest c) = iq_id r" and "mf_c_version (cd_manifest c) = iq_version r"
    and "check_enabled cfg (list_collector_registry (snd (register_one sha now e d))) c = Allowed"
  shows "cd_discover_sha256 c = iq_discover_sha256 r \<and> cd_metrics_sha256 c = iq_metrics_sha256 r"
proof -
  from registered_entry [OF assms(1,2), of now] obtain q where
    "find (entry_for (cd_manifest c)) (list_collector_registry (snd (register_one sha now e d))) = Some q"
    "cr_discover_sha256 q = iq_discover_sha256 r" "cr_metrics_sha256 q = iq_metrics_sha256 r"
    unfolding entry_for_key assms(3,4) by blast
  with assms(5) show ?thesis by (auto simp: check_enabled_def Let_def split: if_splits)
qed

end
