(* ===== verification/Programs.thy ===== *)
theory Programs
  imports ServerConfig CollectorRegistration
begin

text \<open>
  What the command lines of the server and of the agent (\<^verbatim>\<open>server/src/main.rs\<close>, \<^verbatim>\<open>agent/src/main.rs\<close>)
  share. A run of a program is the list of what it does, in its order (lines printed, files written,
  the start of its parts), and the way it ends.
\<close>

section \<open>Runs\<close>

record server_app =
  ap_password_policy :: password_policy
  ap_session_policy :: session_policy
  ap_web_dist_dir :: "string option"
  ap_setup_token :: "string option"

datatype run_event =
    OutLine string
  | ErrLine string
  | DirsMade string
  | FileWritten string string
  | PrivateFileWritten string string
  | LogPolicySet log_policy
  | DatabaseOpened string
  | CleanupStarted nat nat
  | AppBuilt server_app
  | HttpListener string
  | HttpListenerPanicked string
  | HttpsListener string https_config
  | Prompt string
  | AgentListener string
  | AgentLoops

text \<open>\<open>RunExit\<close> is \<open>process::exit\<close>, \<open>RunError\<close> an error that \<open>main\<close> returns; a run that serves does not end.\<close>

datatype run_end = RunOk | RunExit nat | RunError string | RunServes

type_synonym run = "run_event list \<times> run_end"

definition then_run :: "run_event list \<Rightarrow> run \<Rightarrow> run" where
  "then_run es r = (es @ fst r, snd r)"

text \<open>\<open>call()?\<close>: the error of the call ends the run.\<close>

definition try_call :: "string option \<Rightarrow> run_event list \<Rightarrow> run \<Rightarrow> run" where
  "try_call e es r = (case e of Some m \<Rightarrow> ([], RunError m) | None \<Rightarrow> then_run es r)"

definition printed :: "string list \<Rightarrow> run" where
  "printed ls = (map OutLine ls, RunOk)"

definition refused_run :: "string list \<Rightarrow> run" where
  "refused_run ls = (map ErrLine ls, RunExit 1)"

section \<open>Texts\<close>

definition newline :: string where
  "newline = [CHR 0x0A]"

definition text_of :: "string list \<Rightarrow> string" where
  "text_of ls = concat (map (\<lambda>l. l @ newline) ls)"

text \<open>U+2192.\<close>

definition right_arrow :: string where
  "right_arrow = [CHR 0xE2, CHR 0x86, CHR 0x92]"

section \<open>Paths\<close>

text \<open>\<open>Path::parent\<close>, up to redundant separators.\<close>

definition path_parts :: "string \<Rightarrow> string list" where
  "path_parts p = (if p = ''.'' \<or> starts_with p ''./'' then [''.''] else []) @ path_components p"

definition path_parent :: "string \<Rightarrow> string option" where
  "path_parent p =
     (if path_parts p = [] then None
      else Some ((if is_absolute p then ''/'' else []) @ join ''/'' (butlast (path_parts p))))"

text \<open>The parent directory a program creates before it writes a file, if it is not the current one.\<close>

definition dir_to_make :: "string \<Rightarrow> string option" where
  "dir_to_make p = Option.bind (path_parent p) (\<lambda>d. if d = [] then None else Some d)"

section \<open>Arguments\<close>

fun extract_flag_value :: "string list \<Rightarrow> string \<Rightarrow> string option" where
  "extract_flag_value [] flag = None"
| "extract_flag_value (a # as) flag = (if a = flag then nth_opt as 0 else extract_flag_value as flag)"

section \<open>\<open>config init\<close>\<close>

text \<open>The last argument that is no option is the path.\<close>

fun init_options :: "string list \<Rightarrow> string option \<times> bool \<Rightarrow> string option \<times> bool" where
  "init_options [] r = r"
| "init_options (a # as) (path, force) =
     init_options as
       (if a = ''--force'' then (path, True)
        else if \<not> starts_with a ''-'' then (Some a, force) else (path, force))"

definition is_help :: "string \<Rightarrow> bool" where
  "is_help a \<longleftrightarrow> a = ''--help'' \<or> a = ''-h''"

text \<open>Both programs write their template in the same way.\<close>

definition write_template ::
  "(string \<Rightarrow> string option) \<Rightarrow> (string \<Rightarrow> bool) \<Rightarrow> (string \<Rightarrow> string option) \<Rightarrow> string \<Rightarrow> string \<Rightarrow> bool \<Rightarrow> run" where
  "write_template make_dirs there write template dest force =
     (let write_it =
        (if there dest \<and> \<not> force
         then ([], RunError (quoted dest @ '' already exists. Use --force to overwrite.''))
         else try_call (write dest) [FileWritten dest template]
                (printed [''Config template written to '' @ quoted dest]))
      in case dir_to_make dest of
           None \<Rightarrow> write_it
         | Some dir \<Rightarrow> try_call (make_dirs dir) [DirsMade dir] write_it)"

section \<open>Runs that end\<close>

definition ends :: "run \<Rightarrow> bool" where
  "ends r \<longleftrightarrow> snd r \<noteq> RunServes"

lemma ends_simps [simp]:
  "ends (printed ls)" "ends (refused_run ls)" "ends (es, RunError e)" "ends (then_run es r) = ends r"
  by (simp_all add: ends_def printed_def refused_run_def then_run_def)

lemma try_call_ends: "ends r \<Longrightarrow> ends (try_call e es r)"
  by (simp add: try_call_def split: option.split)

lemma write_template_ends: "ends (write_template md th wr t dest force)"
  by (simp add: write_template_def Let_def try_call_ends split: option.split)

end
