(* ===== verification/ServerMain.thy ===== *)
theory ServerMain
  imports Programs Server
begin

text \<open>
  The server program (\<^verbatim>\<open>server/src/main.rs\<close>, \<^verbatim>\<open>server/src/db.rs\<close>, \<^verbatim>\<open>server/src/cert.rs\<close>): its command line,
  the subcommands, and the start of the server. What the operating
  system, the TLS libraries and the database library answer are the fields of \<open>server_host\<close>; the
  database is the one the configuration names.
\<close>

section \<open>Texts\<close>

definition SERVER_CONFIG_TEMPLATE :: string where
  \<open>SERVER_CONFIG_TEMPLATE = text_of [
     ''# LightAI Server configuration.'',
     ''# Generated by: lightai-server config init'',
     [],
     ''[https]'',
     ''listen_addr = "0.0.0.0:18443"'',
     ''cert_path = "./certs/server.crt"'',
     ''key_path = "./certs/server.key"'',
     [],
     ''[http]'',
     ''enabled = false'',
     ''listen_addr = "127.0.0.1:18080"'',
     [],
     ''[web]'',
     ''dist_dir = "web/dist"'',
     [],
     ''[database]'',
     ''# SQLite database path.'',
     ''url = "sqlite://./data/lightai.db"'',
     [],
     ''[metrics]'',
     ''retention_days = 7'',
     ''cleanup_interval_hours = 6'',
     [],
     ''[auth.password]'',
     ''min_length = 12'',
     ''complexity_required = false'',
     ''expires_days = 0'',
     ''force_change_after_reset = true'',
     [],
     ''[auth.session]'',
     ''ttl_secs = 43200'',
     ''idle_timeout_secs = 7200'',
     ''secure_cookie = true'',
     [],
     ''[logs]'',
     ''dir = "logs"'',
     ''level = "info"'',
     ''max_file_bytes = 10485760'',
     ''retention_files = 5'',
     ''retention_days = 30'']\<close>

definition SERVER_CONFIG_HELP :: string where
  \<open>SERVER_CONFIG_HELP = text_of [
     ''lightai-server config '' @ em_dash @ '' Configuration file management'',
     [],
     ''USAGE:'',
     ''    lightai-server config init [PATH] [--force]'',
     [],
     ''EXAMPLES:'',
     ''    lightai-server config init'',
     ''    lightai-server config init ./my-server.toml'',
     ''    lightai-server config init --force'']\<close>

definition CERT_HELP :: string where
  \<open>CERT_HELP = text_of [
     ''lightai-server cert '' @ em_dash @ '' Certificate management'',
     [],
     ''USAGE:'',
     ''    lightai-server cert init --host <IP_OR_DNS> --out <DIR>'',
     ''    lightai-server cert fingerprint --file <PATH>'',
     ''    lightai-server cert setup-token'',
     [],
     ''EXAMPLES:'',
     ''    lightai-server cert init --host 172.19.168.153 --out ./certs'',
     ''    lightai-server cert init --host lightai.example.local --out /opt/lightai/certs'',
     ''    lightai-server cert fingerprint --file ./certs/ca.crt'',
     ''    lightai-server cert setup-token'']\<close>

definition SERVER_HELP :: string where
  \<open>SERVER_HELP = text_of [
     ''lightai-server '' @ em_dash @ '' LightAI GPU Model Management Platform Server'',
     [],
     ''USAGE:'',
     ''    lightai-server [--config <PATH>] [SUBCOMMAND]'',
     [],
     ''SUBCOMMANDS:'',
     ''    cert        Certificate generation and management'',
     ''    config      Configuration file management'',
     ''    collector   GPU collector registry management'',
     ''    --reset-password <USERNAME> <PASSWORD>'',
     ''                Reset a local user's password from the server host'',
     ''    --help      Show this help message'',
     ''    --version   Show version information'',
     [],
     ''STARTUP:'',
     ''    Without a subcommand, starts the HTTP/HTTPS server.'',
     ''    Run scripts/init-local.sh or scripts/init-server.sh first to generate'',
     ''    certificates and configuration.'',
     [],
     ''CONFIGURATION:'',
     ''    --config <PATH>        Path to server TOML config file.'',
     ''    LIGHTAI_SERVER_CONFIG  Environment variable fallback.'',
     ''    Default config path:   /etc/lightai/lightai-server.toml'']\<close>

definition COLLECTOR_HELP :: string where
  \<open>COLLECTOR_HELP = text_of [
     ''lightai-server collector '' @ em_dash @ '' GPU collector registry management'',
     [],
     ''USAGE:'',
     ''    lightai-server collector inspect  --dir <PATH> | --root <PATH>'',
     ''    lightai-server collector sync     --root <PATH>'',
     ''    lightai-server collector register --dir <PATH>'',
     [],
     ''SUBCOMMANDS:'',
     ''    inspect  Read collector metadata and compute script hashes.'',
     ''             Does NOT write to the database.'',
     ''    sync     Scan a collector root directory and upsert all valid collector'',
     ''             subdirectories into the Server registry.'',
     ''    register Upsert a single collector directory into the Server registry.'',
     [],
     ''EXAMPLES:'',
     ''    lightai-server --config lightai-server.toml collector sync --root ./collectors/gpu'',
     ''    lightai-server --config lightai-server.toml collector register --dir ./collectors/gpu/nvidia-wsl'',
     [],
     ''NOTES:'',
     ''    - Uses the Server database (same as the running Server).'',
     ''    - Only reads collector.toml + computes script hashes; does NOT execute scripts.'',
     ''    - Same id+version '' @ right_arrow @ '' upsert (metadata + hash updated, enabled preserved).'',
     ''    - New collectors default to enabled=true.'',
     ''    - Does NOT require a running Server process.'']\<close>

section \<open>The host\<close>

record ca_output =
  kp_cert_pem :: string
  kp_key_pem :: string
  kp_fingerprint :: string

record server_cert_output =
  vc_cert_pem :: string
  vc_key_pem :: string

text \<open>Subject alternative names of a certificate, beside those made of its hosts.\<close>

datatype san = DnsName string | IpAddress string

text \<open>
  \<open>sh_certs\<close> and \<open>sh_keys\<close> are what the PEM reader finds in a file, \<open>sh_address\<close> the error of reading a
  socket address, \<open>sh_sign\<close> the certificate signed by an authority (certificate, key, hosts, names,
  common name), \<open>sh_random\<close> random bytes.
\<close>

record server_host =
  sh_config :: config_host
  sh_version :: string
  sh_make_dirs :: "string \<Rightarrow> string option"
  sh_write :: "string \<Rightarrow> string option"
  sh_exists :: "string \<Rightarrow> bool"
  sh_open :: "string \<Rightarrow> string option"
  sh_read :: "string \<Rightarrow> string + string"
  sh_connect :: "string \<Rightarrow> string option"
  sh_collector :: "string \<Rightarrow> registry_dir"
  sh_root :: "string \<Rightarrow> string + registry_dir list"
  sh_sha :: "string \<Rightarrow> string"
  sh_pretty :: "json \<Rightarrow> string"
  sh_address :: "string \<Rightarrow> string option"
  sh_bind :: "string \<Rightarrow> string option"
  sh_is_ip :: "string \<Rightarrow> bool"
  sh_dns_error :: "string \<Rightarrow> string option"
  sh_ca :: "string + ca_output"
  sh_sign :: "string \<Rightarrow> string \<Rightarrow> string list \<Rightarrow> san list \<Rightarrow> string \<Rightarrow> string + server_cert_output"
  sh_certs :: "string \<Rightarrow> (string + string) list"
  sh_keys :: "string \<Rightarrow> (string + string) list"
  sh_tls :: "string list \<Rightarrow> string \<Rightarrow> string option"
  sh_random :: "nat list"


section \<open>The command line\<close>

text \<open>The first argument is the name of the program.\<close>

definition parse_cli :: "string list \<Rightarrow> run + string option \<times> string option \<times> nat" where
  "parse_cli args =
     (if length args < 2 then Inr (None, None, 1)
      else if args ! 1 = ''--config''
      then (if 2 < length args then Inr (nth_opt args 3, Some (args ! 2), 3)
            else Inl (refused_run [''error: --config requires a path'']))
      else Inr (Some (args ! 1), None, 1))"

definition reset_usage :: run where
  "reset_usage = refused_run [''usage: lightai-server --reset-password <USERNAME> <PASSWORD>'']"

fun extract_positional_args :: "string list \<Rightarrow> string \<Rightarrow> run + string \<times> string" where
  "extract_positional_args [] flag = Inl reset_usage"
| "extract_positional_args (a # as) flag =
     (if a = flag then (case as of u # p # _ \<Rightarrow> Inr (u, p) | _ \<Rightarrow> Inl reset_usage)
      else extract_positional_args as flag)"

section \<open>\<open>config init\<close>\<close>

definition handle_config_cmd :: "server_host \<Rightarrow> string list \<Rightarrow> run" where
  "handle_config_cmd h args =
     (case nth_opt args 2 of
        None \<Rightarrow> printed [SERVER_CONFIG_HELP]
      | Some sub \<Rightarrow>
          if is_help sub then printed [SERVER_CONFIG_HELP]
          else if sub = ''init''
          then (if (case nth_opt args 3 of Some a \<Rightarrow> is_help a | None \<Rightarrow> False) then printed [SERVER_CONFIG_HELP]
                else case init_options (drop 3 args) (None, False) of (path, force) \<Rightarrow>
                  write_template (sh_make_dirs h) (sh_exists h) (sh_write h) SERVER_CONFIG_TEMPLATE
                    (case path of Some p \<Rightarrow> p | None \<Rightarrow> ''lightai-server.toml'') force)
          else refused_run [''unknown config subcommand: '' @ sub, ''try: lightai-server config --help''])"

section \<open>Certificates\<close>

text \<open>\<open>cert::generate_server_cert\<close>: the names of the certificate; localhost and 127.0.0.1 are always among them.\<close>

definition server_names :: "server_host \<Rightarrow> string list \<Rightarrow> string list \<Rightarrow> string + san list" where
  "server_names h hosts ips =
     (case first_error (map (sh_dns_error h) hosts) of
        Some e \<Rightarrow> Inl e
      | None \<Rightarrow> Inr (map DnsName hosts @ map IpAddress (filter (sh_is_ip h) ips)
          @ (if ''localhost'' \<in> set hosts then [] else [DnsName ''localhost''])
          @ (if ''127.0.0.1'' \<in> set ips then [] else [IpAddress ''127.0.0.1''])))"

definition generate_server_cert ::
  "server_host \<Rightarrow> ca_output \<Rightarrow> string list \<Rightarrow> string list \<Rightarrow> string + server_cert_output" where
  "generate_server_cert h ca hosts ips =
     (case server_names h hosts ips of
        Inl e \<Rightarrow> Inl e
      | Inr names \<Rightarrow> sh_sign h (kp_cert_pem ca) (kp_key_pem ca) hosts names
          (case hosts of [] \<Rightarrow> ''localhost'' | a # _ \<Rightarrow> a))"

definition hosts_and_ips :: "server_host \<Rightarrow> string \<Rightarrow> string list \<times> string list" where
  "hosts_and_ips h host =
     (if sh_is_ip h host then ([''localhost''], [host]) else ([host], [''127.0.0.1'']))"

definition trim_end :: "string \<Rightarrow> string" where
  "trim_end s = concat (rev (dropWhile is_whitespace (rev (utf8_chars s))))"

definition cert_init :: "server_host \<Rightarrow> string \<Rightarrow> string \<Rightarrow> run" where
  "cert_init h host out =
     (let file = path_join out in
      try_call (sh_make_dirs h out) [DirsMade out]
      (case sh_ca h of
         Inl e \<Rightarrow> ([], RunError e)
       | Inr ca \<Rightarrow>
      try_call (sh_write h (file ''ca.key'')) [PrivateFileWritten (file ''ca.key'') (kp_key_pem ca)]
      (try_call (sh_write h (file ''ca.crt'')) [FileWritten (file ''ca.crt'') (kp_cert_pem ca)]
      (case hosts_and_ips h host of (hosts, ips) \<Rightarrow>
      (case generate_server_cert h ca hosts ips of
         Inl e \<Rightarrow> ([], RunError e)
       | Inr v \<Rightarrow>
      try_call (sh_write h (file ''server.key'')) [PrivateFileWritten (file ''server.key'') (vc_key_pem v)]
      (try_call (sh_write h (file ''server.crt''))
        [FileWritten (file ''server.crt'') (vc_cert_pem v),
         FileWritten (file ''server.crt'') (trim_end (vc_cert_pem v) @ newline @ trim_end (kp_cert_pem ca))]
      (printed [
        ''Certificates generated in '' @ out,
        ''  CA fingerprint  SHA256:'' @ kp_fingerprint ca,
        ''  CA cert         '' @ file ''ca.crt'',
        ''  CA key          '' @ file ''ca.key'',
        ''  Server cert     '' @ file ''server.crt'',
        ''  Server key      '' @ file ''server.key'',
        [],
        ''WARNING: ca.key and server.key are sensitive '' @ em_dash @ '' do NOT distribute.'',
        ''ca.crt can be distributed to Agent machines.''])))))))"

text \<open>A file that is no PEM file is taken as DER.\<close>

definition cert_fingerprint :: "server_host \<Rightarrow> string \<Rightarrow> run" where
  "cert_fingerprint h file =
     (case sh_read h file of
        Inl e \<Rightarrow> ([], RunError e)
      | Inr der \<Rightarrow> try_call (sh_open h file) []
          (printed [sh_sha h (case sh_certs h file of Inr c # _ \<Rightarrow> c | _ \<Rightarrow> der)]))"

definition hex_digit :: "nat \<Rightarrow> char" where
  "hex_digit n = char_of (if n < 10 then 48 + n else 87 + n)"

definition hex_byte :: "nat \<Rightarrow> string" where
  "hex_byte b = [hex_digit (b div 16), hex_digit (b mod 16)]"

definition generate_setup_token :: "server_host \<Rightarrow> string" where
  "generate_setup_token h = concat (map hex_byte (sh_random h))"

definition handle_cert_cmd :: "server_host \<Rightarrow> string list \<Rightarrow> nat \<Rightarrow> run" where
  "handle_cert_cmd h args sub_idx =
     (case nth_opt args (sub_idx + 1) of
        None \<Rightarrow> refused_run [CERT_HELP]
      | Some cmd \<Rightarrow>
          if is_help cmd then printed [CERT_HELP]
          else if cmd = ''init''
          then (case extract_flag_value args ''--host'' of
                  None \<Rightarrow> refused_run [''usage: lightai-server cert init --host <IP_OR_DNS> --out <DIR>'']
                | Some host \<Rightarrow> cert_init h host
                    (case extract_flag_value args ''--out'' of Some out \<Rightarrow> out | None \<Rightarrow> ''./certs''))
          else if cmd = ''fingerprint''
          then (case extract_flag_value args ''--file'' of
                  None \<Rightarrow> refused_run [''usage: lightai-server cert fingerprint --file <PATH>'']
                | Some file \<Rightarrow> cert_fingerprint h file)
          else if cmd = ''setup-token'' then printed [generate_setup_token h]
          else refused_run [''unknown cert subcommand: '' @ cmd, CERT_HELP])"

text \<open>\<open>collect::<Result<Vec<_>, _>>()\<close>.\<close>

fun collect_results :: "(string + 'v) list \<Rightarrow> string + 'v list" where
  "collect_results [] = Inr []"
| "collect_results (Inl e # rs) = Inl e"
| "collect_results (Inr v # rs) = (case collect_results rs of Inl e \<Rightarrow> Inl e | Inr vs \<Rightarrow> Inr (v # vs))"

text \<open>The error of \<open>load_tls_config\<close>.\<close>

definition load_tls_config :: "server_host \<Rightarrow> https_config \<Rightarrow> string option" where
  "load_tls_config h s =
     (case sh_open h (hs_cert_path s) of
        Some e \<Rightarrow> Some (''cannot open cert file '' @ quoted (hs_cert_path s) @ '': '' @ e)
      | None \<Rightarrow>
     (case sh_open h (hs_key_path s) of
        Some e \<Rightarrow> Some (''cannot open key file '' @ quoted (hs_key_path s) @ '': '' @ e)
      | None \<Rightarrow>
     (case collect_results (sh_certs h (hs_cert_path s)) of
        Inl e \<Rightarrow> Some e
      | Inr chain \<Rightarrow>
     (case collect_results (sh_keys h (hs_key_path s)) of
        Inl e \<Rightarrow> Some e
      | Inr [] \<Rightarrow> Some (''no private key found in '' @ hs_key_path s)
      | Inr (key # _) \<Rightarrow> sh_tls h chain key))))"

section \<open>Configuration and database of a run\<close>

text \<open>The file \<open>load_server_config\<close> reads, and what it prints.\<close>

definition config_file :: "config_host \<Rightarrow> string option \<Rightarrow> string option" where
  "config_file h explicit =
     (case explicit of
        Some p \<Rightarrow> if p = [] then None else Some p
      | None \<Rightarrow>
     (case env_config_path h ''LIGHTAI_SERVER_CONFIG'' of
        Some p \<Rightarrow> Some p
      | None \<Rightarrow> if ch_is_file h DEFAULT_SERVER_CONFIG_PATH then Some DEFAULT_SERVER_CONFIG_PATH else None))"

definition load_warnings :: "config_host \<Rightarrow> string option \<Rightarrow> string list" where
  "load_warnings h explicit =
     (case Option.bind (config_file h explicit) (\<lambda>p. (case ch_read h p of Inl _ \<Rightarrow> None | Inr t \<Rightarrow> Some t)) of
        None \<Rightarrow> []
      | Some t \<Rightarrow> (case ch_toml h t of Inl _ \<Rightarrow> [] | Inr f \<Rightarrow> deprecation_warning f))"

text \<open>\<open>db::connect\<close>; opening the file and creating its tables is \<open>sh_connect\<close>.\<close>

definition sqlite_prefix :: string where
  "sqlite_prefix = ''sqlite://''"

definition database_dir :: "string \<Rightarrow> string option" where
  "database_dir url =
     (let path = (if starts_with url sqlite_prefix then drop (length sqlite_prefix) url else url) in
      if path = '':memory:'' \<or> starts_with path ''file:'' then None else dir_to_make path)"

definition connect :: "server_host \<Rightarrow> string \<Rightarrow> run_event list \<times> string option" where
  "connect h url =
     (case database_dir url of
        None \<Rightarrow> (case sh_connect h url of Some e \<Rightarrow> ([], Some e) | None \<Rightarrow> ([DatabaseOpened url], None))
      | Some dir \<Rightarrow>
     (case sh_make_dirs h dir of
        Some e \<Rightarrow> ([], Some e)
      | None \<Rightarrow>
          (case sh_connect h url of
             Some e \<Rightarrow> ([DirsMade dir], Some e)
           | None \<Rightarrow> ([DirsMade dir, DatabaseOpened url], None))))"

text \<open>Load the configuration, make the checks of the command, open the database, and go on.\<close>

definition with_database ::
  "server_host \<Rightarrow> string option \<Rightarrow> (server_config \<Rightarrow> run_event list \<times> run_end option)
   \<Rightarrow> (server_config \<Rightarrow> db \<Rightarrow> run \<times> db) \<Rightarrow> db \<Rightarrow> run \<times> db" where
  "with_database h explicit check act d =
     (let ws = map ErrLine (load_warnings (sh_config h) explicit) in
      case load_server_config (sh_config h) explicit of
        Inl e \<Rightarrow> ((ws, RunError e), d)
      | Inr c \<Rightarrow>
     (case check c of
        (es, Some r) \<Rightarrow> ((ws @ es, r), d)
      | (es, None) \<Rightarrow>
     (case connect h (sc_database_url c) of
        (os, Some e) \<Rightarrow> ((ws @ es @ os, RunError e), d)
      | (os, None) \<Rightarrow> (case act c d of (r, d') \<Rightarrow> (then_run (ws @ es @ os) r, d')))))"

section \<open>Passwords and collectors\<close>

definition auth_checked :: "server_config \<Rightarrow> run_event list \<times> run_end option" where
  "auth_checked c = ([], map_option RunError (validate_auth c))"

definition reset_action ::
  "ext \<Rightarrow> int \<Rightarrow> string \<Rightarrow> string \<Rightarrow> string \<Rightarrow> server_config \<Rightarrow> db \<Rightarrow> run \<times> db" where
  "reset_action x now salt user pw c d =
     (case reset_user_password x now salt user pw (sc_password_policy c) d of
        (Inl e, d') \<Rightarrow> (([], RunError e), d')
      | (Inr _, d') \<Rightarrow> (printed [''password reset completed for user '' @ user], d'))"

definition reset_password_cmd ::
  "ext \<Rightarrow> server_host \<Rightarrow> int \<Rightarrow> string \<Rightarrow> string list \<Rightarrow> string option \<Rightarrow> db \<Rightarrow> run \<times> db" where
  "reset_password_cmd x h now salt args explicit d =
     (case extract_positional_args args ''--reset-password'' of
        Inl r \<Rightarrow> (r, d)
      | Inr (user, pw) \<Rightarrow> with_database h explicit auth_checked (reset_action x now salt user pw) d)"

definition outcome_text :: "string \<Rightarrow> string \<Rightarrow> string \<Rightarrow> string \<Rightarrow> string" where
  "outcome_text i v h1 h2 =
     i @ '' v'' @ v @ ''  discover='' @ take 12 h1 @ '' metrics='' @ take 12 h2"

fun outcome_line :: "register_outcome \<Rightarrow> string" where
  "outcome_line (Registered i v h1 h2) = ''registered  '' @ outcome_text i v h1 h2"
| "outcome_line (Updated i v h1 h2) = ''updated     '' @ outcome_text i v h1 h2"
| "outcome_line (Skipped dir reason) = ''skipped     '' @ dir @ ''  ('' @ reason @ '')''"

definition collector_sync ::
  "server_host \<Rightarrow> int \<Rightarrow> string \<Rightarrow> db \<Rightarrow> run \<times> db" where
  "collector_sync h now root d =
     (case sync_root (sh_sha h) now root (sh_root h root) d of
        (Inl e, d') \<Rightarrow> (refused_run [''sync failed: '' @ e], d')
      | (Inr outs, d') \<Rightarrow>
          (printed (map outcome_line outs @
            [''done '' @ em_dash @ '' '' @ int_str (int (length outs)) @ '' collector(s) processed'']), d'))"

fun registered_run :: "register_outcome \<Rightarrow> run" where
  "registered_run (Registered i v h1 h2) = printed [''ok  '' @ outcome_text i v h1 h2]"
| "registered_run (Updated i v h1 h2) = printed [''ok  '' @ outcome_text i v h1 h2]"
| "registered_run (Skipped dir reason) = refused_run [''skipped  '' @ dir @ ''  ('' @ reason @ '')'']"

definition collector_register ::
  "server_host \<Rightarrow> int \<Rightarrow> string \<Rightarrow> db \<Rightarrow> run \<times> db" where
  "collector_register h now dir d =
     (case register_one (sh_sha h) now (sh_collector h dir) d of
        (Inl e, d') \<Rightarrow> (refused_run [''register failed: '' @ e], d')
      | (Inr out, d') \<Rightarrow> (registered_run out, d'))"

definition inspect_json :: "inspect_result \<Rightarrow> json" where
  "inspect_json r = JObj [
     (''id'', JStr (iq_id r)), (''vendor'', JStr (iq_vendor r)), (''name'', JStr (iq_name r)),
     (''version'', JStr (iq_version r)), (''description'', JStr (iq_description r)),
     (''discover_sha256'', JStr (iq_discover_sha256 r)), (''metrics_sha256'', JStr (iq_metrics_sha256 r)),
     (''enabled'', JBool (iq_enabled r))]"

definition inspect_usage :: run where
  "inspect_usage = refused_run [''usage: lightai-server collector inspect --dir <PATH> | --root <PATH>'']"

definition collector_inspect :: "server_host \<Rightarrow> string list \<Rightarrow> run" where
  "collector_inspect h args =
     (case extract_flag_value args ''--dir'' of
        Some dir \<Rightarrow>
          (case inspect_one (sh_sha h) (sh_collector h dir) of
             Inl e \<Rightarrow> refused_run [''inspect failed: '' @ e]
           | Inr r \<Rightarrow> printed [sh_pretty h (inspect_json r)])
      | None \<Rightarrow>
     (case extract_flag_value args ''--root'' of
        None \<Rightarrow> inspect_usage
      | Some root \<Rightarrow>
          (case inspect_root (sh_sha h) root (sh_root h root) of
             Inl e \<Rightarrow> refused_run [''inspect failed: '' @ e]
           | Inr (rs, skipped) \<Rightarrow>
               then_run (map ErrLine skipped) (printed [sh_pretty h (JArr (map inspect_json rs))]))))"

definition no_check :: "server_config \<Rightarrow> run_event list \<times> run_end option" where
  "no_check c = ([], None)"

definition handle_collector_cmd ::
  "server_host \<Rightarrow> int \<Rightarrow> string list \<Rightarrow> nat \<Rightarrow> string option \<Rightarrow> db \<Rightarrow> run \<times> db" where
  "handle_collector_cmd h now args sub_idx explicit d =
     (case nth_opt args (sub_idx + 1) of
        None \<Rightarrow> (refused_run [''missing collector subcommand (inspect | sync | register)'',
                 ''try: lightai-server collector --help''], d)
      | Some cmd \<Rightarrow>
          if is_help cmd then (printed [COLLECTOR_HELP], d)
          else if cmd = ''sync''
          then (case extract_flag_value args ''--root'' of
                  None \<Rightarrow> (refused_run [''usage: lightai-server collector sync --root <PATH>''], d)
                | Some root \<Rightarrow> with_database h explicit no_check (\<lambda>c. collector_sync h now root) d)
          else if cmd = ''inspect'' then (collector_inspect h args, d)
          else if cmd = ''register''
          then (case extract_flag_value args ''--dir'' of
                  None \<Rightarrow> (refused_run [''usage: lightai-server collector register --dir <PATH>''], d)
                | Some dir \<Rightarrow> with_database h explicit no_check (\<lambda>c. collector_register h now dir) d)
          else (refused_run [''unknown collector subcommand: '' @ cmd,
                  ''try: lightai-server --config <PATH> collector --help'',
                  ''  or: lightai-server collector --help''], d))"

section \<open>The start of the server\<close>

definition server_checks :: "server_config \<Rightarrow> run_event list \<times> run_end option" where
  "server_checks c =
     (case validate_auth c of
        Some e \<Rightarrow> ([], Some (RunError e))
      | None \<Rightarrow>
          if \<not> has_listener c
          then (map ErrLine [''ERROR: No listener configured.'',
                  ''Set [https] or [http] in your config file, or run:'',
                  ''  scripts/init-local.sh   (local development)'',
                  ''  scripts/init-server.sh  (deployment)''], Some (RunExit 1))
          else ([LogPolicySet (sc_log_policy c)], None))"

definition app_of :: "server_config \<Rightarrow> server_app" where
  "app_of c =
     \<lparr>ap_password_policy = sc_password_policy c, ap_session_policy = sc_session_policy c,
      ap_web_dist_dir = sc_web_dist_dir c, ap_setup_token = sc_setup_token c\<rparr>"

text \<open>
  The plain listener runs in a task of its own: when its address cannot be bound the task panics and
  the program goes on.
\<close>

definition https_run :: "server_host \<Rightarrow> server_config \<Rightarrow> run" where
  "https_run h c =
     (case sc_https c of
        None \<Rightarrow> ([], if hp_enabled (sc_http c) then RunServes else RunOk)
      | Some s \<Rightarrow>
          (case first_error [load_tls_config h s, sh_address h (hs_listen_addr s), sh_bind h (hs_listen_addr s)] of
             Some e \<Rightarrow> ([], RunError e)
           | None \<Rightarrow> ([HttpsListener (hs_listen_addr s) s], RunServes)))"

definition http_event :: "server_host \<Rightarrow> string \<Rightarrow> run_event" where
  "http_event h a = (if sh_bind h a = None then HttpListener a else HttpListenerPanicked a)"

definition start_server :: "server_host \<Rightarrow> server_config \<Rightarrow> run" where
  "start_server h c =
     then_run [CleanupStarted (sc_metrics_retention_days c) (sc_cleanup_interval_hours c), AppBuilt (app_of c)]
       (if hp_enabled (sc_http c)
        then try_call (sh_address h (hp_listen_addr (sc_http c)))
               [http_event h (hp_listen_addr (sc_http c))] (https_run h c)
        else https_run h c)"

definition server_mode :: "server_host \<Rightarrow> string option \<Rightarrow> db \<Rightarrow> run \<times> db" where
  "server_mode h explicit d = with_database h explicit server_checks (\<lambda>c d. (start_server h c, d)) d"

definition server_main ::
  "ext \<Rightarrow> server_host \<Rightarrow> int \<Rightarrow> string \<Rightarrow> string list \<Rightarrow> db \<Rightarrow> run \<times> db" where
  "server_main x h now salt args d =
     (case parse_cli args of
        Inl r \<Rightarrow> (r, d)
      | Inr (sub, explicit, idx) \<Rightarrow>
     (case sub of
        None \<Rightarrow> server_mode h explicit d
      | Some cmd \<Rightarrow>
          if is_help cmd then (printed [SERVER_HELP], d)
          else if cmd = ''--version'' \<or> cmd = ''-V'' then (printed [''lightai-server '' @ sh_version h], d)
          else if cmd = ''--reset-password'' then reset_password_cmd x h now salt args explicit d
          else if cmd = ''config'' then (handle_config_cmd h args, d)
          else if cmd = ''collector'' then handle_collector_cmd h now args idx explicit d
          else if cmd = ''cert'' then (handle_cert_cmd h args idx, d)
          else (refused_run [''unknown subcommand: '' @ cmd, ''try: lightai-server --help''], d)))"

section \<open>What a command does to the database\<close>

lemma with_database_db:
  assumes "P d" and "\<And>c. P (snd (act c d))"
  shows "P (snd (with_database h explicit check act d))"
  using assms(1) assms(2)
proof -
  have "P d'" if "act c d = (r, d')" for c r d'
    using assms(2) [of c] that by simp
  then show ?thesis
    using assms(1) by (simp add: with_database_def Let_def split: sum.split prod.split option.split)
qed

lemma core_cli_upsert [simp]: "core (cli_upsert now m h1 h2 d) = core d"
  by (simp add: cli_upsert_def)

lemma core_register_one: "core (snd (register_one sha now e d)) = core d"
  by (simp add: register_one_def Let_def split: sum.split option.split)

lemma core_sync_dir: "core (snd (sync_dir sha now e d)) = core d"
  using core_register_one [of sha now e d] by (auto simp: sync_dir_def split: prod.split sum.split)

lemma sync_dirs_db:
  "snd (sync_dirs sha now (e # es) d) =
     (if cli_candidate e then snd (sync_dirs sha now es (snd (sync_dir sha now e d))) else snd (sync_dirs sha now es d))"
  by (simp split: prod.split)

lemma core_sync_dirs: "core (snd (sync_dirs sha now es d)) = core d"
  by (induction es arbitrary: d) (simp_all add: sync_dirs_db core_sync_dir del: sync_dirs.simps(2))

lemma sync_dir_ok: "registry_ok d \<Longrightarrow> registry_ok (snd (sync_dir sha now e d))"
  using register_one_ok [of d sha now e] by (auto simp: sync_dir_def split: prod.split sum.split)

lemma sync_dirs_ok: "registry_ok d \<Longrightarrow> registry_ok (snd (sync_dirs sha now es d))"
  by (induction es arbitrary: d) (simp_all add: sync_dirs_db sync_dir_ok del: sync_dirs.simps(2))

lemma sync_root_db: "snd (sync_root sha now root r d) = (case r of Inl _ \<Rightarrow> d | Inr es \<Rightarrow> snd (sync_dirs sha now es d))"
  by (simp add: sync_root_def split: sum.split prod.split)

lemma collector_sync_db: "snd (collector_sync h now root d) = snd (sync_root (sh_sha h) now root (sh_root h root) d)"
  by (simp add: collector_sync_def split: prod.split sum.split)

lemma collector_register_db: "snd (collector_register h now dir d) = snd (register_one (sh_sha h) now (sh_collector h dir) d)"
  by (simp add: collector_register_def split: prod.split sum.split)

definition command_kept :: "db \<Rightarrow> db \<Rightarrow> bool" where
  "command_kept d d' \<longleftrightarrow> server_kept d d' \<and> (registry_ok d \<longrightarrow> registry_ok d')"

lemma command_same [simp]: "command_kept d d"
  by (simp add: command_kept_def)

lemma kept_sync: "command_kept d (snd (collector_sync h now root d))"
  unfolding collector_sync_db sync_root_db command_kept_def
  by (auto simp: core_sync_dirs sync_dirs_ok intro!: server_same split: sum.split)

lemma kept_register: "command_kept d (snd (collector_register h now dir d))"
  unfolding collector_register_db command_kept_def
  by (simp add: register_one_ok server_same core_register_one)

lemma kept_reset: "command_kept d (snd (reset_user_password x now salt name pw p d))"
proof -
  have "server_kept d (account_run x (ResetPassword now salt name pw p) d)" by (rule server_account)
  moreover have "collector_registry (snd (reset_user_password x now salt name pw p d)) = collector_registry d"
    by (simp add: account_defs Let_def split: option.split)
  ultimately show ?thesis by (simp add: command_kept_def registry_ok_def)
qed

lemma kept_reset_action: "command_kept d (snd (reset_action x now salt user pw c d))"
  using kept_reset [of d x now salt user pw "sc_password_policy c"]
  by (cases "reset_user_password x now salt user pw (sc_password_policy c) d")
    (simp add: reset_action_def split: sum.split)

lemma kept_reset_cmd: "command_kept d (snd (reset_password_cmd x h now salt args explicit d))"
  unfolding reset_password_cmd_def by (simp add: with_database_db kept_reset_action split: sum.split prod.split)

lemma kept_collector_cmd: "command_kept d (snd (handle_collector_cmd h now args i explicit d))"
  unfolding handle_collector_cmd_def
  by (simp add: with_database_db kept_sync kept_register split: option.split)

lemma kept_server_main: "command_kept d (snd (server_main x h now salt args d))"
  unfolding server_main_def server_mode_def
  by (simp add: with_database_db kept_reset_cmd kept_collector_cmd split: sum.split option.split)

text \<open>The other commands leave the database as it is.\<close>

lemma server_mode_unchanged: "snd (server_mode h explicit d) = d"
  unfolding server_mode_def by (rule with_database_db [where P = "\<lambda>d'. d' = d"]) simp_all

lemma parse_cli_sub: "parse_cli args = Inr (Some cmd, explicit, idx) \<Longrightarrow> cmd \<in> set args"
  by (auto simp: parse_cli_def nth_opt_def split: if_splits)

lemma server_main_unchanged:
  assumes "''--reset-password'' \<notin> set args" and "''collector'' \<notin> set args"
  shows "snd (server_main x h now salt args d) = d"
proof (cases "parse_cli args")
  case (Inl r)
  then show ?thesis by (simp add: server_main_def)
next
  case (Inr p)
  then obtain sub explicit idx where p: "parse_cli args = Inr (sub, explicit, idx)" by (cases p) auto
  show ?thesis
  proof (cases sub)
    case None
    with p show ?thesis by (simp add: server_main_def server_mode_unchanged)
  next
    case (Some cmd)
    with p parse_cli_sub [of args cmd explicit idx] assms
    have "cmd \<noteq> ''--reset-password''" "cmd \<noteq> ''collector''" by auto
    with p Some show ?thesis by (simp add: server_main_def)
  qed
qed

section \<open>What a run that serves has done before\<close>

lemma with_database_serves:
  assumes "with_database h explicit check act d = ((es, RunServes), d')"
    and "\<And>c cs r. check c = (cs, Some r) \<Longrightarrow> r \<noteq> RunServes"
  obtains c cs os r where "load_server_config (sh_config h) explicit = Inr c" "check c = (cs, None)"
    "connect h (sc_database_url c) = (os, None)" "act c d = ((r, RunServes), d')"
    "es = map ErrLine (load_warnings (sh_config h) explicit) @ cs @ os @ r"
proof -
  from assms(1) obtain c where c: "load_server_config (sh_config h) explicit = Inr c"
    by (auto simp: with_database_def Let_def split: sum.splits)
  obtain cs e where ck: "check c = (cs, e)" by (rule prod.exhaust)
  have e: "e = None"
    using assms(1) c ck assms(2) by (auto simp: with_database_def Let_def split: option.splits)
  obtain os oe where o: "connect h (sc_database_url c) = (os, oe)" by (rule prod.exhaust)
  have oe: "oe = None"
    using assms(1) c ck e o by (auto simp: with_database_def Let_def split: option.splits)
  obtain r k d'' where a: "act c d = ((r, k), d'')" by (metis prod.exhaust)
  have "es = map ErrLine (load_warnings (sh_config h) explicit) @ cs @ os @ r \<and> k = RunServes \<and> d'' = d'"
    using assms(1) c ck e o oe a by (simp add: with_database_def Let_def then_run_def)
  with that [OF c] ck e o oe a show thesis by simp
qed

lemma connect_opens: "connect h url = (os, None) \<Longrightarrow> last os = DatabaseOpened url \<and> os \<noteq> []"
  by (auto simp: connect_def split: option.splits)

text \<open>Only the mode without a subcommand serves.\<close>

lemma config_cmd_ends: "ends (handle_config_cmd h args)"
  by (simp add: handle_config_cmd_def write_template_ends split: option.split prod.split)

lemma cert_init_ends: "ends (cert_init h host out)"
  by (simp add: cert_init_def Let_def try_call_ends split: sum.split prod.split)

lemma cert_cmd_ends: "ends (handle_cert_cmd h args i)"
  by (simp add: handle_cert_cmd_def cert_init_ends cert_fingerprint_def try_call_ends
      split: option.split sum.split)

lemma with_database_ends:
  assumes "\<And>c cs r. check c = (cs, Some r) \<Longrightarrow> r \<noteq> RunServes" and "\<And>c. ends (fst (act c d))"
  shows "ends (fst (with_database h explicit check act d))"
proof (rule ccontr)
  obtain es k d' where w: "with_database h explicit check act d = ((es, k), d')" by (metis prod.exhaust)
  assume "\<not> ends (fst (with_database h explicit check act d))"
  with w have "with_database h explicit check act d = ((es, RunServes), d')" by (simp add: ends_def)
  then show False
  proof (rule with_database_serves)
    fix c r
    assume "act c d = ((r, RunServes), d')"
    with assms(2) [of c] show False by (simp add: ends_def)
  qed (rule assms(1))
qed

lemma positional_usage: "extract_positional_args args flag = Inl r \<Longrightarrow> r = reset_usage"
proof (induction args)
  case (Cons a as)
  then show ?case by (cases as; cases "tl as") (simp_all split: if_splits)
qed simp

lemma positional_ends: "extract_positional_args args flag = Inl r \<Longrightarrow> ends r"
  using positional_usage [of args flag r] by (simp add: reset_usage_def)

lemma auth_checked_ends: "auth_checked c = (cs, Some r) \<Longrightarrow> r \<noteq> RunServes"
  by (auto simp: auth_checked_def)

lemma no_check_ends: "no_check c = (cs, Some r) \<Longrightarrow> r \<noteq> RunServes"
  by (simp add: no_check_def)

lemma reset_action_ends: "ends (fst (reset_action x now salt user pw c d))"
  by (simp add: reset_action_def split: prod.split sum.split)

lemma reset_cmd_ends: "ends (fst (reset_password_cmd x h now salt args explicit d))"
proof (cases "extract_positional_args args ''--reset-password''")
  case (Inl r)
  with positional_ends [OF Inl] show ?thesis by (simp add: reset_password_cmd_def)
next
  case (Inr p)
  have "ends (fst (with_database h explicit auth_checked (reset_action x now salt (fst p) (snd p)) d))"
    by (rule with_database_ends [OF auth_checked_ends reset_action_ends])
  with Inr show ?thesis by (simp add: reset_password_cmd_def case_prod_beta)
qed

lemma sync_ends: "ends (fst (collector_sync h now root d))"
  by (simp add: collector_sync_def split: prod.split sum.split)

lemma registered_ends: "ends (registered_run r)"
  by (cases r) simp_all

lemma register_ends: "ends (fst (collector_register h now dir d))"
  by (simp add: collector_register_def registered_ends split: prod.split sum.split)

lemma inspect_ends: "ends (collector_inspect h args)"
  by (simp add: collector_inspect_def inspect_usage_def split: option.split sum.split prod.split)

lemma collector_cmd_ends: "ends (fst (handle_collector_cmd h now args i explicit d))"
  unfolding handle_collector_cmd_def
  by (simp add: inspect_ends with_database_ends [OF no_check_ends] sync_ends register_ends split: option.split)

lemma serving_is_server_mode:
  assumes "server_main x h now salt args d = ((es, RunServes), d')"
  obtains explicit idx where "parse_cli args = Inr (None, explicit, idx)"
    "server_mode h explicit d = ((es, RunServes), d')"
proof -
  have s: "\<not> ends (fst (server_main x h now salt args d))" using assms by (simp add: ends_def)
  have "\<exists>explicit idx. parse_cli args = Inr (None, explicit, idx)"
  proof (cases "parse_cli args")
    case (Inl r)
    then have "ends r" by (auto simp: parse_cli_def split: if_splits)
    with s Inl show ?thesis by (simp add: server_main_def)
  next
    case (Inr p)
    then obtain sub explicit idx where p: "parse_cli args = Inr (sub, explicit, idx)" by (cases p) auto
    have "sub = None"
    proof (rule ccontr)
      assume "sub \<noteq> None"
      then obtain cmd where "sub = Some cmd" by blast
      with s p show False
        by (simp add: server_main_def reset_cmd_ends config_cmd_ends collector_cmd_ends cert_cmd_ends
            split: if_splits)
    qed
    with p show ?thesis by blast
  qed
  then obtain explicit idx where p: "parse_cli args = Inr (None, explicit, idx)" by blast
  with assms have "server_mode h explicit d = ((es, RunServes), d')" by (simp add: server_main_def)
  with p show thesis by (rule that)
qed

lemma server_checks_None:
  "server_checks c = (cs, None) \<longleftrightarrow> validate_auth c = None \<and> has_listener c \<and> cs = [LogPolicySet (sc_log_policy c)]"
  by (auto simp: server_checks_def split: option.split)

lemma server_checks_Some: "server_checks c = (cs, Some r) \<Longrightarrow> r \<noteq> RunServes"
  by (auto simp: server_checks_def split: option.splits if_splits)

text \<open>
  The listeners a run starts: the encrypted one with a certificate that could be loaded, the plain one
  where the configuration has it. A plain listener without the encrypted one may be missing.
\<close>

definition listener :: "run_event \<Rightarrow> bool" where
  "listener e \<longleftrightarrow> (\<exists>a s. e = HttpsListener a s) \<or> (\<exists>a. e = HttpListener a \<or> e = HttpListenerPanicked a)"

lemma start_server_serves:
  assumes "start_server h c = (r, RunServes)"
  shows "\<exists>ls. r = [CleanupStarted (sc_metrics_retention_days c) (sc_cleanup_interval_hours c), AppBuilt (app_of c)] @ ls
    \<and> ls \<noteq> [] \<and> (\<forall>e \<in> set ls. listener e)
    \<and> (\<forall>s. sc_https c = Some s \<longrightarrow> load_tls_config h s = None \<and> HttpsListener (hs_listen_addr s) s \<in> set ls)"
  using assms
  by (auto simp: start_server_def then_run_def try_call_def https_run_def http_event_def listener_def
      first_error_None split: if_splits option.splits)

lemma load_warnings_no_listener: "e \<in> set (map ErrLine ws) \<Longrightarrow> \<not> listener e"
  by (auto simp: listener_def)

lemma connect_no_listener: "connect h url = (os, r) \<Longrightarrow> e \<in> set os \<Longrightarrow> \<not> listener e"
  by (auto simp: connect_def listener_def split: option.splits)

definition safe_to_serve :: "server_config \<Rightarrow> bool" where
  "safe_to_serve c \<longleftrightarrow> sound_config c \<and> 8 \<le> pp_min_length (sc_password_policy c)
     \<and> 300 \<le> sp_ttl_secs (sc_session_policy c) \<and> has_listener c"

lemma server_mode_serves:
  assumes "server_mode h explicit d = ((es, RunServes), d')"
  shows "d' = d \<and> (\<exists>c before ls. load_server_config (sh_config h) explicit = Inr c \<and> safe_to_serve c
    \<and> es = before @ [DatabaseOpened (sc_database_url c),
        CleanupStarted (sc_metrics_retention_days c) (sc_cleanup_interval_hours c), AppBuilt (app_of c)] @ ls
    \<and> (\<forall>e \<in> set before. \<not> listener e) \<and> LogPolicySet (sc_log_policy c) \<in> set before
    \<and> ls \<noteq> [] \<and> (\<forall>e \<in> set ls. listener e)
    \<and> (\<forall>s. sc_https c = Some s \<longrightarrow> load_tls_config h s = None \<and> HttpsListener (hs_listen_addr s) s \<in> set ls))"
proof -
  from assms obtain c cs os r where
    c: "load_server_config (sh_config h) explicit = Inr c" and k: "server_checks c = (cs, None)"
    and o: "connect h (sc_database_url c) = (os, None)" and a: "(start_server h c, d) = ((r, RunServes), d')"
    and es: "es = map ErrLine (load_warnings (sh_config h) explicit) @ cs @ os @ r"
    unfolding server_mode_def by (rule with_database_serves) (auto dest: server_checks_Some)
  from start_server_serves [of h c r] a obtain ls where
    ls: "r = [CleanupStarted (sc_metrics_retention_days c) (sc_cleanup_interval_hours c), AppBuilt (app_of c)] @ ls"
      "ls \<noteq> []" "\<forall>e \<in> set ls. listener e"
      "\<forall>s. sc_https c = Some s \<longrightarrow> load_tls_config h s = None \<and> HttpsListener (hs_listen_addr s) s \<in> set ls"
    by auto
  from k have v: "validate_auth c = None" "has_listener c" "cs = [LogPolicySet (sc_log_policy c)]"
    unfolding server_checks_None by blast+
  from v load_sound [OF c] have safe: "safe_to_serve c"
    by (auto simp: safe_to_serve_def validate_auth_def first_error_None split: if_splits)
  let ?b = "map ErrLine (load_warnings (sh_config h) explicit) @ cs @ butlast os"
  from connect_opens [OF o] have os: "os = butlast os @ [DatabaseOpened (sc_database_url c)]"
    by (metis append_butlast_last_id)
  have "es = ?b @ [DatabaseOpened (sc_database_url c),
      CleanupStarted (sc_metrics_retention_days c) (sc_cleanup_interval_hours c), AppBuilt (app_of c)] @ ls"
    unfolding es ls(1) by (subst os) simp
  moreover have "\<forall>e \<in> set ?b. \<not> listener e"
    using connect_no_listener [OF o] v(3) by (auto simp: listener_def dest: in_set_butlastD)
  moreover have "LogPolicySet (sc_log_policy c) \<in> set ?b" using v(3) by simp
  ultimately show ?thesis using c safe ls(2-4) a by blast
qed

section \<open>Passwords from the command line\<close>

lemma reset_user_stored:
  assumes "reset_user_password x now salt name pw policy d = (Inr a, d')"
  shows "validate_password pw policy = None \<and> (\<exists>u \<in> set (users d'). u_id u = au_id a \<and> u_username u = trim name
    \<and> u_password_hash u = ext_hash_password x salt pw)"
proof -
  from assms obtain u where v: "validate_password pw policy = None"
    and u: "find_row (\<lambda>r. u_username r = trim name) (users d) = Some u"
    by (auto simp: reset_user_password_def split: option.splits)
  let ?f = "\<lambda>q. q\<lparr>u_password_hash := ext_hash_password x salt pw, u_password_changed_at := now,
    u_must_change_password := pp_force_change_after_reset policy, u_updated_at := now\<rparr>"
  have d': "d' = revoke_user_sessions now (u_id u) (set_user (u_id u) ?f d)"
    and a: "user_by_id d' (u_id u) = Some a"
    using assms u v by (auto simp: reset_user_password_def Let_def or_fail_def split: option.splits)
  from u have m: "u \<in> set (users d)" "u_username u = trim name" by (auto dest: find_Some_D)
  then have "?f u \<in> set (users d')"
    by (auto simp: d' revoke_user_sessions_def set_user_def update_where_def)
  moreover have "au_id a = u_id u"
    using a by (auto simp: user_by_id_def enrich_effective_role_def user_from_row_def user_of_def dest: find_Some_D)
  ultimately show ?thesis using v m by (intro conjI bexI [of _ "?f u"]) simp_all
qed

lemma reset_by_command:
  assumes "prog \<noteq> ''--reset-password''"
    and "server_main x h now salt [prog, ''--reset-password'', user, pw] d = ((es, RunOk), d')"
  shows "\<exists>c a. load_server_config (sh_config h) None = Inr c \<and> validate_auth c = None
    \<and> reset_user_password x now salt user pw (sc_password_policy c) d = (Inr a, d')"
proof -
  have cmd: "server_main x h now salt [prog, ''--reset-password'', user, pw] d =
      with_database h None auth_checked (reset_action x now salt user pw) d"
    using assms(1) by (simp add: server_main_def parse_cli_def is_help_def reset_password_cmd_def)
  show ?thesis
    using assms(2) unfolding cmd
    by (auto simp: with_database_def Let_def auth_checked_def reset_action_def then_run_def printed_def
        split: sum.splits option.splits prod.splits)
qed

end
