(* ===== verification/AgentMain.thy ===== *)
theory AgentMain
  imports Programs AgentLoop
begin

text \<open>
  The agent program (\<^verbatim>\<open>agent/src/main.rs\<close>, \<^verbatim>\<open>agent/src/config.rs\<close>): its configuration, its command line
  with the subcommands \<open>config\<close>, \<open>collector\<close> and \<open>ca\<close>, and its start up to the two loops (theories
  AgentLoop and AgentTasks). What the TOML library makes of the file and what the operating system and
  the network answer are the fields of \<open>agent_program\<close> (\<open>ng_download\<close> is the outcome of a download: the bytes
  or the error of a step).
\<close>

section \<open>Configuration\<close>

datatype config_source = CliSource | EnvSource | ExecutableDir | BuiltInDefault

record agent_start_config =
  nc_listen_addr :: string
  nc_server_url :: string
  nc_node_name :: string
  nc_state_path :: string
  nc_ca_cert_path :: "string option"
  nc_insecure_skip_tls_verify :: bool
  nc_collector_root :: "string option"
  nc_collector_mode :: string
  nc_collector_enabled :: "string list"
  nc_collector_disabled :: "string list"

record agent_section =
  ga_listen_addr :: "string option"
  ga_server_url :: "string option"
  ga_node_name :: "string option"
  ga_state_path :: "string option"

record agent_server_section =
  gv_url :: "string option"
  gv_ca_cert_path :: "string option"
  gv_insecure_skip_tls_verify :: "bool option"

record gpu_collectors_section =
  gp_root :: "string option"
  gp_mode :: "string option"
  gp_enabled :: "string list option"
  gp_disabled :: "string list option"

record agent_file_config =
  gf_agent :: "agent_section option"
  gf_server :: "agent_server_section option"
  gf_gpu_collectors :: "gpu_collectors_section option"

record agent_program =
  ng_version :: string
  ng_env :: "string \<Rightarrow> string option"
  ng_read :: "string \<Rightarrow> string + string"
  ng_toml :: "string \<Rightarrow> string + agent_file_config"
  ng_is_file :: "string \<Rightarrow> bool"
  ng_make_dirs :: "string \<Rightarrow> string option"
  ng_exists :: "string \<Rightarrow> bool"
  ng_write :: "string \<Rightarrow> string option"
  ng_address :: "string \<Rightarrow> string option"
  ng_bind :: "string \<Rightarrow> string option"
  ng_sha :: "string \<Rightarrow> string"
  ng_meta :: "string \<Rightarrow> io_error + file_meta"
  ng_collector :: "string \<Rightarrow> dir_entry"
  ng_root :: "string \<Rightarrow> dir_entry list"
  ng_pretty :: "json \<Rightarrow> string"
  ng_debug :: "string list \<Rightarrow> string"
  ng_download :: "string \<Rightarrow> string + string"
  ng_input :: "string + string"
  ng_log_dir :: "string option"
  ng_now :: nat

definition host_name :: "agent_program \<Rightarrow> string" where
  "host_name h = (case ng_env h ''HOSTNAME'' of Some n \<Rightarrow> n | None \<Rightarrow> ''lightai-agent'')"

definition default_start_config :: "agent_program \<Rightarrow> agent_start_config" where
  "default_start_config h =
     \<lparr>nc_listen_addr = ''127.0.0.1:18081'', nc_server_url = ''https://127.0.0.1:18443'',
      nc_node_name = host_name h, nc_state_path = ''data/agent-state.toml'',
      nc_ca_cert_path = Some ''./certs/ca.crt'', nc_insecure_skip_tls_verify = False,
      nc_collector_root = Some ''./collectors/gpu'', nc_collector_mode = ''explicit'',
      nc_collector_enabled = [''nvidia-wsl''], nc_collector_disabled = []\<rparr>"

definition agent_members :: "agent_section \<Rightarrow> agent_start_config \<Rightarrow> agent_start_config" where
  "agent_members s c =
     given (ga_state_path s) (\<lambda>v c. c\<lparr>nc_state_path := v\<rparr>)
       (given (ga_node_name s) (\<lambda>v c. c\<lparr>nc_node_name := v\<rparr>)
         (given (ga_server_url s) (\<lambda>v c. c\<lparr>nc_server_url := v\<rparr>)
           (given (ga_listen_addr s) (\<lambda>v c. c\<lparr>nc_listen_addr := v\<rparr>) c)))"

definition agent_server_members :: "agent_server_section \<Rightarrow> agent_start_config \<Rightarrow> agent_start_config" where
  "agent_server_members s c =
     given (gv_insecure_skip_tls_verify s) (\<lambda>v c. c\<lparr>nc_insecure_skip_tls_verify := v\<rparr>)
       (given (gv_ca_cert_path s) (\<lambda>v c. c\<lparr>nc_ca_cert_path := (if v = [] then None else Some v)\<rparr>)
         (given (gv_url s) (\<lambda>v c. c\<lparr>nc_server_url := v\<rparr>) c))"

definition gpu_collectors_members ::
  "gpu_collectors_section \<Rightarrow> agent_start_config \<Rightarrow> string + agent_start_config" where
  "gpu_collectors_members s c =
     (let c1 = given (gp_root s) (\<lambda>v c. if blank v then c else c\<lparr>nc_collector_root := Some v\<rparr>) c;
          others = (\<lambda>c. given (gp_disabled s) (\<lambda>v c. c\<lparr>nc_collector_disabled := v\<rparr>)
                     (given (gp_enabled s) (\<lambda>v c. c\<lparr>nc_collector_enabled := v\<rparr>) c))
      in case gp_mode s of
           None \<Rightarrow> Inr (others c1)
         | Some m \<Rightarrow>
             if m = ''explicit'' \<or> m = ''auto'' then Inr (others (c1\<lparr>nc_collector_mode := m\<rparr>))
             else Inl (''gpu_collectors.mode must be '' @ quoted ''explicit'' @ '' or '' @ quoted ''auto''
                       @ '', got '' @ quoted m))"

definition agent_config_of_file :: "agent_program \<Rightarrow> agent_file_config \<Rightarrow> string + agent_start_config" where
  "agent_config_of_file h f =
     (let c = given (gf_server f) agent_server_members (given (gf_agent f) agent_members (default_start_config h)) in
      case gf_gpu_collectors f of None \<Rightarrow> Inr c | Some s \<Rightarrow> gpu_collectors_members s c)"

definition agent_config_from_file :: "agent_program \<Rightarrow> string \<Rightarrow> string + agent_start_config" where
  "agent_config_from_file h path =
     (case ng_read h path of
        Inl e \<Rightarrow> Inl (''cannot read config file '' @ quoted path @ '': '' @ e)
      | Inr t \<Rightarrow> (case ng_toml h t of Inl e \<Rightarrow> Inl e | Inr f \<Rightarrow> agent_config_of_file h f))"

definition DEFAULT_AGENT_CONFIG_PATH :: string where
  "DEFAULT_AGENT_CONFIG_PATH = ''/etc/lightai/lightai-agent.toml''"

definition from_source :: "config_source \<Rightarrow> string + 'c \<Rightarrow> string + 'c \<times> config_source" where
  "from_source src r = (case r of Inl e \<Rightarrow> Inl e | Inr c \<Rightarrow> Inr (c, src))"

definition load_with_priority ::
  "agent_program \<Rightarrow> string option \<Rightarrow> string + agent_start_config \<times> config_source" where
  "load_with_priority h cli_path =
     (case cli_path of
        Some p \<Rightarrow>
          if p = [] then Inl ''--config requires a non-empty path''
          else from_source CliSource (agent_config_from_file h p)
      | None \<Rightarrow>
     (case Option.bind (ng_env h ''LIGHTAI_AGENT_CONFIG'') (\<lambda>p. if blank p then None else Some p) of
        Some p \<Rightarrow> from_source EnvSource (agent_config_from_file h p)
      | None \<Rightarrow>
          if ng_is_file h DEFAULT_AGENT_CONFIG_PATH
          then from_source ExecutableDir (agent_config_from_file h DEFAULT_AGENT_CONFIG_PATH)
          else Inr (default_start_config h, BuiltInDefault)))"

fun source_label :: "config_source \<Rightarrow> string" where
  "source_label CliSource = ''cli (--config)''"
| "source_label EnvSource = ''env (LIGHTAI_AGENT_CONFIG)''"
| "source_label ExecutableDir = DEFAULT_AGENT_CONFIG_PATH"
| "source_label BuiltInDefault = ''built_in_default''"

text \<open>The part of the configuration the heartbeat loop uses.\<close>

definition settings_of :: "agent_program \<Rightarrow> agent_start_config \<Rightarrow> agent_settings" where
  "settings_of h c =
     \<lparr>as_node_name = nc_node_name c,
      as_hostname = (case ng_env h ''HOSTNAME'' of Some n \<Rightarrow> n | None \<Rightarrow> nc_node_name c),
      as_collector_root = nc_collector_root c, as_collector_mode = nc_collector_mode c,
      as_collector_enabled = nc_collector_enabled c, as_collector_disabled = nc_collector_disabled c\<rparr>"

section \<open>Texts\<close>

text \<open>U+2500, and a full-width closing bracket with an ideographic full stop.\<close>

definition box_line :: string where
  "box_line = [CHR 0xE2, CHR 0x94, CHR 0x80]"

definition wide_end :: string where
  "wide_end = [CHR 0xEF, CHR 0xBC, CHR 0x89, CHR 0xE3, CHR 0x80, CHR 0x82]"

definition AGENT_HELP :: string where
  \<open>AGENT_HELP = text_of [
     ''lightai-agent '' @ em_dash @ '' LightAI GPU Model Management Platform Agent'',
     [],
     ''USAGE:'',
     ''    lightai-agent [OPTIONS]'',
     ''    lightai-agent config <SUBCOMMAND>'',
     ''    lightai-agent collector <SUBCOMMAND>'',
     [],
     ''OPTIONS:'',
     ''    --config <PATH>'',
     ''                Path to LightAI Agent config TOML file.'',
     ''                Env: LIGHTAI_AGENT_CONFIG.'',
     ''                Default: /etc/lightai/lightai-agent.toml.'',
     ''                Falls back to built-in defaults if the file does not exist.'',
     ''    --help           Show this help message'',
     ''    --version        Show version information'',
     [],
     ''CONFIGURATION (priority order):'',
     ''    1. --config <PATH>'',
     ''    2. LIGHTAI_AGENT_CONFIG environment variable'',
     ''    3. /etc/lightai/lightai-agent.toml'',
     ''    4. Built-in defaults'',
     [],
     ''    Config file supports [agent] and optional [gpu_collectors] sections.'',
     ''    When [gpu_collectors].root is set, collectors must be registered in the'',
     ''    Server registry before they execute (fail-closed).'',
     ''    If [gpu_collectors] is omitted, no GPU collector scripts execute.'',
     [],
     ''CONFIG SUBCOMMANDS:'',
     ''    lightai-agent config init <PATH> [--force]'',
     ''        Generate a configuration template file at <PATH>.'',
     ''        Does NOT overwrite existing files unless --force is given.'',
     ''        This command does not require a Server connection.'',
     [],
     ''COLLECTOR SUBCOMMANDS:'',
     ''    lightai-agent collector inspect <DIR>'',
     ''        Inspect a collector directory and output registry-ready JSON.'',
     ''        The output can be pasted into the Web collector registry page.'',
     ''        This command does NOT register, approve, or execute any script.'',
     [],
     ''DESCRIPTION:'',
     ''    LightAI Agent runs on GPU nodes. Responsibilities:'',
     ''    - Register with Server and report heartbeat'',
     ''    - Execute GPU device discovery and metrics collection'',
     ''    - Execute controlled tasks: model verification, instance start/stop, file cleanup'']\<close>

definition AGENT_CONFIG_HELP :: string where
  \<open>AGENT_CONFIG_HELP = text_of [
     ''lightai-agent config '' @ em_dash @ '' Configuration file management'',
     [],
     ''USAGE:'',
     ''    lightai-agent config init [PATH] [--force]'',
     [],
     ''SUBCOMMANDS:'',
     ''    init    Generate a LightAI Agent config template.'',
     ''            If PATH is omitted, writes ./lightai-agent.toml'',
     ''            in the current working directory.'',
     ''            Use --force to overwrite an existing file.'',
     [],
     ''EXAMPLES:'',
     ''    lightai-agent config init'',
     ''    lightai-agent config init ./my-agent.toml'',
     ''    lightai-agent config init /etc/lightai/lightai-agent.toml'',
     ''    lightai-agent config init --force'',
     ''    lightai-agent config init /etc/lightai/lightai-agent.toml --force'',
     [],
     ''    The generated template includes:'',
     ''    - [agent] section with defaults'',
     ''    - [gpu_collectors] section (commented out by default)'',
     ''    - Inline comments explaining each field'']\<close>

definition CA_HELP :: string where
  \<open>CA_HELP = text_of [
     ''lightai-agent ca '' @ em_dash @ '' CA certificate management'',
     [],
     ''USAGE:'',
     ''    lightai-agent ca fetch --server <URL> --out <PATH>'',
     [],
     ''EXAMPLES:'',
     ''    lightai-agent ca fetch --server https://172.19.168.153:18443 --out ./certs/ca.crt'',
     [],
     ''DESCRIPTION:'',
     ''    Downloads the public CA certificate from the Server's well-known endpoint'',
     ''    (/.well-known/lightai/ca.crt), computes and displays the SHA256 fingerprint,'',
     ''    and prompts for confirmation before saving.  TLS verification is temporarily'',
     ''    disabled only for this single download request '' @ em_dash @ '' never for normal Agent operation.'']\<close>

definition AGENT_CONFIG_TEMPLATE :: string where
  \<open>AGENT_CONFIG_TEMPLATE = text_of [
     ''# LightAI Agent configuration.'',
     ''# Generated by: lightai-agent config init'',
     [],
     ''[agent]'',
     ''# Agent local listen address.'',
     ''listen_addr = "127.0.0.1:18081"'',
     [],
     ''# Agent state file path.'',
     ''state_path = "data/agent-state.toml"'',
     [],
     ''[server]'',
     ''# LightAI Server URL (HTTPS required for production).'',
     ''url = "https://127.0.0.1:18443"'',
     [],
     ''# Path to CA certificate for Server TLS verification.'',
     ''ca_cert_path = "./certs/ca.crt"'',
     [],
     ''# WARNING: Only for temporary diagnostics.  Never use in production.'',
     ''# insecure_skip_tls_verify = false'',
     [],
     ''# '' @ box_line @ box_line @ '' GPU / accelerator collector configuration '' @ box_line @ box_line,
     ''# Paths are relative to the process CWD.'',
     ''# With systemd WorkingDirectory=/opt/lightai, root="./collectors/gpu"'',
     ''# resolves to /opt/lightai/collectors/gpu.'',
     ''#'',
     ''# Enabling workflow:'',
     ''#   1. Place collector files on the agent machine:'',
     ''#        /opt/lightai/collectors/gpu/nvidia-wsl/{collector.toml,discover.sh,metrics.sh}'',
     ''#   2. Register via Server CLI (recommended):'',
     ''#        lightai-server collector register --dir /opt/lightai/collectors/gpu/nvidia-wsl'',
     ''#      Or inspect + Web:'',
     ''#        lightai-agent collector inspect /opt/lightai/collectors/gpu/nvidia-wsl'',
     ''#        -> paste JSON into Web collector registry page'',
     ''#   3. Start the agent'',
     ''#'',
     ''# The framework is fail-closed: without a registered Server registry entry'',
     ''# matching id+version+hash, the collector will NOT execute.'',
     ''#'',
     ''# The default nvidia-wsl collector uses /usr/lib/wsl/lib/nvidia-smi.'',
     ''# For non-WSL environments, edit the NVIDIA_SMI path in the collector scripts'',
     ''# and re-register via the Server CLI.'',
     [],
     ''[gpu_collectors]'',
     ''root = "./collectors/gpu"'',
     ''mode = "explicit"         # "explicit" (only enabled list) or "auto" (scan all)'',
     ''enabled = ["nvidia-wsl"]'',
     ''# disabled = []'']\<close>

definition AGENT_COLLECTOR_HELP :: string where
  \<open>AGENT_COLLECTOR_HELP = text_of [
     ''lightai-agent collector '' @ em_dash @ '' GPU collector management'',
     [],
     ''USAGE:'',
     ''    lightai-agent collector inspect <DIR>'',
     [],
     ''SUBCOMMANDS:'',
     ''    inspect  Inspect a collector directory and output registry JSON.'',
     [],
     ''EXAMPLES:'',
     ''    lightai-agent collector inspect /opt/lightai/collectors/gpu/nvidia-wsl'',
     [],
     ''    The inspect command:'',
     ''    - Reads collector.toml from the directory'',
     ''    - Computes SHA-256 of discover.sh and metrics.sh (in-process, no sha256sum)'',
     ''    - Checks file permissions (no symlinks, no world-writable)'',
     ''    - Outputs JSON to stdout for pasting into Web 'collector registry' page'',
     ''    - Does NOT register, approve, or execute any script'']\<close>

definition INSPECT_USAGE :: string where
  "INSPECT_USAGE = ''USAGE: lightai-agent collector inspect <DIR>'' @ newline @ newline
     @ ''Inspect a collector directory and output registry JSON.'' @ newline
     @ ''The output can be pasted into the Web collector registry page.'' @ newline
     @ ''This command does NOT register, approve, or execute scripts.''"

section \<open>Subcommands\<close>

definition agent_config_cmd :: "agent_program \<Rightarrow> string list \<Rightarrow> run" where
  "agent_config_cmd h args =
     (case nth_opt args 2 of
        None \<Rightarrow> printed [AGENT_CONFIG_HELP]
      | Some sub \<Rightarrow>
          if is_help sub then printed [AGENT_CONFIG_HELP]
          else if sub = ''init''
          then (if \<exists>a \<in> set (drop 3 args). is_help a then printed [AGENT_CONFIG_HELP]
                else case init_options (drop 3 args) (None, False) of (path, force) \<Rightarrow>
                  write_template (ng_make_dirs h) (ng_exists h) (ng_write h) AGENT_CONFIG_TEMPLATE
                    (case path of Some p \<Rightarrow> p | None \<Rightarrow> ''lightai-agent.toml'') force)
          else refused_run [''unknown config subcommand: '' @ sub, ''try: lightai-agent config --help''])"

definition agent_inspection_json :: "agent_inspection \<Rightarrow> json" where
  "agent_inspection_json r =
     (let m = ix_manifest r in JObj ([
       (''id'', JStr (mf_c_id m)), (''vendor'', JStr (mf_c_vendor m)), (''name'', JStr (mf_c_name m)),
       (''version'', JStr (mf_c_version m)), (''description'', JStr (mf_c_description m)),
       (''discover'', JStr (mf_c_discover m)), (''metrics'', JStr (mf_c_metrics m)),
       (''discover_sha256'', JStr (ix_discover_sha256 r)), (''metrics_sha256'', JStr (ix_metrics_sha256 r))]
       @ (if ix_warnings r = [] then [] else [(''warnings'', JArr (map JStr (ix_warnings r)))])))"

definition inspect_run :: "agent_program \<Rightarrow> string \<Rightarrow> run" where
  "inspect_run h dir =
     (case agent_inspect (ng_sha h) (ng_meta h) (ng_collector h dir) of
        Inl e \<Rightarrow> ([], RunError e)
      | Inr r \<Rightarrow> then_run (map (\<lambda>w. ErrLine (''WARNING: '' @ w)) (ix_warnings r))
          (printed [ng_pretty h (agent_inspection_json r)]))"

definition agent_collector_cmd :: "agent_program \<Rightarrow> string list \<Rightarrow> run" where
  "agent_collector_cmd h args =
     (case nth_opt args 2 of
        None \<Rightarrow> refused_run [''missing collector subcommand'', ''try: lightai-agent collector --help'']
      | Some cmd \<Rightarrow>
          if is_help cmd then printed [AGENT_COLLECTOR_HELP]
          else if cmd = ''inspect''
          then (case nth_opt args 3 of
                  Some a \<Rightarrow> if is_help a then printed [INSPECT_USAGE] else inspect_run h a
                | None \<Rightarrow> inspect_run h ''.'')
          else refused_run [''unknown collector subcommand: '' @ cmd, ''try: lightai-agent collector --help''])"

definition ca_url :: "string \<Rightarrow> string" where
  "ca_url server = trim_end_matches [CHR ''/''] server @ ''/.well-known/lightai/ca.crt''"

definition said_yes :: "string \<Rightarrow> bool" where
  "said_yes input \<longleftrightarrow> to_ascii_lowercase (trim input) = ''y'' \<or> to_ascii_lowercase (trim input) = ''yes''"

definition save_ca :: "agent_program \<Rightarrow> string \<Rightarrow> string \<Rightarrow> run" where
  "save_ca h out cert =
     try_call (ng_write h out) [FileWritten out cert]
       ([ErrLine (''CA certificate saved to '' @ out)], RunOk)"

text \<open>The certificate is saved after a confirmation, or at once with \<open>--yes\<close>.\<close>

definition confirm_ca :: "agent_program \<Rightarrow> string \<Rightarrow> string \<Rightarrow> run" where
  "confirm_ca h out cert =
     then_run
       [ErrLine ''Please verify this fingerprint matches the one displayed by init-server.sh.'',
        Prompt (''Save CA certificate to '' @ out @ ''? [y/N] '')]
       (case ng_input h of
          Inl e \<Rightarrow> ([], RunError e)
        | Inr line \<Rightarrow> if said_yes line then save_ca h out cert else ([ErrLine ''Aborted.''], RunOk))"

definition fingerprint_line :: "agent_program \<Rightarrow> string \<Rightarrow> run_event" where
  "fingerprint_line h cert = ErrLine (''CA SHA256 fingerprint: '' @ ng_sha h cert)"

definition download_ca :: "agent_program \<Rightarrow> string \<Rightarrow> string \<Rightarrow> bool \<Rightarrow> run" where
  "download_ca h server out auto_yes =
     then_run [ErrLine (''Downloading CA certificate from '' @ ca_url server @ '' ...'')]
       (case ng_download h (ca_url server) of
          Inl e \<Rightarrow> ([], RunError e)
        | Inr cert \<Rightarrow>
            then_run [fingerprint_line h cert]
              (if auto_yes then save_ca h out cert else confirm_ca h out cert))"

definition ca_fetch :: "agent_program \<Rightarrow> string \<Rightarrow> string \<Rightarrow> bool \<Rightarrow> run" where
  "ca_fetch h server out auto_yes =
     (case dir_to_make out of
        None \<Rightarrow> download_ca h server out auto_yes
      | Some dir \<Rightarrow> try_call (ng_make_dirs h dir) [DirsMade dir] (download_ca h server out auto_yes))"

definition agent_ca_cmd :: "agent_program \<Rightarrow> string list \<Rightarrow> run" where
  "agent_ca_cmd h args =
     (case nth_opt args 2 of
        None \<Rightarrow> printed [CA_HELP]
      | Some cmd \<Rightarrow>
          if is_help cmd then printed [CA_HELP]
          else if cmd = ''fetch''
          then (case extract_flag_value args ''--server'' of
                  None \<Rightarrow> refused_run [''usage: lightai-agent ca fetch --server <URL> --out <PATH> [--yes]'']
                | Some server \<Rightarrow>
                    ca_fetch h server
                      (case extract_flag_value args ''--out'' of Some out \<Rightarrow> out | None \<Rightarrow> ''./certs/ca.crt'')
                      (''--yes'' \<in> set args))
          else refused_run [''unknown ca subcommand: '' @ cmd, CA_HELP])"

section \<open>Start\<close>

text \<open>\<open>--config\<close> may stand anywhere behind the program's name; without a path it counts as absent.\<close>

definition extract_config_path :: "string list \<Rightarrow> string option" where
  "extract_config_path args = extract_flag_value (tl args) ''--config''"

text \<open>The lines of the diagnostics, with their levels.\<close>

definition found_line :: "collector_dir \<Rightarrow> string" where
  "found_line c =
     (let m = cd_manifest c in
      ''GPU collector found: id='' @ mf_c_id m @ '', vendor='' @ mf_c_vendor m @ '', name='' @ mf_c_name m
      @ '', version='' @ mf_c_version m @ '', discover_sha256='' @ take 16 (cd_discover_sha256 c)
      @ '', metrics_sha256='' @ take 16 (cd_metrics_sha256 c))"

definition gpu_collector_diagnostics :: "agent_program \<Rightarrow> agent_start_config \<Rightarrow> (string \<times> string) list" where
  "gpu_collector_diagnostics h c =
     (case nc_collector_root c of
        None \<Rightarrow> [(''warn'', ''GPU collector: [gpu_collectors].root is not configured; no GPU scripts will execute. ''
          @ ''Configure collector_root and register via the Web collector registry page.'')]
      | Some root \<Rightarrow>
          (let dirs = scan_collector_dirs (ng_sha h) (ng_root h root) in
           (''info'', ''GPU collector: root='' @ root @ '', mode='' @ nc_collector_mode c @ '', enabled=''
              @ ng_debug h (nc_collector_enabled c) @ '', disabled='' @ ng_debug h (nc_collector_disabled c))
           # (if dirs = []
              then [(''warn'', ''GPU collector: no valid collector directories found under root='' @ root @ ''.''
                @ ''Each collector directory requires collector.toml + discover.sh + metrics.sh.'')]
              else map (\<lambda>c. (''info'', found_line c)) dirs
                @ [(''info'', ''GPU collector: found '' @ int_str (int (length dirs)) @ '' collector dir(s) (mode=''
                     @ nc_collector_mode c @ wide_end
                     @ ''Scripts require Server registry hash verification before execution.'')])))"

text \<open>Lines appended to the agent's log until one fails, under the default policy.\<close>

fun append_lines :: "agent_program \<Rightarrow> (string \<times> string) list \<Rightarrow> log_files \<Rightarrow> string option \<times> log_files" where
  "append_lines h [] fs = (None, fs)"
| "append_lines h ((level, message) # ls) fs =
     (case append_log default_log_policy (ng_log_dir h) ''lightai-agent.log'' level message (ng_now h) fs of
        (Inl e, fs') \<Rightarrow> (Some e, fs')
      | (Inr _, fs') \<Rightarrow> append_lines h ls fs')"

text \<open>The two loops run beside the local listener until one of them ends.\<close>

definition start_agent :: "agent_program \<Rightarrow> string option \<Rightarrow> log_files \<Rightarrow> run \<times> log_files" where
  "start_agent h cli_path fs =
     (case load_with_priority h cli_path of
        Inl e \<Rightarrow> (([], RunError e), fs)
      | Inr (c, src) \<Rightarrow>
     (case append_lines h ((''info'', ''Agent starting, config source: '' @ source_label src)
              # gpu_collector_diagnostics h c) fs of
        (Some e, fs') \<Rightarrow> (([], RunError e), fs')
      | (None, fs') \<Rightarrow>
          (case first_error [ng_address h (nc_listen_addr c), ng_bind h (nc_listen_addr c)] of
             Some e \<Rightarrow> (([], RunError e), fs')
           | None \<Rightarrow> (([AgentListener (nc_listen_addr c), AgentLoops], RunServes), fs'))))"

definition agent_main :: "agent_program \<Rightarrow> string list \<Rightarrow> log_files \<Rightarrow> run \<times> log_files" where
  "agent_main h args fs =
     (case nth_opt args 1 of
        None \<Rightarrow> start_agent h (extract_config_path args) fs
      | Some cmd \<Rightarrow>
          if is_help cmd then (printed [AGENT_HELP], fs)
          else if cmd = ''--version'' \<or> cmd = ''-V'' then (printed [''lightai-agent '' @ ng_version h], fs)
          else if cmd = ''config'' then (agent_config_cmd h args, fs)
          else if cmd = ''collector'' then (agent_collector_cmd h args, fs)
          else if cmd = ''ca'' then (agent_ca_cmd h args, fs)
          else if cmd = ''--config'' then start_agent h (extract_config_path args) fs
          else (refused_run [(if starts_with cmd ''-'' then ''unknown option: '' else ''unknown command: '') @ cmd,
                  ''try: lightai-agent --help''], fs))"

section \<open>Facts\<close>

text \<open>A configuration that loads has one of the two modes, and a root.\<close>

lemma agent_config_frame:
  "nc_collector_mode (given a agent_members c) = nc_collector_mode c"
  "nc_collector_root (given a agent_members c) = nc_collector_root c"
  "nc_collector_mode (given s agent_server_members c) = nc_collector_mode c"
  "nc_collector_root (given s agent_server_members c) = nc_collector_root c"
  by (simp_all add: agent_members_def agent_server_members_def given_def split: option.split)

lemma gpu_collectors_frame:
  "nc_collector_mode (given e (\<lambda>v c. c\<lparr>nc_collector_enabled := v\<rparr>) c) = nc_collector_mode c"
  "nc_collector_root (given e (\<lambda>v c. c\<lparr>nc_collector_enabled := v\<rparr>) c) = nc_collector_root c"
  "nc_collector_mode (given e (\<lambda>v c. c\<lparr>nc_collector_disabled := v\<rparr>) c) = nc_collector_mode c"
  "nc_collector_root (given e (\<lambda>v c. c\<lparr>nc_collector_disabled := v\<rparr>) c) = nc_collector_root c"
  "nc_collector_mode (given r (\<lambda>v c. if blank v then c else c\<lparr>nc_collector_root := Some v\<rparr>) c) = nc_collector_mode c"
  by (simp_all add: given_def split: option.split)

lemma root_member_kept:
  "nc_collector_root c \<noteq> None \<Longrightarrow>
   nc_collector_root (given r (\<lambda>v c. if blank v then c else c\<lparr>nc_collector_root := Some v\<rparr>) c) \<noteq> None"
  by (simp add: given_def split: option.split)

definition config_ok :: "agent_start_config \<Rightarrow> bool" where
  "config_ok c \<longleftrightarrow> parse_collector_mode (nc_collector_mode c) \<noteq> None \<and> nc_collector_root c \<noteq> None"

lemma gpu_members_ok:
  assumes "gpu_collectors_members s c = Inr c'" and "config_ok c"
  shows "config_ok c'"
proof (cases "gp_mode s")
  case None
  with assms root_member_kept [of c "gp_root s"] show ?thesis
    by (auto simp: gpu_collectors_members_def Let_def config_ok_def gpu_collectors_frame)
next
  case (Some m)
  with assms(1) have m: "m = ''explicit'' \<or> m = ''auto''"
    by (simp add: gpu_collectors_members_def Let_def split: if_splits)
  then have "parse_collector_mode m \<noteq> None" by (auto simp: parse_collector_mode_def)
  with assms Some m root_member_kept [of c "gp_root s"] show ?thesis
    by (auto simp: gpu_collectors_members_def Let_def config_ok_def gpu_collectors_frame)
qed

lemma agent_config_of_file_ok:
  assumes "agent_config_of_file h f = Inr c"
  shows "config_ok c"
proof -
  let ?c = "given (gf_server f) agent_server_members (given (gf_agent f) agent_members (default_start_config h))"
  have "nc_collector_mode ?c = ''explicit''" "nc_collector_root ?c = Some ''./collectors/gpu''"
    unfolding agent_config_frame by (simp_all add: default_start_config_def)
  then have ok: "config_ok ?c" by (simp add: config_ok_def parse_collector_mode_def)
  show ?thesis
  proof (cases "gf_gpu_collectors f")
    case None
    with assms ok show ?thesis by (simp add: agent_config_of_file_def Let_def)
  next
    case (Some s)
    with assms have "gpu_collectors_members s ?c = Inr c" by (simp add: agent_config_of_file_def Let_def)
    then show ?thesis using ok by (rule gpu_members_ok)
  qed
qed

lemma agent_load_ok:
  assumes "load_with_priority h p = Inr (c, src)"
  shows "config_ok c"
proof -
  have d: "config_ok (default_start_config h)"
    by (simp add: config_ok_def default_start_config_def parse_collector_mode_def)
  have f: "config_ok c" if "agent_config_from_file h q = Inr c" for q
    using that by (auto simp: agent_config_from_file_def split: sum.splits intro: agent_config_of_file_ok)
  from assms show ?thesis
    using d f by (auto simp: load_with_priority_def from_source_def split: option.splits if_splits sum.splits)
qed

text \<open>A file is written by \<open>ca fetch\<close> only with the user's consent, after its fingerprint was shown.\<close>

lemma save_ca_events: "FileWritten p b \<in> set (fst (save_ca h out cert)) \<Longrightarrow> p = out \<and> b = cert"
  by (simp add: save_ca_def try_call_def then_run_def split: option.splits)

lemma confirm_ca_events:
  assumes "FileWritten p b \<in> set (fst (confirm_ca h out cert))"
  shows "p = out \<and> b = cert \<and> (\<exists>line. ng_input h = Inr line \<and> said_yes line)"
proof (cases "ng_input h")
  case (Inl e)
  with assms show ?thesis by (simp add: confirm_ca_def then_run_def)
next
  case (Inr line)
  with assms show ?thesis
    by (cases "said_yes line") (simp_all add: confirm_ca_def then_run_def save_ca_events)
qed

lemma download_ca_events:
  assumes "FileWritten p b \<in> set (fst (download_ca h server out auto_yes))"
  shows "p = out \<and> ng_download h (ca_url server) = Inr b
    \<and> fingerprint_line h b \<in> set (fst (download_ca h server out auto_yes))
    \<and> (auto_yes \<or> (\<exists>line. ng_input h = Inr line \<and> said_yes line))"
proof (cases "ng_download h (ca_url server)")
  case (Inl e)
  with assms show ?thesis by (simp add: download_ca_def then_run_def)
next
  case (Inr cert)
  then have r: "fst (download_ca h server out auto_yes) =
      ErrLine (''Downloading CA certificate from '' @ ca_url server @ '' ...'') # fingerprint_line h cert #
      fst (if auto_yes then save_ca h out cert else confirm_ca h out cert)"
    by (simp add: download_ca_def then_run_def)
  with assms have "FileWritten p b \<in> set (fst (if auto_yes then save_ca h out cert else confirm_ca h out cert))"
    by (simp add: fingerprint_line_def)
  then have "p = out \<and> b = cert \<and> (auto_yes \<or> (\<exists>line. ng_input h = Inr line \<and> said_yes line))"
    by (cases auto_yes) (simp_all add: save_ca_events confirm_ca_events)
  then show ?thesis unfolding r using Inr by simp
qed

lemma ca_fetch_consent:
  assumes "FileWritten p b \<in> set (fst (ca_fetch h server out auto_yes))"
  shows "p = out \<and> ng_download h (ca_url server) = Inr b
    \<and> fingerprint_line h b \<in> set (fst (ca_fetch h server out auto_yes))
    \<and> (auto_yes \<or> (\<exists>line. ng_input h = Inr line \<and> said_yes line))"
proof (cases "dir_to_make out")
  case None
  with assms show ?thesis using download_ca_events [of p b h server out auto_yes] by (simp add: ca_fetch_def)
next
  case (Some dir)
  with assms have ok: "ng_make_dirs h dir = None" by (simp add: ca_fetch_def try_call_def split: option.splits)
  with Some have "fst (ca_fetch h server out auto_yes) = DirsMade dir # fst (download_ca h server out auto_yes)"
    by (simp add: ca_fetch_def try_call_def then_run_def)
  with assms show ?thesis using download_ca_events [of p b h server out auto_yes] by simp
qed

end
