(* ===== verification/Spec2Isabelle.thy ===== *)
theory Spec2Isabelle
  imports Examples Server AgentLoop GatewaySupervisor Access TaskReports ServerMain AgentMain
begin

text \<open>
  \<^bold>\<open>LightAI platform: verification development.\<close>

  LightAI is a control plane for model servers on GPU nodes. One server (\<^verbatim>\<open>src/server\<close>, Rust) keeps
  its state in a SQLite database and is driven by an HTTP API; on each node an agent (\<^verbatim>\<open>src/agent\<close>)
  registers, sends heartbeats and polls for tasks (verify a file, clean one up, check a runtime,
  start, stop, check or test a model instance). The domain operations of the server write rows, queue
  tasks and wait for the agents' answers.

  \<^bold>\<open>State.\<close> The state of the model is the record \<open>db\<close> of theory \<open>Store\<close>, one list of row records per
  table of \<^verbatim>\<open>src/migrations\<close>. An operation is a function \<open>args \<Rightarrow> db \<Rightarrow> (error + 'a) \<times> db\<close>; where the
  code runs in a transaction, the error case returns the database unchanged. The clock
  (\<open>now\<close>, \<open>later\<close>), fresh UUIDs, salts and tokens are arguments. The record \<open>ext\<close> of theory \<open>Json\<close>
  holds the code that is not in the repository (serde_json, URL parsing, the hash functions); what is
  assumed of it is the named hypothesis \<open>json_roundtrip\<close>, which \<open>demo_ext\<close> meets.

  \<^bold>\<open>Waiting.\<close> A request that waits for its task reads the row every 100 ms until it is closed or the
  deadline passes. \<open>wait_task\<close> (theory \<open>Waiting\<close>) takes the list of the database changes the rest of
  the server makes between two reads; the end of the list is the deadline, so no fuel is needed: a
  theorem over all lists covers every number of reads.

  \<^bold>\<open>Theories.\<close>
  \<^item> \<open>Prelude\<close>, \<open>Json\<close>, \<open>Store\<close>: byte strings, JSON values, tables with their constraints; the locale
    \<open>sql_table\<close> is interpreted for every table.
  \<^item> \<open>Support\<close> (\<^verbatim>\<open>domain/support.rs\<close>), \<open>Policy\<close> (the agent configuration policies of
    \<^verbatim>\<open>repository.rs\<close>), \<open>Views\<close> (the joined rows the API shows).
  \<^item> \<open>Tasks\<close>, \<open>TaskLaws\<close>, \<open>Waiting\<close> (\<^verbatim>\<open>agent_tasks.rs\<close>): the task queue, its invariant \<open>tasks_wf\<close>, the
    step relation \<open>task_moves\<close>, the contract \<open>task_op\<close> every operation keeps, the abstract queue.
  \<^item> \<open>Runtimes\<close>, \<open>ModelFiles\<close>, \<open>Trash\<close>, \<open>Catalog\<close>, \<open>Instances\<close> (\<^verbatim>\<open>domain/*.rs\<close>, \<^verbatim>\<open>http_check.rs\<close>): the
    domain operations.
  \<^item> \<open>Users\<close> (accounts, sessions, groups of \<^verbatim>\<open>repository.rs\<close>): the contract \<open>account_ops\<close>.
  \<^item> \<open>Nodes\<close> (registration, heartbeats, node list, metric samples of \<^verbatim>\<open>repository.rs\<close>,
    \<^verbatim>\<open>history_cleanup.rs\<close>).
  \<^item> \<open>Heartbeats\<close>: what one heartbeat does to the instances, the node and the GPU rows; samples.
  \<^item> \<open>GatewayTasks\<close>, \<open>InstanceLogs\<close> (\<^verbatim>\<open>domain/gateway.rs\<close>, \<^verbatim>\<open>domain/instance_logs.rs\<close>): requests that
    queue a task and return the agent's answer. \<open>AuditLog\<close> (\<^verbatim>\<open>repository.rs\<close>): audit events, the log policy,
    the collector registry.
  \<^item> \<open>Server\<close>: all operations together. \<open>server_runs\<close> is the relation between two states of the server
    with any sequence of requests, agent messages and timers between them (an operation that waits
    lets another run happen at each poll); \<open>server_kept\<close> is what every run keeps, the locale
    \<open>kept_env\<close> the contract of the operations that wait; \<open>server_ok\<close> holds in every reachable state.
  \<^item> The HTTP API (\<^verbatim>\<open>routes.rs\<close>): \<open>Http\<close> (requests, cookies, errors, the middleware \<open>control_plane_auth\<close>),
    \<open>Api\<close> (the environment \<open>web\<close> of a request, its body and answer, the combinators handlers are built
    from), \<open>Handlers\<close> and \<open>CatalogHandlers\<close> (one \<open>api_\<close> definition per handler), \<open>Routes\<close> (the route
    table and \<open>serve\<close>), \<open>RoutePatterns\<close> (what a pattern says about the paths it matches; the access
    matrix \<open>required_rank\<close>), \<open>Serving\<close> (a served request is a run of the server), \<open>Access\<close> (cookies,
    audit events, agent tokens). What axum extracts from the body and the query is the field
    \<open>rq_payload\<close>.
  \<^item> \<open>Calendar\<close>, \<open>PlatformLog\<close> (\<^verbatim>\<open>platform_log.rs\<close>): time stamps, sanitising, rotation.
  \<^item> The agent (\<^verbatim>\<open>src/agent/src\<close>): \<open>Floats\<close> (how the standard library reads numbers; 64-bit floats as
    text of bits), \<open>CollectorTsv\<close> (\<^verbatim>\<open>collector/tsv.rs\<close>), \<open>Collectors\<close> (\<^verbatim>\<open>collector/mod.rs\<close>,
    \<^verbatim>\<open>manifest.rs\<close>, \<^verbatim>\<open>execute.rs\<close>, \<^verbatim>\<open>gpu/mod.rs\<close>), \<open>AgentLoop\<close> (\<^verbatim>\<open>heartbeat.rs\<close>, \<^verbatim>\<open>client.rs\<close>),
    \<open>ManagedProcesses\<close> (\<^verbatim>\<open>managed_process.rs\<close>, the locale \<open>record_store\<close>), \<open>GatewaySupervisor\<close>
    (\<^verbatim>\<open>gateway_supervisor.rs\<close>). What the operating system, the shell, docker and the network answer are
    fields of the records \<open>host\<close>, \<open>node_link\<close>, \<open>server_link\<close> and \<open>gateway_host\<close>.
  \<^item> The agent's tasks (\<^verbatim>\<open>src/agent/src/tasks\<close>): \<open>AgentHost\<close> (the surroundings \<open>agent_host\<close>, the state
    \<open>agent_mem\<close> the agent keeps between tasks, the effects, \<^verbatim>\<open>result.rs\<close>), \<open>ProcessLogs\<close> (\<^verbatim>\<open>process_logs.rs\<close>,
    the log readers), \<open>Probe\<close>, \<open>Launch\<close> (parameters and arguments of a process), \<open>FileTasks\<close>
    (\<^verbatim>\<open>verify_model.rs\<close>, \<^verbatim>\<open>cleanup.rs\<close>), \<open>RuntimeCheck\<close>, \<open>ContainerConfig\<close> and \<open>Containers\<close>
    (\<^verbatim>\<open>docker_backend.rs\<close>), \<open>FloatDisplay\<close> (how Rust prints a double), \<open>Ollama\<close>, \<open>InstanceProcesses\<close>
    (\<^verbatim>\<open>process.rs\<close>, \<^verbatim>\<open>logs.rs\<close>), \<open>AgentTasks\<close> (\<^verbatim>\<open>mod.rs\<close>: \<open>run_task\<close>, \<open>run_once_task\<close>, \<open>task_turn\<close>). A task is a
    function \<open>ext \<Rightarrow> agent_host \<Rightarrow> json \<Rightarrow> agent_mem \<Rightarrow> result \<times> agent_mem \<times> agent_effect list\<close>; a task that
    panics has the result \<open>None\<close>. The requests of one task are numbered, as an endpoint may answer
    differently each time. \<open>TaskEffects\<close> says what a task of each kind may do to the node,
    \<open>TaskReports\<close> what the server's rows say after the report. The loops of the code are bounded: a probe
    makes at most 60 attempts, and waiting for the Ollama daemon ends after 30 seconds of pauses of half a
    second (\<open>await_daemon\<close> recurs on the time left), so no fuel is needed.
  \<^item> The two programs: \<open>ServerConfig\<close> (\<^verbatim>\<open>server/src/config.rs\<close>), \<open>CollectorRegistration\<close> (\<^verbatim>\<open>collector_cli.rs\<close>,
    the agent's \<^verbatim>\<open>collector/inspect.rs\<close>), \<open>Programs\<close> (what the command lines share), \<open>ServerMain\<close>
    (\<^verbatim>\<open>server/src/main.rs\<close>, \<^verbatim>\<open>db.rs\<close>, \<^verbatim>\<open>cert.rs\<close>), \<open>AgentMain\<close> (\<^verbatim>\<open>agent/src/main.rs\<close>, \<^verbatim>\<open>config.rs\<close>). A run
    of a program is the list of what it does, in its order, and the way it ends; files, environment,
    TLS, sockets and the terminal are fields of \<open>server_host\<close> and \<open>agent_program\<close>, what the TOML library
    makes of a file is a record of optional sections. A command keeps what the operations of the server
    keep; a run that serves has made its checks; a collector registered from the command line may run.
  \<^item> \<open>Examples\<close>: a concrete state for the witnesses.

  \<^bold>\<open>Not modelled.\<close> The text formats TOML and PEM, the generation of certificates, TLS, sockets and signals;
  the creation of the tables (their constraints are in \<open>Store\<close>); the messages of the tracing library.
  The web console, scripts and tests. I/O failures of the database and of the file system: the
  model has the results the code distinguishes itself (constraint violations, missing rows).
  SQLite's bounded INTEGER: columns are \<open>int\<close>.
\<close>

text \<open>C1: Every state the server can reach from an empty database, by any interleaving of requests,
agent polls, reports, heartbeats and timers, is consistent: task ids are unique and every task row has
the fields its status needs, user names, session tokens, group names, node names and host names are
unique, no two models share a name, and instance ids are unique.\<close>

theorem reachable_states_are_consistent:
  assumes "server_runs x empty_db d"
  shows "tasks_wf d \<and> accounts_ok d \<and> nodes_ok d \<and> model_names_ok d \<and> distinct (map mi_id (model_instances d))"
  using reachable_ok [OF assms] by (simp add: server_ok_def instances_ok_def)

theorem reachable_states_are_consistent_witness:
  "\<exists>d. server_runs demo_ext empty_db d \<and> tasks_wf d \<and> accounts_ok d \<and> user_count d = 1 \<and> length (nodes d) = 1"
proof -
  let ?a = "account_run demo_ext (SetupAdmin 100 ''u9'' ''s'' ''eve'' ''LongEnough123'' default_password_policy) empty_db"
  let ?b = "snd (register_node demo_ext 101 ''n1'' ''n2'' ''tok'' id ex_register ?a)"
  have "server_runs demo_ext ?a ?b"
    by (rule server_runs.register) (simp add: server_runs.idle)
  with server_runs.account have r: "server_runs demo_ext empty_db ?b" by (rule server_runs.seq)
  have "user_count ?b = 1" "length (nodes ?b) = 1" by code_simp+
  with r reachable_states_are_consistent [OF r] show ?thesis by blast
qed




text \<open>C3: After a heartbeat the server's view of a node's instances agrees with the agent: an instance
that is not managed by that node is untouched, and a managed instance that still counts as starting,
running or stopping was reported as running in this heartbeat (unless it is served by ollama, which
the agent does not track as a process).\<close>

theorem heartbeat_reconciles_instances:
  assumes "record_heartbeat x now h d = (Inr u, d')" and "distinct (map mi_id (model_instances d))"
  shows "map mi_id (model_instances d') = map mi_id (model_instances d)
    \<and> (\<forall>r \<in> set (model_instances d). \<not> managed_by (hb_node_id h) r \<longrightarrow> r \<in> set (model_instances d'))
    \<and> (\<forall>r \<in> set (model_instances d'). managed_by (hb_node_id h) r
         \<and> mi_status r \<in> {''starting'', ''running'', ''stopping''} \<and> runtime_backend d r \<noteq> Some ''ollama''
         \<longrightarrow> (\<exists>p \<in> set (hb_managed_instances h). rp_instance_id p = mi_id r \<and> rp_status p = ''running''))"
proof -
  let ?f = "reconciled (hb_node_id h) now (hb_managed_instances h) d"
  note rows = heartbeat_tables(3) [OF assms]
  have "map mi_id (model_instances d') = map mi_id (model_instances d)" unfolding rows by (simp add: o_def)
  moreover have "\<forall>r \<in> set (model_instances d). \<not> managed_by (hb_node_id h) r \<longrightarrow> r \<in> set (model_instances d')"
    unfolding rows using reconciled_unmanaged by (metis image_eqI set_map)
  moreover have "\<exists>p \<in> set (hb_managed_instances h). rp_instance_id p = mi_id r \<and> rp_status p = ''running''"
    if r: "r \<in> set (model_instances d')" "managed_by (hb_node_id h) r"
      "mi_status r \<in> {''starting'', ''running'', ''stopping''}" "runtime_backend d r \<noteq> Some ''ollama''" for r
  proof -
    from r(1) obtain q where q: "r = ?f q" unfolding rows by auto
    from reconciled_active [of "hb_node_id h" q now "hb_managed_instances h" d] r(2-4)
    show ?thesis unfolding q by simp
  qed
  ultimately show ?thesis by blast
qed

theorem heartbeat_reconciles_instances_witness:
  "\<exists>u d'. record_heartbeat demo_ext 101 (ex_heartbeat [] []) ex_running_db = (Inr u, d')
     \<and> (\<forall>r \<in> set (model_instances d'). \<not> (managed_by ''n1'' r \<and> mi_status r = ''running''
            \<and> runtime_backend ex_running_db r \<noteq> Some ''ollama''))
     \<and> map mi_id (model_instances d') = [''i1'']"
proof -
  have "succeeds (record_heartbeat demo_ext 101 (ex_heartbeat [] []) ex_running_db)" by code_simp
  then obtain u d' where r: "record_heartbeat demo_ext 101 (ex_heartbeat [] []) ex_running_db = (Inr u, d')"
    by (rule succeedsE)
  have n: "hb_node_id (ex_heartbeat [] []) = ''n1''" "hb_managed_instances (ex_heartbeat [] []) = []"
    by (simp_all add: ex_heartbeat_def)
  have ids: "map mi_id (model_instances ex_running_db) = [''i1'']"
    by (simp add: ex_running_db_def ex_instance_def)
  note t = heartbeat_reconciles_instances [OF r ex_distinct, unfolded n ids]
  have "\<forall>r \<in> set (model_instances d'). \<not> (managed_by ''n1'' r \<and> mi_status r = ''running''
            \<and> runtime_backend ex_running_db r \<noteq> Some ''ollama'')"
  proof (rule ballI, rule notI)
    fix r assume r: "r \<in> set (model_instances d')" "managed_by ''n1'' r \<and> mi_status r = ''running''
            \<and> runtime_backend ex_running_db r \<noteq> Some ''ollama''"
    from r(2) have "managed_by ''n1'' r \<and> mi_status r \<in> {''starting'', ''running'', ''stopping''}
            \<and> runtime_backend ex_running_db r \<noteq> Some ''ollama''" by simp
    from t [THEN conjunct2, THEN conjunct2, THEN bspec, OF r(1), THEN mp, OF this]
    show False by simp
  qed
  with r t [THEN conjunct1] show ?thesis by (intro exI conjI)
qed

text \<open>C4: A heartbeat of an unknown node is refused and changes nothing. One of a known node makes it
count as online until the online threshold has passed since its sample time; every GPU row of the node
is then at least as new as the sample when no collector failed, and a changed row of a GPU that was not
reported says missing.\<close>

theorem heartbeat_refreshes_node:
  assumes "distinct (map mi_id (model_instances d))"
  shows "(\<not> node_exists d (hb_node_id h) \<longrightarrow>
      (\<exists>e. record_heartbeat x now h d = (Inl e, d)))
    \<and> (\<forall>u d'. record_heartbeat x now h d = (Inr u, d') \<longrightarrow>
        (\<forall>later. later - hb_sampled_at h \<le> ONLINE_THRESHOLD \<longrightarrow> node_online d' later (hb_node_id h))
        \<and> (\<forall>g \<in> set (gpu_status d'). g_node_id g = hb_node_id h \<longrightarrow>
             (hb_collector_errors h = [] \<longrightarrow> hb_sampled_at h \<le> g_updated_at g)
             \<and> (g \<notin> set (gpu_status d) \<and> g_gpu_key g \<notin> gx_gpu_key ` set (hb_gpus h)
                \<longrightarrow> g_status g = Some ''missing'')))"
proof (intro conjI allI impI ballI)
  assume "\<not> node_exists d (hb_node_id h)"
  then show "\<exists>e. record_heartbeat x now h d = (Inl e, d)" using heartbeat_unknown_node by blast
next
  fix u d' later assume "record_heartbeat x now h d = (Inr u, d')" "later - hb_sampled_at h \<le> ONLINE_THRESHOLD"
  then show "node_online d' later (hb_node_id h)" by (rule heartbeat_node_online [OF _ assms])
next
  fix u d' g assume "record_heartbeat x now h d = (Inr u, d')" "g \<in> set (gpu_status d')"
    "g_node_id g = hb_node_id h" "hb_collector_errors h = []"
  then show "hb_sampled_at h \<le> g_updated_at g" using heartbeat_gpus_fresh assms by blast
next
  fix u d' g assume "record_heartbeat x now h d = (Inr u, d')" "g \<in> set (gpu_status d')"
    "g_node_id g = hb_node_id h" "g \<notin> set (gpu_status d) \<and> g_gpu_key g \<notin> gx_gpu_key ` set (hb_gpus h)"
  then show "g_status g = Some ''missing''" using heartbeat_gpu_missing assms by blast
qed

theorem heartbeat_refreshes_node_witness:
  "\<exists>u d'. record_heartbeat demo_ext 101 (ex_heartbeat [] [ex_gpu ''g0'']) ex_running_db = (Inr u, d')
     \<and> node_online d' 130 ''n1'' \<and> (\<forall>g \<in> set (gpu_status d'). g_node_id g = ''n1'' \<longrightarrow> 100 \<le> g_updated_at g)
     \<and> map g_gpu_key (gpu_status d') = [''g0'']"
proof -
  let ?h = "ex_heartbeat [] [ex_gpu ''g0'']"
  have "succeeds (record_heartbeat demo_ext 101 ?h ex_running_db)" by code_simp
  then obtain u d' where r: "record_heartbeat demo_ext 101 ?h ex_running_db = (Inr u, d')"
    by (rule succeedsE)
  have n: "hb_node_id ?h = ''n1''" "hb_sampled_at ?h = 100" "hb_collector_errors ?h = []"
    by (simp_all add: ex_heartbeat_def)
  have "map g_gpu_key (gpu_status (snd (record_heartbeat demo_ext 101 ?h ex_running_db))) = [''g0'']" by code_simp
  then have "map g_gpu_key (gpu_status d') = [''g0'']" using r by simp
  moreover have "(130 :: int) - 100 \<le> ONLINE_THRESHOLD" by code_simp
  moreover note t = conjunct2 [OF heartbeat_refreshes_node [OF ex_distinct, of ?h demo_ext 101],
      unfolded n, THEN spec, THEN spec, THEN mp, OF r]
  from t [THEN conjunct2] have "\<forall>g \<in> set (gpu_status d'). g_node_id g = ''n1'' \<longrightarrow> 100 \<le> g_updated_at g" by blast
  moreover note t [THEN conjunct1, THEN spec, of 130]
  ultimately show ?thesis using r by (intro exI conjI) simp_all
qed

text \<open>C5: The HTTP layer refines the operations of the server: whatever request is served, with whatever
body, cookie and token, the database it leaves is one that a run of the operations reaches, while the
rest of the server runs during its waits. So every property of the runs holds between requests, and
requests keep the database consistent.\<close>

theorem requests_refine_server_runs:
  assumes "web_runs x w"
  shows "server_runs x d (snd (serve x w q d)) \<and> (server_ok d \<longrightarrow> server_ok (snd (serve x w q d)))"
  using serve_runs [OF assms] runs_ok by blast

definition ex_web :: web where
  "ex_web = \<lparr>wb_now = 120, wb_later = 121, wb_done = 122, wb_id = ''u7'', wb_id2 = ''u8'', wb_ids = [],
     wb_task_id = ''t9'', wb_audit_id = ''a9'', wb_session_id = ''s9'', wb_salt = ''s'', wb_token = ''tok9'',
     wb_env = [], wb_between = id, wb_wakes = [], wb_http = (\<lambda>u. SendFailed ''''),
     wb_password_policy = default_password_policy, wb_session_policy = default_session_policy,
     wb_setup_token = None, wb_log_policy = ex_log_policy, wb_lossy = id, wb_log_dir_error = None,
     wb_log_files = (\<lambda>n. None), wb_decode = Some, wb_ca_cert = None, wb_ca_fingerprint = None,
     wb_ca_on_disk = None, wb_debug = (\<lambda>e. ''''), wb_debug_error = id, wb_static = None, wb_index = ''''\<rparr>"

lemma ex_web_runs: "web_runs x ex_web"
  by (simp add: web_runs_def ex_web_def server_runs.idle)

definition ex_request :: "http_method \<Rightarrow> string \<Rightarrow> string option \<Rightarrow> payload \<Rightarrow> request" where
  "ex_request m path cookie body =
     \<lparr>rq_method = m, rq_path = path, rq_cookie = cookie, rq_authorization = None, rq_payload = body\<rparr>"

theorem requests_refine_server_runs_witness:
  "server_ok (snd (serve demo_ext ex_web (ex_request POST ''/api/auth/login'' None (PLogin (''ann'', ''ann-Secret1''))) ex_db))"
proof -
  have "server_ok ex_db" by code_simp
  then show ?thesis using requests_refine_server_runs [OF ex_web_runs] by blast
qed

text \<open>C6: The prefix tests of the middleware implement an access matrix over the routes: with a valid
session a request on a protected route is handed to the route's handler exactly when the sender's
effective role has the rank the matrix asks for (1 for reading and for one's own account, 2 for changes
and gateways, 3 for users, groups, configuration and the trash), and a user who must change his password
gets no further than the routes for doing so. Otherwise it is refused and only session rows change. The
exception is a path parameter that is the word gateway.\<close>

theorem middleware_is_access_matrix:
  assumes "(p, ms) \<in> set route_table" and "match_path p (rq_path q) = Some vs" and "''gateway'' \<notin> set vs"
    and "p \<notin> set public_routes" and "session_cookie (rq_cookie q) = Some token"
    and "authenticate_session x (wb_now w) token (wb_session_policy w) d = (Some u, d1)"
    and "au_effective_role u \<in> set roles"
  shows "(\<exists>rows. d1 = d\<lparr>user_sessions := rows\<rparr>) \<and> serve x w q d =
    (if au_must_change_password u \<and> \<not> is_password_change_allowed_path p
     then (forbidden_response ''Password change required before continuing'', d1)
     else if required_rank p (rq_method q) \<le> role_rank (au_effective_role u)
     then run_route x w q ms vs (Some u) d1
     else (forbidden_response ''Insufficient permissions for this operation'', d1))"
  using serve_session [OF assms] authenticate_sessions [of x "wb_now w" token "wb_session_policy w" d] assms(6) by simp

theorem middleware_is_access_matrix_witness:
  "rs_status (fst (serve demo_ext ex_web (ex_request DELETE ''/api/models/m1'' (Some ''lightai_session=tok'') NoPayload) ex_db)) = 403"
proof -
  let ?q = "ex_request DELETE ''/api/models/m1'' (Some ''lightai_session=tok'') NoPayload"
  let ?ms = "[(GET, api_get_model), (PUT, api_update_model), (DELETE, api_delete_model)]"
  have route: "(''/api/models/{id}'', ?ms) \<in> set route_table" unfolding route_table_def by simp
  have path: "match_path ''/api/models/{id}'' (rq_path ?q) = Some [''m1'']" by code_simp
  have pub: "''/api/models/{id}'' \<notin> set public_routes" by code_simp
  have cookie: "session_cookie (rq_cookie ?q) = Some ''tok''" by code_simp
  have "map_option (\<lambda>u. (au_effective_role u, au_must_change_password u))
      (fst (authenticate_session demo_ext (wb_now ex_web) ''tok'' (wb_session_policy ex_web) ex_db)) = Some (''viewer'', False)"
    by code_simp
  then obtain u d1 where auth: "authenticate_session demo_ext (wb_now ex_web) ''tok'' (wb_session_policy ex_web) ex_db = (Some u, d1)"
    and u: "au_effective_role u = ''viewer''" "\<not> au_must_change_password u"
    by (cases "authenticate_session demo_ext (wb_now ex_web) ''tok'' (wb_session_policy ex_web) ex_db") auto
  have role: "au_effective_role u \<in> set roles" by (simp add: u roles_def)
  have "\<not> required_rank ''/api/models/{id}'' DELETE \<le> role_rank ''viewer''" by code_simp
  then show ?thesis
    using middleware_is_access_matrix [OF route path _ pub cookie auth role] u
    by (simp add: ex_request_def forbidden_response_def response_of_def)
qed

text \<open>C7: Without a valid session nothing below /api/ is reachable but the public routes: the answer is
401, 404 or 405 and the database keeps everything but the session rows a rejected cookie may touch.\<close>

theorem no_session_no_access:
  assumes "\<not> is_public_path (rq_path q)" and "rq_path q \<noteq> ''/api/''"
    and "\<And>token. session_cookie (rq_cookie q) = Some token \<Longrightarrow>
      fst (authenticate_session x (wb_now w) token (wb_session_policy w) d) = None"
  shows "(\<exists>rows. snd (serve x w q d) = d\<lparr>user_sessions := rows\<rparr>) \<and> rs_status (fst (serve x w q d)) \<in> {401, 404, 405}"
  using assms by (rule serve_no_session)

theorem no_session_no_access_witness:
  "rs_status (fst (serve demo_ext ex_web (ex_request DELETE ''/api/models/m1'' (Some ''lightai_session=old'') NoPayload) ex_db))
     \<in> {401, 404, 405}"
proof -
  let ?q = "ex_request DELETE ''/api/models/m1'' (Some ''lightai_session=old'') NoPayload"
  have pub: "\<not> is_public_path (rq_path ?q)" "rq_path ?q \<noteq> ''/api/''" by code_simp+
  have cookie: "session_cookie (rq_cookie ?q) = Some ''old''" by code_simp
  have none: "fst (authenticate_session demo_ext (wb_now ex_web) ''old'' (wb_session_policy ex_web) ex_db) = None"
    by code_simp
  show ?thesis using no_session_no_access [OF pub, of demo_ext ex_web ex_db] cookie none by simp
qed







text \<open>C10: A logout ends the session for good: a request with the same cookie is answered with the demand
to log in, on every protected path and whatever the server has done in between.\<close>

theorem logout_ends_session:
  assumes "rq_path q = ''/api/auth/logout''" and "serve x w q d = (r, d1)" and "rs_status r = 200"
    and "accounts_ok d" and "server_runs x d1 d2"
    and "session_cookie (rq_cookie q2) = session_cookie (rq_cookie q)" and "\<not> is_public_path (rq_path q2)"
  shows "fst (control_plane_auth x later sp q2 d2) = LoginRequired"
proof -
  have path: "match_path ''/api/auth/logout'' (rq_path q) = Some []" unfolding assms(1) by (rule match_fixed)
  have pub: "\<not> is_public_path (rq_path q)" unfolding assms(1) by code_simp
  obtain a d0 where auth: "control_plane_auth x (wb_now w) (wb_session_policy w) q d = (a, d0)" by fastforce
  have "a \<noteq> PassThrough" using auth pub
    by (auto simp: control_plane_auth_def Let_def split: option.splits prod.splits if_splits)
  then obtain u where a: "a = PassAs u" and run: "run_route x w q [(POST, api_logout)] [] (Some u) d0 = (r, d1)"
    using assms(2,3) unfolding serve_route [OF logout_route path] guarded_def auth
    by (cases a) (auto simp: login_required_def forbidden_response_def response_of_def)
  from auth_passed [OF auth [unfolded a]] obtain token
    where token: "session_cookie (rq_cookie q) = Some token"
      and session: "authenticate_session x (wb_now w) token (wb_session_policy w) d = (Some u, d0)" by blast
  obtain es where d1: "d1 = (revoke_session x (wb_now w) token d0)\<lparr>audit_events := es\<rparr>"
  proof -
    obtain es where "audit_actor_success x w u ''auth.logout'' ''user'' (Some (au_id u)) (revoke_session x (wb_now w) token d0)
        = (revoke_session x (wb_now w) token d0)\<lparr>audit_events := es\<rparr>"
      unfolding audit_actor_success_def using audit_result_events by blast
    moreover have "d1 = audit_actor_success x w u ''auth.logout'' ''user'' (Some (au_id u)) (revoke_session x (wb_now w) token d0)"
      using run assms(3) token
      by (auto simp: run_one api_logout_def with_user_def Let_def method_not_allowed_def response_of_def split: if_splits)
    ultimately show ?thesis using that by simp
  qed
  have ok0: "accounts_ok d0" using step_authenticate [of d x "wb_now w" token "wb_session_policy w"] assms(4) session
    by (simp add: account_step_def)
  from authenticate_Some [OF session] obtain s where s: "s \<in> set (user_sessions d)" "us_token_hash s = ext_hash_token x token" by blast
  have "map us_token_hash (user_sessions d0) = map us_token_hash (user_sessions d)"
    using session by (auto simp: authenticate_session_def Let_def set_session_def map_update_where split: option.splits if_splits)
  with s obtain s0 where s0: "s0 \<in> set (user_sessions d0)" "us_token_hash s0 = ext_hash_token x token"
    by (metis (no_types, lifting) image_eqI image_iff set_map)
  have dead: "token_dead d1 (ext_hash_token x token)"
    using revoke_dead [OF s0, of "wb_now w"] by (simp add: d1 token_dead_def)
  have ok1: "accounts_ok d1" using step_revoke [of d0 x "wb_now w" token] ok0
    by (simp add: d1 account_step_def accounts_ok_def)
  have "account_step d1 d2" using runs_kept [OF assms(5)] by (simp add: server_kept_def)
  with ok1 dead have "accounts_ok d2" "token_dead d2 (ext_hash_token x token)" by (auto simp: account_step_def)
  from authenticate_dead [OF this] show ?thesis
    using assms(7) by (simp add: control_plane_auth_def Let_def assms(6) token)
qed

theorem logout_ends_session_witness:
  "\<exists>d1. snd (serve demo_ext ex_web (ex_request POST ''/api/auth/logout'' (Some ''lightai_session=tok'') NoPayload) ex_db) = d1
     \<and> fst (control_plane_auth demo_ext 121 default_session_policy
        (ex_request GET ''/api/auth/me'' (Some ''lightai_session=tok'') NoPayload) d1) = LoginRequired"
proof -
  let ?q = "ex_request POST ''/api/auth/logout'' (Some ''lightai_session=tok'') NoPayload"
  let ?q2 = "ex_request GET ''/api/auth/me'' (Some ''lightai_session=tok'') NoPayload"
  obtain r d1 where served: "serve demo_ext ex_web ?q ex_db = (r, d1)" by fastforce
  have path: "rq_path ?q = ''/api/auth/logout''" by (simp add: ex_request_def)
  have m: "match_path ''/api/auth/logout'' (rq_path ?q) = Some []" unfolding path by (rule match_fixed)
  have "rs_status (fst (guarded demo_ext ex_web ?q (run_route demo_ext ex_web ?q [(POST, api_logout)] []) ex_db)) = 200"
    by code_simp
  then have ok: "rs_status r = 200" using served serve_route [OF logout_route m, of demo_ext ex_web ex_db] by simp
  have acc: "accounts_ok ex_db" by code_simp
  have cookie: "session_cookie (rq_cookie ?q2) = session_cookie (rq_cookie ?q)" by (simp add: ex_request_def)
  have pub: "\<not> is_public_path (rq_path ?q2)" by code_simp
  from logout_ends_session [OF path served ok acc server_runs.idle cookie pub, of 121 default_session_policy]
  show ?thesis unfolding served snd_conv by simp
qed

text \<open>C11: An agent speaks for its own node only: a heartbeat, a poll or a task result that is accepted, or
changes anything at all, names a node in its body and carries that node's token; everything else is
refused with the database as it was.\<close>

theorem agents_speak_for_their_node:
  assumes "p \<in> {''/api/agent/heartbeat'', ''/api/agent/tasks/poll'', ''/api/agent/tasks/{id}/result''}"
    and "match_path p (rq_path q) = Some vs" and "serve x w q d = (r, d')" and "rs_status r = 200 \<or> d' \<noteq> d"
  shows "\<exists>nid token. named_node (rq_payload q) = Some nid \<and> bearer_token (rq_authorization q) = Some token
    \<and> authenticate_node x d nid token"
  using agent_request_authorized [OF assms] by (auto simp: node_authorized_def split: option.splits)

definition ex_poll :: request where
  "ex_poll = \<lparr>rq_method = POST, rq_path = ''/api/agent/tasks/poll'', rq_cookie = None,
     rq_authorization = Some ''Bearer agent'', rq_payload = PPoll (''n1'', None)\<rparr>"

theorem agents_speak_for_their_node_witness:
  "rs_status (fst (serve demo_ext ex_web ex_poll ex_db)) = 200 \<and> authenticate_node demo_ext ex_db ''n1'' ''agent''"
proof -
  obtain r d' where served: "serve demo_ext ex_web ex_poll ex_db = (r, d')" by fastforce
  have route: "(''/api/agent/tasks/poll'', [(POST, api_agent_task_poll)]) \<in> set route_table"
    unfolding route_table_def by simp
  have path: "match_path ''/api/agent/tasks/poll'' (rq_path ex_poll) = Some []" by code_simp
  have "''/api/agent/tasks/poll'' \<in> set public_routes" by (simp add: public_routes_def)
  note run = serve_public [OF route path this, of demo_ext ex_web ex_db, unfolded served]
  have "rs_status (fst (run_route demo_ext ex_web ex_poll [(POST, api_agent_task_poll)] [] None ex_db)) = 200" by code_simp
  then have ok: "rs_status r = 200" unfolding run [symmetric] by simp
  have p: "''/api/agent/tasks/poll'' \<in> {''/api/agent/heartbeat'', ''/api/agent/tasks/poll'', ''/api/agent/tasks/{id}/result''}"
    by simp
  from agents_speak_for_their_node [OF p path served disjI1 [OF ok]] obtain nid token
    where "named_node (rq_payload ex_poll) = Some nid" "bearer_token (rq_authorization ex_poll) = Some token"
      "authenticate_node demo_ext ex_db nid token" by blast
  moreover have "named_node (rq_payload ex_poll) = Some ''n1''" "bearer_token (rq_authorization ex_poll) = Some ''agent''"
    by code_simp+
  ultimately show ?thesis using ok by (simp add: served)
qed






text \<open>C14: A task's status tells its result. For every kind of task with a status in its result, the
task is reported as succeeded exactly when that status is one of those that count as success; a kind the
agent does not know is reported as failed, without any effect.\<close>

theorem task_status_tells_result:
  assumes "run_task x h policy allowed kind payload m = (Some a, m', es)"
  shows "(\<forall>k goods. success_rule kind = Some (k, goods) \<longrightarrow>
      (\<exists>s. get_str (snd a) k = Some s \<and> fst a = (if s \<in> set goods then ''succeeded'' else ''failed'')))
    \<and> (kind \<notin> set task_kinds \<longrightarrow> fst a = ''failed'' \<and> m' = m \<and> es = [])"
proof (intro conjI allI impI)
  fix k goods
  assume "success_rule kind = Some (k, goods)"
  from run_task_status [OF assms this]
  show "\<exists>s. get_str (snd a) k = Some s \<and> fst a = (if s \<in> set goods then ''succeeded'' else ''failed'')"
    by (simp add: status_tells_def verdict_def)
qed (use assms run_task_unknown [of kind x h policy allowed payload m] in auto)

theorem task_status_tells_result_witness:
  "\<exists>a m' es. run_task demo_ext ex_agent ex_log_policy [] ''verify_model_file'' ex_verify ex_mem = (Some a, m', es)
   \<and> (\<exists>s. get_str (snd a) ''file_status'' = Some s \<and> fst a = (if s \<in> {''verified''} then ''succeeded'' else ''failed''))"
proof -
  obtain a m' es where r: "run_task demo_ext ex_agent ex_log_policy [] ''verify_model_file'' ex_verify ex_mem = (Some a, m', es)"
    by (auto simp: run_task_kinds verify_outcome_def Let_def)
  with task_status_tells_result [OF r] show ?thesis by (auto simp: success_rule_def)
qed

text \<open>C15: Waiting for an endpoint and for the Ollama daemon ends. A probe makes at most sixty attempts
per path, whatever the payload asks for; it answers yes exactly when one of its requests is answered with a
2xx or 3xx status, and if it answers no, every attempt has tried every path in vain. The daemon is asked
at most sixty times.\<close>

theorem waiting_for_services_ends:
  fixes x payload
  defines "c \<equiv> probe_config_from_payload x payload"
  shows "length (snd (endpoint_ready h backend base c k)) \<le> 60 * length (effective_paths c backend)
    \<and> (fst (endpoint_ready h backend base c k) \<longleftrightarrow> ah_client h = None \<and>
        (\<exists>a < nat (pb_max_attempts c). \<exists>i < length (effective_paths c backend).
          good_answer (ah_http h (k + a * length (effective_paths c backend) + i) Get
            (trim_end_matches [CHR ''/''] base @ effective_paths c backend ! i))))
    \<and> length (snd (await_daemon h url k 0)) \<le> 60"
proof (intro conjI)
  have n: "nat (pb_max_attempts c) \<le> 60" using probe_config_bounds [of x payload] by (simp add: c_def nat_le_iff)
  show "length (snd (endpoint_ready h backend base c k)) \<le> 60 * length (effective_paths c backend)"
    using endpoint_ready_bound [of h backend base c k] mult_right_mono [OF n, of "length (effective_paths c backend)"]
    by linarith
  obtain ok es where r: "probe_rounds h (trim_end_matches [CHR ''/''] base) (effective_paths c backend) k
      (nat (pb_max_attempts c)) = (ok, es)" by fastforce
  then show "fst (endpoint_ready h backend base c k) \<longleftrightarrow> ah_client h = None \<and>
        (\<exists>a < nat (pb_max_attempts c). \<exists>i < length (effective_paths c backend).
          good_answer (ah_http h (k + a * length (effective_paths c backend) + i) Get
            (trim_end_matches [CHR ''/''] base @ effective_paths c backend ! i)))"
    using probe_rounds_yes [of h _ "effective_paths c backend" k "nat (pb_max_attempts c)" es]
      probe_rounds_no [of h _ "effective_paths c backend" k "nat (pb_max_attempts c)" es]
    by (cases ok; cases "ah_client h = None") (simp_all add: endpoint_ready_def, blast+)
  show "length (snd (await_daemon h url k 0)) \<le> 60"
    using await_daemon_length [of h url k 0] by (simp add: OLLAMA_START_TIMEOUT_MS_def)
qed



lemma ex_start_strings:
  "unwrap_or (get_str ex_start ''backend'') [] = ''llama_cpp''"
  "unwrap_or (get_str ex_start ''deploy_type'') [] = ''binary''"
  by code_simp+




text \<open>C17: A start of a local instance that fails leaves the agent's memory and its store of records as they
were. If it has spawned a child, that child is killed or has exited by itself, unless the agent could not
look at it or its log directory is unusable.\<close>

theorem failed_start_changes_nothing:
  assumes "start_local_instance x h payload i (unwrap_or (get_str payload ''backend'') [])
      (unwrap_or (get_str payload ''deploy_type'') []) m = (r, m', es)"
    and "it_instance_status r \<noteq> ''running''"
  shows "m' = m \<and> (es = [] \<or> ChildKilled \<in> set es \<or> (\<exists>n s. ah_child h n = Exited s)
    \<or> (\<exists>e. ah_child h 0 = WaitFailed e) \<or> (\<exists>e. launch_log_path h payload i = Inl e))"
  by (rule start_local_failed [OF assms refl refl])

definition ex_mute_agent :: agent_host where
  "ex_mute_agent = ex_agent\<lparr>ah_http := (\<lambda>k m u. NoResponse ''refused'')\<rparr>"

theorem failed_start_changes_nothing_witness:
  "fst (snd (start_local_instance demo_ext ex_mute_agent ex_start ''i1'' ''llama_cpp'' ''binary'' ex_mem)) = ex_mem"
proof -
  let ?o = "start_local_instance demo_ext ex_mute_agent ex_start ''i1'' ''llama_cpp'' ''binary'' ex_mem"
  have s: "it_instance_status (fst ?o) \<noteq> ''running''" by code_simp
  have "start_local_instance demo_ext ex_mute_agent ex_start ''i1'' (unwrap_or (get_str ex_start ''backend'') [])
     (unwrap_or (get_str ex_start ''deploy_type'') []) ex_mem = (fst ?o, fst (snd ?o), snd (snd ?o))"
    by (simp add: ex_start_strings)
  from failed_start_changes_nothing [OF this s] show ?thesis by blast
qed






text \<open>C20: The result of a start reaches the server's row: after the report of a start task is recorded,
the row of the instance has the status, the message and, where the agent has them, the base URL and the
process of the agent's result; the task is reported as succeeded exactly when that status is running.\<close>

theorem start_result_reaches_server:
  assumes run: "run_once_task x h policy allowed node_id send (Inr ans) m = (res, m', es, sent)"
    and task: "pa_task ans = Some (tid, ''start_model_instance'', payload)"
    and res: "start_model_instance_with_store x h payload (log_starting h policy tid ''start_model_instance'' m) = (r, m2, es2)"
    and t: "find (\<lambda>t. t_id t = tid \<and> t_node_id t = node_id) (agent_tasks d) = Some t"
      "t_kind t = ''start_model_instance''" "ext_jparse x (t_payload_json t) = Some payload"
    and iid: "get_str payload ''instance_id'' = Some iid"
    and row: "row \<in> set (model_instances d)" "mi_id row = iid"
  shows "m' = m2 \<and> es = es2 \<and>
    (\<exists>q d' row'. sent = [(tid, q)] \<and> record_agent_task_result x now tid q d = (Inr (), d')
    \<and> (tq_status q = ''succeeded'' \<longleftrightarrow> it_instance_status r = ''running'')
    \<and> row' \<in> set (model_instances d') \<and> mi_id row' = iid
    \<and> mi_status row' = it_instance_status r
    \<and> mi_base_url row' = coalesce (it_base_url r) (mi_base_url row)
    \<and> mi_process_ref row' = coalesce (it_process_ref r) (mi_process_ref row)
    \<and> mi_last_error row' = Some (it_message r))"
proof -
  let ?m = "log_starting h policy tid ''start_model_instance'' m"
  let ?a = "(verdict (it_instance_status r = ''running''), instance_json r)"
  have a: "run_task x h policy allowed ''start_model_instance'' payload ?m = (Some ?a, m2, es2)"
    by (simp add: run_task_kinds instance_outcome_def res)
  have sent: "sent = [(tid, report_of_task node_id ?a)]" "m' = m2" "es = es2"
    using run task a by (simp_all add: run_once_task_def report_of_task_def Let_def)
  have v: "tq_status (report_of_task node_id ?a) = ''succeeded'' \<longleftrightarrow> it_instance_status r = ''running''"
    by (simp add: report_of_task_def verdict_def)
  from start_recorded [OF a res t iid row, of now] sent v show ?thesis by blast
qed

definition ex_start_task :: task_row where
  "ex_start_task = new_task 95 ''t2'' ''n1'' ''start_model_instance'' (demo_print ex_start)"

definition ex_start_db :: db where
  "ex_start_db = ex_db\<lparr>agent_tasks := [ex_start_task]\<rparr>"

definition ex_start_answer :: agent_poll_answer where
  "ex_start_answer = \<lparr>pa_task = Some (''t2'', ''start_model_instance'', ex_start), pa_config = None\<rparr>"

theorem start_result_reaches_server_witness:
  "\<exists>r q d' row'. record_agent_task_result demo_ext 100 ''t2'' q ex_start_db = (Inr (), d')
     \<and> row' \<in> set (model_instances d') \<and> mi_id row' = ''i1'' \<and> mi_status row' = it_instance_status r
     \<and> r = fst (start_model_instance_with_store demo_ext ex_agent ex_start
          (log_starting ex_agent ex_log_policy ''t2'' ''start_model_instance'' ex_mem))"
proof -
  obtain res m' es sent where
    run: "run_once_task demo_ext ex_agent ex_log_policy [] ''n1'' (\<lambda>_. None) (Inr ex_start_answer) ex_mem
      = (res, m', es, sent)" by (metis prod_cases4)
  obtain r m2 es2 where
    res: "start_model_instance_with_store demo_ext ex_agent ex_start
          (log_starting ex_agent ex_log_policy ''t2'' ''start_model_instance'' ex_mem) = (r, m2, es2)"
    by (metis prod_cases3)
  have task: "pa_task ex_start_answer = Some (''t2'', ''start_model_instance'', ex_start)"
    by (simp add: ex_start_answer_def)
  have t: "find (\<lambda>t. t_id t = ''t2'' \<and> t_node_id t = ''n1'') (agent_tasks ex_start_db) = Some ex_start_task"
    "t_kind ex_start_task = ''start_model_instance''" by code_simp+
  have pl: "ext_jparse demo_ext (t_payload_json ex_start_task) = Some ex_start" by code_simp
  have g: "get_str ex_start ''instance_id'' = Some ''i1''" by code_simp
  have row: "ex_instance ''stopped'' \<in> set (model_instances ex_start_db)" "mi_id (ex_instance ''stopped'') = ''i1''"
    by (simp_all add: ex_start_db_def ex_db_def ex_instance_def)
  from start_result_reaches_server [OF run task res t pl g row, of 100] res show ?thesis by auto
qed








text \<open>C24: Whatever is typed on the server's command line, the database stays a state of a run of the server:
the queue, the accounts (an enabled administrator remains, revoked sessions stay dead), the nodes, the
catalog and the instances keep what every operation keeps, and the collector registry keeps one entry per id
and version. Only \<^verbatim>\<open>--reset-password\<close> and the collector commands touch it at all.\<close>

theorem command_line_keeps_server:
  "server_kept d (snd (server_main x h now salt args d))
   \<and> (registry_ok d \<longrightarrow> registry_ok (snd (server_main x h now salt args d)))
   \<and> (''--reset-password'' \<notin> set args \<and> ''collector'' \<notin> set args \<longrightarrow> snd (server_main x h now salt args d) = d)"
  using kept_server_main [of d x h now salt args] server_main_unchanged [of args x h now salt d]
  unfolding command_kept_def by blast

definition ex_config :: server_config where
  "ex_config = default_server_config\<lparr>sc_http := \<lparr>hp_enabled = True, hp_listen_addr = ''127.0.0.1:18080''\<rparr>\<rparr>"

definition ex_file_config :: file_config where
  "ex_file_config = \<lparr>fc_server = None, fc_database = None, fc_web = None, fc_metrics = None, fc_auth = None,
     fc_logs = None, fc_https = None, fc_http = Some \<lparr>hp_enabled = True, hp_listen_addr = ''127.0.0.1:18080''\<rparr>,
     fc_setup_token = None\<rparr>"

definition ex_config_host :: config_host where
  "ex_config_host = \<lparr>ch_read = Inr, ch_toml = (\<lambda>_. Inr ex_file_config), ch_is_file = (\<lambda>_. True), ch_env = (\<lambda>_. None)\<rparr>"

text \<open>A collector directory as the two programs read it; the hash is the identity.\<close>

definition ex_scripts :: "string \<Rightarrow> file_read option" where
  "ex_scripts = [''discover.sh'' \<mapsto> Inr ''D'', ''metrics.sh'' \<mapsto> Inr ''M'']"

definition ex_cli_manifest :: cli_manifest where
  "ex_cli_manifest = \<lparr>cm_id = ''nv'', cm_vendor = ''nvidia'', cm_name = ''NV'', cm_version = ''1'', cm_description = [],
     cm_discover = ''discover.sh'', cm_metrics = ''metrics.sh''\<rparr>"


definition ex_registry_dir :: registry_dir where
  "ex_registry_dir = \<lparr>gd_path = ''/c/nv'', gd_is_dir = True, gd_manifest = Some (Inr ex_cli_manifest), gd_files = ex_scripts\<rparr>"




definition ex_server_host :: server_host where
  "ex_server_host = \<lparr>sh_config = ex_config_host, sh_version = ''0'', sh_make_dirs = (\<lambda>_. None), sh_write = (\<lambda>_. None),
     sh_exists = (\<lambda>_. False), sh_open = (\<lambda>_. None), sh_read = Inr, sh_connect = (\<lambda>_. None),
     sh_collector = (\<lambda>_. ex_registry_dir), sh_root = (\<lambda>_. Inr [ex_registry_dir]), sh_sha = id, sh_pretty = (\<lambda>_. []),
     sh_address = (\<lambda>_. None), sh_bind = (\<lambda>_. None), sh_is_ip = (\<lambda>_. False), sh_dns_error = (\<lambda>_. None),
     sh_ca = Inl ''no'', sh_sign = (\<lambda>_ _ _ _ _. Inl ''no''), sh_certs = (\<lambda>_. []), sh_keys = (\<lambda>_. []),
     sh_tls = (\<lambda>_ _. None), sh_random = []\<rparr>"

theorem command_line_keeps_server_witness:
  "snd (server_main demo_ext ex_server_host 100 ''z'' [''lightai-server''] ex_db) = ex_db"
  using command_line_keeps_server [of ex_db demo_ext ex_server_host 100 "''z''" "[''lightai-server'']"] by simp

text \<open>C25: A server that serves has been checked. Whatever the files, the environment and the command line say, a
run of the program that ends up serving is in server mode, has opened the database of its configuration before
it starts a listener, has installed a valid log policy, cleans up with a retention and an interval of at least
one day and hour, asks for passwords of at least eight characters and sessions of at least five minutes, and,
where it has an encrypted listener, could load certificate and key. The database is as it was.\<close>

theorem serving_run_is_checked:
  assumes "server_main x h now salt args d = ((es, RunServes), d')"
  shows "d' = d \<and> (\<exists>c before ls. sound_config c \<and> 8 \<le> pp_min_length (sc_password_policy c)
    \<and> 300 \<le> sp_ttl_secs (sc_session_policy c)
    \<and> es = before @ [DatabaseOpened (sc_database_url c),
        CleanupStarted (sc_metrics_retention_days c) (sc_cleanup_interval_hours c), AppBuilt (app_of c)] @ ls
    \<and> (\<forall>e \<in> set before. \<not> listener e) \<and> LogPolicySet (sc_log_policy c) \<in> set before
    \<and> ls \<noteq> [] \<and> (\<forall>e \<in> set ls. listener e)
    \<and> (\<forall>s. sc_https c = Some s \<longrightarrow> load_tls_config h s = None \<and> HttpsListener (hs_listen_addr s) s \<in> set ls))"
proof -
  from assms obtain explicit idx where "server_mode h explicit d = ((es, RunServes), d')"
    by (rule serving_is_server_mode)
  from server_mode_serves [OF this] show ?thesis unfolding safe_to_serve_def by blast
qed

theorem serving_run_is_checked_witness:
  "\<exists>c before ls. fst (fst (server_main demo_ext ex_server_host 100 ''z'' [''lightai-server''] ex_db)) = before
      @ [DatabaseOpened (sc_database_url c), CleanupStarted (sc_metrics_retention_days c) (sc_cleanup_interval_hours c),
         AppBuilt (app_of c)] @ ls \<and> ls \<noteq> []"
proof -
  let ?r = "server_main demo_ext ex_server_host 100 ''z'' [''lightai-server''] ex_db"
  have m: "?r = (start_log, ex_db)"
    if "start_log = fst (server_mode ex_server_host None ex_db)" and "snd (server_mode ex_server_host None ex_db) = ex_db" for start_log
    using that by (simp add: server_main_def parse_cli_def prod_eq_iff)
  have s: "snd (fst (server_mode ex_server_host None ex_db)) = RunServes" by code_simp
  have k: "snd (server_mode ex_server_host None ex_db) = ex_db"
    unfolding server_mode_def by (rule with_database_db [where P = "\<lambda>d. d = ex_db"]) simp_all
  from m [OF refl k] s have "?r = ((fst (fst ?r), RunServes), ex_db)" by (simp add: prod_eq_iff)
  from serving_run_is_checked [OF this] show ?thesis by blast
qed








text \<open>C29: Whatever happens while an agent waits in its long poll, a task it is handed is stored as
running for the very node that asked, and the payload it gets is the stored payload.\<close>

theorem poll_hands_out_own_task:
  assumes "env_ok ws" and "tasks_wf d"
    and "poll_agent_task x nid v ws now d = (Inr r, d')" and "po_task r = Some av"
  shows "task_of d' (t_id (av_row av)) = Some (av_row av) \<and> t_node_id (av_row av) = nid
    \<and> t_status (av_row av) = ''running''
    \<and> ext_jparse x (t_payload_json (av_row av)) = Some (av_payload av)"
  using poll_hands_out [OF assms] by (simp add: handed_out_def)

theorem poll_hands_out_own_task_witness:
  "\<exists>r d' av. poll_agent_task demo_ext ''n1'' None [] 100 ex_db = (Inr r, d') \<and> po_task r = Some av
     \<and> t_status (av_row av) = ''running'' \<and> t_node_id (av_row av) = ''n1''"
proof -
  have "case poll_agent_task demo_ext ''n1'' None [] 100 ex_db of
      (Inr r, _) \<Rightarrow> po_task r \<noteq> None | _ \<Rightarrow> False" by code_simp
  then obtain r d' av where p: "poll_agent_task demo_ext ''n1'' None [] 100 ex_db = (Inr r, d')"
    "po_task r = Some av" by (auto split: prod.splits sum.splits)
  moreover have "tasks_wf ex_db" by code_simp
  ultimately show ?thesis
    using poll_hands_out_own_task [of "[]" ex_db demo_ext "''n1''" None 100 r d' av]
    by (auto simp: env_ok_def)
qed

text \<open>C30: A local instance task that is still pending when the agent reports success returns the
instance as the report describes it, whatever the agents did while the server waited.\<close>

theorem instance_task_follows_report:
  assumes "tasks_wf d" and "json_roundtrip x" and "kind \<in> set instance_kinds"
    and "prepare_instance_task x now i d = Inr (nid, p)"
    and "queue_task x now tid nid kind p d = Inr d1"
    and "wait_task tid (map (agent_run x) es) (mark_pending now i pending d1) = (DeadlinePassed, d2)"
    and "instance_of d2 i = Some r" and "tq_node_id q = nid" and "tq_status q = ''succeeded''"
  shows "\<exists>v d'. run_local_instance_task x now later tid
        (map (agent_run x) (es @ [AgentReports n tid q])) i kind pending d = (Inr v, d')
      \<and> iv_row v = instance_after_result n kind q r"
  using assms by (rule run_task_reported)

theorem instance_task_follows_report_witness:
  "\<exists>v d'. run_local_instance_task demo_ext 100 110 ''t2''
        (map (agent_run demo_ext) [AgentReports 105 ''t2'' (ex_result ''succeeded'' [])])
        ''i1'' ''start_model_instance'' ''starting'' ex_db = (Inr v, d')
      \<and> mi_status (iv_row v) = ''running''"
proof -
  let ?prep = "prepare_instance_task demo_ext 100 ''i1'' ex_db"
  have "case ?prep of Inr (n, p) \<Rightarrow> n = ''n1'' | Inl _ \<Rightarrow> False" by code_simp
  then obtain p where p: "?prep = Inr (''n1'', p)" by (auto split: sum.splits)
  obtain d1 where d1: "queue_task demo_ext 100 ''t2'' ''n1'' ''start_model_instance'' p ex_db = Inr d1"
    and e: "d1 = ex_db\<lparr>agent_tasks := agent_tasks ex_db
      @ [new_task 100 ''t2'' ''n1'' ''start_model_instance'' (demo_print p)]\<rparr>"
    using queue_task_Inr [of demo_ext 100 "''t2''" "''n1''" "''start_model_instance''" p ex_db]
    by (simp add: ex_db_def ex_task_def node_exists_def ex_node_def)
  let ?d2 = "mark_pending 100 ''i1'' ''starting'' d1"
  have t: "task_of ?d2 ''t2'' = Some (new_task 100 ''t2'' ''n1'' ''start_model_instance'' (demo_print p))"
    by (simp add: e task_of_def mark_pending_def set_instance_def ex_db_def ex_task_def)
  have w: "wait_task ''t2'' (map (agent_run demo_ext) []) ?d2 = (DeadlinePassed, ?d2)"
    by (subst wait_task.simps) (simp add: t closed_status_def)
  obtain r where r: "instance_of ?d2 ''i1'' = Some r"
    by (simp add: e instance_of_def mark_pending_def set_instance_def ex_db_def ex_instance_def update_where_def)
  have wf: "tasks_wf ex_db" by code_simp
  have q: "''start_model_instance'' \<in> set instance_kinds" "tq_node_id (ex_result ''succeeded'' []) = ''n1''"
    "tq_status (ex_result ''succeeded'' []) = ''succeeded''"
    by (simp_all add: instance_kinds_def ex_result_def)
  have run: "mi_status (instance_after_result 105 k (ex_result ''succeeded'' []) r) = ''running''"
    if "k = ''start_model_instance''" for k
    using that by (simp add: instance_after_result_def instance_next_status_def ex_result_def
        get_str_def succeeded_def unwrap_or_def Let_def)
  obtain v d' where "run_local_instance_task demo_ext 100 110 ''t2''
        (map (agent_run demo_ext) ([] @ [AgentReports 105 ''t2'' (ex_result ''succeeded'' [])]))
        ''i1'' ''start_model_instance'' ''starting'' ex_db = (Inr v, d')"
    and "iv_row v = instance_after_result 105 ''start_model_instance'' (ex_result ''succeeded'' []) r"
    using instance_task_follows_report [OF wf demo_ext_roundtrip q(1) p d1 w r q(2,3)] by blast
  with run [OF refl] show ?thesis by (auto simp: append_Nil)
qed

text \<open>An instance task the agent has not answered when the deadline passes ends in the time-out
error, and the instance is left failed with its task closed.\<close>

theorem instance_task_deadline:
  assumes "prepare_instance_task x now i d = Inr (nid, p)"
    and "queue_task x now tid nid kind p d = Inr d1"
    and "wait_task tid es (mark_pending now i pending d1) = (DeadlinePassed, d2)"
    and "instance_of d2 i = Some r"
  shows "\<exists>d' r'. run_local_instance_task x now later tid es i kind pending d = (Inl instance_task_timed_out, d')
    \<and> instance_of d' i = Some r' \<and> mi_status r' = ''failed''
    \<and> (\<forall>t. task_of d' tid = Some t \<longrightarrow> \<not> task_open t)"
  using assms by (rule run_task_deadline)

theorem instance_task_deadline_witness:
  "\<exists>d' r'. run_local_instance_task demo_ext 100 110 ''t2'' [] ''i1'' ''stop_model_instance'' ''stopping'' ex_db
      = (Inl instance_task_timed_out, d') \<and> instance_of d' ''i1'' = Some r' \<and> mi_status r' = ''failed''"
proof -
  let ?prep = "prepare_instance_task demo_ext 100 ''i1'' ex_db"
  have "case ?prep of Inr (n, p) \<Rightarrow> n = ''n1'' | Inl _ \<Rightarrow> False" by code_simp
  then obtain p where p: "?prep = Inr (''n1'', p)" by (auto split: sum.splits)
  obtain d1 where d1: "queue_task demo_ext 100 ''t2'' ''n1'' ''stop_model_instance'' p ex_db = Inr d1"
    and e: "d1 = ex_db\<lparr>agent_tasks := agent_tasks ex_db
      @ [new_task 100 ''t2'' ''n1'' ''stop_model_instance'' (demo_print p)]\<rparr>"
    using queue_task_Inr [of demo_ext 100 "''t2''" "''n1''" "''stop_model_instance''" p ex_db]
    by (simp add: ex_db_def ex_task_def node_exists_def ex_node_def)
  let ?d2 = "mark_pending 100 ''i1'' ''stopping'' d1"
  have t: "task_of ?d2 ''t2'' = Some (new_task 100 ''t2'' ''n1'' ''stop_model_instance'' (demo_print p))"
    by (simp add: e task_of_def mark_pending_def set_instance_def ex_db_def ex_task_def)
  have w: "wait_task ''t2'' [] ?d2 = (DeadlinePassed, ?d2)"
    by (subst wait_task.simps) (simp add: t closed_status_def)
  obtain r where r: "instance_of ?d2 ''i1'' = Some r"
    by (simp add: e instance_of_def mark_pending_def set_instance_def ex_db_def ex_instance_def update_where_def)
  from instance_task_deadline [OF p d1 w r, of 110] show ?thesis by blast
qed

text \<open>C31: After the sweep of overdue tasks has run to its end no task is overdue: none is running past its
lease, none has been queued for more than five minutes.\<close>

theorem sweep_leaves_no_overdue:
  assumes "mark_timed_out_tasks x now d = (Inr u, d')" and "t \<in> set (agent_tasks d')"
  shows "(t_status t = ''running'' \<longrightarrow> (\<forall>l. t_lease_until t = Some l \<longrightarrow> now \<le> l))
    \<and> (t_status t = ''queued'' \<longrightarrow> now - AGENT_TASK_QUEUE_TIMEOUT \<le> t_created_at t)"
  using no_overdue_left [OF assms] by (auto simp: task_overdue_def)

theorem sweep_leaves_no_overdue_witness:
  "\<exists>d'. mark_timed_out_tasks demo_ext 1000 ex_db = (Inr (), d') \<and> agent_tasks d' \<noteq> []
     \<and> (\<forall>t \<in> set (agent_tasks d'). t_status t = ''queued'' \<longrightarrow> 700 \<le> t_created_at t)"
proof -
  have "case mark_timed_out_tasks demo_ext 1000 ex_db of (Inr u, d') \<Rightarrow> agent_tasks d' \<noteq> [] | _ \<Rightarrow> False"
    by code_simp
  then obtain d' where d: "mark_timed_out_tasks demo_ext 1000 ex_db = (Inr (), d')" "agent_tasks d' \<noteq> []"
    by (auto split: prod.splits sum.splits)
  with sweep_leaves_no_overdue [OF d(1)] show ?thesis by (auto simp: AGENT_TASK_QUEUE_TIMEOUT_def)
qed

text \<open>C32: Marking a task as timed out refines the abstract queue, a map from task ids to statuses: the
entry becomes TimedOut when it is Queued or Running, and nothing else changes.\<close>

theorem time_out_refines_queue:
  "abs_queue (mark_task_timed_out now i d) = spec_time_out i (abs_queue d)"
  by (rule abs_queue_time_out)

text \<open>A request that waits for its agent task ends either with the closed task, unchanged but for
its progress, or at its deadline with the task still open; the row never gets lost.\<close>

theorem wait_ends_closed_or_at_deadline:
  assumes "tasks_wf d" and "task_of d i = Some t"
    and "wait_task i (map (agent_run x) es) d = (w, d')"
  shows "\<exists>t'. task_of d' i = Some t' \<and> same_task t t'
    \<and> (w = Ended t' \<and> closed_status (t_status t') \<or> w = DeadlinePassed \<and> \<not> closed_status (t_status t'))"
  using agent.wait_outcome [OF assms] by blast

theorem wait_ends_closed_or_at_deadline_witness:
  "\<exists>w d' t'. wait_task ''t1'' (map (agent_run demo_ext) [AgentPolls 100 ''n1'']) ex_db = (w, d')
     \<and> task_of d' ''t1'' = Some t' \<and> same_task ex_task t'"
proof -
  obtain w d' where w: "wait_task ''t1'' (map (agent_run demo_ext) [AgentPolls 100 ''n1'']) ex_db = (w, d')"
    by fastforce
  have wf: "tasks_wf ex_db" by code_simp
  have t: "task_of ex_db ''t1'' = Some ex_task"
    by (simp add: task_of_def ex_db_def ex_task_def)
  obtain t' where "task_of d' ''t1'' = Some t'" and "same_task ex_task t'"
    using wait_ends_closed_or_at_deadline [OF wf t w] by blast
  with w show ?thesis by blast
qed

text \<open>A runtime environment that could be created is stored for its node, has a backend and a deploy
type of the fixed lists and a name that is not blank, and counts as usable: unless it is an Ollama
runtime, an agent that was online has checked it first and succeeded.\<close>

theorem runtime_created_is_checked:
  assumes "create_runtime_environment x now later tid rid es nid r d = (Inr row, d')"
  shows "runtime_of d' rid = Some row \<and> runtime_environment_usable (re_check_status row)
    \<and> re_node_id row = Some nid \<and> re_backend row \<in> set backends
    \<and> re_deploy_type row \<in> set deploy_types \<and> \<not> blank (re_name row)
    \<and> (rr_backend r = ''ollama'' \<or> node_online d now nid
        \<and> (\<exists>d1 d2 t. queue_task x now tid nid ''check_runtime_environment'' (runtime_check_payload r) d = Inr d1
            \<and> wait_task tid es d1 = (Ended t, d2) \<and> t_status t = ''succeeded''))"
  using create_runtime_Inr [OF assms] create_runtime_needs_check [OF assms] by blast

theorem runtime_created_is_checked_witness:
  "\<exists>row d'. create_runtime_environment demo_ext 100 101 ''t2'' ''r2''
      (map (agent_run demo_ext) [AgentReports 101 ''t2'' (ex_result ''succeeded'' [])]) ''n1''
      ex_runtime_request ex_db = (Inr row, d')
    \<and> runtime_of d' ''r2'' = Some row \<and> runtime_environment_usable (re_check_status row)"
proof -
  have "succeeds (create_runtime_environment demo_ext 100 101 ''t2'' ''r2''
      (map (agent_run demo_ext) [AgentReports 101 ''t2'' (ex_result ''succeeded'' [])]) ''n1''
      ex_runtime_request ex_db)" by code_simp
  then obtain row d' where r: "create_runtime_environment demo_ext 100 101 ''t2'' ''r2''
      (map (agent_run demo_ext) [AgentReports 101 ''t2'' (ex_result ''succeeded'' [])]) ''n1''
      ex_runtime_request ex_db = (Inr row, d')" by (rule succeedsE)
  with runtime_created_is_checked [OF r] show ?thesis by blast
qed

text \<open>A runtime environment used by an instance that is starting, running or stopping is neither
changed nor deleted: both operations fail and leave the database as it was.\<close>

theorem runtime_in_use_is_protected:
  assumes "users_of_runtime d i \<noteq> []"
  shows "(\<exists>e. update_runtime_environment x now i r d = (Inl e, d))
    \<and> (\<exists>e. delete_runtime_environment i d = (Inl e, d))"
proof -
  from assms obtain q where "q \<in> set (model_instances d)" "mi_runtime_environment_id q = Some i"
    by (auto simp: users_of_runtime_def filter_empty_conv)
  with update_runtime_in_use [OF assms] delete_runtime_in_use show ?thesis by blast
qed

theorem runtime_in_use_is_protected_witness:
  "\<exists>e. update_runtime_environment demo_ext 100 ''r1'' ex_runtime_request ex_running_db = (Inl e, ex_running_db)"
proof -
  have "users_of_runtime ex_running_db ''r1'' \<noteq> []" by code_simp
  from runtime_in_use_is_protected [OF this] show ?thesis by blast
qed

text \<open>A model file that could be created belongs to an existing model, has a path that is not blank
and never goes up, and was verified by the agent of its node, which was online.\<close>

theorem model_file_created_is_verified:
  assumes "create_model_file x now later tid fid es mid r d = (Inr v, d')"
  shows "model_exists d mid \<and> \<not> blank (fr_path r) \<and> ''..'' \<notin> set (split_on (CHR ''/'') (fr_path r))
    \<and> (\<exists>d1. verified_by_agent x now tid es (fr_node_id r) (fr_path r) d d1)
    \<and> (\<exists>q. file_of d' fid = Some q \<and> mf_model_id q = mid \<and> mf_node_id q = fr_node_id r
         \<and> mf_path q = fr_path r \<and> mf_deleted_at q = None)"
  using create_model_file_Inr [OF assms] by blast

theorem model_file_created_is_verified_witness:
  "\<exists>q d'. file_of d' ''f2'' = Some q \<and> mf_model_id q = ''m1'' \<and> mf_path q = ''/m/g''
    \<and> node_online ex_db 100 ''n1''"
proof -
  let ?r = "create_model_file demo_ext 100 101 ''t2'' ''f2''
    (map (agent_run demo_ext) [AgentReports 101 ''t2'' (ex_result ''succeeded'' [])]) ''m1''
    \<lparr>fr_node_id = ''n1'', fr_path = ''/m/g''\<rparr> ex_db"
  have "succeeds ?r" by code_simp
  then obtain v d' where r: "?r = (Inr v, d')" by (rule succeedsE)
  from model_file_created_is_verified [OF r] show ?thesis
    by (auto simp: verified_by_agent_def)
qed

text \<open>Removing a file from its model keeps a record: the file row is marked deleted and a trash item
for it exists.\<close>

theorem deleted_file_is_in_trash:
  assumes "delete_model_file x now trid i d = (Inr u, d')"
  shows "(\<exists>q. file_of d' i = Some q \<and> mf_deleted_at q = Some now)
    \<and> (\<exists>r \<in> set (model_file_trash d'). tr_model_file_id r = Some i)"
  using assms by (rule delete_model_file_Inr)

theorem deleted_file_is_in_trash_witness:
  "\<exists>d' r. delete_model_file demo_ext 100 ''x1'' ''f1'' ex_db = (Inr (), d')
    \<and> r \<in> set (model_file_trash d') \<and> tr_model_file_id r = Some ''f1''"
proof -
  have "succeeds (delete_model_file demo_ext 100 ''x1'' ''f1'' ex_db)" by code_simp
  then obtain u d' where r: "delete_model_file demo_ext 100 ''x1'' ''f1'' ex_db = (Inr u, d')"
    by (rule succeedsE)
  with deleted_file_is_in_trash [OF r] show ?thesis by auto
qed

text \<open>A clean-up of a trash item reports success only when the file was already gone before the
call or when the agent's clean-up task has succeeded.\<close>

theorem cleanup_success_is_agents:
  assumes "cleanup_model_file_trash x now later tid es i d = (Inr v, d')"
  shows "(d' = d \<and> tr_file_deleted_at (tv_row v) \<noteq> None)
    \<or> (\<exists>t. task_of d' tid = Some t \<and> t_status t = ''succeeded'')"
  using assms by (rule cleanup_Inr)

theorem cleanup_success_is_agents_witness:
  "\<exists>v d' t. cleanup_model_file_trash demo_ext 100 101 ''t2''
      (map (agent_run demo_ext) [AgentReports 101 ''t2'' (ex_result ''succeeded'' [])]) ''x1'' ex_trash_db = (Inr v, d')
    \<and> (d' = ex_trash_db \<or> task_of d' ''t2'' = Some t)"
proof -
  let ?r = "cleanup_model_file_trash demo_ext 100 101 ''t2''
      (map (agent_run demo_ext) [AgentReports 101 ''t2'' (ex_result ''succeeded'' [])]) ''x1'' ex_trash_db"
  have "succeeds ?r" by code_simp
  then obtain v d' where r: "?r = (Inr v, d')" by (rule succeedsE)
  with cleanup_success_is_agents [OF r] show ?thesis by blast
qed

text \<open>The file status of a model, computed in the code by counters and two flags in one loop, is
the status the rows determine: no files, all verified, some verified, all pending, or failed. The
counters are ordered: nodes with a verified file, verified files, files.\<close>

theorem file_summary_is_specified:
  "fs_file_status (summarize_files rows) =
     (if rows = [] then ''no_files''
      else if \<forall>r \<in> set rows. mf_status r = ''verified'' then ''all_files_verified''
      else if \<exists>r \<in> set rows. mf_status r = ''verified'' then ''partially_verified''
      else if \<forall>r \<in> set rows. pending_status (mf_status r) then ''pending_verification''
      else ''verification_failed'')
   \<and> fs_available_node_count (summarize_files rows) \<le> fs_verified_file_count (summarize_files rows)
   \<and> fs_verified_file_count (summarize_files rows) \<le> fs_total_file_count (summarize_files rows)"
  using summary_status [of rows] summary_bounds [of rows] by blast

theorem file_summary_is_specified_witness:
  "fs_file_status (summarize_files [ex_file]) = ''all_files_verified''"
  using file_summary_is_specified [of "[ex_file]"] by (simp add: ex_file_def)

text \<open>A model that could be created exists under its id, no other model has its name, and its first
file was verified by the agent before the model was stored.\<close>

theorem model_created_with_verified_file:
  assumes "create_model x now later tid i fid es r d = (Inr v, d')"
  shows "\<exists>f d1. mr_initial_file r = Some f \<and> verified_by_agent x now tid es (fr_node_id f) (fr_path f) d d1
      \<and> model_exists d' i
      \<and> (\<exists>q. file_of d' fid = Some q \<and> mf_model_id q = i \<and> mf_node_id q = fr_node_id f
            \<and> mf_path q = fr_path f \<and> mf_deleted_at q = None)
      \<and> (\<forall>m \<in> set (models d'). m_name m = mr_name r \<longrightarrow> m_id m = i)"
  using assms by (rule create_model_Inr)

theorem model_created_with_verified_file_witness:
  "\<exists>v d'. create_model demo_ext 100 101 ''t2'' ''m2'' ''f2''
      (map (agent_run demo_ext) [AgentReports 101 ''t2'' (ex_result ''succeeded'' [])]) ex_model_request ex_db
      = (Inr v, d') \<and> model_exists d' ''m2''"
proof -
  let ?r = "create_model demo_ext 100 101 ''t2'' ''m2'' ''f2''
      (map (agent_run demo_ext) [AgentReports 101 ''t2'' (ex_result ''succeeded'' [])]) ex_model_request ex_db"
  have "succeeds ?r" by code_simp
  then obtain v d' where r: "?r = (Inr v, d')" by (rule succeedsE)
  with model_created_with_verified_file [OF r] show ?thesis by blast
qed

text \<open>A model that could be deleted had no starting or running instance, is gone from the catalog,
and each of its files has a trash item.\<close>

theorem model_deleted_safely:
  assumes "delete_model x now trids i d = (Inr u, d')" and "length trids = length (live_files d i)"
  shows "(\<forall>r \<in> set (model_instances d). mi_model_id r = Some i \<longrightarrow> mi_status r \<notin> {''starting'', ''running''})
    \<and> \<not> model_exists d' i
    \<and> (\<forall>fid \<in> set (live_files d i). \<exists>r \<in> set (model_file_trash d'). tr_model_file_id r = Some fid)"
  using delete_model_Inr [OF assms] by blast

theorem model_deleted_safely_witness:
  "\<exists>d'. delete_model demo_ext 100 [''x1''] ''m1'' ex_db = (Inr (), d') \<and> \<not> model_exists d' ''m1''"
proof -
  have "succeeds (delete_model demo_ext 100 [''x1''] ''m1'' ex_db)" by code_simp
  then obtain u d' where r: "delete_model demo_ext 100 [''x1''] ''m1'' ex_db = (Inr u, d')"
    by (rule succeedsE)
  have "length [''x1''] = length (live_files ex_db ''m1'')" by code_simp
  with model_deleted_safely [OF r] r show ?thesis by auto
qed

text \<open>C33: A local instance that could be created starts as stopped on the node of its runtime, which has
passed the agent's check; unless the runtime is Ollama it points to a verified file of that node that
is not deleted, and to that file's model.\<close>

theorem local_instance_is_consistent:
  assumes "create_local_model_instance x now i r d = (Inr v, d')"
  shows "\<exists>q env nid. instance_of d' i = Some q \<and> mi_deploy_type q = ''local'' \<and> mi_status q = ''stopped''
    \<and> mi_node_id q = Some nid \<and> mi_runtime_environment_id q = Some (re_id env)
    \<and> env \<in> set (runtime_environments d) \<and> re_node_id env = Some nid
    \<and> runtime_environment_usable (re_check_status env) \<and> mi_backend q = re_backend env
    \<and> (re_backend env = ''ollama''
       \<or> (\<exists>f \<in> set (model_files d). mi_model_file_id q = Some (mf_id f) \<and> mi_model_id q = Some (mf_model_id f)
            \<and> mf_node_id f = nid \<and> mf_status f = ''verified'' \<and> mf_deleted_at f = None))"
  using assms by (rule create_local_Inr)

theorem local_instance_is_consistent_witness:
  "\<exists>v d' q. create_local_model_instance demo_ext 100 ''i2'' ex_instance_request ex_db = (Inr v, d')
    \<and> instance_of d' ''i2'' = Some q \<and> mi_status q = ''stopped''"
proof -
  have "succeeds (create_local_model_instance demo_ext 100 ''i2'' ex_instance_request ex_db)" by code_simp
  then obtain v d' where r: "create_local_model_instance demo_ext 100 ''i2'' ex_instance_request ex_db = (Inr v, d')"
    by (rule succeedsE)
  with local_instance_is_consistent [OF r] show ?thesis by blast
qed



text \<open>When a start, stop, check or test of a local instance reports success, the instance was ready
for it (local, its node online, its runtime checked, its file verified unless it is Ollama), the agent's
task has succeeded, and the view returned is the stored row.\<close>

theorem instance_task_success:
  assumes "run_local_instance_task x now later tid es i kind pending d = (Inr v, d')"
  shows "(\<exists>nid. instance_ready now i nid d) \<and> instance_of d' i = Some (iv_row v)
    \<and> (\<exists>t. task_of d' tid = Some t \<and> t_status t = ''succeeded'')"
  using assms by (rule run_task_Inr)

theorem instance_task_success_witness:
  "\<exists>v d'. run_local_instance_task demo_ext 100 110 ''t2''
        (map (agent_run demo_ext) [AgentReports 105 ''t2'' (ex_result ''succeeded'' [])])
        ''i1'' ''start_model_instance'' ''starting'' ex_db = (Inr v, d')
      \<and> instance_of d' ''i1'' = Some (iv_row v)"
proof -
  let ?r = "run_local_instance_task demo_ext 100 110 ''t2''
        (map (agent_run demo_ext) [AgentReports 105 ''t2'' (ex_result ''succeeded'' [])])
        ''i1'' ''start_model_instance'' ''starting'' ex_db"
  have "succeeds ?r" by code_simp
  then obtain v d' where r: "?r = (Inr v, d')" by (rule succeedsE)
  with instance_task_success [OF r] show ?thesis by blast
qed



text \<open>A session that has been revoked stays dead: whatever the server does afterwards, new logins
included, its token never authenticates again.\<close>

theorem revoked_token_stays_dead:
  assumes "server_runs x (revoke_session x now token d) d'"
    and "accounts_ok d" and "s \<in> set (user_sessions d)" and "us_token_hash s = ext_hash_token x token"
  shows "fst (authenticate_session x later token sp d') = None"
proof -
  let ?d = "revoke_session x now token d"
  have ok: "accounts_ok ?d"
    using step_revoke [of d x now token] assms(2) by (simp add: account_step_def)
  have dead: "token_dead ?d (ext_hash_token x token)" using assms(3,4) by (rule revoke_dead)
  from runs_kept [OF assms(1)] ok dead have "accounts_ok d'" "token_dead d' (ext_hash_token x token)"
    by (simp_all add: server_kept_def account_step_def)
  then show ?thesis by (simp add: authenticate_dead)
qed

theorem revoked_token_stays_dead_witness:
  "fst (authenticate_session demo_ext 102 ''tok'' default_session_policy
     (account_run demo_ext
        (Login 101 ''s2'' ''tok'' ''bob'' ''bob-Secret1'' default_session_policy default_password_policy)
        (revoke_session demo_ext 100 ''tok'' ex_db))) = None"
proof -
  have "accounts_ok ex_db" by code_simp
  moreover have "ex_session \<in> set (user_sessions ex_db)" by (simp add: ex_db_def)
  moreover have "us_token_hash ex_session = ext_hash_token demo_ext ''tok''"
    by (simp add: ex_session_def demo_ext_def)
  ultimately show ?thesis by (rule revoked_token_stays_dead [OF server_runs.account])
qed

text \<open>A token authenticates only through a stored session that is neither revoked, expired nor idle
for too long, and only for the enabled user the session belongs to.\<close>

theorem authentication_is_sound:
  assumes "authenticate_session x now token sp d = (Some a, d')"
  shows "\<exists>s u. s \<in> set (user_sessions d) \<and> us_token_hash s = ext_hash_token x token
    \<and> us_revoked_at s = None \<and> now < us_expires_at s \<and> \<not> idle_too_long sp now s
    \<and> user_of d (us_user_id s) = Some u \<and> u_enabled u \<and> au_id a = u_id u \<and> au_role a = u_role u"
  using assms by (rule authenticate_Some)

theorem authentication_is_sound_witness:
  "\<exists>a d' u. authenticate_session demo_ext 100 ''tok'' default_session_policy ex_db = (Some a, d')
     \<and> user_of ex_db (au_id a) = Some u \<and> u_enabled u"
proof -
  have "fst (authenticate_session demo_ext 100 ''tok'' default_session_policy ex_db) \<noteq> None" by code_simp
  then obtain a d' where r: "authenticate_session demo_ext 100 ''tok'' default_session_policy ex_db = (Some a, d')"
    by (cases "authenticate_session demo_ext 100 ''tok'' default_session_policy ex_db") auto
  from authentication_is_sound [OF r] obtain s :: session_row and u
    where "user_of ex_db (us_user_id s) = Some u" "u_enabled u" "au_id a = u_id u" by blast
  moreover from this have "u_id u = us_user_id s" by (auto simp: user_of_def dest: find_Some_D)
  ultimately show ?thesis using r by auto
qed

text \<open>A login gives a token that authenticates the same user until the session's time to live has run
out, provided it is not left idle beyond the policy.\<close>

theorem login_then_authenticate:
  assumes "accounts_ok d" and "login_user x now sid token name pw sp pp d = (Inr (Some (a, t)), d')"
    and "later < now + sp_ttl_secs sp"
    and "case sp_idle_timeout_secs sp of None \<Rightarrow> True | Some i \<Rightarrow> later - now \<le> i"
  shows "\<exists>b. fst (authenticate_session x later t sp d') = Some b \<and> au_id b = au_id a"
  using assms by (rule login_authenticates)

theorem login_then_authenticate_witness:
  "\<exists>a t d' b. login_user demo_ext 100 ''s2'' ''new'' ''ann'' ''ann-Secret1'' default_session_policy
       default_password_policy ex_db = (Inr (Some (a, t)), d')
     \<and> fst (authenticate_session demo_ext 110 t default_session_policy d') = Some b \<and> au_id b = au_id a"
proof -
  let ?l = "login_user demo_ext 100 ''s2'' ''new'' ''ann'' ''ann-Secret1'' default_session_policy
       default_password_policy ex_db"
  have "case fst ?l of Inr r \<Rightarrow> r \<noteq> None | Inl _ \<Rightarrow> False" by code_simp
  then obtain a t d' where r: "?l = (Inr (Some (a, t)), d')"
    by (cases ?l) (auto split: sum.splits)
  have ok: "accounts_ok ex_db" by code_simp
  have "(110::int) < 100 + sp_ttl_secs default_session_policy"
    and "case sp_idle_timeout_secs default_session_policy of None \<Rightarrow> True | Some i \<Rightarrow> (110::int) - 100 \<le> i"
    by code_simp+
  from login_then_authenticate [OF ok r this] r show ?thesis by blast
qed

text \<open>Changing a password needs the current one of an enabled account and revokes every session of
that account.\<close>

theorem password_change_revokes_sessions:
  assumes "change_user_password x now salt uid cur new policy d = (Inr a, d')"
  shows "(\<exists>u \<in> set (users d). u_id u = uid \<and> u_enabled u \<and> ext_verify_password x cur (u_password_hash u))
    \<and> (\<forall>s \<in> set (user_sessions d). us_user_id s = uid \<longrightarrow> token_dead d' (us_token_hash s))"
  using change_needs_password [OF assms] change_kills_sessions [OF assms] by blast

theorem password_change_revokes_sessions_witness:
  "\<exists>d'. change_user_password demo_ext 100 ''z'' ''bob'' ''bob-Secret1'' ''LongEnough123'' default_password_policy ex_db
      = (Inr (), d') \<and> token_dead d' ''h:tok''"
proof -
  let ?r = "change_user_password demo_ext 100 ''z'' ''bob'' ''bob-Secret1'' ''LongEnough123'' default_password_policy ex_db"
  have "succeeds ?r" by code_simp
  then obtain a d' where r: "?r = (Inr a, d')" by (rule succeedsE)
  have "ex_session \<in> set (user_sessions ex_db)" "us_user_id ex_session = ''bob''" "us_token_hash ex_session = ''h:tok''"
    by (simp_all add: ex_db_def ex_session_def)
  with password_change_revokes_sessions [OF r] r show ?thesis by fastforce
qed

text \<open>A registration returns the node id of the node with this very name and hostname, a new id
otherwise; the node is stored with the token's hash, no other node changes, and node names, hostnames
and ids stay unique.\<close>

theorem registration_keeps_identity:
  assumes "nodes_ok d" and "try_register x now fresh token r d = (Inr v, d')"
  shows "rs_node_id v = register_id fresh r d \<and> rs_agent_token v = token
    \<and> (\<exists>n. node_of d' (rs_node_id v) = Some n \<and> n_name n = rg_name r \<and> n_hostname n = rg_hostname r
         \<and> n_token_hash n = ext_hash_token x token)
    \<and> (\<forall>k. k \<noteq> rs_node_id v \<longrightarrow> node_of d' k = node_of d k) \<and> nodes_ok d'"
  using try_register_Inr [OF assms(2)] nodes_ok_register [OF assms(1), of x now fresh token r] assms(2) by simp

theorem registration_keeps_identity_witness:
  "\<exists>v d'. try_register demo_ext 100 ''n2'' ''tk'' ex_register ex_db = (Inr v, d') \<and> rs_node_id v = ''n1''
    \<and> nodes_ok d'"
proof -
  have "succeeds (try_register demo_ext 100 ''n2'' ''tk'' ex_register ex_db)" by code_simp
  then obtain v d' where r: "try_register demo_ext 100 ''n2'' ''tk'' ex_register ex_db = (Inr v, d')"
    by (rule succeedsE)
  have ok: "nodes_ok ex_db" by code_simp
  have "register_id ''n2'' ex_register ex_db = ''n1''" by code_simp
  with registration_keeps_identity [OF ok r] r show ?thesis by auto
qed

text \<open>The calendar of the log time stamps counts the Gregorian calendar: day 0 is 1970-01-01 and the
date of the next day is the next date, month lengths and leap years included.\<close>

theorem calendar_is_gregorian:
  "civil_from_days 0 = (1970, 1, 1) \<and> civil_from_days (days + 1) = next_day (civil_from_days days)"
  using civil_epoch civil_from_days_next by blast

text \<open>No line of a sanitised text contains a sensitive word in any case: such lines are replaced
before anything is written to or read from a log.\<close>

theorem sanitized_text_is_clean:
  assumes "w \<in> set sensitive_words"
  shows "\<not> contains (to_ascii_lowercase (sanitize s)) w"
  using assms by (rule sanitize_clean)

theorem sanitized_text_is_clean_witness:
  "\<not> contains (to_ascii_lowercase (sanitize ''my PassWord is x'')) ''password''"
  by (rule sanitized_text_is_clean) (simp add: sensitive_words_def)

text \<open>A rotation loses no file below the retention limit: each moves to the next index with its
contents.\<close>

theorem rotation_keeps_files:
  assumes "append_log p de name level message now fs = (Inr u, fs')"
    and "level_enabled (lp_log_level p) level" and "lp_log_retention_days p = 0"
    and "lp_log_max_file_bytes p < int (file_size fs 0 + length (log_line now level message))"
    and "int i < lp_log_retention_files p" and "fs i \<noteq> None"
  shows "fs' (Suc i) = fs i"
  using assms by (rule rotation_keeps)

theorem rotation_keeps_files_witness:
  "\<exists>fs'. append_log ex_log_policy None ''instance.log'' ''error'' ''boom'' 100
       (\<lambda>i. if i = 0 then Some \<lparr>lf_content = ''old'', lf_modified = 1\<rparr> else None) = (Inr (), fs')
     \<and> fs' 1 = Some \<lparr>lf_content = ''old'', lf_modified = 1\<rparr>"
proof -
  let ?fs = "\<lambda>i::nat. if i = 0 then Some \<lparr>lf_content = ''old'', lf_modified = 1\<rparr> else None"
  let ?r = "append_log ex_log_policy None ''instance.log'' ''error'' ''boom'' 100 ?fs"
  have "case fst ?r of Inr _ \<Rightarrow> True | Inl _ \<Rightarrow> False" by code_simp
  then obtain fs' where r: "?r = (Inr (), fs')" by (cases ?r) (auto split: sum.splits)
  have l: "level_enabled (lp_log_level ex_log_policy) ''error''" "lp_log_retention_days ex_log_policy = 0"
    by (simp_all add: ex_log_policy_def level_enabled_def level_rank_def)
  have m: "lp_log_max_file_bytes ex_log_policy < int (file_size ?fs 0 + length (log_line 100 ''error'' ''boom''))"
    by code_simp
  have "int 0 < lp_log_retention_files ex_log_policy" "?fs 0 \<noteq> None" by (simp_all add: ex_log_policy_def)
  from rotation_keeps_files [OF r l m this] r show ?thesis by simp
qed

text \<open>What an administrator saves as the configuration policy of a scope is what the server reads
back, and its version is above every version handed out before, so that every agent notices it; the
policies of other scopes do not change.\<close>

theorem saved_policy_is_read_back:
  assumes "json_roundtrip x" and "policy_typed p"
    and "save_agent_config_policy x now scope nid p d = (Inr u, d')"
  shows "read_policy x d' scope nid = Inr (Some p)
    \<and> (\<exists>v. policy_version d' scope nid = Some v \<and> (\<forall>r \<in> set (agent_config_policies d). ap_version r < v))
    \<and> (\<forall>s n. (s, n) \<noteq> (scope, nid) \<longrightarrow> read_policy x d' s n = read_policy x d s n)"
proof (intro conjI)
  show "read_policy x d' scope nid = Inr (Some p)" using assms by (rule read_policy_after_save)
  show "\<exists>v. policy_version d' scope nid = Some v \<and> (\<forall>r \<in> set (agent_config_policies d). ap_version r < v)"
    using policy_row_after_save [OF assms(3)] next_policy_version_greater [of _ d]
    by (simp add: policy_version_def)
  show "\<forall>s n. (s, n) \<noteq> (scope, nid) \<longrightarrow> read_policy x d' s n = read_policy x d s n"
    using policy_row_other_after_save [OF assms(3)] by (simp add: read_policy_def)
qed

theorem saved_policy_is_read_back_witness:
  "\<exists>d'. save_agent_config_policy demo_ext 100 ''global'' [] empty_policy ex_db = (Inr (), d')
    \<and> read_policy demo_ext d' ''global'' [] = Inr (Some empty_policy)"
proof -
  have "succeeds (save_agent_config_policy demo_ext 100 ''global'' [] empty_policy ex_db)" by code_simp
  then obtain u d' where r: "save_agent_config_policy demo_ext 100 ''global'' [] empty_policy ex_db = (Inr u, d')"
    by (rule succeedsE)
  have t: "policy_typed empty_policy" by code_simp
  from saved_policy_is_read_back [OF demo_ext_roundtrip t r] r show ?thesis by simp
qed

text \<open>C36: Platform logs stay bounded: an append that is written leaves a log file of at most the configured
size, unless the one entry is itself larger and then the file holds that entry alone; and as long as the
number of rotated files is within the retention before the append, it is so after it.\<close>

theorem logs_stay_bounded:
  assumes "append_log p de name level message now fs = (Inr u, fs')"
    and "level_enabled (lp_log_level p) level" and "0 \<le> lp_log_retention_files p"
    and "\<forall>i. lp_log_retention_files p < int i \<longrightarrow> fs i = None"
  shows "(int (file_size fs' 0) \<le> lp_log_max_file_bytes p
      \<or> fs' 0 = Some \<lparr>lf_content = log_line now level message, lf_modified = int now\<rparr>)
    \<and> (\<forall>i. lp_log_retention_files p < int i \<longrightarrow> fs' i = None)"
  using append_log_size [OF assms(1,2)] append_log_bounded [of p fs] assms by (simp add: log_bounded_def)

theorem logs_stay_bounded_witness:
  "\<exists>fs'. append_log default_log_policy None ''instance.log'' ''error'' ''boom'' 100 (\<lambda>_. None) = (Inr (), fs')
    \<and> fs' 0 \<noteq> None \<and> fs' 6 = None"
proof -
  let ?r = "append_log default_log_policy None ''instance.log'' ''error'' ''boom'' 100 (\<lambda>_. None)"
  have "case fst ?r of Inr _ \<Rightarrow> True | Inl _ \<Rightarrow> False" by code_simp
  then obtain fs' where r: "?r = (Inr (), fs')" by (cases ?r) (auto split: sum.splits)
  have l: "level_enabled (lp_log_level default_log_policy) ''error''" by code_simp
  have n: "0 \<le> lp_log_retention_files default_log_policy" and five: "lp_log_retention_files default_log_policy = 5"
    by (simp_all add: default_log_policy_def)
  have "snd ?r 0 \<noteq> None" by code_simp
  with logs_stay_bounded [OF r l n] r show ?thesis by (auto simp: five)
qed

section \<open>Agents\<close>

text \<open>C37: Collectors fail closed. Every script an agent runs in a cycle in which it could fetch the
registry has a hash that the server's registry holds in an enabled entry, for a collector that the
agent's own settings do not exclude; this holds even if the files of the collector change between the
check and the execution, and without a collector root nothing runs.\<close>

theorem only_registered_scripts_run:
  assumes "fetch_collector_registry (sl_registry link token) = Inr (list_collector_registry d)"
    and "b \<in> set (cl_executed (cycle_collection node r (fetched_registry link r token)))"
  shows "rt_collector_root r \<noteq> None \<and> (\<exists>e \<in> set (collector_registry d). cr_enabled e
    \<and> cr_id e \<notin> set (rt_collector_disabled r)
    \<and> (rt_collector_mode r \<noteq> ''auto'' \<longrightarrow> cr_id e \<in> set (rt_collector_enabled r))
    \<and> (nl_sha node b = cr_discover_sha256 e \<or> nl_sha node b = cr_metrics_sha256 e))"
proof -
  have root: "rt_collector_root r \<noteq> None" using cycle_needs_root [OF assms(2)] .
  then have "fetched_registry link r token = list_collector_registry d"
    using assms(1) by (cases "rt_collector_root r") (simp_all add: fetched_registry_def)
  moreover have "set (list_collector_registry d) = set (collector_registry d)"
    by (simp add: list_collector_registry_def)
  ultimately show ?thesis using cycle_approved [OF assms(2)] root by simp
qed

definition ex_collector :: collector_row where
  "ex_collector = \<lparr>cr_id = ''smi'', cr_version = ''1'', cr_vendor = ''nvidia'', cr_name = ''smi'',
     cr_description = [], cr_discover_sha256 = ''#d'', cr_metrics_sha256 = ''#m'', cr_enabled = True,
     cr_created_at = 1, cr_updated_at = 1\<rparr>"

definition ex_collector_db :: db where
  "ex_collector_db = ex_db\<lparr>collector_registry := [ex_collector]\<rparr>"

definition ex_link :: server_link where
  "ex_link = \<lparr>sl_register = (\<lambda>_. NoAnswer ''down''),
     sl_registry = (\<lambda>_. Answer 200 (Inr (JObj [(''collectors'', JArr [JObj
        [(''id'', JStr ''smi''), (''vendor'', JStr ''nvidia''), (''name'', JStr ''smi''),
         (''version'', JStr ''1''), (''description'', JStr []), (''discover_sha256'', JStr ''#d''),
         (''metrics_sha256'', JStr ''#m''), (''enabled'', JBool True), (''created_at'', JInt 1),
         (''updated_at'', JInt 1)]])]))),
     sl_heartbeat = (\<lambda>_ _. NoAnswer ''down'')\<rparr>"

definition ex_manifest :: manifest where
  "ex_manifest = \<lparr>mf_c_id = ''smi'', mf_c_vendor = ''nvidia'', mf_c_name = ''smi'', mf_c_version = ''1'',
     mf_c_description = [], mf_c_discover = ''discover.sh'', mf_c_metrics = ''metrics.sh'',
     mf_c_discover_sha256 = [], mf_c_metrics_sha256 = [], mf_c_enabled = True, mf_c_priority = 100\<rparr>"

definition ex_tab :: "string list \<Rightarrow> string" where
  "ex_tab cols = join [CHR 0x09] cols @ [CHR 0x0A]"

definition ex_status :: string where
  "ex_status = ex_tab [''STATUS'', ''1'', ''ok'', ''nvidia'', ''smi'', []]"

definition ex_discovery :: string where
  "ex_discovery = ex_status
     @ ex_tab [''DEVICE'', ''1'', ''gpu-a'', ''nvidia'', ''0'', ''A10'', [], [], [], []]"

definition ex_metrics :: string where
  "ex_metrics = ex_status
     @ ex_tab [''METRIC'', ''1'', ''gpu-a'', ''24'', ''7'', [], ''50'', [], [], [], ''ok'', []]"

definition ex_agent_node :: node_link where
  "ex_agent_node = \<lparr>nl_entries = [\<lparr>de_path = ''/opt/smi'', de_is_dir = True,
        de_manifest = Some (Inr ex_manifest),
        de_files = (\<lambda>f. if f = ''discover.sh'' then Some (Inr ''d'')
                        else if f = ''metrics.sh'' then Some (Inr ''m'') else None)\<rparr>],
     nl_reread = (\<lambda>_ f. if f = ''discover.sh'' then Inr ''d'' else Inr ''m''),
     nl_shell = (\<lambda>_ b. Some \<lparr>so_stdout = (if b = ''d'' then ex_discovery else ex_metrics),
                             so_stderr = [], so_exit_code = Some 0, so_timed_out = False\<rparr>),
     nl_sha = (\<lambda>b. ''#'' @ b),
     nl_metrics = \<lparr>nm_cpu_usage_percent = None, nm_memory_total_bytes = None, nm_memory_used_bytes = None,
       nm_disk_total_bytes = None, nm_disk_used_bytes = None\<rparr>,
     nl_reports = [], nl_now = 100\<rparr>"

definition ex_agent_config :: runtime_config where
  "ex_agent_config = default_effective
     \<lparr>rt_collector_root := Some ''/opt'', rt_collector_enabled := [''smi'']\<rparr>"

theorem only_registered_scripts_run_witness:
  "cl_executed (cycle_collection ex_agent_node ex_agent_config (fetched_registry ex_link ex_agent_config ''tok''))
     = [''d'', ''m'']
   \<and> (\<exists>e \<in> set (collector_registry ex_collector_db). cr_enabled e \<and> cr_id e \<in> set (rt_collector_enabled ex_agent_config))"
proof -
  have x: "cl_executed (cycle_collection ex_agent_node ex_agent_config (fetched_registry ex_link ex_agent_config ''tok''))
      = [''d'', ''m'']" by code_simp
  have f: "fetch_collector_registry (sl_registry ex_link ''tok'') = Inr (list_collector_registry ex_collector_db)"
    by code_simp
  have "rt_collector_mode ex_agent_config \<noteq> ''auto''" by code_simp
  moreover have "''d'' \<in> set (cl_executed (cycle_collection ex_agent_node ex_agent_config
      (fetched_registry ex_link ex_agent_config ''tok'')))" unfolding x by simp
  note only_registered_scripts_run [OF f this]
  ultimately show ?thesis using x by blast
qed

text \<open>C38: What two collector scripts print is turned into GPU rows without loss: every device of the
discovery and every device of the metrics has exactly one row, no row has an empty key, and a memory size
printed as a whole number of mebibytes is reported as exactly that many bytes.\<close>

theorem collected_gpus_are_complete:
  assumes "parse_discovery a = Inr disc" and "parse_metrics b = Inr metrics"
  shows "distinct (map gx_gpu_key (fst (merge_into_gpu_metrics disc metrics name)))
    \<and> gx_gpu_key ` set (fst (merge_into_gpu_metrics disc metrics name))
        = dd_device_key ` set (tsr_rows disc) \<union> ms_device_key ` set (tsr_rows metrics)
    \<and> [] \<notin> gx_gpu_key ` set (fst (merge_into_gpu_metrics disc metrics name))
    \<and> (\<forall>m \<in> set (tsr_rows metrics). \<forall>n. 0 \<le> n \<and> n < 2 ^ 43 \<and> ms_memory_total_mb m = parse_f64 (int_str n)
        \<longrightarrow> (\<exists>g \<in> set (fst (merge_into_gpu_metrics disc metrics name)).
              gx_gpu_key g = ms_device_key m \<and> gx_memory_total_bytes g = Some (n * 1048576)))"
proof -
  let ?gs = "fst (merge_into_gpu_metrics disc metrics name)"
  note dk = discovery_keys [OF assms(1)] and mk = metrics_keys [OF assms(2)]
  have keys: "gx_gpu_key ` set ?gs = dd_device_key ` set (tsr_rows disc) \<union> ms_device_key ` set (tsr_rows metrics)"
    using arg_cong [OF merged_keys [of disc metrics name], of set] by auto
  have bytes: "\<exists>g \<in> set ?gs. gx_gpu_key g = ms_device_key m \<and> gx_memory_total_bytes g = Some (n * 1048576)"
    if m: "m \<in> set (tsr_rows metrics)" "0 \<le> n" "n < 2 ^ 43" "ms_memory_total_mb m = parse_f64 (int_str n)" for m n
    using merged_total [OF conjunct1 [OF mk] m(1), of disc name] mib_text_exact [OF m(2,3)] m(4) by auto
  have "[] \<notin> gx_gpu_key ` set ?gs" unfolding keys using dk mk by auto
  with merged_distinct [OF assms] keys bytes show ?thesis by blast
qed

theorem collected_gpus_are_complete_witness:
  "\<exists>disc metrics. parse_discovery ex_discovery = Inr disc \<and> parse_metrics ex_metrics = Inr metrics
     \<and> gx_gpu_key ` set (fst (merge_into_gpu_metrics disc metrics ''smi'')) = {''gpu-a''}"
proof -
  have d: "map_sum id (\<lambda>r. map dd_device_key (tsr_rows r)) (parse_discovery ex_discovery) = Inr [''gpu-a'']"
    by code_simp
  have m: "map_sum id (\<lambda>r. map ms_device_key (tsr_rows r)) (parse_metrics ex_metrics) = Inr [''gpu-a'']"
    by code_simp
  from d obtain disc where disc: "parse_discovery ex_discovery = Inr disc" "map dd_device_key (tsr_rows disc) = [''gpu-a'']"
    by (cases "parse_discovery ex_discovery") auto
  from m obtain mets where mets: "parse_metrics ex_metrics = Inr mets" "map ms_device_key (tsr_rows mets) = [''gpu-a'']"
    by (cases "parse_metrics ex_metrics") auto
  have "dd_device_key ` set (tsr_rows disc) = {''gpu-a''}" "ms_device_key ` set (tsr_rows mets) = {''gpu-a''}"
    using arg_cong [OF disc(2), of set] arg_cong [OF mets(2), of set] by simp_all
  with collected_gpus_are_complete [OF disc(1) mets(1), of "''smi''"] disc(1) mets(1) show ?thesis by auto
qed


definition ex_stat :: "string \<Rightarrow> string" where
  "ex_stat start = ''77 (srv x) S 1 2 3 4 5 6 7 8 9 10 11 12 13 14 15 16 17 18 '' @ start @ '' 20''"

definition ex_host :: "string \<Rightarrow> host" where
  "ex_host start = \<lparr>ho_stat = (\<lambda>pid. if pid = 77 then Some (ex_stat start) else None),
     ho_docker_check = (\<lambda>_. \<lparr>pc_is_running = False, pc_message = ''no container''\<rparr>),
     ho_kill = (\<lambda>_. None), ho_docker_stop = (\<lambda>_. None)\<rparr>"

definition ex_process :: process_record where
  "ex_process = \<lparr>pr_instance_id = ''i1'', pr_process_id = 77, pr_process_start_time = Some 987,
     pr_base_url = None, pr_endpoint_url = None, pr_command = None, pr_log_path = None, pr_started_at = 50,
     pr_container_id = None, pr_container_name = None, pr_deploy_type = None\<rparr>"


text \<open>C40: When a heartbeat carries the reports an agent made from its process store, every instance the
server then counts as starting, running or stopping on that node (and not served by ollama) has a record
in that store whose process or container was found running.\<close>

theorem active_instances_have_processes:
  assumes "record_heartbeat x now hb d = (Inr u, d')" and "distinct (map mi_id (model_instances d))"
    and "hb_managed_instances hb = fst (reports h rs)"
    and "r \<in> set (model_instances d')" and "managed_by (hb_node_id hb) r"
    and "mi_status r \<in> {''starting'', ''running'', ''stopping''}" and "runtime_backend d r \<noteq> Some ''ollama''"
  shows "\<exists>q \<in> set rs. pr_instance_id q = mi_id r \<and> pc_is_running (check_process h q)
    \<and> q \<in> set (snd (reports h rs))"
  using active_is_running [OF assms] by (auto simp: reports_prune)

theorem active_instances_have_processes_witness:
  "\<exists>u d'. record_heartbeat demo_ext 101 (ex_heartbeat (fst (reports (ex_host ''987'') [ex_process])) []) ex_running_db
       = (Inr u, d')
     \<and> map mi_status (model_instances d') = [''running''] \<and> (\<exists>q \<in> set [ex_process]. pr_instance_id q = ''i1'')"
proof -
  let ?rs = "fst (reports (ex_host ''987'') [ex_process])"
  let ?h = "ex_heartbeat ?rs []"
  have "succeeds (record_heartbeat demo_ext 101 ?h ex_running_db)" by code_simp
  then obtain u d' where r: "record_heartbeat demo_ext 101 ?h ex_running_db = (Inr u, d')" by (rule succeedsE)
  have "map (\<lambda>r. (mi_id r, mi_status r, managed_by ''n1'' r)) (model_instances (snd (record_heartbeat demo_ext 101 ?h ex_running_db)))
      = [(''i1'', ''running'', True)]" by code_simp
  then obtain q where q: "model_instances d' = [q]" "mi_id q = ''i1''" "mi_status q = ''running''" "managed_by ''n1'' q"
    unfolding r by (auto simp: map_eq_Cons_conv)
  have b: "map (\<lambda>r. runtime_backend ex_running_db r) (model_instances (snd (record_heartbeat demo_ext 101 ?h ex_running_db)))
      = [Some ''llama_cpp'']" by code_simp
  have nb: "runtime_backend ex_running_db q \<noteq> Some ''ollama''" using b unfolding r by (simp add: q(1))
  have n: "hb_managed_instances ?h = ?rs" "hb_node_id ?h = ''n1''" by (simp_all add: ex_heartbeat_def)
  have "q \<in> set (model_instances d')" "managed_by (hb_node_id ?h) q"
    "mi_status q \<in> {''starting'', ''running'', ''stopping''}" using q n by simp_all
  from active_instances_have_processes [OF r ex_distinct n(1) this nb] q r show ?thesis
    by (intro exI [of _ u] exI [of _ d']) simp
qed

text \<open>A gateway that was started or restarted through the server is local: the node was online, the
health URL targets a loopback host with the path /health, and the agent's own check accepts that URL; the
answer comes from a task that ran on this node and carried the validated values.\<close>

theorem gateway_task_is_local:
  assumes "run_gateway_task x now later tid (map (agent_run x) es) nid kind q d = (Inr r, d')"
    and "tasks_wf d" and "starts_gateway kind"
  shows "node_online d now nid
    \<and> (\<exists>s u. gq_health_url q = Some s \<and> ext_url x s = Some u \<and> url_host u \<in> Some ` set loopback_hosts
         \<and> url_path u = ''/health'' \<and> url_query u = None \<and> validate_health_url x s = None)
    \<and> (\<exists>t p. task_of d' tid = Some t \<and> t_node_id t = nid \<and> t_kind t = kind \<and> t_status t = ''succeeded''
         \<and> t_payload_json t = ext_jprint x p \<and> gateway_response_from_row x t = Inr r
         \<and> (\<forall>(k, v) \<in> set (gateway_fields q). get_str p k = v \<and> v \<noteq> None))"
proof -
  from run_gateway_Inr [OF assms(1)] have on: "node_online d now nid" and
    v: "validate_gateway_request x kind q = None" by blast+
  note f = validated_start [OF v assms(3)]
  from f obtain s where s: "gq_health_url q = Some s" by (auto simp: validate_required_url_None)
  have agree: "validate_health_url x s = None"
    using conjunct2 [OF f] unfolding s health_url_agree [of x s "''health_url''"] .
  have url: "\<exists>u. ext_url x s = Some u \<and> url_host u \<in> Some ` set loopback_hosts \<and> url_path u = ''/health'' \<and> url_query u = None"
    using conjunct2 [OF f] unfolding s validate_required_url_None by blast
  have fields: "\<forall>(k, w) \<in> set (gateway_fields q). get_str (gateway_payload kind q) k = w \<and> w \<noteq> None"
    using gateway_payload_members [OF assms(3)] conjunct1 [OF f] by fastforce
  from run_gateway_task_row [OF assms(1,2)] fields on url agree s show ?thesis by blast
qed

definition ex_gateway_request :: gateway_request where
  "ex_gateway_request = \<lparr>gq_binary_path = Some ''/bin/gw'', gq_config_path = Some ''/etc/gw'',
     gq_work_dir = Some ''/var/gw'', gq_log_path = Some ''/var/gw/lightai-gateway.log'', gq_state_path = None,
     gq_health_url = Some ''http://127.0.0.1:1/health'', gq_max_bytes = None\<rparr>"

theorem gateway_task_is_local_witness:
  "\<exists>r d'. run_gateway_task demo_ext 96 106 ''g1'' (map (agent_run demo_ext)
        [AgentReports 97 ''g1'' (ex_result ''succeeded'' [(''gateway_status'', JStr ''running''), (''message'', JStr ''ok'')])])
        ''n1'' ''start_gateway'' ex_gateway_request ex_db = (Inr r, d')
     \<and> node_online ex_db 96 ''n1'' \<and> (\<exists>t. task_of d' ''g1'' = Some t \<and> t_status t = ''succeeded'')"
proof -
  let ?r = "run_gateway_task demo_ext 96 106 ''g1'' (map (agent_run demo_ext)
        [AgentReports 97 ''g1'' (ex_result ''succeeded'' [(''gateway_status'', JStr ''running''), (''message'', JStr ''ok'')])])
        ''n1'' ''start_gateway'' ex_gateway_request ex_db"
  have "succeeds ?r" by code_simp
  then obtain r d' where r: "?r = (Inr r, d')" by (rule succeedsE)
  have wf: "tasks_wf ex_db" and k: "starts_gateway ''start_gateway''" by code_simp+
  from gateway_task_is_local [OF r wf k] have on: "node_online ex_db 96 ''n1''"
    and "\<exists>t. task_of d' ''g1'' = Some t \<and> t_status t = ''succeeded''" by blast+
  then obtain t where t: "task_of d' ''g1'' = Some t" "t_status t = ''succeeded''" by blast
  show ?thesis by (intro exI conjI) (rule r on t)+
qed

text \<open>An agent runs one gateway: while the process that a start has spawned is alive with its start
time, a further start spawns nothing, reports the same process and keeps the state.\<close>

theorem gateway_starts_once:
  assumes "agent_start_gateway x g now s st = (resp, st', effects)" and "effects \<noteq> []"
    and "gr_gateway_status resp = ''running''" and "gr_process_id resp = Some pid"
    and "process_start_time (gh_host g2) pid \<noteq> None"
    and "process_start_time (gh_host_after g) pid \<noteq> None \<longrightarrow>
      process_start_time (gh_host g2) pid = process_start_time (gh_host_after g) pid"
    and "validate_gateway_spec x s2 = None"
  shows "\<exists>resp2. agent_start_gateway x g2 now2 s2 st' = (resp2, st', []) \<and> gr_process_id resp2 = Some pid"
  using assms by (rule second_start)

definition ex_gateway_spec :: gateway_spec where
  "ex_gateway_spec = \<lparr>gs_binary_path = ''/bin/gw'', gs_config_path = ''/etc/gw'', gs_work_dir = ''/var/gw'',
     gs_log_path = ''/var/gw/lightai-gateway.log'', gs_state_path = ''/var/gw/state.json'',
     gs_health_url = ''http://127.0.0.1:1/health''\<rparr>"

definition ex_gateway_host :: gateway_host where
  "ex_gateway_host = \<lparr>gh_host = ex_host ''987'', gh_host_after = ex_host ''987'', gh_prepare = (\<lambda>_. None),
     gh_open_log = None, gh_spawn = Inr (Some 77), gh_save = None, gh_remove = True,
     gh_http = (\<lambda>_. Replied 200 ''200 OK''), gh_read_log = (\<lambda>_. None)\<rparr>"

theorem gateway_starts_once_witness:
  "\<exists>resp st' effects resp2. agent_start_gateway demo_ext ex_gateway_host 100 ex_gateway_spec (Inr None) = (resp, st', effects)
     \<and> effects \<noteq> [] \<and> agent_start_gateway demo_ext ex_gateway_host 200 ex_gateway_spec st' = (resp2, st', [])
     \<and> gr_process_id resp2 = Some 77"
proof -
  let ?r = "agent_start_gateway demo_ext ex_gateway_host 100 ex_gateway_spec (Inr None)"
  obtain resp st' effects where r: "?r = (resp, st', effects)" by (cases ?r)
  have "gr_gateway_status (fst ?r) = ''running''" "gr_process_id (fst ?r) = Some 77" "snd (snd ?r) \<noteq> []" by code_simp+
  then have s: "effects \<noteq> []" "gr_gateway_status resp = ''running''" "gr_process_id resp = Some 77" unfolding r by simp_all
  have p: "process_start_time (gh_host ex_gateway_host) 77 \<noteq> None"
    "process_start_time (gh_host_after ex_gateway_host) 77 \<noteq> None \<longrightarrow>
       process_start_time (gh_host ex_gateway_host) 77 = process_start_time (gh_host_after ex_gateway_host) 77"
    by code_simp (simp add: ex_gateway_host_def)
  have v: "validate_gateway_spec demo_ext ex_gateway_spec = None" by code_simp
  from gateway_starts_once [OF r s p v, of 200] r s(1) show ?thesis by blast
qed

text \<open>The configuration of an agent never goes back: over any number of heartbeat cycles, whatever the
servers answer, the version in force does not decrease, and the collector settings of the agent's own
file stay; a configuration that is applied is what the next heartbeat reports.\<close>

theorem config_never_goes_back:
  "rt_config_version (fst s) \<le> rt_config_version (fst (cycles ls req s))
   \<and> rt_collector_disabled (fst (cycles ls req s)) = rt_collector_disabled (fst s)
   \<and> rt_collector_enabled (fst (cycles ls req s)) = rt_collector_enabled (fst s)
   \<and> (\<forall>r c. rt_config_version r \<le> ac_config_version c \<and> ac_task_poll_interval_secs c = 15
        \<and> ac_config_refresh_interval_secs c = 60 \<longrightarrow> to_agent_config (apply_server_config (Some c) r) = c)"
  using cycles_version cycles_local applied_is_reported by blast

theorem config_never_goes_back_witness:
  "to_agent_config (apply_server_config (Some agent_config_default) default_effective) = agent_config_default
   \<and> rt_config_version default_effective
       \<le> rt_config_version (fst (cycles [(ex_link, ex_agent_node)] ex_register (default_effective, None)))"
proof -
  have "rt_config_version default_effective \<le> ac_config_version agent_config_default"
    "ac_task_poll_interval_secs agent_config_default = 15" "ac_config_refresh_interval_secs agent_config_default = 60"
    by code_simp+
  with config_never_goes_back [of "(default_effective, None)" "[(ex_link, ex_agent_node)]" ex_register] show ?thesis by simp
qed

text \<open>The audit log can be read completely: the pages of any size up to the limit, one after the other,
hold every matching event exactly once and the newest first, no page is longer than the limit; and what
is recorded holds no line with a sensitive word.\<close>

theorem audit_pages_are_complete:
  assumes "0 < n" and "n \<le> 1000"
  shows "concat (map (\<lambda>k. list_audit_events now (q\<lparr>aq_limit := Some (int n), aq_offset := Some (int (k * n))\<rparr>) d) [0..<m])
      = take (m * n) (sort_key (\<lambda>r. - ae_occurred_at r) (filter (audit_matches now q) (audit_events d)))
    \<and> length (list_audit_events now q d) \<le> 1000
    \<and> audit_clean (audit_event now i rec)"
  using audit_pages [OF assms] list_audit_bounded audit_event_clean by blast

definition ex_audit :: audit_record where
  "ex_audit = \<lparr>ar_operation_type = ''login'', ar_target_type = ''user'', ar_target_id = None, ar_node_id = None,
     ar_instance_id = None, ar_result = ''failed'', ar_error_message = Some ''bad password'', ar_detail_json = None,
     ar_actor_type = None, ar_actor_id = None, ar_source = None\<rparr>"

definition ex_audit_query :: audit_query where
  "ex_audit_query = \<lparr>aq_operation_type = None, aq_target_type = None, aq_target_id = None, aq_node_id = None,
     aq_instance_id = None, aq_actor_type = None, aq_result = None, aq_from = None, aq_to = None,
     aq_limit = None, aq_offset = None\<rparr>"

theorem audit_pages_are_complete_witness:
  "concat (map (\<lambda>k. list_audit_events 100 (ex_audit_query\<lparr>aq_limit := Some (int 1), aq_offset := Some (int (k * 1))\<rparr>)
       (ex_db\<lparr>audit_events := [audit_event 50 ''a1'' ex_audit, audit_event 60 ''a2'' ex_audit]\<rparr>)) [0..<2])
     = [audit_event 60 ''a2'' ex_audit, audit_event 50 ''a1'' ex_audit]"
proof -
  let ?d = "ex_db\<lparr>audit_events := [audit_event 50 ''a1'' ex_audit, audit_event 60 ''a2'' ex_audit]\<rparr>"
  have "take (2 * 1) (sort_key (\<lambda>r. - ae_occurred_at r) (filter (audit_matches 100 ex_audit_query) (audit_events ?d)))
      = [audit_event 60 ''a2'' ex_audit, audit_event 50 ''a1'' ex_audit]"
    by (simp add: audit_matches_def column_is_def ex_audit_query_def ex_audit_def audit_event_def)
  moreover have "0 < (1 :: nat)" "(1 :: nat) \<le> 1000" by simp_all
  note audit_pages_are_complete [OF this, of 100 ex_audit_query ?d 2]
  ultimately show ?thesis by simp
qed

section \<open>Further theorems\<close>

text \<open>Disabling an account revokes all of its sessions.\<close>

theorem disabling_revokes_sessions:
  assumes "update_user_with_policy x now salt i r policy d = (Inr a, d')" and "uu_enabled r = Some False"
    and "s \<in> set (user_sessions d)" and "us_user_id s = i"
  shows "token_dead d' (us_token_hash s)"
  using assms by (rule disable_kills_sessions)

theorem disabling_revokes_sessions_witness:
  "\<exists>a d'. update_user_with_policy demo_ext 100 ''z'' ''bob''
       \<lparr>uu_password = None, uu_role = None, uu_enabled = Some False\<rparr> default_password_policy ex_db = (Inr a, d')
     \<and> token_dead d' (us_token_hash ex_session)"
proof -
  let ?q = "\<lparr>uu_password = None, uu_role = None, uu_enabled = Some False\<rparr>"
  have "succeeds (update_user_with_policy demo_ext 100 ''z'' ''bob'' ?q default_password_policy ex_db)" by code_simp
  then obtain a d' where r: "update_user_with_policy demo_ext 100 ''z'' ''bob'' ?q default_password_policy ex_db = (Inr a, d')"
    by (rule succeedsE)
  have "uu_enabled ?q = Some False" "ex_session \<in> set (user_sessions ex_db)" "us_user_id ex_session = ''bob''"
    by (simp_all add: ex_db_def ex_session_def)
  from disabling_revokes_sessions [OF r this] r show ?thesis by blast
qed

text \<open>The initial set-up works on an empty user table only: then it leaves exactly one account, an
enabled administrator; when there is an account already it fails and changes nothing.\<close>

theorem setup_only_once:
  "(user_count d \<noteq> 0 \<longrightarrow> (\<exists>e. setup_initial_admin x now i salt name pw policy d = (Inl e, d)))
   \<and> (\<forall>v d'. setup_initial_admin x now i salt name pw policy d = (Inr v, d')
        \<longrightarrow> users d = [] \<and> has_admin d' \<and> user_count d' = 1)"
proof -
  have "\<exists>e. setup_initial_admin x now i salt name pw policy d = (Inl e, d)" if "user_count d \<noteq> 0"
    using setup_twice [OF that, of x now i salt name pw policy]
    by (cases "setup_initial_admin x now i salt name pw policy d"; cases "fst (setup_initial_admin x now i salt name pw policy d)")
      auto
  then show ?thesis using setup_Inr [of x now i salt name pw policy d] by blast
qed

theorem setup_only_once_witness:
  "(\<exists>e. setup_initial_admin demo_ext 100 ''u9'' ''s'' ''eve'' ''LongEnough123'' default_password_policy ex_db = (Inl e, ex_db))
   \<and> (\<exists>v d'. setup_initial_admin demo_ext 100 ''u9'' ''s'' ''eve'' ''LongEnough123'' default_password_policy empty_db = (Inr v, d')
        \<and> has_admin d')"
proof -
  have n: "user_count ex_db \<noteq> 0" by (simp add: user_count_def ex_db_def)
  let ?r = "setup_initial_admin demo_ext 100 ''u9'' ''s'' ''eve'' ''LongEnough123'' default_password_policy empty_db"
  have "succeeds ?r" by code_simp
  then obtain v d' where r: "?r = (Inr v, d')" by (rule succeedsE)
  from setup_only_once [of ex_db demo_ext 100 "''u9''" "''s''" "''eve''" "''LongEnough123''" default_password_policy] n
  have "\<exists>e. setup_initial_admin demo_ext 100 ''u9'' ''s'' ''eve'' ''LongEnough123'' default_password_policy ex_db = (Inl e, ex_db)"
    by blast
  moreover from setup_only_once [of empty_db demo_ext 100 "''u9''" "''s''" "''eve''" "''LongEnough123''" default_password_policy] r
  have "has_admin d'" by blast
  ultimately show ?thesis using r by blast
qed

text \<open>The effective role of a user is the user's own role or the role of one of the user's enabled
groups, and none of these ranks higher.\<close>

theorem effective_role_is_maximum:
  "au_effective_role (enrich_effective_role d u) \<in> insert (au_role u) (set (group_roles d (au_id u)))
   \<and> (\<forall>r \<in> insert (au_role u) (set (group_roles d (au_id u))).
        role_rank r \<le> role_rank (au_effective_role (enrich_effective_role d u)))"
  using fold_higher_role [of "group_roles d (au_id u)" "au_role u"] by (simp add: enrich_effective_role_def)

theorem effective_role_is_maximum_witness:
  "role_rank ''viewer'' \<le> role_rank (au_effective_role (enrich_effective_role ex_db (user_from_row (ex_user ''bob'' ''viewer''))))"
  using effective_role_is_maximum [of ex_db "user_from_row (ex_user ''bob'' ''viewer'')"]
  by (simp add: user_from_row_def ex_user_def)

text \<open>A registration whose name is used by another host, or whose host is used under another name,
is refused and changes nothing.\<close>

theorem registration_conflict_is_refused:
  assumes "n \<in> set (nodes d)" and "(n_name n = rg_name r) \<noteq> (n_hostname n = rg_hostname r)"
  shows "\<exists>e. try_register x now fresh token r d = (Inl e, d)"
proof -
  have "name_conflict r d" using assms by (auto simp: name_conflict_def)
  then show ?thesis by (rule try_register_conflict)
qed

theorem registration_conflict_is_refused_witness:
  "\<exists>e. try_register demo_ext 100 ''n2'' ''tk'' (ex_register\<lparr>rg_hostname := ''other''\<rparr>) ex_db = (Inl e, ex_db)"
proof -
  have "ex_node \<in> set (nodes ex_db)" by (simp add: ex_db_def)
  moreover have "(n_name ex_node = rg_name (ex_register\<lparr>rg_hostname := ''other''\<rparr>))
      \<noteq> (n_hostname ex_node = rg_hostname (ex_register\<lparr>rg_hostname := ''other''\<rparr>))"
    by (simp add: ex_node_def ex_register_def)
  ultimately show ?thesis by (rule registration_conflict_is_refused)
qed

text \<open>A query of a node's metric samples returns exactly the stored samples of that node in the
asked range, each as often as it is stored, ordered by time, and the reported actual range is tight.\<close>

theorem metric_samples_are_exact:
  "mset (sr_samples (get_node_metric_samples d nid since until)) =
     {#s \<in># mset (node_metric_samples d). nms_node_id s = nid \<and> since \<le> nms_sampled_at s \<and> nms_sampled_at s \<le> until#}
   \<and> sorted (map nms_sampled_at (sr_samples (get_node_metric_samples d nid since until)))
   \<and> sr_sample_count (get_node_metric_samples d nid since until)
       = length (sr_samples (get_node_metric_samples d nid since until))
   \<and> (sr_samples (get_node_metric_samples d nid since until) \<noteq> [] \<longrightarrow>
        sr_actual_from (get_node_metric_samples d nid since until)
          = Some (nms_sampled_at (hd (sr_samples (get_node_metric_samples d nid since until))))
        \<and> sr_actual_to (get_node_metric_samples d nid since until)
          = Some (nms_sampled_at (last (sr_samples (get_node_metric_samples d nid since until)))))"
proof -
  let ?r = "get_node_metric_samples d nid since until"
  have s: "sr_samples ?r = sort_key nms_sampled_at (filter (\<lambda>s. nms_node_id s = nid \<and> since \<le> nms_sampled_at s
      \<and> nms_sampled_at s \<le> until) (node_metric_samples d))"
    by (simp add: get_node_metric_samples_def samples_response_def)
  have rng: "(sr_actual_from ?r, sr_actual_to ?r) = actual_range (map nms_sampled_at (sr_samples ?r))"
    by (simp add: get_node_metric_samples_def samples_response_def)
  have "sorted (map nms_sampled_at (sr_samples ?r))" unfolding s by simp
  moreover have "sr_sample_count ?r = length (sr_samples ?r)"
    by (simp add: get_node_metric_samples_def samples_response_def)
  moreover have "mset (sr_samples ?r) = {#s \<in># mset (node_metric_samples d). nms_node_id s = nid
      \<and> since \<le> nms_sampled_at s \<and> nms_sampled_at s \<le> until#}" unfolding s by (simp add: mset_filter)
  moreover have "sr_actual_from ?r = Some (nms_sampled_at (hd (sr_samples ?r)))
      \<and> sr_actual_to ?r = Some (nms_sampled_at (last (sr_samples ?r)))" if "sr_samples ?r \<noteq> []"
    using rng actual_range_sorted [OF calculation(1)] that by (simp add: hd_map last_map)
  ultimately show ?thesis by blast
qed

text \<open>The retention run deletes exactly the samples older than the retention period and reports how
many it deleted; every other sample stays.\<close>

theorem retention_keeps_recent_samples:
  assumes "cleanup_historical_metrics now days d = (n, d')"
  shows "node_metric_samples d' = filter (\<lambda>s. now - int days * 86400 \<le> nms_sampled_at s) (node_metric_samples d)
    \<and> gpu_metric_samples d' = filter (\<lambda>s. now - int days * 86400 \<le> gms_sampled_at s) (gpu_metric_samples d)
    \<and> n + length (node_metric_samples d') + length (gpu_metric_samples d')
          = length (node_metric_samples d) + length (gpu_metric_samples d)"
  using cleanup_keeps_recent [OF assms] by blast

definition ex_sample :: "int \<Rightarrow> node_sample_row" where
  "ex_sample at = \<lparr>nms_node_id = ''n1'', nms_sampled_at = at, nms_cpu_usage_percent = None,
     nms_memory_total_bytes = None, nms_memory_used_bytes = None, nms_disk_total_bytes = None,
     nms_disk_used_bytes = None\<rparr>"

definition ex_samples_db :: db where
  "ex_samples_db = ex_db\<lparr>node_metric_samples := [ex_sample 90000, ex_sample 10, ex_sample 100000]\<rparr>"

theorem metric_samples_are_exact_witness:
  "sr_samples (get_node_metric_samples ex_samples_db ''n1'' 0 95000) \<noteq> []
   \<and> sr_actual_to (get_node_metric_samples ex_samples_db ''n1'' 0 95000) = Some 90000"
proof -
  let ?s = "sr_samples (get_node_metric_samples ex_samples_db ''n1'' 0 95000)"
  have "map nms_sampled_at ?s = [10, 90000]" by code_simp
  then have n: "?s \<noteq> []" and l: "last (map nms_sampled_at ?s) = 90000" by auto
  from metric_samples_are_exact [of ex_samples_db "''n1''" 0 95000] n
  have "sr_actual_to (get_node_metric_samples ex_samples_db ''n1'' 0 95000) = Some (nms_sampled_at (last ?s))" by blast
  with n l show ?thesis by (simp add: last_map)
qed

theorem retention_keeps_recent_samples_witness:
  "\<exists>n d'. cleanup_historical_metrics 100001 1 ex_samples_db = (n, d') \<and> length (node_metric_samples d') = 2"
proof -
  obtain n d' where r: "cleanup_historical_metrics 100001 1 ex_samples_db = (n, d')" by (rule prod.exhaust)
  have "length (filter (\<lambda>s. 100001 - int 1 * 86400 \<le> nms_sampled_at s) (node_metric_samples ex_samples_db)) = 2"
    by code_simp
  with retention_keeps_recent_samples [OF r] r show ?thesis by simp
qed

end
